(* ===== verification/GG_Prelude.thy ===== *)
theory GG_Prelude
  imports Main "HOL-Library.Word" "HOL-Library.Char_ord" "HOL-Library.List_Lexorder"
    "HOL-Library.Sublist"
begin

text \<open>
  Shared vocabulary of the development: Go's time and duration arithmetic, the
  string functions of Go's standard library that the sources use, decimal integers,
  first-error guard chains, and the generic lemmas on them. Strings are byte
  sequences (\<^typ>\<open>string\<close>); case folding is the ASCII one.
\<close>

named_theorems go_time \<open>unfolding rules for Go's time and duration arithmetic\<close>
named_theorems go_string \<open>facts about the string functions\<close>
named_theorems guard_simps \<open>facts about guard chains\<close>

section \<open>64-bit integers, times and durations\<close>

definition int64_min :: int where "int64_min = - (2 ^ 63)"
definition int64_max :: int where "int64_max = 2 ^ 63 - 1"

definition in_int64 :: "int \<Rightarrow> bool" where
  "in_int64 x \<longleftrightarrow> int64_min \<le> x \<and> x \<le> int64_max"

text \<open>Two's complement wrap-around of a signed 64-bit result.\<close>

definition wrap64 :: "int \<Rightarrow> int" where
  "wrap64 x = (x + 2 ^ 63) mod 2 ^ 64 - 2 ^ 63"

text \<open>Saturation, as \<open>time.Time.Sub\<close> does at the ends of \<open>time.Duration\<close>.\<close>

definition sat64 :: "int \<Rightarrow> int" where
  "sat64 x = max int64_min (min int64_max x)"

lemma wrap64_id: "in_int64 x \<Longrightarrow> wrap64 x = x"
  by (simp add: wrap64_def in_int64_def int64_min_def int64_max_def)

lemma wrap64_in_range: "in_int64 (wrap64 x)"
proof -
  have "0 \<le> (x + 2 ^ 63) mod 2 ^ 64" "(x + 2 ^ 63) mod 2 ^ 64 < 2 ^ 64"
    by simp_all
  then show ?thesis
    by (simp add: wrap64_def in_int64_def int64_min_def int64_max_def)
qed

lemma sat64_id: "in_int64 x \<Longrightarrow> sat64 x = x"
  by (simp add: sat64_def in_int64_def)

lemma sat64_mono: "x \<le> y \<Longrightarrow> sat64 x \<le> sat64 y"
  by (simp add: sat64_def)

lemma sat64_ge_iff: "in_int64 b \<Longrightarrow> b \<noteq> int64_min \<Longrightarrow> b \<le> sat64 x \<longleftrightarrow> b \<le> x"
  by (auto simp: sat64_def in_int64_def int64_max_def int64_min_def)

lemma sat64_less_iff: "in_int64 b \<Longrightarrow> b \<noteq> int64_min \<Longrightarrow> sat64 x < b \<longleftrightarrow> x < b"
  by (auto simp: sat64_def in_int64_def int64_max_def int64_min_def)

lemma sat64_pos_iff: "0 < sat64 x \<longleftrightarrow> 0 < x"
  by (auto simp: sat64_def int64_max_def int64_min_def)

text \<open>
  A \<open>time.Time\<close> is the number of nanoseconds since Go's zero time (1 January of year 1),
  so \<open>IsZero\<close> is equality with 0. A \<open>time.Duration\<close> is a number of nanoseconds.
\<close>

type_synonym gotime = int
type_synonym duration = int

definition unix_epoch :: gotime where
  "unix_epoch = 62135596800 * 10 ^ 9"

definition is_zero_time :: "gotime \<Rightarrow> bool" where
  "is_zero_time t \<longleftrightarrow> t = 0"

definition time_sub :: "gotime \<Rightarrow> gotime \<Rightarrow> duration" where
  "time_sub t u = sat64 (t - u)"

definition unix_nano :: "gotime \<Rightarrow> int" where
  "unix_nano t = wrap64 (t - unix_epoch)"

definition time_unix :: "int \<Rightarrow> gotime" where
  "time_unix ns = ns + unix_epoch"

definition second :: duration where "second = 10 ^ 9"
definition minute :: duration where "minute = 60 * second"
definition hour :: duration where "hour = 60 * minute"

lemmas duration_defs = second_def minute_def hour_def

lemma unix_nano_time_unix [simp]: "in_int64 ns \<Longrightarrow> unix_nano (time_unix ns) = ns"
  by (simp add: unix_nano_def time_unix_def wrap64_id)

lemma time_sub_ge_iff [go_time]:
  "in_int64 d \<Longrightarrow> d \<noteq> int64_min \<Longrightarrow> d \<le> time_sub t u \<longleftrightarrow> u + d \<le> t"
  by (auto simp: time_sub_def sat64_ge_iff)

lemma time_sub_less_iff [go_time]:
  "in_int64 d \<Longrightarrow> d \<noteq> int64_min \<Longrightarrow> time_sub t u < d \<longleftrightarrow> t < u + d"
  by (auto simp: time_sub_def sat64_less_iff)

lemma time_sub_pos_iff [go_time]: "0 < time_sub t u \<longleftrightarrow> u < t"
  by (simp add: time_sub_def sat64_pos_iff)

lemma time_sub_self [simp]: "time_sub t t = 0"
  by (simp add: time_sub_def sat64_def int64_min_def int64_max_def)

section \<open>Guard chains\<close>

text \<open>
  A sequence of \<open>if cond { return err }\<close> statements: the first guard that holds
  determines the error, and \<^const>\<open>None\<close> means that every guard was passed.
\<close>

fun first_failure :: "(bool \<times> 'e) list \<Rightarrow> 'e option" where
  "first_failure [] = None"
| "first_failure ((bad, e) # gs) = (if bad then Some e else first_failure gs)"

text \<open>Two consecutive checks, and a check applied to each element of a list in order.\<close>

definition or_else :: "'e option \<Rightarrow> 'e option \<Rightarrow> 'e option" where
  "or_else a b = (case a of Some e \<Rightarrow> Some e | None \<Rightarrow> b)"

fun first_some :: "('a \<Rightarrow> 'e option) \<Rightarrow> 'a list \<Rightarrow> 'e option" where
  "first_some f [] = None"
| "first_some f (x # xs) = or_else (f x) (first_some f xs)"

lemma first_failure_None [guard_simps]:
  "first_failure gs = None \<longleftrightarrow> (\<forall>g \<in> set gs. \<not> fst g)"
  by (induction gs rule: first_failure.induct) auto

lemma first_failure_Cons_None [guard_simps]:
  "first_failure ((bad, e) # gs) = None \<longleftrightarrow> \<not> bad \<and> first_failure gs = None"
  by simp

declare first_failure.simps(2) [simp del]

lemma first_failure_append [guard_simps]:
  "first_failure (gs @ hs) = or_else (first_failure gs) (first_failure hs)"
  by (induction gs rule: first_failure.induct) (auto simp: or_else_def first_failure.simps)

lemma or_else_None [guard_simps]: "or_else a b = None \<longleftrightarrow> a = None \<and> b = None"
  by (auto simp: or_else_def split: option.splits)

lemma first_some_None [guard_simps]: "first_some f xs = None \<longleftrightarrow> (\<forall>x \<in> set xs. f x = None)"
  by (induction xs) (auto simp: guard_simps)

section \<open>Strings\<close>

definition lower_char :: "char \<Rightarrow> char" where
  "lower_char c = (if 65 \<le> (of_char c :: nat) \<and> (of_char c :: nat) \<le> 90
                   then char_of ((of_char c :: nat) + 32) else c)"

definition to_lower :: "string \<Rightarrow> string" where
  "to_lower s = List.map lower_char s"

definition has_prefix :: "string \<Rightarrow> string \<Rightarrow> bool" where
  "has_prefix p s \<longleftrightarrow> take (length p) s = p"

definition has_suffix :: "string \<Rightarrow> string \<Rightarrow> bool" where
  "has_suffix p s \<longleftrightarrow> length p \<le> length s \<and> drop (length s - length p) s = p"

fun contains_str :: "string \<Rightarrow> string \<Rightarrow> bool" where
  "contains_str sub [] = (sub = [])"
| "contains_str sub (c # cs) = (has_prefix sub (c # cs) \<or> contains_str sub cs)"

text \<open>\<open>strings.Cut\<close> at a one-byte separator; \<^const>\<open>None\<close> when it does not occur.\<close>

fun cut :: "char \<Rightarrow> string \<Rightarrow> (string \<times> string) option" where
  "cut sep [] = None"
| "cut sep (c # cs) =
     (if c = sep then Some ([], cs)
      else (case cut sep cs of None \<Rightarrow> None | Some (a, b) \<Rightarrow> Some (c # a, b)))"

text \<open>\<open>strings.Split\<close> at a one-byte separator: never empty.\<close>

fun split_on :: "char \<Rightarrow> string \<Rightarrow> string list" where
  "split_on sep [] = [[]]"
| "split_on sep (c # cs) =
     (if c = sep then [] # split_on sep cs
      else (case split_on sep cs of [] \<Rightarrow> [[c]] | w # ws \<Rightarrow> (c # w) # ws))"

text \<open>\<open>strings.FieldsFunc\<close>: maximal runs of bytes that are no separators.\<close>

fun fields_func :: "(char \<Rightarrow> bool) \<Rightarrow> string \<Rightarrow> string \<Rightarrow> string list" where
  "fields_func sep acc [] = (if acc = [] then [] else [rev acc])"
| "fields_func sep acc (c # cs) =
     (if sep c then (if acc = [] then fields_func sep [] cs else rev acc # fields_func sep [] cs)
      else fields_func sep (c # acc) cs)"

definition trim_left :: "(char \<Rightarrow> bool) \<Rightarrow> string \<Rightarrow> string" where
  "trim_left p s = dropWhile p s"

definition trim_both :: "(char \<Rightarrow> bool) \<Rightarrow> string \<Rightarrow> string" where
  "trim_both p s = rev (dropWhile p (rev (dropWhile p s)))"

definition is_space :: "char \<Rightarrow> bool" where
  "is_space c \<longleftrightarrow> (of_char c :: nat) \<in> {9, 10, 11, 12, 13, 32}"

definition trim_space :: "string \<Rightarrow> string" where
  "trim_space s = trim_both is_space s"

text \<open>\<open>strings.LastIndexByte\<close>, as the text after the last occurrence.\<close>

fun after_last :: "char \<Rightarrow> string \<Rightarrow> string option" where
  "after_last sep [] = None"
| "after_last sep (c # cs) =
     (case after_last sep cs of
        Some r \<Rightarrow> Some r
      | None \<Rightarrow> if c = sep then Some cs else None)"

text \<open>\<open>path.Base\<close> (on Unix also \<open>filepath.Base\<close>).\<close>

definition path_base :: "string \<Rightarrow> string" where
  "path_base s =
     (if s = [] then ''.''
      else let t = rev (dropWhile (\<lambda>c. c = CHR ''/'') (rev s)) in
        (let b = (case after_last (CHR ''/'') t of None \<Rightarrow> t | Some r \<Rightarrow> r) in
         if b = [] then ''/'' else b))"

lemma has_prefix_iff [go_string]: "has_prefix p s \<longleftrightarrow> prefix p s"
  by (metis has_prefix_def append_eq_conv_conj prefix_def take_is_prefix)

lemma contains_str_iff [go_string]: "contains_str p s \<longleftrightarrow> (\<exists>a b. s = a @ p @ b)"
proof (induction s)
  case Nil
  then show ?case by auto
next
  case (Cons c cs)
  have "(\<exists>a b. c # cs = a @ p @ b) \<longleftrightarrow> prefix p (c # cs) \<or> (\<exists>a b. cs = a @ p @ b)"
    unfolding prefix_def by (auto simp: Cons_eq_append_conv)
  then show ?case using Cons by (simp add: has_prefix_iff)
qed

lemma cut_Some [go_string]:
  "cut sep s = Some (a, b) \<longleftrightarrow> s = a @ sep # b \<and> sep \<notin> set a"
proof (induction s arbitrary: a)
  case Nil
  then show ?case by simp
next
  case (Cons c cs)
  show ?case
  proof (cases "c = sep")
    case True
    then show ?thesis by (cases a) auto
  next
    case False
    show ?thesis
    proof (cases a)
      case Nil
      with False show ?thesis by (simp split: option.splits)
    next
      case (Cons d ds)
      with False Cons.IH [of ds] show ?thesis by (auto split: option.splits)
    qed
  qed
qed

lemma cut_None [go_string]: "cut sep s = None \<longleftrightarrow> sep \<notin> set s"
  by (induction s) (auto split: option.splits)

lemma cut_append [simp]: "sep \<notin> set a \<Longrightarrow> cut sep (a @ sep # b) = Some (a, b)"
  by (simp add: cut_Some)

lemma split_on_not_Nil [simp]: "split_on sep s \<noteq> []"
  by (cases s) (auto split: list.splits)

lemma split_on_plain: "c \<notin> set s \<Longrightarrow> split_on c s = [s]"
  by (induction s) (auto split: list.splits)

lemma split_on_append: "c \<notin> set s \<Longrightarrow> split_on c (s @ c # t) = s # split_on c t"
  by (induction s) (auto split: list.splits)

lemma set_map_filter: "set (List.map_filter f xs) = {y. \<exists>x \<in> set xs. f x = Some y}"
  by (induction xs) (auto simp: map_filter_simps split: option.splits)

lemma after_last_Some:
  "after_last sep s = Some r \<Longrightarrow> (\<exists>a. s = a @ sep # r) \<and> sep \<notin> set r"
proof (induction s arbitrary: r)
  case (Cons c cs)
  have none: "after_last sep ys = None \<Longrightarrow> sep \<notin> set ys" for ys
    by (induction ys) (auto split: option.splits if_splits)
  show ?case
  proof (cases "after_last sep cs")
    case None
    with Cons.prems show ?thesis by (auto dest: none split: if_splits)
  next
    case (Some q)
    with Cons.prems have "r = q" by simp
    moreover from Cons.IH [OF Some] obtain a where "cs = a @ sep # q" and "sep \<notin> set q" by blast
    moreover from \<open>cs = a @ sep # q\<close> have "c # cs = (c # a) @ sep # q" by simp
    ultimately show ?thesis by blast
  qed
qed simp

lemma length_to_lower [simp]: "length (to_lower s) = length s"
  by (simp add: to_lower_def)

section \<open>Decimal integers\<close>

definition digit_char :: "nat \<Rightarrow> char" where
  "digit_char d = char_of (48 + d)"

definition is_digit :: "char \<Rightarrow> bool" where
  "is_digit c \<longleftrightarrow> 48 \<le> (of_char c :: nat) \<and> (of_char c :: nat) \<le> 57"

definition digit_val :: "char \<Rightarrow> nat" where
  "digit_val c = of_char c - 48"

fun show_nat :: "nat \<Rightarrow> string" where
  "show_nat n = (if n < 10 then [digit_char n] else show_nat (n div 10) @ [digit_char (n mod 10)])"

declare show_nat.simps [simp del]

text \<open>\<open>strconv.Itoa\<close> and \<open>strconv.FormatInt(_, 10)\<close>.\<close>

definition show_int :: "int \<Rightarrow> string" where
  "show_int i = (if i < 0 then CHR ''-'' # show_nat (nat (- i)) else show_nat (nat i))"

fun digits_val :: "nat \<Rightarrow> string \<Rightarrow> nat" where
  "digits_val acc [] = acc"
| "digits_val acc (c # cs) = digits_val (10 * acc + digit_val c) cs"

text \<open>
  \<open>strconv.ParseInt(s, 10, 64)\<close> and, on a 64-bit platform, \<open>strconv.Atoi\<close>: an optional
  sign, at least one decimal digit, nothing else, and a value in range.
\<close>

definition parse_int64 :: "string \<Rightarrow> int option" where
  "parse_int64 s =
     (let (neg, ds) = (case s of
          [] \<Rightarrow> (False, [])
        | c # cs \<Rightarrow> if c = CHR ''-'' then (True, cs)
                     else if c = CHR ''+'' then (False, cs) else (False, s)) in
      if ds = [] \<or> \<not> list_all is_digit ds then None
      else let v = (if neg then - int (digits_val 0 ds) else int (digits_val 0 ds)) in
        if in_int64 v then Some v else None)"

lemma of_char_digit_char [simp]: "d < 10 \<Longrightarrow> of_char (digit_char d) = (48 + d :: nat)"
  by (simp add: digit_char_def)

lemma is_digit_digit_char [simp]: "d < 10 \<Longrightarrow> is_digit (digit_char d)"
  by (simp add: is_digit_def)

lemma digit_val_digit_char [simp]: "d < 10 \<Longrightarrow> digit_val (digit_char d) = d"
  by (simp add: digit_val_def)

lemma digits_val_append [simp]: "digits_val a (xs @ ys) = digits_val (digits_val a xs) ys"
  by (induction xs arbitrary: a) auto

lemma show_nat_digits: "list_all is_digit (show_nat n)"
proof (induction n rule: show_nat.induct)
  case (1 n)
  then show ?case by (subst show_nat.simps) auto
qed

lemma show_nat_not_Nil [simp]: "show_nat n \<noteq> []"
  by (subst show_nat.simps) auto

lemma digits_val_show_nat [simp]: "digits_val 0 (show_nat n) = n"
proof (induction n rule: show_nat.induct)
  case (1 n)
  then show ?case by (subst show_nat.simps) auto
qed

lemma digit_not_special:
  "is_digit c \<Longrightarrow> c \<noteq> CHR ''-'' \<and> c \<noteq> CHR ''+'' \<and> c \<noteq> CHR '':'' \<and> c \<noteq> CHR ''|''"
  by (auto simp: is_digit_def)

lemma parse_show_int [go_string]:
  assumes "in_int64 i"
  shows "parse_int64 (show_int i) = Some i"
proof (cases "i < 0")
  case True
  then show ?thesis using assms show_nat_digits
    by (simp add: parse_int64_def show_int_def)
next
  case False
  obtain c cs where c: "show_nat (nat i) = c # cs"
    by (cases "show_nat (nat i)") auto
  with show_nat_digits [of "nat i"] have "is_digit c" by simp
  moreover from c have "digits_val 0 (c # cs) = nat i"
    by (metis digits_val_show_nat)
  moreover from c show_nat_digits [of "nat i"] have "list_all is_digit (c # cs)" by simp
  ultimately show ?thesis using False assms c digit_not_special [of c]
    by (simp add: parse_int64_def show_int_def del: digits_val.simps list.pred_inject)
qed

lemma show_int_chars: "c \<in> set (show_int i) \<Longrightarrow> is_digit c \<or> c = CHR ''-''"
  using show_nat_digits by (auto simp: show_int_def list_all_iff split: if_splits)

lemma show_int_no_colon: "CHR '':'' \<notin> set (show_int i)"
  using show_int_chars digit_not_special by fastforce

lemma show_nat_inject [simp]: "show_nat m = show_nat n \<longleftrightarrow> m = n"
  by (metis digits_val_show_nat)

lemma show_int_inject [simp]: "show_int i = show_int j \<longleftrightarrow> i = j"
proof -
  have minus: "CHR ''-'' # s \<noteq> show_nat n" for s n
    using show_nat_digits [of n] by (auto simp: is_digit_def dest!: arg_cong [where f = "list_all is_digit"])
  show ?thesis by (auto simp: show_int_def minus minus [symmetric])
qed

section \<open>Lists\<close>

text \<open>The first repeated value in reading order, as a scan with a set of seen values.\<close>

fun first_duplicate :: "'a list \<Rightarrow> 'a list \<Rightarrow> 'a option" where
  "first_duplicate seen [] = None"
| "first_duplicate seen (x # xs) =
     (if x \<in> set seen then Some x else first_duplicate (x # seen) xs)"

lemma first_duplicate_None:
  "first_duplicate seen xs = None \<longleftrightarrow> distinct xs \<and> set xs \<inter> set seen = {}"
  by (induction seen xs rule: first_duplicate.induct) auto

lemma first_duplicate_Some_in:
  "first_duplicate seen xs = Some x \<Longrightarrow> x \<in> set xs"
  by (induction seen xs rule: first_duplicate.induct) (auto split: if_splits)

end
