(* ===== verification/Process_Model.thy ===== *)
theory Process_Model
  imports GG_Prelude
begin

text \<open>
  The process model (\<open>internal/process/process.go\<close>): PID-reuse-safe keys and their
  string form, one observed process, and the snapshot of the process table with its
  PID index. The lemmas show that keys round-trip through their string form and that
  looking a process up by key never returns a process with another key.
\<close>

named_theorems process_simps \<open>facts about keys, processes and snapshots\<close>

datatype status = StatusUnknown | StatusStarting | StatusRunning | StatusSleeping
  | StatusStopped | StatusZombie

definition no_tty :: string where "no_tty = []"

record key =
  key_pid :: int
  key_start :: int

text \<open>\<open>NewKey\<close>, \<open>Key.UID\<close>, \<open>Key.StartTime\<close>, \<open>Key.Zero\<close>, \<open>ParseKey\<close>.\<close>

definition new_key :: "int \<Rightarrow> gotime \<Rightarrow> key" where
  "new_key pid start = \<lparr>key_pid = pid, key_start = unix_nano start\<rparr>"

definition key_uid :: "key \<Rightarrow> string" where
  "key_uid k = show_int (key_pid k) @ '':'' @ show_int (key_start k)"

definition key_start_time :: "key \<Rightarrow> gotime" where
  "key_start_time k = time_unix (key_start k)"

definition key_zero :: "key \<Rightarrow> bool" where
  "key_zero k \<longleftrightarrow> key_pid k = 0 \<and> key_start k = 0"

datatype key_error = MalformedKey string | MalformedPid string | MalformedStart string

definition parse_key :: "string \<Rightarrow> key_error + key" where
  "parse_key s =
     (case cut (CHR '':'') s of
        None \<Rightarrow> Inl (MalformedKey s)
      | Some (pid_str, start_str) \<Rightarrow>
          (case parse_int64 pid_str of
             None \<Rightarrow> Inl (MalformedPid s)
           | Some pid \<Rightarrow>
               (case parse_int64 start_str of
                  None \<Rightarrow> Inl (MalformedStart s)
                | Some start \<Rightarrow> Inr \<lparr>key_pid = pid, key_start = start\<rparr>)))"

definition key_in_range :: "key \<Rightarrow> bool" where
  "key_in_range k \<longleftrightarrow> in_int64 (key_pid k) \<and> in_int64 (key_start k)"

section \<open>Processes\<close>

record process =
  pr_pid :: int
  pr_ppid :: int
  pr_pgid :: int
  pr_sid :: int
  pr_uid :: "32 word"
  pr_start :: gotime
  pr_comm :: string
  pr_status :: status
  pr_tty :: string
  pr_detailed :: bool
  pr_exec_path :: string
  pr_args :: "string list"
  pr_cwd :: string
  pr_env :: "(string \<times> string) list"
  pr_env_readable :: bool
  pr_cpu_time :: duration
  pr_rss :: "64 word"
  pr_vsz :: "64 word"
  pr_threads :: int

record executable =
  ex_path :: string
  ex_comm :: string

definition proc_key :: "process \<Rightarrow> key" where
  "proc_key p = new_key (pr_pid p) (pr_start p)"

definition has_tty :: "process \<Rightarrow> bool" where
  "has_tty p \<longleftrightarrow> pr_tty p \<noteq> no_tty"

text \<open>\<open>Process.Executable\<close>: \<^const>\<open>None\<close> where the code returns \<open>false\<close>.\<close>

definition proc_executable :: "process \<Rightarrow> executable option" where
  "proc_executable p =
     (if \<not> pr_detailed p \<or> pr_exec_path p = [] \<or> pr_comm p = [] then None
      else Some \<lparr>ex_path = pr_exec_path p, ex_comm = pr_comm p\<rparr>)"

definition proc_name :: "process \<Rightarrow> string" where
  "proc_name p =
     (if pr_exec_path p \<noteq> [] then
        (case after_last (CHR ''/'') (pr_exec_path p) of
           Some rest \<Rightarrow> if rest \<noteq> [] then rest else pr_exec_path p
         | None \<Rightarrow> pr_exec_path p)
      else pr_comm p)"

section \<open>Snapshots\<close>

record snapshot =
  sn_taken :: gotime
  sn_procs :: "process list"
  sn_total :: int
  sn_by_pid :: "int \<Rightarrow> nat option"

text \<open>
  \<open>NewSnapshot\<close>: the loop stores the position of each process under its PID, so that of
  two entries with one PID the later wins.
\<close>

fun index_pids :: "nat \<Rightarrow> process list \<Rightarrow> (int \<Rightarrow> nat option) \<Rightarrow> (int \<Rightarrow> nat option)" where
  "index_pids i [] m = m"
| "index_pids i (p # ps) m = index_pids (Suc i) ps (m(pr_pid p \<mapsto> i))"

definition new_snapshot :: "gotime \<Rightarrow> process list \<Rightarrow> int \<Rightarrow> snapshot" where
  "new_snapshot taken procs cnt =
     \<lparr>sn_taken = taken, sn_procs = procs, sn_total = cnt,
      sn_by_pid = index_pids 0 procs Map.empty\<rparr>"

definition by_pid :: "snapshot \<Rightarrow> int \<Rightarrow> process option" where
  "by_pid s pid =
     (case sn_by_pid s pid of None \<Rightarrow> None | Some i \<Rightarrow> Some (sn_procs s ! i))"

definition by_key :: "snapshot \<Rightarrow> key \<Rightarrow> process option" where
  "by_key s k =
     (case by_pid s (key_pid k) of
        None \<Rightarrow> None
      | Some p \<Rightarrow> if proc_key p \<noteq> k then None else Some p)"

text \<open>The methods accept a nil snapshot: \<^const>\<open>None\<close> is the nil pointer.\<close>

definition by_pid_ptr :: "snapshot option \<Rightarrow> int \<Rightarrow> process option" where
  "by_pid_ptr s pid = (case s of None \<Rightarrow> None | Some s \<Rightarrow> by_pid s pid)"

definition by_key_ptr :: "snapshot option \<Rightarrow> key \<Rightarrow> process option" where
  "by_key_ptr s k = (case s of None \<Rightarrow> None | Some s \<Rightarrow> by_key s k)"

definition snapshot_len :: "snapshot option \<Rightarrow> nat" where
  "snapshot_len s = (case s of None \<Rightarrow> 0 | Some s \<Rightarrow> length (sn_procs s))"

fun count_detailed :: "process list \<Rightarrow> nat \<Rightarrow> nat" where
  "count_detailed [] n = n"
| "count_detailed (p # ps) n = count_detailed ps (if pr_detailed p then Suc n else n)"

definition detailed_count :: "snapshot \<Rightarrow> nat" where
  "detailed_count s = count_detailed (sn_procs s) 0"

text \<open>A snapshot as the code builds it: its index is the one \<open>NewSnapshot\<close> computes.\<close>

definition wf_snapshot :: "snapshot \<Rightarrow> bool" where
  "wf_snapshot s \<longleftrightarrow> sn_by_pid s = index_pids 0 (sn_procs s) Map.empty"

definition distinct_pids :: "snapshot \<Rightarrow> bool" where
  "distinct_pids s \<longleftrightarrow> distinct (List.map pr_pid (sn_procs s))"

section \<open>Lemmas\<close>

lemma parse_key_uid [process_simps]: "key_in_range k \<Longrightarrow> parse_key (key_uid k) = Inr k"
  using show_int_no_colon
  by (simp add: parse_key_def key_uid_def key_in_range_def parse_show_int)

lemma parse_key_range: "parse_key s = Inr k \<Longrightarrow> key_in_range k"
  by (auto simp: parse_key_def parse_int64_def key_in_range_def Let_def
      split: option.splits prod.splits if_splits list.splits)

lemma key_uid_inject [process_simps]: "key_uid j = key_uid k \<longleftrightarrow> j = k"
proof
  assume eq: "key_uid j = key_uid k"
  have "cut (CHR '':'') (key_uid j) = Some (show_int (key_pid j), show_int (key_start j))"
    "cut (CHR '':'') (key_uid k) = Some (show_int (key_pid k), show_int (key_start k))"
    using show_int_no_colon by (simp_all add: key_uid_def)
  with eq show "j = k" by simp
qed simp

lemma proc_key_in_range: "in_int64 (pr_pid p) \<Longrightarrow> key_in_range (proc_key p)"
  by (simp add: proc_key_def new_key_def key_in_range_def unix_nano_def wrap64_in_range)

lemma key_pid_proc_key [simp]: "key_pid (proc_key p) = pr_pid p"
  by (simp add: proc_key_def new_key_def)

lemma index_pids_Some:
  "index_pids i ps m pid = Some j \<Longrightarrow>
     m pid = Some j \<or> (i \<le> j \<and> j < i + length ps \<and> pr_pid (ps ! (j - i)) = pid)"
proof (induction i ps m rule: index_pids.induct)
  case (2 i p ps m)
  then consider "(m(pr_pid p \<mapsto> i)) pid = Some j"
    | "Suc i \<le> j" "j < Suc i + length ps" "pr_pid (ps ! (j - Suc i)) = pid"
    unfolding index_pids.simps by blast
  then show ?case
  proof cases
    case 1
    then show ?thesis by (auto split: if_splits)
  next
    case 2
    then have "j - i = Suc (j - Suc i)" by simp
    with 2 show ?thesis by simp
  qed
qed simp

lemma index_pids_None:
  "index_pids i ps m pid = None \<longleftrightarrow> m pid = None \<and> pid \<notin> pr_pid ` set ps"
proof (induction i ps m rule: index_pids.induct)
  case (2 i p ps m)
  have "index_pids i (p # ps) m pid = None \<longleftrightarrow>
      (m(pr_pid p \<mapsto> i)) pid = None \<and> pid \<notin> pr_pid ` set ps"
    unfolding index_pids.simps by (rule "2.IH")
  then show ?case by auto
qed simp

lemma wf_new_snapshot [simp]: "wf_snapshot (new_snapshot t ps n)"
  by (simp add: wf_snapshot_def new_snapshot_def)

lemma by_pid_Some:
  assumes "wf_snapshot s" and "by_pid s pid = Some p"
  shows "p \<in> set (sn_procs s)" and "pr_pid p = pid"
proof -
  from assms obtain i where i: "index_pids 0 (sn_procs s) Map.empty pid = Some i"
    and p: "p = sn_procs s ! i"
    by (auto simp: by_pid_def wf_snapshot_def split: option.splits)
  from index_pids_Some [OF i] have "i < length (sn_procs s)" "pr_pid (sn_procs s ! i) = pid"
    by auto
  with p show "p \<in> set (sn_procs s)" "pr_pid p = pid" by auto
qed

lemma by_pid_None:
  "wf_snapshot s \<Longrightarrow> by_pid s pid = None \<longleftrightarrow> pid \<notin> pr_pid ` set (sn_procs s)"
  using index_pids_None [of 0 "sn_procs s" Map.empty pid]
  by (cases "index_pids 0 (sn_procs s) Map.empty pid") (simp_all add: by_pid_def wf_snapshot_def)

lemma by_pid_distinct:
  assumes "wf_snapshot s" "distinct_pids s" "p \<in> set (sn_procs s)"
  shows "by_pid s (pr_pid p) = Some p"
proof -
  from assms(1,3) obtain q where q: "by_pid s (pr_pid p) = Some q"
    using by_pid_None [of s "pr_pid p"] by (cases "by_pid s (pr_pid p)") auto
  with assms by_pid_Some [OF assms(1) q] show ?thesis
    by (auto simp: distinct_pids_def distinct_map dest: inj_onD)
qed

lemma by_key_Some:
  assumes "wf_snapshot s" and "by_key s k = Some p"
  shows "p \<in> set (sn_procs s)" and "proc_key p = k"
  using assms by_pid_Some [OF assms(1)] by (auto simp: by_key_def split: option.splits if_splits)

lemma by_key_pid: "by_key s k = Some p \<Longrightarrow> by_pid s (key_pid k) = Some p"
  by (auto simp: by_key_def split: option.splits if_splits)

lemma by_key_distinct:
  "wf_snapshot s \<Longrightarrow> distinct_pids s \<Longrightarrow> p \<in> set (sn_procs s) \<Longrightarrow>
     by_key s (proc_key p) = Some p"
  by (simp add: by_key_def by_pid_distinct)

lemma proc_executable_Some:
  "proc_executable p = Some e \<longleftrightarrow>
     pr_detailed p \<and> pr_exec_path p \<noteq> [] \<and> pr_comm p \<noteq> [] \<and>
     e = \<lparr>ex_path = pr_exec_path p, ex_comm = pr_comm p\<rparr>"
  by (auto simp: proc_executable_def)

lemma count_detailed_filter: "count_detailed ps n = n + length (filter pr_detailed ps)"
  by (induction ps n rule: count_detailed.induct) auto

text \<open>A key survives the round trip through its stored string form: parsing the UID of
  any key whose two parts are 64-bit integers yields exactly that key.\<close>

theorem key_roundtrip:
  assumes "in_int64 (key_pid k)" and "in_int64 (key_start k)"
  shows "parse_key (key_uid k) = Inr k"
  using assms by (simp add: process_simps key_in_range_def)

theorem key_roundtrip_witness:
  "parse_key (key_uid \<lparr>key_pid = 4242, key_start = 1700000000000000000\<rparr>)
     = Inr \<lparr>key_pid = 4242, key_start = 1700000000000000000\<rparr>"
  by (rule key_roundtrip) (simp_all add: in_int64_def int64_min_def int64_max_def)

text \<open>Looking a process up by key is PID-reuse safe and complete: in a snapshot whose
  PIDs are distinct, the lookup returns a process exactly when that process is in the
  snapshot and has precisely that PID and start time.\<close>

theorem by_key_exact:
  assumes "distinct (List.map pr_pid procs)"
  shows "by_key (new_snapshot taken procs cnt) k = Some p
           \<longleftrightarrow> p \<in> set procs \<and> proc_key p = k"
proof -
  let ?s = "new_snapshot taken procs cnt"
  have wf: "wf_snapshot ?s" and ps: "sn_procs ?s = procs" and d: "distinct_pids ?s"
    using assms by (simp_all add: new_snapshot_def distinct_pids_def wf_snapshot_def)
  show ?thesis
    using by_key_Some [OF wf] by_key_distinct [OF wf d] ps by auto
qed

text \<open>A process for concrete inputs: detailed, owned by user 501, without a terminal.\<close>

definition sample_process :: "int \<Rightarrow> int \<Rightarrow> gotime \<Rightarrow> process" where
  "sample_process pid ppid start =
     \<lparr>pr_pid = pid, pr_ppid = ppid, pr_pgid = pid, pr_sid = 0, pr_uid = 501,
      pr_start = start, pr_comm = ''worker'', pr_status = StatusRunning, pr_tty = no_tty,
      pr_detailed = True, pr_exec_path = ''/opt/bin/worker'', pr_args = [''worker''],
      pr_cwd = ''/work'', pr_env = [], pr_env_readable = True, pr_cpu_time = 0, pr_rss = 0,
      pr_vsz = 0, pr_threads = 1\<rparr>"

lemma sample_process_simps [simp]:
  "pr_pid (sample_process pid ppid start) = pid"
  "pr_ppid (sample_process pid ppid start) = ppid"
  "pr_start (sample_process pid ppid start) = start"
  "pr_detailed (sample_process pid ppid start)"
  "pr_uid (sample_process pid ppid start) = 501"
  "proc_key (sample_process pid ppid start) = new_key pid start"
  by (simp_all add: sample_process_def proc_key_def)

theorem by_key_exact_witness:
  "by_key (new_snapshot 90 [sample_process 7 1 50, sample_process 8 7 60] 2) (new_key 8 60)
     = Some (sample_process 8 7 60)"
  by (subst by_key_exact) simp_all

end
