(* ===== verification/Activity.thy ===== *)
theory Activity
  imports Complex_Main Process_Model
begin

text \<open>
  Activity samples and the deltas derived from two of them
  (\<open>internal/process/activity.go\<close>). Byte counters are 64-bit words; the CPU percentage,
  a \<open>float64\<close> in the code, is a rational here (its sign, the only thing the classifier
  looks at, is the same).
\<close>

named_theorems activity_simps \<open>facts about derived activity\<close>

record activity_sample =
  as_key :: key
  as_taken :: gotime
  as_cpu_time :: duration
  as_cpu_known :: bool
  as_disk_read :: "64 word"
  as_disk_written :: "64 word"
  as_io_known :: bool
  as_rss :: "64 word"
  as_open_files :: int
  as_writable_files :: int
  as_files_known :: bool
  as_sockets :: int
  as_connected :: int
  as_recv_queue :: "64 word"
  as_send_queue :: "64 word"
  as_sockets_known :: bool
  as_note :: string

record activity_delta =
  ad_key :: key
  ad_taken :: gotime
  ad_interval :: duration
  ad_baseline_ok :: bool
  ad_cpu_percent :: rat
  ad_cpu_delta :: duration
  ad_cpu_known :: bool
  ad_disk_read :: "64 word"
  ad_disk_written :: "64 word"
  ad_io_known :: bool
  ad_open_files :: int
  ad_writable_files :: int
  ad_files_known :: bool
  ad_sockets :: int
  ad_connected :: int
  ad_recv_queue :: "64 word"
  ad_send_queue :: "64 word"
  ad_network_changed :: bool
  ad_sockets_known :: bool
  ad_note :: string

text \<open>The zero value a missing entry of a Go map of samples yields.\<close>

definition zero_key :: key where "zero_key = \<lparr>key_pid = 0, key_start = 0\<rparr>"

definition zero_sample :: activity_sample where
  "zero_sample = \<lparr>as_key = zero_key, as_taken = 0, as_cpu_time = 0, as_cpu_known = False,
     as_disk_read = 0, as_disk_written = 0, as_io_known = False, as_rss = 0, as_open_files = 0,
     as_writable_files = 0, as_files_known = False, as_sockets = 0, as_connected = 0,
     as_recv_queue = 0, as_send_queue = 0, as_sockets_known = False, as_note = []\<rparr>"

text \<open>The point-in-time fields are copied; everything cumulative starts as unknown.\<close>

definition fresh_delta :: "activity_sample \<Rightarrow> activity_delta" where
  "fresh_delta cur = \<lparr>ad_key = as_key cur, ad_taken = as_taken cur, ad_interval = 0,
     ad_baseline_ok = False, ad_cpu_percent = 0, ad_cpu_delta = 0, ad_cpu_known = False,
     ad_disk_read = 0, ad_disk_written = 0, ad_io_known = False,
     ad_open_files = as_open_files cur, ad_writable_files = as_writable_files cur,
     ad_files_known = as_files_known cur, ad_sockets = as_sockets cur,
     ad_connected = as_connected cur, ad_recv_queue = as_recv_queue cur,
     ad_send_queue = as_send_queue cur, ad_network_changed = False,
     ad_sockets_known = as_sockets_known cur, ad_note = as_note cur\<rparr>"

definition derive_cpu :: "activity_sample \<Rightarrow> activity_sample \<Rightarrow> activity_delta \<Rightarrow> activity_delta" where
  "derive_cpu prev cur d =
     (if as_cpu_known prev \<and> as_cpu_known cur \<and> as_cpu_time prev \<le> as_cpu_time cur then
        (let cpu = wrap64 (as_cpu_time cur - as_cpu_time prev) in
         d\<lparr>ad_cpu_delta := cpu, ad_cpu_percent := 100 * of_int cpu / of_int (ad_interval d),
           ad_cpu_known := True, ad_baseline_ok := True\<rparr>)
      else d)"

definition derive_io :: "activity_sample \<Rightarrow> activity_sample \<Rightarrow> activity_delta \<Rightarrow> activity_delta" where
  "derive_io prev cur d =
     (if as_io_known prev \<and> as_io_known cur \<and> as_disk_read prev \<le> as_disk_read cur
          \<and> as_disk_written prev \<le> as_disk_written cur then
        d\<lparr>ad_disk_read := as_disk_read cur - as_disk_read prev,
          ad_disk_written := as_disk_written cur - as_disk_written prev,
          ad_io_known := True, ad_baseline_ok := True\<rparr>
      else d)"

definition derive_network :: "activity_sample \<Rightarrow> activity_sample \<Rightarrow> activity_delta \<Rightarrow> activity_delta" where
  "derive_network prev cur d =
     (if as_sockets_known prev \<and> as_sockets_known cur then
        d\<lparr>ad_network_changed := as_sockets prev \<noteq> as_sockets cur
             \<or> as_connected prev \<noteq> as_connected cur
             \<or> as_recv_queue prev \<noteq> as_recv_queue cur
             \<or> as_send_queue prev \<noteq> as_send_queue cur\<rparr>
      else d)"

definition derive_activity :: "activity_sample \<Rightarrow> activity_sample \<Rightarrow> activity_delta" where
  "derive_activity prev cur =
     (if as_key prev \<noteq> as_key cur \<or> is_zero_time (as_taken prev) \<or> as_taken cur \<le> as_taken prev
      then fresh_delta cur
      else derive_network prev cur (derive_io prev cur (derive_cpu prev cur
             ((fresh_delta cur)\<lparr>ad_interval := time_sub (as_taken cur) (as_taken prev)\<rparr>))))"

text \<open>\<open>boundedInt64\<close>: an unsigned counter as a signed one, saturating.\<close>

definition bounded_int64 :: "64 word \<Rightarrow> int" where
  "bounded_int64 v = (if int64_max < uint v then int64_max else uint v)"

section \<open>Lemmas\<close>

lemmas derive_defs = derive_cpu_def derive_io_def derive_network_def fresh_delta_def

lemma bounded_int64_range: "0 \<le> bounded_int64 v \<and> bounded_int64 v \<le> int64_max"
  by (simp add: bounded_int64_def int64_max_def)

lemma bounded_int64_pos [activity_simps]: "0 < bounded_int64 v \<longleftrightarrow> v \<noteq> 0"
proof -
  have "uint v = 0 \<longleftrightarrow> v = 0" by (metis uint_0_iff)
  then show ?thesis using uint_ge_0 [of v] by (auto simp: bounded_int64_def int64_max_def less_le)
qed

lemma derive_activity_copies [activity_simps]:
  "ad_key (derive_activity p c) = as_key c"
  "ad_taken (derive_activity p c) = as_taken c"
  "ad_files_known (derive_activity p c) = as_files_known c"
  "ad_sockets_known (derive_activity p c) = as_sockets_known c"
  "ad_writable_files (derive_activity p c) = as_writable_files c"
  "ad_connected (derive_activity p c) = as_connected c"
  by (simp_all add: derive_activity_def derive_defs Let_def)

text \<open>What a known CPU or I/O delta implies about the two samples.\<close>

lemma derive_cpu_known:
  assumes "ad_cpu_known (derive_activity p c)"
  shows "as_key p = as_key c \<and> as_taken p < as_taken c \<and> as_cpu_time p \<le> as_cpu_time c"
    and "ad_cpu_percent (derive_activity p c)
      = 100 * of_int (wrap64 (as_cpu_time c - as_cpu_time p)) / of_int (time_sub (as_taken c) (as_taken p))"
  using assms by (auto simp: derive_activity_def derive_defs Let_def split: if_splits)

lemma derive_io_known:
  assumes "ad_io_known (derive_activity p c)"
  shows "as_disk_read p \<le> as_disk_read c \<and> as_disk_written p \<le> as_disk_written c"
    and "ad_disk_read (derive_activity p c) = as_disk_read c - as_disk_read p"
    and "ad_disk_written (derive_activity p c) = as_disk_written c - as_disk_written p"
  using assms by (auto simp: derive_activity_def derive_defs Let_def split: if_splits)

lemma derive_cpu_percent_pos:
  assumes known: "ad_cpu_known (derive_activity p c)"
    and range: "in_int64 (as_cpu_time c - as_cpu_time p)"
  shows "0 < ad_cpu_percent (derive_activity p c) \<longleftrightarrow> as_cpu_time p < as_cpu_time c"
proof -
  have "0 < time_sub (as_taken c) (as_taken p)"
    using derive_cpu_known(1) [OF known] by (simp add: go_time)
  then show ?thesis
    using derive_cpu_known [OF known] wrap64_id [OF range]
    by (simp add: zero_less_divide_iff)
qed

text \<open>Derived disk counters never wrap around: when a delta reports disk activity as known,
  both counters grew monotonically between two samples of one process key, and the
  reported differences are the true ones.\<close>

theorem derive_activity_no_wrap:
  assumes "ad_io_known (derive_activity prev cur)"
  shows "as_key prev = as_key cur \<and> as_taken prev < as_taken cur \<and>
    uint (as_disk_read cur) = uint (as_disk_read prev) + uint (ad_disk_read (derive_activity prev cur)) \<and>
    uint (as_disk_written cur) = uint (as_disk_written prev) + uint (ad_disk_written (derive_activity prev cur))"
proof -
  have "as_key prev = as_key cur \<and> as_taken prev < as_taken cur"
    using assms by (auto simp: derive_activity_def fresh_delta_def split: if_splits)
  moreover have "uint (b - a) = uint b - uint a" if "a \<le> b" for a b :: "64 word"
    using that by (simp add: uint_sub_if' word_le_def)
  ultimately show ?thesis using derive_io_known [OF assms] by simp
qed

theorem derive_activity_no_wrap_witness:
  "let p = zero_sample\<lparr>as_taken := 1, as_io_known := True, as_disk_read := 100\<rparr>;
       c = zero_sample\<lparr>as_taken := 2, as_io_known := True, as_disk_read := 150\<rparr>
   in uint (as_disk_read c) = uint (as_disk_read p) + uint (ad_disk_read (derive_activity p c))"
proof -
  let ?p = "zero_sample\<lparr>as_taken := 1, as_io_known := True, as_disk_read := 100\<rparr>"
  let ?c = "zero_sample\<lparr>as_taken := 2, as_io_known := True, as_disk_read := 150\<rparr>"
  have "ad_io_known (derive_activity ?p ?c)"
    by (simp add: derive_activity_def derive_defs zero_sample_def is_zero_time_def)
  from derive_activity_no_wrap [OF this] show ?thesis by simp
qed

end
