(* ===== verification/Classification.thy ===== *)
theory Classification
  imports Activity
begin

text \<open>
  The deterministic classifier (\<open>internal/classification/classification.go\<close>): one current
  sample and the previous committed result give a visible state, its basis and the time
  since which the basis has been stable. Evidence texts are kept verbatim as named
  constants, with their format arguments unrendered. The lemmas follow a whole history
  of samples and show what a strong conclusion (orphaned, hung) has behind it.
\<close>

named_theorems class_simps \<open>facts about classification\<close>

section \<open>Evidence\<close>

datatype fmt_arg = AStr string | AInt int | ADur duration | ATime gotime | ANum rat

datatype detail = Text string | Fmt string "fmt_arg list"

record evidence =
  ev_rule :: string
  ev_detail :: detail

definition ev :: "string \<Rightarrow> detail \<Rightarrow> evidence" where
  "ev r d = \<lparr>ev_rule = r, ev_detail = d\<rparr>"

definition ev_zombie :: evidence where
  "ev_zombie = ev ''kernel-zombie-v1'' (Text ''the kernel reported zombie state'')"
definition ev_unknown :: "string \<Rightarrow> evidence" where
  "ev_unknown reason = ev ''activity-unknown-v1'' (Text reason)"
definition ev_progress :: evidence where
  "ev_progress = ev ''progress-observed-v1''
     (Text ''CPU, disk or socket-queue progress was observed'')"
definition ev_live_wait :: evidence where
  "ev_live_wait = ev ''live-resource-wait-v1''
     (Text ''no progress was observed while writable repository files or connected sockets remained'')"
definition ev_inactive :: evidence where
  "ev_inactive = ev ''complete-inactivity-v1''
     (Text ''complete CPU, disk, file and socket evidence showed no progress or live resource hold'')"
definition ev_post_session :: evidence where
  "ev_post_session = ev ''post-session-work-v1''
     (Text ''a detached process retained activity or live resources after its session ended'')"
definition ev_orphan :: "duration \<Rightarrow> evidence" where
  "ev_orphan d = ev ''stable-orphan-v1''
     (Fmt ''detached known-idle evidence remained stable for %s'' [ADur d])"
definition ev_stopped :: "duration \<Rightarrow> evidence" where
  "ev_stopped d = ev ''stable-stopped-v1''
     (Fmt ''stopped known-inactive evidence remained stable for %s'' [ADur d])"
definition ev_parent_loss :: "string \<Rightarrow> evidence" where
  "ev_parent_loss d = ev ''observed-parent-loss-v1''
     (Text (if d = [] then ''an observed original-parent link was lost'' else d))"

section \<open>States, inputs and results\<close>

text \<open>The empty string, the zero value of the code's \<open>State\<close>, is \<open>ClassNone\<close>.\<close>

datatype class_state = ClassActive | ClassWaiting | ClassIdle | ClassSuspicious | ClassHung
  | ClassCrashed | ClassOrphaned | ClassUnknown | ClassNone

fun class_name :: "class_state \<Rightarrow> string" where
  "class_name ClassActive = ''active''"
| "class_name ClassWaiting = ''waiting''"
| "class_name ClassIdle = ''idle''"
| "class_name ClassSuspicious = ''suspicious''"
| "class_name ClassHung = ''hung''"
| "class_name ClassCrashed = ''crashed''"
| "class_name ClassOrphaned = ''orphaned''"
| "class_name ClassUnknown = ''unknown''"
| "class_name ClassNone = ''''"

definition strong_conclusion_window :: duration where
  "strong_conclusion_window = 5 * minute"

record class_activity =
  ca_taken :: gotime
  ca_baseline_ok :: bool
  ca_cpu_percent :: rat
  ca_cpu_known :: bool
  ca_disk_read :: int
  ca_disk_written :: int
  ca_io_known :: bool
  ca_writable_files :: int
  ca_files_known :: bool
  ca_connected :: int
  ca_network_changed :: bool
  ca_sockets_known :: bool

record class_previous =
  cp_key :: key
  cp_basis :: class_state
  cp_detached :: bool
  cp_session_ended :: bool
  cp_status :: "status option"
  cp_stable_since :: gotime
  cp_sampled_at :: gotime

text \<open>The zero value that a missing entry of the daemon's map yields.\<close>

definition zero_previous :: class_previous where
  "zero_previous = \<lparr>cp_key = zero_key, cp_basis = ClassNone, cp_detached = False,
     cp_session_ended = False, cp_status = None, cp_stable_since = 0, cp_sampled_at = 0\<rparr>"

record class_input =
  ci_key :: key
  ci_status :: status
  ci_detached :: bool
  ci_session_ended :: bool
  ci_activity :: class_activity
  ci_previous :: class_previous
  ci_cadence :: duration
  ci_detachment_detail :: string

record class_result =
  cr_state :: class_state
  cr_basis :: class_state
  cr_detached :: bool
  cr_session_ended :: bool
  cr_stable_since :: gotime
  cr_evidence :: "evidence list"

section \<open>The classifier\<close>

definition incomplete_reason :: "class_activity \<Rightarrow> string option" where
  "incomplete_reason a = first_failure
     [(is_zero_time (ca_taken a), ''activity sample time is unavailable''),
      (\<not> ca_baseline_ok a, ''activity has no valid exact-key baseline''),
      (\<not> ca_cpu_known a, ''CPU activity is unavailable''),
      (\<not> ca_io_known a, ''disk activity is unavailable''),
      (\<not> ca_files_known a, ''open-file evidence is unavailable''),
      (\<not> ca_sockets_known a, ''socket evidence is unavailable'')]"

definition basis :: "class_activity \<Rightarrow> class_state \<times> evidence list" where
  "basis a =
     (if 0 < ca_cpu_percent a \<or> 0 < ca_disk_read a \<or> 0 < ca_disk_written a \<or> ca_network_changed a
      then (ClassActive, [ev_progress])
      else if 0 < ca_writable_files a \<or> 0 < ca_connected a
      then (ClassWaiting, [ev_live_wait])
      else (ClassIdle, [ev_inactive]))"

definition basis_state :: "class_activity \<Rightarrow> class_state" where
  "basis_state a = fst (basis a)"

definition same_window :: "class_input \<Rightarrow> bool" where
  "same_window i =
     (let p = ci_previous i; gap = time_sub (ca_taken (ci_activity i)) (cp_sampled_at p) in
      cp_key p = ci_key i \<and> \<not> is_zero_time (cp_stable_since p) \<and> cp_basis p \<noteq> ClassUnknown \<and>
      cp_basis p = basis_state (ci_activity i) \<and> cp_detached p = ci_detached i \<and>
      cp_session_ended p = ci_session_ended i \<and> cp_status p = Some (ci_status i) \<and>
      0 < ci_cadence i \<and> 0 < gap \<and> gap \<le> wrap64 (2 * ci_cadence i))"

definition classify_body :: "class_input \<Rightarrow> class_result" where
  "classify_body i =
     (let r = \<lparr>cr_state = ClassUnknown, cr_basis = ClassUnknown, cr_detached = ci_detached i,
               cr_session_ended = ci_session_ended i,
               cr_stable_since = ca_taken (ci_activity i), cr_evidence = []\<rparr> in
      if ci_status i = StatusZombie then
        r\<lparr>cr_state := ClassCrashed, cr_basis := ClassCrashed, cr_evidence := [ev_zombie]\<rparr>
      else (case incomplete_reason (ci_activity i) of
        Some reason \<Rightarrow> r\<lparr>cr_evidence := [ev_unknown reason]\<rparr>
      | None \<Rightarrow>
          (let (b, evs) = basis (ci_activity i);
               since = (if same_window i then cp_stable_since (ci_previous i)
                        else ca_taken (ci_activity i));
               stable_for = time_sub (ca_taken (ci_activity i)) since;
               r1 = r\<lparr>cr_basis := b, cr_evidence := evs, cr_stable_since := since, cr_state := b\<rparr> in
           if ci_session_ended i \<and> ci_detached i \<and> (b = ClassActive \<or> b = ClassWaiting) then
             r1\<lparr>cr_state := ClassSuspicious, cr_evidence := evs @ [ev_post_session]\<rparr>
           else if ci_session_ended i \<and> ci_detached i \<and> b = ClassIdle
                   \<and> strong_conclusion_window \<le> stable_for then
             r1\<lparr>cr_state := ClassOrphaned, cr_evidence := evs @ [ev_orphan stable_for]\<rparr>
           else if ci_status i = StatusStopped \<and> (b = ClassIdle \<or> b = ClassWaiting)
                   \<and> strong_conclusion_window \<le> stable_for then
             r1\<lparr>cr_state := ClassHung, cr_evidence := evs @ [ev_stopped stable_for]\<rparr>
           else r1)))"

text \<open>The deferred function appends the evidence of a lost parent on every path.\<close>

definition classify :: "class_input \<Rightarrow> class_result" where
  "classify i =
     (let r = classify_body i in
      if cr_detached r
      then r\<lparr>cr_evidence := cr_evidence r @ [ev_parent_loss (ci_detachment_detail i)]\<rparr>
      else r)"

text \<open>The result the daemon remembers for the next sample of the process.\<close>

definition previous_of :: "class_input \<Rightarrow> class_result \<Rightarrow> class_previous" where
  "previous_of i r = \<lparr>cp_key = ci_key i, cp_basis = cr_basis r, cp_detached = cr_detached r,
     cp_session_ended = cr_session_ended r, cp_status = Some (ci_status i),
     cp_stable_since = cr_stable_since r, cp_sampled_at = ca_taken (ci_activity i)\<rparr>"

text \<open>The classifier's view of a derived delta.\<close>

definition class_activity_of :: "activity_delta \<Rightarrow> class_activity" where
  "class_activity_of d = \<lparr>ca_taken = ad_taken d, ca_baseline_ok = ad_baseline_ok d,
     ca_cpu_percent = ad_cpu_percent d, ca_cpu_known = ad_cpu_known d,
     ca_disk_read = bounded_int64 (ad_disk_read d),
     ca_disk_written = bounded_int64 (ad_disk_written d), ca_io_known = ad_io_known d,
     ca_writable_files = ad_writable_files d, ca_files_known = ad_files_known d,
     ca_connected = ad_connected d, ca_network_changed = ad_network_changed d,
     ca_sockets_known = ad_sockets_known d\<rparr>"

section \<open>Lemmas about one classification\<close>

definition complete_evidence :: "class_activity \<Rightarrow> bool" where
  "complete_evidence a \<longleftrightarrow> \<not> is_zero_time (ca_taken a) \<and> ca_baseline_ok a \<and> ca_cpu_known a \<and>
     ca_io_known a \<and> ca_files_known a \<and> ca_sockets_known a"

lemma incomplete_reason_None [class_simps]: "incomplete_reason a = None \<longleftrightarrow> complete_evidence a"
  by (auto simp: incomplete_reason_def complete_evidence_def guard_simps)

lemma basis_cases: "basis_state a \<in> {ClassActive, ClassWaiting, ClassIdle}"
  by (auto simp: basis_state_def basis_def)

lemma classify_fields [class_simps]:
  "cr_state (classify i) = cr_state (classify_body i)"
  "cr_basis (classify i) = cr_basis (classify_body i)"
  "cr_stable_since (classify i) = cr_stable_since (classify_body i)"
  "cr_detached (classify i) = cr_detached (classify_body i)"
  "cr_session_ended (classify i) = cr_session_ended (classify_body i)"
  by (simp_all add: classify_def Let_def)

lemma classify_body_flags [class_simps]:
  "cr_detached (classify_body i) = ci_detached i"
  "cr_session_ended (classify_body i) = ci_session_ended i"
  by (auto simp: classify_body_def Let_def split: option.splits prod.splits)

lemma classify_zombie [class_simps]:
  "ci_status i = StatusZombie \<Longrightarrow> cr_state (classify_body i) = ClassCrashed"
  "ci_status i = StatusZombie \<Longrightarrow> cr_basis (classify_body i) = ClassCrashed"
  by (simp_all add: classify_body_def Let_def)

lemma classify_incomplete [class_simps]:
  assumes "ci_status i \<noteq> StatusZombie" "\<not> complete_evidence (ci_activity i)"
  shows "cr_state (classify_body i) = ClassUnknown" "cr_basis (classify_body i) = ClassUnknown"
  using assms incomplete_reason_None [of "ci_activity i"]
  by (auto simp: classify_body_def Let_def split: option.splits)

text \<open>The regular case: the evidence is complete and the process is no zombie.\<close>

lemma classify_complete:
  assumes "ci_status i \<noteq> StatusZombie" "complete_evidence (ci_activity i)"
  defines "b \<equiv> basis_state (ci_activity i)"
    and "since \<equiv> (if same_window i then cp_stable_since (ci_previous i) else ca_taken (ci_activity i))"
  shows "cr_basis (classify_body i) = b"
    and "cr_stable_since (classify_body i) = since"
    and "cr_state (classify_body i) =
      (if ci_session_ended i \<and> ci_detached i \<and> (b = ClassActive \<or> b = ClassWaiting) then ClassSuspicious
       else if ci_session_ended i \<and> ci_detached i \<and> b = ClassIdle \<and>
         strong_conclusion_window \<le> time_sub (ca_taken (ci_activity i)) since then ClassOrphaned
       else if ci_status i = StatusStopped \<and> (b = ClassIdle \<or> b = ClassWaiting) \<and>
         strong_conclusion_window \<le> time_sub (ca_taken (ci_activity i)) since then ClassHung
       else b)"
proof -
  have bs: "basis (ci_activity i) = (b, snd (basis (ci_activity i)))"
    by (simp add: b_def basis_state_def)
  have ir: "incomplete_reason (ci_activity i) = None"
    using assms(2) by (simp add: incomplete_reason_None)
  have body: "classify_body i =
    (let evs = snd (basis (ci_activity i));
         stable_for = time_sub (ca_taken (ci_activity i)) since;
         r = \<lparr>cr_state = b, cr_basis = b, cr_detached = ci_detached i,
               cr_session_ended = ci_session_ended i, cr_stable_since = since, cr_evidence = evs\<rparr> in
     if ci_session_ended i \<and> ci_detached i \<and> (b = ClassActive \<or> b = ClassWaiting) then
       r\<lparr>cr_state := ClassSuspicious, cr_evidence := evs @ [ev_post_session]\<rparr>
     else if ci_session_ended i \<and> ci_detached i \<and> b = ClassIdle
             \<and> strong_conclusion_window \<le> stable_for then
       r\<lparr>cr_state := ClassOrphaned, cr_evidence := evs @ [ev_orphan stable_for]\<rparr>
     else if ci_status i = StatusStopped \<and> (b = ClassIdle \<or> b = ClassWaiting)
             \<and> strong_conclusion_window \<le> stable_for then
       r\<lparr>cr_state := ClassHung, cr_evidence := evs @ [ev_stopped stable_for]\<rparr>
     else r)"
    unfolding classify_body_def since_def
    by (subst bs) (simp only: Let_def prod.case ir option.case assms(1) if_False refl
        class_result.simps)
  show "cr_basis (classify_body i) = b" "cr_stable_since (classify_body i) = since"
    "cr_state (classify_body i) =
      (if ci_session_ended i \<and> ci_detached i \<and> (b = ClassActive \<or> b = ClassWaiting) then ClassSuspicious
       else if ci_session_ended i \<and> ci_detached i \<and> b = ClassIdle \<and>
         strong_conclusion_window \<le> time_sub (ca_taken (ci_activity i)) since then ClassOrphaned
       else if ci_status i = StatusStopped \<and> (b = ClassIdle \<or> b = ClassWaiting) \<and>
         strong_conclusion_window \<le> time_sub (ca_taken (ci_activity i)) since then ClassHung
       else b)"
    unfolding body Let_def
    by (simp_all only: if_distrib [of cr_basis] if_distrib [of cr_stable_since]
        if_distrib [of cr_state] class_result.simps class_result.update_convs if_cancel)
qed

text \<open>The shape of each strong conclusion.\<close>

lemma classify_orphaned:
  assumes "cr_state (classify i) = ClassOrphaned"
  shows "ci_status i \<noteq> StatusZombie" "complete_evidence (ci_activity i)" "ci_session_ended i" "ci_detached i"
    "basis_state (ci_activity i) = ClassIdle"
    "strong_conclusion_window \<le> time_sub (ca_taken (ci_activity i)) (cr_stable_since (classify i))"
proof -
  show z: "ci_status i \<noteq> StatusZombie" using assms by (auto simp: class_simps)
  show c: "complete_evidence (ci_activity i)" using assms z by (auto simp: class_simps intro: ccontr)
  note cc = classify_complete [OF z c]
  show "ci_session_ended i" "ci_detached i" "basis_state (ci_activity i) = ClassIdle"
    "strong_conclusion_window \<le> time_sub (ca_taken (ci_activity i)) (cr_stable_since (classify i))"
    using assms cc basis_cases [of "ci_activity i"] by (auto simp: class_simps split: if_splits)
qed

lemma classify_hung:
  assumes "cr_state (classify i) = ClassHung"
  shows "ci_status i = StatusStopped" "complete_evidence (ci_activity i)"
    "basis_state (ci_activity i) \<in> {ClassIdle, ClassWaiting}"
    "strong_conclusion_window \<le> time_sub (ca_taken (ci_activity i)) (cr_stable_since (classify i))"
proof -
  have z: "ci_status i \<noteq> StatusZombie" using assms by (auto simp: class_simps)
  show c: "complete_evidence (ci_activity i)" using assms z by (auto simp: class_simps intro: ccontr)
  note cc = classify_complete [OF z c]
  show "ci_status i = StatusStopped" "basis_state (ci_activity i) \<in> {ClassIdle, ClassWaiting}"
    "strong_conclusion_window \<le> time_sub (ca_taken (ci_activity i)) (cr_stable_since (classify i))"
    using assms cc basis_cases [of "ci_activity i"] by (auto simp: class_simps split: if_splits)
qed

section \<open>Histories of samples\<close>

text \<open>
  The daemon feeds each sample with the result it remembered for the one before; a history
  is the list of samples of one process, the latest first.
\<close>

fun remembered :: "class_input list \<Rightarrow> class_previous" where
  "remembered [] = zero_previous"
| "remembered (i # h) = previous_of i (classify (i\<lparr>ci_previous := remembered h\<rparr>))"

definition classify_history :: "class_input \<Rightarrow> class_input list \<Rightarrow> class_result" where
  "classify_history i h = classify (i\<lparr>ci_previous := remembered h\<rparr>)"

text \<open>An unbroken run of complete samples with one basis and the same lifecycle facts.\<close>

definition linked :: "class_input \<Rightarrow> class_input \<Rightarrow> bool" where
  "linked newer older \<longleftrightarrow>
     ci_key newer = ci_key older \<and> ci_status newer = ci_status older \<and>
     ci_detached newer = ci_detached older \<and> ci_session_ended newer = ci_session_ended older \<and>
     ca_taken (ci_activity older) < ca_taken (ci_activity newer) \<and>
     time_sub (ca_taken (ci_activity newer)) (ca_taken (ci_activity older))
       \<le> wrap64 (2 * ci_cadence newer)"

fun window :: "class_state \<Rightarrow> class_input list \<Rightarrow> bool" where
  "window b [] = False"
| "window b [i] = (complete_evidence (ci_activity i) \<and> basis_state (ci_activity i) = b)"
| "window b (i # j # w) = (complete_evidence (ci_activity i) \<and> basis_state (ci_activity i) = b \<and>
     linked i j \<and> window b (j # w))"

lemma window_linked_facts:
  "window b (i # w) \<Longrightarrow> x \<in> set (i # w) \<Longrightarrow>
     complete_evidence (ci_activity x) \<and> basis_state (ci_activity x) = b \<and>
     ci_key x = ci_key i \<and> ci_status x = ci_status i \<and>
     ci_detached x = ci_detached i \<and> ci_session_ended x = ci_session_ended i"
proof (induction w arbitrary: i)
  case (Cons j w)
  show ?case
  proof (cases "x = i")
    case True
    with Cons.prems show ?thesis by simp
  next
    case False
    with Cons.prems have w: "window b (j # w)" "x \<in> set (j # w)" and l: "linked i j" by simp_all
    from Cons.IH [OF w] l show ?thesis by (simp only: linked_def simp_thms)
  qed
qed simp

lemma same_window_remembered:
  assumes "same_window (i\<lparr>ci_previous := remembered h\<rparr>)"
  obtains j h' where "h = j # h'" "linked i j"
    "cr_basis (classify_history j h') = basis_state (ci_activity i)"
    "cr_basis (classify_history j h') \<noteq> ClassUnknown"
proof (cases h)
  case Nil
  with assms show thesis by (simp add: same_window_def zero_previous_def is_zero_time_def Let_def)
next
  case (Cons j h')
  with assms that show thesis
    by (auto simp: same_window_def previous_of_def linked_def classify_history_def Let_def go_time
        class_simps)
qed

text \<open>
  The invariant of histories: a regular basis is backed by a window of samples that reaches
  back to the recorded start of stability.
\<close>

lemma history_window:
  assumes "ci_status i \<noteq> StatusZombie" "complete_evidence (ci_activity i)"
  shows "\<exists>w rest. h = w @ rest \<and> window (basis_state (ci_activity i)) (i # w) \<and>
    cr_stable_since (classify_history i h) = ca_taken (ci_activity (last (i # w)))"
  using assms
proof (induction h arbitrary: i rule: length_induct)
  case (1 h)
  let ?i = "i\<lparr>ci_previous := remembered h\<rparr>"
  have cc: "cr_stable_since (classify_history i h) =
      (if same_window ?i then cp_stable_since (remembered h) else ca_taken (ci_activity i))"
    using classify_complete(2) [of ?i] "1.prems" by (simp add: classify_history_def class_simps)
  show ?case
  proof (cases "same_window ?i")
    case False
    with cc "1.prems" show ?thesis
      by (intro exI [of _ "[]"] exI [of _ h]) simp
  next
    case True
    obtain j h' where h: "h = j # h'" and link: "linked i j"
      and bj: "cr_basis (classify_history j h') = basis_state (ci_activity i)"
        "cr_basis (classify_history j h') \<noteq> ClassUnknown"
      using True by (rule same_window_remembered)
    let ?j = "j\<lparr>ci_previous := remembered h'\<rparr>"
    have z: "ci_status j \<noteq> StatusZombie" using link "1.prems" by (simp add: linked_def)
    have c: "complete_evidence (ci_activity j)"
      using bj(2) z classify_incomplete(2) [of ?j]
      by (auto simp: classify_history_def class_simps intro: ccontr)
    have b: "basis_state (ci_activity j) = basis_state (ci_activity i)"
      using classify_complete(1) [of ?j] z c bj(1) by (simp add: classify_history_def class_simps)
    have "length h' < length h" by (simp add: h)
    with "1.IH" z c obtain w rest where w: "h' = w @ rest"
      "window (basis_state (ci_activity j)) (j # w)"
      "cr_stable_since (classify_history j h') = ca_taken (ci_activity (last (j # w)))"
      by blast
    have "cp_stable_since (remembered h) = cr_stable_since (classify_history j h')"
      unfolding h by (simp add: previous_of_def classify_history_def)
    with cc True w(3) have since:
      "cr_stable_since (classify_history i h) = ca_taken (ci_activity (last (i # j # w)))"
      by (simp only: if_True last.simps list.simps if_False)
    from w(2) have "window (basis_state (ci_activity i)) (i # j # w)"
      using link "1.prems"(2) by (simp only: b window.simps simp_thms)
    moreover have "h = (j # w) @ rest" using h w(1) by simp
    ultimately show ?thesis using since by blast
  qed
qed

lemma strong_window_iff:
  "strong_conclusion_window \<le> time_sub t u \<longleftrightarrow> u + strong_conclusion_window \<le> t"
  by (rule time_sub_ge_iff)
    (simp_all add: strong_conclusion_window_def duration_defs in_int64_def int64_min_def int64_max_def)

section \<open>Properties\<close>

text \<open>C34: A strong conclusion is never drawn from a single look: whatever the history, a process
  is called orphaned or hung only when an unbroken run of complete samples of that exact
  process key, with unchanged status and lifecycle facts and no gap above twice the sampling
  cadence, showed no progress for at least five minutes; orphaned needs moreover that
  throughout the run it was detached, its session had ended and it held no live resource.\<close>

theorem strong_conclusion_needs_window:
  assumes "cr_state (classify_history i h) = ClassOrphaned \<or> cr_state (classify_history i h) = ClassHung"
  shows "\<exists>w rest. h = w @ rest \<and> window (basis_state (ci_activity i)) (i # w) \<and>
    ca_taken (ci_activity (last (i # w))) + 5 * minute \<le> ca_taken (ci_activity i) \<and>
    basis_state (ci_activity i) \<in> {ClassIdle, ClassWaiting} \<and>
    (cr_state (classify_history i h) = ClassOrphaned \<longrightarrow>
       basis_state (ci_activity i) = ClassIdle \<and>
       (\<forall>x \<in> set (i # w). ci_detached x \<and> ci_session_ended x)) \<and>
    (cr_state (classify_history i h) = ClassHung \<longrightarrow> (\<forall>x \<in> set (i # w). ci_status x = StatusStopped))"
proof -
  let ?i = "i\<lparr>ci_previous := remembered h\<rparr>"
  have facts: "ci_status i \<noteq> StatusZombie" "complete_evidence (ci_activity i)"
    "basis_state (ci_activity i) \<in> {ClassIdle, ClassWaiting}"
    "strong_conclusion_window \<le> time_sub (ca_taken (ci_activity i)) (cr_stable_since (classify_history i h))"
    using assms classify_orphaned [of ?i] classify_hung [of ?i]
    by (auto simp: classify_history_def)
  from history_window [OF facts(1,2), of h] obtain w rest where w: "h = w @ rest"
    "window (basis_state (ci_activity i)) (i # w)"
    "cr_stable_since (classify_history i h) = ca_taken (ci_activity (last (i # w)))" by blast
  have orph: "basis_state (ci_activity i) = ClassIdle \<and> ci_detached i \<and> ci_session_ended i"
    if "cr_state (classify_history i h) = ClassOrphaned"
    using that classify_orphaned [of ?i] by (simp add: classify_history_def)
  have hung: "ci_status i = StatusStopped" if "cr_state (classify_history i h) = ClassHung"
    using that classify_hung [of ?i] by (simp add: classify_history_def)
  have "ca_taken (ci_activity (last (i # w))) + 5 * minute \<le> ca_taken (ci_activity i)"
    using facts(4) unfolding w(3) strong_window_iff by (simp only: strong_conclusion_window_def)
  moreover have "\<forall>x \<in> set (i # w). ci_detached x \<and> ci_session_ended x"
    if "cr_state (classify_history i h) = ClassOrphaned"
    using orph [OF that] window_linked_facts [OF w(2)] by blast
  moreover have "\<forall>x \<in> set (i # w). ci_status x = StatusStopped"
    if "cr_state (classify_history i h) = ClassHung"
    using hung [OF that] window_linked_facts [OF w(2)] by metis
  ultimately show ?thesis using w(1,2) facts(3) orph by blast
qed

text \<open>A detached, idle process of an ended session, sampled each minute.\<close>

definition idle_sample :: "int \<Rightarrow> class_input" where
  "idle_sample n = \<lparr>ci_key = \<lparr>key_pid = 77, key_start = 5\<rparr>, ci_status = StatusSleeping,
     ci_detached = True, ci_session_ended = True,
     ci_activity = \<lparr>ca_taken = n * minute, ca_baseline_ok = True, ca_cpu_percent = 0,
       ca_cpu_known = True, ca_disk_read = 0, ca_disk_written = 0, ca_io_known = True,
       ca_writable_files = 0, ca_files_known = True, ca_connected = 0,
       ca_network_changed = False, ca_sockets_known = True\<rparr>,
     ci_previous = zero_previous, ci_cadence = minute, ci_detachment_detail = []\<rparr>"

theorem strong_conclusion_needs_window_witness:
  "\<exists>w rest. List.map idle_sample [5, 4, 3, 2, 1] = w @ rest \<and> window ClassIdle (idle_sample 6 # w) \<and>
     ca_taken (ci_activity (last (idle_sample 6 # w))) + 5 * minute \<le> 6 * minute"
proof -
  let ?h = "List.map idle_sample [5, 4, 3, 2, 1]"
  have "cr_state (classify_history (idle_sample 6) ?h) = ClassOrphaned"
    by code_simp
  then have "cr_state (classify_history (idle_sample 6) ?h) = ClassOrphaned
    \<or> cr_state (classify_history (idle_sample 6) ?h) = ClassHung" ..
  note window = strong_conclusion_needs_window [OF this]
  have "basis_state (ci_activity (idle_sample 6)) = ClassIdle" by code_simp
  moreover have "ca_taken (ci_activity (idle_sample 6)) = 6 * minute" by (simp add: idle_sample_def)
  ultimately show ?thesis using window by metis
qed

lemma incomplete_restarts:
  assumes "ci_status i \<noteq> StatusZombie" and "\<not> complete_evidence (ci_activity i)"
  shows "cr_stable_since (classify_body i) = ca_taken (ci_activity i)"
proof -
  from assms(2) obtain y where "incomplete_reason (ci_activity i) = Some y"
    using incomplete_reason_None [of "ci_activity i"] by auto
  with assms(1) show ?thesis by (simp add: classify_body_def Let_def)
qed

text \<open>C35: The classifier fails closed: with any part of the evidence missing, a process that is
  not a zombie is \<open>unknown\<close> in both its visible and its basis state, its stability window
  restarts at the time of this sample, whatever came before, and the next sample cannot extend a window over the gap.\<close>

theorem incomplete_evidence_is_unknown:
  assumes "ci_status i \<noteq> StatusZombie" and "\<not> complete_evidence (ci_activity i)"
  shows "cr_state (classify_history i h) = ClassUnknown \<and> cr_basis (classify_history i h) = ClassUnknown \<and>
    cr_stable_since (classify_history i h) = ca_taken (ci_activity i) \<and>
    \<not> same_window (j\<lparr>ci_previous := remembered (i # h)\<rparr>) \<and>
    cr_state (classify_history j (i # h)) \<noteq> ClassOrphaned \<and>
    cr_state (classify_history j (i # h)) \<noteq> ClassHung"
proof -
  let ?j = "j\<lparr>ci_previous := remembered (i # h)\<rparr>"
  have u: "cr_state (classify_history i h) = ClassUnknown" "cr_basis (classify_history i h) = ClassUnknown"
    and restart: "cr_stable_since (classify_history i h) = ca_taken (ci_activity i)"
    using assms by (simp_all add: classify_history_def class_simps incomplete_restarts)
  from u have "cp_basis (remembered (i # h)) = ClassUnknown"
    by (simp add: previous_of_def classify_history_def)
  then have nw: "\<not> same_window ?j"
    by (simp add: same_window_def Let_def del: remembered.simps)
  have "\<not> strong_conclusion_window \<le> time_sub (ca_taken (ci_activity j)) (cr_stable_since (classify ?j))"
    if "ci_status j \<noteq> StatusZombie" "complete_evidence (ci_activity j)"
  proof -
    have "ci_status ?j \<noteq> StatusZombie" "complete_evidence (ci_activity ?j)"
      using that by simp_all
    from classify_complete(2) [OF this] nw
    have "cr_stable_since (classify ?j) = ca_taken (ci_activity ?j)"
      unfolding classify_fields(3) by (simp only: if_False)
    moreover have "ci_activity ?j = ci_activity j" by simp
    ultimately have "cr_stable_since (classify ?j) = ca_taken (ci_activity j)"
      by (simp only:)
    then show ?thesis by (simp only: time_sub_self) (simp add: strong_conclusion_window_def duration_defs)
  qed
  note short = this
  have "cr_state (classify ?j) \<noteq> ClassOrphaned"
  proof
    assume a: "cr_state (classify ?j) = ClassOrphaned"
    from short [OF classify_orphaned(1,2) [OF a, simplified]] classify_orphaned(6) [OF a]
    show False by simp
  qed
  moreover have "cr_state (classify ?j) \<noteq> ClassHung"
  proof
    assume a: "cr_state (classify ?j) = ClassHung"
    have "ci_status j \<noteq> StatusZombie" using classify_hung(1) [OF a] by simp
    from short [OF this classify_hung(2) [OF a, simplified]] classify_hung(4) [OF a]
    show False by simp
  qed
  ultimately show ?thesis using u nw restart by (simp only: classify_history_def simp_thms not_False_eq_True)
qed

theorem incomplete_evidence_is_unknown_witness:
  "cr_state (classify_history ((idle_sample 6)\<lparr>ci_activity :=
      (ci_activity (idle_sample 6))\<lparr>ca_sockets_known := False\<rparr>\<rparr>)
      (List.map idle_sample [5, 4, 3, 2, 1])) = ClassUnknown"
  using incomplete_evidence_is_unknown [of "(idle_sample 6)\<lparr>ci_activity :=
      (ci_activity (idle_sample 6))\<lparr>ca_sockets_known := False\<rparr>\<rparr>"]
  by (simp add: idle_sample_def complete_evidence_def)

text \<open>An idle basis means that nothing moved: if the delta derived from two samples is
  complete evidence and classifies as idle, then CPU time and both disk counters are equal in
  the two samples, the socket state did not change, and no writable repository file or
  connected socket remained.\<close>

theorem idle_means_no_progress:
  assumes "complete_evidence (class_activity_of (derive_activity prev cur))"
    and "basis_state (class_activity_of (derive_activity prev cur)) = ClassIdle"
    and "in_int64 (as_cpu_time cur - as_cpu_time prev)"
    and "as_sockets_known prev"
  shows "as_key prev = as_key cur \<and> as_cpu_time cur = as_cpu_time prev \<and>
    as_disk_read cur = as_disk_read prev \<and> as_disk_written cur = as_disk_written prev \<and>
    as_sockets cur = as_sockets prev \<and> as_recv_queue cur = as_recv_queue prev \<and>
    as_send_queue cur = as_send_queue prev \<and>
    as_writable_files cur \<le> 0 \<and> as_connected cur \<le> 0"
proof -
  let ?d = "derive_activity prev cur"
  have k: "ad_cpu_known ?d" "ad_io_known ?d" "as_sockets_known cur"
    using assms(1) by (simp_all add: complete_evidence_def class_activity_of_def activity_simps)
  have b: "\<not> 0 < ad_cpu_percent ?d" "ad_disk_read ?d = 0" "ad_disk_written ?d = 0"
    "\<not> ad_network_changed ?d" "as_writable_files cur \<le> 0" "as_connected cur \<le> 0"
    using assms(2) by (auto simp: basis_state_def basis_def class_activity_of_def activity_simps
        split: if_splits)
  have "as_cpu_time cur = as_cpu_time prev"
    using derive_cpu_percent_pos [OF k(1) assms(3)] b(1) derive_cpu_known(1) [OF k(1)] by simp
  moreover have "as_disk_read cur = as_disk_read prev" "as_disk_written cur = as_disk_written prev"
    using derive_io_known [OF k(2)] b(2,3) by simp_all
  moreover have "ad_network_changed ?d \<longleftrightarrow> as_sockets prev \<noteq> as_sockets cur
       \<or> as_connected prev \<noteq> as_connected cur
       \<or> as_recv_queue prev \<noteq> as_recv_queue cur \<or> as_send_queue prev \<noteq> as_send_queue cur"
    using derive_cpu_known(1) [OF k(1)] assms(1,4) k
    by (auto simp: derive_activity_def derive_defs Let_def complete_evidence_def class_activity_of_def
        split: if_splits)
  ultimately show ?thesis using b derive_cpu_known(1) [OF k(1)] by auto
qed

theorem idle_means_no_progress_witness:
  "let p = zero_sample\<lparr>as_taken := 1, as_cpu_known := True, as_io_known := True,
             as_files_known := True, as_sockets_known := True, as_cpu_time := 9\<rparr>;
       c = p\<lparr>as_taken := 2\<rparr>
   in basis_state (class_activity_of (derive_activity p c)) = ClassIdle \<and> as_cpu_time c = as_cpu_time p"
proof -
  let ?p = "zero_sample\<lparr>as_taken := 1, as_cpu_known := True, as_io_known := True,
             as_files_known := True, as_sockets_known := True, as_cpu_time := 9\<rparr>"
  let ?c = "?p\<lparr>as_taken := 2\<rparr>"
  have "complete_evidence (class_activity_of (derive_activity ?p ?c))"
    "basis_state (class_activity_of (derive_activity ?p ?c)) = ClassIdle"
    by (simp_all add: derive_activity_def derive_defs zero_sample_def is_zero_time_def
        complete_evidence_def class_activity_of_def basis_state_def basis_def bounded_int64_def
        time_sub_def sat64_def wrap64_def int64_min_def int64_max_def)
  moreover have "in_int64 (as_cpu_time ?c - as_cpu_time ?p)"
    by (simp add: in_int64_def int64_min_def int64_max_def)
  ultimately show ?thesis using idle_means_no_progress [of ?p ?c] by simp
qed

end
