(* ===== verification/Process_Tree.thy ===== *)
theory Process_Tree
  imports Process_Model
begin

text \<open>
  Parent/child relationships (\<open>internal/process/tree.go\<close>). A parent link is believed
  only when the claimed parent is in the snapshot and did not start after the child.
  The walks carry the code's own depth bound of 128, so they need no extra fuel. The
  locale states what the walks rely on (the child lists invert the parent function);
  it is interpreted on the trees \<open>BuildTree\<close> makes.
\<close>

named_theorems tree_simps \<open>facts about links and walks\<close>

definition max_tree_depth :: nat where "max_tree_depth = 128"

datatype link_state = LinkIntact | LinkReparented | LinkImpossible | LinkMissing | LinkRoot

definition init_pid :: int where "init_pid = 1"

record tree =
  tr_snap :: snapshot
  tr_children :: "int \<Rightarrow> int list"
  tr_links :: "int \<Rightarrow> link_state option"

definition classify_link :: "snapshot \<Rightarrow> process \<Rightarrow> link_state" where
  "classify_link s p =
     (if pr_pid p = init_pid then LinkRoot
      else if pr_ppid p = 0 then LinkMissing
      else if pr_ppid p = pr_pid p then LinkImpossible
      else (case by_pid s (pr_ppid p) of
              None \<Rightarrow> if pr_ppid p = init_pid then LinkReparented else LinkMissing
            | Some parent \<Rightarrow>
                if pr_start p < pr_start parent then LinkImpossible
                else if pr_ppid p = init_pid then LinkReparented
                else LinkIntact))"

text \<open>The loop of \<open>BuildTree\<close> over the processes of the snapshot.\<close>

fun build_links :: "snapshot \<Rightarrow> process list \<Rightarrow> tree \<Rightarrow> tree" where
  "build_links s [] t = t"
| "build_links s (p # ps) t =
     (let l = classify_link s p;
          t1 = t\<lparr>tr_links := (tr_links t)(pr_pid p \<mapsto> l)\<rparr>;
          t2 = (if l = LinkIntact
                then t1\<lparr>tr_children := (tr_children t1)
                       (pr_ppid p := tr_children t1 (pr_ppid p) @ [pr_pid p])\<rparr>
                else t1)
      in build_links s ps t2)"

definition build_tree :: "snapshot \<Rightarrow> tree" where
  "build_tree s = build_links s (sn_procs s)
     \<lparr>tr_snap = s, tr_children = (\<lambda>_. []), tr_links = Map.empty\<rparr>"

definition link :: "tree \<Rightarrow> int \<Rightarrow> link_state" where
  "link t pid = (case tr_links t pid of Some l \<Rightarrow> l | None \<Rightarrow> LinkMissing)"

definition children :: "tree \<Rightarrow> int \<Rightarrow> int list" where
  "children t pid = tr_children t pid"

text \<open>One level of \<open>Descendants\<close>' breadth-first loop, then the loop over the levels.\<close>

fun bfs_level :: "(int \<Rightarrow> int list) \<Rightarrow> int list \<Rightarrow> int set \<Rightarrow> int list \<Rightarrow> int list
    \<Rightarrow> int set \<times> int list \<times> int list" where
  "bfs_level ch [] seen out next_level = (seen, out, next_level)"
| "bfs_level ch (c # cs) seen out next_level =
     (if c \<in> seen then bfs_level ch cs seen out next_level
      else bfs_level ch cs (insert c seen) (out @ [c]) (next_level @ ch c))"

fun bfs :: "nat \<Rightarrow> (int \<Rightarrow> int list) \<Rightarrow> int list \<Rightarrow> int set \<Rightarrow> int list \<Rightarrow> int list" where
  "bfs 0 ch frontier seen out = out"
| "bfs (Suc depth) ch frontier seen out =
     (if frontier = [] then out
      else (case bfs_level ch frontier seen out [] of
              (seen', out', next_level) \<Rightarrow> bfs depth ch next_level seen' out'))"

definition descendants :: "tree \<Rightarrow> int \<Rightarrow> int list" where
  "descendants t pid = bfs max_tree_depth (tr_children t) (children t pid) {pid} []"

text \<open>
  The step of \<open>Ancestors\<close>: the walk stops when the process is not in the snapshot or its
  link is not intact; otherwise it goes on to the claimed parent.
\<close>

definition parent_of :: "tree \<Rightarrow> int \<Rightarrow> int option" where
  "parent_of t cur =
     (case by_pid (tr_snap t) cur of
        None \<Rightarrow> None
      | Some p \<Rightarrow> if link t cur \<noteq> LinkIntact then None else Some (pr_ppid p))"

fun climb :: "nat \<Rightarrow> (int \<Rightarrow> int option) \<Rightarrow> int \<Rightarrow> int set \<Rightarrow> int list" where
  "climb 0 par cur seen = []"
| "climb (Suc depth) par cur seen =
     (case par cur of
        None \<Rightarrow> []
      | Some q \<Rightarrow> if q \<in> seen then [] else q # climb depth par q (insert q seen))"

definition ancestors :: "tree \<Rightarrow> int \<Rightarrow> int list" where
  "ancestors t pid = climb max_tree_depth (parent_of t) pid {pid}"

definition is_descendant_of :: "tree \<Rightarrow> int \<Rightarrow> int \<Rightarrow> bool" where
  "is_descendant_of t pid ancestor \<longleftrightarrow> List.member (ancestors t pid) ancestor"

definition tree_roots :: "tree \<Rightarrow> int list" where
  "tree_roots t = filter (\<lambda>pid. link t pid \<noteq> LinkIntact) (List.map pr_pid (sn_procs (tr_snap t)))"

section \<open>Walks over a parent function\<close>

text \<open>\<open>up_to n par c a\<close>: \<open>a\<close> is reached from \<open>c\<close> by at most \<open>n\<close> parent steps.\<close>

fun up_to :: "nat \<Rightarrow> (int \<Rightarrow> int option) \<Rightarrow> int \<Rightarrow> int \<Rightarrow> bool" where
  "up_to 0 par c a \<longleftrightarrow> c = a"
| "up_to (Suc n) par c a \<longleftrightarrow> c = a \<or> (case par c of None \<Rightarrow> False | Some q \<Rightarrow> up_to n par q a)"

lemma up_to_self [simp]: "up_to n par a a"
  by (cases n) auto

lemma up_to_mono: "up_to n par c a \<Longrightarrow> n \<le> m \<Longrightarrow> up_to m par c a"
proof (induction n arbitrary: c m)
  case 0
  then show ?case by simp
next
  case (Suc n)
  then obtain k where m: "m = Suc k" "n \<le> k" by (cases m) auto
  with Suc show ?case by (auto split: option.splits)
qed

lemma up_to_closed:
  "up_to n par c a \<Longrightarrow> c \<in> S \<Longrightarrow> (\<And>x q. x \<in> S \<Longrightarrow> par x = Some q \<Longrightarrow> q \<in> S) \<Longrightarrow> a \<in> S"
  by (induction n arbitrary: c) (auto split: option.splits)

lemma climb_mem:
  assumes "cur \<in> seen" "\<And>x q. x \<in> seen \<Longrightarrow> x \<noteq> cur \<Longrightarrow> par x = Some q \<Longrightarrow> q \<in> seen"
  shows "a \<in> set (climb n par cur seen) \<longleftrightarrow> a \<notin> seen \<and> up_to n par cur a"
  using assms
proof (induction n arbitrary: cur seen)
  case 0
  then show ?case by auto
next
  case (Suc n)
  show ?case
  proof (cases "par cur")
    case None
    with Suc.prems show ?thesis by auto
  next
    case q: (Some q)
    show ?thesis
    proof (cases "q \<in> seen")
      case True
      have "a \<in> seen" if "up_to n par q a"
        using up_to_closed [OF that True] Suc.prems q True by (metis option.inject)
      with Suc.prems q True show ?thesis by auto
    next
      case False
      have "a \<in> set (climb n par q (insert q seen)) \<longleftrightarrow> a \<notin> insert q seen \<and> up_to n par q a"
      proof (rule Suc.IH)
        show "r \<in> insert q seen" if "x \<in> insert q seen" "x \<noteq> q" "par x = Some r" for x r
          using that Suc.prems(2) [of x r] q by (cases "x = cur") auto
      qed simp
      with False q Suc.prems show ?thesis by auto
    qed
  qed
qed

lemma climb_distinct: "distinct (climb n par cur seen) \<and> set (climb n par cur seen) \<inter> seen = {}"
  by (induction n par cur seen rule: climb.induct) (auto split: option.splits)

lemma climb_length: "length (climb n par cur seen) \<le> n"
  by (induction n par cur seen rule: climb.induct) (auto split: option.splits)

lemma bfs_level_eq:
  assumes "bfs_level ch fr seen out nxt = (seen', out', nxt')"
  shows "seen' = seen \<union> set fr \<and>
    (\<exists>new. out' = out @ new \<and> set new = set fr - seen \<and> distinct new \<and>
       nxt' = nxt @ concat (List.map ch new))"
  using assms
proof (induction ch fr seen out nxt rule: bfs_level.induct)
  case (1 ch seen out nxt)
  then show ?case by auto
next
  case (2 ch c cs seen out nxt)
  show ?case
  proof (cases "c \<in> seen")
    case True
    with 2 show ?thesis by auto
  next
    case False
    with 2 obtain new where "seen' = insert c seen \<union> set cs"
      "out' = (out @ [c]) @ new" "set new = set cs - insert c seen" "distinct new"
      "nxt' = (nxt @ ch c) @ concat (List.map ch new)"
      by auto
    with False show ?thesis by (intro conjI exI [of _ "c # new"]) auto
  qed
qed

locale parent_forest =
  fixes par :: "'t \<Rightarrow> int \<Rightarrow> int option"
    and ch :: "'t \<Rightarrow> int \<Rightarrow> int list"
    and ok :: "'t \<Rightarrow> bool"
  assumes child_iff: "ok t \<Longrightarrow> c \<in> set (ch t a) \<longleftrightarrow> par t c = Some a"
begin

lemma up_to_step:
  "up_to (Suc j) (par t) c pid \<longleftrightarrow> c = pid \<or> (\<exists>q. par t c = Some q \<and> up_to j (par t) q pid)"
  by (auto split: option.splits)

lemma bfs_mem:
  assumes ok: "ok t"
    and seen: "seen = {c. up_to j (par t) c pid}"
    and fr: "\<And>c. c \<in> set fr \<Longrightarrow> up_to (Suc j) (par t) c pid"
    and new: "\<And>c. up_to (Suc j) (par t) c pid \<Longrightarrow> c \<notin> seen \<Longrightarrow> c \<in> set fr"
    and out: "set out = seen - {pid}"
  shows "set (bfs n (ch t) fr seen out) = {c. up_to (n + j) (par t) c pid} - {pid}"
  using assms
proof (induction n arbitrary: j fr seen out)
  case 0
  then show ?case by simp
next
  case (Suc n)
  show ?case
  proof (cases "fr = []")
    case True
    have "up_to (m + j) (par t) c pid \<Longrightarrow> c \<in> seen" for m c
    proof (induction m arbitrary: c)
      case 0
      then show ?case using Suc.prems(2) by simp
    next
      case (Suc m)
      then have "c = pid \<or> (\<exists>q. par t c = Some q \<and> up_to (m + j) (par t) q pid)"
        by (auto split: option.splits)
      with Suc.IH have "up_to (Suc j) (par t) c pid"
        using Suc.prems \<open>seen = {c. up_to j (par t) c pid}\<close> by (auto simp: up_to_step)
      with True Suc.prems \<open>\<And>c. up_to (Suc j) (par t) c pid \<Longrightarrow> c \<notin> seen \<Longrightarrow> c \<in> set fr\<close>
      show ?case by fastforce
    qed
    then have "up_to (Suc n + j) (par t) c pid \<Longrightarrow> c \<in> seen" for c .
    moreover have "c \<in> seen \<Longrightarrow> up_to (Suc n + j) (par t) c pid" for c
      using Suc.prems(2) up_to_mono [of j "par t" c pid "Suc n + j"] by simp
    ultimately have "{c. up_to (Suc n + j) (par t) c pid} = seen" by auto
    with True Suc.prems(5) show ?thesis by simp
  next
    case False
    obtain seen' out' nxt where lv: "bfs_level (ch t) fr seen out [] = (seen', out', nxt)"
      by (cases "bfs_level (ch t) fr seen out []") auto
    from bfs_level_eq [OF lv] obtain new where s': "seen' = seen \<union> set fr"
      and o': "out' = out @ new" "set new = set fr - seen"
      and n': "nxt = concat (List.map (ch t) new)" by auto
    have eq: "seen' = {c. up_to (Suc j) (par t) c pid}"
      using s' Suc.prems(2-4) up_to_mono [of j "par t" _ pid "Suc j"] by auto
    have "set (bfs n (ch t) nxt seen' out') = {c. up_to (n + Suc j) (par t) c pid} - {pid}"
    proof (rule Suc.IH [OF Suc.prems(1) eq])
      show "up_to (Suc (Suc j)) (par t) c pid" if "c \<in> set nxt" for c
      proof -
        from that n' obtain q where "q \<in> set new" "c \<in> set (ch t q)" by auto
        with o' Suc.prems(1,3) child_iff show ?thesis by (auto simp: up_to_step [of "Suc j"])
      qed
      show "c \<in> set nxt" if "up_to (Suc (Suc j)) (par t) c pid" "c \<notin> seen'" for c
      proof -
        from that eq have "c \<noteq> pid" by auto
        with that obtain q where q: "par t c = Some q" "up_to (Suc j) (par t) q pid"
          using up_to_step [of "Suc j"] by blast
        with that eq have "\<not> up_to j (par t) q pid" by (auto simp: up_to_step)
        with q eq s' Suc.prems(2) o' have "q \<in> set new" by auto
        moreover from q Suc.prems(1) have "c \<in> set (ch t q)" by (simp add: child_iff)
        ultimately show ?thesis by (auto simp: n')
      qed
      have "pid \<in> seen" using Suc.prems(2) by simp
      then show "set out' = seen' - {pid}"
        using o' s' Suc.prems(5) by auto
    qed
    with False lv show ?thesis by simp
  qed
qed

lemma bfs_distinct:
  "distinct out \<Longrightarrow> set out \<subseteq> seen \<Longrightarrow> distinct (bfs n (ch t) fr seen out)"
proof (induction n arbitrary: fr seen out)
  case (Suc n)
  obtain seen' out' nxt where lv: "bfs_level (ch t) fr seen out [] = (seen', out', nxt)"
    by (cases "bfs_level (ch t) fr seen out []") auto
  from bfs_level_eq [OF lv] Suc.prems have "distinct out'" "set out' \<subseteq> seen'" by auto
  with Suc lv show ?case by simp
qed simp

lemma descend_mem:
  assumes "ok t"
  shows "set (bfs n (ch t) (ch t pid) {pid} []) = {c. up_to n (par t) c pid} - {pid}"
proof -
  have "set (bfs n (ch t) (ch t pid) {pid} []) = {c. up_to (n + 0) (par t) c pid} - {pid}"
    by (rule bfs_mem [OF assms]) (use child_iff [OF assms] in \<open>auto split: option.splits\<close>)
  then show ?thesis by simp
qed

lemma walks_agree:
  assumes "ok t"
  shows "c \<in> set (bfs n (ch t) (ch t pid) {pid} []) \<longleftrightarrow> pid \<in> set (climb n (par t) c {c})"
proof -
  have "pid \<in> set (climb n (par t) c {c}) \<longleftrightarrow> pid \<notin> {c} \<and> up_to n (par t) c pid"
    by (rule climb_mem) auto
  then show ?thesis using descend_mem [OF assms] by auto
qed

end

section \<open>The trees that \<open>BuildTree\<close> makes\<close>

lemma build_links_snap [simp]: "tr_snap (build_links s ps t) = tr_snap t"
  by (induction s ps t rule: build_links.induct) (simp add: Let_def)+

lemma build_links_links:
  "distinct (List.map pr_pid ps) \<Longrightarrow>
   tr_links (build_links s ps t) pid =
     (case List.find (\<lambda>p. pr_pid p = pid) ps of
        Some p \<Rightarrow> Some (classify_link s p) | None \<Rightarrow> tr_links t pid)"
proof (induction s ps t rule: build_links.induct)
  case (2 s p ps t)
  have none: "List.find (\<lambda>x. pr_pid x = pr_pid p) ps = None"
    using "2.prems" by (auto simp: find_None_iff image_iff)
  show ?case using 2 none by (auto simp: Let_def split: option.splits)
qed simp

lemma build_links_children:
  "tr_children (build_links s ps t) a =
     tr_children t a @ List.map pr_pid (filter (\<lambda>p. classify_link s p = LinkIntact \<and> pr_ppid p = a) ps)"
  by (induction s ps t rule: build_links.induct) (auto simp: Let_def)

lemma tr_snap_build_tree [simp]: "tr_snap (build_tree s) = s"
  by (simp add: build_tree_def)

lemma children_build_tree [tree_simps]:
  "children (build_tree s) a =
     List.map pr_pid (filter (\<lambda>p. classify_link s p = LinkIntact \<and> pr_ppid p = a) (sn_procs s))"
  by (simp add: children_def build_tree_def build_links_children)

lemma link_build_tree:
  assumes "wf_snapshot s" "distinct_pids s"
  shows "link (build_tree s) pid =
    (case by_pid s pid of Some p \<Rightarrow> classify_link s p | None \<Rightarrow> LinkMissing)"
proof (cases "List.find (\<lambda>p. pr_pid p = pid) (sn_procs s)")
  case None
  then have "by_pid s pid = None"
    using assms(1) by (auto simp: find_None_iff by_pid_None)
  with None assms show ?thesis
    by (simp add: link_def build_tree_def build_links_links distinct_pids_def)
next
  case (Some p)
  then have "p \<in> set (sn_procs s)" "pr_pid p = pid" by (auto simp: find_Some_iff)
  with assms have "by_pid s pid = Some p" using by_pid_distinct by blast
  with Some assms show ?thesis
    by (simp add: link_def build_tree_def build_links_links distinct_pids_def)
qed

text \<open>A tree built from a snapshot whose PIDs are distinct.\<close>

definition built_tree :: "tree \<Rightarrow> bool" where
  "built_tree t \<longleftrightarrow> wf_snapshot (tr_snap t) \<and> distinct_pids (tr_snap t) \<and> t = build_tree (tr_snap t)"

lemma built_treeI: "distinct (List.map pr_pid ps) \<Longrightarrow> built_tree (build_tree (new_snapshot t ps n))"
  by (simp add: built_tree_def distinct_pids_def) (simp add: new_snapshot_def)

lemma parent_of_built:
  assumes "built_tree t"
  shows "parent_of t c = Some a \<longleftrightarrow>
    (\<exists>p. by_pid (tr_snap t) c = Some p \<and> classify_link (tr_snap t) p = LinkIntact \<and> pr_ppid p = a)"
proof -
  from assms have "link t c =
      (case by_pid (tr_snap t) c of Some p \<Rightarrow> classify_link (tr_snap t) p | None \<Rightarrow> LinkMissing)"
    using link_build_tree by (metis built_tree_def)
  then show ?thesis by (auto simp: parent_of_def split: option.splits)
qed

lemma tree_child_iff:
  assumes "built_tree t"
  shows "c \<in> set (children t a) \<longleftrightarrow> parent_of t c = Some a"
proof -
  let ?s = "tr_snap t"
  from assms have wf: "wf_snapshot ?s" "distinct_pids ?s" and t: "children t = children (build_tree ?s)"
    by (auto simp: built_tree_def)
  have "c \<in> set (children t a) \<longleftrightarrow>
      (\<exists>p \<in> set (sn_procs ?s). pr_pid p = c \<and> classify_link ?s p = LinkIntact \<and> pr_ppid p = a)"
    by (auto simp: t children_build_tree)
  also have "\<dots> \<longleftrightarrow> (\<exists>p. by_pid ?s c = Some p \<and> classify_link ?s p = LinkIntact \<and> pr_ppid p = a)"
    using by_pid_Some [OF wf(1)] by_pid_distinct [OF wf] by blast
  finally show ?thesis by (simp add: parent_of_built [OF assms])
qed

interpretation ptree: parent_forest parent_of children built_tree
  by unfold_locales (rule tree_child_iff)

lemma descendants_children: "descendants t pid = bfs max_tree_depth (children t) (children t pid) {pid} []"
  by (simp add: descendants_def children_def [abs_def])

lemma classify_link_intact:
  "classify_link s p = LinkIntact \<Longrightarrow>
     pr_pid p \<noteq> init_pid \<and> pr_ppid p \<noteq> init_pid \<and> pr_ppid p \<noteq> 0 \<and> pr_ppid p \<noteq> pr_pid p \<and>
     (\<exists>parent. by_pid s (pr_ppid p) = Some parent \<and> pr_start parent \<le> pr_start p)"
  by (auto simp: classify_link_def split: if_splits option.splits)

text \<open>Start times never increase along a walk towards the ancestors.\<close>

definition start_of :: "snapshot \<Rightarrow> int \<Rightarrow> gotime" where
  "start_of s pid = (case by_pid s pid of Some p \<Rightarrow> pr_start p | None \<Rightarrow> 0)"

lemma parent_start:
  assumes "built_tree t" "parent_of t c = Some a"
  shows "start_of (tr_snap t) a \<le> start_of (tr_snap t) c" and "a \<in> pr_pid ` set (sn_procs (tr_snap t))"
proof -
  from assms obtain p where p: "by_pid (tr_snap t) c = Some p"
    "classify_link (tr_snap t) p = LinkIntact" "pr_ppid p = a"
    by (auto simp: parent_of_built)
  from classify_link_intact [OF p(2)] obtain parent
    where q: "by_pid (tr_snap t) a = Some parent" "pr_start parent \<le> pr_start p"
    using p(3) by auto
  with p show "start_of (tr_snap t) a \<le> start_of (tr_snap t) c" by (simp add: start_of_def)
  from q assms(1) show "a \<in> pr_pid ` set (sn_procs (tr_snap t))"
    using by_pid_Some by (force simp: built_tree_def)
qed

lemma up_to_start:
  "built_tree t \<Longrightarrow> up_to n (parent_of t) c a \<Longrightarrow> start_of (tr_snap t) a \<le> start_of (tr_snap t) c"
proof (induction n arbitrary: c)
  case (Suc n)
  show ?case
  proof (cases "c = a")
    case False
    with Suc.prems obtain q where "parent_of t c = Some q" "up_to n (parent_of t) q a"
      by (auto split: option.splits)
    with Suc show ?thesis using parent_start(1) order_trans by blast
  qed simp
qed simp

section \<open>Properties\<close>

text \<open>C36: The two directions of the process graph agree: on a snapshot with distinct PIDs, a
  process is among the depth-bounded, cycle-safe descendants of another exactly when
  \<open>IsDescendantOf\<close>, which walks upwards, says so.\<close>

theorem descendants_iff_ancestor:
  assumes "distinct (List.map pr_pid procs)" and "t = build_tree (new_snapshot taken procs cnt)"
  shows "List.member (descendants t pid) c \<longleftrightarrow> is_descendant_of t c pid"
proof -
  have "built_tree t" unfolding assms(2) using assms(1) by (rule built_treeI)
  from ptree.walks_agree [OF this, of c max_tree_depth pid]
  show ?thesis by (simp add: descendants_children ancestors_def is_descendant_of_def)
qed

theorem descendants_iff_ancestor_witness:
  "let t = build_tree (new_snapshot 90
      [sample_process 7 1 50, sample_process 8 7 60, sample_process 9 8 70] 3) in
   List.member (descendants t 7) 9 \<and> is_descendant_of t 9 7"
proof -
  define t where "t = build_tree (new_snapshot 90
    [sample_process 7 1 50, sample_process 8 7 60, sample_process 9 8 70] 3)"
  have "List.member (descendants t 7) 9 \<longleftrightarrow> is_descendant_of t 9 7"
    by (rule descendants_iff_ancestor [OF _ t_def]) simp
  moreover have "is_descendant_of t 9 7" unfolding t_def by code_simp
  ultimately show ?thesis by (simp add: t_def Let_def)
qed

text \<open>No walk ever believes a recycled PID: every ancestor reported for a process is a
  different process of the snapshot that started no later, none is repeated, and the chain
  never exceeds the depth bound.\<close>

theorem ancestors_sound:
  assumes "distinct (List.map pr_pid procs)" and "s = new_snapshot taken procs cnt"
  shows "distinct (pid # ancestors (build_tree s) pid) \<and>
    length (ancestors (build_tree s) pid) \<le> 128 \<and>
    (\<forall>a \<in> set (ancestors (build_tree s) pid). start_of s a \<le> start_of s pid)"
proof -
  have built: "built_tree (build_tree s)" unfolding assms(2) using assms(1) by (rule built_treeI)
  have "start_of s a \<le> start_of s pid" if "a \<in> set (ancestors (build_tree s) pid)" for a
  proof -
    from that have "up_to max_tree_depth (parent_of (build_tree s)) pid a"
      using climb_mem [of pid "{pid}"] by (force simp: ancestors_def)
    from up_to_start [OF built this] show ?thesis by simp
  qed
  then show ?thesis
    using climb_distinct [of max_tree_depth "parent_of (build_tree s)" pid "{pid}"]
      climb_length [of max_tree_depth "parent_of (build_tree s)" pid "{pid}"]
    by (auto simp: ancestors_def max_tree_depth_def)
qed

theorem ancestors_sound_witness:
  "let s = new_snapshot 90 [sample_process 7 1 50, sample_process 8 7 60, sample_process 9 8 70] 3
   in ancestors (build_tree s) 9 = [8, 7] \<and> (\<forall>a \<in> {8, 7}. start_of s a \<le> start_of s 9)"
proof -
  define s where "s = new_snapshot 90
    [sample_process 7 1 50, sample_process 8 7 60, sample_process 9 8 70] 3"
  have "ancestors (build_tree s) 9 = [8, 7]" unfolding s_def by code_simp
  moreover have "\<forall>a \<in> set (ancestors (build_tree s) 9). start_of s a \<le> start_of s 9"
    using ancestors_sound [OF _ s_def, of 9] by simp
  ultimately show ?thesis by (simp add: s_def Let_def)
qed

end
