(* ===== verification/Adapters.thy ===== *)
theory Adapters
  imports Classification Process_Tree "HOL-Library.AList"
begin

text \<open>
  The contract between the daemon and per-agent detection (\<open>internal/adapters\<close>):
  confidence thresholds, the noisy-or that folds evidence weights, roots, attributions
  and the registry. An adapter is a record of the interface's methods. Confidences are
  \<open>float64\<close> in the code and rationals here; the context argument, which only carries
  cancellation, is left out.
\<close>

named_theorems adapter_simps \<open>facts about adapters and confidences\<close>

definition confidence_policy_eligible :: rat where "confidence_policy_eligible = 95 / 100"
definition confidence_attributable :: rat where "confidence_attributable = 75 / 100"
definition confidence_root_detection :: rat where "confidence_root_detection = 5 / 10"
definition confidence_environment_membership :: rat where
  "confidence_environment_membership = 90 / 100"

lemmas confidence_defs = confidence_policy_eligible_def confidence_attributable_def
  confidence_root_detection_def confidence_environment_membership_def

datatype evidence_kind = KindExecutable | KindArgv | KindEnvironment | KindAncestry
  | KindWorkingDir | KindTerminal | KindRecorded | KindProcessInfo

record agent_evidence =
  ae_kind :: evidence_kind
  ae_detail :: detail
  ae_weight :: rat

text \<open>\<open>CombineWeights\<close>: the loop, and the final cap.\<close>

definition weight_cap :: rat where "weight_cap = 99 / 100"

fun combine_inverse :: "agent_evidence list \<Rightarrow> rat \<Rightarrow> rat" where
  "combine_inverse [] acc = acc"
| "combine_inverse (e # es) acc =
     (if ae_weight e \<le> 0 then combine_inverse es acc
      else combine_inverse es
        (acc * (1 - (if weight_cap < ae_weight e then weight_cap else ae_weight e))))"

definition combine_weights :: "agent_evidence list \<Rightarrow> rat" where
  "combine_weights evs =
     (let c = 1 - combine_inverse evs 1 in if weight_cap < c then weight_cap else c)"

record session_metadata =
  sm_session_id :: string
  sm_working_dir :: string
  sm_repository_path :: string
  sm_tty :: string
  sm_invocation :: string
  sm_extra :: "(string \<times> string) list"

definition empty_metadata :: session_metadata where
  "empty_metadata = \<lparr>sm_session_id = [], sm_working_dir = [], sm_repository_path = [],
     sm_tty = [], sm_invocation = [], sm_extra = []\<rparr>"

record agent_root =
  ar_agent_id :: string
  ar_process :: process
  ar_key :: key
  ar_metadata :: session_metadata
  ar_confidence :: rat
  ar_evidence :: "agent_evidence list"
  ar_conflicts :: "agent_evidence list"

datatype relation = RelationNone | RelationRoot | RelationDescendant | RelationRecorded
  | RelationEnvironment

record adapter_attribution =
  aa_agent_id :: string
  aa_session_id :: string
  aa_confidence :: rat
  aa_evidence :: "agent_evidence list"
  aa_conflicts :: "agent_evidence list"
  aa_relation :: relation
  aa_root_key :: key

text \<open>\<open>Attribution.Attributed\<close>, shared by the adapter's and the daemon's attribution.\<close>

definition attributed :: "string \<Rightarrow> rat \<Rightarrow> bool" where
  "attributed session_id confidence \<longleftrightarrow> session_id \<noteq> [] \<and> confidence_attributable \<le> confidence"

record protection_rule =
  pt_id :: string
  pt_reason :: string
  pt_exec_names :: "string list"
  pt_path_segment :: string
  pt_always :: bool

record known_session =
  ks_agent_id :: string
  ks_native_id :: string
  ks_session_id :: string
  ks_root_key :: key
  ks_metadata :: session_metadata

text \<open>The roots are a Go map from PID to root: an association list with distinct keys.\<close>

record graph =
  gr_snapshot :: snapshot
  gr_tree :: tree
  gr_roots :: "(int \<times> agent_root) list"
  gr_known :: "known_session list"

datatype provider_state = ProviderActive | ProviderCompleted | ProviderOther string

record provider_session =
  ps_agent_id :: string
  ps_native_id :: string
  ps_session_id :: string
  ps_root :: agent_root
  ps_state :: provider_state
  ps_started_at :: gotime
  ps_changed_at :: gotime
  ps_metadata :: session_metadata
  ps_evidence :: "agent_evidence list"

text \<open>
  The methods of \<open>AgentAdapter\<close>; the optional \<open>SessionLifecycleAdapter\<close> is \<^const>\<open>None\<close>
  for an adapter that does not implement it.
\<close>

record adapter =
  ag_id :: string
  ag_env_keys :: "string list"
  ag_detect_roots :: "graph \<Rightarrow> string + agent_root list"
  ag_attribute :: "process \<Rightarrow> graph \<Rightarrow> adapter_attribution"
  ag_native_session_id :: "process \<Rightarrow> string option"
  ag_protected_patterns :: "protection_rule list"
  ag_discover_sessions :: "(graph \<Rightarrow> provider_session list) option"

section \<open>The registry\<close>

type_synonym registry = "adapter list"

definition new_registry :: "adapter list \<Rightarrow> registry" where
  "new_registry as = sort_key ag_id as"

text \<open>The loops of \<open>Registry.EnvKeys\<close>: first occurrences, then sorted.\<close>

fun collect_new :: "string list \<Rightarrow> string list \<Rightarrow> string list" where
  "collect_new out [] = out"
| "collect_new out (k # ks) = collect_new (if k \<in> set out then out else out @ [k]) ks"

fun collect_env_keys :: "string list \<Rightarrow> adapter list \<Rightarrow> string list" where
  "collect_env_keys out [] = out"
| "collect_env_keys out (a # as) = collect_env_keys (collect_new out (ag_env_keys a)) as"

definition registry_env_keys :: "registry \<Rightarrow> string list" where
  "registry_env_keys r = sort (collect_env_keys [] r)"

section \<open>Lemmas\<close>

lemma combine_inverse_bounds:
  "0 < acc \<Longrightarrow> acc \<le> 1 \<Longrightarrow> 0 < combine_inverse evs acc \<and> combine_inverse evs acc \<le> acc"
proof (induction evs acc rule: combine_inverse.induct)
  case (2 e es acc)
  show ?case
  proof (cases "ae_weight e \<le> 0")
    case True
    with 2 show ?thesis by simp
  next
    case False
    define w where "w = (if weight_cap < ae_weight e then weight_cap else ae_weight e)"
    have w: "0 < w" "w < 1" using False by (auto simp: w_def weight_cap_def)
    then have "0 < acc * (1 - w)" "acc * (1 - w) \<le> acc"
      using "2.prems" by (simp_all add: mult_le_cancel_left1)
    with "2.IH"(2) [OF False] "2.prems" False show ?thesis
      by (simp add: w_def [symmetric] del: combine_inverse.simps(1))
  qed
qed simp

lemma combine_weights_range: "0 \<le> combine_weights evs \<and> combine_weights evs \<le> weight_cap"
  using combine_inverse_bounds [of 1 evs] by (auto simp: combine_weights_def weight_cap_def Let_def)

lemma combine_inverse_append:
  "combine_inverse (xs @ ys) acc = combine_inverse ys (combine_inverse xs acc)"
  by (induction xs acc rule: combine_inverse.induct) auto

lemma combine_weights_append_mono: "combine_weights xs \<le> combine_weights (xs @ ys)"
proof -
  have x: "0 < combine_inverse xs 1" "combine_inverse xs 1 \<le> 1"
    using combine_inverse_bounds [of 1 xs] by auto
  have "combine_inverse (xs @ ys) 1 \<le> combine_inverse xs 1"
    unfolding combine_inverse_append using combine_inverse_bounds [OF x] by auto
  then show ?thesis by (simp add: combine_weights_def Let_def)
qed

lemma set_collect_new [simp]: "set (collect_new out ks) = set out \<union> set ks"
  by (induction out ks rule: collect_new.induct) auto

lemma distinct_collect_new: "distinct out \<Longrightarrow> distinct (collect_new out ks)"
  by (induction out ks rule: collect_new.induct) auto

lemma collect_env_keys_set:
  "set (collect_env_keys out as) = set out \<union> (\<Union>a \<in> set as. set (ag_env_keys a))"
  by (induction out as rule: collect_env_keys.induct) auto

lemma distinct_collect_env_keys: "distinct out \<Longrightarrow> distinct (collect_env_keys out as)"
  by (induction out as rule: collect_env_keys.induct) (auto simp: distinct_collect_new)

lemma registry_env_keys_set [adapter_simps]:
  "set (registry_env_keys r) = (\<Union>a \<in> set r. set (ag_env_keys a))"
  by (simp add: registry_env_keys_def collect_env_keys_set)

text \<open>Heuristic agreement is never certainty: however much evidence is combined, the
  confidence stays within 0 and 0.99, and adding evidence never lowers it.\<close>

theorem combine_weights_bounded_monotone:
  "0 \<le> combine_weights evs \<and> combine_weights evs \<le> 99 / 100 \<and>
   combine_weights evs \<le> combine_weights (evs @ evs2)"
  using combine_weights_range combine_weights_append_mono by (simp add: weight_cap_def)

end
