(* ===== verification/Redaction.thy ===== *)
theory Redaction
  imports GG_Prelude "HOL-Library.AList"
begin

text \<open>
  Redaction of command lines and environments before they are stored
  (\<open>internal/process/redact.go\<close>). The URL library is a parameter: a record of the
  \<open>net/url\<close> operations the code calls. Environments are association lists; a Go map of
  length 0 is the empty list. The lemmas give a position-wise reading of \<open>RedactArgs\<close>
  and the allowlist guarantee of \<open>RedactEnv\<close>.
\<close>

named_theorems redact_simps \<open>facts about redaction\<close>

definition Redacted :: string where "Redacted = ''[redacted]''"

definition sensitive_name_parts :: "string list" where
  "sensitive_name_parts =
     [''key'', ''keys'', ''apikey'', ''apikeys'', ''token'', ''tokens'', ''secret'', ''secrets'',
      ''password'', ''passwd'', ''pass'', ''pwd'', ''credential'', ''credentials'', ''creds'',
      ''auth'', ''authorization'', ''bearer'', ''cookie'', ''cookies'', ''signature'', ''sig'',
      ''dsn'', ''passphrase'', ''privatekey'', ''jwt'', ''authentication'', ''approval'']"

definition sensitive_name_substrings :: "string list" where
  "sensitive_name_substrings =
     [''apikey'', ''api_key'', ''accesskey'', ''access_key'', ''secretkey'', ''secret_key'',
      ''password'', ''passwd'', ''authtoken'', ''auth_token'', ''accesstoken'',
      ''access_token'', ''refreshtoken'', ''refresh_token'', ''privatekey'',
      ''private_key'', ''clientsecret'', ''client_secret'', ''connectionstring'',
      ''connection_string'', ''sessiontoken'', ''session_token'', ''sessionkey'',
      ''session_key'', ''sessionsecret'', ''session_secret'']"

definition secret_value_prefixes :: "string list" where
  "secret_value_prefixes =
     [''sk-'', ''sk_live_'', ''sk_test_'', ''rk_live_'', ''pk_live_'',
      ''ghp_'', ''gho_'', ''ghu_'', ''ghs_'', ''ghr_'', ''github_pat_'',
      ''xoxb-'', ''xoxp-'', ''xoxa-'', ''xoxs-'', ''xapp-'',
      ''glpat-'', ''npm_'', ''dop_v1_'', ''doo_v1_'', ''sq0atp-'', ''sq0csp-'',
      ''AKIA'', ''ASIA'', ''AIza'', ''ya29.'', ''eyJ'', ''hf_'', ''sbp_'', ''shpat_'',
      ''anthropic-'', ''Bearer '', ''Basic '', ''Token '']"

definition sensitive_query_params :: "string list" where
  "sensitive_query_params =
     [''sig'', ''signature'', ''token'', ''access_token'', ''key'', ''apikey'', ''api_key'',
      ''password'', ''x-amz-signature'', ''x-amz-security-token'', ''x-amz-credential'',
      ''se'', ''sp'', ''sv'', ''sr'', ''st'']"

definition is_name_separator :: "char \<Rightarrow> bool" where
  "is_name_separator c \<longleftrightarrow>
     c = CHR ''-'' \<or> c = CHR ''_'' \<or> c = CHR ''.'' \<or> c = CHR '':''"

text \<open>\<open>SensitiveName\<close> and \<open>SensitiveValue\<close>.\<close>

definition sensitive_name :: "string \<Rightarrow> bool" where
  "sensitive_name name =
     (let n = to_lower (trim_left (\<lambda>c. c = CHR ''-'') name) in
      if n = [] then False
      else list_ex (\<lambda>sub. contains_str sub n) sensitive_name_substrings
        \<or> list_ex (List.member sensitive_name_parts) (fields_func is_name_separator [] n))"

definition sensitive_value :: "string \<Rightarrow> bool" where
  "sensitive_value v = list_ex (\<lambda>p. has_prefix p v) secret_value_prefixes"

section \<open>Values and URLs\<close>

text \<open>The operations of \<open>net/url\<close> that \<open>redactURL\<close> calls, for a URL type \<open>'u\<close>.\<close>

record 'u url_ops =
  url_parse :: "string \<Rightarrow> 'u option"
  url_user :: "'u \<Rightarrow> (string \<times> string option) option"
  url_set_user :: "'u \<Rightarrow> string \<Rightarrow> string \<Rightarrow> 'u"
  url_raw_query :: "'u \<Rightarrow> string"
  url_set_raw_query :: "'u \<Rightarrow> string \<Rightarrow> 'u"
  url_parse_query :: "string \<Rightarrow> (string \<times> string list) list option"
  url_encode :: "(string \<times> string list) list \<Rightarrow> string"
  url_string :: "'u \<Rightarrow> string"

text \<open>\<open>strings.Index(v, "://")\<close>, and the test that it lies strictly between 0 and 16.\<close>

fun index_of :: "nat \<Rightarrow> string \<Rightarrow> string \<Rightarrow> nat option" where
  "index_of i sub [] = (if sub = [] then Some i else None)"
| "index_of i sub (c # cs) =
     (if has_prefix sub (c # cs) then Some i else index_of (Suc i) sub cs)"

definition looks_like_url :: "string \<Rightarrow> bool" where
  "looks_like_url v = (case index_of 0 ''://'' v of None \<Rightarrow> False | Some i \<Rightarrow> 0 < i \<and> i < 16)"

text \<open>The loop over the query parameters: the rewritten values and whether any changed.\<close>

fun redact_query :: "(string \<times> string list) list \<Rightarrow> bool \<Rightarrow> (string \<times> string list) list \<times> bool" where
  "redact_query [] changed = ([], changed)"
| "redact_query ((k, vs) # kvs) changed =
     (if \<not> List.member sensitive_query_params (to_lower k) \<and> \<not> sensitive_name k
      then (let (r, c) = redact_query kvs changed in ((k, vs) # r, c))
      else (let (r, c) = redact_query kvs True in ((k, List.map (\<lambda>_. Redacted) vs) # r, c)))"

definition redact_url :: "'u url_ops \<Rightarrow> string \<Rightarrow> string" where
  "redact_url ops raw =
     (case url_parse ops raw of
        None \<Rightarrow> Redacted
      | Some u \<Rightarrow>
          (let (u1, c1) = (case url_user ops u of
               Some (name, Some _) \<Rightarrow> (url_set_user ops u name Redacted, True)
             | _ \<Rightarrow> (u, False)) in
           if url_raw_query ops u1 = [] then (if c1 then url_string ops u1 else raw)
           else (case url_parse_query ops (url_raw_query ops u1) of
               None \<Rightarrow> Redacted
             | Some values \<Rightarrow>
                 (let (values', c2) = redact_query values c1 in
                  if \<not> c2 then raw
                  else url_string ops (url_set_raw_query ops u1 (url_encode ops values'))))))"

definition redact_value :: "'u url_ops \<Rightarrow> string \<Rightarrow> string" where
  "redact_value ops v =
     (if v = [] then v
      else if sensitive_value v then Redacted
      else if looks_like_url v then redact_url ops v
      else v)"

section \<open>Command lines\<close>

definition is_flag :: "string \<Rightarrow> bool" where
  "is_flag a \<longleftrightarrow> has_prefix ''-'' a"

text \<open>\<open>NAME=VALUE\<close>, shared by the flag branch and the bare-argument branch.\<close>

definition redact_assign :: "'u url_ops \<Rightarrow> string \<Rightarrow> string \<Rightarrow> string" where
  "redact_assign ops name val =
     name @ ''='' @ (if sensitive_name name then Redacted else redact_value ops val)"

text \<open>
  The loop of \<open>RedactArgs\<close>: \<open>redact_next\<close> says that the previous argument was a
  sensitive flag without a value and that another argument follows.
\<close>

fun redact_loop :: "'u url_ops \<Rightarrow> bool \<Rightarrow> string list \<Rightarrow> string list" where
  "redact_loop ops redact_next [] = []"
| "redact_loop ops redact_next (a # as) =
     (if redact_next then
        (if is_flag a then a else Redacted) # redact_loop ops False as
      else if is_flag a then
        (case cut (CHR ''='') a of
           Some (name, val) \<Rightarrow> redact_assign ops name val # redact_loop ops False as
         | None \<Rightarrow> a # redact_loop ops (sensitive_name a \<and> as \<noteq> []) as)
      else
        (case cut (CHR ''='') a of
           Some (name, val) \<Rightarrow>
             if name \<noteq> [] \<and> CHR '' '' \<notin> set name \<and> CHR ''/'' \<notin> set name
             then redact_assign ops name val # redact_loop ops False as
             else redact_value ops a # redact_loop ops False as
         | None \<Rightarrow> redact_value ops a # redact_loop ops False as))"

definition redact_args :: "'u url_ops \<Rightarrow> string list \<Rightarrow> string list" where
  "redact_args ops args = redact_loop ops False args"

section \<open>Environments\<close>

record env_policy =
  ep_allow :: "string list"
  ep_redact_values :: bool

fun redact_env_loop :: "'u url_ops \<Rightarrow> bool \<Rightarrow> (string \<times> string) list \<Rightarrow> string list
    \<Rightarrow> (string \<times> string) list \<Rightarrow> (string \<times> string) list" where
  "redact_env_loop ops rv env [] out = out"
| "redact_env_loop ops rv env (name # names) out =
     (case map_of env name of
        None \<Rightarrow> redact_env_loop ops rv env names out
      | Some v \<Rightarrow>
          redact_env_loop ops rv env names
            (AList.update name
               (if rv \<and> sensitive_name name then Redacted
                else if rv then redact_value ops v
                else v) out))"

definition redact_env :: "'u url_ops \<Rightarrow> (string \<times> string) list \<Rightarrow> env_policy \<Rightarrow> (string \<times> string) list" where
  "redact_env ops env pol =
     (if env = [] \<or> ep_allow pol = [] then []
      else redact_env_loop ops (ep_redact_values pol) env (ep_allow pol) [])"

section \<open>Lemmas\<close>

text \<open>The treatment of one argument, given whether it is the value of a sensitive flag.\<close>

definition redact_one :: "'u url_ops \<Rightarrow> bool \<Rightarrow> string \<Rightarrow> string" where
  "redact_one ops pending a = hd (redact_loop ops pending [a])"

definition opens_value :: "string \<Rightarrow> bool" where
  "opens_value a \<longleftrightarrow> is_flag a \<and> cut (CHR ''='') a = None \<and> sensitive_name a"

lemma redact_loop_Cons:
  "redact_loop ops pending (a # as) =
     redact_one ops pending a # redact_loop ops (\<not> pending \<and> opens_value a \<and> as \<noteq> []) as"
  by (auto simp: redact_one_def opens_value_def split: option.splits)

text \<open>
  Whether position \<open>i\<close> is read as the value of a sensitive flag, when the first position
  is (\<open>p\<close>).
\<close>

fun pending_from :: "bool \<Rightarrow> string list \<Rightarrow> nat \<Rightarrow> bool" where
  "pending_from p args 0 = p"
| "pending_from p args (Suc i) = (\<not> pending_from p args i \<and> opens_value (args ! i))"

lemma pending_from_Cons:
  "pending_from p (a # as) (Suc i) = pending_from (\<not> p \<and> opens_value a) as i"
  by (induction i) auto

lemma redact_loop_length [redact_simps]: "length (redact_loop ops p as) = length as"
  by (induction as arbitrary: p) (simp_all add: redact_loop_Cons del: redact_loop.simps(2))

lemma redact_loop_nth:
  "i < length as \<Longrightarrow> redact_loop ops p as ! i = redact_one ops (pending_from p as i) (as ! i)"
proof (induction as arbitrary: p i)
  case (Cons a as)
  show ?case
  proof (cases i)
    case (Suc j)
    with Cons.prems have "as \<noteq> []" and j: "j < length as" by auto
    then show ?thesis using Cons.IH [OF j] Suc
      by (simp add: redact_loop_Cons pending_from_Cons del: redact_loop.simps pending_from.simps)
  qed (simp add: redact_loop_Cons del: redact_loop.simps)
qed simp

lemma redact_one_pending: "redact_one ops True a = (if is_flag a then a else Redacted)"
  by (simp add: redact_one_def)

lemma redact_one_assign:
  assumes "cut (CHR ''='') a = Some (name, val)"
    and "is_flag a \<or> (name \<noteq> [] \<and> CHR '' '' \<notin> set name \<and> CHR ''/'' \<notin> set name)"
  shows "redact_one ops False a = redact_assign ops name val"
  using assms by (auto simp: redact_one_def)

lemma redact_one_bare:
  "\<not> is_flag a \<Longrightarrow> CHR ''='' \<notin> set a \<Longrightarrow> redact_one ops False a = redact_value ops a"
  using cut_None [of "CHR ''=''" a] by (simp add: redact_one_def)

lemma redact_args_length [redact_simps]: "length (redact_args ops args) = length args"
  by (simp add: redact_args_def redact_simps)

lemma redact_args_nth [redact_simps]:
  "i < length args \<Longrightarrow> redact_args ops args ! i = redact_one ops (pending_from False args i) (args ! i)"
  by (simp add: redact_args_def redact_loop_nth)

lemma redact_value_secret: "sensitive_value v \<Longrightarrow> redact_value ops v = Redacted"
  by (auto simp: redact_value_def sensitive_value_def secret_value_prefixes_def has_prefix_def)

text \<open>The value \<open>RedactEnv\<close> stores for one allowlisted variable.\<close>

definition env_value :: "'u url_ops \<Rightarrow> bool \<Rightarrow> string \<Rightarrow> string \<Rightarrow> string" where
  "env_value ops rv name v =
     (if rv \<and> sensitive_name name then Redacted else if rv then redact_value ops v else v)"

lemma redact_env_loop_map:
  "map_of (redact_env_loop ops rv env names out) k =
     (if k \<in> set names \<and> map_of env k \<noteq> None
      then map_option (env_value ops rv k) (map_of env k) else map_of out k)"
proof (induction ops rv env names out rule: redact_env_loop.induct)
  case (2 ops rv env name names out)
  then show ?case
    by (cases "map_of env name") (auto simp: env_value_def update_conv')
qed simp

section \<open>Properties\<close>

text \<open>C37: What command-line redaction does at every position. The list keeps its length. A position is a value
  position when the argument before it is a bare sensitive flag that is not at a value position itself; there the
  placeholder is stored, except that an argument starting with a dash is stored as it is, whatever it says. At
  any other position the value of \<open>--name=value\<close> or \<open>NAME=value\<close> with a sensitive name becomes the
  placeholder, and so does the argument that follows a bare sensitive flag, unless it starts with a dash.\<close>

theorem redact_args_credentials:
  assumes "i < length args"
  shows "length (redact_args ops args) = length args \<and>
    (if pending_from False args i
     then redact_args ops args ! i = (if is_flag (args ! i) then args ! i else Redacted)
     else (\<forall>name val. args ! i = name @ ''='' @ val \<and> CHR ''='' \<notin> set name \<and> sensitive_name name \<and>
         (is_flag (args ! i) \<or> CHR '' '' \<notin> set name \<and> CHR ''/'' \<notin> set name) \<longrightarrow>
         redact_args ops args ! i = name @ ''='' @ Redacted) \<and>
       (opens_value (args ! i) \<and> Suc i < length args \<and> \<not> is_flag (args ! Suc i) \<longrightarrow>
         redact_args ops args ! Suc i = Redacted))"
proof -
  have assigned: "redact_args ops args ! i = name @ ''='' @ Redacted"
    if free: "\<not> pending_from False args i" and h: "args ! i = name @ ''='' @ val \<and> CHR ''='' \<notin> set name \<and> sensitive_name name \<and>
       (is_flag (args ! i) \<or> CHR '' '' \<notin> set name \<and> CHR ''/'' \<notin> set name)" for name val
  proof -
    have "cut (CHR ''='') (args ! i) = Some (name, val)" using h by simp
    moreover have "name \<noteq> []"
      using h by (auto simp: sensitive_name_def trim_left_def to_lower_def)
    ultimately have "redact_one ops False (args ! i) = redact_assign ops name val"
      using h by (intro redact_one_assign) auto
    with assms free h show ?thesis by (simp add: redact_simps redact_assign_def)
  qed
  show ?thesis
    using assms assigned by (auto simp: redact_simps redact_one_pending)
qed

text \<open>A URL library for which no string parses, for the closed instances below.\<close>

definition no_urls :: "unit url_ops" where
  "no_urls = \<lparr>url_parse = (\<lambda>_. None), url_user = (\<lambda>_. None), url_set_user = (\<lambda>u _ _. u),
     url_raw_query = (\<lambda>_. []), url_set_raw_query = (\<lambda>u _. u), url_parse_query = (\<lambda>_. None),
     url_encode = (\<lambda>_. []), url_string = (\<lambda>_. [])\<rparr>"

theorem redact_args_credentials_witness:
  "redact_args no_urls [''--token'', ''hunter2'', ''run''] ! 1 = Redacted"
proof -
  have "opens_value ''--token''" by code_simp
  moreover have "\<not> is_flag ''hunter2''" by code_simp
  ultimately show ?thesis
    using redact_args_credentials [of 0 "[''--token'', ''hunter2'', ''run'']" no_urls] by simp
qed

text \<open>The allowlist of the environment policy is exact: a variable is kept precisely when it
  is allowlisted and set, with the placeholder for a sensitive name, the redacted value
  otherwise, and the plain value only when the policy does not redact values.\<close>

theorem redact_env_exact:
  "map_of (redact_env ops env pol) k =
     (if k \<in> set (ep_allow pol) then
        map_option (\<lambda>v. if ep_redact_values pol \<and> sensitive_name k then Redacted
                         else if ep_redact_values pol then redact_value ops v else v) (map_of env k)
      else None)"
  by (auto simp: redact_env_def redact_env_loop_map env_value_def)

text \<open>A leak in command-line redaction: the argument after a bare sensitive flag is copied
  verbatim whenever it starts with a dash, and it is not examined as a flag itself, so a
  credential in a following \<open>--name=value\<close> is stored in full.\<close>

theorem redact_args_dash_leak:
  assumes "opens_value a" and "is_flag b"
  shows "redact_args ops (a # b # as) = a # b # redact_args ops as"
proof -
  have "redact_one ops False a = a"
    using assms(1) by (auto simp: redact_one_def opens_value_def)
  with assms show ?thesis
    by (simp add: redact_args_def redact_loop_Cons redact_one_pending del: redact_loop.simps)
qed

theorem redact_args_dash_leak_witness:
  "sensitive_name ''--password'' \<and>
   redact_args no_urls [''--token'', ''--password=hunter2''] = [''--token'', ''--password=hunter2'']"
proof -
  have "opens_value ''--token''" "is_flag ''--password=hunter2''" "sensitive_name ''--password''"
    by code_simp+
  then show ?thesis
    using redact_args_dash_leak [of "''--token''" "''--password=hunter2''" no_urls "[]"]
    by (simp add: redact_args_def)
qed

text \<open>Naked credentials: a bare argument that looks like a credential and has no equals sign
  is always replaced, in whatever position; but one that ends in an equals sign (base64
  padding) is read as an assignment with an empty value and stored verbatim.\<close>

theorem redact_args_naked_credential:
  assumes "i < length args" and "\<not> is_flag (args ! i)" and "sensitive_value (args ! i)"
  shows "(CHR ''='' \<notin> set (args ! i) \<longrightarrow> redact_args ops args ! i = Redacted) \<and>
    (\<not> pending_from False args i \<and> args ! i = name @ ''='' \<and> CHR ''='' \<notin> set name \<and> name \<noteq> [] \<and>
       CHR '' '' \<notin> set name \<and> CHR ''/'' \<notin> set name \<and> \<not> sensitive_name name \<longrightarrow>
       redact_args ops args ! i = args ! i)"
proof (intro conjI impI)
  show "redact_args ops args ! i = Redacted" if "CHR ''='' \<notin> set (args ! i)"
    using assms that by (cases "pending_from False args i")
      (simp_all add: redact_simps redact_one_pending redact_one_bare redact_value_secret)
  show "redact_args ops args ! i = args ! i"
    if h: "\<not> pending_from False args i \<and> args ! i = name @ ''='' \<and> CHR ''='' \<notin> set name \<and> name \<noteq> [] \<and>
       CHR '' '' \<notin> set name \<and> CHR ''/'' \<notin> set name \<and> \<not> sensitive_name name"
  proof -
    have "cut (CHR ''='') (args ! i) = Some (name, [])" using h by (simp add: cut_Some)
    with h have "redact_one ops False (args ! i) = redact_assign ops name []"
      by (intro redact_one_assign) auto
    with assms(1) h show ?thesis by (simp add: redact_simps redact_assign_def redact_value_def)
  qed
qed

theorem redact_args_naked_credential_witness:
  "redact_args no_urls [''deploy'', ''ghp_1a2b''] ! 1 = Redacted \<and>
   redact_args no_urls [''deploy'', ''ghp_1a2b=''] ! 1 = ''ghp_1a2b=''"
proof -
  have f: "\<not> is_flag ''ghp_1a2b''" "\<not> is_flag ''ghp_1a2b=''" by code_simp+
  have v: "sensitive_value ''ghp_1a2b''" "sensitive_value ''ghp_1a2b=''" by code_simp+
  have n: "\<not> sensitive_name ''ghp_1a2b''" "\<not> opens_value ''deploy''" by code_simp+
  show ?thesis
    using redact_args_naked_credential [of 1 "[''deploy'', ''ghp_1a2b'']" no_urls "''ghp_1a2b''"] f v n
      redact_args_naked_credential [of 1 "[''deploy'', ''ghp_1a2b='']" no_urls "''ghp_1a2b''"]
    by (simp add: numeral_eq_Suc)
qed

end
