(* ===== verification/Paths.thy ===== *)
theory Paths
  imports GG_Prelude
begin

text \<open>
  The functions of \<open>path/filepath\<close> (on Unix) that the sources use: \<open>IsAbs\<close>, \<open>Clean\<close>,
  \<open>Join\<close>, \<open>Dir\<close> and \<open>Rel\<close>, on byte strings.
\<close>

definition is_abs :: "string \<Rightarrow> bool" where
  "is_abs s \<longleftrightarrow> has_prefix ''/'' s"

fun clean_segments :: "bool \<Rightarrow> string list \<Rightarrow> string list \<Rightarrow> string list" where
  "clean_segments rooted stack [] = rev stack"
| "clean_segments rooted stack (s # ss) =
     (if s = [] \<or> s = ''.'' then clean_segments rooted stack ss
      else if s = ''..'' then
        (case stack of
           [] \<Rightarrow> clean_segments rooted (if rooted then [] else [s]) ss
         | t # ts \<Rightarrow> if t = ''..'' then clean_segments rooted (s # stack) ss
                     else clean_segments rooted ts ss)
      else clean_segments rooted (s # stack) ss)"

fun join_with :: "string \<Rightarrow> string list \<Rightarrow> string" where
  "join_with sep [] = []"
| "join_with sep [s] = s"
| "join_with sep (s # t # ss) = s @ sep @ join_with sep (t # ss)"

definition path_clean :: "string \<Rightarrow> string" where
  "path_clean s =
     (if s = [] then ''.''
      else let segs = clean_segments (is_abs s) [] (split_on (CHR ''/'') s);
               out = (if is_abs s then ''/'' else []) @ join_with ''/'' segs in
        if out = [] then ''.'' else out)"

definition path_join :: "string list \<Rightarrow> string" where
  "path_join parts =
     (let ps = filter (\<lambda>p. p \<noteq> []) parts in if ps = [] then [] else path_clean (join_with ''/'' ps))"

text \<open>\<open>filepath.Dir\<close>: everything up to and including the last slash, cleaned.\<close>

definition path_dir :: "string \<Rightarrow> string" where
  "path_dir s = path_clean (rev (dropWhile (\<lambda>c. c \<noteq> CHR ''/'') (rev s)))"

text \<open>\<open>filepath.Rel\<close>: the components of a cleaned path, and the way from one to another.\<close>

definition path_components :: "string \<Rightarrow> string list" where
  "path_components p = filter (\<lambda>c. c \<noteq> [] \<and> c \<noteq> ''.'') (split_on (CHR ''/'') (path_clean p))"

fun drop_common :: "string list \<Rightarrow> string list \<Rightarrow> string list \<times> string list" where
  "drop_common (x # xs) (y # ys) = (if x = y then drop_common xs ys else (x # xs, y # ys))"
| "drop_common xs ys = (xs, ys)"

definition path_rel :: "string \<Rightarrow> string \<Rightarrow> string option" where
  "path_rel base target =
     (if is_abs (path_clean base) \<noteq> is_abs (path_clean target) then None
      else (case drop_common (path_components base) (path_components target) of
        ([], []) \<Rightarrow> Some ''.''
      | (b # bs, ts) \<Rightarrow> if b = ''..'' then None
                        else Some (join_with ''/'' (replicate (length (b # bs)) ''..'' @ ts))
      | ([], ts) \<Rightarrow> Some (join_with ''/'' ts)))"

lemma path_clean_not_Nil [simp]: "path_clean s \<noteq> []"
  by (simp add: path_clean_def Let_def)

lemma path_dir_not_Nil [simp]: "path_dir s \<noteq> []"
  by (simp add: path_dir_def)

end
