(* ===== verification/Repository.thy ===== *)
theory Repository
  imports Paths "HOL-Library.AList"
begin

text \<open>
  The repository finder (\<open>internal/repository/repository.go\<close>): the bounded upward search
  for a \<open>.git\<close> entry, the metadata read from the git directory, and the two bounded
  memoisation tables. The file system is a record of what \<open>os.Lstat\<close>, \<open>os.Stat\<close> and
  reading a file yield. The tables share one contract, the locale \<open>bounded_memo\<close>, which
  is interpreted on both.
\<close>

section \<open>Files\<close>

text \<open>\<^const>\<open>None\<close> is an error; otherwise the Boolean says whether the entry is a directory.\<close>

record repo_fs =
  fs_lstat :: "string \<Rightarrow> bool option"
  fs_stat :: "string \<Rightarrow> bool option"
  fs_read :: "string \<Rightarrow> string option"

definition max_walk_depth :: nat where "max_walk_depth = 48"
definition max_cache_entries :: nat where "max_cache_entries = 4096"
definition max_head_bytes :: nat where "max_head_bytes = 4096"
definition info_ttl :: duration where "info_ttl = 30 * second"

text \<open>Reading an empty file yields \<open>io.EOF\<close>, an error.\<close>

definition read_small :: "repo_fs \<Rightarrow> string \<Rightarrow> string option" where
  "read_small fs path =
     (case fs_read fs path of
        None \<Rightarrow> None
      | Some body \<Rightarrow> if body = [] then None else Some (take max_head_bytes body))"

section \<open>Metadata\<close>

record repo_info =
  ri_root :: string
  ri_name :: string
  ri_branch :: string
  ri_detached :: bool
  ri_locks :: "string list"

definition no_repo :: repo_info where
  "no_repo = \<lparr>ri_root = [], ri_name = [], ri_branch = [], ri_detached = False, ri_locks = []\<rparr>"

definition repo_busy :: "repo_info \<Rightarrow> bool" where
  "repo_busy i \<longleftrightarrow> ri_locks i \<noteq> []"

definition lock_files :: "string list" where
  "lock_files = [''index.lock'', ''HEAD.lock'', ''config.lock'', ''packed-refs.lock'',
     ''MERGE_HEAD.lock'', ''ORIG_HEAD.lock'', ''shallow.lock'']"

definition trim_prefix :: "string \<Rightarrow> string \<Rightarrow> string" where
  "trim_prefix p s = (if has_prefix p s then drop (length p) s else s)"

definition resolve_git_dir :: "repo_fs \<Rightarrow> string \<Rightarrow> string" where
  "resolve_git_dir fs base =
     (let path = path_join [base, ''.git''] in
      case fs_lstat fs path of
        None \<Rightarrow> []
      | Some True \<Rightarrow> path
      | Some False \<Rightarrow>
          (case read_small fs path of
             None \<Rightarrow> []
           | Some body \<Rightarrow>
               (let line = trim_space (trim_prefix ''gitdir:'' (trim_space body)) in
                if line = [] \<or> line = trim_space body then []
                else let target = (if is_abs line then line else path_join [base, line]) in
                  case fs_stat fs target of Some True \<Rightarrow> target | _ \<Rightarrow> [])))"

text \<open>The switch of \<open>describe\<close> over the trimmed content of \<open>HEAD\<close>.\<close>

definition apply_head :: "string \<Rightarrow> repo_info \<Rightarrow> repo_info" where
  "apply_head ref info =
     (if has_prefix ''ref: refs/heads/'' ref
        then info\<lparr>ri_branch := trim_prefix ''ref: refs/heads/'' ref\<rparr>
      else if has_prefix ''ref: '' ref then info\<lparr>ri_branch := trim_prefix ''ref: '' ref\<rparr>
      else if ref \<noteq> [] then info\<lparr>ri_detached := True\<rparr>
      else info)"

definition describe :: "repo_fs \<Rightarrow> string \<Rightarrow> repo_info" where
  "describe fs base =
     (let info = no_repo\<lparr>ri_root := base, ri_name := path_base base\<rparr>;
          git_dir = resolve_git_dir fs base in
      if git_dir = [] then info
      else let info1 = (case read_small fs (path_join [git_dir, ''HEAD'']) of
                          None \<Rightarrow> info | Some head \<Rightarrow> apply_head (trim_space head) info) in
        info1\<lparr>ri_locks := filter (\<lambda>name. fs_lstat fs (path_join [git_dir, name]) \<noteq> None) lock_files\<rparr>)"

section \<open>The upward search\<close>

definition has_git :: "repo_fs \<Rightarrow> string \<Rightarrow> bool" where
  "has_git fs dir \<longleftrightarrow> fs_lstat fs (path_join [dir, ''.git'']) \<noteq> None"

fun walk_up :: "nat \<Rightarrow> repo_fs \<Rightarrow> string \<Rightarrow> string" where
  "walk_up 0 fs cur = []"
| "walk_up (Suc depth) fs cur =
     (if has_git fs cur then cur
      else let parent = path_dir cur in
        if parent = cur then [] else walk_up depth fs parent)"

definition find_root :: "repo_fs \<Rightarrow> string \<Rightarrow> string" where
  "find_root fs dir = walk_up max_walk_depth fs (path_clean dir)"

section \<open>The memoising finder\<close>

record finder =
  fd_roots :: "(string \<times> string) list"
  fd_infos :: "(string \<times> (repo_info \<times> gotime)) list"

definition new_finder :: finder where
  "new_finder = \<lparr>fd_roots = [], fd_infos = []\<rparr>"

text \<open>A full table is dropped wholesale before the new entry is stored.\<close>

definition store_bounded :: "'k \<Rightarrow> 'v \<Rightarrow> ('k \<times> 'v) list \<Rightarrow> ('k \<times> 'v) list" where
  "store_bounded k v m = AList.update k v (if max_cache_entries \<le> length m then [] else m)"

definition finder_root :: "repo_fs \<Rightarrow> finder \<Rightarrow> string \<Rightarrow> string \<times> finder" where
  "finder_root fs f dir =
     (if dir = [] \<or> \<not> is_abs dir then ([], f)
      else (case map_of (fd_roots f) dir of
              Some base \<Rightarrow> (base, f)
            | None \<Rightarrow> let base = find_root fs dir in
                (base, f\<lparr>fd_roots := store_bounded dir base (fd_roots f)\<rparr>)))"

text \<open>
  \<open>Describe\<close> reads the clock when it checks the age of a cached entry and again when it
  stores a new one.
\<close>

definition finder_describe ::
  "repo_fs \<Rightarrow> gotime \<Rightarrow> gotime \<Rightarrow> finder \<Rightarrow> string \<Rightarrow> repo_info \<times> finder" where
  "finder_describe fs now stored_at f dir =
     (case finder_root fs f dir of (base, f1) \<Rightarrow>
        if base = [] then (no_repo, f1)
        else (case map_of (fd_infos f1) base of
                Some (info, taken) \<Rightarrow>
                  if time_sub now taken < info_ttl then (info, f1)
                  else let fresh = describe fs base in
                    (fresh, f1\<lparr>fd_infos := store_bounded base (fresh, stored_at) (fd_infos f1)\<rparr>)
              | None \<Rightarrow> let fresh = describe fs base in
                  (fresh, f1\<lparr>fd_infos := store_bounded base (fresh, stored_at) (fd_infos f1)\<rparr>)))"

definition repo_name :: "string \<Rightarrow> string" where
  "repo_name base = (if base = [] then [] else path_base base)"

section \<open>What the memoisation tables promise\<close>

text \<open>
  A table that a client fills with \<open>put\<close>: the last value stored under a key is found,
  nothing is found that was not stored, and the table never exceeds its bound. A table
  whose entries all satisfy \<open>P\<close> keeps doing so.
\<close>

locale bounded_memo =
  fixes put :: "'k \<Rightarrow> 'v \<Rightarrow> ('k \<times> 'v) list \<Rightarrow> ('k \<times> 'v) list"
    and bound :: nat
  assumes put_same: "map_of (put k v m) k = Some v"
    and put_other: "j \<noteq> k \<Longrightarrow> map_of (put k v m) j = Some w \<Longrightarrow> map_of m j = Some w"
    and put_bound: "length m \<le> bound \<Longrightarrow> length (put k v m) \<le> bound"
begin

definition holds_all :: "('k \<Rightarrow> 'v \<Rightarrow> bool) \<Rightarrow> ('k \<times> 'v) list \<Rightarrow> bool" where
  "holds_all P m \<longleftrightarrow> (\<forall>k v. map_of m k = Some v \<longrightarrow> P k v) \<and> length m \<le> bound"

lemma holds_all_Nil: "holds_all P []"
  by (simp add: holds_all_def)

lemma holds_all_put:
  assumes "holds_all P m" "P k v"
  shows "holds_all P (put k v m)"
  unfolding holds_all_def
proof (intro conjI allI impI)
  show "P j w" if "map_of (put k v m) j = Some w" for j w
    using that assms put_same [of k v m] put_other [of j k v m w]
    by (cases "j = k") (auto simp: holds_all_def)
  show "length (put k v m) \<le> bound" using assms put_bound by (simp add: holds_all_def)
qed

lemma holds_all_lookup: "holds_all P m \<Longrightarrow> map_of m k = Some v \<Longrightarrow> P k v"
  by (simp add: holds_all_def)

lemma holds_all_bound: "holds_all P m \<Longrightarrow> length m \<le> bound"
  by (simp add: holds_all_def)

end

lemma length_alist_update: "length (AList.update k v m) \<le> Suc (length m)"
  by (induction m) auto

lemma length_alist_update_same: "k \<in> fst ` set m \<Longrightarrow> length (AList.update k v m) = length m"
  by (induction m) auto

interpretation memo: bounded_memo store_bounded max_cache_entries
proof unfold_locales
  fix k j :: 'k and v w :: 'v and m :: "('k \<times> 'v) list"
  show "map_of (store_bounded k v m) k = Some v"
    by (simp add: store_bounded_def update_conv')
  show "map_of m j = Some w" if "j \<noteq> k" "map_of (store_bounded k v m) j = Some w"
    using that by (simp add: store_bounded_def update_conv' split: if_splits)
  show "length (store_bounded k v m) \<le> max_cache_entries" if "length m \<le> max_cache_entries"
    using that length_alist_update [of k v "if max_cache_entries \<le> length m then [] else m"]
    by (auto simp: store_bounded_def max_cache_entries_def split: if_splits)
qed

section \<open>Correctness of the search and of the caches\<close>

lemma walk_up_Some:
  "r \<noteq> [] \<Longrightarrow> walk_up n fs cur = r \<Longrightarrow>
     \<exists>k < n. r = (path_dir ^^ k) cur \<and> has_git fs r \<and> (\<forall>j < k. \<not> has_git fs ((path_dir ^^ j) cur))"
proof (induction n arbitrary: cur)
  case (Suc n)
  show ?case
  proof (cases "has_git fs cur")
    case True
    with Suc.prems show ?thesis by (intro exI [of _ 0]) auto
  next
    case False
    with Suc.prems have "walk_up n fs (path_dir cur) = r"
      by (auto simp: Let_def split: if_splits)
    from Suc.IH [OF Suc.prems(1) this] obtain k where k: "k < n" "r = (path_dir ^^ k) (path_dir cur)"
      "has_git fs r" "\<forall>j < k. \<not> has_git fs ((path_dir ^^ j) (path_dir cur))" by auto
    have "\<not> has_git fs ((path_dir ^^ j) cur)" if "j < Suc k" for j
      using that False k(4) by (cases j) (auto simp: funpow_swap1)
    with k show ?thesis by (intro exI [of _ "Suc k"]) (auto simp: funpow_swap1)
  qed
qed simp

lemma walk_up_finds:
  "k < n \<Longrightarrow> has_git fs ((path_dir ^^ k) cur) \<Longrightarrow>
     (\<And>j. j < k \<Longrightarrow> \<not> has_git fs ((path_dir ^^ j) cur)) \<Longrightarrow>
     walk_up n fs cur = (path_dir ^^ k) cur"
proof (induction n arbitrary: k cur)
  case (Suc n)
  show ?case
  proof (cases k)
    case 0
    with Suc.prems show ?thesis by simp
  next
    case (Suc i)
    have no: "\<not> has_git fs cur" using Suc.prems(3) [of 0] Suc by simp
    have up: "(path_dir ^^ k) cur = (path_dir ^^ i) (path_dir cur)"
      using Suc by (simp add: funpow_swap1)
    have ne: "path_dir cur \<noteq> cur"
    proof
      assume fix_pt: "path_dir cur = cur"
      then have "(path_dir ^^ m) cur = cur" for m by (induction m) auto
      with Suc.prems(2) no show False by simp
    qed
    have "walk_up n fs (path_dir cur) = (path_dir ^^ i) (path_dir cur)"
    proof (rule Suc.IH)
      show "i < n" using Suc.prems(1) Suc by simp
      show "has_git fs ((path_dir ^^ i) (path_dir cur))" using Suc.prems(2) up by simp
      show "\<not> has_git fs ((path_dir ^^ j) (path_dir cur))" if "j < i" for j
        using Suc.prems(3) [of "Suc j"] that Suc by (simp add: funpow_swap1)
    qed
    with no ne up show ?thesis by simp
  qed
qed simp

lemma funpow_path_dir_not_Nil: "(path_dir ^^ k) (path_clean d) \<noteq> []"
  by (cases k) auto

text \<open>Every cached root is the one the search would find.\<close>

definition finder_ok :: "repo_fs \<Rightarrow> finder \<Rightarrow> bool" where
  "finder_ok fs f \<longleftrightarrow> memo.holds_all (\<lambda>dir base. base = find_root fs dir) (fd_roots f) \<and>
     memo.holds_all (\<lambda>base entry. fst entry = describe fs base) (fd_infos f)"

lemma finder_ok_new: "finder_ok fs new_finder"
  by (simp add: finder_ok_def new_finder_def memo.holds_all_Nil)

lemma finder_root_ok:
  assumes "finder_ok fs f"
  shows "fst (finder_root fs f dir) = (if dir = [] \<or> \<not> is_abs dir then [] else find_root fs dir)"
    and "finder_ok fs (snd (finder_root fs f dir))"
  using assms memo.holds_all_lookup [of _ "fd_roots f" dir]
  by (auto simp: finder_root_def finder_ok_def Let_def intro: memo.holds_all_put split: option.splits)

text \<open>The metadata of a directory without any cache.\<close>

definition describe_dir :: "repo_fs \<Rightarrow> string \<Rightarrow> repo_info" where
  "describe_dir fs dir =
     (if dir = [] \<or> \<not> is_abs dir \<or> find_root fs dir = [] then no_repo
      else describe fs (find_root fs dir))"

lemma finder_describe_ok:
  assumes "finder_ok fs f"
  shows "fst (finder_describe fs now stored f dir) = describe_dir fs dir"
    and "finder_ok fs (snd (finder_describe fs now stored f dir))"
proof -
  obtain base f1 where r: "finder_root fs f dir = (base, f1)" by (cases "finder_root fs f dir")
  with finder_root_ok [OF assms, of dir]
  have base: "base = (if dir = [] \<or> \<not> is_abs dir then [] else find_root fs dir)"
    and ok: "finder_ok fs f1" by auto
  have hit: "info = describe fs base" if "map_of (fd_infos f1) base = Some (info, taken)" for info taken
    using ok memo.holds_all_lookup [of "\<lambda>base entry. fst entry = describe fs base", OF _ that]
    by (simp add: finder_ok_def)
  have put: "finder_ok fs (f1\<lparr>fd_infos := store_bounded base (describe fs base, stored) (fd_infos f1)\<rparr>)"
    using ok by (auto simp: finder_ok_def intro: memo.holds_all_put)
  show "fst (finder_describe fs now stored f dir) = describe_dir fs dir"
    using base hit by (auto simp: finder_describe_def r describe_dir_def Let_def split: option.splits)
  show "finder_ok fs (snd (finder_describe fs now stored f dir))"
    using ok put by (auto simp: finder_describe_def r Let_def split: option.splits)
qed

section \<open>Properties\<close>

text \<open>The repository of a directory is the nearest enclosing one: the search returns a
  directory exactly when it is reached from the cleaned path in fewer than 48 parent steps,
  holds a \<open>.git\<close> entry, and no directory on the way there does.\<close>

theorem find_root_nearest:
  "(r \<noteq> [] \<and> find_root fs dir = r) \<longleftrightarrow>
     (\<exists>k < 48. r = (path_dir ^^ k) (path_clean dir) \<and> has_git fs r \<and>
        (\<forall>j < k. \<not> has_git fs ((path_dir ^^ j) (path_clean dir))))"
  using walk_up_Some [of r max_walk_depth fs "path_clean dir"]
    walk_up_finds [of _ max_walk_depth fs "path_clean dir"] funpow_path_dir_not_Nil [of _ dir]
  by (auto simp: find_root_def max_walk_depth_def)

theorem find_root_nearest_witness:
  "find_root \<lparr>fs_lstat = (\<lambda>p. if p = ''/w/.git'' then Some True else None),
     fs_stat = (\<lambda>_. None), fs_read = (\<lambda>_. None)\<rparr> ''/w/a/b'' = ''/w''"
proof -
  let ?fs = "\<lparr>fs_lstat = (\<lambda>p. if p = ''/w/.git'' then Some True else None),
     fs_stat = (\<lambda>_. None), fs_read = (\<lambda>_. None)\<rparr>"
  have up: "(path_dir ^^ 2) (path_clean ''/w/a/b'') = ''/w''" by code_simp
  have git: "has_git ?fs ''/w''" by code_simp
  have no: "\<not> has_git ?fs ((path_dir ^^ 0) (path_clean ''/w/a/b''))"
    "\<not> has_git ?fs ((path_dir ^^ 1) (path_clean ''/w/a/b''))" by code_simp+
  have "\<exists>k < 48. ''/w'' = (path_dir ^^ k) (path_clean ''/w/a/b'') \<and> has_git ?fs ''/w'' \<and>
      (\<forall>j < k. \<not> has_git ?fs ((path_dir ^^ j) (path_clean ''/w/a/b'')))"
    using up git no by (intro exI [of _ 2]) (auto simp: less_2_cases_iff)
  then show ?thesis using find_root_nearest [of "''/w''" ?fs "''/w/a/b''"] by blast
qed

text \<open>A sequence of queries, each with its two clock readings.\<close>

fun run_finder :: "repo_fs \<Rightarrow> finder \<Rightarrow> (string \<times> gotime \<times> gotime) list \<Rightarrow> repo_info list \<times> finder" where
  "run_finder fs f [] = ([], f)"
| "run_finder fs f ((dir, now, stored) # qs) =
     (case finder_describe fs now stored f dir of (info, f1) \<Rightarrow>
        case run_finder fs f1 qs of (infos, f2) \<Rightarrow> (info # infos, f2))"

lemma run_finder_ok:
  "finder_ok fs f \<Longrightarrow> fst (run_finder fs f qs) = List.map (\<lambda>q. describe_dir fs (fst q)) qs \<and>
     finder_ok fs (snd (run_finder fs f qs))"
proof (induction fs f qs rule: run_finder.induct)
  case (2 fs f dir now stored qs)
  obtain info f1 where d: "finder_describe fs now stored f dir = (info, f1)"
    by (cases "finder_describe fs now stored f dir")
  with finder_describe_ok [OF "2.prems", of now stored dir]
  have "info = describe_dir fs dir" "finder_ok fs f1" by auto
  with 2 d show ?case by (auto split: prod.splits)
qed simp

text \<open>The finder's caches are transparent and bounded: as long as the files do not change,
  any sequence of root and metadata queries on a new finder answers exactly what the
  uncached search and description would, whatever the clock says, and neither table ever
  holds more than 4096 entries.\<close>

theorem finder_transparent:
  "case run_finder fs new_finder qs of (infos, f) \<Rightarrow>
     infos = List.map (\<lambda>q. describe_dir fs (fst q)) qs \<and>
     length (fd_roots f) \<le> 4096 \<and> length (fd_infos f) \<le> 4096"
proof -
  have "fst (run_finder fs new_finder qs) = List.map (\<lambda>q. describe_dir fs (fst q)) qs"
    and ok: "finder_ok fs (snd (run_finder fs new_finder qs))"
    using run_finder_ok [OF finder_ok_new] by auto
  moreover from ok have "length (fd_roots (snd (run_finder fs new_finder qs))) \<le> 4096"
    "length (fd_infos (snd (run_finder fs new_finder qs))) \<le> 4096"
    using memo.holds_all_bound by (auto simp: finder_ok_def max_cache_entries_def)
  ultimately show ?thesis by (simp add: case_prod_beta)
qed

end
