(* ===== verification/Session_Model.thy ===== *)
theory Session_Model
  imports Adapters Redaction Repository
begin

text \<open>
  The data of session reconciliation (\<open>internal/sessions\<close>, \<open>internal/storage/records.go\<close>):
  session states, the rows a reconciliation emits, attributions, typed relationships and
  the evidence helpers. Fields that the code fills with \<open>json.Marshal\<close> hold the marshalled
  value itself.
\<close>

named_theorems session_simps \<open>facts about sessions\<close>

section \<open>Session states\<close>

text \<open>\<open>SNone\<close> is the empty string, \<open>SOther\<close> any string that is no named state.\<close>

datatype session_state = SStarting | SActive | SIdle | SWaiting | SSuspicious | SHung
  | SCompleted | SCrashed | SOrphaned | SUnknown | SNone | SOther string

fun state_name :: "session_state \<Rightarrow> string" where
  "state_name SStarting = ''starting''"
| "state_name SActive = ''active''"
| "state_name SIdle = ''idle''"
| "state_name SWaiting = ''waiting''"
| "state_name SSuspicious = ''suspicious''"
| "state_name SHung = ''hung''"
| "state_name SCompleted = ''completed''"
| "state_name SCrashed = ''crashed''"
| "state_name SOrphaned = ''orphaned''"
| "state_name SUnknown = ''unknown''"
| "state_name SNone = []"
| "state_name (SOther s) = s"

definition live :: "session_state \<Rightarrow> bool" where
  "live s \<longleftrightarrow> s \<notin> {SCompleted, SCrashed, SOrphaned, SUnknown, SNone}"

definition non_empty_state :: "session_state \<Rightarrow> session_state" where
  "non_empty_state s = (if s = SNone then SUnknown else s)"

definition starting_grace :: duration where "starting_grace = 15 * second"

section \<open>Stored rows\<close>

record process_record =
  pc_uid :: string
  pc_pid :: int
  pc_ppid :: int
  pc_original_ppid :: int
  pc_pgid :: int
  pc_sid :: int
  pc_owner :: int
  pc_start_ns :: int
  pc_comm :: string
  pc_exec_path :: string
  pc_cmdline :: "string list"
  pc_cwd :: string
  pc_tty :: string
  pc_agent_id :: string
  pc_session_id :: string
  pc_relation :: relation
  pc_confidence :: rat
  pc_evidence :: "agent_evidence list"
  pc_first_seen :: int
  pc_last_seen :: int
  pc_repository :: string
  pc_parent_observed :: bool

record observation_record =
  ob_uid :: string
  ob_ts :: int
  ob_status :: status
  ob_ppid :: int
  ob_cpu_ns :: int
  ob_rss :: int
  ob_vsz :: int
  ob_threads :: int

record session_record =
  sr_session_id :: string
  sr_agent_id :: string
  sr_root_uid :: string
  sr_root_pid :: int
  sr_state :: session_state
  sr_confidence :: rat
  sr_working_dir :: string
  sr_repository :: string
  sr_tty :: string
  sr_invocation :: string
  sr_metadata :: "session_metadata option"
  sr_evidence :: "agent_evidence list"
  sr_started_ns :: int
  sr_last_seen_ns :: int
  sr_ended_ns :: "int option"
  sr_native_id :: string
  sr_previous :: session_state
  sr_changed_ns :: int
  sr_host_uid :: string
  sr_host_pid :: int
  sr_host_name :: string
  sr_host_exec :: string
  sr_branch :: string
  sr_busy :: bool
  sr_terminal_sid :: int

record ownership_record =
  ow_session_id :: string
  ow_uid :: string
  ow_agent_id :: string
  ow_relation :: relation
  ow_confidence :: rat
  ow_evidence :: "agent_evidence list"
  ow_original_ppid :: int
  ow_parent_observed :: bool
  ow_first_seen :: int
  ow_last_seen :: int

datatype relationship_kind = RelParentChild | RelOriginalParent | RelReparented | RelLaunch
  | RelProcessGroup | RelTerminal | RelRepository | RelEnvironment | RelSocket | RelFileLock

fun attributing :: "relationship_kind \<Rightarrow> bool" where
  "attributing RelParentChild = True"
| "attributing RelOriginalParent = True"
| "attributing RelLaunch = False"
| "attributing RelEnvironment = True"
| "attributing RelReparented = False"
| "attributing RelProcessGroup = False"
| "attributing RelTerminal = False"
| "attributing RelRepository = False"
| "attributing RelSocket = False"
| "attributing RelFileLock = False"

record relationship_record =
  rl_session_id :: string
  rl_kind :: relationship_kind
  rl_from :: string
  rl_to :: string
  rl_detail :: detail
  rl_first_seen :: int
  rl_last_seen :: int

record audit_record =
  au_ts :: int
  au_kind :: string
  au_subject :: string
  au_summary :: detail
  au_evidence :: "agent_evidence list"

section \<open>Attributions, launch contexts and evidence\<close>

record attribution =
  at_agent_id :: string
  at_session_id :: string
  at_relation :: relation
  at_confidence :: rat
  at_evidence :: "agent_evidence list"
  at_conflicts :: "agent_evidence list"
  at_link :: link_state
  at_key :: key
  at_original_ppid :: int
  at_parent_observed :: bool
  at_repository :: string

record launch_context =
  la_key :: key
  la_pid :: int
  la_name :: string
  la_exec :: string
  la_observed :: bool

definition no_launch :: launch_context where
  "no_launch = \<lparr>la_key = zero_key, la_pid = 0, la_name = [], la_exec = [],
     la_observed = False\<rparr>"

definition launch_describe :: "launch_context \<Rightarrow> detail" where
  "launch_describe l =
     (if \<not> la_observed l
      then Text ''unknown: the session root was already reparented when ghostgc first observed it''
      else Fmt ''%s (pid %d)'' [AStr (la_name l), AInt (la_pid l)])"

definition launch_uid :: "launch_context \<Rightarrow> string" where
  "launch_uid l = (if \<not> la_observed l then [] else key_uid (la_key l))"

record relationship =
  re_kind :: relationship_kind
  re_from :: key
  re_to :: key
  re_detail :: detail
  re_at :: int

definition record_of :: "relationship \<Rightarrow> string \<Rightarrow> int \<Rightarrow> relationship_record" where
  "record_of r sid now_ns =
     \<lparr>rl_session_id = sid, rl_kind = re_kind r, rl_from = key_uid (re_from r),
      rl_to = (if key_zero (re_to r) then [] else key_uid (re_to r)), rl_detail = re_detail r,
      rl_first_seen = re_at r, rl_last_seen = now_ns\<rparr>"

definition plain_evidence :: "evidence_kind \<Rightarrow> detail \<Rightarrow> agent_evidence" where
  "plain_evidence k d = \<lparr>ae_kind = k, ae_detail = d, ae_weight = 0\<rparr>"

text \<open>
  Format arguments that are themselves formatted texts are spliced: the text of the inner
  format follows the outer one.
\<close>

fun detail_prefix :: "string \<Rightarrow> detail \<Rightarrow> detail" where
  "detail_prefix s (Text t) = Text (s @ t)"
| "detail_prefix s (Fmt f as) = Fmt (s @ f) as"

fun link_name :: "link_state \<Rightarrow> string" where
  "link_name LinkIntact = ''intact''"
| "link_name LinkReparented = ''reparented''"
| "link_name LinkImpossible = ''impossible''"
| "link_name LinkMissing = ''missing''"
| "link_name LinkRoot = ''root''"

definition original_parent_evidence :: "int \<Rightarrow> bool \<Rightarrow> link_state \<Rightarrow> agent_evidence" where
  "original_parent_evidence ppid observed l =
     (if \<not> observed then plain_evidence KindAncestry
        (Fmt ''the original parent is unknown: the process was already %s when ghostgc first observed it, so no creator was ever seen''
          [AStr (link_name l)])
      else plain_evidence KindAncestry
        (Fmt ''original parent was pid %d; the current parent link is %s''
          [AInt ppid, AStr (link_name l)]))"

definition launch_evidence :: "launch_context \<Rightarrow> agent_evidence" where
  "launch_evidence l =
     plain_evidence KindAncestry (detail_prefix ''session root was launched by '' (launch_describe l))"

text \<open>The locks are the last format argument of a busy repository's detail.\<close>

definition repository_detail :: "repo_info \<Rightarrow> detail" where
  "repository_detail info =
     (let base = ''repository '' @ ri_root info;
          named = (if ri_branch info \<noteq> [] then base @ '' on branch '' @ ri_branch info
                   else if ri_detached info then base @ '' with a detached HEAD''
                   else base) in
      if repo_busy info
      then Fmt (named @ '' (a git operation is in flight: %v)'') (List.map AStr (ri_locks info))
      else Text named)"

definition repository_evidence :: "repo_info \<Rightarrow> agent_evidence" where
  "repository_evidence info =
     (if ri_root info = [] then plain_evidence KindWorkingDir
        (Text ''the session root's working directory is not inside a repository'')
      else plain_evidence KindWorkingDir (repository_detail info))"

fun detail_empty :: "detail \<Rightarrow> bool" where
  "detail_empty (Text s) = (s = [])"
| "detail_empty (Fmt f as) = (f = [])"

definition compact_evidence :: "agent_evidence list \<Rightarrow> agent_evidence list" where
  "compact_evidence es = filter (\<lambda>e. \<not> detail_empty (ae_detail e)) es"

definition transition_evidence ::
  "session_state \<Rightarrow> session_state \<Rightarrow> detail \<Rightarrow> agent_evidence list" where
  "transition_evidence from to reason =
     [plain_evidence KindProcessInfo
        (case reason of
           Text t \<Rightarrow> Fmt ''session state %s -> %s: %s''
             [AStr (state_name (non_empty_state from)), AStr (state_name to), AStr t]
         | Fmt f as \<Rightarrow> Fmt (''session state %s -> %s: '' @ f)
             ([AStr (state_name (non_empty_state from)), AStr (state_name to)] @ as))]"

definition audit_entry ::
  "int \<Rightarrow> string \<Rightarrow> string \<Rightarrow> detail \<Rightarrow> agent_evidence list \<Rightarrow> audit_record" where
  "audit_entry ts kind subject summary es =
     \<lparr>au_ts = ts, au_kind = kind, au_subject = subject, au_summary = summary, au_evidence = es\<rparr>"

definition audit_session_started :: string where "audit_session_started = ''session.started''"
definition audit_session_ended :: string where "audit_session_ended = ''session.ended''"
definition audit_session_state :: string where "audit_session_state = ''session.state-changed''"
definition audit_process_attributed :: string where
  "audit_process_attributed = ''process.attributed''"
definition audit_ownership_retained :: string where
  "audit_ownership_retained = ''process.ownership-retained''"
definition audit_attribution_change :: string where
  "audit_attribution_change = ''process.attribution-changed''"

definition native_key :: "string \<Rightarrow> string \<Rightarrow> string" where
  "native_key agent native = agent @ ''|'' @ native"

lemma live_cases [session_simps]:
  "live SStarting" "live SActive" "\<not> live SCompleted" "\<not> live SNone" "\<not> live SUnknown"
  "\<not> live SCrashed" "\<not> live SOrphaned"
  by (simp_all add: live_def)

lemma cut_native_key [simp]:
  "CHR ''|'' \<notin> set agent \<Longrightarrow> cut (CHR ''|'') (native_key agent native) = Some (agent, native)"
  by (simp add: native_key_def)

end
