(* ===== verification/Protection.thy ===== *)
theory Protection
  imports Adapters
begin

text \<open>
  The hard protections (\<open>internal/protection/protection.go\<close>): reasons a process must
  never be terminated. The executable classes are listed as in the source. The main
  lemma characterises an unprotected process as one that clears every single rule.
\<close>

named_theorems protection_simps \<open>facts about protections\<close>

record rule =
  ru_id :: string
  ru_reason :: detail

record protection_result =
  pe_protected :: bool
  pe_rules :: "rule list"

record protection_input =
  pi_process :: process
  pi_self_pid :: int
  pi_self_uid :: "32 word"
  pi_is_agent_root :: bool
  pi_session_active :: bool
  pi_confidence :: rat
  pi_descendants :: int
  pi_adapter_rules :: "protection_rule list"

record exec_class =
  xc_id :: string
  xc_reason :: string
  xc_names :: "string list"

definition editor_class :: exec_class where
  "editor_class = \<lparr>xc_id = ''protected-editor-v1'',
     xc_reason = ''interactive editors and IDEs hold unsaved user state'',
     xc_names = [''code'', ''code - insiders'', ''codium'', ''cursor'', ''zed'', ''windsurf'',
       ''idea'', ''goland'', ''pycharm'', ''webstorm'', ''rider'', ''clion'',
       ''phpstorm'', ''rubymine'', ''datagrip'', ''studio'', ''xcode'',
       ''nvim'', ''vim'', ''vi'', ''emacs'', ''helix'', ''hx'', ''sublime_text'', ''nova'']\<rparr>"

definition language_server_class :: exec_class where
  "language_server_class = \<lparr>xc_id = ''protected-language-server-v1'',
     xc_reason = ''language servers are shared editor infrastructure, not agent work'',
     xc_names = [''gopls'', ''rust-analyzer'', ''clangd'', ''pyright'', ''pyright-langserver'',
       ''basedpyright-langserver'', ''typescript-language-server'', ''tsserver'',
       ''vtsls'', ''jdtls'', ''solargraph'', ''ruby-lsp'', ''lua-language-server'',
       ''yaml-language-server'', ''json-languageserver'', ''bash-language-server'',
       ''sourcekit-lsp'', ''metals'', ''elixir-ls'', ''terraform-ls'', ''tflint'',
       ''omnisharp'', ''intelephense'', ''svelteserver'', ''vscode-eslint-server'']\<rparr>"

definition container_class :: exec_class where
  "container_class = \<lparr>xc_id = ''protected-container-runtime-v1'',
     xc_reason = ''container runtimes own state for every container on the machine'',
     xc_names = [''dockerd'', ''docker'', ''com.docker.backend'', ''com.docker.build'',
       ''containerd'', ''containerd-shim'', ''podman'', ''colima'', ''limactl'',
       ''lima'', ''vfkit'', ''krunkit'', ''qemu-system-aarch64'', ''qemu-system-x86_64'',
       ''rancher-desktop'', ''orbstack'', ''buildkitd'']\<rparr>"

definition database_class :: exec_class where
  "database_class = \<lparr>xc_id = ''protected-database-v1'',
     xc_reason = ''database servers can lose or corrupt data when signalled'',
     xc_names = [''postgres'', ''postgresql'', ''mysqld'', ''mariadbd'', ''mongod'',
       ''redis-server'', ''valkey-server'', ''clickhouse-server'', ''cockroach'',
       ''etcd'', ''influxd'', ''cassandra'', ''elasticsearch'', ''opensearch'',
       ''memcached'', ''nats-server'', ''rabbitmq-server'']\<rparr>"

definition build_class :: exec_class where
  "build_class = \<lparr>xc_id = ''protected-build-or-test-v1'',
     xc_reason = ''build and test processes represent in-flight work whose loss is expensive'',
     xc_names = [''make'', ''gmake'', ''cmake'', ''ninja'', ''bazel'', ''bazelisk'', ''buck2'',
       ''gradle'', ''gradlew'', ''mvn'', ''maven'', ''cargo'', ''rustc'', ''tsc'',
       ''webpack'', ''rollup'', ''esbuild'', ''swc'', ''turbo'', ''nx'',
       ''jest'', ''vitest'', ''pytest'', ''tox'', ''rspec'', ''phpunit'', ''gotestsum'',
       ''ctest'', ''xcodebuild'', ''swift'', ''dotnet'']\<rparr>"

definition dev_server_class :: exec_class where
  "dev_server_class = \<lparr>xc_id = ''protected-development-server-v1'',
     xc_reason = ''development servers are long-lived by design; being idle is normal for them'',
     xc_names = [''next-server'', ''vite'', ''webpack-dev-server'', ''nodemon'', ''rails'',
       ''puma'', ''unicorn'', ''gunicorn'', ''uvicorn'', ''hypercorn'', ''daphne'',
       ''flask'', ''django-admin'', ''air'', ''watchexec'', ''entr'']\<rparr>"

definition runtime_class :: exec_class where
  "runtime_class = \<lparr>xc_id = ''protected-broad-runtime-v1'',
     xc_reason = ''executable name is too broad to establish what the process is doing (specification section 14)'',
     xc_names = [''node'', ''bun'', ''deno'', ''python'', ''python3'', ''ruby'', ''perl'', ''php'',
       ''go'', ''java'', ''dotnet'', ''git'', ''gh'', ''bash'', ''zsh'', ''sh'', ''dash'', ''fish'',
       ''ksh'', ''tcsh'', ''csh'', ''nu'', ''xonsh'', ''ssh'', ''rsync'', ''tmux'', ''screen'']\<rparr>"

definition exec_classes :: "exec_class list" where
  "exec_classes = [editor_class, language_server_class, container_class, database_class,
     build_class, dev_server_class, runtime_class]"

text \<open>\<open>ExecutableProtection\<close>: the first class that holds the lower-cased name.\<close>

definition executable_protection :: "string \<Rightarrow> rule option" where
  "executable_protection name =
     map_option (\<lambda>c. \<lparr>ru_id = xc_id c, ru_reason = Text (xc_reason c)\<rparr>)
       (List.find (\<lambda>c. List.member (xc_names c) (to_lower name)) exec_classes)"

section \<open>Adapter rules\<close>

text \<open>The inner loop of \<open>matchAdapterRule\<close>: a run of path segments.\<close>

fun segment_match :: "string list \<Rightarrow> string list \<Rightarrow> bool" where
  "segment_match want [] = (want = [])"
| "segment_match want (s # segs) = (take (length want) (s # segs) = want \<or> segment_match want segs)"

definition trim_slashes :: "string \<Rightarrow> string" where
  "trim_slashes s = trim_both (\<lambda>c. c = CHR ''/'') s"

definition match_adapter_rule :: "protection_rule \<Rightarrow> process \<Rightarrow> bool" where
  "match_adapter_rule r p =
     (if pt_always r then True
      else if List.member (pt_exec_names r) (path_base (pr_exec_path p)) then True
      else if pt_path_segment r \<noteq> [] then
        segment_match (split_on (CHR ''/'') (trim_slashes (pt_path_segment r)))
          (split_on (CHR ''/'') (trim_slashes (pr_exec_path p)))
      else False)"

section \<open>Evaluation\<close>

definition rule_when :: "bool \<Rightarrow> string \<Rightarrow> detail \<Rightarrow> rule list" where
  "rule_when b i d = (if b then [\<lparr>ru_id = i, ru_reason = d\<rparr>] else [])"

text \<open>The rules on process facts, in the order of the code.\<close>

definition fact_rules :: "protection_input \<Rightarrow> rule list" where
  "fact_rules inp = (let p = pi_process inp in
     rule_when (pi_self_pid inp \<noteq> 0 \<and> pr_pid p = pi_self_pid inp) ''protected-self-v1''
       (Fmt ''process %d is the ghostgc daemon itself'' [AInt (pr_pid p)]) @
     rule_when (pr_pid p = init_pid) ''protected-init-v1''
       (Fmt ''process %d is the init process'' [AInt (pr_pid p)]) @
     rule_when (pr_uid p \<noteq> pi_self_uid inp) ''protected-other-user-v1''
       (Fmt ''process is owned by uid %d, not by the user running ghostgc (uid %d)''
         [AInt (uint (pr_uid p)), AInt (uint (pi_self_uid inp))]) @
     rule_when (has_tty p) ''protected-controlling-terminal-v1''
       (Fmt ''process has a controlling terminal (%s), which indicates an interactive session''
         [AStr (pr_tty p)]) @
     rule_when (pr_pid p = pr_sid p \<and> pr_sid p \<noteq> 0) ''protected-session-leader-v1''
       (Fmt ''process %d is the leader of terminal session %d'' [AInt (pr_pid p), AInt (pr_sid p)]) @
     rule_when (pi_is_agent_root inp) ''protected-agent-root-v1''
       (Text ''process is an agent session root; terminating it would end the user's session'') @
     rule_when (pi_session_active inp) ''protected-active-session-v1''
       (Text ''the owning agent session is still active'') @
     rule_when (0 < pi_descendants inp) ''protected-has-descendants-v1''
       (Fmt ''process has %d live descendant(s) that would be orphaned'' [AInt (pi_descendants inp)]) @
     rule_when (pi_confidence inp < confidence_policy_eligible) ''protected-uncertain-attribution-v1''
       (Fmt ''attribution confidence is %.2f, below the %.2f required for any policy to consider the process; unknown ownership is protected''
         [ANum (pi_confidence inp), ANum confidence_policy_eligible]) @
     rule_when (\<not> pr_detailed p) ''protected-not-inspected-v1''
       (Text ''process was not inspected in detail, so nothing about it has been established''))"

text \<open>The loop over the classes: the inner \<open>break\<close> leaves one rule per class.\<close>

definition class_rules :: "process \<Rightarrow> rule list" where
  "class_rules p = concat (List.map (\<lambda>c.
     rule_when (List.member (xc_names c) (to_lower (proc_name p))) (xc_id c)
       (Fmt ''%s (executable %q)'' [AStr (xc_reason c), AStr (proc_name p)])) exec_classes)"

definition adapter_rules :: "protection_rule list \<Rightarrow> process \<Rightarrow> rule list" where
  "adapter_rules rs p = concat (List.map (\<lambda>r.
     rule_when (match_adapter_rule r p) (pt_id r) (Text (pt_reason r))) rs)"

definition evaluate_protection :: "protection_input \<Rightarrow> protection_result" where
  "evaluate_protection inp =
     (let rules = fact_rules inp @ class_rules (pi_process inp)
                    @ adapter_rules (pi_adapter_rules inp) (pi_process inp) in
      \<lparr>pe_protected = (0 < length rules), pe_rules = rules\<rparr>)"

section \<open>Lemmas\<close>

lemma rule_when_Nil [protection_simps]: "rule_when b i d = [] \<longleftrightarrow> \<not> b"
  by (simp add: rule_when_def)

lemma segment_match_iff [protection_simps]: "segment_match want segs \<longleftrightarrow> sublist want segs"
proof (induction want segs rule: segment_match.induct)
  case (2 want s segs)
  have "take (length want) (s # segs) = want \<longleftrightarrow> prefix want (s # segs)"
    by (metis append_eq_conv_conj prefix_def take_is_prefix)
  with 2 show ?case by (simp add: sublist_Cons_right)
qed simp

lemma class_rules_Nil [protection_simps]:
  "class_rules p = [] \<longleftrightarrow> executable_protection (proc_name p) = None"
  by (auto simp: class_rules_def executable_protection_def protection_simps find_None_iff)

lemma adapter_rules_Nil [protection_simps]:
  "adapter_rules rs p = [] \<longleftrightarrow> (\<forall>r \<in> set rs. \<not> match_adapter_rule r p)"
  by (auto simp: adapter_rules_def protection_simps)

lemma protected_iff_rules [protection_simps]:
  "pe_protected (evaluate_protection inp) \<longleftrightarrow> pe_rules (evaluate_protection inp) \<noteq> []"
  by (simp add: evaluate_protection_def Let_def)

text \<open>What a process must satisfy to be unprotected, each line one rule of the code.\<close>

definition clears_protection :: "protection_input \<Rightarrow> bool" where
  "clears_protection inp \<longleftrightarrow> (let p = pi_process inp in
     (pi_self_pid inp = 0 \<or> pr_pid p \<noteq> pi_self_pid inp) \<and>
     pr_pid p \<noteq> 1 \<and>
     pr_uid p = pi_self_uid inp \<and>
     pr_tty p = [] \<and>
     (pr_sid p = 0 \<or> pr_pid p \<noteq> pr_sid p) \<and>
     \<not> pi_is_agent_root inp \<and>
     \<not> pi_session_active inp \<and>
     pi_descendants inp \<le> 0 \<and>
     95 / 100 \<le> pi_confidence inp \<and>
     pr_detailed p \<and>
     executable_protection (proc_name p) = None \<and>
     (\<forall>r \<in> set (pi_adapter_rules inp). \<not> match_adapter_rule r p))"

lemma fact_rules_Nil [protection_simps]:
  "fact_rules inp = [] \<longleftrightarrow> (let p = pi_process inp in
     (pi_self_pid inp = 0 \<or> pr_pid p \<noteq> pi_self_pid inp) \<and> pr_pid p \<noteq> 1 \<and>
     pr_uid p = pi_self_uid inp \<and> pr_tty p = [] \<and> (pr_sid p = 0 \<or> pr_pid p \<noteq> pr_sid p) \<and>
     \<not> pi_is_agent_root inp \<and> \<not> pi_session_active inp \<and> pi_descendants inp \<le> 0 \<and>
     95 / 100 \<le> pi_confidence inp \<and> pr_detailed p)"
  by (auto simp: fact_rules_def Let_def protection_simps init_pid_def has_tty_def no_tty_def
      confidence_policy_eligible_def)

lemma protected_iff_clear: "\<not> pe_protected (evaluate_protection inp) \<longleftrightarrow> clears_protection inp"
  unfolding clears_protection_def protected_iff_rules evaluate_protection_def Let_def
  by (simp add: fact_rules_Nil class_rules_Nil adapter_rules_Nil Let_def) blast

text \<open>C30: A process escapes every hard protection exactly when all of the following hold: its PID is neither
  the daemon's (where that is known) nor 1, its user is the daemon's, it has no terminal, it is no agent root, its session
  is not active, it has no descendants, it was inspected, its attribution reaches 0.95, neither its executable class
  nor an adapter rule matches, and its terminal session id either differs from its PID or is 0. A session id of 0 is also what
  the collector reports when it could not read it, so in that one case an unread fact does not protect a session leader.\<close>

theorem unprotected_iff_all_clear:
  "\<not> pe_protected (evaluate_protection inp) \<longleftrightarrow> (let p = pi_process inp in
     (pi_self_pid inp = 0 \<or> pr_pid p \<noteq> pi_self_pid inp) \<and> pr_pid p \<noteq> 1 \<and>
     pr_uid p = pi_self_uid inp \<and> pr_tty p = [] \<and> (pr_sid p = 0 \<or> pr_pid p \<noteq> pr_sid p) \<and>
     \<not> pi_is_agent_root inp \<and> \<not> pi_session_active inp \<and> pi_descendants inp \<le> 0 \<and>
     95 / 100 \<le> pi_confidence inp \<and> pr_detailed p \<and>
     (\<forall>c \<in> set exec_classes. to_lower (proc_name p) \<notin> set (xc_names c)) \<and>
     (\<forall>r \<in> set (pi_adapter_rules inp). \<not> match_adapter_rule r p))"
proof -
  have "executable_protection n = None \<longleftrightarrow> (\<forall>c \<in> set exec_classes. to_lower n \<notin> set (xc_names c))" for n
    by (auto simp: executable_protection_def find_None_iff)
  then show ?thesis unfolding protected_iff_clear clears_protection_def Let_def by simp
qed

theorem unprotected_iff_all_clear_witness:
  "\<not> pe_protected (evaluate_protection \<lparr>pi_process = sample_process 8 7 60, pi_self_pid = 2,
     pi_self_uid = 501, pi_is_agent_root = False, pi_session_active = False,
     pi_confidence = 99 / 100, pi_descendants = 0, pi_adapter_rules = []\<rparr>)"
  unfolding unprotected_iff_all_clear by code_simp

end
