(* ===== verification/Config.thy ===== *)
theory Config
  imports Protection Paths
begin

text \<open>
  The configuration and its safety validation (\<open>internal/config\<close>): modes, policies, the
  cache lane and the worktree roots, the start-up profiles and the authority ceiling.
  Every error return is a constructor of \<open>config_error\<close>, with the index of the offending
  policy. YAML decoding and the file system are parameters.
\<close>

named_theorems config_simps \<open>facts about validation\<close>

section \<open>Data\<close>

datatype mode = ModeDisabled | ModeAudit | ModeRecommend | ModeEnforce | ModeOther string

definition mode_valid :: "mode \<Rightarrow> bool" where
  "mode_valid m \<longleftrightarrow> m = ModeDisabled \<or> m = ModeAudit \<or> m = ModeRecommend \<or> m = ModeEnforce"

record sampling =
  sa_process_scan :: duration
  sa_activity_sample :: duration
  sa_classification :: duration
  sa_policy_evaluation :: duration
  sa_retention :: duration

record retention =
  rt_raw :: duration
  rt_aggregated :: duration
  rt_actions :: duration
  rt_max_bytes :: int

record notifications =
  nt_suspicious :: bool
  nt_hung :: bool
  nt_candidate :: bool
  nt_action_taken :: bool
  nt_healthy :: bool

record privacy =
  pv_store_command_lines :: bool
  pv_redact_env :: bool
  pv_store_source :: bool
  pv_telemetry :: bool

record worktrees =
  wt_enabled :: bool
  wt_scan_interval :: duration
  wt_stale_after :: duration
  wt_retirement_grace :: duration
  wt_roots :: "string list"

record path_overrides =
  po_state_dir :: string
  po_log_dir :: string
  po_socket :: string
  po_database :: string

record policy =
  pl_id :: string
  pl_description :: string
  pl_enabled :: bool
  pl_mode :: mode
  pl_automatic :: bool
  pl_states :: "string list"
  pl_agents :: "string list"
  pl_executables :: "string list"
  pl_require_detached :: bool
  pl_require_session_ended :: bool
  pl_min_stable :: duration
  pl_cooldown :: duration

record cache_policy =
  cl_id :: string
  cl_description :: string
  cl_enabled :: bool
  cl_mode :: mode
  cl_provider :: string
  cl_agent :: string
  cl_artifact_kind :: string
  cl_session_state :: string

record cache_config =
  cc_enabled :: bool
  cc_global_mode :: mode
  cc_roots :: "string list"
  cc_scan_interval :: duration
  cc_min_stable :: duration
  cc_quarantine_grace :: duration
  cc_max_entries_scan :: int
  cc_max_entries_action :: int
  cc_max_bytes_action :: int
  cc_policies :: "cache_policy list"

datatype startup_mode = StartupAudit | StartupReconcile | StartupOther string

record config =
  cf_version :: int
  cf_global_mode :: mode
  cf_sampling :: sampling
  cf_retention :: retention
  cf_notifications :: notifications
  cf_privacy :: privacy
  cf_worktrees :: worktrees
  cf_agents :: "(string \<times> bool) list"
  cf_policies :: "policy list"
  cf_cache :: cache_config
  cf_paths :: path_overrides
  cf_source_path :: string
  cf_defaulted :: bool
  cf_startup_mode :: startup_mode

datatype worktree_error =
    ScanIntervalTooShort | StaleAfterTooShort | RetirementGraceTooShort | TooManyRoots nat
  | HomeUnavailable | HomeNotCanonical | DuplicateRoot string | RootNotAbsolute string
  | RootNotCanonical string | RootTooBroad string | RootUnavailable string
  | RootNotDirectory string | RootNotPhysical string

datatype policy_error =
    PolicyIdInvalid string | DuplicatePolicyId string | PolicyModeUnknown mode
  | EnabledButDisabled | AutomaticNeedsEnforce | EnforceNeedsAutomatic | DescriptionRequired
  | ScopeRequired | DuplicateScope string | StateNotEligible string
  | OrphanedNeedsDetachment string | AgentNotEnabled string | ExecutableNotBasename string
  | ExecutableProtected string string | MinStableOutOfRange | CooldownTooShort
  | EnforceScope | EnforceNeedsLifecycle | EnforceCooldown

datatype cache_error =
    CacheModeUnknown mode | CacheDurations | CacheBoundsNotPositive | CacheBoundsTooLarge
  | CacheRootsRequired | CacheRootInvalid string | DuplicateCacheRoot string
  | CachePolicyIdInvalid string | CacheDescriptionRequired | CachePolicyModeUnknown mode
  | CacheEnabledButDisabled | CacheSelectorInexact | CacheAgentNotEnabled string
  | SeveralCachePolicies

datatype config_error =
    UnsupportedVersion int | UnknownGlobalMode mode | StoresSourceContents | NetworkTelemetryOn
  | BelowMinimum string duration | DatabaseBoundTooSmall int
  | InWorktrees worktree_error | InPolicy nat policy_error | SeveralEnforcePolicies
  | InCache cache_error | InCachePolicy nat cache_error
  | StartupModeUnknown string | ConfigUnreadable string | ConfigUnparsable string

section \<open>Policy validation\<close>

definition policy_id_head :: "char \<Rightarrow> bool" where
  "policy_id_head c \<longleftrightarrow> 97 \<le> (of_char c :: nat) \<and> (of_char c :: nat) \<le> 122"

definition policy_id_tail :: "char \<Rightarrow> bool" where
  "policy_id_tail c \<longleftrightarrow> policy_id_head c \<or> is_digit c \<or> c = CHR ''-''"

text \<open>The pattern \<open>^[a-z][a-z0-9-]{0,62}$\<close>.\<close>

definition policy_id_ok :: "string \<Rightarrow> bool" where
  "policy_id_ok s \<longleftrightarrow> (case s of [] \<Rightarrow> False
     | c # cs \<Rightarrow> policy_id_head c \<and> list_all policy_id_tail cs \<and> length cs \<le> 62)"

text \<open>\<open>duplicateValue\<close> returns the repeated value itself, and the empty string for none.\<close>

definition duplicate_value :: "string list \<Rightarrow> string" where
  "duplicate_value vs = (case first_duplicate [] vs of Some v \<Rightarrow> v | None \<Rightarrow> [])"

definition needs_stable_window :: "string list \<Rightarrow> bool" where
  "needs_stable_window states \<longleftrightarrow> list_ex (\<lambda>s. s = ''orphaned'' \<or> s = ''hung'') states"

definition agent_enabled :: "(string \<times> bool) list \<Rightarrow> string \<Rightarrow> bool" where
  "agent_enabled agents a \<longleftrightarrow> map_of agents a = Some True"

definition validate_state :: "policy \<Rightarrow> string \<Rightarrow> policy_error option" where
  "validate_state p state = first_failure
     [(state \<noteq> ''orphaned'' \<and> state \<noteq> ''hung'' \<and> state \<noteq> ''crashed'', StateNotEligible state),
      (state = ''orphaned'' \<and> (\<not> pl_require_detached p \<or> \<not> pl_require_session_ended p),
       OrphanedNeedsDetachment state)]"

definition validate_agent :: "(string \<times> bool) list \<Rightarrow> string \<Rightarrow> policy_error option" where
  "validate_agent agents a = first_failure [(\<not> agent_enabled agents a, AgentNotEnabled a)]"

definition validate_executable :: "string \<Rightarrow> policy_error option" where
  "validate_executable x =
     (if x = [] \<or> path_base x \<noteq> x then Some (ExecutableNotBasename x)
      else (case executable_protection x of
              Some r \<Rightarrow> Some (ExecutableProtected x (ru_id r)) | None \<Rightarrow> None))"

text \<open>The body of the loop of \<open>validatePolicies\<close>; \<open>ids\<close> are the identifiers seen before.\<close>

definition policy_shape_guards :: "string list \<Rightarrow> policy \<Rightarrow> policy_error option" where
  "policy_shape_guards ids p = first_failure
     [(\<not> policy_id_ok (pl_id p), PolicyIdInvalid (pl_id p)),
      (pl_id p \<in> set ids, DuplicatePolicyId (pl_id p)),
      (\<not> mode_valid (pl_mode p), PolicyModeUnknown (pl_mode p)),
      (pl_enabled p \<and> pl_mode p = ModeDisabled, EnabledButDisabled),
      (pl_automatic p \<and> pl_mode p \<noteq> ModeEnforce, AutomaticNeedsEnforce),
      (pl_mode p = ModeEnforce \<and> \<not> pl_automatic p, EnforceNeedsAutomatic),
      (trim_space (pl_description p) = [], DescriptionRequired),
      (pl_states p = [] \<or> pl_agents p = [] \<or> pl_executables p = [], ScopeRequired),
      (duplicate_value (pl_states p) \<noteq> [], DuplicateScope (duplicate_value (pl_states p))),
      (duplicate_value (pl_agents p) \<noteq> [], DuplicateScope (duplicate_value (pl_agents p))),
      (duplicate_value (pl_executables p) \<noteq> [],
       DuplicateScope (duplicate_value (pl_executables p)))]"

definition policy_window_guards :: "policy \<Rightarrow> policy_error option" where
  "policy_window_guards p = first_failure
     [(pl_min_stable p < 0, MinStableOutOfRange),
      (needs_stable_window (pl_states p) \<and> pl_min_stable p < 5 * minute, MinStableOutOfRange),
      (pl_cooldown p < minute, CooldownTooShort)]"

definition policy_enforce_guards :: "policy \<Rightarrow> policy_error option" where
  "policy_enforce_guards p =
     (if pl_mode p = ModeEnforce then first_failure
        [(length (pl_states p) \<noteq> 1 \<or> hd (pl_states p) \<noteq> ''orphaned'' \<or>
          length (pl_agents p) \<noteq> 1 \<or> length (pl_executables p) \<noteq> 1, EnforceScope),
         (\<not> pl_require_detached p \<or> \<not> pl_require_session_ended p, EnforceNeedsLifecycle),
         (pl_cooldown p < hour, EnforceCooldown)]
      else None)"

definition validate_policy ::
    "(string \<times> bool) list \<Rightarrow> string list \<Rightarrow> policy \<Rightarrow> policy_error option" where
  "validate_policy agents ids p =
     or_else (policy_shape_guards ids p)
     (or_else (first_some (validate_state p) (pl_states p))
     (or_else (first_some (validate_agent agents) (pl_agents p))
     (or_else (first_some validate_executable (pl_executables p))
     (or_else (policy_window_guards p) (policy_enforce_guards p)))))"

definition counts_as_enforce :: "policy \<Rightarrow> bool" where
  "counts_as_enforce p \<longleftrightarrow> pl_enabled p \<and> pl_mode p = ModeEnforce"

fun validate_policies_loop ::
    "(string \<times> bool) list \<Rightarrow> string list \<Rightarrow> nat \<Rightarrow> nat \<Rightarrow> policy list \<Rightarrow> config_error option" where
  "validate_policies_loop agents ids enforce i [] =
     (if 1 < enforce then Some SeveralEnforcePolicies else None)"
| "validate_policies_loop agents ids enforce i (p # ps) =
     or_else (map_option (InPolicy i) (validate_policy agents ids p))
       (validate_policies_loop agents (pl_id p # ids)
         (if counts_as_enforce p then Suc enforce else enforce) (Suc i) ps)"

definition validate_policies :: "config \<Rightarrow> config_error option" where
  "validate_policies c = validate_policies_loop (cf_agents c) [] 0 0 (cf_policies c)"

section \<open>Cache validation\<close>

definition max_cache_scan_entries :: int where "max_cache_scan_entries = 100000"
definition max_cache_action_entries :: int where "max_cache_action_entries = 1000"
definition max_cache_action_bytes :: int where "max_cache_action_bytes = 2 ^ 40"

definition cache_mode_ok :: "mode \<Rightarrow> bool" where
  "cache_mode_ok m \<longleftrightarrow> m = ModeDisabled \<or> m = ModeAudit \<or> m = ModeRecommend"

fun validate_cache_roots :: "string list \<Rightarrow> string list \<Rightarrow> cache_error option" where
  "validate_cache_roots seen [] = None"
| "validate_cache_roots seen (r # rs) =
     (if \<not> is_abs r \<or> path_clean r \<noteq> r \<or> path_base r \<noteq> ''shell_snapshots'' then Some (CacheRootInvalid r)
      else if r \<in> set seen then Some (DuplicateCacheRoot r)
      else validate_cache_roots (r # seen) rs)"

definition validate_cache_policy ::
    "(string \<times> bool) list \<Rightarrow> string list \<Rightarrow> cache_policy \<Rightarrow> cache_error option" where
  "validate_cache_policy agents ids p = first_failure
     [(\<not> policy_id_ok (cl_id p) \<or> cl_id p \<in> set ids, CachePolicyIdInvalid (cl_id p)),
      (trim_space (cl_description p) = [], CacheDescriptionRequired),
      (\<not> cache_mode_ok (cl_mode p), CachePolicyModeUnknown (cl_mode p)),
      (cl_enabled p \<and> cl_mode p = ModeDisabled, CacheEnabledButDisabled),
      (cl_provider p \<noteq> ''codex-shell-snapshot-v1'' \<or> cl_agent p \<noteq> ''codex'' \<or>
       cl_artifact_kind p \<noteq> ''shell-snapshot'' \<or> cl_session_state p \<noteq> ''completed'',
       CacheSelectorInexact),
      (\<not> agent_enabled agents (cl_agent p), CacheAgentNotEnabled (cl_agent p))]"

fun validate_cache_policies ::
    "(string \<times> bool) list \<Rightarrow> string list \<Rightarrow> nat \<Rightarrow> nat \<Rightarrow> cache_policy list \<Rightarrow> config_error option" where
  "validate_cache_policies agents ids enabled i [] =
     (if 1 < enabled then Some (InCache SeveralCachePolicies) else None)"
| "validate_cache_policies agents ids enabled i (p # ps) =
     or_else (map_option (InCachePolicy i) (validate_cache_policy agents ids p))
       (validate_cache_policies agents (cl_id p # ids)
         (if cl_enabled p then Suc enabled else enabled) (Suc i) ps)"

definition validate_cache :: "cache_config \<Rightarrow> (string \<times> bool) list \<Rightarrow> config_error option" where
  "validate_cache c agents =
     or_else (map_option InCache (first_failure
       [(\<not> cache_mode_ok (cc_global_mode c), CacheModeUnknown (cc_global_mode c)),
        (cc_scan_interval c < minute \<or> cc_min_stable c < minute \<or> cc_quarantine_grace c < minute,
         CacheDurations),
        (cc_max_entries_scan c < 1 \<or> cc_max_entries_action c < 1 \<or> cc_max_bytes_action c < 1,
         CacheBoundsNotPositive),
        (max_cache_scan_entries < cc_max_entries_scan c \<or>
         max_cache_action_entries < cc_max_entries_action c \<or>
         max_cache_action_bytes < cc_max_bytes_action c, CacheBoundsTooLarge),
        (cc_enabled c \<and> cc_roots c = [], CacheRootsRequired)]))
     (or_else (map_option InCache (validate_cache_roots [] (cc_roots c)))
       (validate_cache_policies agents [] 0 0 (cc_policies c)))"

text \<open>The string branch of \<open>ByteSize.UnmarshalYAML\<close>.\<close>

definition parse_byte_size :: "string \<Rightarrow> int option" where
  "parse_byte_size raw =
     (case List.find (\<lambda>(suf, m). has_suffix suf raw)
             [(''KiB'', 2 ^ 10), (''MiB'', 2 ^ 20), (''GiB'', 2 ^ 30 :: int)] of
        None \<Rightarrow> None
      | Some (suf, m) \<Rightarrow>
          (case parse_int64 (take (length raw - length suf) raw) of
             None \<Rightarrow> None
           | Some v \<Rightarrow> if v \<le> 0 \<or> int64_max div m < v then None else Some (wrap64 (v * m))))"

end
