(* ===== verification/Startup.thy ===== *)
theory Startup
  imports Config
begin

text \<open>
  Whole-configuration validation, the built-in defaults, loading, and the start-up
  profiles with their authority ceiling (\<open>internal/config/config.go\<close>, \<open>worktrees.go\<close>,
  \<open>startup.go\<close>, \<open>cache.go\<close>). The operating system and the YAML decoder are parameters.
\<close>

section \<open>The operating system as the configuration sees it\<close>

text \<open>\<open>os.Lstat\<close> yields whether the entry is a directory and whether it is a symbolic link.\<close>

record os_env =
  oe_home :: "string option"
  oe_eval_symlinks :: "string \<Rightarrow> string option"
  oe_lstat :: "string \<Rightarrow> (bool \<times> bool) option"

section \<open>Worktree roots\<close>

definition max_worktree_roots :: nat where "max_worktree_roots = 32"

definition validate_worktree_root :: "os_env \<Rightarrow> string \<Rightarrow> string \<Rightarrow> worktree_error option" where
  "validate_worktree_root env home dir =
     (if dir = [] \<or> \<not> is_abs dir then Some (RootNotAbsolute dir)
      else if path_clean dir \<noteq> dir then Some (RootNotCanonical dir)
      else if dir = ''/'' \<or> dir = home then Some (RootTooBroad dir)
      else (case oe_lstat env dir of
          None \<Rightarrow> Some (RootUnavailable dir)
        | Some (is_dir, is_symlink) \<Rightarrow>
            if is_symlink \<or> \<not> is_dir then Some (RootNotDirectory dir)
            else if oe_eval_symlinks env dir \<noteq> Some dir then Some (RootNotPhysical dir)
            else None))"

fun validate_worktree_roots :: "os_env \<Rightarrow> string \<Rightarrow> string list \<Rightarrow> string list \<Rightarrow> worktree_error option" where
  "validate_worktree_roots env home seen [] = None"
| "validate_worktree_roots env home seen (r # rs) =
     or_else (validate_worktree_root env home r)
       (if r \<in> set seen then Some (DuplicateRoot r)
        else validate_worktree_roots env home (r # seen) rs)"

definition validate_worktrees :: "os_env \<Rightarrow> worktrees \<Rightarrow> worktree_error option" where
  "validate_worktrees env w =
     or_else (first_failure
       [(wt_scan_interval w < minute, ScanIntervalTooShort),
        (wt_stale_after w < 7 * 24 * hour, StaleAfterTooShort),
        (wt_retirement_grace w < 24 * hour, RetirementGraceTooShort),
        (max_worktree_roots < length (wt_roots w), TooManyRoots (length (wt_roots w)))])
     (case oe_home env of
        None \<Rightarrow> Some HomeUnavailable
      | Some h \<Rightarrow> (case oe_eval_symlinks env h of
            None \<Rightarrow> Some HomeNotCanonical
          | Some home \<Rightarrow> validate_worktree_roots env home [] (wt_roots w)))"

section \<open>Validation of a configuration\<close>

definition duration_minimums :: "config \<Rightarrow> (string \<times> duration \<times> duration) list" where
  "duration_minimums c =
     [(''sampling.processScan'', sa_process_scan (cf_sampling c), second),
      (''sampling.activitySample'', sa_activity_sample (cf_sampling c), second),
      (''sampling.classification'', sa_classification (cf_sampling c), second),
      (''sampling.policyEvaluation'', sa_policy_evaluation (cf_sampling c), second),
      (''sampling.retention'', sa_retention (cf_sampling c), minute),
      (''retention.rawObservations'', rt_raw (cf_retention c), minute),
      (''retention.aggregatedObservations'', rt_aggregated (cf_retention c), minute),
      (''retention.actions'', rt_actions (cf_retention c), minute)]"

definition validate :: "os_env \<Rightarrow> config \<Rightarrow> config_error option" where
  "validate env c =
     or_else (first_failure
       [(cf_version c \<noteq> 1, UnsupportedVersion (cf_version c)),
        (\<not> mode_valid (cf_global_mode c), UnknownGlobalMode (cf_global_mode c)),
        (pv_store_source (cf_privacy c), StoresSourceContents),
        (pv_telemetry (cf_privacy c), NetworkTelemetryOn)])
     (or_else (map_option InWorktrees (validate_worktrees env (cf_worktrees c)))
     (or_else (first_failure (List.map (\<lambda>(name, got, least). (got < least, BelowMinimum name got))
                (duration_minimums c)))
     (or_else (first_failure
       [(rt_max_bytes (cf_retention c) < 2 ^ 20, DatabaseBoundTooSmall (rt_max_bytes (cf_retention c)))])
     (or_else (validate_policies c)
       (validate_cache (cf_cache c) (cf_agents c))))))"

definition enabled_agents :: "config \<Rightarrow> string list" where
  "enabled_agents c = List.map fst (filter snd (cf_agents c))"

record paths =
  pa_config :: string
  pa_state_dir :: string
  pa_log_dir :: string
  pa_socket :: string
  pa_database :: string

definition resolve_paths :: "config \<Rightarrow> paths \<Rightarrow> paths" where
  "resolve_paths c base =
     (let ov = cf_paths c;
          b1 = (if po_state_dir ov \<noteq> [] then base\<lparr>pa_state_dir := po_state_dir ov,
                  pa_database := po_state_dir ov @ ''/ghostgc.db'',
                  pa_socket := po_state_dir ov @ ''/ghostgc.sock''\<rparr> else base);
          b2 = (if po_log_dir ov \<noteq> [] then b1\<lparr>pa_log_dir := po_log_dir ov\<rparr> else b1);
          b3 = (if po_socket ov \<noteq> [] then b2\<lparr>pa_socket := po_socket ov\<rparr> else b2)
      in (if po_database ov \<noteq> [] then b3\<lparr>pa_database := po_database ov\<rparr> else b3))"

section \<open>Defaults\<close>

definition default_cache :: cache_config where
  "default_cache = \<lparr>cc_enabled = False, cc_global_mode = ModeAudit, cc_roots = [],
     cc_scan_interval = 30 * minute, cc_min_stable = 24 * hour, cc_quarantine_grace = 7 * 24 * hour,
     cc_max_entries_scan = 10000, cc_max_entries_action = 1000, cc_max_bytes_action = 10 * 2 ^ 30,
     cc_policies = []\<rparr>"

definition default_config :: config where
  "default_config = \<lparr>cf_version = 1, cf_global_mode = ModeAudit,
     cf_sampling = \<lparr>sa_process_scan = 15 * second, sa_activity_sample = 60 * second,
       sa_classification = 60 * second, sa_policy_evaluation = 5 * minute, sa_retention = 6 * hour\<rparr>,
     cf_retention = \<lparr>rt_raw = 24 * hour, rt_aggregated = 30 * 24 * hour,
       rt_actions = 90 * 24 * hour, rt_max_bytes = 250 * 2 ^ 20\<rparr>,
     cf_notifications = \<lparr>nt_suspicious = True, nt_hung = True, nt_candidate = True,
       nt_action_taken = True, nt_healthy = False\<rparr>,
     cf_privacy = \<lparr>pv_store_command_lines = True, pv_redact_env = True, pv_store_source = False,
       pv_telemetry = False\<rparr>,
     cf_worktrees = \<lparr>wt_enabled = True, wt_scan_interval = 5 * minute, wt_stale_after = 7 * 24 * hour,
       wt_retirement_grace = 7 * 24 * hour, wt_roots = []\<rparr>,
     cf_agents = [(''codex'', True)], cf_policies = [], cf_cache = default_cache,
     cf_paths = \<lparr>po_state_dir = [], po_log_dir = [], po_socket = [], po_database = []\<rparr>,
     cf_source_path = [], cf_defaulted = False, cf_startup_mode = StartupOther []\<rparr>"

definition default_process_policy :: "mode \<Rightarrow> policy" where
  "default_process_policy m = \<lparr>pl_id = ''completed-codex-headless-browser'',
     pl_description = ''completed Codex headless browser'', pl_enabled = True, pl_mode = m,
     pl_automatic = False, pl_states = [''orphaned''], pl_agents = [''codex''],
     pl_executables = [''chrome-headless-shell''], pl_require_detached = True,
     pl_require_session_ended = True, pl_min_stable = 5 * minute, pl_cooldown = hour\<rparr>"

definition default_cache_policy :: "mode \<Rightarrow> cache_policy" where
  "default_cache_policy m = \<lparr>cl_id = ''codex-shell-snapshots'',
     cl_description = ''completed Codex shell snapshots'', cl_enabled = True, cl_mode = m,
     cl_provider = ''codex-shell-snapshot-v1'', cl_agent = ''codex'',
     cl_artifact_kind = ''shell-snapshot'', cl_session_state = ''completed''\<rparr>"

section \<open>Start-up profiles\<close>

definition parse_startup_mode :: "string \<Rightarrow> config_error + startup_mode" where
  "parse_startup_mode v =
     (if v = [] \<or> v = ''audit'' \<or> v = ''shadow'' then Inr StartupAudit
      else if v = ''reconcile'' \<or> v = ''live'' then Inr StartupReconcile
      else Inl (StartupModeUnknown v))"

definition real_directory :: "os_env \<Rightarrow> string \<Rightarrow> bool" where
  "real_directory env p = (case oe_lstat env p of None \<Rightarrow> False | Some (d, l) \<Rightarrow> d \<and> \<not> l)"

definition standard_codex_directory :: "os_env \<Rightarrow> string \<Rightarrow> string option" where
  "standard_codex_directory env name =
     (case oe_home env of None \<Rightarrow> None
      | Some home \<Rightarrow>
          (let codex_home = path_join [home, ''.codex''] in
           if \<not> real_directory env codex_home then None
           else (let candidate = path_join [codex_home, name] in
             if \<not> real_directory env candidate then None
             else oe_eval_symlinks env candidate)))"

definition startup_defaults :: "os_env \<Rightarrow> startup_mode \<Rightarrow> config_error + config" where
  "startup_defaults env sm =
     (if sm \<noteq> StartupAudit \<and> sm \<noteq> StartupReconcile then Inl (StartupModeUnknown [])
      else
        (let action_mode = (if sm = StartupReconcile then ModeRecommend else ModeAudit);
             c0 = (if sm = StartupReconcile then default_config\<lparr>cf_global_mode := ModeRecommend\<rparr>
                   else default_config);
             c1 = c0\<lparr>cf_policies := [default_process_policy action_mode]\<rparr>;
             c2 = (case standard_codex_directory env ''shell_snapshots'' of
                 Some dir \<Rightarrow> c1\<lparr>cf_cache := (cf_cache c1)\<lparr>cc_enabled := True,
                     cc_global_mode := action_mode, cc_roots := [dir],
                     cc_policies := [default_cache_policy action_mode]\<rparr>\<rparr>
               | None \<Rightarrow> c1);
             c3 = (case standard_codex_directory env ''worktrees'' of
                 Some dir \<Rightarrow> c2\<lparr>cf_worktrees := (cf_worktrees c2)\<lparr>wt_roots := [dir]\<rparr>\<rparr>
               | None \<Rightarrow> c2)
         in (case validate env c3 of Some e \<Rightarrow> Inl e | None \<Rightarrow> Inr c3)))"

definition capped_mode :: "mode \<Rightarrow> mode \<Rightarrow> mode" where
  "capped_mode current ceil =
     (case ceil of
        ModeAudit \<Rightarrow> if current = ModeRecommend \<or> current = ModeEnforce then ModeAudit else current
      | ModeRecommend \<Rightarrow> if current = ModeEnforce then ModeRecommend else current
      | _ \<Rightarrow> current)"

definition cap_policy :: "mode \<Rightarrow> policy \<Rightarrow> policy" where
  "cap_policy ceil p =
     (let capped = capped_mode (pl_mode p) ceil in
      if capped \<noteq> pl_mode p then p\<lparr>pl_mode := capped, pl_automatic := False\<rparr> else p)"

definition cap_cache_policy :: "mode \<Rightarrow> cache_policy \<Rightarrow> cache_policy" where
  "cap_cache_policy ceil p = p\<lparr>cl_mode := capped_mode (cl_mode p) ceil\<rparr>"

definition startup_ceiling :: "startup_mode \<Rightarrow> mode" where
  "startup_ceiling sm = (if sm = StartupReconcile then ModeRecommend else ModeAudit)"

definition apply_startup_ceiling :: "config \<Rightarrow> startup_mode \<Rightarrow> config" where
  "apply_startup_ceiling c sm =
     (let ceil = startup_ceiling sm in
      c\<lparr>cf_global_mode := capped_mode (cf_global_mode c) ceil,
        cf_cache := (cf_cache c)\<lparr>cc_global_mode := capped_mode (cc_global_mode (cf_cache c)) ceil,
          cc_policies := List.map (cap_cache_policy ceil) (cc_policies (cf_cache c))\<rparr>,
        cf_policies := List.map (cap_policy ceil) (cf_policies c)\<rparr>)"

section \<open>Loading\<close>

datatype file_read = FileMissing | FileUnreadable | FileBytes string

text \<open>The strict YAML decoder overlays the file on the defaults; \<^const>\<open>None\<close> is its error.\<close>

type_synonym yaml_decoder = "string \<Rightarrow> config \<Rightarrow> config option"

definition load_with_defaults ::
    "os_env \<Rightarrow> (string \<Rightarrow> file_read) \<Rightarrow> yaml_decoder \<Rightarrow> string \<Rightarrow> config \<Rightarrow> config_error + config" where
  "load_with_defaults env read_file decode path cfg =
     (let cfg = cfg\<lparr>cf_source_path := path\<rparr> in
      case read_file path of
        FileMissing \<Rightarrow>
          (let cfg = cfg\<lparr>cf_defaulted := True\<rparr> in
           case validate env cfg of Some e \<Rightarrow> Inl e | None \<Rightarrow> Inr cfg)
      | FileUnreadable \<Rightarrow> Inl (ConfigUnreadable path)
      | FileBytes raw \<Rightarrow>
          (case decode raw cfg of
             None \<Rightarrow> Inl (ConfigUnparsable path)
           | Some cfg' \<Rightarrow> (case validate env cfg' of Some e \<Rightarrow> Inl e | None \<Rightarrow> Inr cfg')))"

definition load_config ::
    "os_env \<Rightarrow> (string \<Rightarrow> file_read) \<Rightarrow> yaml_decoder \<Rightarrow> string \<Rightarrow> config_error + config" where
  "load_config env read_file decode path = load_with_defaults env read_file decode path default_config"

definition load_for_startup ::
    "os_env \<Rightarrow> (string \<Rightarrow> file_read) \<Rightarrow> yaml_decoder \<Rightarrow> string \<Rightarrow> startup_mode \<Rightarrow> config_error + config" where
  "load_for_startup env read_file decode path sm =
     (case startup_defaults env sm of
        Inl e \<Rightarrow> Inl e
      | Inr cfg \<Rightarrow>
          (case load_with_defaults env read_file decode path cfg of
             Inl e \<Rightarrow> Inl e
           | Inr cfg \<Rightarrow>
               (let cfg = (apply_startup_ceiling cfg sm)\<lparr>cf_startup_mode := sm\<rparr> in
                case validate env cfg of Some e \<Rightarrow> Inl e | None \<Rightarrow> Inr cfg)))"

section \<open>Lemmas\<close>

fun mode_rank :: "mode \<Rightarrow> nat" where
  "mode_rank ModeAudit = 1"
| "mode_rank ModeRecommend = 2"
| "mode_rank ModeEnforce = 3"
| "mode_rank _ = 0"

lemma startup_ceiling_cases: "startup_ceiling sm = ModeAudit \<or> startup_ceiling sm = ModeRecommend"
  by (simp add: startup_ceiling_def)

lemma capped_mode_rank:
  assumes "ceil = ModeAudit \<or> ceil = ModeRecommend"
  shows "mode_rank (capped_mode m ceil) \<le> mode_rank ceil"
    and "mode_rank (capped_mode m ceil) \<le> mode_rank m"
    and "capped_mode m ceil \<noteq> ModeEnforce"
  using assms by (cases m; auto simp: capped_mode_def)+

lemma capped_mode_idem [config_simps]: "capped_mode (capped_mode m ceil) ceil = capped_mode m ceil"
  by (cases ceil; cases m) (auto simp: capped_mode_def)

lemma capped_mode_keeps:
  assumes "ceil = ModeAudit \<or> ceil = ModeRecommend"
  shows "mode_valid m \<Longrightarrow> mode_valid (capped_mode m ceil)"
    and "cache_mode_ok m \<Longrightarrow> cache_mode_ok (capped_mode m ceil)"
    and "capped_mode m ceil = ModeDisabled \<longleftrightarrow> m = ModeDisabled"
  using assms by (cases m; auto simp: capped_mode_def mode_valid_def cache_mode_ok_def)+

lemma cap_policy_fields [config_simps]:
  "pl_id (cap_policy c p) = pl_id p" "pl_states (cap_policy c p) = pl_states p"
  "pl_agents (cap_policy c p) = pl_agents p" "pl_executables (cap_policy c p) = pl_executables p"
  "pl_enabled (cap_policy c p) = pl_enabled p" "pl_description (cap_policy c p) = pl_description p"
  "pl_min_stable (cap_policy c p) = pl_min_stable p" "pl_cooldown (cap_policy c p) = pl_cooldown p"
  "pl_require_detached (cap_policy c p) = pl_require_detached p"
  "pl_require_session_ended (cap_policy c p) = pl_require_session_ended p"
  "pl_mode (cap_policy c p) = capped_mode (pl_mode p) c"
  "pl_automatic (cap_policy c p) = (pl_automatic p \<and> capped_mode (pl_mode p) c = pl_mode p)"
  by (simp_all add: cap_policy_def Let_def)

lemma validate_state_cap [config_simps]: "validate_state (cap_policy c p) = validate_state p"
  by (simp add: validate_state_def config_simps fun_eq_iff)

text \<open>What a validated policy satisfies, guard group by guard group.\<close>

lemma policy_shape_None:
  "policy_shape_guards ids p = None \<longleftrightarrow>
     policy_id_ok (pl_id p) \<and> pl_id p \<notin> set ids \<and> mode_valid (pl_mode p) \<and>
     (pl_enabled p \<longrightarrow> pl_mode p \<noteq> ModeDisabled) \<and> (pl_automatic p \<longleftrightarrow> pl_mode p = ModeEnforce) \<and>
     trim_space (pl_description p) \<noteq> [] \<and>
     pl_states p \<noteq> [] \<and> pl_agents p \<noteq> [] \<and> pl_executables p \<noteq> [] \<and>
     duplicate_value (pl_states p) = [] \<and> duplicate_value (pl_agents p) = [] \<and>
     duplicate_value (pl_executables p) = []"
  unfolding policy_shape_guards_def first_failure_Cons_None first_failure.simps(1) by blast

lemma policy_window_None:
  "policy_window_guards p = None \<longleftrightarrow> 0 \<le> pl_min_stable p \<and> minute \<le> pl_cooldown p \<and>
     (needs_stable_window (pl_states p) \<longrightarrow> 5 * minute \<le> pl_min_stable p)"
  unfolding policy_window_guards_def first_failure_Cons_None first_failure.simps(1)
  by (auto simp: linorder_not_less)

lemma policy_enforce_None:
  "policy_enforce_guards p = None \<longleftrightarrow> (pl_mode p = ModeEnforce \<longrightarrow>
     pl_states p = [''orphaned''] \<and> length (pl_agents p) = 1 \<and> length (pl_executables p) = 1 \<and>
     pl_require_detached p \<and> pl_require_session_ended p \<and> hour \<le> pl_cooldown p)"
  unfolding policy_enforce_guards_def
  by (cases "pl_states p") (auto simp: first_failure_Cons_None linorder_not_less)

lemma validate_state_None:
  "validate_state p s = None \<longleftrightarrow> (s = ''orphaned'' \<or> s = ''hung'' \<or> s = ''crashed'') \<and>
     (s = ''orphaned'' \<longrightarrow> pl_require_detached p \<and> pl_require_session_ended p)"
  unfolding validate_state_def first_failure_Cons_None first_failure.simps(1) by blast

lemma validate_agent_None: "validate_agent agents a = None \<longleftrightarrow> agent_enabled agents a"
  by (simp add: validate_agent_def guard_simps)

lemma validate_executable_None:
  "validate_executable x = None \<longleftrightarrow> x \<noteq> [] \<and> path_base x = x \<and> executable_protection x = None"
  by (auto simp: validate_executable_def split: option.splits)

lemmas policy_None = policy_shape_None policy_window_None policy_enforce_None
  validate_state_None validate_agent_None validate_executable_None

lemma validate_policy_iff:
  "validate_policy agents ids p = None \<longleftrightarrow>
     policy_shape_guards ids p = None \<and>
     (\<forall>s \<in> set (pl_states p). validate_state p s = None) \<and>
     (\<forall>a \<in> set (pl_agents p). validate_agent agents a = None) \<and>
     (\<forall>x \<in> set (pl_executables p). validate_executable x = None) \<and>
     policy_window_guards p = None \<and> policy_enforce_guards p = None"
  by (simp only: validate_policy_def or_else_None first_some_None)

lemma validate_policy_id:
  "validate_policy agents ids p = None \<Longrightarrow> pl_id p \<notin> set ids"
  by (simp add: validate_policy_iff policy_shape_None)

lemma validate_policies_loop_None:
  assumes "validate_policies_loop agents ids enforce i ps = None"
  shows "(\<forall>p \<in> set ps. \<exists>ids. validate_policy agents ids p = None) \<and>
    enforce + length (filter counts_as_enforce ps) \<le> 1 \<and>
    distinct (List.map pl_id ps) \<and> set (List.map pl_id ps) \<inter> set ids = {}"
  using assms
proof (induction agents ids enforce i ps rule: validate_policies_loop.induct)
  case (1 agents ids enforce i)
  then show ?case by (simp split: if_splits)
next
  case (2 agents ids enforce i p ps)
  from "2.prems" have v: "validate_policy agents ids p = None"
    and l: "validate_policies_loop agents (pl_id p # ids)
      (if counts_as_enforce p then Suc enforce else enforce) (Suc i) ps = None"
    by (simp_all add: or_else_None)
  from "2.IH" [OF l] validate_policy_id [OF v] v show ?case
    by (auto split: if_splits)
qed

lemma validate_policy_cap:
  assumes v: "validate_policy agents ids p = None" and c: "c = ModeAudit \<or> c = ModeRecommend"
  shows "validate_policy agents ids (cap_policy c p) = None"
proof -
  note v' = v [unfolded validate_policy_iff]
  have ne: "capped_mode (pl_mode p) c \<noteq> ModeEnforce" using capped_mode_rank(3) [OF c] .
  have "policy_shape_guards ids (cap_policy c p) = None"
    using v' ne capped_mode_keeps [OF c, of "pl_mode p"]
    unfolding policy_shape_None config_simps by metis
  moreover have "policy_window_guards (cap_policy c p) = None"
    using v' unfolding policy_window_None config_simps by blast
  moreover have "policy_enforce_guards (cap_policy c p) = None"
    using ne unfolding policy_enforce_None config_simps by blast
  ultimately show ?thesis using v' unfolding validate_policy_iff config_simps by blast
qed

lemma validate_policies_loop_cap:
  assumes "validate_policies_loop agents ids e i ps = None" "c = ModeAudit \<or> c = ModeRecommend" "e' \<le> e"
  shows "validate_policies_loop agents ids e' i (List.map (cap_policy c) ps) = None"
  using assms
proof (induction agents ids e i ps arbitrary: e' rule: validate_policies_loop.induct)
  case (2 agents ids e i p ps)
  have "\<not> counts_as_enforce (cap_policy c p)"
    using capped_mode_rank(3) [OF "2.prems"(2)] by (simp add: counts_as_enforce_def config_simps)
  moreover from "2.prems"(1) have v: "validate_policy agents ids p = None"
    and l: "validate_policies_loop agents (pl_id p # ids)
      (if counts_as_enforce p then Suc e else e) (Suc i) ps = None"
    by (simp_all add: or_else_None)
  moreover have "validate_policies_loop agents (pl_id p # ids) e' (Suc i) (List.map (cap_policy c) ps) = None"
    by (rule "2.IH" [OF l "2.prems"(2)]) (use "2.prems"(3) in auto)
  ultimately show ?case
    using validate_policy_cap [OF v "2.prems"(2)] by (simp add: or_else_None cap_policy_fields)
qed (auto split: if_splits)

lemma validate_cache_policies_cap:
  assumes "validate_cache_policies agents ids e i ps = None" "c = ModeAudit \<or> c = ModeRecommend"
  shows "validate_cache_policies agents ids e i (List.map (cap_cache_policy c) ps) = None"
  using assms
proof (induction agents ids e i ps rule: validate_cache_policies.induct)
  case (2 agents ids e i p ps)
  then show ?case
    using capped_mode_keeps(2,3) [OF "2.prems"(2), of "cl_mode p"]
    by (auto simp: guard_simps validate_cache_policy_def cap_cache_policy_def)
qed auto

lemma validate_iff:
  "validate env c = None \<longleftrightarrow>
     cf_version c = 1 \<and> mode_valid (cf_global_mode c) \<and> \<not> pv_store_source (cf_privacy c) \<and>
     \<not> pv_telemetry (cf_privacy c) \<and> validate_worktrees env (cf_worktrees c) = None \<and>
     (\<forall>(name, got, least) \<in> set (duration_minimums c). least \<le> got) \<and>
     2 ^ 20 \<le> rt_max_bytes (cf_retention c) \<and> validate_policies c = None \<and>
     validate_cache (cf_cache c) (cf_agents c) = None"
proof -
  have "first_failure (List.map (\<lambda>(name, got, least). (got < least, BelowMinimum name got)) ms) = None
      \<longleftrightarrow> (\<forall>(name, got, least) \<in> set ms. least \<le> got)" for ms :: "(string \<times> duration \<times> duration) list"
    by (induction ms) (auto simp: first_failure_Cons_None)
  then show ?thesis
    unfolding validate_def or_else_None first_failure_Cons_None first_failure.simps(1)
      map_option_is_None not_not linorder_not_less by blast
qed

lemma validate_cache_cap:
  assumes "validate_cache cc agents = None" "c = ModeAudit \<or> c = ModeRecommend"
  shows "validate_cache (cc\<lparr>cc_global_mode := capped_mode (cc_global_mode cc) c,
    cc_policies := List.map (cap_cache_policy c) (cc_policies cc)\<rparr>) agents = None"
  using assms validate_cache_policies_cap [OF _ assms(2)] capped_mode_keeps(2) [OF assms(2)]
  by (simp add: validate_cache_def or_else_None first_failure_Cons_None)

lemma apply_ceiling_fields [config_simps]:
  "cf_version (apply_startup_ceiling c sm) = cf_version c"
  "cf_privacy (apply_startup_ceiling c sm) = cf_privacy c"
  "cf_worktrees (apply_startup_ceiling c sm) = cf_worktrees c"
  "cf_retention (apply_startup_ceiling c sm) = cf_retention c"
  "cf_sampling (apply_startup_ceiling c sm) = cf_sampling c"
  "cf_agents (apply_startup_ceiling c sm) = cf_agents c"
  "cf_global_mode (apply_startup_ceiling c sm) = capped_mode (cf_global_mode c) (startup_ceiling sm)"
  "cf_policies (apply_startup_ceiling c sm) = List.map (cap_policy (startup_ceiling sm)) (cf_policies c)"
  "cf_cache (apply_startup_ceiling c sm) = (cf_cache c)\<lparr>cc_global_mode :=
     capped_mode (cc_global_mode (cf_cache c)) (startup_ceiling sm),
     cc_policies := List.map (cap_cache_policy (startup_ceiling sm)) (cc_policies (cf_cache c))\<rparr>"
  by (simp_all add: apply_startup_ceiling_def Let_def)

lemma duration_minimums_ceiling [config_simps]:
  "duration_minimums (apply_startup_ceiling c sm) = duration_minimums c"
  by (simp add: duration_minimums_def config_simps)

lemma validate_startup_mode [config_simps]:
  "validate env (c\<lparr>cf_startup_mode := sm\<rparr>) = validate env c"
  by (simp add: validate_def duration_minimums_def validate_policies_def)

lemma validate_ceiling:
  assumes "validate env c = None"
  shows "validate env (apply_startup_ceiling c sm) = None"
proof -
  note v = assms [unfolded validate_iff]
  have "validate_policies (apply_startup_ceiling c sm) = None"
    using v validate_policies_loop_cap [OF _ startup_ceiling_cases order_refl]
    by (simp add: validate_policies_def config_simps)
  moreover have "validate_cache (cf_cache (apply_startup_ceiling c sm)) (cf_agents c) = None"
    using v validate_cache_cap [OF _ startup_ceiling_cases] by (simp add: config_simps)
  moreover have "mode_valid (cf_global_mode (apply_startup_ceiling c sm))"
    using v capped_mode_keeps(1) [OF startup_ceiling_cases] by (simp add: config_simps)
  ultimately show ?thesis using v unfolding validate_iff by (simp add: config_simps)
qed

section \<open>Properties\<close>

text \<open>A configuration that validates can automate very little: there is at most one enabled
  enforcing policy, and it covers a single orphaned state, one agent and one executable whose
  name is in no protected class, it requires detachment and an ended session, five minutes of
  stability and an hour of cooldown.\<close>

theorem enforce_policy_is_narrow:
  assumes "validate env c = None" and "p \<in> set (cf_policies c)"
    and "pl_enabled p" and "pl_mode p = ModeEnforce"
  shows "pl_states p = [''orphaned''] \<and> length (pl_agents p) = 1 \<and>
    (\<exists>x. pl_executables p = [x] \<and> executable_protection x = None) \<and>
    pl_require_detached p \<and> pl_require_session_ended p \<and>
    5 * minute \<le> pl_min_stable p \<and> hour \<le> pl_cooldown p \<and>
    (\<forall>q \<in> set (cf_policies c). pl_enabled q \<and> pl_mode q = ModeEnforce \<longrightarrow> q = p)"
proof -
  from assms(1) have l: "validate_policies_loop (cf_agents c) [] 0 0 (cf_policies c) = None"
    by (simp add: validate_iff validate_policies_def)
  note facts = validate_policies_loop_None [OF l]
  from facts assms(2) obtain ids where v: "validate_policy (cf_agents c) ids p = None" by blast
  note v' = v [unfolded validate_policy_iff policy_window_None policy_enforce_None validate_executable_None]
  have e: "pl_states p = [''orphaned'']" "length (pl_agents p) = 1" "length (pl_executables p) = 1"
    "pl_require_detached p" "pl_require_session_ended p" "hour \<le> pl_cooldown p"
    using v' assms(4) by blast+
  from e(3) obtain x where x: "pl_executables p = [x]" by (auto simp: length_Suc_conv)
  with v' have "executable_protection x = None" by simp
  moreover have "needs_stable_window (pl_states p)" by (simp add: e(1) needs_stable_window_def)
  then have "5 * minute \<le> pl_min_stable p" using v' by blast
  moreover have "q = p" if "q \<in> set (cf_policies c)" "pl_enabled q" "pl_mode q = ModeEnforce" for q
  proof -
    have "length (filter counts_as_enforce (cf_policies c)) \<le> 1" using facts by simp
    moreover have "q \<in> set (filter counts_as_enforce (cf_policies c))"
      "p \<in> set (filter counts_as_enforce (cf_policies c))"
      using that assms by (simp_all add: counts_as_enforce_def)
    ultimately show ?thesis
      by (cases "filter counts_as_enforce (cf_policies c)") auto
  qed
  ultimately show ?thesis using e x by blast
qed

text \<open>An environment with a real home directory and nothing below it.\<close>

definition bare_home :: os_env where
  "bare_home = \<lparr>oe_home = Some ''/home/u'', oe_eval_symlinks = Some, oe_lstat = (\<lambda>_. None)\<rparr>"

definition enforce_example :: policy where
  "enforce_example = (default_process_policy ModeEnforce)\<lparr>pl_automatic := True\<rparr>"

theorem enforce_policy_is_narrow_witness:
  "validate bare_home (default_config\<lparr>cf_policies := [enforce_example]\<rparr>) = None \<and>
   pl_states enforce_example = [''orphaned'']"
proof -
  have "validate bare_home (default_config\<lparr>cf_policies := [enforce_example]\<rparr>) = None"
    by code_simp
  moreover from enforce_policy_is_narrow [OF this, of enforce_example]
  have "pl_states enforce_example = [''orphaned'']"
    by (simp add: enforce_example_def default_process_policy_def)
  ultimately show ?thesis ..
qed

text \<open>The start-up ceiling is safe to apply: it turns every valid configuration into a valid
  one (so the second validation at start-up cannot reject what the first accepted), it only
  ever lowers authority, it leaves nothing above the ceiling, and applying it again changes
  nothing.\<close>

theorem startup_ceiling_safe:
  assumes "validate env c = None"
  shows "validate env (apply_startup_ceiling c sm) = None \<and>
    mode_rank (cf_global_mode (apply_startup_ceiling c sm))
      \<le> min (mode_rank (cf_global_mode c)) (mode_rank (startup_ceiling sm)) \<and>
    list_all2 (\<lambda>p q. pl_id q = pl_id p \<and>
        mode_rank (pl_mode q) \<le> min (mode_rank (pl_mode p)) (mode_rank (startup_ceiling sm)))
      (cf_policies c) (cf_policies (apply_startup_ceiling c sm)) \<and>
    apply_startup_ceiling (apply_startup_ceiling c sm) sm = apply_startup_ceiling c sm"
proof -
  have "cap_policy k (cap_policy k p) = cap_policy k p" for k p
    by (simp add: cap_policy_def config_simps Let_def)
  moreover have "cap_cache_policy k (cap_cache_policy k p) = cap_cache_policy k p" for k p
    by (simp add: cap_cache_policy_def config_simps)
  ultimately have "apply_startup_ceiling (apply_startup_ceiling c sm) sm = apply_startup_ceiling c sm"
    by (simp add: apply_startup_ceiling_def config_simps Let_def comp_def)
  moreover have "list_all2 (\<lambda>p q. pl_id q = pl_id p \<and>
        mode_rank (pl_mode q) \<le> min (mode_rank (pl_mode p)) (mode_rank (startup_ceiling sm)))
      (cf_policies c) (cf_policies (apply_startup_ceiling c sm))"
    using capped_mode_rank [OF startup_ceiling_cases]
    by (simp add: config_simps list_all2_conv_all_nth)
  ultimately show ?thesis
    using validate_ceiling [OF assms] capped_mode_rank [OF startup_ceiling_cases]
    by (simp add: config_simps)
qed

theorem startup_ceiling_safe_witness:
  "validate bare_home (apply_startup_ceiling
     (default_config\<lparr>cf_global_mode := ModeEnforce, cf_policies := [enforce_example]\<rparr>) StartupAudit) = None"
proof -
  have "validate bare_home
     (default_config\<lparr>cf_global_mode := ModeEnforce, cf_policies := [enforce_example]\<rparr>) = None"
    by code_simp
  from startup_ceiling_safe [OF this] show ?thesis by blast
qed

lemma load_for_startup_mode:
  assumes "load_for_startup env read_file decode path sm = Inr cfg"
  shows "cf_global_mode cfg \<noteq> ModeEnforce"
    and "sm \<noteq> StartupReconcile \<Longrightarrow> cf_global_mode cfg \<noteq> ModeRecommend"
proof -
  from assms obtain c where cfg: "cfg = (apply_startup_ceiling c sm)\<lparr>cf_startup_mode := sm\<rparr>"
    by (auto simp: load_for_startup_def Let_def split: sum.splits option.splits)
  show "cf_global_mode cfg \<noteq> ModeEnforce"
    using capped_mode_rank(3) [OF startup_ceiling_cases] by (simp add: cfg config_simps)
  have "capped_mode m ModeAudit \<noteq> ModeRecommend" for m
    by (cases m) (auto simp: capped_mode_def)
  then show "sm \<noteq> StartupReconcile \<Longrightarrow> cf_global_mode cfg \<noteq> ModeRecommend"
    by (simp add: cfg config_simps startup_ceiling_def)
qed

text \<open>Whatever the configuration file says, a daemon that starts successfully runs with a
  validated configuration, never has automatic enforcement, and in audit mode does not even
  have recommendation authority, neither for processes nor for caches.\<close>

theorem startup_never_enforces:
  assumes "load_for_startup env read_file decode path sm = Inr cfg"
  shows "validate env cfg = None \<and> cf_startup_mode cfg = sm \<and>
    cf_global_mode cfg \<noteq> ModeEnforce \<and> (\<forall>p \<in> set (cf_policies cfg). pl_mode p \<noteq> ModeEnforce \<and> \<not> pl_automatic p) \<and>
    (sm = StartupAudit \<longrightarrow> cf_global_mode cfg \<noteq> ModeRecommend \<and>
       (\<forall>p \<in> set (cf_policies cfg). pl_mode p \<noteq> ModeRecommend) \<and>
       cc_global_mode (cf_cache cfg) \<noteq> ModeRecommend \<and>
       (\<forall>p \<in> set (cc_policies (cf_cache cfg)). cl_mode p \<noteq> ModeRecommend))"
proof -
  from assms obtain c where cfg: "cfg = (apply_startup_ceiling c sm)\<lparr>cf_startup_mode := sm\<rparr>"
    and v: "validate env cfg = None"
    by (auto simp: load_for_startup_def Let_def split: sum.splits option.splits)
  from v have l: "validate_policies_loop (cf_agents cfg) [] 0 0 (cf_policies cfg) = None"
    by (simp add: validate_iff validate_policies_def)
  have modes: "\<forall>p \<in> set (cf_policies cfg). pl_mode p \<noteq> ModeEnforce"
    using capped_mode_rank(3) [OF startup_ceiling_cases] by (auto simp: cfg config_simps)
  moreover have "\<forall>p \<in> set (cf_policies cfg). pl_automatic p \<longrightarrow> pl_mode p = ModeEnforce"
    using validate_policies_loop_None [OF l] by (auto simp: validate_policy_iff policy_shape_None)
  moreover have "capped_mode m ModeAudit \<noteq> ModeRecommend" for m
    by (cases m) (auto simp: capped_mode_def)
  then have "sm = StartupAudit \<longrightarrow> cf_global_mode cfg \<noteq> ModeRecommend \<and>
       (\<forall>p \<in> set (cf_policies cfg). pl_mode p \<noteq> ModeRecommend) \<and>
       cc_global_mode (cf_cache cfg) \<noteq> ModeRecommend \<and>
       (\<forall>p \<in> set (cc_policies (cf_cache cfg)). cl_mode p \<noteq> ModeRecommend)"
    by (auto simp: cfg config_simps startup_ceiling_def cap_cache_policy_def)
  ultimately show ?thesis using v load_for_startup_mode(1) [OF assms] by (auto simp: cfg)
qed

theorem startup_never_enforces_witness:
  "\<exists>cfg. load_for_startup bare_home (\<lambda>_. FileMissing) (\<lambda>_ c. Some c) ''/c.yaml'' StartupReconcile = Inr cfg
     \<and> cf_global_mode cfg \<noteq> ModeEnforce"
proof -
  let ?l = "load_for_startup bare_home (\<lambda>_. FileMissing) (\<lambda>_ c. Some c) ''/c.yaml'' StartupReconcile"
  have "(case ?l of Inr _ \<Rightarrow> True | Inl _ \<Rightarrow> False)" by code_simp
  then obtain cfg where "?l = Inr cfg" by (auto split: sum.splits)
  moreover from startup_never_enforces [OF this] have "cf_global_mode cfg \<noteq> ModeEnforce" by simp
  ultimately show ?thesis by blast
qed

text \<open>Duplicate detection in a policy's scope is exact except for one value: a list free of the
  empty string passes precisely when it has no duplicates, but a repeated empty string is
  reported as no duplicate at all.\<close>

theorem duplicate_value_exact_but_empty:
  "([] \<notin> set vs \<longrightarrow> (duplicate_value vs = [] \<longleftrightarrow> distinct vs)) \<and>
   duplicate_value ([] # [] # vs) = []"
proof -
  have "duplicate_value vs = [] \<longleftrightarrow> distinct vs" if "[] \<notin> set vs"
    using that first_duplicate_None [of "[]" vs] first_duplicate_Some_in [of "[]" vs]
    by (auto simp: duplicate_value_def split: option.splits)
  then show ?thesis by (simp add: duplicate_value_def)
qed

theorem duplicate_value_exact_but_empty_witness:
  "duplicate_value [''codex'', ''codex''] \<noteq> [] \<and> duplicate_value [[], []] = []"
  using duplicate_value_exact_but_empty [of "[''codex'', ''codex'']"]
    duplicate_value_exact_but_empty [of "[]"] by simp

end
