(* ===== verification/Policy.thy ===== *)
theory Policy
  imports Startup
begin

text \<open>
  The policy engine (\<open>internal/policy/policy.go\<close>): one policy definition against one
  complete fact set. It yields no decision unless every match condition holds; a decision
  is a refusal when a hard protection applies, a cooldown while an earlier candidate is
  cooling down, and a candidate otherwise.
\<close>

named_theorems policy_simps \<open>facts about policy decisions\<close>

datatype policy_result = ResultCandidate | ResultRefused | ResultCooldown

record target =
  tg_proc_uid :: string
  tg_session_id :: string
  tg_class_ts :: gotime
  tg_state :: string
  tg_stable_since :: gotime
  tg_agent_id :: string
  tg_executable :: string
  tg_detached :: bool
  tg_session_ended :: bool
  tg_protection :: protection_result

record decision =
  dc_policy_id :: string
  dc_proc_uid :: string
  dc_session_id :: string
  dc_at :: gotime
  dc_state :: string
  dc_result :: policy_result
  dc_reason :: detail
  dc_cooldown_until :: gotime
  dc_evidence :: "evidence list"

definition scope_evidence :: "target \<Rightarrow> evidence list" where
  "scope_evidence t =
     [ev ''policy-state-v1'' (Fmt ''classification is %s and has been stable since %s''
        [AStr (tg_state t), ATime (tg_stable_since t)]),
      ev ''policy-scope-v1'' (Fmt ''agent %s executable %s matched exact policy scope''
        [AStr (tg_agent_id t), AStr (tg_executable t)])]"

definition cooldown_reason :: detail where
  "cooldown_reason = Text ''an earlier candidate for this exact policy and process is cooling down''"
definition candidate_reason :: detail where
  "candidate_reason = Text ''policy matched and no hard protection applies''"

definition mode_evidence :: "mode \<Rightarrow> evidence" where
  "mode_evidence m = (case m of
      ModeRecommend \<Rightarrow> ev ''manual-approval-v1''
        (Text ''recommendation requires a separate short-lived approval and full revalidation'')
    | ModeEnforce \<Rightarrow> ev ''automatic-enforcement-v1''
        (Text ''automatic enforcement still requires full fresh revalidation and the final exact-image platform gate'')
    | _ \<Rightarrow> ev ''audit-only-v1''
        (Text ''audit policy grants no recommendation or signalling authority''))"

text \<open>The condition under which \<open>Evaluate\<close> returns no decision.\<close>

definition no_match :: "policy \<Rightarrow> target \<Rightarrow> gotime \<Rightarrow> bool" where
  "no_match p t now \<longleftrightarrow>
     \<not> pl_enabled p \<or>
     (pl_mode p \<noteq> ModeAudit \<and> pl_mode p \<noteq> ModeRecommend \<and> pl_mode p \<noteq> ModeEnforce) \<or>
     \<not> List.member (pl_states p) (tg_state t) \<or>
     \<not> List.member (pl_agents p) (tg_agent_id t) \<or>
     \<not> List.member (pl_executables p) (tg_executable t) \<or>
     (pl_require_detached p \<and> \<not> tg_detached t) \<or>
     (pl_require_session_ended p \<and> \<not> tg_session_ended t) \<or>
     is_zero_time (tg_class_ts t) \<or> is_zero_time (tg_stable_since t) \<or>
     time_sub now (tg_stable_since t) < pl_min_stable p"

definition evaluate_policy :: "policy \<Rightarrow> target \<Rightarrow> gotime \<Rightarrow> gotime \<Rightarrow> decision option" where
  "evaluate_policy p t now prior_cooldown_until =
     (if no_match p t now then None
      else
        (let d = \<lparr>dc_policy_id = pl_id p, dc_proc_uid = tg_proc_uid t,
                  dc_session_id = tg_session_id t, dc_at = now, dc_state = tg_state t,
                  dc_result = ResultCandidate, dc_reason = candidate_reason,
                  dc_cooldown_until = 0, dc_evidence = scope_evidence t\<rparr> in
         if pe_protected (tg_protection t) then
           Some (d\<lparr>dc_result := ResultRefused,
             dc_reason := Fmt ''%d non-overridable protection(s) apply''
               [AInt (int (length (pe_rules (tg_protection t))))],
             dc_evidence := dc_evidence d @
               List.map (\<lambda>r. ev (ru_id r) (ru_reason r)) (pe_rules (tg_protection t))\<rparr>)
         else if now < prior_cooldown_until then
           Some (d\<lparr>dc_result := ResultCooldown, dc_cooldown_until := prior_cooldown_until,
             dc_reason := cooldown_reason,
             dc_evidence := dc_evidence d @
               [ev ''policy-cooldown-v1'' (Fmt ''cooldown ends %s'' [ATime prior_cooldown_until])]\<rparr>)
         else
           Some (d\<lparr>dc_cooldown_until := now + pl_cooldown p,
             dc_evidence := dc_evidence d @ [mode_evidence (pl_mode p)]\<rparr>)))"

section \<open>Lemmas\<close>

lemma evaluate_policy_None [policy_simps]: "evaluate_policy p t now c = None \<longleftrightarrow> no_match p t now"
  by (simp add: evaluate_policy_def Let_def)

lemma evaluate_policy_result:
  assumes "evaluate_policy p t now c = Some d"
  shows "\<not> no_match p t now"
    and "dc_result d = (if pe_protected (tg_protection t) then ResultRefused
                        else if now < c then ResultCooldown else ResultCandidate)"
    and "dc_policy_id d = pl_id p" "dc_proc_uid d = tg_proc_uid t" "dc_session_id d = tg_session_id t"
    and "dc_state d = tg_state t" "dc_at d = now"
    and "dc_result d = ResultCandidate \<Longrightarrow> dc_cooldown_until d = now + pl_cooldown p"
  using assms by (auto simp: evaluate_policy_def Let_def split: if_splits)

lemma not_no_match:
  "\<not> no_match p t now \<longleftrightarrow>
     pl_enabled p \<and> pl_mode p \<in> {ModeAudit, ModeRecommend, ModeEnforce} \<and>
     tg_state t \<in> set (pl_states p) \<and> tg_agent_id t \<in> set (pl_agents p) \<and>
     tg_executable t \<in> set (pl_executables p) \<and>
     (pl_require_detached p \<longrightarrow> tg_detached t) \<and> (pl_require_session_ended p \<longrightarrow> tg_session_ended t) \<and>
     tg_class_ts t \<noteq> 0 \<and> tg_stable_since t \<noteq> 0 \<and>
     pl_min_stable p \<le> time_sub now (tg_stable_since t)"
  unfolding no_match_def is_zero_time_def linorder_not_less [symmetric] List.member_iff by blast

section \<open>Properties\<close>

definition policy_matches :: "policy \<Rightarrow> target \<Rightarrow> gotime \<Rightarrow> bool" where
  "policy_matches p t now \<longleftrightarrow>
     pl_enabled p \<and> pl_mode p \<in> {ModeAudit, ModeRecommend, ModeEnforce} \<and>
     tg_state t \<in> set (pl_states p) \<and> tg_agent_id t \<in> set (pl_agents p) \<and>
     tg_executable t \<in> set (pl_executables p) \<and>
     (pl_require_detached p \<longrightarrow> tg_detached t) \<and> (pl_require_session_ended p \<longrightarrow> tg_session_ended t) \<and>
     tg_class_ts t \<noteq> 0 \<and> tg_stable_since t \<noteq> 0 \<and>
     pl_min_stable p \<le> time_sub now (tg_stable_since t)"

lemma no_match_iff: "no_match p t now \<longleftrightarrow> \<not> policy_matches p t now"
  using not_no_match [of p t now] unfolding policy_matches_def by blast

text \<open>C29: A candidate can only arise for a process that clears every hard protection: for a target
  whose protection was evaluated by the protection rules, the engine returns a candidate
  exactly when all match conditions of the enabled policy hold, every protection is cleared
  and no cooldown is pending. A refusal wins over a cooldown: with the conditions met, the result is a refusal
  exactly when some protection is not cleared, cooldown or not, and a cooldown exactly when all are and
  an earlier candidate is still cooling down. Without a match there is no decision at all.\<close>

theorem candidate_iff_matched_and_clear:
  assumes "tg_protection t = evaluate_protection inp"
  shows "((\<exists>d. evaluate_policy p t now prior = Some d \<and> dc_result d = ResultCandidate) \<longleftrightarrow>
      policy_matches p t now \<and> clears_protection inp \<and> prior \<le> now) \<and>
    ((\<exists>d. evaluate_policy p t now prior = Some d \<and> dc_result d = ResultRefused) \<longleftrightarrow>
      policy_matches p t now \<and> \<not> clears_protection inp) \<and>
    ((\<exists>d. evaluate_policy p t now prior = Some d \<and> dc_result d = ResultCooldown) \<longleftrightarrow>
      policy_matches p t now \<and> clears_protection inp \<and> now < prior) \<and>
    (evaluate_policy p t now prior = None \<longleftrightarrow> \<not> policy_matches p t now)"
proof -
  have c: "\<not> pe_protected (tg_protection t) \<longleftrightarrow> clears_protection inp"
    using protected_iff_clear [of inp] assms by simp
  have n: "evaluate_policy p t now prior = None \<longleftrightarrow> \<not> policy_matches p t now"
    by (simp add: evaluate_policy_None no_match_iff)
  show ?thesis
    using evaluate_policy_result(1,2) [of p t now prior] n c
    by (cases "evaluate_policy p t now prior") (auto simp: no_match_iff split: if_splits)
qed

text \<open>A process that clears everything, and a target built from it.\<close>

definition clear_process :: process where
  "clear_process = \<lparr>pr_pid = 900, pr_ppid = 1, pr_pgid = 900, pr_sid = 10, pr_uid = 501,
     pr_start = unix_epoch + 1, pr_comm = ''chrome-headless'', pr_status = StatusSleeping, pr_tty = [],
     pr_detailed = True, pr_exec_path = ''/opt/chrome-headless-shell'', pr_args = [], pr_cwd = ''/'',
     pr_env = [], pr_env_readable = True, pr_cpu_time = 0, pr_rss = 0, pr_vsz = 0, pr_threads = 1\<rparr>"

definition clear_input :: protection_input where
  "clear_input = \<lparr>pi_process = clear_process, pi_self_pid = 50, pi_self_uid = 501,
     pi_is_agent_root = False, pi_session_active = False, pi_confidence = 97 / 100,
     pi_descendants = 0, pi_adapter_rules = []\<rparr>"

definition clear_target :: target where
  "clear_target = \<lparr>tg_proc_uid = key_uid (proc_key clear_process), tg_session_id = ''s1'',
     tg_class_ts = 10 * minute, tg_state = ''orphaned'', tg_stable_since = minute,
     tg_agent_id = ''codex'', tg_executable = ''chrome-headless-shell'', tg_detached = True,
     tg_session_ended = True, tg_protection = evaluate_protection clear_input\<rparr>"

theorem candidate_iff_matched_and_clear_witness:
  "\<exists>d. evaluate_policy (default_process_policy ModeRecommend) clear_target (10 * minute) 0 = Some d
     \<and> dc_result d = ResultCandidate"
proof -
  have "tg_protection clear_target = evaluate_protection clear_input" by (simp add: clear_target_def)
  note iff = candidate_iff_matched_and_clear [OF this, of "default_process_policy ModeRecommend" "10 * minute" 0]
  have "clears_protection clear_input" by code_simp
  moreover have "tg_class_ts clear_target \<noteq> 0 \<and> tg_stable_since clear_target \<noteq> 0 \<and>
      pl_min_stable (default_process_policy ModeRecommend) \<le> time_sub (10 * minute) (tg_stable_since clear_target)"
    by code_simp
  then have "policy_matches (default_process_policy ModeRecommend) clear_target (10 * minute)"
    by (simp add: policy_matches_def clear_target_def default_process_policy_def)
  moreover have "0 \<le> 10 * minute" by (simp add: duration_defs)
  ultimately show ?thesis using iff by blast
qed

text \<open>Cooldown limits the rate: once a policy has produced a candidate, evaluating it again
  with the recorded cooldown, for any target and at any earlier instant than the end of the
  cooldown, cannot produce another candidate.\<close>

theorem candidate_cooldown:
  assumes "evaluate_policy p t now prior = Some d" and "dc_result d = ResultCandidate"
    and "now' < now + pl_cooldown p"
    and "evaluate_policy p t' now' (dc_cooldown_until d) = Some d'"
  shows "dc_result d' \<noteq> ResultCandidate"
proof -
  have "dc_cooldown_until d = now + pl_cooldown p"
    using evaluate_policy_result(8) [OF assms(1,2)] .
  with evaluate_policy_result(2) [OF assms(4)] assms(3) show ?thesis by simp
qed

theorem candidate_cooldown_witness:
  "\<exists>d d'. evaluate_policy (default_process_policy ModeRecommend) clear_target (10 * minute) 0 = Some d \<and>
     evaluate_policy (default_process_policy ModeRecommend) clear_target (15 * minute)
       (dc_cooldown_until d) = Some d' \<and> dc_result d' \<noteq> ResultCandidate"
proof -
  let ?p = "default_process_policy ModeRecommend"
  have "(case evaluate_policy ?p clear_target (10 * minute) 0 of
      Some d \<Rightarrow> dc_result d = ResultCandidate \<and>
        evaluate_policy ?p clear_target (15 * minute) (dc_cooldown_until d) \<noteq> None
    | None \<Rightarrow> False)" by code_simp
  then obtain d d' where "evaluate_policy ?p clear_target (10 * minute) 0 = Some d"
    "dc_result d = ResultCandidate"
    "evaluate_policy ?p clear_target (15 * minute) (dc_cooldown_until d) = Some d'"
    by (auto split: option.splits)
  moreover have "15 * minute < 10 * minute + pl_cooldown ?p"
    by (simp add: default_process_policy_def duration_defs)
  ultimately show ?thesis using candidate_cooldown by blast
qed

end
