(* ===== verification/Store.thy ===== *)
theory Store
  imports Session_Model Policy
begin

text \<open>
  The tables of the database that the process lane reads and writes
  (\<open>internal/storage\<close>): each SQL statement is a function on lists of rows. Row ids come
  from \<open>AUTOINCREMENT\<close> counters. A transaction is a function that fails or yields the new
  store; the changes of a failed one are rolled back.
\<close>

named_theorems store_simps \<open>facts about the tables\<close>

section \<open>Rows and tables\<close>

record decision_record =
  pd_id :: int
  pd_evaluation :: int
  pd_policy :: string
  pd_uid :: string
  pd_session :: string
  pd_ts :: int
  pd_class_ts :: int
  pd_state :: string
  pd_result :: policy_result
  pd_reason :: detail
  pd_cooldown :: int
  pd_evidence :: "evidence list"

datatype action_result = ActionAttempting | ActionRejected | ActionSignalled | ActionFailed

datatype authority = AuthorityManual | AuthorityAutomatic

record action_record =
  ac_id :: string
  ac_policy :: string
  ac_uid :: string
  ac_session :: string
  ac_authority :: authority
  ac_requested :: int
  ac_updated :: int
  ac_result :: action_result
  ac_signal :: string
  ac_reason :: detail
  ac_evidence :: "evidence list"

text \<open>A log entry of the action lane: its evidence is a policy's evidence.\<close>

record action_audit =
  aq_ts :: int
  aq_kind :: string
  aq_subject :: string
  aq_summary :: detail
  aq_evidence :: "evidence list"

text \<open>What one scan adds: its own row, derived activity and conclusions.\<close>

record scan_record =
  sc_started :: int
  sc_duration_us :: int
  sc_visible :: int
  sc_inspected :: int
  sc_attributed :: int
  sc_sessions :: int
  sc_error :: detail

record activity_record =
  ay_uid :: string
  ay_session :: string
  ay_ts :: int
  ay_interval :: int
  ay_baseline_ok :: bool
  ay_cpu_percent :: rat
  ay_cpu_delta :: int
  ay_cpu_known :: bool
  ay_disk_read :: int
  ay_disk_written :: int
  ay_io_known :: bool
  ay_rss :: int
  ay_open_files :: int
  ay_writable_files :: int
  ay_files_known :: bool
  ay_sockets :: int
  ay_connected :: int
  ay_recv_queue :: int
  ay_send_queue :: int
  ay_network_changed :: bool
  ay_sockets_known :: bool
  ay_note :: detail

record classification_record =
  cx_uid :: string
  cx_session :: string
  cx_ts :: int
  cx_activity_ts :: int
  cx_state :: class_state
  cx_basis :: class_state
  cx_detached :: bool
  cx_session_ended :: bool
  cx_stable_since :: int
  cx_evidence :: "evidence list"

text \<open>
  A process row carries the time it was marked as exited. The audit log is kept in two
  lists, for the entries of reconciliation and for those of policies, actions and the daemon.
\<close>

record store =
  sto_evaluations :: "(int \<times> int) list"
  sto_next_evaluation :: int
  sto_decisions :: "decision_record list"
  sto_next_decision :: int
  sto_processes :: "(string \<times> process_record \<times> int option) list"
  sto_sessions :: "(string \<times> session_record) list"
  sto_ownership :: "((string \<times> string) \<times> ownership_record) list"
  sto_actions :: "action_record list"
  sto_action_audit :: "action_audit list"
  sto_scans :: "(int \<times> scan_record) list"
  sto_next_scan :: int
  sto_observations :: "(int \<times> observation_record) list"
  sto_relationships :: "((string \<times> relationship_kind \<times> string \<times> string) \<times> relationship_record) list"
  sto_activity :: "activity_record list"
  sto_classifications :: "classification_record list"
  sto_audit :: "audit_record list"
  sto_meta :: "(string \<times> string) list"

definition empty_store :: store where
  "empty_store = \<lparr>sto_evaluations = [], sto_next_evaluation = 1, sto_decisions = [],
     sto_next_decision = 1, sto_processes = [], sto_sessions = [], sto_ownership = [],
     sto_actions = [], sto_action_audit = [], sto_scans = [], sto_next_scan = 1, sto_observations = [],
     sto_relationships = [], sto_activity = [], sto_classifications = [], sto_audit = [], sto_meta = []\<rparr>"

datatype store_error = DuplicateAction string | ActionNotFound string | SessionNotFound
  | SessionAmbiguous string | DatabaseError string

section \<open>Policy evaluations and decisions\<close>

definition insert_policy_evaluation :: "int \<Rightarrow> store \<Rightarrow> int \<times> store" where
  "insert_policy_evaluation ts s =
     (sto_next_evaluation s,
      s\<lparr>sto_evaluations := sto_evaluations s @ [(sto_next_evaluation s, ts)],
        sto_next_evaluation := sto_next_evaluation s + 1\<rparr>)"

definition insert_policy_decision :: "decision_record \<Rightarrow> store \<Rightarrow> store" where
  "insert_policy_decision rec s =
     s\<lparr>sto_decisions := sto_decisions s @ [rec\<lparr>pd_id := sto_next_decision s\<rparr>],
       sto_next_decision := sto_next_decision s + 1\<rparr>"

definition max_evaluation :: "store \<Rightarrow> int option" where
  "max_evaluation s =
     (case sto_evaluations s of [] \<Rightarrow> None | es \<Rightarrow> Some (Max (set (List.map fst es))))"

text \<open>The last decision of an evaluation for its policy and process.\<close>

definition is_latest :: "store \<Rightarrow> decision_record \<Rightarrow> bool" where
  "is_latest s d \<longleftrightarrow> (\<forall>e \<in> set (sto_decisions s).
     pd_evaluation e = pd_evaluation d \<and> pd_policy e = pd_policy d \<and> pd_uid e = pd_uid d \<longrightarrow> pd_id e \<le> pd_id d)"

definition process_live :: "store \<Rightarrow> string \<Rightarrow> bool" where
  "process_live s uid \<longleftrightarrow> (case map_of (sto_processes s) uid of Some (_, None) \<Rightarrow> True | _ \<Rightarrow> False)"

definition current_policy_decisions :: "store \<Rightarrow> decision_record list" where
  "current_policy_decisions s =
     (case max_evaluation s of
        None \<Rightarrow> []
      | Some m \<Rightarrow> sort_key pd_id
          (filter (\<lambda>d. pd_evaluation d = m \<and> process_live s (pd_uid d) \<and> is_latest s d) (sto_decisions s)))"

definition last_candidate_cooldown :: "store \<Rightarrow> string \<Rightarrow> string \<Rightarrow> int" where
  "last_candidate_cooldown s policy_id uid =
     (case rev (sort_key pd_id (filter (\<lambda>d. pd_policy d = policy_id \<and> pd_uid d = uid \<and>
            pd_result d = ResultCandidate) (sto_decisions s))) of
        [] \<Rightarrow> 0 | d # _ \<Rightarrow> pd_cooldown d)"

section \<open>Processes, sessions and ownership\<close>

text \<open>An existing row keeps its identity, its first observation and its original parent.\<close>

definition upsert_process :: "process_record \<Rightarrow> store \<Rightarrow> store" where
  "upsert_process rec s =
     s\<lparr>sto_processes := AList.update (pc_uid rec)
         (case map_of (sto_processes s) (pc_uid rec) of
            None \<Rightarrow> (rec, None)
          | Some (old, _) \<Rightarrow>
              (rec\<lparr>pc_pid := pc_pid old, pc_start_ns := pc_start_ns old, pc_owner := pc_owner old,
                   pc_original_ppid := pc_original_ppid old, pc_first_seen := pc_first_seen old,
                   pc_parent_observed := pc_parent_observed old\<rparr>, None))
         (sto_processes s)\<rparr>"

definition mark_exited_before :: "int \<Rightarrow> int \<Rightarrow> store \<Rightarrow> store" where
  "mark_exited_before scan_start exited_at s =
     s\<lparr>sto_processes := List.map (\<lambda>(uid, rec, ex).
         (uid, rec, if ex = None \<and> pc_last_seen rec < scan_start then Some exited_at else ex))
       (sto_processes s)\<rparr>"

text \<open>An existing session keeps its agent, its root and its start.\<close>

definition upsert_session :: "session_record \<Rightarrow> store \<Rightarrow> store" where
  "upsert_session rec s =
     s\<lparr>sto_sessions := AList.update (sr_session_id rec)
         (case map_of (sto_sessions s) (sr_session_id rec) of
            None \<Rightarrow> rec
          | Some old \<Rightarrow> rec\<lparr>sr_agent_id := sr_agent_id old, sr_root_uid := sr_root_uid old,
                            sr_root_pid := sr_root_pid old, sr_started_ns := sr_started_ns old\<rparr>)
         (sto_sessions s)\<rparr>"

definition end_session :: "string \<Rightarrow> session_state \<Rightarrow> session_state \<Rightarrow> int \<Rightarrow> store \<Rightarrow> store" where
  "end_session sid previous state ended_ns s =
     (case map_of (sto_sessions s) sid of
        None \<Rightarrow> s
      | Some old \<Rightarrow> s\<lparr>sto_sessions := AList.update sid
          (old\<lparr>sr_state := state, sr_previous := previous, sr_changed_ns := ended_ns,
               sr_ended_ns := (case sr_ended_ns old of Some t \<Rightarrow> Some t | None \<Rightarrow> Some ended_ns)\<rparr>)
          (sto_sessions s)\<rparr>)"

text \<open>An existing association stays a root association, and its confidence never falls.\<close>

definition upsert_ownership :: "ownership_record \<Rightarrow> store \<Rightarrow> store" where
  "upsert_ownership rec s =
     (let k = (ow_session_id rec, ow_uid rec) in
      s\<lparr>sto_ownership := AList.update k
          (case map_of (sto_ownership s) k of
             None \<Rightarrow> rec
           | Some old \<Rightarrow> old\<lparr>
               ow_relation := (if ow_relation old = RelationRoot then RelationRoot else ow_relation rec),
               ow_confidence := max (ow_confidence old) (ow_confidence rec),
               ow_evidence := ow_evidence rec, ow_last_seen := ow_last_seen rec\<rparr>)
          (sto_ownership s)\<rparr>)"

text \<open>An existing edge keeps the time it was first seen.\<close>

definition upsert_relationship :: "relationship_record \<Rightarrow> store \<Rightarrow> store" where
  "upsert_relationship rec s =
     (let k = (rl_session_id rec, rl_kind rec, rl_from rec, rl_to rec) in
      s\<lparr>sto_relationships := AList.update k
          (case map_of (sto_relationships s) k of
             None \<Rightarrow> rec | Some old \<Rightarrow> rec\<lparr>rl_first_seen := rl_first_seen old\<rparr>)
          (sto_relationships s)\<rparr>)"

text \<open>
  \<open>LiveOwnership\<close>: of several sessions that claim a process the one with the highest
  confidence, and among equals the first in the order of the rows.
\<close>

definition process_exited :: "store \<Rightarrow> string \<Rightarrow> bool" where
  "process_exited s uid \<longleftrightarrow> (case map_of (sto_processes s) uid of Some (_, Some _) \<Rightarrow> True | _ \<Rightarrow> False)"

definition keep_owner ::
  "ownership_record \<Rightarrow> (string \<times> ownership_record) list \<Rightarrow> (string \<times> ownership_record) list" where
  "keep_owner rec out =
     (case map_of out (ow_uid rec) of
        Some prev \<Rightarrow> if ow_confidence rec \<le> ow_confidence prev then out else AList.update (ow_uid rec) rec out
      | None \<Rightarrow> AList.update (ow_uid rec) rec out)"

definition live_ownership :: "store \<Rightarrow> (string \<times> ownership_record) list" where
  "live_ownership s =
     fold keep_owner (filter (\<lambda>rec. \<not> process_exited s (ow_uid rec)) (List.map snd (sto_ownership s))) []"

section \<open>Scans\<close>

definition insert_scan :: "scan_record \<Rightarrow> store \<Rightarrow> int \<times> store" where
  "insert_scan rec s =
     (sto_next_scan s, s\<lparr>sto_scans := sto_scans s @ [(sto_next_scan s, rec)], sto_next_scan := sto_next_scan s + 1\<rparr>)"

definition insert_observation :: "int \<Rightarrow> observation_record \<Rightarrow> store \<Rightarrow> store" where
  "insert_observation scan_id rec s = s\<lparr>sto_observations := sto_observations s @ [(scan_id, rec)]\<rparr>"

definition insert_activity :: "activity_record \<Rightarrow> store \<Rightarrow> store" where
  "insert_activity rec s = s\<lparr>sto_activity := sto_activity s @ [rec]\<rparr>"

definition insert_classification :: "classification_record \<Rightarrow> store \<Rightarrow> store" where
  "insert_classification rec s = s\<lparr>sto_classifications := sto_classifications s @ [rec]\<rparr>"

definition append_audit :: "audit_record \<Rightarrow> store \<Rightarrow> store" where
  "append_audit rec s = s\<lparr>sto_audit := sto_audit s @ [rec]\<rparr>"

definition set_meta :: "string \<Rightarrow> string \<Rightarrow> store \<Rightarrow> store" where
  "set_meta k v s = s\<lparr>sto_meta := AList.update k v (sto_meta s)\<rparr>"

section \<open>Sessions by identifier\<close>

text \<open>SQLite's \<open>LIKE\<close>: a percent sign matches any text, an underscore one byte; ASCII
  letters match regardless of case.\<close>

fun like :: "string \<Rightarrow> string \<Rightarrow> bool" where
  "like [] s = (s = [])"
| "like (p # ps) [] = (p = CHR ''%'' \<and> like ps [])"
| "like (p # ps) (c # cs) =
     (if p = CHR ''%'' then like ps (c # cs) \<or> like (p # ps) cs
      else (p = CHR ''_'' \<or> lower_char p = lower_char c) \<and> like ps cs)"

definition session_matches :: "store \<Rightarrow> string \<Rightarrow> session_record list" where
  "session_matches s q =
     take 2 (rev (sort_key sr_last_seen_ns (rev
       (filter (\<lambda>rec. sr_session_id rec = q \<or> like (q @ ''%'') (sr_session_id rec))
         (List.map snd (sto_sessions s))))))"

definition get_session :: "store \<Rightarrow> string \<Rightarrow> store_error + session_record" where
  "get_session s q =
     (if q = [] then Inl SessionNotFound
      else (case List.find (\<lambda>rec. sr_session_id rec = q) (session_matches s q) of
              Some rec \<Rightarrow> Inr rec
            | None \<Rightarrow> (case session_matches s q of
                         [] \<Rightarrow> Inl SessionNotFound
                       | [rec] \<Rightarrow> Inr rec
                       | _ \<Rightarrow> Inl (SessionAmbiguous q))))"

section \<open>The action journal\<close>

definition insert_action :: "action_record \<Rightarrow> store \<Rightarrow> store_error + store" where
  "insert_action rec s =
     (if ac_id rec \<in> ac_id ` set (sto_actions s) then Inl (DuplicateAction (ac_id rec))
      else Inr (s\<lparr>sto_actions := sto_actions s @ [rec]\<rparr>))"

definition update_action ::
  "string \<Rightarrow> action_result \<Rightarrow> detail \<Rightarrow> evidence list \<Rightarrow> int \<Rightarrow> store \<Rightarrow> store_error + store" where
  "update_action aid result reason es at_ns s =
     (if length (filter (\<lambda>a. ac_id a = aid) (sto_actions s)) \<noteq> 1 then Inl (ActionNotFound aid)
      else Inr (s\<lparr>sto_actions := List.map (\<lambda>a. if ac_id a = aid
             then a\<lparr>ac_result := result, ac_reason := reason, ac_evidence := es, ac_updated := at_ns\<rparr>
             else a) (sto_actions s)\<rparr>))"

definition append_action_audit :: "action_audit \<Rightarrow> store \<Rightarrow> store" where
  "append_action_audit rec s = s\<lparr>sto_action_audit := sto_action_audit s @ [rec]\<rparr>"

definition action_counts :: "store \<Rightarrow> int \<times> int \<times> int" where
  "action_counts s =
     (int (length (filter (\<lambda>a. ac_result a \<noteq> ActionRejected) (sto_actions s))),
      int (length (filter (\<lambda>a. ac_result a = ActionRejected) (sto_actions s))),
      int (length (filter (\<lambda>a. ac_result a = ActionSignalled) (sto_actions s))))"

record action_filter =
  af_uid :: string
  af_policy :: string
  af_result :: "action_result option"
  af_limit :: int

text \<open>Newest first; rows requested at the same time come in the order of descending ids.\<close>

definition list_actions :: "action_filter \<Rightarrow> store \<Rightarrow> action_record list" where
  "list_actions f s =
     (let limit = (if af_limit f \<le> 0 \<or> 500 < af_limit f then 100 else af_limit f) in
      take (nat limit) (rev (sort_key ac_requested
        (filter (\<lambda>a. (af_uid f \<noteq> [] \<longrightarrow> ac_uid a = af_uid f) \<and> (af_policy f \<noteq> [] \<longrightarrow> ac_policy a = af_policy f) \<and>
           (case af_result f of None \<Rightarrow> True | Some r \<Rightarrow> ac_result a = r)) (sto_actions s)))))"

text \<open>A transaction: the whole function or nothing, also when the commit itself fails.\<close>

definition with_tx :: "string option \<Rightarrow> (store \<Rightarrow> store_error + store) \<Rightarrow> store \<Rightarrow> store_error option \<times> store" where
  "with_tx failure f s =
     (case failure of
        Some e \<Rightarrow> (Some (DatabaseError e), s)
      | None \<Rightarrow> (case f s of Inl e \<Rightarrow> (Some e, s) | Inr s' \<Rightarrow> (None, s')))"

end
