(* ===== verification/Sessions.thy ===== *)
theory Sessions
  imports Session_Model "HOL-Library.Product_Lexorder"
begin

text \<open>
  Session reconciliation (\<open>internal/sessions\<close>): detected roots become sessions, every
  inspected process is attributed, ownership is carried from cycle to cycle, and sessions
  whose exact rt is gone are ended. The reconciler's maps are association lists; a loop
  over a Go map that is not followed by a sort is a loop over such a list, in whatever
  order it has. Cancellation of the context is left out. The repository finder is the
  record \<open>repo_ops\<close> of its two queries.
\<close>

record repo_ops =
  rp_root :: "string \<Rightarrow> string"
  rp_describe :: "string \<Rightarrow> repo_info"

record reconciler =
  rc_reg :: registry
  rc_self_pid :: int
  rc_self_uid :: "32 word"
  rc_repos :: repo_ops
  rc_ownership :: "(string \<times> ownership_record) list"
  rc_state :: "(string \<times> session_state) list"
  rc_root :: "(string \<times> key) list"
  rc_native :: "(string \<times> string) list"
  rc_metadata :: "(string \<times> session_metadata) list"

record ended_session =
  es_session_id :: string
  es_from :: session_state
  es_state :: session_state
  es_ended_ns :: int

record result =
  rs_sessions :: "session_record list"
  rs_ended :: "ended_session list"
  rs_processes :: "process_record list"
  rs_observations :: "observation_record list"
  rs_ownership :: "ownership_record list"
  rs_relationships :: "relationship_record list"
  rs_audit :: "audit_record list"
  rs_roots :: "(int \<times> agent_root) list"
  rs_attributions :: "(string \<times> attribution) list"
  rs_launch :: "(string \<times> launch_context) list"
  rs_attributed :: nat
  rs_pending_ownership :: "(string \<times> ownership_record) list"
  rs_pending_state :: "(string \<times> session_state) list"
  rs_pending_root :: "(string \<times> key) list"
  rs_pending_native :: "(string \<times> string) list"
  rs_pending_metadata :: "(string \<times> session_metadata) list"

definition new_reconciler :: "registry \<Rightarrow> int \<Rightarrow> 32 word \<Rightarrow> repo_ops \<Rightarrow> reconciler" where
  "new_reconciler reg self_pid self_uid repos =
     \<lparr>rc_reg = reg, rc_self_pid = self_pid, rc_self_uid = self_uid, rc_repos = repos,
      rc_ownership = [], rc_state = [], rc_root = [], rc_native = [], rc_metadata = []\<rparr>"

text \<open>Reading the zero value of a missing entry.\<close>

definition state_of :: "reconciler \<Rightarrow> string \<Rightarrow> session_state" where
  "state_of r sid = (case map_of (rc_state r) sid of Some s \<Rightarrow> s | None \<Rightarrow> SNone)"

definition seed_session :: "session_record \<Rightarrow> reconciler \<Rightarrow> reconciler" where
  "seed_session s r =
     (let r1 = r\<lparr>rc_state := AList.update (sr_session_id s) (sr_state s) (rc_state r)\<rparr>;
          r2 = (case parse_key (sr_root_uid s) of
                  Inr k \<Rightarrow> r1\<lparr>rc_root := AList.update (sr_session_id s) k (rc_root r1)\<rparr>
                | Inl _ \<Rightarrow> r1);
          r3 = (if sr_native_id s \<noteq> []
                then r2\<lparr>rc_native := AList.update (native_key (sr_agent_id s) (sr_native_id s))
                         (sr_session_id s) (rc_native r2)\<rparr>
                else r2) in
      case sr_metadata s of
        Some m \<Rightarrow> r3\<lparr>rc_metadata := AList.update (sr_session_id s) m (rc_metadata r3)\<rparr>
      | None \<Rightarrow> r3)"

definition seed :: "session_record list \<Rightarrow> (string \<times> ownership_record) list \<Rightarrow> reconciler \<Rightarrow> reconciler"
where
  "seed ss own r = fold seed_session ss (r\<lparr>rc_ownership := AList.merge (rc_ownership r) own\<rparr>)"

definition commit :: "result \<Rightarrow> reconciler \<Rightarrow> reconciler" where
  "commit res r =
     r\<lparr>rc_ownership := AList.merge (rc_ownership r) (rs_pending_ownership res),
       rc_state := AList.merge (rc_state r) (rs_pending_state res),
       rc_root := AList.merge (rc_root r) (rs_pending_root res),
       rc_native := AList.merge (rc_native r) (rs_pending_native res),
       rc_metadata := AList.merge (rc_metadata r) (rs_pending_metadata res)\<rparr>"

section \<open>Root detection\<close>

definition claim_evidence :: "string \<Rightarrow> agent_root \<Rightarrow> agent_evidence" where
  "claim_evidence fmt r = plain_evidence KindProcessInfo
     (Fmt fmt [AStr (ar_agent_id r), ANum (ar_confidence r)])"

text \<open>A claim on a process: the higher confidence wins and remembers the other claim.\<close>

definition claim_root :: "agent_root \<Rightarrow> (int \<times> agent_root) list \<Rightarrow> (int \<times> agent_root) list" where
  "claim_root r m =
     (let pid = pr_pid (ar_process r) in
      case map_of m pid of
        None \<Rightarrow> AList.update pid r m
      | Some e \<Rightarrow>
          if ar_confidence e < ar_confidence r
          then AList.update pid (r\<lparr>ar_conflicts := ar_conflicts r @
                 [claim_evidence ''process was also claimed by agent %q with confidence %.2f'' e]\<rparr>) m
          else AList.update pid (e\<lparr>ar_conflicts := ar_conflicts e @
                 [claim_evidence ''process is also claimed by agent %q with confidence %.2f'' r]\<rparr>) m)"

fun claim_roots :: "agent_root list \<Rightarrow> (int \<times> agent_root) list \<Rightarrow> (int \<times> agent_root) list" where
  "claim_roots [] m = m"
| "claim_roots (r # rs) m = claim_roots rs (claim_root r m)"

datatype session_error = DetectionFailed string string

fun detect_all :: "adapter list \<Rightarrow> graph \<Rightarrow> session_error + graph" where
  "detect_all [] g = Inr g"
| "detect_all (a # as) g =
     (case ag_detect_roots a g of
        Inl e \<Rightarrow> Inl (DetectionFailed (ag_id a) e)
      | Inr roots \<Rightarrow> detect_all as (g\<lparr>gr_roots := claim_roots roots (gr_roots g)\<rparr>))"

definition adapter_for :: "reconciler \<Rightarrow> string \<Rightarrow> adapter option" where
  "adapter_for r agent = List.find (\<lambda>a. ag_id a = agent) (rc_reg r)"

definition launch_of :: "agent_root \<Rightarrow> graph \<Rightarrow> launch_context" where
  "launch_of rt g =
     (let pid = pr_pid (ar_process rt) in
      if link (gr_tree g) pid \<noteq> LinkIntact then no_launch
      else (case List.find (\<lambda>a. map_of (gr_roots g) a = None) (ancestors (gr_tree g) pid) of
              None \<Rightarrow> no_launch
            | Some a \<Rightarrow>
                (case by_pid (gr_snapshot g) a of
                   None \<Rightarrow> no_launch
                 | Some p \<Rightarrow> \<lparr>la_key = proc_key p, la_pid = pr_pid p, la_name = proc_name p,
                               la_exec = pr_exec_path p, la_observed = True\<rparr>)))"

section \<open>Sessions from roots\<close>

text \<open>\<open>Duration.Truncate(time.Second)\<close>: rounding towards zero.\<close>

definition dur_truncate :: "duration \<Rightarrow> duration" where
  "dur_truncate d = (if 0 \<le> d then d - d mod second else - (- d - (- d) mod second))"

definition transition ::
  "reconciler \<Rightarrow> string \<Rightarrow> process \<Rightarrow> int \<Rightarrow> session_state \<times> session_state \<times> bool \<times> detail" where
  "transition r sid p now_ns =
     (let from = state_of r sid;
          age = wrap64 (now_ns - unix_nano (pr_start p));
          age_s = ADur (dur_truncate age);
          (to, reason) =
            (if from = SNone \<and> age < starting_grace then
               (SStarting, Fmt ''root process started %s ago, inside the first observation window'' [age_s])
             else if from = SNone then
               (SActive, Fmt ''root process %d is running and was already %s old when first observed''
                  [AInt (pr_pid p), age_s])
             else if from = SStarting \<and> starting_grace \<le> age then
               (SActive, Fmt ''root process survived the first observation window and is still running after %s'' [age_s])
             else if \<not> live from then
               (SActive, Fmt ''root process %d was observed again after the session was reported %s''
                  [AInt (pr_pid p), AStr (state_name from)])
             else (from, Text [])) in
      (to, from, to \<noteq> from, reason))"

record session_root_info =
  si_root :: agent_root
  si_agent_id :: string
  si_root_key :: key
  si_sid :: int
  si_tty :: string

definition root_info :: "agent_root \<Rightarrow> string \<Rightarrow> session_root_info" where
  "root_info rt agent = \<lparr>si_root = rt, si_agent_id = agent, si_root_key = ar_key rt,
     si_sid = pr_sid (ar_process rt), si_tty = pr_tty (ar_process rt)\<rparr>"

record root_choice =
  ch_chosen :: "(string \<times> int) list"
  ch_session_of :: "(int \<times> string) list"
  ch_secondary :: "(int \<times> string) list"

definition start_at :: "graph \<Rightarrow> int \<Rightarrow> gotime" where
  "start_at g pid = (case map_of (gr_roots g) pid of Some r \<Rightarrow> pr_start (ar_process r) | None \<Rightarrow> 0)"

text \<open>The session a detected root names for itself, if an adapter answers for it.\<close>

definition claimed_session :: "reconciler \<Rightarrow> graph \<Rightarrow> int \<Rightarrow> string option" where
  "claimed_session r g pid =
     (case map_of (gr_roots g) pid of
        None \<Rightarrow> None
      | Some rt \<Rightarrow>
          (case adapter_for r (ar_agent_id rt) of
             None \<Rightarrow> None
           | Some a \<Rightarrow> let sid = aa_session_id (ag_attribute a (ar_process rt) g) in
               if sid = [] then None else Some sid))"

definition choose_root :: "reconciler \<Rightarrow> graph \<Rightarrow> int \<Rightarrow> root_choice \<Rightarrow> root_choice" where
  "choose_root r g pid c =
     (case claimed_session r g pid of
        None \<Rightarrow> c
      | Some sid \<Rightarrow>
          (let c1 = c\<lparr>ch_session_of := AList.update pid sid (ch_session_of c)\<rparr> in
           case map_of (ch_chosen c1) sid of
             None \<Rightarrow> c1\<lparr>ch_chosen := AList.update sid pid (ch_chosen c1)\<rparr>
           | Some incumbent \<Rightarrow>
               if start_at g pid < start_at g incumbent
               then c1\<lparr>ch_chosen := AList.update sid pid (ch_chosen c1),
                       ch_secondary := AList.update incumbent sid (ch_secondary c1)\<rparr>
               else c1\<lparr>ch_secondary := AList.update pid sid (ch_secondary c1)\<rparr>))"

fun choose_roots :: "reconciler \<Rightarrow> graph \<Rightarrow> int list \<Rightarrow> root_choice \<Rightarrow> root_choice" where
  "choose_roots r g [] c = c"
| "choose_roots r g (pid # pids) c = choose_roots r g pids (choose_root r g pid c)"

definition root_pids :: "graph \<Rightarrow> int list" where
  "root_pids g = sort (List.map fst (gr_roots g))"

definition choose_all :: "reconciler \<Rightarrow> graph \<Rightarrow> root_choice" where
  "choose_all r g = choose_roots r g (root_pids g)
     \<lparr>ch_chosen = [], ch_session_of = [], ch_secondary = []\<rparr>"

text \<open>The body of the second loop of \<open>buildSessions\<close> for the rt chosen for a session.\<close>

definition session_row :: "reconciler \<Rightarrow> graph \<Rightarrow> string \<Rightarrow> agent_root \<Rightarrow> string \<Rightarrow> int \<Rightarrow> session_record"
where
  "session_row r g sid rt native now_ns =
     (let p = ar_process rt; launch = launch_of rt g; repo = rp_describe (rc_repos r) (pr_cwd p);
          (to, from, changed, reason) = transition r sid p now_ns in
      \<lparr>sr_session_id = sid, sr_agent_id = ar_agent_id rt, sr_root_uid = key_uid (ar_key rt),
       sr_root_pid = pr_pid p, sr_state = to, sr_confidence = ar_confidence rt,
       sr_working_dir = pr_cwd p, sr_repository = ri_root repo, sr_tty = pr_tty p,
       sr_invocation = sm_invocation (ar_metadata rt), sr_metadata = Some (ar_metadata rt),
       sr_evidence = ar_evidence rt, sr_started_ns = unix_nano (pr_start p),
       sr_last_seen_ns = now_ns, sr_ended_ns = None, sr_native_id = native, sr_previous = from,
       sr_changed_ns = (if changed then now_ns else 0), sr_host_uid = launch_uid launch,
       sr_host_pid = la_pid launch, sr_host_name = la_name launch, sr_host_exec = la_exec launch,
       sr_branch = ri_branch repo, sr_busy = repo_busy repo, sr_terminal_sid = pr_sid p\<rparr>)"

fun detail_args :: "detail \<Rightarrow> string \<times> fmt_arg list" where
  "detail_args (Text t) = (''%s'', [AStr t])"
| "detail_args (Fmt f as) = (f, as)"

definition session_audit :: "reconciler \<Rightarrow> graph \<Rightarrow> string \<Rightarrow> agent_root \<Rightarrow> int \<Rightarrow> audit_record list" where
  "session_audit r g sid rt now_ns =
     (let p = ar_process rt; launch = launch_of rt g; repo = rp_describe (rc_repos r) (pr_cwd p);
          (to, from, changed, reason) = transition r sid p now_ns;
          (rf, ra) = detail_args reason; (lf, la) = detail_args (launch_describe launch) in
      if \<not> changed then []
      else [audit_entry now_ns (if from = SNone then audit_session_started else audit_session_state) sid
              (if from = SNone
               then Fmt (''%s session %s observed with root pid %d (%s), launched by '' @ lf)
                      ([AStr (ar_agent_id rt), AStr sid, AInt (pr_pid p), AStr (proc_name p)] @ la)
               else Fmt (''session %s: %s -> %s ('' @ rf @ '')'')
                      ([AStr sid, AStr (state_name (non_empty_state from)), AStr (state_name to)] @ ra))
              (compact_evidence (transition_evidence from to reason @ ar_evidence rt @
                 [launch_evidence launch, repository_evidence repo]))])"

definition session_edges :: "reconciler \<Rightarrow> graph \<Rightarrow> string \<Rightarrow> agent_root \<Rightarrow> int \<Rightarrow> relationship_record list"
where
  "session_edges r g sid rt now_ns =
     (let launch = launch_of rt g; repo = rp_describe (rc_repos r) (pr_cwd (ar_process rt)) in
      (if la_observed launch
       then [record_of \<lparr>re_kind = RelLaunch, re_from = ar_key rt, re_to = la_key launch,
               re_detail = detail_prefix ''session root was started by '' (launch_describe launch),
               re_at = now_ns\<rparr> sid now_ns] else []) @
      (if ri_root repo \<noteq> []
       then [record_of \<lparr>re_kind = RelRepository, re_from = ar_key rt, re_to = zero_key,
               re_detail = repository_detail repo, re_at = now_ns\<rparr> sid now_ns] else []))"

type_synonym build_state = "result \<times> (string \<times> session_root_info) list"

definition add_session ::
  "reconciler \<Rightarrow> graph \<Rightarrow> int \<Rightarrow> string \<Rightarrow> agent_root \<Rightarrow> adapter \<Rightarrow> build_state \<Rightarrow> build_state" where
  "add_session r g now_ns sid rt a st =
     (case st of (res, lv) \<Rightarrow>
      let native = (case ag_native_session_id a (ar_process rt) of Some n \<Rightarrow> n | None \<Rightarrow> []);
          row = session_row r g sid rt native now_ns in
      (res\<lparr>rs_launch := AList.update sid (launch_of rt g) (rs_launch res),
           rs_sessions := rs_sessions res @ [row],
           rs_audit := rs_audit res @ session_audit r g sid rt now_ns,
           rs_pending_state := AList.update sid (sr_state row) (rs_pending_state res),
           rs_pending_root := AList.update sid (ar_key rt) (rs_pending_root res),
           rs_pending_native := (if native \<noteq> []
             then AList.update (native_key (ar_agent_id rt) native) sid (rs_pending_native res)
             else rs_pending_native res),
           rs_relationships := rs_relationships res @ session_edges r g sid rt now_ns\<rparr>,
       AList.update sid (root_info rt (ar_agent_id rt)) lv))"

text \<open>The second loop: only the chosen claimant of each session is turned into a row.\<close>

definition chosen_root :: "reconciler \<Rightarrow> graph \<Rightarrow> root_choice \<Rightarrow> int \<Rightarrow> (string \<times> agent_root \<times> adapter) option"
where
  "chosen_root r g c pid =
     (case map_of (ch_session_of c) pid of
        None \<Rightarrow> None
      | Some sid \<Rightarrow>
          if map_of (ch_chosen c) sid \<noteq> Some pid then None
          else (case map_of (gr_roots g) pid of
                  None \<Rightarrow> None
                | Some rt \<Rightarrow>
                    (case adapter_for r (ar_agent_id rt) of
                       None \<Rightarrow> None
                     | Some a \<Rightarrow> Some (sid, rt, a))))"

fun build_roots :: "reconciler \<Rightarrow> graph \<Rightarrow> root_choice \<Rightarrow> int \<Rightarrow> int list \<Rightarrow> build_state \<Rightarrow> build_state" where
  "build_roots r g c now_ns [] st = st"
| "build_roots r g c now_ns (pid # pids) st =
     build_roots r g c now_ns pids
       (case chosen_root r g c pid of
          None \<Rightarrow> st
        | Some (sid, rt, a) \<Rightarrow> add_session r g now_ns sid rt a st)"

definition build_sessions :: "reconciler \<Rightarrow> graph \<Rightarrow> int \<Rightarrow> result \<Rightarrow> build_state \<times> (int \<times> string) list" where
  "build_sessions r g now_ns res =
     (let c = choose_all r g in
      (build_roots r g c now_ns (root_pids g) (res, []), ch_secondary c))"

section \<open>Provider sessions\<close>

definition known_provider_sessions :: "reconciler \<Rightarrow> known_session list" where
  "known_provider_sessions r =
     sort_key (\<lambda>k. (ks_agent_id k, ks_native_id k))
       (List.concat (List.map (\<lambda>(nk, sid).
          case cut (CHR ''|'') nk of
            None \<Rightarrow> []
          | Some (agent, native) \<Rightarrow>
              (case map_of (rc_root r) sid of
                 None \<Rightarrow> []
               | Some k \<Rightarrow>
                   if native = [] \<or> \<not> live (state_of r sid) then []
                   else [\<lparr>ks_agent_id = agent, ks_native_id = native, ks_session_id = sid,
                          ks_root_key = k,
                          ks_metadata = (case map_of (rc_metadata r) sid of
                             Some m \<Rightarrow> m | None \<Rightarrow> empty_metadata)\<rparr>]))
        (rc_native r)))"

definition provider_session_ok :: "adapter \<Rightarrow> graph \<Rightarrow> provider_session \<Rightarrow> bool" where
  "provider_session_ok a g s \<longleftrightarrow>
     ps_agent_id s = ag_id a \<and> ps_native_id s \<noteq> [] \<and> ps_session_id s \<noteq> [] \<and>
     (ps_state s = ProviderActive \<or> ps_state s = ProviderCompleted) \<and>
     (case map_of (gr_roots g) (pr_pid (ar_process (ps_root s))) of
        None \<Rightarrow> False
      | Some rt \<Rightarrow> ar_key rt = ar_key (ps_root s) \<and> ar_agent_id rt = ag_id a) \<and>
     \<not> is_zero_time (ps_started_at s) \<and> \<not> ps_changed_at s < ps_started_at s \<and>
     \<not> sn_taken (gr_snapshot g) < ps_changed_at s"

type_synonym discovery = "(string \<times> provider_session) list \<times> string list"

definition discover_one :: "adapter \<Rightarrow> graph \<Rightarrow> provider_session \<Rightarrow> discovery \<Rightarrow> discovery" where
  "discover_one a g s d =
     (case d of (out, amb) \<Rightarrow>
        if \<not> provider_session_ok a g s then (out, amb)
        else let nk = native_key (ps_agent_id s) (ps_native_id s) in
          (case map_of out nk of
             Some prior \<Rightarrow>
               if ps_session_id prior \<noteq> ps_session_id s \<or> ar_key (ps_root prior) \<noteq> ar_key (ps_root s)
               then (AList.delete nk out, nk # amb)
               else if nk \<in> set amb then (out, amb) else (AList.update nk s out, amb)
           | None \<Rightarrow> if nk \<in> set amb then (out, amb) else (AList.update nk s out, amb)))"

fun discover_from :: "adapter \<Rightarrow> graph \<Rightarrow> provider_session list \<Rightarrow> discovery \<Rightarrow> discovery" where
  "discover_from a g [] d = d"
| "discover_from a g (s # ss) d = discover_from a g ss (discover_one a g s d)"

fun discover_all :: "adapter list \<Rightarrow> graph \<Rightarrow> discovery \<Rightarrow> discovery" where
  "discover_all [] g d = d"
| "discover_all (a # as) g d =
     discover_all as g
       (case ag_discover_sessions a of None \<Rightarrow> d | Some disc \<Rightarrow> discover_from a g (disc g) d)"

definition discover_provider_sessions :: "reconciler \<Rightarrow> graph \<Rightarrow> (string \<times> provider_session) list" where
  "discover_provider_sessions r g = fst (discover_all (rc_reg r) g ([], []))"

definition provider_state_of :: "provider_state \<Rightarrow> session_state" where
  "provider_state_of s =
     (case s of ProviderActive \<Rightarrow> SActive | ProviderCompleted \<Rightarrow> SCompleted | ProviderOther t \<Rightarrow> SOther t)"

definition provider_row :: "reconciler \<Rightarrow> graph \<Rightarrow> string \<Rightarrow> provider_session \<Rightarrow> int \<Rightarrow> session_record" where
  "provider_row r g sid pv now_ns =
     (let state = provider_state_of (ps_state pv); from = state_of r sid; rt = ps_root pv;
          p = ar_process rt; changed_ns = unix_nano (ps_changed_at pv);
          wd = (if sm_working_dir (ps_metadata pv) = [] then pr_cwd p else sm_working_dir (ps_metadata pv));
          repo = rp_describe (rc_repos r) wd; launch = launch_of rt g in
      \<lparr>sr_session_id = sid, sr_agent_id = ps_agent_id pv, sr_root_uid = key_uid (ar_key rt),
       sr_root_pid = pr_pid p, sr_state = state, sr_confidence = ar_confidence rt,
       sr_working_dir = wd, sr_repository = ri_root repo, sr_tty = pr_tty p,
       sr_invocation = sm_invocation (ps_metadata pv), sr_metadata = Some (ps_metadata pv),
       sr_evidence = ps_evidence pv, sr_started_ns = unix_nano (ps_started_at pv),
       sr_last_seen_ns = now_ns,
       sr_ended_ns = (if state = SCompleted then Some changed_ns else None),
       sr_native_id = ps_native_id pv, sr_previous = from,
       sr_changed_ns = (if from \<noteq> state then changed_ns else 0), sr_host_uid = launch_uid launch,
       sr_host_pid = la_pid launch, sr_host_name = la_name launch, sr_host_exec = la_exec launch,
       sr_branch = ri_branch repo, sr_busy = repo_busy repo, sr_terminal_sid = pr_sid p\<rparr>)"

definition provider_audit :: "reconciler \<Rightarrow> string \<Rightarrow> provider_session \<Rightarrow> audit_record list" where
  "provider_audit r sid pv =
     (let state = provider_state_of (ps_state pv); from = state_of r sid;
          reason = Fmt ''Codex rollout lifecycle reported task %s'' [AStr (state_name state)] in
      if from = state then []
      else [audit_entry (unix_nano (ps_changed_at pv))
              (if state = SCompleted then audit_session_ended
               else if from = SNone \<and> state = SActive then audit_session_started
               else audit_session_state) sid
              (if state = SCompleted
               then Fmt ''Codex task session %s completed from provider lifecycle evidence'' [AStr sid]
               else if from = SNone \<and> state = SActive
               then Fmt ''Codex task session %s started under host pid %d''
                      [AStr sid, AInt (pr_pid (ar_process (ps_root pv)))]
               else Fmt ''provider task session %s: %s -> %s''
                      [AStr sid, AStr (state_name (non_empty_state from)), AStr (state_name state)])
              (transition_evidence from state reason @ ps_evidence pv)])"

definition add_provider :: "reconciler \<Rightarrow> graph \<Rightarrow> int \<Rightarrow> string \<Rightarrow> provider_session \<Rightarrow> build_state \<Rightarrow> build_state"
where
  "add_provider r g now_ns sid pv st =
     (case st of (res, lv) \<Rightarrow>
      let state = provider_state_of (ps_state pv); from = state_of r sid in
      (res\<lparr>rs_sessions := rs_sessions res @ [provider_row r g sid pv now_ns],
           rs_launch := AList.update sid (launch_of (ps_root pv) g) (rs_launch res),
           rs_ended := rs_ended res @
             (if from \<noteq> state \<and> state = SCompleted
              then [\<lparr>es_session_id = sid, es_from = from, es_state = state,
                     es_ended_ns = unix_nano (ps_changed_at pv)\<rparr>] else []),
           rs_audit := rs_audit res @ provider_audit r sid pv,
           rs_pending_state := AList.update sid state (rs_pending_state res),
           rs_pending_root := AList.update sid (ar_key (ps_root pv)) (rs_pending_root res),
           rs_pending_native := AList.update (native_key (ps_agent_id pv) (ps_native_id pv)) sid
             (rs_pending_native res),
           rs_pending_metadata := AList.update sid (ps_metadata pv) (rs_pending_metadata res)\<rparr>,
       AList.update sid (root_info (ps_root pv) (ps_agent_id pv)) lv))"

text \<open>
  The loop over the sorted session ids. The provider of an id is the first one found in the
  order in which the code's map iteration visits them.
\<close>

fun build_providers ::
  "reconciler \<Rightarrow> graph \<Rightarrow> int \<Rightarrow> provider_session list \<Rightarrow> string list \<Rightarrow> string list \<Rightarrow> build_state \<Rightarrow> build_state"
where
  "build_providers r g now_ns pvs [] seen st = st"
| "build_providers r g now_ns pvs (sid # ids) seen st =
     (if sid \<in> set seen then build_providers r g now_ns pvs ids seen st
      else (case List.find (\<lambda>pv. ps_session_id pv = sid) pvs of
              None \<Rightarrow> build_providers r g now_ns pvs ids (sid # seen) st
            | Some pv \<Rightarrow> build_providers r g now_ns pvs ids (sid # seen)
                (add_provider r g now_ns sid pv st)))"

definition build_provider_sessions ::
  "reconciler \<Rightarrow> graph \<Rightarrow> int \<Rightarrow> (string \<times> provider_session) list \<Rightarrow> build_state \<Rightarrow> build_state" where
  "build_provider_sessions r g now_ns providers st =
     (let pvs = List.map snd providers in
      build_providers r g now_ns pvs (sort (List.map ps_session_id pvs))
        (List.map sr_session_id (rs_sessions (fst st))) st)"

section \<open>Attribution\<close>

definition no_attribution :: attribution where
  "no_attribution = \<lparr>at_agent_id = [], at_session_id = [], at_relation = RelationNone,
     at_confidence = 0, at_evidence = [], at_conflicts = [], at_link = LinkMissing,
     at_key = zero_key, at_original_ppid = 0, at_parent_observed = False, at_repository = []\<rparr>"

text \<open>
  The inner loop of \<open>attributeByProviderSession\<close>: the position of the task host among the
  ancestors of the process.
\<close>

fun depth_of :: "int \<Rightarrow> int list \<Rightarrow> nat option" where
  "depth_of x [] = None"
| "depth_of x (a # as) = (if a = x then Some 0 else map_option Suc (depth_of x as))"

fun attribute_by_provider ::
  "adapter list \<Rightarrow> process \<Rightarrow> graph \<Rightarrow> (string \<times> provider_session) list \<Rightarrow> attribution" where
  "attribute_by_provider [] p g providers = no_attribution"
| "attribute_by_provider (a # as) p g providers =
     (case ag_native_session_id a p of
        None \<Rightarrow> attribute_by_provider as p g providers
      | Some native \<Rightarrow>
          (case map_of providers (native_key (ag_id a) native) of
             None \<Rightarrow> attribute_by_provider as p g providers
           | Some pv \<Rightarrow>
               (let host = ps_root pv; host_pid = pr_pid (ar_process host) in
                case depth_of host_pid (ancestors (gr_tree g) (pr_pid p)) of
                  None \<Rightarrow> attribute_by_provider as p g providers
                | Some depth \<Rightarrow>
                    (case by_key (gr_snapshot g) (ar_key host) of
                       None \<Rightarrow> no_attribution
                     | Some observed \<Rightarrow>
                         if pr_uid observed \<noteq> pr_uid p then no_attribution
                         else no_attribution\<lparr>at_agent_id := ag_id a, at_session_id := ps_session_id pv,
                           at_confidence := ar_confidence host,
                           at_evidence := ps_evidence pv @ [plain_evidence KindAncestry
                             (Fmt ''process is a descendant of the provider task host pid %d through %d intact parent link(s)''
                               [AInt host_pid, AInt (int depth + 1)])],
                           at_relation := RelationDescendant\<rparr>))))"

fun best_claim :: "adapter list \<Rightarrow> process \<Rightarrow> graph \<Rightarrow> attribution \<Rightarrow> attribution" where
  "best_claim [] p g best = best"
| "best_claim (a # as) p g best =
     (let got = ag_attribute a p g in
      best_claim as p g
        (if aa_session_id got = [] \<or> aa_confidence got \<le> at_confidence best then best
         else best\<lparr>at_agent_id := aa_agent_id got, at_session_id := aa_session_id got,
                   at_confidence := aa_confidence got, at_evidence := aa_evidence got,
                   at_conflicts := aa_conflicts got, at_relation := aa_relation got\<rparr>))"

definition recorded_attribution :: "ownership_record \<Rightarrow> attribution \<Rightarrow> attribution" where
  "recorded_attribution prior best =
     best\<lparr>at_agent_id := ow_agent_id prior, at_session_id := ow_session_id prior,
          at_confidence := ow_confidence prior, at_relation := RelationRecorded,
          at_evidence :=
            [\<lparr>ae_kind = KindRecorded,
              ae_detail = Fmt ''ownership by session %s was recorded at first observation (%s) with confidence %.2f''
                [AStr (ow_session_id prior), ATime (time_unix (ow_first_seen prior)), ANum (ow_confidence prior)],
              ae_weight = ow_confidence prior\<rparr>,
             original_parent_evidence (ow_original_ppid prior) (ow_parent_observed prior) (at_link best)]\<rparr>"

fun attribute_by_environment :: "reconciler \<Rightarrow> adapter list \<Rightarrow> process \<Rightarrow> attribution \<Rightarrow> attribution" where
  "attribute_by_environment r [] p best = best"
| "attribute_by_environment r (a # as) p best =
     (case ag_native_session_id a p of
        None \<Rightarrow> attribute_by_environment r as p best
      | Some native \<Rightarrow>
          if native = [] then attribute_by_environment r as p best
          else (case map_of (rc_native r) (native_key (ag_id a) native) of
                  None \<Rightarrow> attribute_by_environment r as p best
                | Some sid \<Rightarrow>
                    best\<lparr>at_agent_id := ag_id a, at_session_id := sid,
                         at_confidence := confidence_environment_membership,
                         at_relation := RelationEnvironment,
                         at_evidence :=
                           [\<lparr>ae_kind = KindEnvironment,
                             ae_detail = Fmt ''environment carries %s session identifier %q, which names session %s''
                               [AStr (ag_id a), AStr native, AStr sid],
                             ae_weight = confidence_environment_membership\<rparr>,
                            plain_evidence KindEnvironment
                              (Text ''an environment variable is inherited by every descendant, so this establishes that the process descends from that session and nothing more; it is capped below the policy-eligible threshold for that reason'')]\<rparr>))"

definition attribute ::
  "reconciler \<Rightarrow> process \<Rightarrow> graph \<Rightarrow> (string \<times> provider_session) list \<Rightarrow> attribution" where
  "attribute r p g providers =
     (let best = no_attribution\<lparr>at_key := proc_key p, at_link := link (gr_tree g) (pr_pid p)\<rparr>;
          provider = attribute_by_provider (rc_reg r) p g providers in
      if at_session_id provider \<noteq> [] then provider\<lparr>at_key := proc_key p, at_link := at_link best\<rparr>
      else let claimed = best_claim (rc_reg r) p g best in
        if at_session_id claimed \<noteq> [] then claimed
        else (case map_of (rc_ownership r) (key_uid (proc_key p)) of
                Some prior \<Rightarrow> recorded_attribution prior claimed
              | None \<Rightarrow> attribute_by_environment r (rc_reg r) p claimed))"

definition enrich :: "reconciler \<Rightarrow> process \<Rightarrow> graph \<Rightarrow> attribution \<Rightarrow> attribution" where
  "enrich r p g attr =
     (let attr1 = (case map_of (rc_ownership r) (key_uid (proc_key p)) of
          Some prior \<Rightarrow> attr\<lparr>at_original_ppid := ow_original_ppid prior,
                            at_parent_observed := ow_parent_observed prior\<rparr>
        | None \<Rightarrow> attr\<lparr>at_original_ppid := pr_ppid p,
                      at_parent_observed := (link (gr_tree g) (pr_pid p) = LinkIntact)\<rparr>) in
      attr1\<lparr>at_repository := rp_root (rc_repos r) (pr_cwd p)\<rparr>)"

section \<open>Recording a process\<close>

fun relation_name :: "relation \<Rightarrow> string" where
  "relation_name RelationRoot = ''root''"
| "relation_name RelationDescendant = ''descendant''"
| "relation_name RelationRecorded = ''recorded''"
| "relation_name RelationEnvironment = ''environment''"
| "relation_name RelationNone = []"

definition stored_cmdline :: "'u url_ops \<Rightarrow> bool \<Rightarrow> process \<Rightarrow> string list" where
  "stored_cmdline urls store_command_lines p =
     (if store_command_lines then redact_args urls (pr_args p)
      else if pr_args p \<noteq> [] then [proc_name p] else [])"

definition ownership_of :: "reconciler \<Rightarrow> process \<Rightarrow> attribution \<Rightarrow> int \<Rightarrow> ownership_record" where
  "ownership_of r p attr now_ns =
     (let uid = key_uid (proc_key p) in
      \<lparr>ow_session_id = at_session_id attr, ow_uid = uid, ow_agent_id = at_agent_id attr,
       ow_relation = at_relation attr, ow_confidence = at_confidence attr, ow_evidence = at_evidence attr,
       ow_original_ppid = at_original_ppid attr, ow_parent_observed = at_parent_observed attr,
       ow_first_seen = (case map_of (rc_ownership r) uid of
          Some prior \<Rightarrow> ow_first_seen prior | None \<Rightarrow> now_ns),
       ow_last_seen = now_ns\<rparr>)"

definition process_row :: "reconciler \<Rightarrow> process \<Rightarrow> attribution \<Rightarrow> int \<Rightarrow> string list \<Rightarrow> process_record" where
  "process_row r p attr now_ns cmdline =
     (let own = ownership_of r p attr now_ns in
      \<lparr>pc_uid = ow_uid own, pc_pid = pr_pid p, pc_ppid = pr_ppid p,
       pc_original_ppid = at_original_ppid attr, pc_pgid = pr_pgid p, pc_sid = pr_sid p,
       pc_owner = uint (pr_uid p), pc_start_ns = unix_nano (pr_start p), pc_comm = pr_comm p,
       pc_exec_path = pr_exec_path p, pc_cmdline = cmdline, pc_cwd = pr_cwd p, pc_tty = pr_tty p,
       pc_agent_id = at_agent_id attr, pc_session_id = at_session_id attr, pc_relation = at_relation attr,
       pc_confidence = at_confidence attr, pc_evidence = at_evidence attr,
       pc_first_seen = ow_first_seen own, pc_last_seen = now_ns, pc_repository = at_repository attr,
       pc_parent_observed = at_parent_observed attr\<rparr>)"

definition observation_row :: "process \<Rightarrow> int \<Rightarrow> observation_record" where
  "observation_row p now_ns =
     \<lparr>ob_uid = key_uid (proc_key p), ob_ts = now_ns, ob_status = pr_status p, ob_ppid = pr_ppid p,
      ob_cpu_ns = pr_cpu_time p, ob_rss = sint (pr_rss p), ob_vsz = sint (pr_vsz p),
      ob_threads = pr_threads p\<rparr>"

definition process_audit :: "reconciler \<Rightarrow> process \<Rightarrow> attribution \<Rightarrow> int \<Rightarrow> audit_record list" where
  "process_audit r p attr now_ns =
     (let uid = key_uid (proc_key p) in
      case map_of (rc_ownership r) uid of
        None \<Rightarrow> [audit_entry now_ns audit_process_attributed uid
          (Fmt ''pid %d (%s) attributed to %s session %s as %s with confidence %.2f''
            [AInt (pr_pid p), AStr (proc_name p), AStr (at_agent_id attr), AStr (at_session_id attr),
             AStr (relation_name (at_relation attr)), ANum (at_confidence attr)]) (at_evidence attr)]
      | Some prior \<Rightarrow>
          if ow_session_id prior \<noteq> at_session_id attr then
            [audit_entry now_ns audit_attribution_change uid
              (Fmt ''pid %d (%s) moved from session %s to session %s''
                [AInt (pr_pid p), AStr (proc_name p), AStr (ow_session_id prior), AStr (at_session_id attr)])
              (at_evidence attr)]
          else if at_relation attr = RelationRecorded \<and> ow_relation prior \<noteq> RelationRecorded then
            [audit_entry now_ns audit_ownership_retained uid
              (Fmt ''pid %d (%s) lost its live parent link (%s) and retains recorded ownership by session %s''
                [AInt (pr_pid p), AStr (proc_name p), AStr (link_name (at_link attr)), AStr (at_session_id attr)])
              (at_evidence attr)]
          else [])"

definition record_process ::
  "'u url_ops \<Rightarrow> bool \<Rightarrow> reconciler \<Rightarrow> process \<Rightarrow> attribution \<Rightarrow> int \<Rightarrow> result \<Rightarrow> result" where
  "record_process urls store_command_lines r p attr now_ns res =
     (let own = ownership_of r p attr now_ns in
      res\<lparr>rs_processes := rs_processes res @
            [process_row r p attr now_ns (stored_cmdline urls store_command_lines p)],
          rs_observations := rs_observations res @ [observation_row p now_ns],
          rs_ownership := rs_ownership res @ [own],
          rs_pending_ownership := AList.update (ow_uid own) own (rs_pending_ownership res),
          rs_audit := rs_audit res @ process_audit r p attr now_ns\<rparr>)"

section \<open>Typed edges\<close>

definition edge :: "bool \<Rightarrow> relationship_kind \<Rightarrow> key \<Rightarrow> key \<Rightarrow> detail \<Rightarrow> int \<Rightarrow> relationship list" where
  "edge cond kind from to d now_ns =
     (if cond then [\<lparr>re_kind = kind, re_from = from, re_to = to, re_detail = d, re_at = now_ns\<rparr>] else [])"

definition link_edges :: "process \<Rightarrow> graph \<Rightarrow> int \<Rightarrow> relationship list" where
  "link_edges p g now_ns =
     (case link (gr_tree g) (pr_pid p) of
        LinkIntact \<Rightarrow>
          (case by_pid (gr_snapshot g) (pr_ppid p) of
             None \<Rightarrow> []
           | Some parent \<Rightarrow> edge True RelParentChild (proc_key p) (proc_key parent)
               (Fmt ''live parent is pid %d (%s)'' [AInt (pr_pid parent), AStr (proc_name parent)]) now_ns)
      | LinkReparented \<Rightarrow> edge True RelReparented (proc_key p) zero_key
          (Fmt ''parent link lost; the process was reparented to pid %d. Detached is not orphaned: this records that the original parent exited, nothing about whether work remains''
            [AInt init_pid]) now_ns
      | _ \<Rightarrow> [])"

definition context_edges :: "process \<Rightarrow> session_root_info option \<Rightarrow> int \<Rightarrow> relationship list" where
  "context_edges p info now_ns =
     (case info of
        None \<Rightarrow> []
      | Some i \<Rightarrow>
          edge (pr_sid p \<noteq> 0 \<and> pr_sid p = si_sid i \<and> pr_pid p \<noteq> pr_pid (ar_process (si_root i)))
            RelTerminal (proc_key p) (si_root_key i)
            (Fmt ''shares POSIX session %d with the session root. This is context, not ownership: a session leader is usually the user's shell, so unrelated commands share it too''
              [AInt (pr_sid p)]) now_ns @
          edge (pr_pgid p \<noteq> 0 \<and> pr_pgid p = pr_pgid (ar_process (si_root i)) \<and>
                pr_pid p \<noteq> pr_pid (ar_process (si_root i)))
            RelProcessGroup (proc_key p) (si_root_key i)
            (Fmt ''shares process group %d with the session root'' [AInt (pr_pgid p)]) now_ns)"

definition process_edges ::
  "process \<Rightarrow> attribution \<Rightarrow> graph \<Rightarrow> (string \<times> session_root_info) list \<Rightarrow> int \<Rightarrow> relationship list" where
  "process_edges p attr g lv now_ns =
     link_edges p g now_ns @
     edge (at_parent_observed attr \<and> 0 < at_original_ppid attr) RelOriginalParent (proc_key p) zero_key
       (Fmt ''created by pid %d, observed alive at the time'' [AInt (at_original_ppid attr)]) now_ns @
     edge (at_relation attr = RelationEnvironment) RelEnvironment (proc_key p) zero_key
       (Text ''environment carries the agent's own session identifier'') now_ns @
     edge (at_repository attr \<noteq> []) RelRepository (proc_key p) zero_key
       (Text (''working directory is inside '' @ at_repository attr)) now_ns @
     context_edges p (map_of lv (at_session_id attr)) now_ns"

definition record_relationships ::
  "process \<Rightarrow> attribution \<Rightarrow> graph \<Rightarrow> (string \<times> session_root_info) list \<Rightarrow> int \<Rightarrow> result \<Rightarrow> result" where
  "record_relationships p attr g lv now_ns res =
     res\<lparr>rs_relationships := rs_relationships res @
       List.map (\<lambda>e. record_of e (at_session_id attr) now_ns) (process_edges p attr g lv now_ns)\<rparr>"

section \<open>Ending departed sessions\<close>

definition departed_evidence :: "snapshot \<Rightarrow> key \<Rightarrow> session_state \<Rightarrow> detail \<Rightarrow> agent_evidence list" where
  "departed_evidence s k from reason =
     transition_evidence from SCompleted reason @
     (case by_pid s (key_pid k) of
        None \<Rightarrow> []
      | Some p \<Rightarrow> [plain_evidence KindProcessInfo
          (Fmt ''pid %d is in use by a different process (started %s, %s); a recycled pid does not keep a session alive''
            [AInt (key_pid k), ATime (pr_start p), AStr (proc_name p)])])"

fun end_sessions :: "reconciler \<Rightarrow> snapshot \<Rightarrow> string list \<Rightarrow> string list \<Rightarrow> int \<Rightarrow> result \<Rightarrow> result" where
  "end_sessions r s seen [] now_ns res = res"
| "end_sessions r s seen (sid # ids) now_ns res =
     end_sessions r s seen ids now_ns
       (case map_of (rc_root r) sid of
          None \<Rightarrow> res
        | Some k \<Rightarrow>
            if sid \<in> set seen \<or> \<not> live (state_of r sid) \<or> by_key s k \<noteq> None then res
            else let from = state_of r sid;
                     reason = Fmt ''root process %s was not found in the snapshot taken at %s''
                       [AStr (key_uid k), ATime (sn_taken s)] in
              res\<lparr>rs_ended := rs_ended res @ [\<lparr>es_session_id = sid, es_from = from,
                     es_state = SCompleted, es_ended_ns = now_ns\<rparr>],
                  rs_audit := rs_audit res @ [audit_entry now_ns audit_session_ended sid
                     (Fmt ''session %s ended: root process %s was not found in the snapshot taken at %s''
                       [AStr sid, AStr (key_uid k), ATime (sn_taken s)]) (departed_evidence s k from reason)],
                  rs_pending_state := AList.update sid SCompleted (rs_pending_state res)\<rparr>)"

definition end_departed_sessions :: "reconciler \<Rightarrow> snapshot \<Rightarrow> int \<Rightarrow> result \<Rightarrow> result" where
  "end_departed_sessions r s now_ns res =
     end_sessions r s (List.map sr_session_id (rs_sessions res)) (sort (List.map fst (rc_root r))) now_ns res"

section \<open>Reconciliation\<close>

definition empty_result :: "(int \<times> agent_root) list \<Rightarrow> result" where
  "empty_result roots = \<lparr>rs_sessions = [], rs_ended = [], rs_processes = [], rs_observations = [],
     rs_ownership = [], rs_relationships = [], rs_audit = [], rs_roots = roots,
     rs_attributions = [], rs_launch = [], rs_attributed = 0, rs_pending_ownership = [],
     rs_pending_state = [], rs_pending_root = [], rs_pending_native = [], rs_pending_metadata = []\<rparr>"

text \<open>A claimant that is not the chosen root of its own session is a member of it.\<close>

definition demote_secondary ::
  "(int \<times> string) list \<Rightarrow> (string \<times> session_root_info) list \<Rightarrow> process \<Rightarrow> attribution \<Rightarrow> attribution" where
  "demote_secondary secondary lv p attr =
     (case map_of secondary (pr_pid p) of
        None \<Rightarrow> attr
      | Some sid \<Rightarrow>
          if sid \<noteq> at_session_id attr then attr
          else attr\<lparr>at_relation := RelationEnvironment,
                  at_evidence := at_evidence attr @ [plain_evidence KindProcessInfo
                    (Fmt ''this process names session %s but pid %d started earlier and is the session root; recorded as a member rather than a second root''
                      [AStr sid, AInt (case map_of lv sid of
                         Some i \<Rightarrow> pr_pid (ar_process (si_root i)) | None \<Rightarrow> 0)])]\<rparr>)"

text \<open>The attribution one process ends up with, and the loop over the snapshot.\<close>

definition attribution_of ::
  "reconciler \<Rightarrow> graph \<Rightarrow> (string \<times> provider_session) list \<Rightarrow> (int \<times> string) list
     \<Rightarrow> (string \<times> session_root_info) list \<Rightarrow> process \<Rightarrow> attribution option" where
  "attribution_of r g providers secondary lv p =
     (if \<not> pr_detailed p \<or> pr_uid p \<noteq> rc_self_uid r then None
      else let attr = attribute r p g providers in
        if at_session_id attr = [] then None
        else Some (enrich r p g (demote_secondary secondary lv p attr)))"

definition attribute_one ::
  "'u url_ops \<Rightarrow> bool \<Rightarrow> reconciler \<Rightarrow> graph \<Rightarrow> (string \<times> provider_session) list \<Rightarrow> (int \<times> string) list
     \<Rightarrow> (string \<times> session_root_info) list \<Rightarrow> int \<Rightarrow> process \<Rightarrow> result \<Rightarrow> result" where
  "attribute_one urls cmds r g providers secondary lv now_ns p res =
     (case attribution_of r g providers secondary lv p of
        None \<Rightarrow> res
      | Some attr \<Rightarrow>
          (let res1 = res\<lparr>rs_attributions := AList.update (key_uid (proc_key p)) attr (rs_attributions res),
                          rs_attributed := Suc (rs_attributed res)\<rparr>;
               res2 = record_process urls cmds r p attr now_ns res1 in
           record_relationships p attr g lv now_ns res2))"

fun attribute_all ::
  "'u url_ops \<Rightarrow> bool \<Rightarrow> reconciler \<Rightarrow> graph \<Rightarrow> (string \<times> provider_session) list \<Rightarrow> (int \<times> string) list
     \<Rightarrow> (string \<times> session_root_info) list \<Rightarrow> int \<Rightarrow> process list \<Rightarrow> result \<Rightarrow> result" where
  "attribute_all urls cmds r g providers secondary lv now_ns [] res = res"
| "attribute_all urls cmds r g providers secondary lv now_ns (p # ps) res =
     attribute_all urls cmds r g providers secondary lv now_ns ps
       (attribute_one urls cmds r g providers secondary lv now_ns p res)"

definition reconcile ::
  "'u url_ops \<Rightarrow> reconciler \<Rightarrow> snapshot \<Rightarrow> tree \<Rightarrow> bool \<Rightarrow> session_error + result" where
  "reconcile urls r s t cmds =
     (let now_ns = unix_nano (sn_taken s);
          g0 = \<lparr>gr_snapshot = s, gr_tree = t, gr_roots = [], gr_known = known_provider_sessions r\<rparr> in
      case detect_all (rc_reg r) g0 of
        Inl e \<Rightarrow> Inl e
      | Inr g \<Rightarrow>
          (case build_sessions r g now_ns (empty_result (gr_roots g)) of (st, secondary) \<Rightarrow>
           let providers = discover_provider_sessions r g in
           (case build_provider_sessions r g now_ns providers st of (res1, lv) \<Rightarrow>
            let res2 = attribute_all urls cmds r g providers secondary lv now_ns (sn_procs s) res1;
                res3 = end_departed_sessions r s now_ns res2 in
            Inr (res3\<lparr>rs_sessions := sort_key sr_session_id (rs_sessions res3),
                      rs_ended := sort_key es_session_id (rs_ended res3)\<rparr>))))"

end
