(* ===== verification/Actions.thy ===== *)
theory Actions
  imports Store Sessions
begin

text \<open>
  The process cleanup lane (\<open>internal/daemon\<close>: \<open>approval.go\<close>, \<open>action.go\<close>,
  \<open>action_revalidation.go\<close>, \<open>automatic.go\<close>, \<open>backend_policy.go\<close>, \<open>protection.go\<close>; the signal
  gate of \<open>platform/darwin/signal.go\<close>). What the operating system, the clock and the
  random source answer during one request is the record \<open>surroundings\<close>; hashing and JSON
  are the record \<open>crypto_ops\<close>. The world is the daemon, the store and the list of effects
  that left the daemon, in order.
\<close>

named_theorems action_simps \<open>facts about the cleanup lane\<close>

section \<open>State\<close>

record cleanup_approval =
  cu_binding :: string
  cu_decision :: decision_record
  cu_policy :: policy
  cu_executable :: executable
  cu_authority :: authority
  cu_expires :: gotime
  cu_used :: bool

record daemon =
  dm_cfg :: config
  dm_recon :: reconciler
  dm_self_pid :: int
  dm_self_uid :: "32 word"
  dm_snapshot :: "snapshot option"
  dm_baseline :: "(string \<times> activity_sample) list"
  dm_previous :: "(string \<times> class_previous) list"
  dm_approvals :: "(string \<times> cleanup_approval) list"
  dm_degraded :: "detail list"
  dm_last_activity :: gotime
  dm_last_classification :: gotime
  dm_last_policy :: gotime

text \<open>
  The effects: a committed change of an action's row, and a signal handed to the kernel.
\<close>

datatype effect = Journaled string action_result | Killed string int

record world =
  wo_daemon :: daemon
  wo_store :: store
  wo_effects :: "effect list"

record surroundings =
  su_snapshot :: "string + snapshot"
  su_sample :: "key \<Rightarrow> string \<Rightarrow> string + activity_sample"
  su_inspect :: "int \<Rightarrow> string + process"
  su_kill :: "int \<Rightarrow> string option"
  su_cancelled :: "string option"
  su_decisions_error :: "string option"
  su_first_tx :: "string option"
  su_second_tx :: "string option"
  su_audit_tx :: "string option"
  su_secret :: "string + string"
  su_action_secret :: "string + string"
  su_now :: gotime
  su_attempt_at :: gotime
  su_completed_at :: gotime

record crypto_ops =
  cy_digest :: "string \<Rightarrow> string"
  cy_binding :: "decision_record \<Rightarrow> policy \<Rightarrow> executable \<Rightarrow> string"

datatype action_error = PreviewIncomplete | BadKey key_error | ManualDisabled | StoreFailed store_error
  | DecisionsUnavailable string | NoRecommendation | ExecutableUnavailable
  | SecretUnavailable string | TooManyApprovals
  | ApprovalRequired | ApprovalUnknown | ApprovalConsumed | ApprovalExpired
  | AuthorityChanged | DecisionNotCurrent | BindingChanged | SnapshotUnavailable string
  | ProcessGone | ExecutableChanged | ReconcileFailed session_error | OwnershipChanged
  | SessionUnreadable store_error | SampleUnavailable string | SampleInvalid
  | ClassificationChanged string string | ProtectionsApply nat | PolicyNoLongerMatches

section \<open>Authority\<close>

definition policy_definition :: "config \<Rightarrow> string \<Rightarrow> policy option" where
  "policy_definition cfg pid = List.find (\<lambda>p. pl_id p = pid) (cf_policies cfg)"

definition manual_cleanup_enabled :: "config \<Rightarrow> bool" where
  "manual_cleanup_enabled cfg \<longleftrightarrow>
     (cf_global_mode cfg = ModeRecommend \<or> cf_global_mode cfg = ModeEnforce) \<and>
     list_ex (\<lambda>p. pl_enabled p \<and> pl_mode p = ModeRecommend) (cf_policies cfg)"

definition automatic_cleanup_enabled :: "config \<Rightarrow> bool" where
  "automatic_cleanup_enabled cfg \<longleftrightarrow> cf_global_mode cfg = ModeEnforce \<and>
     list_ex (\<lambda>p. pl_enabled p \<and> pl_mode p = ModeEnforce \<and> pl_automatic p) (cf_policies cfg)"

definition is_recommendation :: "config \<Rightarrow> decision_record \<Rightarrow> bool" where
  "is_recommendation cfg rec \<longleftrightarrow>
     (case policy_definition cfg (pd_policy rec) of
        None \<Rightarrow> False
      | Some p \<Rightarrow> (pd_result rec = ResultCandidate \<or> pd_result rec = ResultCooldown) \<and>
          (cf_global_mode cfg = ModeRecommend \<or> cf_global_mode cfg = ModeEnforce) \<and>
          pl_enabled p \<and> pl_mode p = ModeRecommend)"

definition is_enforceable :: "config \<Rightarrow> decision_record \<Rightarrow> bool" where
  "is_enforceable cfg rec \<longleftrightarrow>
     (case policy_definition cfg (pd_policy rec) of
        None \<Rightarrow> False
      | Some p \<Rightarrow> pd_result rec = ResultCandidate \<and> cf_global_mode cfg = ModeEnforce \<and>
          pl_enabled p \<and> pl_mode p = ModeEnforce \<and> pl_automatic p)"

definition cleanup_authority_enabled :: "config \<Rightarrow> authority \<Rightarrow> policy \<Rightarrow> bool" where
  "cleanup_authority_enabled cfg a p \<longleftrightarrow>
     (case a of
        AuthorityManual \<Rightarrow> manual_cleanup_enabled cfg \<and> pl_enabled p \<and> pl_mode p = ModeRecommend
      | AuthorityAutomatic \<Rightarrow> automatic_cleanup_enabled cfg \<and> pl_enabled p \<and>
          pl_mode p = ModeEnforce \<and> pl_automatic p)"

definition cleanup_decision_current :: "config \<Rightarrow> authority \<Rightarrow> decision_record \<Rightarrow> bool" where
  "cleanup_decision_current cfg a rec \<longleftrightarrow>
     (if a = AuthorityAutomatic then is_enforceable cfg rec else is_recommendation cfg rec)"

text \<open>\<open>currentPolicyDecisions\<close>: only decisions about processes of the last snapshot.\<close>

definition observed_decisions :: "daemon \<Rightarrow> store \<Rightarrow> decision_record list" where
  "observed_decisions d s =
     (case dm_snapshot d of
        None \<Rightarrow> []
      | Some snap \<Rightarrow> filter (\<lambda>rec. case parse_key (pd_uid rec) of
            Inl _ \<Rightarrow> False | Inr k \<Rightarrow> by_key snap k \<noteq> None) (current_policy_decisions s))"

definition exact_executable :: "process option \<Rightarrow> action_error + executable" where
  "exact_executable p =
     (case p of None \<Rightarrow> Inl ExecutableUnavailable
      | Some q \<Rightarrow> (case proc_executable q of None \<Rightarrow> Inl ExecutableUnavailable | Some e \<Rightarrow> Inr e))"

section \<open>Approvals\<close>

definition approval_lifetime :: duration where "approval_lifetime = 2 * minute"
definition max_approvals :: nat where "max_approvals = 128"

definition prune_approvals :: "gotime \<Rightarrow> (string \<times> cleanup_approval) list \<Rightarrow> (string \<times> cleanup_approval) list" where
  "prune_approvals now as = filter (\<lambda>(_, a). \<not> cu_expires a + approval_lifetime < now) as"

definition consume_approval ::
  "crypto_ops \<Rightarrow> string \<Rightarrow> gotime \<Rightarrow> daemon \<Rightarrow> (cleanup_approval option \<times> action_error option) \<times> daemon" where
  "consume_approval cy token now d =
     (let k = cy_digest cy token in
      case map_of (dm_approvals d) k of
        None \<Rightarrow> ((None, Some ApprovalUnknown), d)
      | Some a \<Rightarrow>
          if cu_used a then ((Some a, Some ApprovalConsumed), d)
          else let a' = a\<lparr>cu_used := True\<rparr>;
                   d' = d\<lparr>dm_approvals := AList.update k a' (dm_approvals d)\<rparr> in
            if \<not> now < cu_expires a then ((Some a', Some ApprovalExpired), d')
            else ((Some a', None), d'))"

text \<open>
  \<open>CleanupPreview\<close>: the checks that find the recommendation, and the approval issued for it.
\<close>

definition preview_target ::
  "surroundings \<Rightarrow> string \<Rightarrow> string \<Rightarrow> world \<Rightarrow> action_error + decision_record \<times> executable" where
  "preview_target su policy_id uid w =
     (let d = wo_daemon w; cfg = dm_cfg d in
      if policy_id = [] \<or> uid = [] then Inl PreviewIncomplete
      else (case parse_key uid of
        Inl e \<Rightarrow> Inl (BadKey e)
      | Inr key \<Rightarrow>
          if \<not> manual_cleanup_enabled cfg then Inl ManualDisabled
          else (case su_decisions_error su of
            Some e \<Rightarrow> Inl (DecisionsUnavailable e)
          | None \<Rightarrow>
              (case List.find (\<lambda>rec. pd_policy rec = policy_id \<and> pd_uid rec = uid \<and> is_recommendation cfg rec)
                      (observed_decisions d (wo_store w)) of
                 None \<Rightarrow> Inl NoRecommendation
               | Some rec \<Rightarrow>
                   if pd_id rec = 0 then Inl NoRecommendation
                   else (case exact_executable (by_key_ptr (dm_snapshot d) key) of
                           Inl e \<Rightarrow> Inl e
                         | Inr exe \<Rightarrow> Inr (rec, exe))))))"

definition issue_approval ::
  "crypto_ops \<Rightarrow> surroundings \<Rightarrow> decision_record \<Rightarrow> executable \<Rightarrow> policy \<Rightarrow> string \<Rightarrow> world
     \<Rightarrow> (action_error + string \<times> gotime) \<times> world" where
  "issue_approval cy su rec exe p token w =
     (let d = wo_daemon w;
          expires = su_now su + approval_lifetime;
          k = cy_digest cy token;
          a = \<lparr>cu_binding = cy_binding cy rec p exe, cu_decision = rec, cu_policy = p, cu_executable = exe,
               cu_authority = AuthorityManual, cu_expires = expires, cu_used = False\<rparr>;
          kept = prune_approvals (su_now su) (dm_approvals d) in
      if max_approvals \<le> length kept
      then (Inl TooManyApprovals, w\<lparr>wo_daemon := d\<lparr>dm_approvals := kept\<rparr>\<rparr>)
      else (let issued = AList.update k a kept;
                entry = \<lparr>aq_ts = unix_nano (su_now su), aq_kind = ''action.previewed'', aq_subject = pd_uid rec,
                  aq_summary = Fmt ''manual SIGTERM preview issued for policy %s; approval expires at %s''
                    [AStr (pd_policy rec), ATime expires],
                  aq_evidence = [ev ''approval-binding-v1'' (Text (cu_binding a))]\<rparr> in
        (case with_tx (su_first_tx su) (\<lambda>s. Inr (append_action_audit entry s)) (wo_store w) of
           (Some e, _) \<Rightarrow> (Inl (StoreFailed e), w\<lparr>wo_daemon := d\<lparr>dm_approvals := AList.delete k issued\<rparr>\<rparr>)
         | (None, s) \<Rightarrow> (Inr (token, expires), w\<lparr>wo_daemon := d\<lparr>dm_approvals := issued\<rparr>, wo_store := s\<rparr>))))"

definition cleanup_preview ::
  "crypto_ops \<Rightarrow> surroundings \<Rightarrow> string \<Rightarrow> string \<Rightarrow> world \<Rightarrow> (action_error + string \<times> gotime) \<times> world" where
  "cleanup_preview cy su policy_id uid w =
     (case preview_target su policy_id uid w of
        Inl e \<Rightarrow> (Inl e, w)
      | Inr (rec, exe) \<Rightarrow>
          (case policy_definition (dm_cfg (wo_daemon w)) (pd_policy rec) of
             None \<Rightarrow> (Inl NoRecommendation, w)
           | Some p \<Rightarrow>
               (case su_secret su of
                  Inl e \<Rightarrow> (Inl (SecretUnavailable e), w)
                | Inr token \<Rightarrow> issue_approval cy su rec exe p token w)))"

section \<open>Protection and revalidation\<close>

definition protection_for ::
  "daemon \<Rightarrow> process \<Rightarrow> tree \<Rightarrow> rat \<Rightarrow> bool \<Rightarrow> bool \<Rightarrow> protection_result" where
  "protection_for d p t confidence is_root session_active =
     evaluate_protection \<lparr>pi_process = p, pi_self_pid = dm_self_pid d, pi_self_uid = dm_self_uid d,
       pi_is_agent_root = is_root, pi_session_active = session_active, pi_confidence = confidence,
       pi_descendants = int (length (descendants t (pr_pid p))),
       pi_adapter_rules = concat (List.map ag_protected_patterns (rc_reg (dm_recon d)))\<rparr>"

definition session_ended :: "store \<Rightarrow> string \<Rightarrow> result \<Rightarrow> store_error + bool" where
  "session_ended s sid res =
     (case get_session s sid of
        Inl e \<Rightarrow> Inl e
      | Inr rec \<Rightarrow> Inr (sr_ended_ns rec \<noteq> None \<or> sid \<in> es_session_id ` set (rs_ended res)))"

text \<open>First part of \<open>revalidateCleanup\<close>: the authority and the decision are still the same.\<close>

definition revalidate_authority ::
  "crypto_ops \<Rightarrow> surroundings \<Rightarrow> world \<Rightarrow> cleanup_approval \<Rightarrow> action_error + decision_record \<times> policy \<times> key" where
  "revalidate_authority cy su w a =
     (let d = wo_daemon w; cfg = dm_cfg d in
      case policy_definition cfg (pl_id (cu_policy a)) of
        None \<Rightarrow> Inl AuthorityChanged
      | Some p \<Rightarrow>
          if pl_mode p \<noteq> pl_mode (cu_policy a) \<or> \<not> cleanup_authority_enabled cfg (cu_authority a) p
          then Inl AuthorityChanged
          else (case su_decisions_error su of
                  Some e \<Rightarrow> Inl (DecisionsUnavailable e)
                | None \<Rightarrow>
                    (case List.find (\<lambda>rec. pd_id rec = pd_id (cu_decision a) \<and>
                            pd_evaluation rec = pd_evaluation (cu_decision a))
                            (current_policy_decisions (wo_store w)) of
                       None \<Rightarrow> Inl DecisionNotCurrent
                     | Some cur \<Rightarrow>
                         if pd_id cur = 0 \<or> \<not> cleanup_decision_current cfg (cu_authority a) cur
                         then Inl DecisionNotCurrent
                         else if cy_binding cy cur p (cu_executable a) \<noteq> cu_binding a then Inl BindingChanged
                         else (case parse_key (pd_uid cur) of
                                 Inl e \<Rightarrow> Inl (BadKey e) | Inr k \<Rightarrow> Inr (cur, p, k)))))"

text \<open>Second part: the exact process and its executable image are still there.\<close>

definition revalidate_identity ::
  "surroundings \<Rightarrow> cleanup_approval \<Rightarrow> key \<Rightarrow> action_error + snapshot \<times> process" where
  "revalidate_identity su a k =
     (case su_snapshot su of
        Inl e \<Rightarrow> Inl (SnapshotUnavailable e)
      | Inr snap \<Rightarrow>
          (case by_key snap k of
             None \<Rightarrow> Inl ProcessGone
           | Some p \<Rightarrow>
               (case exact_executable (Some p) of
                  Inl e \<Rightarrow> Inl e
                | Inr exe \<Rightarrow> if exe \<noteq> cu_executable a then Inl ExecutableChanged else Inr (snap, p))))"

text \<open>Third part: ownership, the session's end and a fresh activity sample.\<close>

record fresh_facts =
  ff_snapshot :: snapshot
  ff_process :: process
  ff_tree :: tree
  ff_result :: result
  ff_attribution :: attribution
  ff_ended :: bool
  ff_sample :: activity_sample

definition revalidate_facts ::
  "'u url_ops \<Rightarrow> surroundings \<Rightarrow> world \<Rightarrow> decision_record \<Rightarrow> key \<Rightarrow> snapshot \<Rightarrow> process
     \<Rightarrow> action_error + fresh_facts" where
  "revalidate_facts urls su w cur k snap p =
     (let d = wo_daemon w; t = build_tree snap in
      case reconcile urls (dm_recon d) snap t (pv_store_command_lines (cf_privacy (dm_cfg d))) of
        Inl e \<Rightarrow> Inl (ReconcileFailed e)
      | Inr res \<Rightarrow>
          (case map_of (rs_attributions res) (pd_uid cur) of
             None \<Rightarrow> Inl OwnershipChanged
           | Some attr \<Rightarrow>
               if \<not> attributed (at_session_id attr) (at_confidence attr) \<or> at_session_id attr \<noteq> pd_session cur
               then Inl OwnershipChanged
               else (case session_ended (wo_store w) (pd_session cur) res of
                       Inl e \<Rightarrow> Inl (SessionUnreadable e)
                     | Inr ended \<Rightarrow>
                         (case su_sample su k (at_repository attr) of
                            Inl e \<Rightarrow> Inl (SampleUnavailable e)
                          | Inr sample \<Rightarrow>
                              if as_key sample \<noteq> k \<or> is_zero_time (as_taken sample) \<or> as_taken sample < sn_taken snap
                              then Inl SampleInvalid
                              else Inr \<lparr>ff_snapshot = snap, ff_process = p, ff_tree = t, ff_result = res,
                                ff_attribution = attr, ff_ended = ended, ff_sample = sample\<rparr>))))"

text \<open>Last part: classification, protections and the policy on the fresh facts.\<close>

definition fresh_detached :: "fresh_facts \<Rightarrow> bool" where
  "fresh_detached f \<longleftrightarrow> at_parent_observed (ff_attribution f) \<and>
     pr_ppid (ff_process f) \<noteq> at_original_ppid (ff_attribution f)"

definition fresh_conclusion :: "daemon \<Rightarrow> decision_record \<Rightarrow> key \<Rightarrow> fresh_facts \<Rightarrow> class_result" where
  "fresh_conclusion d cur k f =
     classify \<lparr>ci_key = k, ci_status = pr_status (ff_process f), ci_detached = fresh_detached f,
       ci_session_ended = ff_ended f,
       ci_activity = class_activity_of (derive_activity
         (case map_of (dm_baseline d) (pd_uid cur) of Some b \<Rightarrow> b | None \<Rightarrow> zero_sample) (ff_sample f)),
       ci_previous = (case map_of (dm_previous d) (pd_uid cur) of Some c \<Rightarrow> c | None \<Rightarrow> zero_previous),
       ci_cadence = sa_activity_sample (cf_sampling (dm_cfg d)),
       ci_detachment_detail = (if fresh_detached f then
         ''observed original parent pid '' @ show_int (at_original_ppid (ff_attribution f)) @
         '' was replaced by current parent pid '' @ show_int (pr_ppid (ff_process f)) else [])\<rparr>"

definition fresh_protection :: "daemon \<Rightarrow> key \<Rightarrow> fresh_facts \<Rightarrow> protection_result" where
  "fresh_protection d k f =
     protection_for d (ff_process f) (ff_tree f) (at_confidence (ff_attribution f))
       (case map_of (rs_roots (ff_result f)) (pr_pid (ff_process f)) of
          Some rt \<Rightarrow> ar_key rt = k | None \<Rightarrow> False)
       (\<not> ff_ended f)"

definition fresh_target :: "daemon \<Rightarrow> decision_record \<Rightarrow> key \<Rightarrow> fresh_facts \<Rightarrow> target" where
  "fresh_target d cur k f =
     (let c = fresh_conclusion d cur k f in
      \<lparr>tg_proc_uid = key_uid k, tg_session_id = at_session_id (ff_attribution f),
       tg_class_ts = as_taken (ff_sample f), tg_state = class_name (cr_state c),
       tg_stable_since = cr_stable_since c, tg_agent_id = at_agent_id (ff_attribution f),
       tg_executable = proc_name (ff_process f), tg_detached = fresh_detached f,
       tg_session_ended = ff_ended f, tg_protection = fresh_protection d k f\<rparr>)"

definition identity_evidence :: "cleanup_approval \<Rightarrow> key \<Rightarrow> attribution \<Rightarrow> evidence list" where
  "identity_evidence a k attr =
     [ev ''authority-binding-v1'' (Fmt ''the exact committed evaluation, decision, policy and %s authority still match''
        [AStr (case cu_authority a of AuthorityManual \<Rightarrow> ''manual'' | AuthorityAutomatic \<Rightarrow> ''automatic'')]),
      ev ''exact-executable-v1'' (Text ''the fresh executable path and kernel name still match bound authority''),
      ev ''exact-process-key-v1'' (Text (''fresh snapshot contains '' @ key_uid k)),
      ev ''fresh-ownership-v1'' (Fmt ''fresh reconciliation retained session %s with confidence %.2f''
        [AStr (at_session_id attr), ANum (at_confidence attr)])]"

definition revalidate_policy ::
  "daemon \<Rightarrow> cleanup_approval \<Rightarrow> decision_record \<Rightarrow> policy \<Rightarrow> key \<Rightarrow> fresh_facts
     \<Rightarrow> (action_error \<times> evidence list) + evidence list" where
  "revalidate_policy d a cur p k f =
     (let c = fresh_conclusion d cur k f;
          es = identity_evidence a k (ff_attribution f) @ cr_evidence c;
          prot = fresh_protection d k f in
      if class_name (cr_state c) \<noteq> pd_state cur
      then Inl (ClassificationChanged (pd_state cur) (class_name (cr_state c)), es)
      else if pe_protected prot
      then Inl (ProtectionsApply (length (pe_rules prot)),
             es @ List.map (\<lambda>r. ev (ru_id r) (ru_reason r)) (pe_rules prot))
      else (case evaluate_policy p (fresh_target d cur k f) (as_taken (ff_sample f)) 0 of
              None \<Rightarrow> Inl (PolicyNoLongerMatches, es)
            | Some dec \<Rightarrow>
                if dc_result dec \<noteq> ResultCandidate then Inl (PolicyNoLongerMatches, es)
                else Inr (es @ dc_evidence dec @ [ev ''pre-action-revalidation-v1''
                  (Text ''all authority, identity, lifecycle, activity, classification, policy and hard-protection gates passed'')])))"

definition revalidate_cleanup ::
  "crypto_ops \<Rightarrow> 'u url_ops \<Rightarrow> surroundings \<Rightarrow> world \<Rightarrow> cleanup_approval
     \<Rightarrow> (action_error \<times> evidence list) + key \<times> evidence list" where
  "revalidate_cleanup cy urls su w a =
     (case revalidate_authority cy su w a of
        Inl e \<Rightarrow> Inl (e, [])
      | Inr (cur, p, k) \<Rightarrow>
          (case revalidate_identity su a k of
             Inl e \<Rightarrow> Inl (e, [])
           | Inr (snap, proc) \<Rightarrow>
               (case revalidate_facts urls su w cur k snap proc of
                  Inl e \<Rightarrow> Inl (e, [])
                | Inr f \<Rightarrow>
                    (case revalidate_policy (wo_daemon w) a cur p k f of
                       Inl e \<Rightarrow> Inl e | Inr es \<Rightarrow> Inr (k, es)))))"

section \<open>The signal gate\<close>

datatype signal = SIGTERM | OtherSignal int

datatype signal_error = Cancelled string | OnlySigterm | TargetUnavailable key string | TargetChanged key key
  | ImageChanged | KillFailed key string

text \<open>\<open>SignalProcess\<close>: the PID that was handed to \<open>kill\<close>, if any, and the error, if any.\<close>

definition signal_process ::
  "surroundings \<Rightarrow> 32 word \<Rightarrow> key \<Rightarrow> executable \<Rightarrow> signal \<Rightarrow> int option \<times> signal_error option" where
  "signal_process su uid k exe sig =
     (case su_cancelled su of
        Some e \<Rightarrow> (None, Some (Cancelled e))
      | None \<Rightarrow>
          if sig \<noteq> SIGTERM then (None, Some OnlySigterm)
          else (case su_inspect su (key_pid k) of
                  Inl e \<Rightarrow> (None, Some (TargetUnavailable k e))
                | Inr observed \<Rightarrow>
                    if pr_uid observed \<noteq> uid \<or> proc_key observed \<noteq> k
                    then (None, Some (TargetChanged k (proc_key observed)))
                    else if proc_executable observed \<noteq> Some exe then (None, Some ImageChanged)
                    else (case su_kill su (key_pid k) of
                            Some e \<Rightarrow> (Some (key_pid k), Some (KillFailed k e))
                          | None \<Rightarrow> (Some (key_pid k), None))))"

section \<open>Executing an approved cleanup\<close>

record apply_response =
  rp_action_id :: string
  rp_authority :: authority
  rp_policy :: string
  rp_uid :: string
  rp_result :: action_result
  rp_at :: int

definition action_response ::
  "string \<Rightarrow> cleanup_approval \<Rightarrow> action_result \<Rightarrow> gotime \<Rightarrow> apply_response" where
  "action_response aid a result taken =
     \<lparr>rp_action_id = aid, rp_authority = cu_authority a, rp_policy = pl_id (cu_policy a),
      rp_uid = pd_uid (cu_decision a), rp_result = result, rp_at = unix_nano taken\<rparr>"

definition action_row ::
  "string \<Rightarrow> cleanup_approval \<Rightarrow> gotime \<Rightarrow> gotime \<Rightarrow> action_result \<Rightarrow> detail \<Rightarrow> evidence list \<Rightarrow> action_record" where
  "action_row aid a requested updated result reason es =
     \<lparr>ac_id = aid, ac_policy = pl_id (cu_policy a), ac_uid = pd_uid (cu_decision a),
      ac_session = pd_session (cu_decision a), ac_authority = cu_authority a,
      ac_requested = unix_nano requested, ac_updated = unix_nano updated, ac_result = result,
      ac_signal = ''SIGTERM'', ac_reason = reason, ac_evidence = es\<rparr>"

fun authority_name :: "authority \<Rightarrow> string" where
  "authority_name AuthorityManual = ''manual''"
| "authority_name AuthorityAutomatic = ''automatic''"

definition insert_with_audit :: "action_record \<Rightarrow> action_audit \<Rightarrow> store \<Rightarrow> store_error + store" where
  "insert_with_audit rec entry s =
     (case insert_action rec s of Inl e \<Rightarrow> Inl e | Inr s' \<Rightarrow> Inr (append_action_audit entry s'))"

definition update_with_audit ::
  "string \<Rightarrow> action_result \<Rightarrow> detail \<Rightarrow> evidence list \<Rightarrow> int \<Rightarrow> action_audit \<Rightarrow> store \<Rightarrow> store_error + store" where
  "update_with_audit aid result reason es taken_ns entry s =
     (case update_action aid result reason es taken_ns s of
        Inl e \<Rightarrow> Inl e | Inr s' \<Rightarrow> Inr (append_action_audit entry s'))"

text \<open>
  The texts of the errors, as they end up in rows, in the log and in answers; the wrapped
  errors of the number parser and of SQLite are not rendered.
\<close>

fun store_error_text :: "store_error \<Rightarrow> detail" where
  "store_error_text (DuplicateAction aid) = Fmt ''storage: inserting action %s: UNIQUE constraint failed'' [AStr aid]"
| "store_error_text (ActionNotFound aid) = Fmt ''storage: updating action %s: not found'' [AStr aid]"
| "store_error_text SessionNotFound = Text ''storage: not found''"
| "store_error_text (SessionAmbiguous q) =
     Fmt ''storage: identifier prefix matches more than one record: %q'' [AStr q]"
| "store_error_text (DatabaseError e) = Text e"

fun key_error_text :: "key_error \<Rightarrow> detail" where
  "key_error_text (MalformedKey s) = Fmt ''process: malformed key %q'' [AStr s]"
| "key_error_text (MalformedPid s) = Fmt ''process: malformed key %q: '' [AStr s]"
| "key_error_text (MalformedStart s) = Fmt ''process: malformed key %q: '' [AStr s]"

fun error_text :: "action_error \<Rightarrow> detail" where
  "error_text PreviewIncomplete = Text ''cleanup preview requires policy_id and exact proc_uid''"
| "error_text (BadKey e) = key_error_text e"
| "error_text ManualDisabled =
     Text ''manual cleanup is disabled: globalMode and the selected policy must both be recommend''"
| "error_text (StoreFailed e) = store_error_text e"
| "error_text (DecisionsUnavailable e) = Text e"
| "error_text NoRecommendation = Text ''no current recommendation matches that exact policy and process''"
| "error_text ExecutableUnavailable = Text ''exact executable identity is unavailable''"
| "error_text (SecretUnavailable e) = Text (''generating approval: '' @ e)"
| "error_text TooManyApprovals =
     Text ''too many outstanding approvals; wait for an earlier preview to expire''"
| "error_text ApprovalRequired = Text ''cleanup apply requires an approval''"
| "error_text ApprovalUnknown = Text ''approval is unknown or was lost when the daemon restarted''"
| "error_text ApprovalConsumed = Text ''approval has already been consumed''"
| "error_text ApprovalExpired = Text ''approval has expired''"
| "error_text AuthorityChanged = Text ''cleanup authority, policy or global mode changed''"
| "error_text DecisionNotCurrent = Text ''the authorized cleanup decision is no longer current''"
| "error_text BindingChanged = Text ''the policy decision or evidence changed after authority was established''"
| "error_text (SnapshotUnavailable e) = Text (''fresh process snapshot unavailable: '' @ e)"
| "error_text ProcessGone = Text ''exact process identity exited or changed''"
| "error_text ExecutableChanged = Text ''exact executable identity changed after authority was established''"
| "error_text (ReconcileFailed (DetectionFailed agent e)) =
     Fmt ''fresh ownership reconciliation failed: sessions: adapter %s detection: %s'' [AStr agent, AStr e]"
| "error_text OwnershipChanged = Text ''ownership or session attribution changed''"
| "error_text (SessionUnreadable e) = detail_prefix ''reading session lifecycle: '' (store_error_text e)"
| "error_text (SampleUnavailable e) = Text (''fresh activity evidence unavailable: '' @ e)"
| "error_text SampleInvalid = Text ''fresh activity sample failed exact-key or freshness validation''"
| "error_text (ClassificationChanged a b) = Fmt ''classification changed from %s to %s'' [AStr a, AStr b]"
| "error_text (ProtectionsApply n) = Fmt ''%d non-overridable protection(s) apply'' [AInt (int n)]"
| "error_text PolicyNoLongerMatches = Text ''fresh facts no longer satisfy the exact cleanup policy''"

fun signal_error_text :: "signal_error \<Rightarrow> detail" where
  "signal_error_text (Cancelled e) = Text e"
| "signal_error_text OnlySigterm = Text ''darwin: only SIGTERM is allowed''"
| "signal_error_text (TargetUnavailable k e) =
     Fmt ''darwin: signal target %s unavailable: %s'' [AStr (key_uid k), AStr e]"
| "signal_error_text (TargetChanged k k') =
     Fmt ''darwin: signal target changed from %s to %s'' [AStr (key_uid k), AStr (key_uid k')]"
| "signal_error_text ImageChanged = Text ''darwin: signal target executable changed or is unavailable''"
| "signal_error_text (KillFailed k e) =
     Fmt ''darwin: signalling exact target %s: %s'' [AStr (key_uid k), AStr e]"

text \<open>A format whose last argument is itself a formatted text.\<close>

definition fmt_then :: "string \<Rightarrow> fmt_arg list \<Rightarrow> detail \<Rightarrow> detail" where
  "fmt_then f as d = (case detail_args d of (g, bs) \<Rightarrow> Fmt (f @ g) (as @ bs))"

definition reject_action ::
  "surroundings \<Rightarrow> string \<Rightarrow> cleanup_approval \<Rightarrow> action_error \<Rightarrow> evidence list \<Rightarrow> gotime \<Rightarrow> world
     \<Rightarrow> (action_error + apply_response) \<times> world" where
  "reject_action su aid a err es taken w =
     (let row = action_row aid a taken taken ActionRejected (error_text err) es;
          entry = \<lparr>aq_ts = unix_nano taken, aq_kind = ''action.rejected'', aq_subject = ac_uid row,
            aq_summary = fmt_then ''%s action %s rejected before signalling: ''
              [AStr (authority_name (cu_authority a)), AStr aid] (error_text err), aq_evidence = es\<rparr> in
      case with_tx (su_first_tx su) (insert_with_audit row entry) (wo_store w) of
        (Some e, _) \<Rightarrow> (Inl (StoreFailed e), w)
      | (None, s) \<Rightarrow> (Inr (action_response aid a ActionRejected taken),
          w\<lparr>wo_store := s, wo_effects := wo_effects w @ [Journaled aid ActionRejected]\<rparr>))"

text \<open>
  After the attempt has been committed: the signal, and the outcome in a second transaction.
\<close>

definition finish_action ::
  "surroundings \<Rightarrow> string \<Rightarrow> cleanup_approval \<Rightarrow> key \<Rightarrow> evidence list \<Rightarrow> world
     \<Rightarrow> (action_error + apply_response) \<times> world" where
  "finish_action su aid a k es w =
     (case signal_process su (dm_self_uid (wo_daemon w)) k (cu_executable a) SIGTERM of (hit, err) \<Rightarrow>
      let w1 = w\<lparr>wo_effects := wo_effects w @ (case hit of Some pid \<Rightarrow> [Killed aid pid] | None \<Rightarrow> [])\<rparr>;
          result = (if err = None then ActionSignalled else ActionFailed);
          reason = (case err of
                      None \<Rightarrow> Text ''exact-key SIGTERM was accepted by the operating system''
                    | Some e \<Rightarrow> detail_prefix ''exact-key SIGTERM failed: '' (signal_error_text e));
          es1 = es @ [ev ''signal-result-v1'' reason];
          entry = \<lparr>aq_ts = unix_nano (su_completed_at su),
            aq_kind = (if err = None then ''action.signalled'' else ''action.failed''),
            aq_subject = pd_uid (cu_decision a),
            aq_summary = fmt_then ''%s action %s: '' [AStr (authority_name (cu_authority a)), AStr aid] reason,
            aq_evidence = es1\<rparr> in
      (case with_tx (su_second_tx su)
              (update_with_audit aid result reason es1 (unix_nano (su_completed_at su)) entry) (wo_store w1) of
         (Some e, _) \<Rightarrow> (Inl (StoreFailed e), w1)
       | (None, s) \<Rightarrow> (Inr (action_response aid a result (su_completed_at su)),
           w1\<lparr>wo_store := s, wo_effects := wo_effects w1 @ [Journaled aid result]\<rparr>)))"

definition execute_cleanup ::
  "crypto_ops \<Rightarrow> 'u url_ops \<Rightarrow> surroundings \<Rightarrow> string \<Rightarrow> cleanup_approval \<Rightarrow> world
     \<Rightarrow> (action_error + apply_response) \<times> world" where
  "execute_cleanup cy urls su aid a w =
     (case revalidate_cleanup cy urls su w a of
        Inl (e, es) \<Rightarrow> reject_action su aid a e (es @ [ev ''pre-action-refusal-v1'' (error_text e)]) (su_attempt_at su) w
      | Inr (k, es) \<Rightarrow>
          (let row = action_row aid a (su_now su) (su_attempt_at su) ActionAttempting
                 (Fmt ''%s authority passed full pre-action revalidation; exact-key SIGTERM is about to be attempted''
                   [AStr (authority_name (cu_authority a))]) es;
               entry = \<lparr>aq_ts = ac_updated row, aq_kind = ''action.attempting'', aq_subject = ac_uid row,
                 aq_summary = Fmt ''%s action %s committed before exact-key SIGTERM for policy %s''
                   [AStr (authority_name (cu_authority a)), AStr aid, AStr (ac_policy row)], aq_evidence = es\<rparr> in
           case with_tx (su_first_tx su) (insert_with_audit row entry) (wo_store w) of
             (Some e, _) \<Rightarrow> (Inl (StoreFailed e), w)
           | (None, s) \<Rightarrow> finish_action su aid a k es
               (w\<lparr>wo_store := s, wo_effects := wo_effects w @ [Journaled aid ActionAttempting]\<rparr>)))"

definition cleanup_apply ::
  "crypto_ops \<Rightarrow> 'u url_ops \<Rightarrow> surroundings \<Rightarrow> string \<Rightarrow> world \<Rightarrow> (action_error + apply_response) \<times> world" where
  "cleanup_apply cy urls su token w =
     (if token = [] then (Inl ApprovalRequired, w)
      else (case consume_approval cy token (su_now su) (wo_daemon w) of ((a, refusal), d) \<Rightarrow>
            let w1 = w\<lparr>wo_daemon := d\<rparr> in
            (case a of
               None \<Rightarrow> (Inl ApprovalUnknown, w1)
             | Some a \<Rightarrow>
                 (case su_action_secret su of
                    Inl e \<Rightarrow> (Inl (SecretUnavailable e), w1)
                  | Inr secret \<Rightarrow>
                      let aid = ''act_'' @ secret in
                      (case refusal of
                         Some e \<Rightarrow> reject_action su aid a e [ev ''approval-consumption-v1'' (error_text e)] (su_now su) w1
                       | None \<Rightarrow> execute_cleanup cy urls su aid a w1)))))"

section \<open>Automatic enforcement\<close>

text \<open>The audit entry of a failure is best effort: its own failure is only logged.\<close>

definition record_automatic_failure :: "surroundings \<Rightarrow> detail \<Rightarrow> world \<Rightarrow> world" where
  "record_automatic_failure su reason w =
     (let d = wo_daemon w;
          entry = \<lparr>aq_ts = unix_nano (su_completed_at su), aq_kind = ''action.automatic.skipped'',
            aq_subject = ''daemon'', aq_summary = detail_prefix ''automatic cleanup failed closed: '' reason,
            aq_evidence = []\<rparr> in
      w\<lparr>wo_daemon := d\<lparr>dm_degraded := dm_degraded d @ [detail_prefix ''automatic cleanup: '' reason]\<rparr>,
        wo_store := snd (with_tx (su_audit_tx su) (\<lambda>s. Inr (append_action_audit entry s)) (wo_store w))\<rparr>)"

definition execute_automatic_decision ::
  "crypto_ops \<Rightarrow> 'u url_ops \<Rightarrow> surroundings \<Rightarrow> decision_record \<Rightarrow> world \<Rightarrow> world" where
  "execute_automatic_decision cy urls su rec w =
     (case (policy_definition (dm_cfg (wo_daemon w)) (pd_policy rec), parse_key (pd_uid rec)) of
        (Some p, Inr k) \<Rightarrow>
          (case exact_executable (by_key_ptr (dm_snapshot (wo_daemon w)) k) of
             Inl e \<Rightarrow> record_automatic_failure su
               (detail_prefix ''selected decision lacks exact executable identity: '' (error_text e)) w
           | Inr exe \<Rightarrow>
               (case su_action_secret su of
                  Inl e \<Rightarrow> record_automatic_failure su
                    (detail_prefix ''creating action identity: '' (error_text (SecretUnavailable e))) w
                | Inr secret \<Rightarrow>
                    let aid = ''act_'' @ secret;
                        a = \<lparr>cu_binding = cy_binding cy rec p exe, cu_decision = rec, cu_policy = p,
                             cu_executable = exe, cu_authority = AuthorityAutomatic, cu_expires = 0, cu_used = False\<rparr> in
                    (case execute_cleanup cy urls su aid a w of
                       (Inl e, w') \<Rightarrow> record_automatic_failure su (fmt_then ''action %s: '' [AStr aid] (error_text e)) w'
                     | (Inr _, w') \<Rightarrow> w')))
      | _ \<Rightarrow> record_automatic_failure su (Text ''selected decision has invalid policy or process identity'') w)"

definition run_automatic_cleanup ::
  "crypto_ops \<Rightarrow> 'u url_ops \<Rightarrow> surroundings \<Rightarrow> bool \<Rightarrow> world \<Rightarrow> world" where
  "run_automatic_cleanup cy urls su due w =
     (if \<not> due \<or> \<not> automatic_cleanup_enabled (dm_cfg (wo_daemon w)) then w
      else (case su_decisions_error su of
              Some e \<Rightarrow> record_automatic_failure su (Text (''reading current decisions: '' @ e)) w
            | None \<Rightarrow>
                (case List.find (is_enforceable (dm_cfg (wo_daemon w))) (current_policy_decisions (wo_store w)) of
                   None \<Rightarrow> w
                 | Some rec \<Rightarrow> execute_automatic_decision cy urls su rec w)))"

end
