(* ===== verification/Scan.thy ===== *)
theory Scan
  imports Actions
begin

text \<open>
  The observation cycle of the daemon (\<open>internal/daemon\<close>: \<open>scan.go\<close>, \<open>activity.go\<close>,
  \<open>classification.go\<close>, \<open>policy.go\<close>, \<open>retention.go\<close> and the seeding in \<open>daemon.go\<close>): snapshot,
  reconciliation, activity, classification, policies, one transaction, and only then the
  in-memory state and the automatic lane. Counters for the status page and log lines are
  left out, and so is the worktree inventory that a scan refreshes in the same transaction.
\<close>

named_theorems scan_simps \<open>facts about the observation cycle\<close>

section \<open>What a scan meets\<close>

text \<open>
  What the platform, the context and the database answer during one scan: \<open>sv_cancelled\<close>
  says whether the context is cancelled when an error surfaces, \<open>sv_reachable\<close> whether it
  is still live when the sampling loop reaches a process, \<open>sv_auto\<close> what the automatic lane
  meets.
\<close>

record scan_env =
  sv_snapshot :: "string + snapshot"
  sv_cancelled :: bool
  sv_reachable :: "process \<Rightarrow> bool"
  sv_sample :: "key \<Rightarrow> string \<Rightarrow> string + activity_sample"
  sv_sessions_error :: "string option"
  sv_cooldown_error :: "string \<Rightarrow> string \<Rightarrow> string option"
  sv_persist_tx :: "string option"
  sv_failure_tx :: "string option"
  sv_start :: gotime
  sv_duration_us :: int
  sv_now :: gotime
  sv_auto :: surroundings

section \<open>Activity\<close>

record activity_batch =
  ab_due :: bool
  ab_at :: gotime
  ab_records :: "activity_record list"
  ab_baselines :: "(string \<times> activity_sample) list"

definition no_activity :: activity_batch where
  "no_activity = \<lparr>ab_due = False, ab_at = 0, ab_records = [], ab_baselines = []\<rparr>"

definition activity_row :: "string \<Rightarrow> activity_sample \<Rightarrow> activity_delta \<Rightarrow> activity_record" where
  "activity_row sid sample delta =
     \<lparr>ay_uid = key_uid (as_key sample), ay_session = sid, ay_ts = unix_nano (ad_taken delta),
      ay_interval = ad_interval delta, ay_baseline_ok = ad_baseline_ok delta,
      ay_cpu_percent = ad_cpu_percent delta, ay_cpu_delta = ad_cpu_delta delta, ay_cpu_known = ad_cpu_known delta,
      ay_disk_read = bounded_int64 (ad_disk_read delta), ay_disk_written = bounded_int64 (ad_disk_written delta),
      ay_io_known = ad_io_known delta, ay_rss = bounded_int64 (as_rss sample),
      ay_open_files = ad_open_files delta, ay_writable_files = ad_writable_files delta,
      ay_files_known = ad_files_known delta, ay_sockets = ad_sockets delta, ay_connected = ad_connected delta,
      ay_recv_queue = bounded_int64 (ad_recv_queue delta), ay_send_queue = bounded_int64 (ad_send_queue delta),
      ay_network_changed = ad_network_changed delta, ay_sockets_known = ad_sockets_known delta,
      ay_note = Text (ad_note delta)\<rparr>"

text \<open>A sample that could not be taken leaves a row in which nothing is known.\<close>

definition unavailable_row :: "string \<Rightarrow> string \<Rightarrow> int \<Rightarrow> detail \<Rightarrow> activity_record" where
  "unavailable_row uid sid ts reason =
     \<lparr>ay_uid = uid, ay_session = sid, ay_ts = ts, ay_interval = 0, ay_baseline_ok = False,
      ay_cpu_percent = 0, ay_cpu_delta = 0, ay_cpu_known = False, ay_disk_read = 0, ay_disk_written = 0,
      ay_io_known = False, ay_rss = 0, ay_open_files = 0, ay_writable_files = 0, ay_files_known = False,
      ay_sockets = 0, ay_connected = 0, ay_recv_queue = 0, ay_send_queue = 0, ay_network_changed = False,
      ay_sockets_known = False, ay_note = detail_prefix ''activity unavailable: '' reason\<rparr>"

definition check_sample :: "snapshot \<Rightarrow> process \<Rightarrow> string + activity_sample \<Rightarrow> detail + activity_sample" where
  "check_sample snap p r =
     (case r of
        Inl e \<Rightarrow> Inl (Text e)
      | Inr sample \<Rightarrow>
          if as_key sample \<noteq> proc_key p
          then Inl (Fmt ''collector returned key %s for requested process %s''
                 [AStr (key_uid (as_key sample)), AStr (key_uid (proc_key p))])
          else if is_zero_time (as_taken sample)
          then Inl (Fmt ''collector returned a zero sample time for process %s'' [AStr (key_uid (proc_key p))])
          else if as_taken sample < sn_taken snap
          then Inl (Fmt ''collector sample time for %s predates its selecting snapshot'' [AStr (key_uid (proc_key p))])
          else Inr sample)"

definition socket_edge :: "string \<Rightarrow> string \<Rightarrow> int \<Rightarrow> activity_sample \<Rightarrow> relationship_record list" where
  "socket_edge sid uid now_ns sample =
     (if as_sockets_known sample \<and> 0 < as_sockets sample
      then [\<lparr>rl_session_id = sid, rl_kind = RelSocket, rl_from = uid, rl_to = [],
             rl_detail = Fmt ''%d open socket descriptors (%d connected); endpoints are intentionally not stored''
               [AInt (as_sockets sample), AInt (as_connected sample)],
             rl_first_seen = now_ns, rl_last_seen = now_ns\<rparr>]
      else [])"

text \<open>One round of the loop: the batch so far and the edges added to the result.\<close>

definition sample_one ::
  "daemon \<Rightarrow> scan_env \<Rightarrow> snapshot \<Rightarrow> result \<Rightarrow> process \<Rightarrow> activity_batch \<times> relationship_record list
     \<Rightarrow> activity_batch \<times> relationship_record list" where
  "sample_one d env snap res p st =
     (let uid = key_uid (proc_key p) in
      case map_of (rs_attributions res) uid of
        None \<Rightarrow> st
      | Some attr \<Rightarrow>
          if \<not> attributed (at_session_id attr) (at_confidence attr) then st
          else (case st of (batch, edges) \<Rightarrow>
            (case check_sample snap p (sv_sample env (proc_key p) (at_repository attr)) of
               Inl reason \<Rightarrow>
                 (batch\<lparr>ab_records := ab_records batch @
                    [unavailable_row uid (at_session_id attr) (unix_nano (sn_taken snap)) reason]\<rparr>, edges)
             | Inr sample \<Rightarrow>
                 let delta = derive_activity
                       (case map_of (dm_baseline d) uid of Some b \<Rightarrow> b | None \<Rightarrow> zero_sample) sample in
                 (batch\<lparr>ab_baselines := AList.update uid sample (ab_baselines batch),
                        ab_records := ab_records batch @ [activity_row (at_session_id attr) sample delta]\<rparr>,
                  edges @ socket_edge (at_session_id attr) uid (unix_nano (sn_taken snap)) sample))))"

fun sample_loop ::
  "daemon \<Rightarrow> scan_env \<Rightarrow> snapshot \<Rightarrow> result \<Rightarrow> process list \<Rightarrow> activity_batch \<times> relationship_record list
     \<Rightarrow> activity_batch \<times> relationship_record list" where
  "sample_loop d env snap res [] st = st"
| "sample_loop d env snap res (p # ps) st =
     (if \<not> sv_reachable env p then st
      else sample_loop d env snap res ps (sample_one d env snap res p st))"

definition lock_edges :: "session_record list \<Rightarrow> int \<Rightarrow> relationship_record list" where
  "lock_edges ss now_ns = List.map (\<lambda>s.
       \<lparr>rl_session_id = sr_session_id s, rl_kind = RelFileLock, rl_from = sr_root_uid s, rl_to = [],
        rl_detail = Text ''repository metadata reports an in-flight git lock; lock ownership is not inferred'',
        rl_first_seen = now_ns, rl_last_seen = now_ns\<rparr>)
     (filter (\<lambda>s. sr_busy s \<and> sr_root_uid s \<noteq> []) ss)"

definition collect_activity :: "daemon \<Rightarrow> scan_env \<Rightarrow> snapshot \<Rightarrow> result \<Rightarrow> activity_batch \<times> result" where
  "collect_activity d env snap res =
     (if \<not> is_zero_time (dm_last_activity d) \<and>
         time_sub (sn_taken snap) (dm_last_activity d) < sa_activity_sample (cf_sampling (dm_cfg d))
      then (no_activity, res)
      else (case sample_loop d env snap res (sn_procs snap)
                  (no_activity\<lparr>ab_due := True, ab_at := sn_taken snap\<rparr>, []) of
              (batch, edges) \<Rightarrow>
                (batch, res\<lparr>rs_relationships := rs_relationships res @ edges @
                   lock_edges (rs_sessions res) (unix_nano (sn_taken snap))\<rparr>)))"

section \<open>Classification\<close>

record class_batch =
  cb_due :: bool
  cb_emit :: bool
  cb_at :: gotime
  cb_records :: "classification_record list"
  cb_current :: "classification_record list"
  cb_previous :: "(string \<times> class_previous) list"

definition no_classes :: class_batch where
  "no_classes = \<lparr>cb_due = False, cb_emit = False, cb_at = 0, cb_records = [], cb_current = [], cb_previous = []\<rparr>"

text \<open>The map of ended sessions: the store, overwritten by this cycle's rows and endings.\<close>

definition session_is_ended :: "store \<Rightarrow> result \<Rightarrow> string \<Rightarrow> bool" where
  "session_is_ended s res sid \<longleftrightarrow>
     sid \<in> es_session_id ` set (rs_ended res) \<or>
     (case map_of (rev (List.map (\<lambda>r. (sr_session_id r, sr_ended_ns r)) (rs_sessions res))) sid of
        Some ended \<Rightarrow> ended \<noteq> None
      | None \<Rightarrow> (case map_of (sto_sessions s) sid of Some r \<Rightarrow> sr_ended_ns r \<noteq> None | None \<Rightarrow> False))"

definition class_input_of ::
  "daemon \<Rightarrow> store \<Rightarrow> result \<Rightarrow> key \<Rightarrow> process \<Rightarrow> activity_record \<Rightarrow> class_input" where
  "class_input_of d s res k p rec =
     (let attr = (case map_of (rs_attributions res) (ay_uid rec) of Some a \<Rightarrow> a | None \<Rightarrow> no_attribution);
          detached = (at_parent_observed attr \<and> pr_ppid p \<noteq> at_original_ppid attr) in
      \<lparr>ci_key = k, ci_status = pr_status p, ci_detached = detached,
       ci_session_ended = session_is_ended s res (ay_session rec),
       ci_activity = \<lparr>ca_taken = time_unix (ay_ts rec), ca_baseline_ok = ay_baseline_ok rec,
         ca_cpu_percent = ay_cpu_percent rec, ca_cpu_known = ay_cpu_known rec,
         ca_disk_read = ay_disk_read rec, ca_disk_written = ay_disk_written rec, ca_io_known = ay_io_known rec,
         ca_writable_files = ay_writable_files rec, ca_files_known = ay_files_known rec,
         ca_connected = ay_connected rec, ca_network_changed = ay_network_changed rec,
         ca_sockets_known = ay_sockets_known rec\<rparr>,
       ci_previous = (case map_of (dm_previous d) (ay_uid rec) of Some c \<Rightarrow> c | None \<Rightarrow> zero_previous),
       ci_cadence = sa_activity_sample (cf_sampling (dm_cfg d)),
       ci_detachment_detail = (if detached then
         ''observed original parent pid '' @ show_int (at_original_ppid attr) @
         '' was replaced by current parent pid '' @ show_int (pr_ppid p) else [])\<rparr>)"

definition class_row :: "activity_record \<Rightarrow> class_result \<Rightarrow> classification_record" where
  "class_row rec r =
     \<lparr>cx_uid = ay_uid rec, cx_session = ay_session rec, cx_ts = ay_ts rec, cx_activity_ts = ay_ts rec,
      cx_state = cr_state r, cx_basis = cr_basis r, cx_detached = cr_detached r,
      cx_session_ended = cr_session_ended r, cx_stable_since = unix_nano (cr_stable_since r),
      cx_evidence = cr_evidence r\<rparr>"

text \<open>The conclusion about one sample, if its exact process is in the snapshot.\<close>

definition classify_row ::
  "daemon \<Rightarrow> store \<Rightarrow> snapshot \<Rightarrow> result \<Rightarrow> activity_record \<Rightarrow> (classification_record \<times> class_previous) option" where
  "classify_row d s snap res rec =
     (case parse_key (ay_uid rec) of
        Inl _ \<Rightarrow> None
      | Inr k \<Rightarrow>
          (case by_pid snap (key_pid k) of
             None \<Rightarrow> None
           | Some p \<Rightarrow>
               if proc_key p \<noteq> k then None
               else let i = class_input_of d s res k p rec; r = classify i in
                 Some (class_row rec r, previous_of i r)))"

fun classify_rows ::
  "daemon \<Rightarrow> store \<Rightarrow> snapshot \<Rightarrow> result \<Rightarrow> activity_record list \<Rightarrow> class_batch \<Rightarrow> class_batch" where
  "classify_rows d s snap res [] b = b"
| "classify_rows d s snap res (rec # recs) b =
     classify_rows d s snap res recs
       (case classify_row d s snap res rec of
          None \<Rightarrow> b
        | Some (row, prev) \<Rightarrow>
            b\<lparr>cb_current := cb_current b @ [row],
              cb_records := cb_records b @ (if cb_emit b then [row] else []),
              cb_previous := AList.update (ay_uid rec) prev (cb_previous b)\<rparr>)"

definition classify_activity ::
  "daemon \<Rightarrow> scan_env \<Rightarrow> store \<Rightarrow> snapshot \<Rightarrow> result \<Rightarrow> activity_batch \<Rightarrow> detail + class_batch" where
  "classify_activity d env s snap res act =
     (if \<not> ab_due act then Inr no_classes
      else (case sv_sessions_error env of
              Some e \<Rightarrow> Inl (Text e)
            | None \<Rightarrow>
                let emit = (is_zero_time (dm_last_classification d) \<or>
                      sa_classification (cf_sampling (dm_cfg d)) \<le> time_sub (ab_at act) (dm_last_classification d)) in
                Inr (classify_rows d s snap res (ab_records act)
                  (no_classes\<lparr>cb_due := True, cb_emit := emit, cb_at := ab_at act\<rparr>))))"

section \<open>Policies\<close>

record policy_batch =
  pb_due :: bool
  pb_at :: gotime
  pb_cadence_at :: gotime
  pb_records :: "decision_record list"
  pb_audit :: "action_audit list"
  pb_candidates :: nat

definition no_policies :: policy_batch where
  "no_policies = \<lparr>pb_due = False, pb_at = 0, pb_cadence_at = 0, pb_records = [], pb_audit = [], pb_candidates = 0\<rparr>"

fun result_name :: "policy_result \<Rightarrow> string" where
  "result_name ResultCandidate = ''candidate''"
| "result_name ResultRefused = ''refused''"
| "result_name ResultCooldown = ''cooldown''"

definition policy_target ::
  "daemon \<Rightarrow> tree \<Rightarrow> result \<Rightarrow> key \<Rightarrow> process \<Rightarrow> attribution \<Rightarrow> classification_record \<Rightarrow> target" where
  "policy_target d t res k p attr c =
     \<lparr>tg_proc_uid = cx_uid c, tg_session_id = cx_session c, tg_class_ts = time_unix (cx_ts c),
      tg_state = class_name (cx_state c), tg_stable_since = time_unix (cx_stable_since c),
      tg_agent_id = at_agent_id attr, tg_executable = proc_name p, tg_detached = cx_detached c,
      tg_session_ended = cx_session_ended c,
      tg_protection = protection_for d p t (at_confidence attr)
        (case map_of (rs_roots res) (pr_pid p) of Some rt \<Rightarrow> ar_key rt = k | None \<Rightarrow> False)
        (\<not> cx_session_ended c)\<rparr>"

definition decision_row :: "classification_record \<Rightarrow> decision \<Rightarrow> decision_record" where
  "decision_row c dec =
     \<lparr>pd_id = 0, pd_evaluation = 0, pd_policy = dc_policy_id dec, pd_uid = dc_proc_uid dec,
      pd_session = dc_session_id dec, pd_ts = unix_nano (time_unix (cx_ts c)), pd_class_ts = cx_ts c,
      pd_state = dc_state dec, pd_result = dc_result dec, pd_reason = dc_reason dec,
      pd_cooldown = (if is_zero_time (dc_cooldown_until dec) then 0 else unix_nano (dc_cooldown_until dec)),
      pd_evidence = cx_evidence c @ dc_evidence dec\<rparr>"

definition decision_audit :: "classification_record \<Rightarrow> decision \<Rightarrow> action_audit" where
  "decision_audit c dec =
     \<lparr>aq_ts = unix_nano (time_unix (cx_ts c)), aq_kind = ''policy.'' @ result_name (dc_result dec), aq_subject = cx_uid c,
      aq_summary = fmt_then ''policy %s: '' [AStr (dc_policy_id dec)] (dc_reason dec),
      aq_evidence = cx_evidence c @ dc_evidence dec\<rparr>"

text \<open>The inner loop: every policy on one classified process.\<close>

fun apply_policies ::
  "scan_env \<Rightarrow> store \<Rightarrow> classification_record \<Rightarrow> target \<Rightarrow> policy list \<Rightarrow> policy_batch \<Rightarrow> detail + policy_batch" where
  "apply_policies env s c tg [] b = Inr b"
| "apply_policies env s c tg (p # ps) b =
     (case sv_cooldown_error env (pl_id p) (cx_uid c) of
        Some e \<Rightarrow> Inl (Text e)
      | None \<Rightarrow>
          apply_policies env s c tg ps
            (case evaluate_policy p tg (time_unix (cx_ts c))
                    (time_unix (last_candidate_cooldown s (pl_id p) (cx_uid c))) of
               None \<Rightarrow> b
             | Some dec \<Rightarrow>
                 b\<lparr>pb_records := pb_records b @ [decision_row c dec],
                   pb_candidates := (if dc_result dec = ResultCandidate then Suc (pb_candidates b) else pb_candidates b),
                   pb_audit := pb_audit b @ [decision_audit c dec]\<rparr>))"

text \<open>The process, its key and its attribution, if the snapshot still has them.\<close>

definition classified_process ::
  "snapshot \<Rightarrow> result \<Rightarrow> classification_record \<Rightarrow> (key \<times> process \<times> attribution) option" where
  "classified_process snap res c =
     (case parse_key (cx_uid c) of
        Inl _ \<Rightarrow> None
      | Inr k \<Rightarrow>
          (case by_key snap k of
             None \<Rightarrow> None
           | Some p \<Rightarrow>
               (case map_of (rs_attributions res) (cx_uid c) of
                  None \<Rightarrow> None | Some attr \<Rightarrow> Some (k, p, attr))))"

fun policies_loop ::
  "daemon \<Rightarrow> scan_env \<Rightarrow> store \<Rightarrow> snapshot \<Rightarrow> tree \<Rightarrow> result \<Rightarrow> classification_record list \<Rightarrow> policy_batch
     \<Rightarrow> detail + policy_batch" where
  "policies_loop d env s snap t res [] b = Inr b"
| "policies_loop d env s snap t res (c # cs) b =
     (case classified_process snap res c of
        None \<Rightarrow> policies_loop d env s snap t res cs b
      | Some (k, p, attr) \<Rightarrow>
          (case apply_policies env s c (policy_target d t res k p attr c) (cf_policies (dm_cfg d)) b of
             Inl e \<Rightarrow> Inl e
           | Inr b' \<Rightarrow> policies_loop d env s snap t res cs b'))"

definition evaluate_policies ::
  "daemon \<Rightarrow> scan_env \<Rightarrow> store \<Rightarrow> snapshot \<Rightarrow> tree \<Rightarrow> result \<Rightarrow> class_batch \<Rightarrow> detail + policy_batch" where
  "evaluate_policies d env s snap t res classes =
     (if \<not> cb_due classes \<or> (\<not> is_zero_time (dm_last_policy d) \<and>
           time_sub (sn_taken snap) (dm_last_policy d) < sa_policy_evaluation (cf_sampling (dm_cfg d)))
      then Inr no_policies
      else
        (let latest = fold (\<lambda>c m. if m < time_unix (cx_ts c) then time_unix (cx_ts c) else m)
               (cb_current classes) (sn_taken snap);
             b = no_policies\<lparr>pb_due := True, pb_at := latest, pb_cadence_at := sn_taken snap\<rparr> in
         if cf_global_mode (dm_cfg d) \<noteq> ModeAudit \<and> cf_global_mode (dm_cfg d) \<noteq> ModeRecommend \<and>
            cf_global_mode (dm_cfg d) \<noteq> ModeEnforce
         then Inr b
         else policies_loop d env s snap t res (cb_current classes) b))"

section \<open>Persisting a scan\<close>

definition scan_row :: "scan_env \<Rightarrow> snapshot \<Rightarrow> result \<Rightarrow> scan_record" where
  "scan_row env snap res = \<lparr>sc_started = unix_nano (sv_start env), sc_duration_us = sv_duration_us env,
     sc_visible = sn_total snap, sc_inspected = int (length (sn_procs snap)),
     sc_attributed = int (rs_attributed res), sc_sessions = int (length (rs_sessions res)), sc_error = Text []\<rparr>"

text \<open>The statements of the transaction: what was observed, what policies concluded, what ended.\<close>

definition persist_observed ::
  "scan_env \<Rightarrow> snapshot \<Rightarrow> result \<Rightarrow> activity_batch \<Rightarrow> class_batch \<Rightarrow> store \<Rightarrow> store" where
  "persist_observed env snap res act classes s =
     (let s1 = snd (insert_scan (scan_row env snap res) s);
          s2 = fold upsert_session (rs_sessions res) s1;
          s3 = fold upsert_process (rs_processes res) s2;
          s4 = fold upsert_ownership (rs_ownership res) s3;
          s5 = fold upsert_relationship (rs_relationships res) s4;
          s6 = fold (insert_observation (fst (insert_scan (scan_row env snap res) s))) (rs_observations res) s5;
          s7 = fold insert_activity (ab_records act) s6 in
      fold insert_classification (cb_records classes) s7)"

definition persist_policies :: "policy_batch \<Rightarrow> store \<Rightarrow> store" where
  "persist_policies pol s =
     (let (evaluation, s1) = (if pb_due pol then insert_policy_evaluation (unix_nano (pb_at pol)) s else (0, s));
          s2 = fold (\<lambda>dec. insert_policy_decision (dec\<lparr>pd_evaluation := evaluation\<rparr>)) (pb_records pol) s1 in
      fold append_action_audit (pb_audit pol) s2)"

definition persist_endings :: "snapshot \<Rightarrow> result \<Rightarrow> store \<Rightarrow> store" where
  "persist_endings snap res s =
     (let now_ns = unix_nano (sn_taken snap);
          s1 = mark_exited_before now_ns now_ns s;
          s2 = fold (\<lambda>e. end_session (es_session_id e) (es_from e) (es_state e) (es_ended_ns e)) (rs_ended res) s1;
          s3 = fold append_audit (rs_audit res) s2 in
      set_meta ''last_scan_ns'' (show_int now_ns) s3)"

definition persist_rows ::
  "scan_env \<Rightarrow> snapshot \<Rightarrow> result \<Rightarrow> activity_batch \<Rightarrow> class_batch \<Rightarrow> policy_batch \<Rightarrow> store \<Rightarrow> store" where
  "persist_rows env snap res act classes pol s =
     persist_endings snap res (persist_policies pol (persist_observed env snap res act classes s))"

section \<open>The cycle\<close>

definition record_scan_failure :: "scan_env \<Rightarrow> detail \<Rightarrow> world \<Rightarrow> world" where
  "record_scan_failure env cause w =
     (let d = wo_daemon w;
          row = \<lparr>sc_started = unix_nano (sv_start env), sc_duration_us = sv_duration_us env, sc_visible = 0,
            sc_inspected = 0, sc_attributed = 0, sc_sessions = 0, sc_error = cause\<rparr>;
          entry = \<lparr>aq_ts = unix_nano (sv_now env), aq_kind = ''scan.failed'', aq_subject = ''daemon'',
            aq_summary = detail_prefix ''observation cycle failed and was skipped; no conclusion was drawn: '' cause,
            aq_evidence = []\<rparr> in
      w\<lparr>wo_daemon := d\<lparr>dm_previous := [], dm_last_policy := 0, dm_degraded := [cause]\<rparr>,
        wo_store := snd (with_tx (sv_failure_tx env)
          (\<lambda>s. Inr (snd (insert_policy_evaluation (unix_nano (sv_start env))
             (append_action_audit entry (snd (insert_scan row s)))))) (wo_store w))\<rparr>)"

definition commit_scan ::
  "snapshot \<Rightarrow> result \<Rightarrow> activity_batch \<Rightarrow> class_batch \<Rightarrow> policy_batch \<Rightarrow> daemon \<Rightarrow> daemon" where
  "commit_scan snap res act classes pol d =
     d\<lparr>dm_recon := commit res (dm_recon d),
       dm_baseline := (if ab_due act then ab_baselines act else dm_baseline d),
       dm_last_activity := (if ab_due act then ab_at act else dm_last_activity d),
       dm_previous := (if cb_due classes then cb_previous classes else dm_previous d),
       dm_last_classification := (if cb_due classes \<and> cb_emit classes then cb_at classes else dm_last_classification d),
       dm_last_policy := (if pb_due pol then pb_cadence_at pol else dm_last_policy d),
       dm_snapshot := Some snap, dm_degraded := []\<rparr>"

text \<open>
  How a cycle ends before the automatic lane: a cancelled context leaves no trace, a failure
  is recorded, and otherwise the transaction has landed and memory follows.
\<close>

datatype scan_outcome = ScanAborted | ScanFailed detail | ScanStored world bool

definition session_error_text :: "session_error \<Rightarrow> detail" where
  "session_error_text e = (case e of DetectionFailed agent msg \<Rightarrow>
     Fmt ''sessions: adapter %s detection: %s'' [AStr agent, AStr msg])"

definition scan_outcome_of :: "'u url_ops \<Rightarrow> scan_env \<Rightarrow> world \<Rightarrow> scan_outcome" where
  "scan_outcome_of urls env w =
     (let d = wo_daemon w in
      case sv_snapshot env of
        Inl e \<Rightarrow> if sv_cancelled env then ScanAborted else ScanFailed (Text (''snapshot: '' @ e))
      | Inr snap \<Rightarrow>
          (let t = build_tree snap in
           case reconcile urls (dm_recon d) snap t (pv_store_command_lines (cf_privacy (dm_cfg d))) of
             Inl e \<Rightarrow> if sv_cancelled env then ScanAborted
                      else ScanFailed (detail_prefix ''reconcile: '' (session_error_text e))
           | Inr res0 \<Rightarrow>
               (case collect_activity d env snap res0 of (act, res) \<Rightarrow>
                (case classify_activity d env (wo_store w) snap res act of
                   Inl e \<Rightarrow> ScanFailed (detail_prefix ''classify: '' e)
                 | Inr classes \<Rightarrow>
                     (case evaluate_policies d env (wo_store w) snap t res classes of
                        Inl e \<Rightarrow> ScanFailed (detail_prefix ''policy: '' e)
                      | Inr pol \<Rightarrow>
                          (case with_tx (sv_persist_tx env)
                                  (\<lambda>s. Inr (persist_rows env snap res act classes pol s)) (wo_store w) of
                             (Some e, _) \<Rightarrow> if sv_cancelled env then ScanAborted
                               else ScanFailed (detail_prefix ''persist: '' (store_error_text e))
                           | (None, s) \<Rightarrow> ScanStored
                               (w\<lparr>wo_daemon := commit_scan snap res act classes pol d, wo_store := s\<rparr>) (pb_due pol)))))))"

definition run_scan :: "crypto_ops \<Rightarrow> 'u url_ops \<Rightarrow> scan_env \<Rightarrow> world \<Rightarrow> world" where
  "run_scan cy urls env w =
     (case scan_outcome_of urls env w of
        ScanAborted \<Rightarrow> w
      | ScanFailed cause \<Rightarrow> record_scan_failure env cause w
      | ScanStored w' due \<Rightarrow> run_automatic_cleanup cy urls (sv_auto env) due w')"

section \<open>Starting again\<close>

text \<open>\<open>seed\<close>: a new daemon restores the sessions and the ownership of live processes.\<close>

definition list_sessions :: "store \<Rightarrow> session_record list" where
  "list_sessions s = rev (sort_key sr_last_seen_ns (rev (List.map snd (sto_sessions s))))"

definition seed_daemon :: "store \<Rightarrow> daemon \<Rightarrow> daemon" where
  "seed_daemon s d = d\<lparr>dm_recon := seed (list_sessions s) (live_ownership s) (dm_recon d)\<rparr>"

end
