(* ===== verification/Retention.thy ===== *)
theory Retention
  imports Scan
begin

text \<open>
  Retention (\<open>internal/storage/retention.go\<close>, \<open>internal/daemon/retention.go\<close>): the deletions of
  one compaction pass over the tables of the process lane, the second pass with halved windows
  when the database is over its budget, and the daemon's bookkeeping. The size of the database
  file is a function of the store; reclaiming space (\<open>VACUUM\<close>, the checkpoint) changes no row.
\<close>

record retention_policy =
  rn_raw :: duration
  rn_scans :: duration
  rn_audit :: duration
  rn_decisions :: duration
  rn_actions :: duration
  rn_exited :: duration
  rn_ended :: duration
  rn_max_bytes :: int

definition cutoff :: "gotime \<Rightarrow> duration \<Rightarrow> int" where
  "cutoff now d = unix_nano (now - (if d \<le> 0 then hour else d))"

section \<open>One pass\<close>

text \<open>
  The statements in the order of the code. A comparison with the maximum of an empty table
  is never true in SQL, so nothing is deleted then.
\<close>

definition delete_decisions :: "int \<Rightarrow> int \<Rightarrow> store \<Rightarrow> store" where
  "delete_decisions before now_ns s =
     s\<lparr>sto_decisions := filter (\<lambda>d. \<not> (pd_ts d < before \<and>
         (case max_evaluation s of None \<Rightarrow> False | Some m \<Rightarrow> pd_evaluation d \<noteq> m) \<and>
         (pd_result d \<noteq> ResultCandidate \<or> pd_cooldown d \<le> now_ns))) (sto_decisions s)\<rparr>"

definition delete_evaluations :: "int \<Rightarrow> store \<Rightarrow> store" where
  "delete_evaluations before s =
     s\<lparr>sto_evaluations := filter (\<lambda>(i, ts). \<not> (ts < before \<and>
         (case max_evaluation s of None \<Rightarrow> False | Some m \<Rightarrow> i \<noteq> m) \<and>
         i \<notin> pd_evaluation ` set (sto_decisions s))) (sto_evaluations s)\<rparr>"

definition delete_series :: "int \<Rightarrow> store \<Rightarrow> store" where
  "delete_series before s =
     s\<lparr>sto_observations := filter (\<lambda>(_, r). \<not> ob_ts r < before) (sto_observations s),
       sto_activity := filter (\<lambda>r. \<not> ay_ts r < before) (sto_activity s),
       sto_classifications := filter (\<lambda>r. \<not> cx_ts r < before) (sto_classifications s)\<rparr>"

definition delete_journal :: "int \<Rightarrow> int \<Rightarrow> int \<Rightarrow> store \<Rightarrow> store" where
  "delete_journal actions_before scans_before audit_before s =
     s\<lparr>sto_actions := filter (\<lambda>a. \<not> ac_requested a < actions_before) (sto_actions s),
       sto_scans := filter (\<lambda>(_, r). \<not> sc_started r < scans_before) (sto_scans s),
       sto_action_audit := filter (\<lambda>r. \<not> aq_ts r < audit_before) (sto_action_audit s),
       sto_audit := filter (\<lambda>r. \<not> au_ts r < audit_before) (sto_audit s)\<rparr>"

definition exited_before :: "int \<Rightarrow> int option \<Rightarrow> bool" where
  "exited_before before ex \<longleftrightarrow> (case ex of None \<Rightarrow> False | Some t \<Rightarrow> t < before)"

definition delete_exited :: "int \<Rightarrow> store \<Rightarrow> store" where
  "delete_exited before s =
     (let gone = List.map fst (filter (\<lambda>(_, _, ex). exited_before before ex) (sto_processes s)) in
      s\<lparr>sto_ownership := filter (\<lambda>(_, r). ow_uid r \<notin> set gone) (sto_ownership s),
        sto_processes := filter (\<lambda>(_, _, ex). \<not> exited_before before ex) (sto_processes s)\<rparr>)"

definition delete_sessions :: "int \<Rightarrow> store \<Rightarrow> store" where
  "delete_sessions before s =
     s\<lparr>sto_sessions := filter (\<lambda>(_, r). \<not> exited_before before (sr_ended_ns r)) (sto_sessions s)\<rparr>"

definition delete_unreachable :: "store \<Rightarrow> store" where
  "delete_unreachable s =
     (let uids = fst ` set (sto_processes s); ids = fst ` set (sto_sessions s) in
      s\<lparr>sto_observations := filter (\<lambda>(_, r). ob_uid r \<in> uids) (sto_observations s),
        sto_activity := filter (\<lambda>r. ay_uid r \<in> uids) (sto_activity s),
        sto_classifications := filter (\<lambda>r. cx_uid r \<in> uids) (sto_classifications s),
        sto_relationships := filter (\<lambda>((sid, _), _). sid \<in> ids) (sto_relationships s)\<rparr>)"

definition compact_once :: "retention_policy \<Rightarrow> gotime \<Rightarrow> store \<Rightarrow> store" where
  "compact_once p now s =
     delete_unreachable (delete_sessions (cutoff now (rn_ended p)) (delete_exited (cutoff now (rn_exited p))
       (delete_journal (cutoff now (rn_actions p)) (cutoff now (rn_scans p)) (cutoff now (rn_audit p))
         (delete_evaluations (cutoff now (rn_decisions p))
           (delete_decisions (cutoff now (rn_decisions p)) (unix_nano now)
             (delete_series (cutoff now (rn_raw p)) s))))))"

section \<open>Compaction\<close>

text \<open>Halving a window, with Go's division.\<close>

definition halve :: "duration \<Rightarrow> duration" where
  "halve d = (if 0 \<le> d then d div 2 else - ((- d) div 2))"

definition tighter :: "retention_policy \<Rightarrow> retention_policy" where
  "tighter p = p\<lparr>rn_raw := halve (rn_raw p), rn_scans := halve (rn_scans p), rn_audit := halve (rn_audit p),
     rn_decisions := halve (rn_decisions p), rn_actions := halve (rn_actions p),
     rn_exited := halve (rn_exited p), rn_ended := halve (rn_ended p)\<rparr>"

definition over_budget :: "(store \<Rightarrow> int) \<Rightarrow> retention_policy \<Rightarrow> store \<Rightarrow> bool" where
  "over_budget bytes p s \<longleftrightarrow> 0 < rn_max_bytes p \<and> rn_max_bytes p < bytes s"

text \<open>The failures of the two transactions; an error ends the compaction.\<close>

definition compact_store ::
  "(store \<Rightarrow> int) \<Rightarrow> string option \<Rightarrow> string option \<Rightarrow> retention_policy \<Rightarrow> gotime \<Rightarrow> store
     \<Rightarrow> store_error option \<times> store" where
  "compact_store bytes tx1 tx2 p now s =
     (case with_tx tx1 (\<lambda>s. Inr (compact_once p now s)) s of
        (Some e, s1) \<Rightarrow> (Some e, s1)
      | (None, s1) \<Rightarrow>
          if over_budget bytes p s then with_tx tx2 (\<lambda>s. Inr (compact_once (tighter p) now s)) s1
          else (None, s1))"

definition row_count :: "store \<Rightarrow> nat" where
  "row_count s = length (sto_observations s) + length (sto_activity s) + length (sto_classifications s) +
     length (sto_decisions s) + length (sto_evaluations s) + length (sto_actions s) + length (sto_scans s) +
     length (sto_action_audit s) + length (sto_audit s) + length (sto_processes s) + length (sto_ownership s) +
     length (sto_sessions s) + length (sto_relationships s)"

definition retention_of :: "config \<Rightarrow> retention_policy" where
  "retention_of cfg = (let r = cf_retention cfg in
     \<lparr>rn_raw = rt_raw r, rn_scans = rt_raw r, rn_audit = rt_actions r, rn_decisions = rt_actions r,
      rn_actions = rt_actions r, rn_exited = rt_aggregated r, rn_ended = rt_aggregated r,
      rn_max_bytes = rt_max_bytes r\<rparr>)"

definition run_retention ::
  "(store \<Rightarrow> int) \<Rightarrow> string option \<Rightarrow> string option \<Rightarrow> string option \<Rightarrow> gotime \<Rightarrow> world \<Rightarrow> world" where
  "run_retention bytes tx1 tx2 audit_tx now w =
     (let p = retention_of (dm_cfg (wo_daemon w)); s = wo_store w in
      case compact_store bytes tx1 tx2 p now s of
        (Some e, s') \<Rightarrow> w\<lparr>wo_store := s'\<rparr>
      | (None, s') \<Rightarrow>
          if row_count s' < row_count s \<or> over_budget bytes p s
          then w\<lparr>wo_store := snd (with_tx audit_tx (\<lambda>t. Inr (append_action_audit
            \<lparr>aq_ts = unix_nano now, aq_kind = ''retention.compacted'', aq_subject = ''daemon'',
             aq_summary = Fmt ''retention removed %d rows; database went from %d to %d bytes%s''
               [AInt (int (row_count s) - int (row_count s')), AInt (bytes s), AInt (bytes s'),
                AStr (if over_budget bytes p s then '' (aggressive pass: the size budget was exceeded)'' else [])],
             aq_evidence = []\<rparr> t)) s')\<rparr>
          else w\<lparr>wo_store := s'\<rparr>)"

end
