(* ===== verification/Session_Laws.thy ===== *)
theory Session_Laws
  imports Sessions Protection
begin

text \<open>
  What session reconciliation guarantees: how contested roots are settled, that a session
  has one root, the earliest claimant, that ownership survives the loss of the live link,
  when a session ends, and which moves a session's state can make.
\<close>

named_theorems frame_simps \<open>which fields of a result an operation leaves alone\<close>

lemma map_of_alist_update [simp]:
  "map_of (AList.update k v m) j = (if j = k then Some v else map_of m j)"
  by (simp add: update_conv')

section \<open>Contested roots\<close>

lemma claim_roots_append: "claim_roots (xs @ ys) m = claim_roots ys (claim_roots xs m)"
  by (induction xs arbitrary: m) auto

lemma detect_all_claims:
  "detect_all as g = Inr g' \<Longrightarrow> \<exists>claims. g' = g\<lparr>gr_roots := claim_roots claims (gr_roots g)\<rparr>"
proof (induction as g rule: detect_all.induct)
  case (1 g)
  then show ?case by (intro exI [of _ "[]"]) simp
next
  case (2 a as g)
  then obtain roots where roots: "ag_detect_roots a g = Inr roots"
    and rest: "detect_all as (g\<lparr>gr_roots := claim_roots roots (gr_roots g)\<rparr>) = Inr g'"
    by (auto split: sum.splits)
  from "2.IH" [OF roots rest] obtain claims
    where "g' = g\<lparr>gr_roots := claim_roots claims (claim_roots roots (gr_roots g))\<rparr>" by auto
  then show ?case by (intro exI [of _ "roots @ claims"]) (simp add: claim_roots_append)
qed

definition claims_on :: "int \<Rightarrow> agent_root list \<Rightarrow> agent_root list" where
  "claims_on pid cs = filter (\<lambda>c. pr_pid (ar_process c) = pid) cs"

lemma claim_root_same:
  "\<exists>e'. map_of (claim_root r m) (pr_pid (ar_process r)) = Some e' \<and> ar_confidence r \<le> ar_confidence e' \<and>
     (map_of m (pr_pid (ar_process r)) \<noteq> None \<longrightarrow> ar_conflicts e' \<noteq> [])"
  by (auto simp: claim_root_def Let_def split: option.splits)

lemma claim_root_keeps:
  "map_of m pid = Some e \<Longrightarrow> \<exists>e'. map_of (claim_root r m) pid = Some e' \<and>
     ar_confidence e \<le> ar_confidence e' \<and> (ar_conflicts e \<noteq> [] \<longrightarrow> ar_conflicts e' \<noteq> [])"
  by (auto simp: claim_root_def Let_def split: option.splits)

lemma claim_roots_keeps:
  "map_of m pid = Some e \<Longrightarrow> \<exists>e'. map_of (claim_roots cs m) pid = Some e' \<and>
     ar_confidence e \<le> ar_confidence e' \<and> (ar_conflicts e \<noteq> [] \<longrightarrow> ar_conflicts e' \<noteq> []) \<and>
     (claims_on pid cs \<noteq> [] \<longrightarrow> ar_conflicts e' \<noteq> [])"
proof (induction cs arbitrary: m e)
  case (Cons r rs)
  from claim_root_keeps [OF Cons.prems, of r] obtain e1 where e1: "map_of (claim_root r m) pid = Some e1"
    "ar_confidence e \<le> ar_confidence e1" "ar_conflicts e \<noteq> [] \<longrightarrow> ar_conflicts e1 \<noteq> []" by blast
  have "ar_conflicts e1 \<noteq> []" if "pr_pid (ar_process r) = pid"
    using claim_root_same [of r m] Cons.prems e1(1) that by auto
  with e1 Cons.IH [OF e1(1)] show ?case
    by (cases "pr_pid (ar_process r) = pid") (force simp: claims_on_def)+
qed (simp add: claims_on_def)

lemma claim_roots_max:
  "c \<in> set (claims_on pid cs) \<Longrightarrow>
     \<exists>w. map_of (claim_roots cs m) pid = Some w \<and> ar_confidence c \<le> ar_confidence w"
proof (induction cs arbitrary: m)
  case (Cons r rs)
  show ?case
  proof (cases "c \<in> set (claims_on pid rs)")
    case True
    with Cons.IH show ?thesis by simp
  next
    case False
    with Cons.prems have "c = r" "pr_pid (ar_process r) = pid"
      by (auto simp: claims_on_def split: if_splits)
    then obtain e where "map_of (claim_root r m) pid = Some e" "ar_confidence c \<le> ar_confidence e"
      using claim_root_same [of r m] by auto
    with claim_roots_keeps [of "claim_root r m" pid e rs] show ?thesis by (auto intro: order_trans)
  qed
qed (simp add: claims_on_def)

lemma claim_roots_conflict:
  "2 \<le> length (claims_on pid cs) \<Longrightarrow> map_of (claim_roots cs m) pid = Some w \<Longrightarrow> ar_conflicts w \<noteq> []"
proof (induction cs arbitrary: m)
  case (Cons r rs)
  show ?case
  proof (cases "pr_pid (ar_process r) = pid")
    case True
    with Cons.prems(1) have "claims_on pid rs \<noteq> []" by (auto simp: claims_on_def)
    moreover from True obtain e where "map_of (claim_root r m) pid = Some e"
      using claim_root_same [of r m] by auto
    ultimately show ?thesis using claim_roots_keeps [of "claim_root r m" pid e rs] Cons.prems(2) by auto
  next
    case False
    with Cons show ?thesis by (simp add: claims_on_def)
  qed
qed (simp add: claims_on_def)

text \<open>A contested root is never settled silently: whatever claims the adapters make, a
  claimed process has a root, its confidence is the highest of the claims on that process,
  and if there was more than one claim the winner carries a recorded conflict.\<close>

theorem contested_root_recorded:
  assumes "filter (\<lambda>c. pr_pid (ar_process c) = pid) claims = cs" and "cs \<noteq> []"
  shows "\<exists>w. map_of (claim_roots claims []) pid = Some w \<and>
    list_all (\<lambda>c. ar_confidence c \<le> ar_confidence w) cs \<and> (2 \<le> length cs \<longrightarrow> ar_conflicts w \<noteq> [])"
proof -
  have cs: "cs = claims_on pid claims" using assms(1) by (simp add: claims_on_def)
  obtain w where w: "map_of (claim_roots claims []) pid = Some w"
    using claim_roots_max [of "hd cs" pid claims "[]"] assms(2) cs by (auto simp: hd_in_set)
  have "list_all (\<lambda>c. ar_confidence c \<le> ar_confidence w) cs"
    using claim_roots_max [of _ pid claims "[]"] w by (fastforce simp: cs list_all_iff)
  with w claim_roots_conflict [of pid claims "[]" w] cs show ?thesis by blast
qed

text \<open>A detected root for concrete inputs.\<close>

definition sample_root :: "string \<Rightarrow> int \<Rightarrow> gotime \<Rightarrow> rat \<Rightarrow> agent_root" where
  "sample_root agent pid start conf =
     \<lparr>ar_agent_id = agent, ar_process = sample_process pid 1 start, ar_key = new_key pid start,
      ar_metadata = empty_metadata, ar_confidence = conf, ar_evidence = [], ar_conflicts = []\<rparr>"

theorem contested_root_recorded_witness:
  "\<exists>w. map_of (claim_roots [sample_root ''a'' 7 50 (6 / 10), sample_root ''b'' 7 50 (9 / 10)] []) 7 = Some w \<and>
     9 / 10 \<le> ar_confidence w \<and> ar_conflicts w \<noteq> []"
  using contested_root_recorded [of 7 "[sample_root ''a'' 7 50 (6 / 10), sample_root ''b'' 7 50 (9 / 10)]"]
  by (auto simp: sample_root_def)

section \<open>One root per session\<close>

text \<open>
  The claimants of a session are the detected roots that name it. After a prefix \<open>xs\<close> of
  the PIDs has been visited, the choice made so far is described by \<open>choice_ok\<close>.
\<close>

definition earlier :: "graph \<Rightarrow> int \<Rightarrow> int \<Rightarrow> bool" where
  "earlier g p q \<longleftrightarrow> start_at g p < start_at g q \<or> (start_at g p = start_at g q \<and> p \<le> q)"

definition choice_ok :: "reconciler \<Rightarrow> graph \<Rightarrow> int set \<Rightarrow> root_choice \<Rightarrow> bool" where
  "choice_ok r g xs c \<longleftrightarrow>
     (\<forall>pid. map_of (ch_session_of c) pid = (if pid \<in> xs then claimed_session r g pid else None)) \<and>
     (\<forall>sid w. map_of (ch_chosen c) sid = Some w \<longrightarrow> w \<in> xs \<and> claimed_session r g w = Some sid \<and>
        (\<forall>q \<in> xs. claimed_session r g q = Some sid \<longrightarrow> earlier g w q)) \<and>
     (\<forall>q \<in> xs. \<forall>sid. claimed_session r g q = Some sid \<longrightarrow> map_of (ch_chosen c) sid \<noteq> None) \<and>
     (\<forall>q sid. map_of (ch_secondary c) q = Some sid \<longleftrightarrow>
        q \<in> xs \<and> claimed_session r g q = Some sid \<and> map_of (ch_chosen c) sid \<noteq> Some q)"

lemma choice_okD:
  assumes "choice_ok r g xs c"
  shows "map_of (ch_session_of c) pid = (if pid \<in> xs then claimed_session r g pid else None)"
    and "map_of (ch_chosen c) sid = Some w \<Longrightarrow> w \<in> xs"
    and "map_of (ch_chosen c) sid = Some w \<Longrightarrow> claimed_session r g w = Some sid"
    and "map_of (ch_chosen c) sid = Some w \<Longrightarrow> q \<in> xs \<Longrightarrow> claimed_session r g q = Some sid \<Longrightarrow> earlier g w q"
    and "q \<in> xs \<Longrightarrow> claimed_session r g q = Some sid \<Longrightarrow> \<exists>w. map_of (ch_chosen c) sid = Some w"
    and "map_of (ch_secondary c) q = Some sid \<longleftrightarrow>
        q \<in> xs \<and> claimed_session r g q = Some sid \<and> map_of (ch_chosen c) sid \<noteq> Some q"
  using assms unfolding choice_ok_def by blast+

lemma earlier_trans: "earlier g p q \<Longrightarrow> earlier g q s \<Longrightarrow> earlier g p s"
  unfolding earlier_def by linarith

lemma choose_root_ok:
  assumes ok: "choice_ok r g xs c" and new: "\<And>x. x \<in> xs \<Longrightarrow> x < pid"
  shows "choice_ok r g (insert pid xs) (choose_root r g pid c)"
proof (cases "claimed_session r g pid")
  case None
  have "pid \<notin> xs" using new by blast
  with None ok show ?thesis unfolding choose_root_def choice_ok_def by auto
next
  case (Some sid)
  have fresh: "pid \<notin> xs" using new by blast
  note d = choice_okD [OF ok]
  show ?thesis
  proof (cases "map_of (ch_chosen c) sid")
    case None
    then have "\<And>q. q \<in> xs \<Longrightarrow> claimed_session r g q \<noteq> Some sid" using d(5) by fastforce
    with None Some fresh d show ?thesis
      unfolding choose_root_def choice_ok_def
      by (auto simp: earlier_def split: if_splits)
  next
    case inc: (Some w)
    have w: "w \<in> xs" "claimed_session r g w = Some sid" "w < pid" using d(2,3) [OF inc] new by auto
    show ?thesis
    proof (cases "start_at g pid < start_at g w")
      case True
      have first: "earlier g pid q" if "q \<in> xs" "claimed_session r g q = Some sid" for q
        using d(4) [OF inc that] True by (auto simp: earlier_def)
      show ?thesis using Some inc True w fresh d first
        unfolding choose_root_def choice_ok_def by (auto simp: earlier_def split: if_splits)
    next
      case False
      then have "earlier g w pid" using w by (auto simp: earlier_def)
      with Some inc False w fresh d show ?thesis
        unfolding choose_root_def choice_ok_def by (auto split: if_splits)
    qed
  qed
qed

lemma choose_roots_ok:
  "choice_ok r g xs c \<Longrightarrow> sorted ps \<Longrightarrow> distinct ps \<Longrightarrow> (\<And>x p. x \<in> xs \<Longrightarrow> p \<in> set ps \<Longrightarrow> x < p) \<Longrightarrow>
     choice_ok r g (xs \<union> set ps) (choose_roots r g ps c)"
proof (induction ps arbitrary: xs c)
  case (Cons p ps)
  have "choice_ok r g (insert p xs \<union> set ps) (choose_roots r g ps (choose_root r g p c))"
  proof (rule Cons.IH)
    show "choice_ok r g (insert p xs) (choose_root r g p c)"
      using Cons.prems by (intro choose_root_ok) auto
    show "x < q" if "x \<in> insert p xs" "q \<in> set ps" for x q
      using that Cons.prems by (metis insertE list.set_intros distinct.simps(2) sorted_simps(2) order_le_less)
  qed (use Cons.prems in auto)
  then show ?case by simp
qed simp

lemma distinct_claim_roots: "distinct (List.map fst m) \<Longrightarrow> distinct (List.map fst (claim_roots cs m))"
proof (induction cs arbitrary: m)
  case (Cons r rs)
  have "distinct (List.map fst (claim_root r m))"
    using Cons.prems by (auto simp: claim_root_def Let_def distinct_update split: option.splits)
  with Cons.IH show ?case by simp
qed simp

lemma choose_all_ok:
  assumes "distinct (List.map fst (gr_roots g))"
  shows "choice_ok r g (set (root_pids g)) (choose_all r g)"
proof -
  have "choice_ok r g ({} \<union> set (root_pids g)) (choose_all r g)"
    unfolding choose_all_def
  proof (rule choose_roots_ok)
    show "choice_ok r g {} \<lparr>ch_chosen = [], ch_session_of = [], ch_secondary = []\<rparr>"
      by (simp add: choice_ok_def)
  qed (use assms in \<open>simp_all add: root_pids_def\<close>)
  then show ?thesis by simp
qed

lemma claimed_session_root:
  "claimed_session r g pid = Some sid \<Longrightarrow>
     \<exists>rt a. map_of (gr_roots g) pid = Some rt \<and> adapter_for r (ar_agent_id rt) = Some a"
  by (auto simp: claimed_session_def Let_def split: option.splits if_splits)

lemma chosen_root_iff:
  assumes "choice_ok r g (set (root_pids g)) c" "pid \<in> set (root_pids g)"
  shows "(\<exists>rt a. chosen_root r g c pid = Some (sid, rt, a)) \<longleftrightarrow>
     claimed_session r g pid = Some sid \<and> map_of (ch_chosen c) sid = Some pid"
  using assms claimed_session_root [of r g pid sid]
  by (auto simp: chosen_root_def choice_okD(1) [OF assms(1)] split: option.splits if_splits)

lemma chosen_root_root: "chosen_root r g c pid = Some (sid, rt, a) \<Longrightarrow> map_of (gr_roots g) pid = Some rt"
  by (auto simp: chosen_root_def split: option.splits if_splits)

definition native_of :: "adapter \<Rightarrow> agent_root \<Rightarrow> string" where
  "native_of a rt = (case ag_native_session_id a (ar_process rt) of Some n \<Rightarrow> n | None \<Rightarrow> [])"

lemma add_session_sessions [frame_simps]:
  "rs_sessions (fst (add_session r g now sid rt a st)) =
     rs_sessions (fst st) @ [session_row r g sid rt (native_of a rt) now]"
  by (cases st) (simp add: add_session_def native_of_def Let_def)

text \<open>The rows of the second loop, in order.\<close>

definition built_row :: "reconciler \<Rightarrow> graph \<Rightarrow> root_choice \<Rightarrow> int \<Rightarrow> int \<Rightarrow> session_record option" where
  "built_row r g c now pid = map_option (\<lambda>(sid, rt, a). session_row r g sid rt (native_of a rt) now)
     (chosen_root r g c pid)"

lemma build_roots_sessions [frame_simps]:
  "rs_sessions (fst (build_roots r g c now pids st)) =
     rs_sessions (fst st) @ List.map_filter (built_row r g c now) pids"
proof (induction r g c now pids st rule: build_roots.induct)
  case (2 r g c now pid pids st)
  then show ?case
    by (auto simp: built_row_def map_filter_simps frame_simps split: option.splits prod.splits)
qed (simp add: map_filter_simps)

lemma session_row_ids [simp]:
  "sr_session_id (session_row r g sid rt n now) = sid"
  "sr_root_pid (session_row r g sid rt n now) = pr_pid (ar_process rt)"
  by (simp_all add: session_row_def Let_def split: prod.splits)

lemma built_row_Some:
  assumes "choice_ok r g (set (root_pids g)) c" "pid \<in> set (root_pids g)" "built_row r g c now pid = Some row"
  shows "claimed_session r g pid = Some (sr_session_id row)"
    and "map_of (ch_chosen c) (sr_session_id row) = Some pid"
    and "\<exists>rt. map_of (gr_roots g) pid = Some rt \<and> sr_root_pid row = pr_pid (ar_process rt)"
proof -
  from assms(3) obtain sid rt a where c: "chosen_root r g c pid = Some (sid, rt, a)"
    and row: "row = session_row r g sid rt (native_of a rt) now"
    by (auto simp: built_row_def)
  from c have "claimed_session r g pid = Some sid \<and> map_of (ch_chosen c) sid = Some pid"
    using chosen_root_iff [OF assms(1,2), of sid] by blast
  with row chosen_root_root [OF c] show "claimed_session r g pid = Some (sr_session_id row)"
    "map_of (ch_chosen c) (sr_session_id row) = Some pid"
    "\<exists>rt. map_of (gr_roots g) pid = Some rt \<and> sr_root_pid row = pr_pid (ar_process rt)"
    by simp_all
qed

lemma distinct_map_filter:
  assumes "distinct xs" "\<And>x y u v. x \<in> set xs \<Longrightarrow> y \<in> set xs \<Longrightarrow> f x = Some u \<Longrightarrow> f y = Some v \<Longrightarrow> h u = h v \<Longrightarrow> x = y"
  shows "distinct (List.map h (List.map_filter f xs))"
  using assms
proof (induction xs)
  case (Cons x xs)
  have ih: "distinct (List.map h (List.map_filter f xs))"
    using Cons.prems by (intro Cons.IH) auto
  show ?case
  proof (cases "f x")
    case None
    with ih show ?thesis by (simp add: map_filter_simps)
  next
    case (Some u)
    have "h u \<noteq> h v" if "y \<in> set xs" "f y = Some v" for y v
      using Cons.prems(1) Cons.prems(2) [of x y u v] that Some by auto
    then have "h u \<notin> h ` set (List.map_filter f xs)" by (auto simp: set_map_filter)
    with ih Some show ?thesis by (simp add: map_filter_simps)
  qed
qed (simp add: map_filter_simps)

text \<open>In the table of claims every root is stored under its own PID.\<close>

lemma claim_roots_pid:
  "(\<forall>p rt. map_of m p = Some rt \<longrightarrow> pr_pid (ar_process rt) = p) \<Longrightarrow>
     map_of (claim_roots cs m) pid = Some w \<Longrightarrow> pr_pid (ar_process w) = pid"
proof (induction cs arbitrary: m)
  case (Cons r rs)
  have "\<forall>p rt. map_of (claim_root r m) p = Some rt \<longrightarrow> pr_pid (ar_process rt) = p"
    using Cons.prems(1) by (auto simp: claim_root_def Let_def split: option.splits if_splits)
  with Cons show ?case by simp
qed simp

text \<open>A session has exactly one root. From the roots the adapters claimed, a session row is
  built for every session some root names, no session twice; its root is the claimant that
  started first (the smaller PID on a tie), and every other claimant is recorded as a member.\<close>

theorem one_root_per_session:
  assumes "gr_roots g = claim_roots claims []"
    and "build_sessions r g now_ns (empty_result (gr_roots g)) = ((res, lv), secondary)"
  shows "distinct (List.map sr_session_id (rs_sessions res)) \<and>
    (\<forall>sid. sid \<in> sr_session_id ` set (rs_sessions res) \<longleftrightarrow>
       (\<exists>q. q \<in> set (root_pids g) \<and> claimed_session r g q = Some sid)) \<and>
    (\<forall>row q. row \<in> set (rs_sessions res) \<longrightarrow> q \<in> set (root_pids g) \<longrightarrow>
       claimed_session r g q = Some (sr_session_id row) \<longrightarrow>
       q = sr_root_pid row \<or>
       earlier g (sr_root_pid row) q \<and> map_of secondary q = Some (sr_session_id row))"
proof (intro conjI allI impI)
  let ?c = "choose_all r g" and ?pids = "root_pids g"
  have dist: "distinct (List.map fst (gr_roots g))" using assms(1) distinct_claim_roots [of "[]"] by simp
  have ok: "choice_ok r g (set ?pids) ?c" using choose_all_ok [OF dist] .
  have pid: "map_of (gr_roots g) p = Some rt \<Longrightarrow> pr_pid (ar_process rt) = p" for p rt
    using claim_roots_pid [of "[]" claims p rt] assms(1) by simp
  have st: "build_roots r g ?c now_ns ?pids (empty_result (gr_roots g), []) = (res, lv)"
    and sec: "secondary = ch_secondary ?c"
    using assms(2) by (auto simp: build_sessions_def Let_def)
  have rows: "rs_sessions res = List.map_filter (built_row r g ?c now_ns) ?pids"
    using build_roots_sessions [of r g ?c now_ns ?pids "(empty_result (gr_roots g), [])"]
    unfolding st by (simp add: empty_result_def)
  show "distinct (List.map sr_session_id (rs_sessions res))"
    unfolding rows
  proof (rule distinct_map_filter)
    show "distinct ?pids" using dist by (simp add: root_pids_def)
  qed (use built_row_Some(2) [OF ok] in \<open>metis option.inject\<close>)
  show "sid \<in> sr_session_id ` set (rs_sessions res) \<longleftrightarrow>
      (\<exists>q. q \<in> set ?pids \<and> claimed_session r g q = Some sid)" (is "?l \<longleftrightarrow> ?r") for sid
  proof
    show ?r if ?l
      using that built_row_Some(1) [OF ok] by (auto simp: rows set_map_filter)
    show ?l if ?r
    proof -
      from that obtain w where w: "map_of (ch_chosen ?c) sid = Some w"
        using choice_okD(5) [OF ok] by blast
      note cw = choice_okD(2,3) [OF ok w]
      then obtain rt a where "chosen_root r g ?c w = Some (sid, rt, a)"
        using chosen_root_iff [OF ok, of w sid] w by blast
      then have "built_row r g ?c now_ns w = Some (session_row r g sid rt (native_of a rt) now_ns)"
        by (simp add: built_row_def)
      with cw show ?thesis unfolding rows
        by (intro image_eqI [where x = "session_row r g sid rt (native_of a rt) now_ns"])
           (auto simp: set_map_filter)
    qed
  qed
  show "q = sr_root_pid row \<or> earlier g (sr_root_pid row) q \<and> map_of secondary q = Some (sr_session_id row)"
    if "row \<in> set (rs_sessions res)" "q \<in> set ?pids" "claimed_session r g q = Some (sr_session_id row)" for row q
  proof -
    from that(1) obtain w where w: "w \<in> set ?pids" "built_row r g ?c now_ns w = Some row"
      by (auto simp: rows set_map_filter)
    note b = built_row_Some [OF ok w]
    from b(3) pid have "sr_root_pid row = w" by auto
    then show ?thesis
      using choice_okD(4) [OF ok b(2) that(2,3)] choice_okD(6) [OF ok, of q "sr_session_id row"] that b(2) sec
      by auto
  qed
qed

text \<open>An adapter that attributes every process to one session and detects nothing itself.\<close>

definition sample_adapter :: "string \<Rightarrow> string \<Rightarrow> adapter" where
  "sample_adapter agent sid =
     \<lparr>ag_id = agent, ag_env_keys = [], ag_detect_roots = (\<lambda>_. Inr []),
      ag_attribute = (\<lambda>p _. \<lparr>aa_agent_id = agent, aa_session_id = sid, aa_confidence = 97 / 100,
        aa_evidence = [], aa_conflicts = [], aa_relation = RelationRoot, aa_root_key = zero_key\<rparr>),
      ag_native_session_id = (\<lambda>_. None), ag_protected_patterns = [], ag_discover_sessions = None\<rparr>"

definition no_repos :: repo_ops where
  "no_repos = \<lparr>rp_root = (\<lambda>_. []), rp_describe = (\<lambda>_. no_repo)\<rparr>"

definition sample_graph :: "process list \<Rightarrow> agent_root list \<Rightarrow> graph" where
  "sample_graph ps claims = (let s = new_snapshot 90 ps (int (length ps)) in
     \<lparr>gr_snapshot = s, gr_tree = build_tree s, gr_roots = claim_roots claims [], gr_known = []\<rparr>)"

theorem one_root_per_session_witness:
  "let g = sample_graph [] [sample_root ''codex'' 7 50 1, sample_root ''codex'' 8 40 1];
       r = new_reconciler [sample_adapter ''codex'' ''s1''] 2 501 no_repos;
       b = build_sessions r g 90 (empty_result (gr_roots g)) in
   ''s1'' \<in> sr_session_id ` set (rs_sessions (fst (fst b))) \<and>
   distinct (List.map sr_session_id (rs_sessions (fst (fst b)))) \<and> map_of (snd b) 7 = Some ''s1''"
proof -
  define g where "g = sample_graph [] [sample_root ''codex'' 7 50 1, sample_root ''codex'' 8 40 1]"
  define r where "r = new_reconciler [sample_adapter ''codex'' ''s1''] 2 501 no_repos"
  define b where "b = build_sessions r g 90 (empty_result (gr_roots g))"
  have g: "gr_roots g = claim_roots [sample_root ''codex'' 7 50 1, sample_root ''codex'' 8 40 1] []"
    by (simp add: g_def sample_graph_def Let_def)
  have b: "build_sessions r g 90 (empty_result (gr_roots g)) = ((fst (fst b), snd (fst b)), snd b)"
    by (simp add: b_def)
  have claim: "7 \<in> set (root_pids g)" "claimed_session r g 7 = Some ''s1''"
    unfolding g_def r_def by code_simp+
  have "map_of (ch_secondary (choose_all r g)) 7 = Some ''s1''"
    unfolding g_def r_def by code_simp
  then have "map_of (snd b) 7 = Some ''s1''" by (simp add: b_def build_sessions_def Let_def)
  with one_root_per_session [OF g b] claim show ?thesis
    unfolding Let_def g_def [symmetric] r_def [symmetric] b_def [symmetric] by blast
qed

section \<open>One cycle, taken apart\<close>

lemma attribute_one_frame [frame_simps]:
  "rs_sessions (attribute_one urls cmds r g pv sec lv now p res) = rs_sessions res"
  "rs_ended (attribute_one urls cmds r g pv sec lv now p res) = rs_ended res"
  "rs_pending_state (attribute_one urls cmds r g pv sec lv now p res) = rs_pending_state res"
  "rs_pending_root (attribute_one urls cmds r g pv sec lv now p res) = rs_pending_root res"
  "rs_roots (attribute_one urls cmds r g pv sec lv now p res) = rs_roots res"
  by (cases "attribution_of r g pv sec lv p";
      simp add: attribute_one_def record_process_def record_relationships_def Let_def)+

lemma attribute_all_frame [frame_simps]:
  "rs_sessions (attribute_all urls cmds r g pv sec lv now ps res) = rs_sessions res"
  "rs_ended (attribute_all urls cmds r g pv sec lv now ps res) = rs_ended res"
  "rs_pending_state (attribute_all urls cmds r g pv sec lv now ps res) = rs_pending_state res"
  "rs_pending_root (attribute_all urls cmds r g pv sec lv now ps res) = rs_pending_root res"
  "rs_roots (attribute_all urls cmds r g pv sec lv now ps res) = rs_roots res"
  by (induction ps arbitrary: res) (simp_all add: frame_simps)

lemma end_sessions_frame [frame_simps]:
  "rs_sessions (end_sessions r s seen ids now res) = rs_sessions res"
  "rs_attributions (end_sessions r s seen ids now res) = rs_attributions res"
  "rs_pending_ownership (end_sessions r s seen ids now res) = rs_pending_ownership res"
  "rs_pending_root (end_sessions r s seen ids now res) = rs_pending_root res"
  "rs_roots (end_sessions r s seen ids now res) = rs_roots res"
  by (induction ids arbitrary: res) (simp_all add: Let_def split: option.splits)

lemma add_session_frame [frame_simps]:
  "rs_pending_ownership (fst (add_session r g now sid rt a st)) = rs_pending_ownership (fst st)"
  "rs_attributions (fst (add_session r g now sid rt a st)) = rs_attributions (fst st)"
  "rs_roots (fst (add_session r g now sid rt a st)) = rs_roots (fst st)"
  "rs_ended (fst (add_session r g now sid rt a st)) = rs_ended (fst st)"
  by (cases st; simp add: add_session_def Let_def)+

lemma build_roots_frame [frame_simps]:
  "rs_pending_ownership (fst (build_roots r g c now pids st)) = rs_pending_ownership (fst st)"
  "rs_attributions (fst (build_roots r g c now pids st)) = rs_attributions (fst st)"
  "rs_roots (fst (build_roots r g c now pids st)) = rs_roots (fst st)"
  "rs_ended (fst (build_roots r g c now pids st)) = rs_ended (fst st)"
  by (induction pids arbitrary: st) (simp_all add: frame_simps split: option.splits prod.splits)

lemma add_provider_frame [frame_simps]:
  "rs_pending_ownership (fst (add_provider r g now sid pv st)) = rs_pending_ownership (fst st)"
  "rs_attributions (fst (add_provider r g now sid pv st)) = rs_attributions (fst st)"
  "rs_roots (fst (add_provider r g now sid pv st)) = rs_roots (fst st)"
  by (cases st; simp add: add_provider_def Let_def)+

lemma build_providers_frame [frame_simps]:
  "rs_pending_ownership (fst (build_providers r g now pvs ids seen st)) = rs_pending_ownership (fst st)"
  "rs_attributions (fst (build_providers r g now pvs ids seen st)) = rs_attributions (fst st)"
  "rs_roots (fst (build_providers r g now pvs ids seen st)) = rs_roots (fst st)"
  by (induction ids arbitrary: seen st) (simp_all add: frame_simps split: option.splits)

text \<open>The graph the adapters are asked about first: no root is known yet.\<close>

definition rootless :: "reconciler \<Rightarrow> snapshot \<Rightarrow> tree \<Rightarrow> graph" where
  "rootless r s t = \<lparr>gr_snapshot = s, gr_tree = t, gr_roots = [], gr_known = known_provider_sessions r\<rparr>"

lemma detected_graph:
  assumes "detect_all (rc_reg r) (rootless r s t) = Inr g"
  shows "gr_snapshot g = s" "gr_tree g = t" "\<exists>claims. gr_roots g = claim_roots claims []"
  using detect_all_claims [OF assms] by (auto simp: rootless_def)

text \<open>The phases of a successful reconciliation.\<close>

lemma reconcile_InrE:
  assumes "reconcile urls r s t cmds = Inr res"
  obtains g claims secondary res1 lv res2 where
    "detect_all (rc_reg r) (rootless r s t) = Inr g" "gr_snapshot g = s" "gr_tree g = t" "gr_roots g = claim_roots claims []"
    "build_provider_sessions r g (unix_nano (sn_taken s)) (discover_provider_sessions r g)
       (fst (build_sessions r g (unix_nano (sn_taken s)) (empty_result (gr_roots g)))) = (res1, lv)"
    "secondary = ch_secondary (choose_all r g)"
    "res2 = attribute_all urls cmds r g (discover_provider_sessions r g) secondary lv
       (unix_nano (sn_taken s)) (sn_procs s) res1"
    "res = (let res3 = end_departed_sessions r s (unix_nano (sn_taken s)) res2 in
       res3\<lparr>rs_sessions := sort_key sr_session_id (rs_sessions res3),
            rs_ended := sort_key es_session_id (rs_ended res3)\<rparr>)"
proof -
  let ?g0 = "\<lparr>gr_snapshot = s, gr_tree = t, gr_roots = [], gr_known = known_provider_sessions r\<rparr>"
  let ?now = "unix_nano (sn_taken s)"
  from assms obtain g where g: "detect_all (rc_reg r) ?g0 = Inr g"
    unfolding reconcile_def Let_def by (cases "detect_all (rc_reg r) ?g0") auto
  from detect_all_claims [OF g] obtain claims where claims: "g = ?g0\<lparr>gr_roots := claim_roots claims []\<rparr>" by auto
  obtain st where st: "build_sessions r g ?now (empty_result (gr_roots g)) = (st, ch_secondary (choose_all r g))"
    by (simp add: build_sessions_def Let_def)
  obtain res1 lv where p: "build_provider_sessions r g ?now (discover_provider_sessions r g) st = (res1, lv)"
    by (cases "build_provider_sessions r g ?now (discover_provider_sessions r g) st")
  show thesis
  proof (rule that)
    show "detect_all (rc_reg r) (rootless r s t) = Inr g" using g by (simp add: rootless_def)
    show "gr_snapshot g = s" "gr_tree g = t" "gr_roots g = claim_roots claims []" using claims by auto
    show "build_provider_sessions r g ?now (discover_provider_sessions r g)
       (fst (build_sessions r g ?now (empty_result (gr_roots g)))) = (res1, lv)" using st p by simp
    show "res = (let res3 = end_departed_sessions r s ?now (attribute_all urls cmds r g
          (discover_provider_sessions r g) (ch_secondary (choose_all r g)) lv ?now (sn_procs s) res1) in
       res3\<lparr>rs_sessions := sort_key sr_session_id (rs_sessions res3),
            rs_ended := sort_key es_session_id (rs_ended res3)\<rparr>)"
      using assms g st p by (simp add: reconcile_def Let_def)
  qed simp_all
qed

section \<open>Durable ownership\<close>

definition put_all :: "('k \<times> 'v) list \<Rightarrow> ('k \<times> 'v) list \<Rightarrow> ('k \<times> 'v) list" where
  "put_all kvs m = fold (\<lambda>(k, v). AList.update k v) kvs m"

lemma map_of_put_all: "map_of (put_all kvs m) = map_of m ++ map_of (rev kvs)"
proof (induction kvs arbitrary: m)
  case (Cons kv kvs)
  have "map_of (put_all kvs (AList.update (fst kv) (snd kv) m)) = map_of (AList.update (fst kv) (snd kv) m) ++ map_of (rev kvs)"
    by (rule Cons.IH)
  then show ?case by (auto simp: put_all_def case_prod_beta map_add_def fun_eq_iff split: option.splits)
qed (simp add: put_all_def)

lemma put_all_SomeD:
  "map_of (put_all kvs m) k = Some v \<Longrightarrow> (k, v) \<in> set kvs \<or> map_of m k = Some v"
  using map_of_SomeD [of "rev kvs" k v] by (auto simp: map_of_put_all map_add_def split: option.splits)

lemma put_all_SomeI:
  "distinct (List.map fst kvs) \<Longrightarrow> (k, v) \<in> set kvs \<Longrightarrow> map_of (put_all kvs m) k = Some v"
  using map_of_is_SomeI [of "rev kvs" k v] by (simp add: map_of_put_all rev_map [symmetric])

text \<open>The attributions of one cycle, and the ownership rows that follow from them.\<close>

definition cycle_attributions where
  "cycle_attributions r g pv sec lv ps =
     List.map_filter (\<lambda>p. map_option (\<lambda>attr. (p, attr)) (attribution_of r g pv sec lv p)) ps"

lemma attribute_all_ownership [frame_simps]:
  "rs_pending_ownership (attribute_all urls cmds r g pv sec lv now ps res) =
     put_all (List.map (\<lambda>(p, attr). (key_uid (proc_key p), ownership_of r p attr now))
       (cycle_attributions r g pv sec lv ps)) (rs_pending_ownership res)"
proof (induction ps arbitrary: res)
  case (Cons p ps)
  show ?case
    by (cases "attribution_of r g pv sec lv p")
       (simp_all add: Cons.IH, simp_all add: attribute_one_def record_process_def record_relationships_def
         ownership_of_def cycle_attributions_def map_filter_simps put_all_def Let_def)
qed (simp add: cycle_attributions_def map_filter_simps put_all_def)

lemma set_cycle_attributions:
  "(p, attr) \<in> set (cycle_attributions r g pv sec lv ps) \<longleftrightarrow>
     p \<in> set ps \<and> attribution_of r g pv sec lv p = Some attr"
  by (auto simp: cycle_attributions_def set_map_filter)

lemma distinct_cycle_attributions:
  assumes "distinct (List.map pr_pid ps)"
  shows "distinct (List.map (\<lambda>x. key_uid (proc_key (fst x))) (cycle_attributions r g pv sec lv ps))"
  unfolding cycle_attributions_def
proof (rule distinct_map_filter)
  show "distinct ps" using assms by (simp add: distinct_map)
  show "x = y" if "x \<in> set ps" "y \<in> set ps"
    "map_option (Pair x) (attribution_of r g pv sec lv x) = Some u"
    "map_option (Pair y) (attribution_of r g pv sec lv y) = Some v"
    "key_uid (proc_key (fst u)) = key_uid (proc_key (fst v))" for x y u v
  proof -
    from that(3-5) have "proc_key x = proc_key y" by (auto simp: process_simps)
    then have "pr_pid x = pr_pid y" using key_pid_proc_key by metis
    with that(1,2) assms show ?thesis by (auto simp: distinct_map dest: inj_onD)
  qed
qed

lemma reconcile_ownership:
  assumes "reconcile urls r s t cmds = Inr res"
  obtains g sec lv where "detect_all (rc_reg r) (rootless r s t) = Inr g"
    "rs_pending_ownership res = put_all (List.map (\<lambda>(p, attr).
        (key_uid (proc_key p), ownership_of r p attr (unix_nano (sn_taken s))))
      (cycle_attributions r g (discover_provider_sessions r g) sec lv (sn_procs s))) []"
proof -
  from assms obtain g claims sec res1 lv res2 where g: "detect_all (rc_reg r) (rootless r s t) = Inr g" and e:
    "build_provider_sessions r g (unix_nano (sn_taken s)) (discover_provider_sessions r g)
       (fst (build_sessions r g (unix_nano (sn_taken s)) (empty_result (gr_roots g)))) = (res1, lv)"
    "res2 = attribute_all urls cmds r g (discover_provider_sessions r g) sec lv
       (unix_nano (sn_taken s)) (sn_procs s) res1"
    "res = (let res3 = end_departed_sessions r s (unix_nano (sn_taken s)) res2 in
       res3\<lparr>rs_sessions := sort_key sr_session_id (rs_sessions res3),
            rs_ended := sort_key es_session_id (rs_ended res3)\<rparr>)"
    by (rule reconcile_InrE)
  have "rs_pending_ownership res1 = []"
    using arg_cong [OF e(1), of "\<lambda>x. rs_pending_ownership (fst x)"]
    by (simp add: build_provider_sessions_def build_sessions_def Let_def frame_simps empty_result_def)
  then show thesis
    using that [OF g] e(2,3) by (simp add: Let_def end_departed_sessions_def frame_simps)
qed

text \<open>The roots a cycle reports are those the adapters detected.\<close>

lemma reconcile_roots:
  assumes "reconcile urls r s t cmds = Inr res"
  obtains g where "detect_all (rc_reg r) (rootless r s t) = Inr g" "rs_roots res = gr_roots g"
proof -
  from assms obtain g claims sec res1 lv res2 where g: "detect_all (rc_reg r) (rootless r s t) = Inr g" and e:
    "build_provider_sessions r g (unix_nano (sn_taken s)) (discover_provider_sessions r g)
       (fst (build_sessions r g (unix_nano (sn_taken s)) (empty_result (gr_roots g)))) = (res1, lv)"
    "res2 = attribute_all urls cmds r g (discover_provider_sessions r g) sec lv
       (unix_nano (sn_taken s)) (sn_procs s) res1"
    "res = (let res3 = end_departed_sessions r s (unix_nano (sn_taken s)) res2 in
       res3\<lparr>rs_sessions := sort_key sr_session_id (rs_sessions res3),
            rs_ended := sort_key es_session_id (rs_ended res3)\<rparr>)"
    by (rule reconcile_InrE)
  have "rs_roots res1 = gr_roots g"
    using arg_cong [OF e(1), of "\<lambda>x. rs_roots (fst x)"]
    by (simp add: build_provider_sessions_def build_sessions_def Let_def frame_simps empty_result_def)
  then show thesis
    using that [OF g] e(2,3) by (simp add: Let_def end_departed_sessions_def frame_simps)
qed

lemma commit_ownership:
  "map_of (rc_ownership (commit res r)) uid =
     (case map_of (rs_pending_ownership res) uid of Some o' \<Rightarrow> Some o' | None \<Rightarrow> map_of (rc_ownership r) uid)"
  by (simp add: commit_def merge_conv' map_add_def)

text \<open>
  What the daemon does to the reconciler: a cycle whose result is stored is committed; a
  cycle that fails, or whose result cannot be stored, leaves it as it is.
\<close>

inductive cycle :: "'u url_ops \<Rightarrow> reconciler \<Rightarrow> reconciler \<Rightarrow> bool" for urls where
  stored: "reconcile urls r s t cmds = Inr res \<Longrightarrow> cycle urls r (commit res r)"
| lost: "cycle urls r r"

inductive_cases cycleE: "cycle urls r r'"

text \<open>Ownership rows agree on what was learnt when the process was first seen.\<close>

definition same_origin :: "ownership_record \<Rightarrow> ownership_record \<Rightarrow> bool" where
  "same_origin a b \<longleftrightarrow> ow_original_ppid a = ow_original_ppid b \<and>
     ow_parent_observed a = ow_parent_observed b \<and> ow_first_seen a = ow_first_seen b"

lemma attribution_of_origin:
  assumes "attribution_of r g pv sec lv p = Some attr"
    and "map_of (rc_ownership r) (key_uid (proc_key p)) = Some prior"
  shows "same_origin (ownership_of r p attr now) prior"
  using assms
  by (auto simp: attribution_of_def enrich_def ownership_of_def same_origin_def Let_def split: if_splits)

lemma cycle_origin:
  assumes "cycle urls r r'" and "map_of (rc_ownership r) uid = Some prior"
  shows "\<exists>own. map_of (rc_ownership r') uid = Some own \<and> same_origin own prior"
  using assms(1)
proof cases
  case (stored s t cmds res)
  from reconcile_ownership [OF stored(2)] obtain g sec lv where own:
    "rs_pending_ownership res = put_all (List.map (\<lambda>(p, attr).
        (key_uid (proc_key p), ownership_of r p attr (unix_nano (sn_taken s))))
      (cycle_attributions r g (discover_provider_sessions r g) sec lv (sn_procs s))) []" .
  show ?thesis
  proof (cases "map_of (rs_pending_ownership res) uid")
    case None
    with assms(2) stored show ?thesis by (simp add: commit_ownership same_origin_def)
  next
    case (Some o1)
    then obtain p attr where "uid = key_uid (proc_key p)"
      "attribution_of r g (discover_provider_sessions r g) sec lv p = Some attr"
      "o1 = ownership_of r p attr (unix_nano (sn_taken s))"
      unfolding own by (auto simp: set_cycle_attributions dest!: put_all_SomeD)
    with attribution_of_origin assms(2) Some stored show ?thesis by (auto simp: commit_ownership)
  qed
next
  case lost
  with assms(2) show ?thesis by (auto simp: same_origin_def)
qed

text \<open>C32: Where a process came from is written once. However many cycles run, stored or lost, an
  ownership recorded for an exact process is never dropped, and its original parent, whether
  that parent was observed, and the time of first observation never change.\<close>

theorem original_parent_written_once:
  assumes "(cycle urls)\<^sup>*\<^sup>* r r'" and "map_of (rc_ownership r) uid = Some prior"
  shows "\<exists>own. map_of (rc_ownership r') uid = Some own \<and>
    ow_original_ppid own = ow_original_ppid prior \<and>
    ow_parent_observed own = ow_parent_observed prior \<and> ow_first_seen own = ow_first_seen prior"
  using assms
proof (induction rule: rtranclp_induct)
  case (step r1 r2)
  then obtain o1 where "map_of (rc_ownership r1) uid = Some o1" "same_origin o1 prior"
    by (auto simp: same_origin_def)
  with cycle_origin [OF step.hyps(2)] show ?case by (fastforce simp: same_origin_def)
qed auto

definition sample_ownership :: "string \<Rightarrow> key \<Rightarrow> ownership_record" where
  "sample_ownership sid k = \<lparr>ow_session_id = sid, ow_uid = key_uid k, ow_agent_id = ''codex'',
     ow_relation = RelationDescendant, ow_confidence = 97 / 100, ow_evidence = [],
     ow_original_ppid = 7, ow_parent_observed = True, ow_first_seen = 60, ow_last_seen = 70\<rparr>"

text \<open>A reconciler without adapters that remembers who owns process 8.\<close>

definition sample_reconciler :: reconciler where
  "sample_reconciler = (new_reconciler [] 2 501 no_repos)
     \<lparr>rc_ownership := [(key_uid (new_key 8 60), sample_ownership ''s1'' (new_key 8 60))]\<rparr>"

lemma sample_reconciler_simps [simp]:
  "rc_reg sample_reconciler = []" "rc_self_uid sample_reconciler = 501"
  "rc_root sample_reconciler = []" "rc_native sample_reconciler = []"
  "rc_ownership sample_reconciler = [(key_uid (new_key 8 60), sample_ownership ''s1'' (new_key 8 60))]"
  by (simp_all add: sample_reconciler_def new_reconciler_def)

text \<open>A cycle fails only when an adapter's detection does.\<close>

lemma detect_all_total:
  "(\<And>a g. a \<in> set as \<Longrightarrow> \<exists>roots. ag_detect_roots a g = Inr roots) \<Longrightarrow> \<exists>g'. detect_all as g = Inr g'"
proof (induction as arbitrary: g)
  case (Cons a as)
  from Cons.prems [of a g] obtain roots where "ag_detect_roots a g = Inr roots" by auto
  with Cons show ?case by simp
qed simp

lemma reconcile_total:
  assumes "\<And>a g. a \<in> set (rc_reg r) \<Longrightarrow> \<exists>roots. ag_detect_roots a g = Inr roots"
  shows "\<exists>res. reconcile urls r s t cmds = Inr res"
proof -
  obtain g where g: "detect_all (rc_reg r) \<lparr>gr_snapshot = s, gr_tree = t, gr_roots = [],
      gr_known = known_provider_sessions r\<rparr> = Inr g"
    using detect_all_total [OF assms] by blast
  show ?thesis unfolding reconcile_def Let_def g sum.case case_prod_beta by blast
qed

lemma sample_reconcile: "\<exists>res. reconcile urls sample_reconciler s t cmds = Inr res"
  by (rule reconcile_total) simp

theorem original_parent_written_once_witness:
  "\<exists>r' own. cycle no_urls sample_reconciler r' \<and>
     map_of (rc_ownership r') (key_uid (new_key 8 60)) = Some own \<and> ow_original_ppid own = 7"
proof -
  obtain res where "reconcile no_urls sample_reconciler (new_snapshot 90 [sample_process 8 1 60] 1)
      (build_tree (new_snapshot 90 [sample_process 8 1 60] 1)) True = Inr res"
    using sample_reconcile by blast
  then have c: "cycle no_urls sample_reconciler (commit res sample_reconciler)" by (rule cycle.stored)
  then have "(cycle no_urls)\<^sup>*\<^sup>* sample_reconciler (commit res sample_reconciler)" by blast
  from original_parent_written_once [OF this, of "key_uid (new_key 8 60)" "sample_ownership ''s1'' (new_key 8 60)"]
  obtain own where "map_of (rc_ownership (commit res sample_reconciler)) (key_uid (new_key 8 60)) = Some own"
    "ow_original_ppid own = ow_original_ppid (sample_ownership ''s1'' (new_key 8 60))" by auto
  with c show ?thesis by (auto simp: sample_ownership_def)
qed

section \<open>Processes without live evidence\<close>

lemma ancestors_unlinked: "link t pid \<noteq> LinkIntact \<Longrightarrow> ancestors t pid = []"
  by (simp add: ancestors_def max_tree_depth_def parent_of_def climb.simps(2) [of 127, simplified] split: option.splits)

lemma attribute_by_provider_unlinked:
  "ancestors (gr_tree g) (pr_pid p) = [] \<Longrightarrow> at_session_id (attribute_by_provider as p g pv) = []"
  by (induction as) (simp_all add: no_attribution_def Let_def split: option.splits)

lemma best_claim_none:
  "(\<And>a. a \<in> set as \<Longrightarrow> aa_session_id (ag_attribute a p g) = []) \<Longrightarrow> best_claim as p g best = best"
  by (induction as) (simp_all add: Let_def)

text \<open>A process whose parent link is lost and that no adapter claims, given the roots of the cycle.\<close>

definition unclaimed :: "reconciler \<Rightarrow> graph \<Rightarrow> process \<Rightarrow> bool" where
  "unclaimed r g p \<longleftrightarrow> link (gr_tree g) (pr_pid p) \<noteq> LinkIntact \<and>
     (\<forall>a \<in> set (rc_reg r). aa_session_id (ag_attribute a p g) = [])"

lemma attribute_unclaimed:
  assumes "unclaimed r g p"
  shows "attribute r p g pv =
    (let best = no_attribution\<lparr>at_key := proc_key p, at_link := link (gr_tree g) (pr_pid p)\<rparr> in
     case map_of (rc_ownership r) (key_uid (proc_key p)) of
       Some prior \<Rightarrow> recorded_attribution prior best
     | None \<Rightarrow> attribute_by_environment r (rc_reg r) p best)"
proof -
  have "at_session_id (attribute_by_provider (rc_reg r) p g pv) = []"
    using assms ancestors_unlinked by (intro attribute_by_provider_unlinked) (auto simp: unclaimed_def)
  moreover have "best_claim (rc_reg r) p g b = b" for b
    using assms by (intro best_claim_none) (auto simp: unclaimed_def)
  ultimately show ?thesis
    by (simp add: attribute_def Let_def no_attribution_def)
qed

lemma attribute_by_environment_confidence:
  "at_confidence best \<le> confidence_environment_membership \<Longrightarrow>
     at_confidence (attribute_by_environment r as p best) \<le> confidence_environment_membership"
  by (induction as) (auto split: option.splits)

lemma attribution_of_fields:
  assumes "attribution_of r g pv sec lv p = Some attr"
  shows "at_session_id attr = at_session_id (attribute r p g pv)"
    and "at_agent_id attr = at_agent_id (attribute r p g pv)"
    and "at_confidence attr = at_confidence (attribute r p g pv)"
  using assms
  by (auto simp: attribution_of_def enrich_def demote_secondary_def Let_def split: if_splits option.splits)

lemma ownership_of_fields [simp]:
  "ow_session_id (ownership_of r p attr now) = at_session_id attr"
  "ow_agent_id (ownership_of r p attr now) = at_agent_id attr"
  "ow_confidence (ownership_of r p attr now) = at_confidence attr"
  by (simp_all add: ownership_of_def Let_def)

lemma reconcile_owns:
  assumes "reconcile urls r s t cmds = Inr res" and "distinct (List.map pr_pid (sn_procs s))"
    and "p \<in> set (sn_procs s)" and "detect_all (rc_reg r) (rootless r s t) = Inr g"
  obtains sec lv where
    "map_of (rs_pending_ownership res) (key_uid (proc_key p)) =
       map_option (\<lambda>attr. ownership_of r p attr (unix_nano (sn_taken s)))
         (attribution_of r g (discover_provider_sessions r g) sec lv p)"
proof -
  from reconcile_ownership [OF assms(1)] obtain g' sec lv where det: "detect_all (rc_reg r) (rootless r s t) = Inr g'"
    and own': "rs_pending_ownership res = put_all (List.map (\<lambda>(p, attr).
        (key_uid (proc_key p), ownership_of r p attr (unix_nano (sn_taken s))))
      (cycle_attributions r g' (discover_provider_sessions r g') sec lv (sn_procs s))) []" .
  have "g' = g" using det assms(4) by simp
  note own = own' [unfolded this]
  let ?at = "attribution_of r g (discover_provider_sessions r g) sec lv"
  have dist: "distinct (List.map fst (List.map (\<lambda>(p, attr).
        (key_uid (proc_key p), ownership_of r p attr (unix_nano (sn_taken s))))
      (cycle_attributions r g (discover_provider_sessions r g) sec lv (sn_procs s))))"
    using distinct_cycle_attributions [OF assms(2)] by (simp add: comp_def case_prod_beta)
  have inj: "q = p" if "q \<in> set (sn_procs s)" "key_uid (proc_key p) = key_uid (proc_key q)" for q
  proof -
    from that(2) have "pr_pid p = pr_pid q" using key_pid_proc_key by (metis key_uid_inject)
    with that(1) assms(2,3) show ?thesis by (auto simp: distinct_map dest: inj_onD)
  qed
  have "map_of (rs_pending_ownership res) (key_uid (proc_key p)) =
      map_option (\<lambda>attr. ownership_of r p attr (unix_nano (sn_taken s))) (?at p)"
  proof (cases "?at p")
    case None
    have "map_of (rs_pending_ownership res) (key_uid (proc_key p)) \<noteq> Some x" for x
      unfolding own using None inj by (auto simp: set_cycle_attributions dest!: put_all_SomeD)
    then have "map_of (rs_pending_ownership res) (key_uid (proc_key p)) = None" by (meson not_Some_eq)
    with None show ?thesis by simp
  next
    case (Some attr)
    have "map_of (rs_pending_ownership res) (key_uid (proc_key p)) =
        Some (ownership_of r p attr (unix_nano (sn_taken s)))"
      unfolding own using Some assms(3)
      by (intro put_all_SomeI [OF dist]) (force simp: set_cycle_attributions)
    with Some show ?thesis by simp
  qed
  with that show thesis by blast
qed

text \<open>What was recorded holds for a process that nothing claims any more.\<close>

lemma unclaimed_keeps_owner:
  assumes "reconcile urls r s t cmds = Inr res" and "distinct (List.map pr_pid (sn_procs s))"
    and "p \<in> set (sn_procs s)" and "pr_detailed p" and "pr_uid p = rc_self_uid r"
    and "detect_all (rc_reg r) (rootless r s t) = Inr g" and "unclaimed r g p"
    and "map_of (rc_ownership r) (key_uid (proc_key p)) = Some prior" and "ow_session_id prior \<noteq> []"
  shows "\<exists>own. map_of (rc_ownership (commit res r)) (key_uid (proc_key p)) = Some own \<and>
    ow_session_id own = ow_session_id prior \<and> ow_agent_id own = ow_agent_id prior \<and>
    ow_confidence own = ow_confidence prior \<and> ow_last_seen own = unix_nano (sn_taken s)"
proof -
  obtain sec lv where own: "map_of (rs_pending_ownership res) (key_uid (proc_key p)) =
      map_option (\<lambda>attr. ownership_of r p attr (unix_nano (sn_taken s)))
        (attribution_of r g (discover_provider_sessions r g) sec lv p)"
    using reconcile_owns [OF assms(1-3,6)] .
  let ?at = "attribute r p g (discover_provider_sessions r g)"
  have at: "at_session_id ?at = ow_session_id prior" "at_agent_id ?at = ow_agent_id prior"
    "at_confidence ?at = ow_confidence prior"
    using assms(8) by (simp_all add: attribute_unclaimed [OF assms(7)] recorded_attribution_def Let_def)
  then obtain attr where attr: "attribution_of r g (discover_provider_sessions r g) sec lv p = Some attr"
    using assms(4,5,9) by (simp add: attribution_of_def Let_def)
  with at attribution_of_fields [OF attr] own show ?thesis
    by (simp add: commit_ownership) (simp add: ownership_of_def Let_def)
qed

text \<open>Inheriting an identifier is never enough. A process that lost its parent link, that no
  adapter claims and that was not already recorded above the policy threshold is never
  recorded above it, whatever its environment says, and so stays hard-protected.\<close>

theorem environment_never_eligible:
  assumes "reconcile urls r s t cmds = Inr res" and "distinct (List.map pr_pid (sn_procs s))"
    and "p \<in> set (sn_procs s)" and "detect_all (rc_reg r) (rootless r s t) = Inr g" and "unclaimed r g p"
    and "\<forall>prior. map_of (rc_ownership r) (key_uid (proc_key p)) = Some prior \<longrightarrow> ow_confidence prior < 95 / 100"
    and "map_of (rs_pending_ownership res) (key_uid (proc_key p)) = Some own"
    and "pi_confidence inp = ow_confidence own"
  shows "ow_confidence own < 95 / 100 \<and> pe_protected (evaluate_protection inp)"
proof -
  obtain sec lv where own: "map_of (rs_pending_ownership res) (key_uid (proc_key p)) =
      map_option (\<lambda>attr. ownership_of r p attr (unix_nano (sn_taken s)))
        (attribution_of r g (discover_provider_sessions r g) sec lv p)"
    using reconcile_owns [OF assms(1-4)] .
  with assms(7) obtain attr where attr: "attribution_of r g (discover_provider_sessions r g) sec lv p = Some attr"
    and o1: "own = ownership_of r p attr (unix_nano (sn_taken s))" by auto
  have "at_confidence (attribute r p g (discover_provider_sessions r g)) < 95 / 100"
  proof (cases "map_of (rc_ownership r) (key_uid (proc_key p))")
    case None
    let ?best = "no_attribution\<lparr>at_key := proc_key p, at_link := link (gr_tree g) (pr_pid p)\<rparr>"
    have "at_confidence ?best \<le> confidence_environment_membership"
      by (simp add: no_attribution_def confidence_defs)
    from attribute_by_environment_confidence [OF this, of r "rc_reg r" p] None show ?thesis
      by (simp add: attribute_unclaimed [OF assms(5)] Let_def confidence_defs)
  next
    case (Some prior)
    with assms(6) show ?thesis
      by (simp add: attribute_unclaimed [OF assms(5)] Let_def recorded_attribution_def)
  qed
  with attribution_of_fields(3) [OF attr] o1 have c: "ow_confidence own < 95 / 100" by simp
  with assms(8) have "\<not> clears_protection inp" by (simp add: clears_protection_def Let_def)
  with c protected_iff_clear [of inp] show ?thesis by blast
qed

text \<open>An adapter that only reads a session identifier from the environment.\<close>

definition env_adapter :: adapter where
  "env_adapter = (sample_adapter ''codex'' [])\<lparr>ag_native_session_id := (\<lambda>_. Some ''n1'')\<rparr>"

definition env_reconciler :: reconciler where
  "env_reconciler = (new_reconciler [env_adapter] 2 501 no_repos)\<lparr>rc_native := [(native_key ''codex'' ''n1'', ''s2'')]\<rparr>"

lemma env_simps [simp]:
  "rc_reg env_reconciler = [env_adapter]" "rc_self_uid env_reconciler = 501" "rc_ownership env_reconciler = []"
  "rc_native env_reconciler = [(native_key ''codex'' ''n1'', ''s2'')]"
  "ag_id env_adapter = ''codex''" "ag_native_session_id env_adapter p = Some ''n1''"
  "ag_detect_roots env_adapter g = Inr []" "aa_session_id (ag_attribute env_adapter p g) = []"
  by (simp_all add: env_reconciler_def env_adapter_def new_reconciler_def sample_adapter_def)

theorem environment_never_eligible_witness:
  "\<exists>res own. reconcile no_urls env_reconciler (new_snapshot 90 [sample_process 8 1 60] 1)
       (build_tree (new_snapshot 90 [sample_process 8 1 60] 1)) True = Inr res \<and>
     map_of (rs_pending_ownership res) (key_uid (new_key 8 60)) = Some own \<and>
     ow_session_id own = ''s2'' \<and> ow_confidence own < 95 / 100"
proof -
  let ?p = "sample_process 8 1 60"
  let ?s = "new_snapshot 90 [?p] 1"
  let ?t = "build_tree ?s"
  let ?g = "rootless env_reconciler ?s ?t"
  have procs: "sn_procs ?s = [?p]" by (simp add: new_snapshot_def)
  obtain res where res: "reconcile no_urls env_reconciler ?s ?t True = Inr res"
    using reconcile_total [of env_reconciler no_urls ?s ?t True] by auto
  have "link ?t 8 = LinkReparented" by code_simp
  then have un: "unclaimed env_reconciler ?g ?p" by (simp add: unclaimed_def rootless_def)
  have det: "detect_all (rc_reg env_reconciler) ?g = Inr ?g" by (simp add: rootless_def)
  have d: "distinct (List.map pr_pid (sn_procs ?s))" and m: "?p \<in> set (sn_procs ?s)" using procs by simp_all
  obtain sec lv where own: "map_of (rs_pending_ownership res) (key_uid (proc_key ?p)) =
      map_option (\<lambda>attr. ownership_of env_reconciler ?p attr (unix_nano (sn_taken ?s)))
        (attribution_of env_reconciler ?g (discover_provider_sessions env_reconciler ?g) sec lv ?p)"
    using reconcile_owns [OF res d m det] .
  have sid: "at_session_id (attribute env_reconciler ?p ?g (discover_provider_sessions env_reconciler ?g)) = ''s2''"
    by (simp add: attribute_unclaimed [OF un])
  then obtain attr where attr: "attribution_of env_reconciler ?g (discover_provider_sessions env_reconciler ?g) sec lv ?p = Some attr"
    by (simp add: attribution_of_def Let_def)
  let ?o = "ownership_of env_reconciler ?p attr (unix_nano (sn_taken ?s))"
  have o: "map_of (rs_pending_ownership res) (key_uid (proc_key ?p)) = Some ?o" using own attr by simp
  have "ow_confidence ?o < 95 / 100"
    using environment_never_eligible [OF res d m det un _ o, of "\<lparr>pi_process = ?p, pi_self_pid = 2,
      pi_self_uid = 501, pi_is_agent_root = False, pi_session_active = False,
      pi_confidence = ow_confidence ?o, pi_descendants = 0, pi_adapter_rules = []\<rparr>"] by simp
  with res o sid attribution_of_fields(1) [OF attr] show ?thesis by (intro exI [of _ res] exI [of _ ?o]) simp
qed


section \<open>The end of a session\<close>

definition departed :: "reconciler \<Rightarrow> snapshot \<Rightarrow> string list \<Rightarrow> string \<Rightarrow> bool" where
  "departed r s seen sid \<longleftrightarrow>
     (case map_of (rc_root r) sid of
        None \<Rightarrow> False
      | Some k \<Rightarrow> sid \<notin> set seen \<and> live (state_of r sid) \<and> by_key s k = None)"

lemma end_sessions_ended:
  "rs_ended (end_sessions r s seen ids now res) = rs_ended res @
     List.map (\<lambda>sid. \<lparr>es_session_id = sid, es_from = state_of r sid, es_state = SCompleted, es_ended_ns = now\<rparr>)
       (filter (departed r s seen) ids)"
  by (induction ids arbitrary: res) (auto simp: departed_def Let_def split: option.splits)

lemma end_sessions_state:
  "map_of (rs_pending_state (end_sessions r s seen ids now res)) sid =
     (if sid \<in> set ids \<and> departed r s seen sid then Some SCompleted else map_of (rs_pending_state res) sid)"
  by (induction ids arbitrary: res) (auto simp: departed_def Let_def split: option.splits)

lemma discover_all_none:
  "(\<And>a. a \<in> set as \<Longrightarrow> ag_discover_sessions a = None) \<Longrightarrow> discover_all as g d = d"
  by (induction as) auto

text \<open>A session ends exactly when its exact root process is gone. Without provider lifecycle
  evidence, a cycle reports a session as ended precisely when the session is tracked with a
  root key, its recorded state is live, no row was built for it in this cycle, and no process
  of the snapshot has that key; a process that merely reuses the PID does not keep it alive.
  Every such end is to the completed state.\<close>

theorem session_ends_iff_root_gone:
  assumes "reconcile urls r s t cmds = Inr res"
    and "list_all (\<lambda>a. ag_discover_sessions a = None) (rc_reg r)"
  shows "es_session_id ` set (rs_ended res) =
      {sid. \<exists>k. map_of (rc_root r) sid = Some k \<and> live (state_of r sid) \<and>
         sid \<notin> sr_session_id ` set (rs_sessions res) \<and> by_key s k = None} \<and>
    list_all (\<lambda>e. es_state e = SCompleted \<and> es_from e = state_of r (es_session_id e)) (rs_ended res)"
proof -
  let ?now = "unix_nano (sn_taken s)"
  from assms(1) obtain g claims sec res1 lv res2 where e:
    "build_provider_sessions r g ?now (discover_provider_sessions r g)
       (fst (build_sessions r g ?now (empty_result (gr_roots g)))) = (res1, lv)"
    "res2 = attribute_all urls cmds r g (discover_provider_sessions r g) sec lv ?now (sn_procs s) res1"
    "res = (let res3 = end_departed_sessions r s ?now res2 in
       res3\<lparr>rs_sessions := sort_key sr_session_id (rs_sessions res3),
            rs_ended := sort_key es_session_id (rs_ended res3)\<rparr>)"
    by (rule reconcile_InrE)
  have none: "discover_provider_sessions r g = []"
    using assms(2) discover_all_none [of "rc_reg r" g "([], [])"]
    by (simp add: discover_provider_sessions_def list_all_iff)
  have "rs_ended res1 = []"
    using arg_cong [OF e(1), of "\<lambda>x. rs_ended (fst x)"]
    by (simp add: none build_provider_sessions_def build_sessions_def Let_def frame_simps empty_result_def)
  then have ended: "set (rs_ended res) = (\<lambda>sid. \<lparr>es_session_id = sid, es_from = state_of r sid,
        es_state = SCompleted, es_ended_ns = ?now\<rparr>) `
      {sid \<in> fst ` set (rc_root r). departed r s (List.map sr_session_id (rs_sessions res2)) sid}"
    and rows: "set (rs_sessions res) = set (rs_sessions res2)"
    unfolding e(3) Let_def
    by (auto simp: e(2) end_departed_sessions_def end_sessions_ended frame_simps)
  have dom: "sid \<in> fst ` set (rc_root r)" if "map_of (rc_root r) sid = Some k" for sid k
    using map_of_SomeD [OF that] by force
  show ?thesis
    using dom by (auto simp: ended rows departed_def image_image list_all_iff split: option.splits)
qed

section \<open>The life of a session\<close>

text \<open>
  The abstract life cycle: in every cycle exactly one event happens to a session, and the next
  state is a function of the event and the state. A root that is seen carries its age; the
  other events are what the provider's records say of a task, the absence of the exact root
  process, and no evidence at all.
\<close>

datatype session_event = RootSeen duration | TaskActive | TaskCompleted | RootGone | NothingSeen

fun life_next :: "session_event \<Rightarrow> session_state \<Rightarrow> session_state" where
  "life_next (RootSeen age) s =
     (if s = SNone \<or> s = SStarting then (if age < 15 * second then SStarting else SActive)
      else if s \<in> {SCompleted, SCrashed, SOrphaned, SUnknown} then SActive else s)"
| "life_next TaskActive s = SActive"
| "life_next TaskCompleted s = SCompleted"
| "life_next RootGone s = (if s \<in> {SNone, SCompleted, SCrashed, SOrphaned, SUnknown} then s else SCompleted)"
| "life_next NothingSeen s = s"

text \<open>
  The event of a cycle, read off the detected roots, the discovered tasks and the snapshot: the
  root of a session is the claimant that started first, on a tie the one with the smallest PID.
\<close>

definition claimants :: "reconciler \<Rightarrow> graph \<Rightarrow> string \<Rightarrow> int list" where
  "claimants r g sid = filter (\<lambda>pid. claimed_session r g pid = Some sid) (root_pids g)"

definition first_claimant :: "reconciler \<Rightarrow> graph \<Rightarrow> string \<Rightarrow> agent_root option" where
  "first_claimant r g sid =
     (case sort_key (start_at g) (claimants r g sid) of [] \<Rightarrow> None | pid # _ \<Rightarrow> map_of (gr_roots g) pid)"

definition reported_task :: "reconciler \<Rightarrow> graph \<Rightarrow> string \<Rightarrow> provider_session option" where
  "reported_task r g sid =
     List.find (\<lambda>pv. ps_session_id pv = sid) (List.map snd (discover_provider_sessions r g))"

definition session_event :: "reconciler \<Rightarrow> graph \<Rightarrow> string \<Rightarrow> session_event" where
  "session_event r g sid =
     (case first_claimant r g sid of
        Some rt \<Rightarrow> RootSeen (wrap64 (unix_nano (sn_taken (gr_snapshot g)) - unix_nano (pr_start (ar_process rt))))
      | None \<Rightarrow>
          (case reported_task r g sid of
             Some pv \<Rightarrow> if ps_state pv = ProviderCompleted then TaskCompleted else TaskActive
           | None \<Rightarrow>
               (case map_of (rc_root r) sid of
                  Some k \<Rightarrow> if by_key (gr_snapshot g) k = None then RootGone else NothingSeen
                | None \<Rightarrow> NothingSeen)))"

lemma transition_life:
  "fst (transition r sid p now) = life_next (RootSeen (wrap64 (now - unix_nano (pr_start p)))) (state_of r sid)"
  by (auto simp: transition_def Let_def live_def starting_grace_def split: if_splits)

lemma hd_sort_key:
  fixes f :: "'a::linorder \<Rightarrow> 'b::linorder"
  assumes "sorted xs" "sort_key f xs = y # ys" "x \<in> set xs"
  shows "f y < f x \<or> f y = f x \<and> y \<le> x"
proof -
  have "x \<in> set (y # ys)" using assms(3) by (simp flip: assms(2))
  moreover have "sorted (List.map f (y # ys))" by (simp only: assms(2) [symmetric] sorted_sort_key)
  ultimately have le: "f y \<le> f x" by auto
  show ?thesis
  proof (cases "f y = f x")
    case True
    have "filter (\<lambda>z. f z = f x) xs = filter (\<lambda>z. f z = f x) (y # ys)"
      by (simp only: assms(2) [symmetric] sort_key_stable)
    with True have eq: "filter (\<lambda>z. f z = f x) xs = y # filter (\<lambda>z. f z = f x) ys" by simp
    have "sorted (filter (\<lambda>z. f z = f x) xs)" using assms(1) by (metis map_ident sorted_filter)
    moreover have "x \<in> set (filter (\<lambda>z. f z = f x) xs)" using assms(3) by simp
    ultimately have "y \<le> x" unfolding eq by auto
    with True show ?thesis by simp
  qed (use le in simp)
qed

lemma first_claimant_chosen:
  assumes "choice_ok r g (set (root_pids g)) c"
  shows "first_claimant r g sid = Option.bind (map_of (ch_chosen c) sid) (map_of (gr_roots g))"
proof (cases "sort_key (start_at g) (claimants r g sid)")
  case Nil
  then have "claimants r g sid = []" by (metis set_empty set_sort)
  then have "map_of (ch_chosen c) sid = None"
    using choice_okD(2,3) [OF assms, of sid] by (auto simp: claimants_def filter_empty_conv) (meson not_None_eq)
  with Nil show ?thesis by (simp add: first_claimant_def)
next
  case (Cons w ws)
  then have w: "w \<in> set (claimants r g sid)" by (metis list.set_intros(1) set_sort)
  then obtain v where v: "map_of (ch_chosen c) sid = Some v"
    using choice_okD(5) [OF assms] by (auto simp: claimants_def)
  note vs = choice_okD(2,3) [OF assms v]
  have "sorted (claimants r g sid)" 
    using sorted_filter [of "\<lambda>x. x" "root_pids g"] by (simp add: claimants_def root_pids_def)
  from hd_sort_key [OF this Cons, of v] vs have "earlier g w v" by (auto simp: claimants_def earlier_def)
  moreover have "earlier g v w" using choice_okD(4) [OF assms v] w by (auto simp: claimants_def)
  ultimately have "v = w" by (auto simp: earlier_def)
  with v Cons show ?thesis by (simp add: first_claimant_def)
qed

text \<open>Every provider session that survives discovery has one of the two known states.\<close>

definition known_states :: "discovery \<Rightarrow> bool" where
  "known_states d \<longleftrightarrow> (\<forall>k pv. map_of (fst d) k = Some pv \<longrightarrow>
     ps_state pv = ProviderActive \<or> ps_state pv = ProviderCompleted)"

lemma discover_one_states: "known_states d \<Longrightarrow> known_states (discover_one a g s d)"
  by (cases d)
     (auto simp: known_states_def discover_one_def provider_session_ok_def Let_def delete_conv'
       split: option.splits if_splits)

lemma discover_from_states: "known_states d \<Longrightarrow> known_states (discover_from a g ss d)"
  by (induction ss arbitrary: d) (simp_all add: discover_one_states)

lemma discover_all_states: "known_states d \<Longrightarrow> known_states (discover_all as g d)"
  by (induction as arbitrary: d) (auto simp: discover_from_states split: option.splits)

lemma distinct_discover_one: "distinct (List.map fst (fst d)) \<Longrightarrow> distinct (List.map fst (fst (discover_one a g s d)))"
  by (cases d) (auto simp: discover_one_def Let_def distinct_update distinct_delete split: option.splits)

lemma distinct_discover_from: "distinct (List.map fst (fst d)) \<Longrightarrow> distinct (List.map fst (fst (discover_from a g ss d)))"
  by (induction ss arbitrary: d) (simp_all add: distinct_discover_one)

lemma distinct_discover_all: "distinct (List.map fst (fst d)) \<Longrightarrow> distinct (List.map fst (fst (discover_all as g d)))"
  by (induction as arbitrary: d) (auto simp: distinct_discover_from split: option.splits)

lemma discovered_state:
  assumes "pv \<in> set (List.map snd (discover_provider_sessions r g))"
  shows "provider_state_of (ps_state pv) \<in> {SActive, SCompleted}"
proof -
  let ?d = "discover_all (rc_reg r) g ([], [])"
  have "distinct (List.map fst (fst ?d))" by (rule distinct_discover_all) simp
  moreover have "known_states ?d" by (rule discover_all_states) (simp add: known_states_def)
  moreover obtain k where "(k, pv) \<in> set (fst ?d)" using assms by (auto simp: discover_provider_sessions_def)
  ultimately have "ps_state pv = ProviderActive \<or> ps_state pv = ProviderCompleted"
    by (simp add: known_states_def map_of_eq_Some_iff)
  then show ?thesis by (auto simp: provider_state_of_def)
qed

lemma first_claimant_iff:
  assumes ok: "choice_ok r g (set (root_pids g)) c"
  shows "first_claimant r g sid = Some rt \<longleftrightarrow> (\<exists>w \<in> set (root_pids g). \<exists>a. chosen_root r g c w = Some (sid, rt, a))" (is "?l \<longleftrightarrow> ?r")
    and "first_claimant r g sid = None \<longleftrightarrow> (\<forall>q \<in> set (root_pids g). claimed_session r g q \<noteq> Some sid)" (is "?n \<longleftrightarrow> ?m")
proof -
  show "?l \<longleftrightarrow> ?r"
  proof
    assume ?l
    then obtain w where w: "map_of (ch_chosen c) sid = Some w" "map_of (gr_roots g) w = Some rt"
      by (auto simp: first_claimant_chosen [OF ok] bind_eq_Some_conv)
    note cw = choice_okD(2,3) [OF ok w(1)]
    then obtain rt' a where c: "chosen_root r g c w = Some (sid, rt', a)"
      using chosen_root_iff [OF ok, of w sid] w(1) by blast
    with chosen_root_root [OF c] w(2) cw(1) show ?r by auto
  next
    assume ?r
    then obtain w a where w: "w \<in> set (root_pids g)" "chosen_root r g c w = Some (sid, rt, a)" by blast
    then have "map_of (ch_chosen c) sid = Some w" using chosen_root_iff [OF ok, of w sid] by blast
    with chosen_root_root [OF w(2)] show ?l by (simp add: first_claimant_chosen [OF ok])
  qed
  show "?n \<longleftrightarrow> ?m"
  proof
    assume n: ?n
    show ?m
    proof (intro ballI notI)
      fix q assume q: "q \<in> set (root_pids g)" "claimed_session r g q = Some sid"
      then obtain w where w: "map_of (ch_chosen c) sid = Some w" using choice_okD(5) [OF ok] by blast
      with n claimed_session_root [OF choice_okD(3) [OF ok w]] show False by (auto simp: first_claimant_chosen [OF ok])
    qed
  next
    assume ?m
    then have "map_of (ch_chosen c) sid = None" using choice_okD(2,3) [OF ok, of sid] by (meson not_None_eq)
    then show ?n by (simp add: first_claimant_chosen [OF ok])
  qed
qed

text \<open>What each phase leaves in the states to commit.\<close>

lemma add_session_state:
  "map_of (rs_pending_state (fst (add_session r g now sid' rt a st))) sid =
     (if sid = sid' then Some (fst (transition r sid (ar_process rt) now)) else map_of (rs_pending_state (fst st)) sid)"
  by (cases st) (auto simp: add_session_def session_row_def Let_def split: prod.splits)

lemma build_roots_state:
  assumes "\<And>pid rt' a. pid \<in> set pids \<Longrightarrow> chosen_root r g c pid = Some (sid, rt', a) \<Longrightarrow> rt' = rt"
  shows "map_of (rs_pending_state (fst (build_roots r g c now pids st))) sid =
    (if \<exists>pid \<in> set pids. \<exists>a. chosen_root r g c pid = Some (sid, rt, a)
     then Some (fst (transition r sid (ar_process rt) now)) else map_of (rs_pending_state (fst st)) sid)"
  using assms
proof (induction pids arbitrary: st)
  case (Cons pid pids)
  have ih: "map_of (rs_pending_state (fst (build_roots r g c now pids st'))) sid =
    (if \<exists>pid \<in> set pids. \<exists>a. chosen_root r g c pid = Some (sid, rt, a)
     then Some (fst (transition r sid (ar_process rt) now)) else map_of (rs_pending_state (fst st')) sid)" for st'
    using Cons.prems by (intro Cons.IH) (meson list.set_intros(2))
  show ?case
  proof (cases "chosen_root r g c pid")
    case None
    then show ?thesis by (simp add: ih)
  next
    case (Some x)
    obtain sid' rt' a where x: "x = (sid', rt', a)" by (cases x)
    show ?thesis
    proof (cases "sid' = sid")
      case True
      with Cons.prems [of pid rt' a] Some x have "rt' = rt" by simp
      with True Some x show ?thesis by (simp add: ih add_session_state)
    next
      case False
      with Some x show ?thesis by (simp add: ih add_session_state)
    qed
  qed
qed simp

lemma add_provider_state:
  "map_of (rs_pending_state (fst (add_provider r g now sid' pv st))) sid =
     (if sid = sid' then Some (provider_state_of (ps_state pv)) else map_of (rs_pending_state (fst st)) sid)"
  by (cases st) (simp add: add_provider_def Let_def)

lemma build_providers_state:
  "map_of (rs_pending_state (fst (build_providers r g now pvs ids seen st))) sid =
     (if sid \<in> set ids \<and> sid \<notin> set seen
      then (case List.find (\<lambda>pv. ps_session_id pv = sid) pvs of
              None \<Rightarrow> map_of (rs_pending_state (fst st)) sid | Some pv \<Rightarrow> Some (provider_state_of (ps_state pv)))
      else map_of (rs_pending_state (fst st)) sid)"
proof (induction ids arbitrary: seen st)
  case (Cons i ids)
  then show ?case
    by (cases "i \<in> set seen"; cases "i = sid"; cases "List.find (\<lambda>pv. ps_session_id pv = i) pvs")
       (auto simp: add_provider_state split: option.splits)
qed simp

lemma add_provider_rows:
  "sr_session_id ` set (rs_sessions (fst (add_provider r g now sid pv st))) =
     insert sid (sr_session_id ` set (rs_sessions (fst st)))"
  by (cases st) (simp add: add_provider_def provider_row_def Let_def)

lemma build_providers_rows:
  "sid \<in> sr_session_id ` set (rs_sessions (fst (build_providers r g now pvs ids seen st))) \<longleftrightarrow>
     sid \<in> sr_session_id ` set (rs_sessions (fst st)) \<or>
     sid \<in> set ids \<and> sid \<notin> set seen \<and> List.find (\<lambda>pv. ps_session_id pv = sid) pvs \<noteq> None"
  by (induction ids arbitrary: seen st) (auto simp: add_provider_rows split: option.splits)

text \<open>After the two building phases a session has a new state exactly if it has a row.\<close>

lemma built_states:
  assumes "detect_all (rc_reg r) (rootless r s t) = Inr g"
    and "build_sessions r g now (empty_result (gr_roots g)) = (st, sec)"
    and "build_provider_sessions r g now (discover_provider_sessions r g) st = (res1, lv)"
  shows "map_of (rs_pending_state res1) sid =
    (case first_claimant r g sid of
       Some rt \<Rightarrow> Some (fst (transition r sid (ar_process rt) now))
     | None \<Rightarrow> map_option (\<lambda>pv. provider_state_of (ps_state pv)) (reported_task r g sid))"
    and "sid \<in> sr_session_id ` set (rs_sessions res1) \<longleftrightarrow>
      first_claimant r g sid \<noteq> None \<or> reported_task r g sid \<noteq> None"
proof -
  let ?c = "choose_all r g" and ?pids = "root_pids g"
  let ?pvs = "List.map snd (discover_provider_sessions r g)"
  obtain claims where claims: "gr_roots g = claim_roots claims []" using detected_graph(3) [OF assms(1)] by blast
  have ok: "choice_ok r g (set ?pids) ?c" using claims distinct_claim_roots [of "[]"] by (intro choose_all_ok) simp
  have st: "st = build_roots r g ?c now ?pids (empty_result (gr_roots g), [])"
    using assms(2) by (simp add: build_sessions_def Let_def)
  have rows: "sid \<in> sr_session_id ` set (rs_sessions (fst st)) \<longleftrightarrow> first_claimant r g sid \<noteq> None"
  proof -
    have "sid \<in> sr_session_id ` set (rs_sessions (fst st)) \<longleftrightarrow> (\<exists>q. q \<in> set ?pids \<and> claimed_session r g q = Some sid)"
      using one_root_per_session [OF claims] assms(2) by (metis prod.collapse)
    also have "\<dots> \<longleftrightarrow> first_claimant r g sid \<noteq> None" by (simp add: first_claimant_iff(2) [OF ok]) blast
    finally show ?thesis .
  qed
  have state: "map_of (rs_pending_state (fst st)) sid =
    map_option (\<lambda>rt. fst (transition r sid (ar_process rt) now)) (first_claimant r g sid)"
  proof (cases "first_claimant r g sid")
    case None
    have "\<not> (\<exists>pid \<in> set ?pids. \<exists>rt a. chosen_root r g ?c pid = Some (sid, rt, a))"
      using None first_claimant_iff(1) [OF ok, of sid] by auto
    then show ?thesis
      unfolding st using build_roots_state [of ?pids r g ?c sid undefined now "(empty_result (gr_roots g), [])"] None
      by (auto simp: empty_result_def)
  next
    case (Some rt)
    have only: "rt' = rt" if "pid \<in> set ?pids" "chosen_root r g ?c pid = Some (sid, rt', a)" for pid rt' a
      using first_claimant_iff(1) [OF ok, of sid rt'] that Some by auto
    have "\<exists>pid \<in> set ?pids. \<exists>a. chosen_root r g ?c pid = Some (sid, rt, a)"
      using Some first_claimant_iff(1) [OF ok, of sid rt] by blast
    then show ?thesis
      unfolding st using build_roots_state [of ?pids r g ?c sid rt now "(empty_result (gr_roots g), [])", OF only] Some
      by simp
  qed
  have res1: "res1 = fst (build_providers r g now ?pvs (sort (List.map ps_session_id ?pvs))
      (List.map sr_session_id (rs_sessions (fst st))) st)"
    using assms(3) by (simp add: build_provider_sessions_def Let_def)
  have ids: "sid \<in> set (sort (List.map ps_session_id ?pvs)) \<longleftrightarrow> reported_task r g sid \<noteq> None"
    by (auto simp: reported_task_def find_None_iff)
  show "map_of (rs_pending_state res1) sid = (case first_claimant r g sid of
       Some rt \<Rightarrow> Some (fst (transition r sid (ar_process rt) now))
     | None \<Rightarrow> map_option (\<lambda>pv. provider_state_of (ps_state pv)) (reported_task r g sid))"
    unfolding res1 build_providers_state set_map ids rows
    by (auto simp: state reported_task_def split: option.splits)
  show "sid \<in> sr_session_id ` set (rs_sessions res1) \<longleftrightarrow> first_claimant r g sid \<noteq> None \<or> reported_task r g sid \<noteq> None"
    unfolding res1 build_providers_rows set_map ids rows by (auto simp: reported_task_def)
qed

lemma reported_task_state:
  assumes "reported_task r g sid = Some pv"
  shows "provider_state_of (ps_state pv) = (if ps_state pv = ProviderCompleted then SCompleted else SActive)"
proof -
  have "pv \<in> set (List.map snd (discover_provider_sessions r g))"
    using assms by (auto simp: reported_task_def find_Some_iff)
  from discovered_state [OF this] show ?thesis by (cases "ps_state pv") (auto simp: provider_state_of_def)
qed

text \<open>C33: Reconciliation implements the session life cycle. After every cycle that is stored, with
  whatever adapters, providers and snapshots, the state of every session is the one the abstract
  life cycle gives for the event of that cycle: a session whose root is seen and that was new or
  starting is starting while the root is younger than fifteen seconds and active from then on, one
  that had been reported as over becomes active again (an edge the state diagram of the
  architecture document does not have), and any other keeps its state; without a root, what the provider's records say of the
  task decides; without either, a live session completes exactly if its recorded root process is
  not in the snapshot under its exact key; and otherwise nothing changes.\<close>

theorem cycle_refines_life_cycle:
  assumes "reconcile urls r s t cmds = Inr res"
    and "detect_all (rc_reg r) \<lparr>gr_snapshot = s, gr_tree = t, gr_roots = [], gr_known = known_provider_sessions r\<rparr> = Inr g"
  shows "state_of (commit res r) sid = life_next (session_event r g sid) (state_of r sid)"
proof -
  let ?now = "unix_nano (sn_taken s)"
  have det: "detect_all (rc_reg r) (rootless r s t) = Inr g" using assms(2) by (simp add: rootless_def)
  from assms(1) obtain g' claims sec res1 lv res2 where g': "detect_all (rc_reg r) (rootless r s t) = Inr g'" and e:
    "build_provider_sessions r g' ?now (discover_provider_sessions r g')
       (fst (build_sessions r g' ?now (empty_result (gr_roots g')))) = (res1, lv)"
    "res2 = attribute_all urls cmds r g' (discover_provider_sessions r g') sec lv ?now (sn_procs s) res1"
    "res = (let res3 = end_departed_sessions r s ?now res2 in
       res3\<lparr>rs_sessions := sort_key sr_session_id (rs_sessions res3),
            rs_ended := sort_key es_session_id (rs_ended res3)\<rparr>)"
    by (rule reconcile_InrE)
  have "g' = g" using g' det by simp
  note built = built_states [OF det prod.collapse [symmetric] e(1) [unfolded this], of sid]
  let ?seen = "List.map sr_session_id (rs_sessions res1)"
  have dom: "sid \<in> fst ` set (rc_root r)" if "map_of (rc_root r) sid = Some k" for k
    using map_of_SomeD [OF that] by force
  have pend: "map_of (rs_pending_state res) sid =
      (if departed r s ?seen sid then Some SCompleted else map_of (rs_pending_state res1) sid)"
    unfolding e(3) Let_def end_departed_sessions_def
    using dom by (auto simp: e(2) frame_simps end_sessions_state departed_def split: option.splits)
  have state: "state_of (commit res r) sid = (case map_of (rs_pending_state res) sid of Some x \<Rightarrow> x | None \<Rightarrow> state_of r sid)"
    by (simp add: commit_def state_of_def merge_conv' map_add_def split: option.split)
  have snap: "gr_snapshot g = s" using detected_graph(1) [OF det] .
  show ?thesis
  proof (cases "first_claimant r g sid")
    case (Some rt)
    then show ?thesis using built
      by (simp add: state pend departed_def session_event_def transition_life snap del: life_next.simps split: option.split)
  next
    case None
    note no_root = None
    show ?thesis
    proof (cases "reported_task r g sid")
      case (Some pv)
      with no_root built reported_task_state [OF Some] show ?thesis
        by (auto simp: state pend departed_def session_event_def split: option.split)
    next
      case None
      with no_root built show ?thesis
        by (auto simp: state pend departed_def session_event_def snap live_def split: option.split)
    qed
  qed
qed

text \<open>A reconciler that tracks one active session whose root was process 7, started at 50.\<close>

definition tracking_reconciler :: reconciler where
  "tracking_reconciler = (new_reconciler [] 2 501 no_repos)
     \<lparr>rc_root := [(''s1'', new_key 7 50)], rc_state := [(''s1'', SActive)]\<rparr>"

lemma tracking_simps [simp]:
  "rc_reg tracking_reconciler = []" "rc_root tracking_reconciler = [(''s1'', new_key 7 50)]"
  "state_of tracking_reconciler ''s1'' = SActive"
  by (simp_all add: tracking_reconciler_def new_reconciler_def state_of_def)

lemma reconcile_no_adapters:
  assumes "reconcile urls r s t cmds = Inr res" "rc_reg r = []"
  shows "rs_sessions res = []"
  using assms(1) unfolding reconcile_def Let_def assms(2) discover_provider_sessions_def
  by (auto simp: build_sessions_def build_provider_sessions_def root_pids_def empty_result_def
      end_departed_sessions_def frame_simps Let_def)

theorem session_ends_iff_root_gone_witness:
  "\<exists>res. reconcile no_urls tracking_reconciler (new_snapshot 90 [sample_process 7 1 60] 1)
       (build_tree (new_snapshot 90 [sample_process 7 1 60] 1)) True = Inr res \<and>
     ''s1'' \<in> es_session_id ` set (rs_ended res)"
proof -
  let ?s = "new_snapshot 90 [sample_process 7 1 60] 1"
  obtain res where res: "reconcile no_urls tracking_reconciler ?s (build_tree ?s) True = Inr res"
    using reconcile_total [of tracking_reconciler no_urls ?s "build_tree ?s" True] by auto
  have "rs_sessions res = []" using reconcile_no_adapters [OF res] by simp
  moreover have "by_key ?s (new_key 7 50) = None" by code_simp
  ultimately show ?thesis
    using session_ends_iff_root_gone [OF res] res by (auto simp: live_cases)
qed

theorem cycle_refines_life_cycle_witness:
  "\<exists>res. reconcile no_urls tracking_reconciler (new_snapshot 90 [] 0) (build_tree (new_snapshot 90 [] 0)) True = Inr res \<and>
     state_of tracking_reconciler ''s1'' = SActive \<and> state_of (commit res tracking_reconciler) ''s1'' = SCompleted"
proof -
  let ?s = "new_snapshot 90 [] 0"
  let ?g = "\<lparr>gr_snapshot = ?s, gr_tree = build_tree ?s, gr_roots = [], gr_known = known_provider_sessions tracking_reconciler\<rparr>"
  obtain res where res: "reconcile no_urls tracking_reconciler ?s (build_tree ?s) True = Inr res"
    using reconcile_total [of tracking_reconciler no_urls ?s "build_tree ?s" True] by auto
  have det: "detect_all (rc_reg tracking_reconciler) ?g = Inr ?g" by simp
  have "by_key ?s (new_key 7 50) = None" by code_simp
  then have "session_event tracking_reconciler ?g ''s1'' = RootGone"
    by (simp add: session_event_def first_claimant_def claimants_def root_pids_def reported_task_def discover_provider_sessions_def)
  with cycle_refines_life_cycle [OF res det, of "''s1''"] res show ?thesis by auto
qed

end
