(* ===== verification/Action_Laws.thy ===== *)
theory Action_Laws
  imports Actions Session_Laws
begin

text \<open>
  What one execution of the cleanup lane guarantees: which gates lie before a signal, and that
  its attempt is journaled first; and a concrete world in which a signal is sent.
\<close>

section \<open>The effects of one execution\<close>

text \<open>
  A list of effects is journaled when every signal comes after the committed attempt of
  the same action.
\<close>

definition journaled :: "effect list \<Rightarrow> bool" where
  "journaled t \<longleftrightarrow> (\<forall>xs aid pid ys. t = xs @ Killed aid pid # ys \<longrightarrow> Journaled aid ActionAttempting \<in> set xs)"

definition kills :: "effect list \<Rightarrow> effect list" where
  "kills t = filter (\<lambda>e. case e of Killed _ _ \<Rightarrow> True | Journaled _ _ \<Rightarrow> False) t"

lemma kills_simps [simp]:
  "kills [] = []" "kills (Journaled a r # t) = kills t" "kills (Killed a p # t) = Killed a p # kills t"
  "kills (xs @ ys) = kills xs @ kills ys"
  by (simp_all add: kills_def)

lemma journaled_no_kills: "kills t = [] \<Longrightarrow> journaled t"
  by (auto simp: journaled_def)

lemma journaled_attempt: "kills ys = [] \<Longrightarrow> journaled (Journaled aid ActionAttempting # Killed aid pid # ys)"
  by (auto simp: journaled_def Cons_eq_append_conv)

lemma journaled_append:
  assumes "journaled xs" "journaled ys"
  shows "journaled (xs @ ys)"
  unfolding journaled_def
proof (intro allI impI)
  fix us aid pid vs
  assume "xs @ ys = us @ Killed aid pid # vs"
  then consider zs where "xs = us @ Killed aid pid # zs" | zs where "us = xs @ zs" "ys = zs @ Killed aid pid # vs"
    by (auto simp: append_eq_append_conv2 Cons_eq_append_conv append_eq_Cons_conv)
  then show "Journaled aid ActionAttempting \<in> set us"
    using assms by cases (auto simp: journaled_def)
qed

lemma reject_action_effects:
  "reject_action su aid a e es taken w = (out, w') \<Longrightarrow>
     wo_daemon w' = wo_daemon w \<and>
     (wo_effects w' = wo_effects w \<or> wo_effects w' = wo_effects w @ [Journaled aid ActionRejected])"
  by (auto simp: reject_action_def Let_def split: prod.splits option.splits)

lemma finish_action_effects:
  assumes "finish_action su aid a k es w = (out, w')"
  shows "wo_daemon w' = wo_daemon w"
    and "\<exists>result. wo_effects w' = wo_effects w @
        (case fst (signal_process su (dm_self_uid (wo_daemon w)) k (cu_executable a) SIGTERM) of
           Some pid \<Rightarrow> [Killed aid pid] | None \<Rightarrow> []) @
        (case result of Some r \<Rightarrow> [Journaled aid r] | None \<Rightarrow> [])"
proof -
  obtain hit err where s: "signal_process su (dm_self_uid (wo_daemon w)) k (cu_executable a) SIGTERM = (hit, err)"
    by (cases "signal_process su (dm_self_uid (wo_daemon w)) k (cu_executable a) SIGTERM")
  show "wo_daemon w' = wo_daemon w"
    using assms by (auto simp: finish_action_def s Let_def split: prod.splits option.splits)
  show "\<exists>result. wo_effects w' = wo_effects w @
        (case fst (signal_process su (dm_self_uid (wo_daemon w)) k (cu_executable a) SIGTERM) of
           Some pid \<Rightarrow> [Killed aid pid] | None \<Rightarrow> []) @
        (case result of Some r \<Rightarrow> [Journaled aid r] | None \<Rightarrow> [])"
    using assms unfolding s
    by (auto simp: finish_action_def s Let_def split: prod.splits option.splits intro: exI [of _ None] exI [of _ "Some _"])
qed

lemma execute_cleanup_effects:
  assumes "execute_cleanup cy urls su aid a w = (out, w')"
  obtains
    (quiet) "wo_daemon w' = wo_daemon w" "wo_effects w' = wo_effects w"
  | (rejected) "wo_daemon w' = wo_daemon w" "wo_effects w' = wo_effects w @ [Journaled aid ActionRejected]"
  | (attempted) k es tail where "wo_daemon w' = wo_daemon w" "revalidate_cleanup cy urls su w a = Inr (k, es)"
      "kills tail = []"
      "wo_effects w' = wo_effects w @ [Journaled aid ActionAttempting] @
         (case fst (signal_process su (dm_self_uid (wo_daemon w)) k (cu_executable a) SIGTERM) of
            Some pid \<Rightarrow> [Killed aid pid] | None \<Rightarrow> []) @ tail"
proof (cases "revalidate_cleanup cy urls su w a")
  case (Inl e)
  then have "reject_action su aid a (fst e) (snd e @ [ev ''pre-action-refusal-v1'' (error_text (fst e))])
      (su_attempt_at su) w = (out, w')"
    using assms by (simp add: execute_cleanup_def case_prod_beta)
  from reject_action_effects [OF this] that(1,2) show ?thesis by blast
next
  case (Inr r)
  obtain k es where r: "r = (k, es)" by (cases r)
  define row where "row = action_row aid a (su_now su) (su_attempt_at su) ActionAttempting
    (Fmt ''%s authority passed full pre-action revalidation; exact-key SIGTERM is about to be attempted''
      [AStr (authority_name (cu_authority a))]) es"
  define entry where "entry = \<lparr>aq_ts = ac_updated row, aq_kind = ''action.attempting'', aq_subject = ac_uid row,
    aq_summary = Fmt ''%s action %s committed before exact-key SIGTERM for policy %s''
      [AStr (authority_name (cu_authority a)), AStr aid, AStr (ac_policy row)], aq_evidence = es\<rparr>"
  obtain err s where tx: "with_tx (su_first_tx su) (insert_with_audit row entry) (wo_store w) = (err, s)"
    by (cases "with_tx (su_first_tx su) (insert_with_audit row entry) (wo_store w)")
  show ?thesis
  proof (cases err)
    case (Some e)
    with assms Inr r tx have "w' = w"
      by (simp add: execute_cleanup_def Let_def row_def [symmetric] entry_def [symmetric])
    with that(1) show ?thesis by simp
  next
    case None
    let ?w = "w\<lparr>wo_store := s, wo_effects := wo_effects w @ [Journaled aid ActionAttempting]\<rparr>"
    from None assms Inr r tx have f: "finish_action su aid a k es ?w = (out, w')"
      by (simp add: execute_cleanup_def Let_def row_def [symmetric] entry_def [symmetric])
    from finish_action_effects [OF f] obtain result where d: "wo_daemon w' = wo_daemon w"
      and e: "wo_effects w' = wo_effects ?w @
        (case fst (signal_process su (dm_self_uid (wo_daemon ?w)) k (cu_executable a) SIGTERM) of
           Some pid \<Rightarrow> [Killed aid pid] | None \<Rightarrow> []) @
        (case result of Some r \<Rightarrow> [Journaled aid r] | None \<Rightarrow> [])" by auto
    show ?thesis
    proof (rule that(3) [OF d])
      show "revalidate_cleanup cy urls su w a = Inr (k, es)" using Inr r by simp
      show "kills (case result of Some r \<Rightarrow> [Journaled aid r] | None \<Rightarrow> []) = []" by (simp split: option.splits)
    qed (use e in simp)
  qed
qed

lemma signal_process_hit:
  "fst (signal_process su uid k exe sig) = Some pid \<Longrightarrow>
     sig = SIGTERM \<and> pid = key_pid k \<and> (\<exists>observed. su_inspect su pid = Inr observed \<and>
       pr_uid observed = uid \<and> proc_key observed = k \<and> proc_executable observed = Some exe)"
  by (auto simp: signal_process_def split: if_splits sum.splits option.splits)

section \<open>What revalidation establishes\<close>

lemma revalidate_authority_Inr:
  assumes "revalidate_authority cy su w a = Inr (cur, p, k)"
  shows "policy_definition (dm_cfg (wo_daemon w)) (pl_id (cu_policy a)) = Some p"
    and "pl_mode p = pl_mode (cu_policy a)"
    and "cleanup_authority_enabled (dm_cfg (wo_daemon w)) (cu_authority a) p"
    and "cur \<in> set (current_policy_decisions (wo_store w))"
    and "pd_id cur = pd_id (cu_decision a)" and "pd_evaluation cur = pd_evaluation (cu_decision a)" and "pd_id cur \<noteq> 0"
    and "cleanup_decision_current (dm_cfg (wo_daemon w)) (cu_authority a) cur"
    and "cy_binding cy cur p (cu_executable a) = cu_binding a"
    and "parse_key (pd_uid cur) = Inr k"
  using assms
  by (auto simp: revalidate_authority_def Let_def find_Some_iff
      split: option.splits if_splits sum.splits)

lemma authority_enabled_explicit:
  "cleanup_authority_enabled cfg au p \<Longrightarrow> pl_enabled p \<and>
     (case au of
        AuthorityManual \<Rightarrow> (cf_global_mode cfg = ModeRecommend \<or> cf_global_mode cfg = ModeEnforce) \<and> pl_mode p = ModeRecommend
      | AuthorityAutomatic \<Rightarrow> cf_global_mode cfg = ModeEnforce \<and> pl_mode p = ModeEnforce \<and> pl_automatic p)"
  by (auto simp: cleanup_authority_enabled_def manual_cleanup_enabled_def automatic_cleanup_enabled_def split: authority.splits)

lemma decision_current_explicit:
  "cleanup_decision_current cfg au cur \<Longrightarrow> pd_result cur = ResultCandidate \<or> au = AuthorityManual \<and> pd_result cur = ResultCooldown"
  by (cases au) (auto simp: cleanup_decision_current_def is_enforceable_def is_recommendation_def split: option.splits)

lemma revalidate_identity_Inr:
  assumes "revalidate_identity su a k = Inr (snap, p)"
  shows "su_snapshot su = Inr snap" and "by_key snap k = Some p"
    and "proc_executable p = Some (cu_executable a)"
  using assms
  by (auto simp: revalidate_identity_def exact_executable_def split: sum.splits option.splits if_splits)

lemma revalidate_facts_Inr:
  assumes "revalidate_facts urls su w cur k snap p = Inr f"
  shows "ff_process f = p" "ff_snapshot f = snap" "ff_tree f = build_tree snap"
    and "map_of (rs_attributions (ff_result f)) (pd_uid cur) = Some (ff_attribution f)"
    and "reconcile urls (dm_recon (wo_daemon w)) snap (build_tree snap)
      (pv_store_command_lines (cf_privacy (dm_cfg (wo_daemon w)))) = Inr (ff_result f)"
    and "at_session_id (ff_attribution f) = pd_session cur"
    and "attributed (pd_session cur) (at_confidence (ff_attribution f))"
    and "\<exists>rec. get_session (wo_store w) (pd_session cur) = Inr rec \<and>
      ff_ended f = (sr_ended_ns rec \<noteq> None \<or> pd_session cur \<in> es_session_id ` set (rs_ended (ff_result f)))"
    and "su_sample su k (at_repository (ff_attribution f)) = Inr (ff_sample f)"
    and "as_key (ff_sample f) = k" "\<not> is_zero_time (as_taken (ff_sample f))" "sn_taken snap \<le> as_taken (ff_sample f)"
  using assms
  by (auto simp: revalidate_facts_def session_ended_def Let_def split: sum.splits option.splits if_splits)

lemma revalidate_policy_Inr:
  assumes "revalidate_policy d a cur p k f = Inr es"
  shows "class_name (cr_state (fresh_conclusion d cur k f)) = pd_state cur"
    and "\<not> pe_protected (fresh_protection d k f)"
    and "\<exists>dec. evaluate_policy p (fresh_target d cur k f) (as_taken (ff_sample f)) 0 = Some dec \<and>
           dc_result dec = ResultCandidate"
  using assms by (auto simp: revalidate_policy_def Let_def split: option.splits if_splits)

lemma revalidate_cleanup_Inr:
  assumes "revalidate_cleanup cy urls su w a = Inr (k, es)"
  obtains cur p snap proc f where
    "revalidate_authority cy su w a = Inr (cur, p, k)" "revalidate_identity su a k = Inr (snap, proc)"
    "revalidate_facts urls su w cur k snap proc = Inr f" "revalidate_policy (wo_daemon w) a cur p k f = Inr es"
  using assms by (auto simp: revalidate_cleanup_def split: sum.splits)

text \<open>
  Everything that has been established, on fresh facts, when an action may go ahead, written out
  without the definitions of the lane: \<open>snap\<close> is the snapshot the platform returned for this
  request, \<open>res\<close> the reconciliation of exactly that snapshot, \<open>rec\<close> the session's row, \<open>s\<close> the
  sample taken for this request; the classifier, the protections and the policy are given nothing
  but these.
\<close>

definition gates_passed ::
  "crypto_ops \<Rightarrow> 'u url_ops \<Rightarrow> surroundings \<Rightarrow> world \<Rightarrow> cleanup_approval \<Rightarrow> decision_record \<Rightarrow> policy \<Rightarrow> key
     \<Rightarrow> snapshot \<Rightarrow> process \<Rightarrow> result \<Rightarrow> attribution \<Rightarrow> session_record \<Rightarrow> activity_sample \<Rightarrow> bool" where
  "gates_passed cy urls su w a cur p k snap proc res attr rec s \<longleftrightarrow>
     (let d = wo_daemon w; cfg = dm_cfg d;
          detached = (at_parent_observed attr \<and> pr_ppid proc \<noteq> at_original_ppid attr);
          ended = (sr_ended_ns rec \<noteq> None \<or> pd_session cur \<in> es_session_id ` set (rs_ended res));
          c = classify \<lparr>ci_key = k, ci_status = pr_status proc, ci_detached = detached, ci_session_ended = ended,
            ci_activity = class_activity_of (derive_activity
              (case map_of (dm_baseline d) (pd_uid cur) of Some b \<Rightarrow> b | None \<Rightarrow> zero_sample) s),
            ci_previous = (case map_of (dm_previous d) (pd_uid cur) of Some c \<Rightarrow> c | None \<Rightarrow> zero_previous),
            ci_cadence = sa_activity_sample (cf_sampling cfg),
            ci_detachment_detail = (if detached then
              ''observed original parent pid '' @ show_int (at_original_ppid attr) @
              '' was replaced by current parent pid '' @ show_int (pr_ppid proc) else [])\<rparr>;
          prot = evaluate_protection \<lparr>pi_process = proc, pi_self_pid = dm_self_pid d, pi_self_uid = dm_self_uid d,
            pi_is_agent_root = (case map_of (rs_roots res) (pr_pid proc) of Some rt \<Rightarrow> ar_key rt = k | None \<Rightarrow> False),
            pi_session_active = (\<not> ended), pi_confidence = at_confidence attr,
            pi_descendants = int (length (descendants (build_tree snap) (pr_pid proc))),
            pi_adapter_rules = concat (List.map ag_protected_patterns (rc_reg (dm_recon d)))\<rparr> in
      policy_definition cfg (pl_id (cu_policy a)) = Some p \<and> pl_mode p = pl_mode (cu_policy a) \<and> pl_enabled p \<and>
      (case cu_authority a of
         AuthorityManual \<Rightarrow> (cf_global_mode cfg = ModeRecommend \<or> cf_global_mode cfg = ModeEnforce) \<and> pl_mode p = ModeRecommend
       | AuthorityAutomatic \<Rightarrow> cf_global_mode cfg = ModeEnforce \<and> pl_mode p = ModeEnforce \<and> pl_automatic p) \<and>
      cur \<in> set (current_policy_decisions (wo_store w)) \<and> pd_id cur = pd_id (cu_decision a) \<and>
      pd_evaluation cur = pd_evaluation (cu_decision a) \<and> pd_id cur \<noteq> 0 \<and>
      (pd_result cur = ResultCandidate \<or> cu_authority a = AuthorityManual \<and> pd_result cur = ResultCooldown) \<and>
      cy_binding cy cur p (cu_executable a) = cu_binding a \<and>
      parse_key (pd_uid cur) = Inr k \<and> su_snapshot su = Inr snap \<and> by_key snap k = Some proc \<and>
      proc_executable proc = Some (cu_executable a) \<and>
      reconcile urls (dm_recon d) snap (build_tree snap) (pv_store_command_lines (cf_privacy cfg)) = Inr res \<and>
      map_of (rs_attributions res) (pd_uid cur) = Some attr \<and>
      at_session_id attr = pd_session cur \<and> pd_session cur \<noteq> [] \<and> confidence_attributable \<le> at_confidence attr \<and>
      get_session (wo_store w) (pd_session cur) = Inr rec \<and>
      su_sample su k (at_repository attr) = Inr s \<and> as_key s = k \<and> \<not> is_zero_time (as_taken s) \<and> sn_taken snap \<le> as_taken s \<and>
      class_name (cr_state c) = pd_state cur \<and> \<not> pe_protected prot \<and>
      (\<exists>dec. evaluate_policy p \<lparr>tg_proc_uid = key_uid k, tg_session_id = pd_session cur, tg_class_ts = as_taken s,
          tg_state = class_name (cr_state c), tg_stable_since = cr_stable_since c, tg_agent_id = at_agent_id attr,
          tg_executable = proc_name proc, tg_detached = detached, tg_session_ended = ended, tg_protection = prot\<rparr>
          (as_taken s) 0 = Some dec \<and> dc_result dec = ResultCandidate))"

lemma revalidate_gates:
  assumes "revalidate_cleanup cy urls su w a = Inr (k, es)"
  shows "\<exists>cur p snap proc res attr rec s. gates_passed cy urls su w a cur p k snap proc res attr rec s"
proof -
  from assms obtain cur p snap proc f where r:
    "revalidate_authority cy su w a = Inr (cur, p, k)" "revalidate_identity su a k = Inr (snap, proc)"
    "revalidate_facts urls su w cur k snap proc = Inr f" "revalidate_policy (wo_daemon w) a cur p k f = Inr es"
    by (rule revalidate_cleanup_Inr)
  note authority = revalidate_authority_Inr [OF r(1)] and facts = revalidate_facts_Inr [OF r(3)]
  from facts(8) obtain rec where rec: "get_session (wo_store w) (pd_session cur) = Inr rec"
    "ff_ended f = (sr_ended_ns rec \<noteq> None \<or> pd_session cur \<in> es_session_id ` set (rs_ended (ff_result f)))" by blast
  note fresh = fresh_conclusion_def fresh_detached_def fresh_protection_def protection_for_def fresh_target_def Let_def
  note outcome = revalidate_policy_Inr [OF r(4), unfolded fresh, unfolded facts(1,2,3,6) rec(2)]
  have "gates_passed cy urls su w a cur p k snap proc (ff_result f) (ff_attribution f) rec (ff_sample f)"
    unfolding gates_passed_def Let_def
    using authority authority_enabled_explicit [OF authority(3)] decision_current_explicit [OF authority(8)]
      revalidate_identity_Inr [OF r(2)] facts rec(1) outcome
    by (auto simp: attributed_def)
  then show ?thesis by blast
qed

text \<open>C1: No signal without every gate. If executing a cleanup hands a signal to the kernel, the
  attempt of that action was committed first, and: the policy still exists in the same mode, is enabled, and
  the global mode allows its authority; the bound decision is among the current ones and its binding
  matches; the snapshot the platform returned for this request contains the exact process with the bound
  executable image; the reconciliation of that snapshot attributes it with enough confidence to the decision's
  session; the session's end is that of its row or of the reconciliation; the sample taken for this request
  leads to the decided class; no hard protection applies to these facts; the policy still finds
  a candidate in them; and right before the signal the process with that PID was the same user's process
  with the same key and image.\<close>

theorem signal_requires_every_gate:
  assumes "execute_cleanup cy urls su aid a w = (out, w')"
    and "wo_effects w' = wo_effects w @ new" and "Killed aid' pid \<in> set new"
  shows "\<exists>cur p k snap proc res attr rec s observed tail. gates_passed cy urls su w a cur p k snap proc res attr rec s \<and>
    new = [Journaled aid ActionAttempting, Killed aid pid] @ tail \<and> kills tail = [] \<and> aid' = aid \<and>
    pid = key_pid k \<and> su_inspect su pid = Inr observed \<and> pr_uid observed = dm_self_uid (wo_daemon w) \<and>
    proc_key observed = k \<and> proc_executable observed = Some (cu_executable a)"
  using assms(1)
proof (cases rule: execute_cleanup_effects)
  case quiet
  with assms(2,3) show ?thesis by simp
next
  case rejected
  with assms(2,3) show ?thesis by auto
next
  case (attempted k es tail)
  let ?hit = "fst (signal_process su (dm_self_uid (wo_daemon w)) k (cu_executable a) SIGTERM)"
  have new: "new = [Journaled aid ActionAttempting] @ (case ?hit of Some pid \<Rightarrow> [Killed aid pid] | None \<Rightarrow> []) @ tail"
    using attempted(4) assms(2) by simp
  have "Killed aid' pid \<notin> set tail" using attempted(3) by (auto simp: kills_def filter_empty_conv)
  with new assms(3) have hit: "?hit = Some pid" "aid' = aid" by (auto split: option.splits)
  from revalidate_gates [OF attempted(2)] obtain cur p snap proc res attr rec s where
    "gates_passed cy urls su w a cur p k snap proc res attr rec s" by blast
  moreover from signal_process_hit [OF hit(1)] obtain observed where "pid = key_pid k"
    "su_inspect su pid = Inr observed" "pr_uid observed = dm_self_uid (wo_daemon w)"
    "proc_key observed = k" "proc_executable observed = Some (cu_executable a)" by blast
  moreover have "new = [Journaled aid ActionAttempting, Killed aid pid] @ tail"
    using new hit(1) by simp
  ultimately show ?thesis using hit(2) attempted(3) by blast
qed

text \<open>C27: An approved cleanup goes through. If revalidation passes, the action id is new, both transactions
  commit and the process is still the same right before the signal, then executing the cleanup
  does send the signal, journals its outcome, and reports it as signalled.\<close>

theorem gated_cleanup_signals:
  assumes "revalidate_cleanup cy urls su w a = Inr (k, es)" and "aid \<notin> ac_id ` set (sto_actions (wo_store w))"
    and "su_first_tx su = None" and "su_second_tx su = None" and "su_cancelled su = None"
    and "su_inspect su (key_pid k) = Inr observed" and "pr_uid observed = dm_self_uid (wo_daemon w)"
    and "proc_key observed = k" and "proc_executable observed = Some (cu_executable a)" and "su_kill su (key_pid k) = None"
  shows "\<exists>w'. execute_cleanup cy urls su aid a w =
      (Inr (action_response aid a ActionSignalled (su_completed_at su)), w') \<and>
    wo_effects w' = wo_effects w @
      [Journaled aid ActionAttempting, Killed aid (key_pid k), Journaled aid ActionSignalled] \<and>
    (\<exists>row \<in> set (sto_actions (wo_store w')). ac_id row = aid \<and> ac_result row = ActionSignalled)"
proof -
  have "signal_process su (dm_self_uid (wo_daemon w)) k (cu_executable a) SIGTERM = (Some (key_pid k), None)"
    using assms(5-10) by (simp add: signal_process_def)
  moreover have "filter (\<lambda>a. ac_id a = aid) (sto_actions (wo_store w)) = []"
    using assms(2) by (auto simp: filter_empty_conv)
  ultimately show ?thesis
    using assms(1-4)
    by (simp add: execute_cleanup_def finish_action_def Let_def with_tx_def insert_with_audit_def insert_action_def
        update_with_audit_def update_action_def action_row_def append_action_audit_def)
qed

section \<open>A world in which a signal is sent\<close>

text \<open>
  Process 8, reparented and owned by the ended session \<open>s1\<close>; a recommending policy has
  produced decision 1 about it, and nothing has changed since.
\<close>

definition sample_snapshot :: snapshot where
  "sample_snapshot = new_snapshot 90 [sample_process 8 1 60] 1"

definition sample_exe :: executable where
  "sample_exe = \<lparr>ex_path = ''/opt/bin/worker'', ex_comm = ''worker''\<rparr>"

definition sample_policy :: policy where
  "sample_policy = \<lparr>pl_id = ''p1'', pl_description = [], pl_enabled = True, pl_mode = ModeRecommend,
     pl_automatic = False, pl_states = [''unknown''], pl_agents = [''codex''], pl_executables = [''worker''],
     pl_require_detached = True, pl_require_session_ended = True, pl_min_stable = 0, pl_cooldown = hour\<rparr>"

definition sample_decision :: decision_record where
  "sample_decision = \<lparr>pd_id = 1, pd_evaluation = 1, pd_policy = ''p1'', pd_uid = key_uid (new_key 8 60),
     pd_session = ''s1'', pd_ts = 80, pd_class_ts = 80, pd_state = ''unknown'', pd_result = ResultCandidate,
     pd_reason = Text [], pd_cooldown = 0, pd_evidence = []\<rparr>"

definition sample_approval :: "crypto_ops \<Rightarrow> bool \<Rightarrow> cleanup_approval" where
  "sample_approval cy used = \<lparr>cu_binding = cy_binding cy sample_decision sample_policy sample_exe,
     cu_decision = sample_decision, cu_policy = sample_policy, cu_executable = sample_exe,
     cu_authority = AuthorityManual, cu_expires = 91 + approval_lifetime, cu_used = used\<rparr>"

definition sample_store :: "action_audit list \<Rightarrow> store" where
  "sample_store entries = empty_store\<lparr>sto_action_audit := entries, sto_evaluations := [(1, 80)], sto_next_evaluation := 2,
     sto_decisions := [sample_decision], sto_next_decision := 2,
     sto_processes := [(key_uid (new_key 8 60),
       process_row sample_reconciler (sample_process 8 1 60) no_attribution 80 [], None)],
     sto_sessions := [(''s1'', (session_row sample_reconciler (sample_graph [] []) ''s1''
       (sample_root ''codex'' 7 50 1) [] 80)\<lparr>sr_ended_ns := Some 70\<rparr>)]\<rparr>"

definition sample_daemon :: "(string \<times> cleanup_approval) list \<Rightarrow> daemon" where
  "sample_daemon as = \<lparr>dm_cfg = default_config\<lparr>cf_global_mode := ModeRecommend, cf_policies := [sample_policy]\<rparr>,
     dm_recon = sample_reconciler, dm_self_pid = 2, dm_self_uid = 501, dm_snapshot = Some sample_snapshot,
     dm_baseline = [], dm_previous = [], dm_approvals = as, dm_degraded = [], dm_last_activity = 0,
     dm_last_classification = 0, dm_last_policy = 0\<rparr>"

definition sample_world :: "(string \<times> cleanup_approval) list \<Rightarrow> action_audit list \<Rightarrow> world" where
  "sample_world as entries = \<lparr>wo_daemon = sample_daemon as, wo_store = sample_store entries, wo_effects = []\<rparr>"

definition sample_surroundings :: surroundings where
  "sample_surroundings = \<lparr>su_snapshot = Inr sample_snapshot,
     su_sample = (\<lambda>k _. Inr (zero_sample\<lparr>as_key := k, as_taken := 95\<rparr>)),
     su_inspect = (\<lambda>_. Inr (sample_process 8 1 60)), su_kill = (\<lambda>_. None), su_cancelled = None,
     su_decisions_error = None, su_first_tx = None, su_second_tx = None, su_audit_tx = None,
     su_secret = Inr ''t'', su_action_secret = Inr ''1'', su_now = 91, su_attempt_at = 96, su_completed_at = 97\<rparr>"

definition sample_crypto :: crypto_ops where
  "sample_crypto = \<lparr>cy_digest = (\<lambda>t. CHR ''#'' # t), cy_binding = (\<lambda>d p e. pd_uid d @ pl_id p @ ex_path e)\<rparr>"

lemmas sample_defs = sample_policy_def sample_decision_def sample_approval_def sample_store_def
  sample_daemon_def sample_world_def sample_surroundings_def sample_exe_def empty_store_def

lemma key_in_range_sample: "key_in_range (new_key 8 60)"
  by (simp add: key_in_range_def new_key_def unix_nano_def wrap64_in_range) (simp add: in_int64_def int64_min_def int64_max_def)

lemma sample_authority:
  "revalidate_authority cy sample_surroundings (sample_world as entries) (sample_approval cy used) =
     Inr (sample_decision, sample_policy, new_key 8 60)"
  by (simp add: sample_defs revalidate_authority_def Let_def policy_definition_def cleanup_authority_enabled_def
      manual_cleanup_enabled_def current_policy_decisions_def max_evaluation_def process_live_def is_latest_def
      cleanup_decision_current_def is_recommendation_def parse_key_uid [OF key_in_range_sample])

lemma sample_proc_simps [simp]:
  "proc_executable (sample_process pid ppid start) = Some sample_exe"
  "proc_name (sample_process pid ppid start) = ''worker''"
  "pr_status (sample_process pid ppid start) = StatusRunning"
  by (code_simp; simp add: sample_process_def proc_executable_def sample_exe_def proc_name_def)+

lemma sample_by_key: "by_key sample_snapshot (new_key 8 60) = Some (sample_process 8 1 60)"
  unfolding sample_snapshot_def by (subst by_key_exact) simp_all

lemma sample_identity:
  "revalidate_identity sample_surroundings (sample_approval cy used) (new_key 8 60) =
     Inr (sample_snapshot, sample_process 8 1 60)"
  by (simp add: revalidate_identity_def exact_executable_def sample_surroundings_def sample_approval_def sample_by_key)

lemma sample_reconciled:
  obtains res attr where
    "reconcile urls sample_reconciler sample_snapshot (build_tree sample_snapshot) cmds = Inr res"
    "map_of (rs_attributions res) (key_uid (new_key 8 60)) = Some attr" "rs_roots res = []"
    "at_session_id attr = ''s1''" "at_agent_id attr = ''codex''" "at_confidence attr = 97 / 100"
    "at_original_ppid attr = 7" "at_parent_observed attr"
proof -
  have "\<exists>res attr. reconcile urls sample_reconciler sample_snapshot (build_tree sample_snapshot) cmds = Inr res \<and>
    map_of (rs_attributions res) (key_uid (new_key 8 60)) = Some attr \<and> rs_roots res = [] \<and>
    at_session_id attr = ''s1'' \<and> at_agent_id attr = ''codex'' \<and> at_confidence attr = 97 / 100 \<and>
    at_original_ppid attr = 7 \<and> at_parent_observed attr"
    by (simp add: reconcile_def Let_def build_sessions_def choose_all_def root_pids_def empty_result_def
        discover_provider_sessions_def build_provider_sessions_def end_departed_sessions_def sample_snapshot_def
        new_snapshot_def attribute_one_def attribution_of_def attribute_def record_process_def
        record_relationships_def no_attribution_def recorded_attribution_def sample_ownership_def
        demote_secondary_def enrich_def)
  with that show thesis by blast
qed

lemma sample_unprotected:
  "executable_protection ''worker'' = None" "pr_tty (sample_process pid ppid start) = []" "pr_sid (sample_process pid ppid start) = 0"
  by (code_simp, simp_all add: sample_process_def no_tty_def)

lemma sample_tree_leaf: "descendants (build_tree sample_snapshot) 8 = []"
  by code_simp

lemma classify_incomplete_since:
  assumes "ci_status i \<noteq> StatusZombie" "\<not> complete_evidence (ci_activity i)"
  shows "cr_stable_since (classify_body i) = ca_taken (ci_activity i)"
  using assms incomplete_reason_None [of "ci_activity i"]
  by (auto simp: classify_body_def Let_def split: option.splits)

text \<open>Without a baseline for the exact process the fresh conclusion is unknown, from now on.\<close>

lemma fresh_conclusion_no_baseline:
  assumes "map_of (dm_baseline d) (pd_uid cur) = None" and "pr_status (ff_process f) \<noteq> StatusZombie"
  shows "cr_state (fresh_conclusion d cur k f) = ClassUnknown"
    and "cr_stable_since (fresh_conclusion d cur k f) = as_taken (ff_sample f)"
proof -
  have no: "\<not> complete_evidence (class_activity_of (derive_activity zero_sample (ff_sample f)))"
    by (simp add: complete_evidence_def class_activity_of_def derive_activity_def fresh_delta_def zero_sample_def is_zero_time_def)
  show "cr_state (fresh_conclusion d cur k f) = ClassUnknown"
    unfolding fresh_conclusion_def classify_fields
    by (rule classify_incomplete) (use assms no in simp_all)
  have "cr_stable_since (fresh_conclusion d cur k f) =
      ca_taken (class_activity_of (derive_activity zero_sample (ff_sample f)))"
    unfolding fresh_conclusion_def classify_fields
    by (subst classify_incomplete_since) (use assms no in simp_all)
  then show "cr_stable_since (fresh_conclusion d cur k f) = as_taken (ff_sample f)"
    by (simp add: class_activity_of_def derive_activity_copies)
qed

lemma sample_facts:
  obtains f es where
    "revalidate_facts urls sample_surroundings (sample_world as entries) sample_decision (new_key 8 60) sample_snapshot
       (sample_process 8 1 60) = Inr f"
    "revalidate_policy (sample_daemon as) (sample_approval cy used) sample_decision sample_policy (new_key 8 60) f = Inr es"
proof -
  obtain res attr where r: "reconcile urls sample_reconciler sample_snapshot (build_tree sample_snapshot) True = Inr res"
    "map_of (rs_attributions res) (key_uid (new_key 8 60)) = Some attr" "rs_roots res = []"
    "at_session_id attr = ''s1''" "at_agent_id attr = ''codex''" "at_confidence attr = 97 / 100"
    "at_original_ppid attr = 7" "at_parent_observed attr"
    by (rule sample_reconciled [of urls True])
  let ?f = "\<lparr>ff_snapshot = sample_snapshot, ff_process = sample_process 8 1 60, ff_tree = build_tree sample_snapshot,
    ff_result = res, ff_attribution = attr, ff_ended = True, ff_sample = zero_sample\<lparr>as_key := new_key 8 60, as_taken := 95\<rparr>\<rparr>"
  have ended: "session_ended (sample_store entries) ''s1'' res = Inr True"
    by (simp add: session_ended_def get_session_def session_matches_def sample_store_def)
  have facts: "revalidate_facts urls sample_surroundings (sample_world as entries) sample_decision (new_key 8 60) sample_snapshot
       (sample_process 8 1 60) = Inr ?f"
    using r ended by (simp add: revalidate_facts_def Let_def sample_surroundings_def sample_world_def sample_decision_def
      sample_daemon_def default_config_def attributed_def confidence_attributable_def is_zero_time_def sample_snapshot_def new_snapshot_def)
  have st: "cr_state (fresh_conclusion (sample_daemon as) sample_decision (new_key 8 60) ?f) = ClassUnknown"
      "cr_stable_since (fresh_conclusion (sample_daemon as) sample_decision (new_key 8 60) ?f) = 95"
    using fresh_conclusion_no_baseline [of "sample_daemon as" sample_decision ?f "new_key 8 60"]
    by (simp_all add: sample_daemon_def)
  have pr: "\<not> pe_protected (fresh_protection (sample_daemon as) (new_key 8 60) ?f)"
    using r sample_tree_leaf unfolding fresh_protection_def protection_for_def protected_iff_clear
    by (simp add: clears_protection_def Let_def sample_daemon_def sample_unprotected)
  let ?t = "fresh_target (sample_daemon as) sample_decision (new_key 8 60) ?f"
  have "\<not> no_match sample_policy ?t 95"
    using st r(4-8) unfolding not_no_match
    by (simp add: fresh_target_def Let_def sample_policy_def fresh_detached_def time_sub_def)
  then obtain dec where dec: "evaluate_policy sample_policy ?t 95 0 = Some dec"
    using evaluate_policy_None [of sample_policy ?t 95 0] by auto
  have "tg_protection ?t = fresh_protection (sample_daemon as) (new_key 8 60) ?f" by (simp add: fresh_target_def Let_def)
  then have "dc_result dec = ResultCandidate" using evaluate_policy_result(2) [OF dec] pr by simp
  then have "\<exists>es. revalidate_policy (sample_daemon as) (sample_approval cy used) sample_decision sample_policy (new_key 8 60) ?f = Inr es"
    using dec st pr by (simp add: revalidate_policy_def Let_def sample_decision_def)
  with facts that show thesis by blast
qed

lemma sample_revalidated:
  obtains es where "revalidate_cleanup cy urls sample_surroundings (sample_world as entries) (sample_approval cy used) =
    Inr (new_key 8 60, es)"
proof -
  obtain f es where f: "revalidate_facts urls sample_surroundings (sample_world as entries) sample_decision (new_key 8 60)
       sample_snapshot (sample_process 8 1 60) = Inr f"
    "revalidate_policy (sample_daemon as) (sample_approval cy used) sample_decision sample_policy (new_key 8 60) f = Inr es"
    by (rule sample_facts)
  then have "revalidate_cleanup cy urls sample_surroundings (sample_world as entries) (sample_approval cy used) = Inr (new_key 8 60, es)"
    by (simp add: revalidate_cleanup_def sample_authority sample_identity) (simp add: sample_world_def)
  with that show thesis by blast
qed

lemma sample_execution:
  obtains out w' where "execute_cleanup cy urls sample_surroundings ''act_1'' (sample_approval cy used) (sample_world as entries) = (out, w')"
    "wo_effects w' = [Journaled ''act_1'' ActionAttempting, Killed ''act_1'' 8, Journaled ''act_1'' ActionSignalled]"
proof -
  obtain es where "revalidate_cleanup cy urls sample_surroundings (sample_world as entries) (sample_approval cy used) =
      Inr (new_key 8 60, es)" by (rule sample_revalidated)
  moreover have "signal_process sample_surroundings 501 (new_key 8 60) sample_exe SIGTERM = (Some 8, None)"
    by (simp add: signal_process_def sample_surroundings_def new_key_def)
  ultimately have "wo_effects (snd (execute_cleanup cy urls sample_surroundings ''act_1'' (sample_approval cy used) (sample_world as entries))) =
      [Journaled ''act_1'' ActionAttempting, Killed ''act_1'' 8, Journaled ''act_1'' ActionSignalled]"
    by (simp add: execute_cleanup_def finish_action_def Let_def with_tx_def insert_with_audit_def insert_action_def
        update_with_audit_def update_action_def action_row_def append_action_audit_def sample_defs)
  with that show thesis by (metis prod.collapse)
qed

theorem signal_requires_every_gate_witness:
  "\<exists>out w'. execute_cleanup sample_crypto no_urls sample_surroundings ''act_1'' (sample_approval sample_crypto False) (sample_world [] [])
       = (out, w') \<and> Killed ''act_1'' 8 \<in> set (wo_effects w') \<and>
     (\<exists>cur p k snap proc res attr rec s. gates_passed sample_crypto no_urls sample_surroundings (sample_world [] [])
        (sample_approval sample_crypto False) cur p k snap proc res attr rec s)"
proof -
  obtain out w' where run: "execute_cleanup sample_crypto no_urls sample_surroundings ''act_1''
      (sample_approval sample_crypto False) (sample_world [] []) = (out, w')"
    and e: "wo_effects w' = [Journaled ''act_1'' ActionAttempting, Killed ''act_1'' 8, Journaled ''act_1'' ActionSignalled]"
    by (rule sample_execution)
  have "wo_effects w' = wo_effects (sample_world [] []) @ wo_effects w'" by (simp add: sample_world_def)
  moreover have hit: "Killed ''act_1'' 8 \<in> set (wo_effects w')" using e by simp
  ultimately have "\<exists>cur p k snap proc res attr rec s. gates_passed sample_crypto no_urls sample_surroundings (sample_world [] [])
      (sample_approval sample_crypto False) cur p k snap proc res attr rec s"
    using signal_requires_every_gate [OF run, of "wo_effects w'" "''act_1''" 8] by metis
  with run hit show ?thesis by blast
qed

theorem gated_cleanup_signals_witness:
  "\<exists>w'. execute_cleanup sample_crypto no_urls sample_surroundings ''act_1'' (sample_approval sample_crypto False) (sample_world [] [])
       = (Inr (action_response ''act_1'' (sample_approval sample_crypto False) ActionSignalled 97), w') \<and>
     wo_effects w' = [Journaled ''act_1'' ActionAttempting, Killed ''act_1'' 8, Journaled ''act_1'' ActionSignalled]"
proof -
  obtain es where r: "revalidate_cleanup sample_crypto no_urls sample_surroundings (sample_world [] [])
      (sample_approval sample_crypto False) = Inr (new_key 8 60, es)" by (rule sample_revalidated)
  have "key_pid (new_key 8 60) = 8" by (simp add: new_key_def)
  with gated_cleanup_signals [OF r, of "''act_1''" "sample_process 8 1 60"] show ?thesis
    by (auto simp: sample_defs)
qed

end
