(* ===== verification/Lane_Runs.thy ===== *)
theory Lane_Runs
  imports Action_Laws
begin

text \<open>
  Whole runs of the cleanup lane: previews, applications, automatic passes, scans and
  restarts in any order. What one request guarantees is carried along the runs by two
  locales, one for the effects and one for invariants.
\<close>

section \<open>Runs of the cleanup lane\<close>

text \<open>
  The lane's requests, and what else happens to the world: scans and other requests change
  the daemon and the store but neither touch the approvals or the configuration nor signal;
  a restart forgets all approvals and loads a configuration. \<open>fresh\<close> says which digests a
  preview may issue, \<open>loaded\<close> which configurations a restart may load.
\<close>

inductive lane_step ::
  "crypto_ops \<Rightarrow> 'u url_ops \<Rightarrow> (string \<Rightarrow> bool) \<Rightarrow> (config \<Rightarrow> bool) \<Rightarrow> world \<Rightarrow> world \<Rightarrow> bool"
  for cy urls fresh loaded where
  preview: "cleanup_preview cy su pid uid w = (out, w') \<Longrightarrow>
     (\<And>token. su_secret su = Inr token \<Longrightarrow> fresh (cy_digest cy token)) \<Longrightarrow> lane_step cy urls fresh loaded w w'"
| applied: "cleanup_apply cy urls su token w = (out, w') \<Longrightarrow> lane_step cy urls fresh loaded w w'"
| automatic: "run_automatic_cleanup cy urls su due w = w' \<Longrightarrow> lane_step cy urls fresh loaded w w'"
| observe: "wo_effects w' = wo_effects w \<Longrightarrow> dm_approvals (wo_daemon w') = dm_approvals (wo_daemon w) \<Longrightarrow>
     dm_cfg (wo_daemon w') = dm_cfg (wo_daemon w) \<Longrightarrow> lane_step cy urls fresh loaded w w'"
| restart: "wo_effects w' = wo_effects w \<Longrightarrow> dm_approvals (wo_daemon w') = [] \<Longrightarrow>
     loaded (dm_cfg (wo_daemon w')) \<Longrightarrow> lane_step cy urls fresh loaded w w'"

text \<open>An invariant of a step relation holds along its runs.\<close>

locale step_invariant =
  fixes step :: "'w \<Rightarrow> 'w \<Rightarrow> bool" and good :: "'w \<Rightarrow> bool"
  assumes preserved: "step w w' \<Longrightarrow> good w \<Longrightarrow> good w'"
begin

lemma run_keeps: "step\<^sup>*\<^sup>* w w' \<Longrightarrow> good w \<Longrightarrow> good w'"
  by (induction rule: rtranclp_induct) (auto dest: preserved)

end

text \<open>
  A lane that moves things: each of its steps appends effects that move nothing, or exactly one
  move directly after the journaled attempt it belongs to. Then that holds of all moves of a run.
\<close>

definition directly_after :: "('e \<Rightarrow> bool) \<Rightarrow> ('e \<Rightarrow> bool) \<Rightarrow> 'e list \<Rightarrow> bool" where
  "directly_after mutates attempt es \<longleftrightarrow> (\<forall>before e after. es = before @ e # after \<and> mutates e \<longrightarrow>
     (\<exists>b a. before = b @ [a] \<and> attempt a))"

lemma directly_after_quiet: "list_all (\<lambda>e. \<not> mutates e) es \<Longrightarrow> directly_after mutates attempt es"
  by (auto simp: directly_after_def list_all_iff)

lemma directly_after_pair:
  "list_all (\<lambda>e. \<not> mutates e) es \<Longrightarrow> attempt a \<Longrightarrow> \<not> mutates a \<Longrightarrow> directly_after mutates attempt (a # e # es)"
  by (auto simp: directly_after_def list_all_iff Cons_eq_append_conv)

lemma directly_after_append:
  assumes "directly_after mutates attempt xs" and "directly_after mutates attempt ys"
  shows "directly_after mutates attempt (xs @ ys)"
  unfolding directly_after_def
proof (intro allI impI, elim conjE)
  fix before e after assume eq: "xs @ ys = before @ e # after" and m: "mutates e"
  from eq consider us where "xs = before @ e # us" | us where "before = xs @ us" "ys = us @ e # after"
  proof -
    from eq obtain us where "xs = before @ us \<and> us @ ys = e # after \<or> xs @ us = before \<and> ys = us @ e # after"
      by (auto simp: append_eq_append_conv2)
    then show thesis using that by (cases us) auto
  qed
  then show "\<exists>b a. before = b @ [a] \<and> attempt a"
  proof cases
    case 1
    with assms(1) m show ?thesis by (auto simp: directly_after_def)
  next
    case 2
    with assms(2) m obtain b a where "us = b @ [a]" "attempt a"
      unfolding directly_after_def by blast
    with 2 show ?thesis by simp
  qed
qed

locale moving_lane =
  fixes step :: "'w \<Rightarrow> 'w \<Rightarrow> bool" and effects :: "'w \<Rightarrow> 'e list"
    and mutates attempt :: "'e \<Rightarrow> bool"
  assumes attempts_move_nothing: "attempt a \<Longrightarrow> \<not> mutates a"
    and step_moves_once: "step w w' \<Longrightarrow> (\<exists>es. effects w' = effects w @ es \<and> list_all (\<lambda>e. \<not> mutates e) es) \<or>
      (\<exists>a e es. effects w' = effects w @ a # e # es \<and> attempt a \<and> list_all (\<lambda>e. \<not> mutates e) es)"
begin

lemma step_directly_after:
  assumes "step w w'" and "directly_after mutates attempt (effects w)"
  shows "directly_after mutates attempt (effects w')"
  using step_moves_once [OF assms(1)] assms(2)
  by (auto simp: directly_after_append directly_after_quiet directly_after_pair attempts_move_nothing)

lemma run_directly_after:
  "step\<^sup>*\<^sup>* w w' \<Longrightarrow> directly_after mutates attempt (effects w) \<Longrightarrow> directly_after mutates attempt (effects w')"
  by (induction rule: rtranclp_induct) (auto intro: step_directly_after)

lemma run_move_attempted:
  assumes "step\<^sup>*\<^sup>* w w'" and "effects w = []" and "effects w' = before @ e # after" and "mutates e"
  shows "\<exists>b a. before = b @ [a] \<and> attempt a"
  using run_directly_after [OF assms(1)] assms(2-4) by (auto simp: directly_after_def)

end

text \<open>
  A lane that acts on the outside: each of its steps appends effects, journaled among
  themselves and with at most one signal. The laws are about one step; the lemmas are about
  whole runs.
\<close>

locale signalling_lane =
  fixes step :: "'w \<Rightarrow> 'w \<Rightarrow> bool"
    and effects :: "'w \<Rightarrow> effect list"
  assumes step_extends: "step w w' \<Longrightarrow> \<exists>new. effects w' = effects w @ new \<and> journaled new \<and> length (kills new) \<le> 1"
begin

lemma run_extends: "step\<^sup>*\<^sup>* w w' \<Longrightarrow> \<exists>new. effects w' = effects w @ new \<and> journaled new"
proof (induction rule: rtranclp_induct)
  case base
  show ?case by (intro exI [of _ "[]"]) (simp add: journaled_no_kills)
next
  case (step w1 w2)
  then obtain xs ys where "effects w1 = effects w @ xs" "journaled xs" "effects w2 = effects w1 @ ys" "journaled ys"
    using step_extends [OF step.hyps(2)] by auto
  then show ?case by (intro exI [of _ "xs @ ys"]) (simp add: journaled_append)
qed

lemma run_journaled: "step\<^sup>*\<^sup>* w w' \<Longrightarrow> journaled (effects w) \<Longrightarrow> journaled (effects w')"
  using run_extends journaled_append by metis

end

lemma issue_approval_effects:
  "issue_approval cy su rec exe p token w = (out, w') \<Longrightarrow> wo_effects w' = wo_effects w"
  by (auto simp: issue_approval_def Let_def split: if_splits prod.splits option.splits)

lemma cleanup_preview_effects: "cleanup_preview cy su pid uid w = (out, w') \<Longrightarrow> wo_effects w' = wo_effects w"
  by (auto simp: cleanup_preview_def dest: issue_approval_effects split: sum.splits option.splits)

lemma execute_cleanup_journaled:
  assumes "execute_cleanup cy urls su aid a w = (out, w')"
  shows "\<exists>new. wo_effects w' = wo_effects w @ new \<and> journaled new \<and> length (kills new) \<le> 1"
  using assms
proof (cases rule: execute_cleanup_effects)
  case (attempted k es tail)
  let ?hit = "fst (signal_process su (dm_self_uid (wo_daemon w)) k (cu_executable a) SIGTERM)"
  have "journaled ([Journaled aid ActionAttempting] @ (case ?hit of Some pid \<Rightarrow> [Killed aid pid] | None \<Rightarrow> []) @ tail)"
    using journaled_attempt [OF attempted(3), of aid] journaled_no_kills attempted(3)
    by (cases ?hit) auto
  with attempted show ?thesis by (fastforce split: option.splits)
qed (auto intro: journaled_no_kills)

lemma consume_approval_None:
  "consume_approval cy token now d = ((None, r), d') \<Longrightarrow> d' = d"
  by (auto simp: consume_approval_def Let_def split: option.splits if_splits)

lemma cleanup_apply_cases:
  assumes "cleanup_apply cy urls su token w = (out, w')"
  obtains
    (quiet) d where "w' = w\<lparr>wo_daemon := d\<rparr>"
  | (refused) a e aid d where "consume_approval cy token (su_now su) (wo_daemon w) = ((Some a, Some e), d)"
      "reject_action su aid a e [ev ''approval-consumption-v1'' (error_text e)] (su_now su) (w\<lparr>wo_daemon := d\<rparr>) = (out, w')"
  | (granted) a aid d where "consume_approval cy token (su_now su) (wo_daemon w) = ((Some a, None), d)"
      "execute_cleanup cy urls su aid a (w\<lparr>wo_daemon := d\<rparr>) = (out, w')"
proof -
  obtain a r d where c: "consume_approval cy token (su_now su) (wo_daemon w) = ((a, r), d)"
    by (metis prod.exhaust)
  show thesis
  proof (cases "token = [] \<or> a = None \<or> (\<exists>e. su_action_secret su = Inl e)")
    case True
    then have "w' = w\<lparr>wo_daemon := wo_daemon w\<rparr> \<or> w' = w\<lparr>wo_daemon := d\<rparr>"
      using assms by (auto simp: cleanup_apply_def c Let_def split: if_splits option.splits)
    with quiet show thesis by blast
  next
    case False
    then obtain b secret where "a = Some b" "su_action_secret su = Inr secret" "token \<noteq> []"
      by (cases "su_action_secret su") auto
    with assms c refused granted show thesis
      by (cases r) (auto simp: cleanup_apply_def Let_def)
  qed
qed

lemma cleanup_apply_journaled:
  assumes "cleanup_apply cy urls su token w = (out, w')"
  shows "\<exists>new. wo_effects w' = wo_effects w @ new \<and> journaled new \<and> length (kills new) \<le> 1"
  using assms
proof (cases rule: cleanup_apply_cases)
  case (quiet d)
  then show ?thesis by (intro exI [of _ "[]"]) (simp add: journaled_no_kills)
next
  case (refused a e aid d)
  from reject_action_effects [OF refused(2)]
  have "wo_effects w' = wo_effects w @ [] \<or> wo_effects w' = wo_effects w @ [Journaled aid ActionRejected]" by simp
  moreover have "journaled []" "journaled [Journaled aid ActionRejected]" by (simp_all add: journaled_no_kills)
  ultimately show ?thesis by (metis kills_simps(1,2) le_zero_eq linear list.size(3))
next
  case (granted a aid d)
  then show ?thesis using execute_cleanup_journaled [OF granted(2)] by simp
qed

lemma record_automatic_failure_effects [simp]: "wo_effects (record_automatic_failure su reason w) = wo_effects w"
  by (simp add: record_automatic_failure_def Let_def)

lemma execute_automatic_journaled:
  "\<exists>new. wo_effects (execute_automatic_decision cy urls su rec w) = wo_effects w @ new \<and> journaled new \<and> length (kills new) \<le> 1"
proof -
  have quiet: "\<exists>new. wo_effects w = wo_effects w @ new \<and> journaled new \<and> length (kills new) \<le> 1"
    by (intro exI [of _ "[]"]) (simp add: journaled_no_kills)
  have run: "\<exists>new. wo_effects (case execute_cleanup cy urls su aid a w of
       (Inl e, w') \<Rightarrow> record_automatic_failure su (f e) w' | (Inr x, w') \<Rightarrow> w') = wo_effects w @ new \<and>
       journaled new \<and> length (kills new) \<le> 1" for aid a f
    using execute_cleanup_journaled [of cy urls su aid a w]
    by (cases "execute_cleanup cy urls su aid a w") (auto split: sum.splits)
  show ?thesis
    unfolding execute_automatic_decision_def Let_def
    using quiet run by (auto split: option.splits sum.splits)
qed

lemma run_automatic_journaled:
  "\<exists>new. wo_effects (run_automatic_cleanup cy urls su due w) = wo_effects w @ new \<and> journaled new \<and> length (kills new) \<le> 1"
proof -
  have quiet: "\<exists>new. wo_effects w = wo_effects w @ new \<and> journaled new \<and> length (kills new) \<le> 1"
    by (intro exI [of _ "[]"]) (simp add: journaled_no_kills)
  show ?thesis
    using quiet execute_automatic_journaled
    by (auto simp: run_automatic_cleanup_def split: option.splits)
qed

lemma lane_step_extends:
  assumes "lane_step cy urls fresh loaded w w'"
  shows "\<exists>new. wo_effects w' = wo_effects w @ new \<and> journaled new \<and> length (kills new) \<le> 1"
  using assms
proof cases
  case (preview su pid uid out)
  from cleanup_preview_effects [OF preview(1)] show ?thesis by (simp add: journaled_no_kills)
next
  case (applied su token out)
  from cleanup_apply_journaled [OF applied] show ?thesis .
next
  case (automatic su due)
  with run_automatic_journaled [of cy urls su due w] show ?thesis by simp
qed (simp_all add: journaled_no_kills)

interpretation cleanup_lane: signalling_lane "lane_step cy urls fresh loaded" wo_effects for cy urls fresh loaded
  by unfold_locales (rule lane_step_extends)

text \<open>C2: Signals are journaled first, in every run. Whatever sequence of previews, applications,
  automatic passes, scans and restarts the daemon goes through from a world without effects,
  every signal it sent is preceded by the committed attempt of the same action, so that a
  crash can never leave a signal without a record.\<close>

theorem every_signal_is_journaled:
  assumes "(lane_step cy urls fresh loaded)\<^sup>*\<^sup>* w w'" and "wo_effects w = []"
    and "wo_effects w' = before @ Killed aid pid # after"
  shows "List.member before (Journaled aid ActionAttempting)"
proof -
  have "journaled (wo_effects w')"
    using cleanup_lane.run_journaled [OF assms(1)] assms(2) by (simp add: journaled_no_kills)
  with assms(3) show ?thesis by (auto simp: journaled_def List.member_iff)
qed

section \<open>Approvals\<close>

abbreviation approvals :: "world \<Rightarrow> (string \<times> cleanup_approval) list" where
  "approvals w \<equiv> dm_approvals (wo_daemon w)"

lemma set_alist_update:
  "k' \<noteq> k \<Longrightarrow> (k', v) \<in> set (AList.update k x m) \<longleftrightarrow> (k', v) \<in> set m"
  by (induction m) auto

lemma map_of_unique:
  assumes "distinct (List.map fst m)" "map_of m k = Some v" "(k, x) \<in> set m"
  shows "x = v"
  using assms map_of_is_SomeI by fastforce

lemma consume_approval_cases:
  assumes "consume_approval cy token now d = ((a, r), d')"
  obtains (unchanged) "d' = d" "r \<noteq> None"
      "\<And>b. map_of (dm_approvals d) (cy_digest cy token) = Some b \<Longrightarrow> cu_used b"
  | (spent) b where "map_of (dm_approvals d) (cy_digest cy token) = Some b" "\<not> cu_used b"
      "d' = d\<lparr>dm_approvals := AList.update (cy_digest cy token) (b\<lparr>cu_used := True\<rparr>) (dm_approvals d)\<rparr>"
      "r = None \<longleftrightarrow> now < cu_expires b" "a = Some (b\<lparr>cu_used := True\<rparr>)"
  using assms by (auto simp: consume_approval_def Let_def split: option.splits if_splits)

text \<open>What a request does to the daemon: executing touches nothing of it.\<close>

lemma cleanup_apply_daemon:
  assumes "cleanup_apply cy urls su token w = (out, w')"
  shows "wo_daemon w' = (if token = [] then wo_daemon w
           else snd (consume_approval cy token (su_now su) (wo_daemon w)))"
proof -
  obtain a r d where c: "consume_approval cy token (su_now su) (wo_daemon w) = ((a, r), d)"
    by (metis prod.exhaust)
  show ?thesis
    using assms unfolding cleanup_apply_def c
    by (auto simp: Let_def split: if_splits option.splits sum.splits
        dest: reject_action_effects elim: execute_cleanup_effects)
qed

lemma run_automatic_daemon:
  "dm_approvals (wo_daemon (run_automatic_cleanup cy urls su due w)) = approvals w \<and>
   dm_cfg (wo_daemon (run_automatic_cleanup cy urls su due w)) = dm_cfg (wo_daemon w)"
proof -
  have fail: "dm_approvals (wo_daemon (record_automatic_failure su reason w)) = approvals w"
    "dm_cfg (wo_daemon (record_automatic_failure su reason w)) = dm_cfg (wo_daemon w)" for reason w
    by (simp_all add: record_automatic_failure_def Let_def)
  have exec: "wo_daemon (snd (execute_cleanup cy urls su aid a w)) = wo_daemon w" for aid a
    by (cases "execute_cleanup cy urls su aid a w") (auto elim: execute_cleanup_effects)
  have "dm_approvals (wo_daemon (execute_automatic_decision cy urls su rec w)) = approvals w \<and>
      dm_cfg (wo_daemon (execute_automatic_decision cy urls su rec w)) = dm_cfg (wo_daemon w)" for rec
    unfolding execute_automatic_decision_def Let_def
    using exec by (simp add: fail case_prod_beta split: option.splits sum.splits)
  then show ?thesis by (simp add: run_automatic_cleanup_def fail split: option.splits)
qed

lemma cleanup_preview_daemon:
  assumes "cleanup_preview cy su pid uid w = (out, w')"
  shows "dm_cfg (wo_daemon w') = dm_cfg (wo_daemon w)"
    and "approvals w' = approvals w \<or> approvals w' = prune_approvals (su_now su) (approvals w) \<or>
      (\<exists>token a. su_secret su = Inr token \<and> length (prune_approvals (su_now su) (approvals w)) < max_approvals \<and>
        (approvals w' = AList.update (cy_digest cy token) a (prune_approvals (su_now su) (approvals w)) \<or>
         approvals w' = AList.delete (cy_digest cy token)
           (AList.update (cy_digest cy token) a (prune_approvals (su_now su) (approvals w)))))"
  using assms
  by (auto simp: cleanup_preview_def issue_approval_def Let_def split: sum.splits option.splits if_splits prod.splits)

text \<open>The table of approvals is a map and stays within its bound.\<close>

definition approvals_ok :: "world \<Rightarrow> bool" where
  "approvals_ok w \<longleftrightarrow> distinct (List.map fst (approvals w)) \<and> length (approvals w) \<le> max_approvals"

definition spent :: "string \<Rightarrow> world \<Rightarrow> bool" where
  "spent k w \<longleftrightarrow> (\<forall>a. (k, a) \<in> set (approvals w) \<longrightarrow> cu_used a)"

lemma prune_ok:
  "distinct (List.map fst m) \<Longrightarrow> distinct (List.map fst (prune_approvals now m))"
  "length (prune_approvals now m) \<le> length m" "set (prune_approvals now m) \<subseteq> set m"
  by (auto simp: prune_approvals_def List.distinct_map_filter)

lemma lane_step_approvals_ok:
  assumes "lane_step cy urls fresh loaded w w'" "approvals_ok w"
  shows "approvals_ok w'"
  using assms(1)
proof cases
  case (preview su pid uid out)
  let ?kept = "prune_approvals (su_now su) (approvals w)"
  have kept: "distinct (List.map fst ?kept)" "length ?kept \<le> max_approvals"
    using prune_ok [where m = "approvals w" and now = "su_now su"] assms(2) by (auto simp: approvals_ok_def)
  show ?thesis
    using cleanup_preview_daemon(2) [OF preview(1)]
  proof (elim disjE exE conjE)
    fix token a
    assume short: "length ?kept < max_approvals"
    have upd: "distinct (List.map fst (AList.update (cy_digest cy token) a ?kept))"
      "length (AList.update (cy_digest cy token) a ?kept) \<le> max_approvals"
      using kept short length_alist_update [of "cy_digest cy token" a ?kept] by (auto simp: distinct_update)
    { assume "approvals w' = AList.update (cy_digest cy token) a ?kept"
      with upd show ?thesis by (simp add: approvals_ok_def) }
    { assume "approvals w' = AList.delete (cy_digest cy token) (AList.update (cy_digest cy token) a ?kept)"
      with upd length_delete_le [of "cy_digest cy token" "AList.update (cy_digest cy token) a ?kept"]
      show ?thesis by (auto simp: approvals_ok_def distinct_delete) }
  qed (use kept assms(2) in \<open>simp_all add: approvals_ok_def\<close>)
next
  case (applied su token out)
  obtain a r d where c: "consume_approval cy token (su_now su) (wo_daemon w) = ((a, r), d)"
    by (metis prod.exhaust)
  have "distinct (List.map fst (dm_approvals d)) \<and> length (dm_approvals d) \<le> max_approvals"
    using c
  proof (cases rule: consume_approval_cases)
    case (spent b)
    have "length (AList.update (cy_digest cy token) x (approvals w)) = length (approvals w)" for x
    proof -
      have "cy_digest cy token \<in> set (List.map fst (approvals w))" using spent(1) by (force dest: map_of_SomeD)
      then have "List.map fst (AList.update (cy_digest cy token) x (approvals w)) = List.map fst (approvals w)"
        by (simp add: update_keys)
      then show ?thesis by (metis length_map)
    qed
    with spent assms(2) show ?thesis by (simp add: approvals_ok_def distinct_update)
  qed (use assms(2) in \<open>simp add: approvals_ok_def\<close>)
  with cleanup_apply_daemon [OF applied] c assms(2) show ?thesis by (simp add: approvals_ok_def)
next
  case (automatic su due)
  with run_automatic_daemon [of cy urls su due w] assms(2) show ?thesis by (simp add: approvals_ok_def)
qed (use assms(2) in \<open>simp_all add: approvals_ok_def\<close>)

text \<open>A spent digest stays spent as long as no preview issues it again.\<close>

lemma lane_step_spent:
  assumes "lane_step cy urls (\<lambda>d. d \<noteq> k) loaded w w'" "approvals_ok w" "spent k w"
  shows "spent k w'"
  using assms(1)
proof cases
  case (preview su pid uid out)
  let ?kept = "prune_approvals (su_now su) (approvals w)"
  have kept: "set ?kept \<subseteq> set (approvals w)" by (rule prune_ok)
  have upd: "(k, x) \<in> set (AList.update (cy_digest cy token) a ?kept) \<Longrightarrow> (k, x) \<in> set (approvals w)"
    if "su_secret su = Inr token" for token a x
    using kept preview(2) [OF that] set_alist_update [of k "cy_digest cy token" x a ?kept] by auto
  have del: "set (AList.delete j m) \<subseteq> set m" for j :: string and m :: "(string \<times> cleanup_approval) list"
    by (auto simp: AList.delete_eq)
  have "(k, x) \<in> set (approvals w)" if "(k, x) \<in> set (approvals w')" for x
    using cleanup_preview_daemon(2) [OF preview(1)]
  proof (elim disjE exE conjE)
    fix token a
    assume t: "su_secret su = Inr token"
    { assume "approvals w' = AList.update (cy_digest cy token) a ?kept"
      with upd [OF t] that show ?thesis by simp }
    { assume "approvals w' = AList.delete (cy_digest cy token) (AList.update (cy_digest cy token) a ?kept)"
      with upd [OF t] that del show ?thesis by (metis subsetD) }
  qed (use that kept in auto)
  with assms(3) show ?thesis by (auto simp: spent_def)
next
  case (applied su token out)
  obtain a r d where c: "consume_approval cy token (su_now su) (wo_daemon w) = ((a, r), d)"
    by (metis prod.exhaust)
  have "\<forall>a. (k, a) \<in> set (dm_approvals d) \<longrightarrow> cu_used a"
    using c
  proof (cases rule: consume_approval_cases)
    case (spent b)
    have dist: "distinct (List.map fst (dm_approvals d))"
      using spent assms(2) by (simp add: approvals_ok_def distinct_update)
    show ?thesis
    proof (cases "k = cy_digest cy token")
      case True
      then have "map_of (dm_approvals d) k = Some (b\<lparr>cu_used := True\<rparr>)" using spent by (simp add: update_conv)
      from map_of_unique [OF dist this] show ?thesis by fastforce
    next
      case False
      with spent assms(3) show ?thesis by (auto simp: spent_def set_alist_update)
    qed
  qed (use assms(3) in \<open>simp add: spent_def\<close>)
  with cleanup_apply_daemon [OF applied] c assms(3) show ?thesis by (simp add: spent_def)
next
  case (automatic su due)
  with run_automatic_daemon [of cy urls su due w] assms(3) show ?thesis by (simp add: spent_def)
qed (use assms(3) in \<open>simp_all add: spent_def\<close>)

interpretation approvals_bound: step_invariant "lane_step cy urls fresh loaded" approvals_ok for cy urls fresh loaded
  by unfold_locales (rule lane_step_approvals_ok)

interpretation spent_digest: step_invariant "lane_step cy urls (\<lambda>d. d \<noteq> k) loaded" "\<lambda>w. approvals_ok w \<and> spent k w"
  for cy urls k loaded
  by unfold_locales (blast intro: lane_step_approvals_ok lane_step_spent)

lemma apply_spends:
  assumes "cleanup_apply cy urls su token w = (out, w')" "approvals_ok w" "token \<noteq> []"
  shows "spent (cy_digest cy token) w'"
proof -
  obtain a r d where c: "consume_approval cy token (su_now su) (wo_daemon w) = ((a, r), d)"
    by (metis prod.exhaust)
  have dist: "distinct (List.map fst (approvals w))" using assms(2) by (simp add: approvals_ok_def)
  have "\<forall>a. (cy_digest cy token, a) \<in> set (dm_approvals d) \<longrightarrow> cu_used a"
    using c
  proof (cases rule: consume_approval_cases)
    case unchanged
    with dist show ?thesis by (auto dest: map_of_is_SomeI)
  next
    case (spent b)
    then have m: "map_of (dm_approvals d) (cy_digest cy token) = Some (b\<lparr>cu_used := True\<rparr>)" by (simp add: update_conv)
    have "distinct (List.map fst (dm_approvals d))" using spent dist by (simp add: distinct_update)
    from map_of_unique [OF this m] show ?thesis by fastforce
  qed
  with cleanup_apply_daemon [OF assms(1)] c assms(3) show ?thesis by (simp add: spent_def)
qed

lemma apply_kill_live:
  assumes "cleanup_apply cy urls su token w = (out, w')" "wo_effects w' = wo_effects w @ new" "kills new \<noteq> []"
  shows "\<exists>a. map_of (approvals w) (cy_digest cy token) = Some a \<and> \<not> cu_used a \<and> su_now su < cu_expires a"
  using assms(1)
proof (cases rule: cleanup_apply_cases)
  case (refused a e aid d)
  with reject_action_effects [OF refused(2)] assms(2,3) show ?thesis by auto
next
  case (granted a aid d)
  from granted(1) show ?thesis by (cases rule: consume_approval_cases) auto
qed (use assms(2,3) in simp)

text \<open>C3: An approval is good for one attempt. Once a token has been presented, whatever happened to
  that request, presenting it again can never lead to a signal, however many previews, other
  requests, automatic passes, scans and restarts lie in between, provided the random source
  does not issue a token with the same digest again.\<close>

theorem approval_single_use:
  assumes "(lane_step cy urls fresh loaded)\<^sup>*\<^sup>* w0 w" and "approvals w0 = []"
    and "cleanup_apply cy urls su token w = (out, w1)"
    and "(lane_step cy urls (\<lambda>d. d \<noteq> cy_digest cy token) loaded)\<^sup>*\<^sup>* w1 w2"
    and "cleanup_apply cy urls su' token w2 = (out', w3)"
  shows "\<exists>new. wo_effects w3 = wo_effects w2 @ new \<and> kills new = []"
proof (cases "token = []")
  case True
  with assms(5) have "w3 = w2" by (simp add: cleanup_apply_def)
  then show ?thesis by simp
next
  case False
  have ok: "approvals_ok w" "approvals_ok w1"
    using approvals_bound.run_keeps [OF assms(1)] assms(2) lane_step_approvals_ok [OF lane_step.applied [OF assms(3)]]
    by (auto simp: approvals_ok_def)
  from spent_digest.run_keeps [OF assms(4)] ok apply_spends [OF assms(3) ok(1) False]
  have "spent (cy_digest cy token) w2" by blast
  then have no: "\<not> (\<exists>a. map_of (approvals w2) (cy_digest cy token) = Some a \<and> \<not> cu_used a \<and> su_now su' < cu_expires a)"
    by (auto simp: spent_def dest: map_of_SomeD)
  from cleanup_apply_journaled [OF assms(5)] obtain new where "wo_effects w3 = wo_effects w2 @ new" by blast
  with apply_kill_live [OF assms(5)] no show ?thesis by blast
qed

text \<open>The sample approval, presented once.\<close>

lemma sample_apply:
  obtains out w' where "cleanup_apply sample_crypto no_urls sample_surroundings ''t''
      (sample_world [(''#t'', sample_approval sample_crypto False)] entries) = (out, w')"
    "wo_effects w' = [Journaled ''act_1'' ActionAttempting, Killed ''act_1'' 8, Journaled ''act_1'' ActionSignalled]"
proof -
  let ?spent = "[(''#t'', sample_approval sample_crypto True)]"
  have c: "consume_approval sample_crypto ''t'' 91 (sample_daemon [(''#t'', sample_approval sample_crypto False)]) =
      ((Some (sample_approval sample_crypto True), None), sample_daemon ?spent)"
    by (simp add: consume_approval_def Let_def sample_crypto_def sample_daemon_def sample_approval_def
        approval_lifetime_def minute_def second_def)
  obtain out w' where run: "execute_cleanup sample_crypto no_urls sample_surroundings ''act_1''
      (sample_approval sample_crypto True) (sample_world ?spent entries) = (out, w')"
    "wo_effects w' = [Journaled ''act_1'' ActionAttempting, Killed ''act_1'' 8, Journaled ''act_1'' ActionSignalled]"
    by (rule sample_execution)
  have "cleanup_apply sample_crypto no_urls sample_surroundings ''t''
      (sample_world [(''#t'', sample_approval sample_crypto False)] entries) =
    execute_cleanup sample_crypto no_urls sample_surroundings ''act_1'' (sample_approval sample_crypto True) (sample_world ?spent entries)"
    using c by (simp add: cleanup_apply_def sample_world_def sample_surroundings_def)
  with run that show thesis by metis
qed

theorem every_signal_is_journaled_witness:
  "\<exists>w w'. (lane_step sample_crypto no_urls (\<lambda>_. True) (\<lambda>_. True))\<^sup>*\<^sup>* w w' \<and>
     wo_effects w' = [Journaled ''act_1'' ActionAttempting] @ Killed ''act_1'' 8 # [Journaled ''act_1'' ActionSignalled] \<and>
     List.member [Journaled ''act_1'' ActionAttempting] (Journaled ''act_1'' ActionAttempting)"
proof -
  let ?w = "sample_world [(''#t'', sample_approval sample_crypto False)] []"
  obtain out w' where a: "cleanup_apply sample_crypto no_urls sample_surroundings ''t'' ?w = (out, w')"
    and e: "wo_effects w' = [Journaled ''act_1'' ActionAttempting] @ Killed ''act_1'' 8 # [Journaled ''act_1'' ActionSignalled]"
    by (rule sample_apply) auto
  from a have run: "(lane_step sample_crypto no_urls (\<lambda>_. True) (\<lambda>_. True))\<^sup>*\<^sup>* ?w w'" by (blast intro: lane_step.applied)
  have "wo_effects ?w = []" by (simp add: sample_world_def)
  from every_signal_is_journaled [OF run this e] run e show ?thesis by blast
qed

lemma sample_preview:
  obtains out entries where "cleanup_preview sample_crypto sample_surroundings ''p1'' (key_uid (new_key 8 60)) (sample_world [] []) =
    (out, sample_world [(''#t'', sample_approval sample_crypto False)] entries)"
proof -
  have uid: "key_uid (new_key 8 60) \<noteq> []" by (simp add: key_uid_def)
  have t: "preview_target sample_surroundings ''p1'' (key_uid (new_key 8 60)) (sample_world [] []) = Inr (sample_decision, sample_exe)"
    using sample_by_key uid
    by (simp add: preview_target_def Let_def parse_key_uid [OF key_in_range_sample] sample_defs observed_decisions_def
        manual_cleanup_enabled_def current_policy_decisions_def max_evaluation_def process_live_def is_latest_def
        is_recommendation_def policy_definition_def exact_executable_def by_key_ptr_def)
  show thesis
  proof (rule that)
    show "cleanup_preview sample_crypto sample_surroundings ''p1'' (key_uid (new_key 8 60)) (sample_world [] []) =
      (Inr (''t'', 91 + approval_lifetime), sample_world [(''#t'', sample_approval sample_crypto False)]
        (sto_action_audit (wo_store (snd (issue_approval sample_crypto sample_surroundings sample_decision sample_exe
          sample_policy ''t'' (sample_world [] []))))))"
      by (simp add: cleanup_preview_def t)
        (simp add: issue_approval_def Let_def sample_defs policy_definition_def with_tx_def append_action_audit_def
          prune_approvals_def max_approvals_def sample_crypto_def)
  qed
qed

theorem approval_single_use_witness:
  "\<exists>w w1 w2 out out'. (lane_step sample_crypto no_urls (\<lambda>_. True) (\<lambda>_. True))\<^sup>*\<^sup>* (sample_world [] []) w \<and>
     cleanup_apply sample_crypto no_urls sample_surroundings ''t'' w = (out, w1) \<and> kills (wo_effects w1) = [Killed ''act_1'' 8] \<and>
     cleanup_apply sample_crypto no_urls sample_surroundings ''t'' w1 = (out', w2) \<and> kills (wo_effects w2) = [Killed ''act_1'' 8]"
proof -
  obtain pv entries where p: "cleanup_preview sample_crypto sample_surroundings ''p1'' (key_uid (new_key 8 60)) (sample_world [] []) =
    (pv, sample_world [(''#t'', sample_approval sample_crypto False)] entries)" by (rule sample_preview)
  let ?w = "sample_world [(''#t'', sample_approval sample_crypto False)] entries"
  from p have run: "(lane_step sample_crypto no_urls (\<lambda>_. True) (\<lambda>_. True))\<^sup>*\<^sup>* (sample_world [] []) ?w"
    by (intro r_into_rtranclp lane_step.preview) auto
  obtain out w1 where a: "cleanup_apply sample_crypto no_urls sample_surroundings ''t'' ?w = (out, w1)"
    and e: "wo_effects w1 = [Journaled ''act_1'' ActionAttempting, Killed ''act_1'' 8, Journaled ''act_1'' ActionSignalled]"
    by (rule sample_apply)
  obtain out' w2 where b: "cleanup_apply sample_crypto no_urls sample_surroundings ''t'' w1 = (out', w2)"
    by (metis prod.exhaust)
  have "approvals (sample_world [] []) = []" by (simp add: sample_world_def sample_daemon_def)
  from approval_single_use [OF run this a _ b] obtain new where "wo_effects w2 = wo_effects w1 @ new" "kills new = []" by blast
  with run a b e show ?thesis by fastforce
qed

section \<open>Authority\<close>

lemma no_authority_no_kill:
  assumes "cf_global_mode (dm_cfg (wo_daemon w)) \<noteq> ModeRecommend" "cf_global_mode (dm_cfg (wo_daemon w)) \<noteq> ModeEnforce"
    and "execute_cleanup cy urls su aid a w = (out, w')"
  shows "kills (wo_effects w') = kills (wo_effects w)"
  using assms(3)
proof (cases rule: execute_cleanup_effects)
  case (attempted k es tail)
  from revalidate_gates [OF attempted(2)] assms(1,2) show ?thesis
    by (cases "cu_authority a") (auto simp: gates_passed_def)
qed auto

lemma apply_kills:
  assumes "cf_global_mode (dm_cfg (wo_daemon w)) \<noteq> ModeRecommend" "cf_global_mode (dm_cfg (wo_daemon w)) \<noteq> ModeEnforce"
    and "cleanup_apply cy urls su token w = (out, w')"
  shows "kills (wo_effects w') = kills (wo_effects w)"
  using assms(3)
proof (cases rule: cleanup_apply_cases)
  case (refused a e aid d)
  with reject_action_effects [OF refused(2)] show ?thesis by auto
next
  case (granted a aid d)
  from granted(1) have "dm_cfg d = dm_cfg (wo_daemon w)" by (cases rule: consume_approval_cases) auto
  with no_authority_no_kill [OF _ _ granted(2)] assms(1,2) show ?thesis by simp
qed simp

text \<open>The configuration a run works with was loaded under the startup mode.\<close>

definition loaded_under :: "startup_mode \<Rightarrow> config \<Rightarrow> bool" where
  "loaded_under sm cfg \<longleftrightarrow> (\<exists>env read_file decode path. load_for_startup env read_file decode path sm = Inr cfg)"

lemma lane_step_config:
  assumes "lane_step cy urls fresh loaded w w'" "loaded (dm_cfg (wo_daemon w))"
  shows "loaded (dm_cfg (wo_daemon w'))"
  using assms(1)
proof cases
  case (preview su pid uid out)
  with cleanup_preview_daemon(1) [OF preview(1)] assms(2) show ?thesis by simp
next
  case (applied su token out)
  obtain a r d where c: "consume_approval cy token (su_now su) (wo_daemon w) = ((a, r), d)" by (metis prod.exhaust)
  then have "dm_cfg d = dm_cfg (wo_daemon w)" by (cases rule: consume_approval_cases) auto
  with cleanup_apply_daemon [OF applied] c assms(2) show ?thesis by simp
next
  case (automatic su due)
  with run_automatic_daemon [of cy urls su due w] assms(2) show ?thesis by simp
qed (use assms(2) in simp_all)

interpretation loaded_config: step_invariant "lane_step cy urls fresh loaded" "\<lambda>w. loaded (dm_cfg (wo_daemon w))"
  for cy urls fresh loaded
  by unfold_locales (rule lane_step_config)

lemma loaded_automatic_inert:
  "loaded_under sm (dm_cfg (wo_daemon w)) \<Longrightarrow> run_automatic_cleanup cy urls su due w = w"
  by (auto simp: loaded_under_def run_automatic_cleanup_def automatic_cleanup_enabled_def dest: load_for_startup_mode)

lemma audit_step_no_kill:
  assumes "lane_step cy urls fresh (loaded_under sm) w w'" "loaded_under sm (dm_cfg (wo_daemon w))" "sm \<noteq> StartupReconcile"
  shows "kills (wo_effects w') = kills (wo_effects w)"
proof -
  have mode: "cf_global_mode (dm_cfg (wo_daemon w)) \<noteq> ModeRecommend" "cf_global_mode (dm_cfg (wo_daemon w)) \<noteq> ModeEnforce"
    using assms(2,3) load_for_startup_mode by (auto simp: loaded_under_def)
  from assms(1) show ?thesis
  proof cases
    case (preview su pid uid out)
    from cleanup_preview_effects [OF preview(1)] show ?thesis by simp
  next
    case (applied su token out)
    from apply_kills [OF mode applied] show ?thesis .
  next
    case (automatic su due)
    with loaded_automatic_inert [OF assms(2), of cy urls su due] show ?thesis by simp
  qed simp_all
qed

text \<open>C4: The startup profile bounds what a daemon can ever do. Whatever the configuration files say,
  and through any sequence of requests, scans and restarts under the same startup mode: the
  automatic lane never does anything, and unless the daemon was started in reconcile mode no
  signal is ever sent, not even for a token that was approved earlier.\<close>

theorem startup_mode_bounds_signals:
  assumes "(lane_step cy urls fresh (loaded_under sm))\<^sup>*\<^sup>* w w'" and "loaded_under sm (dm_cfg (wo_daemon w))"
  shows "run_automatic_cleanup cy urls su due w' = w' \<and>
    (sm \<noteq> StartupReconcile \<longrightarrow> kills (wo_effects w') = kills (wo_effects w))"
proof -
  have "kills (wo_effects w') = kills (wo_effects w)" if "sm \<noteq> StartupReconcile"
    using assms
  proof (induction rule: rtranclp_induct)
    case (step w1 w2)
    from loaded_config.run_keeps [OF step.hyps(1) step.prems] audit_step_no_kill [OF step.hyps(2) _ that] step
    show ?case by simp
  qed simp
  with loaded_automatic_inert [OF loaded_config.run_keeps [OF assms]] show ?thesis by blast
qed

theorem startup_mode_bounds_signals_witness:
  "\<exists>cfg w. loaded_under StartupAudit cfg \<and> dm_cfg (wo_daemon w) = cfg \<and>
     run_automatic_cleanup sample_crypto no_urls sample_surroundings True w = w \<and>
     (\<forall>out w'. cleanup_apply sample_crypto no_urls sample_surroundings ''t'' w = (out, w') \<longrightarrow> kills (wo_effects w') = [])"
proof -
  let ?l = "load_for_startup bare_home (\<lambda>_. FileMissing) (\<lambda>_ c. Some c) ''/c.yaml'' StartupAudit"
  have "(case ?l of Inr _ \<Rightarrow> True | Inl _ \<Rightarrow> False)" by code_simp
  then obtain cfg where "?l = Inr cfg" by (auto split: sum.splits)
  then have cfg: "loaded_under StartupAudit cfg" unfolding loaded_under_def by blast
  let ?w = "(sample_world [(''#t'', sample_approval sample_crypto False)] [])\<lparr>wo_daemon :=
    (sample_daemon [(''#t'', sample_approval sample_crypto False)])\<lparr>dm_cfg := cfg\<rparr>\<rparr>"
  have l: "loaded_under StartupAudit (dm_cfg (wo_daemon ?w))" using cfg by simp
  have "kills (wo_effects w') = []"
    if "cleanup_apply sample_crypto no_urls sample_surroundings ''t'' ?w = (out, w')" for out w'
  proof -
    have "lane_step sample_crypto no_urls (\<lambda>_. True) (loaded_under StartupAudit) ?w w'"
      using that by (rule lane_step.applied)
    from startup_mode_bounds_signals [OF r_into_rtranclp [of "lane_step _ _ _ _", OF this] l]
    show ?thesis by (simp add: sample_world_def)
  qed
  moreover have "run_automatic_cleanup sample_crypto no_urls sample_surroundings True ?w = ?w"
    using startup_mode_bounds_signals [OF rtranclp.rtrancl_refl l, of sample_crypto no_urls] by blast
  ultimately show ?thesis using cfg by force
qed

end
