(* ===== verification/Scan_Laws.thy ===== *)
theory Scan_Laws
  imports Retention Lane_Runs
begin

text \<open>
  What observation guarantees: the tables stay well formed, a failed scan withdraws the
  authority of earlier decisions, every recorded candidate is justified by the facts of its
  scan, retention keeps what authority and cooldowns rest on, and the concrete daemon is a
  run of the cleanup lane.
\<close>

section \<open>Well-formed tables\<close>

text \<open>
  Row ids come from counters that are ahead of every row, decisions belong to known
  evaluations, and keyed tables have one row per key.
\<close>

definition evaluations_ok :: "int \<Rightarrow> (int \<times> int) list \<Rightarrow> bool" where
  "evaluations_ok n es \<longleftrightarrow> 1 \<le> n \<and> distinct (List.map fst es) \<and> (\<forall>i \<in> fst ` set es. 1 \<le> i \<and> i < n)"

text \<open>No foreign key of the schema enforces this: every decision's evaluation has its row.\<close>

definition decisions_ok :: "(int \<times> int) list \<Rightarrow> int \<Rightarrow> decision_record list \<Rightarrow> bool" where
  "decisions_ok es n ds \<longleftrightarrow> (\<forall>d \<in> set ds. pd_evaluation d \<in> fst ` set es \<and> pd_id d < n) \<and> distinct (List.map pd_id ds)"

definition sessions_ok :: "(string \<times> session_record) list \<Rightarrow> bool" where
  "sessions_ok m \<longleftrightarrow> distinct (List.map fst m) \<and> (\<forall>(k, r) \<in> set m. sr_session_id r = k)"

definition wf_store :: "store \<Rightarrow> bool" where
  "wf_store s \<longleftrightarrow>
     evaluations_ok (sto_next_evaluation s) (sto_evaluations s) \<and>
     decisions_ok (sto_evaluations s) (sto_next_decision s) (sto_decisions s) \<and>
     distinct (List.map ac_id (sto_actions s)) \<and> distinct (List.map fst (sto_processes s)) \<and>
     sessions_ok (sto_sessions s)"

named_theorems wf_intros \<open>operations that keep the tables well formed\<close>

lemma wf_fold: "(\<And>x s. wf_store s \<Longrightarrow> wf_store (f x s)) \<Longrightarrow> wf_store s \<Longrightarrow> wf_store (fold f xs s)"
  by (induction xs arbitrary: s) auto

lemma wf_empty [wf_intros]: "wf_store empty_store"
  by (simp add: wf_store_def empty_store_def evaluations_ok_def decisions_ok_def sessions_ok_def)

text \<open>Operations on tables the invariant does not mention.\<close>

lemma wf_frames [wf_intros]:
  "wf_store s \<Longrightarrow> wf_store (upsert_ownership o1 s)"
  "wf_store s \<Longrightarrow> wf_store (upsert_relationship rel s)"
  "wf_store s \<Longrightarrow> wf_store (insert_observation i obs s)"
  "wf_store s \<Longrightarrow> wf_store (insert_activity ay s)"
  "wf_store s \<Longrightarrow> wf_store (insert_classification cx s)"
  "wf_store s \<Longrightarrow> wf_store (append_audit au s)"
  "wf_store s \<Longrightarrow> wf_store (append_action_audit aq s)"
  "wf_store s \<Longrightarrow> wf_store (set_meta k v s)"
  "wf_store s \<Longrightarrow> wf_store (snd (insert_scan sc s))"
  by (simp_all add: wf_store_def upsert_ownership_def upsert_relationship_def insert_observation_def
      insert_activity_def insert_classification_def append_audit_def append_action_audit_def set_meta_def
      insert_scan_def Let_def)

lemma wf_insert_policy_evaluation [wf_intros]:
  assumes "wf_store s"
  shows "wf_store (snd (insert_policy_evaluation ts s))"
proof -
  let ?n = "sto_next_evaluation s" and ?es = "sto_evaluations s"
  have es: "evaluations_ok ?n ?es" and ds: "decisions_ok ?es (sto_next_decision s) (sto_decisions s)"
    using assms by (simp_all add: wf_store_def)
  have "?n \<notin> fst ` set ?es" using es by (auto simp: evaluations_ok_def)
  then have "evaluations_ok (?n + 1) (?es @ [(?n, ts)])" using es by (auto simp: evaluations_ok_def)
  moreover have "decisions_ok (?es @ [(?n, ts)]) (sto_next_decision s) (sto_decisions s)"
    using ds by (auto simp: decisions_ok_def)
  ultimately show ?thesis using assms by (simp add: wf_store_def insert_policy_evaluation_def)
qed

lemma wf_insert_policy_decision:
  "wf_store s \<Longrightarrow> pd_evaluation d \<in> fst ` set (sto_evaluations s) \<Longrightarrow> wf_store (insert_policy_decision d s)"
  by (auto simp: wf_store_def insert_policy_decision_def decisions_ok_def)

lemma wf_upsert_process [wf_intros]: "wf_store s \<Longrightarrow> wf_store (upsert_process p s)"
  by (simp add: wf_store_def upsert_process_def distinct_update)

lemma wf_mark_exited [wf_intros]: "wf_store s \<Longrightarrow> wf_store (mark_exited_before a b s)"
  by (simp add: wf_store_def mark_exited_before_def case_prod_beta comp_def)

lemma set_update_subset: "set (AList.update k v m) \<subseteq> insert (k, v) (set m)"
  by (induction m) auto

lemma sessions_ok_update: "sessions_ok m \<Longrightarrow> sr_session_id r = k \<Longrightarrow> sessions_ok (AList.update k r m)"
  using set_update_subset [of k r m] by (auto simp: sessions_ok_def distinct_update)

lemma wf_upsert_session [wf_intros]: "wf_store s \<Longrightarrow> wf_store (upsert_session r s)"
  by (auto simp: wf_store_def upsert_session_def intro!: sessions_ok_update split: option.splits)

lemma wf_end_session [wf_intros]: "wf_store s \<Longrightarrow> wf_store (end_session sid a b t s)"
proof (cases "map_of (sto_sessions s) sid")
  case (Some r)
  assume wf: "wf_store s"
  then have "sessions_ok (sto_sessions s)" by (simp add: wf_store_def)
  with Some have "sr_session_id r = sid" by (auto simp: sessions_ok_def dest!: map_of_SomeD)
  with wf Some show ?thesis by (simp add: wf_store_def end_session_def sessions_ok_update)
qed (simp add: end_session_def)

lemma wf_insert_action: "wf_store s \<Longrightarrow> insert_action rec s = Inr s' \<Longrightarrow> wf_store s'"
  by (auto simp: wf_store_def insert_action_def split: if_splits)

lemma wf_update_action:
  assumes "wf_store s" "update_action aid r rs es t s = Inr s'"
  shows "wf_store s'"
proof -
  define f :: "action_record \<Rightarrow> action_record" where "f = (\<lambda>a. if ac_id a = aid
    then a\<lparr>ac_result := r, ac_reason := rs, ac_evidence := es, ac_updated := t\<rparr> else a)"
  have "ac_id \<circ> f = ac_id" by (auto simp: f_def)
  moreover have "s' = s\<lparr>sto_actions := List.map f (sto_actions s)\<rparr>"
    using assms(2) by (simp add: update_action_def f_def split: if_splits)
  ultimately show ?thesis using assms(1) by (simp add: wf_store_def)
qed

lemma wf_with_tx:
  "wf_store s \<Longrightarrow> (\<And>s'. f s = Inr s' \<Longrightarrow> wf_store s') \<Longrightarrow> wf_store (snd (with_tx failure f s))"
  by (auto simp: with_tx_def split: option.splits sum.splits)

lemma persist_observed_wf [wf_intros]: "wf_store s \<Longrightarrow> wf_store (persist_observed env snap res act classes s)"
  unfolding persist_observed_def Let_def by (intro wf_fold wf_intros)

lemma persist_endings_wf [wf_intros]: "wf_store s \<Longrightarrow> wf_store (persist_endings snap res s)"
  unfolding persist_endings_def Let_def by (intro wf_fold wf_intros)

lemma insert_decisions_wf:
  assumes "wf_store t" "ds \<noteq> [] \<Longrightarrow> e \<in> fst ` set (sto_evaluations t)"
  shows "wf_store (fold (\<lambda>dec. insert_policy_decision (dec\<lparr>pd_evaluation := e\<rparr>)) ds t)"
  using assms
proof (induction ds arbitrary: t)
  case (Cons d ds)
  have "sto_evaluations (insert_policy_decision (d\<lparr>pd_evaluation := e\<rparr>) t) = sto_evaluations t"
    by (simp add: insert_policy_decision_def)
  moreover have "wf_store (insert_policy_decision (d\<lparr>pd_evaluation := e\<rparr>) t)"
    using Cons.prems by (intro wf_insert_policy_decision) simp_all
  ultimately show ?case using Cons.IH Cons.prems(2) by simp
qed simp

text \<open>Only a due evaluation leaves decisions to record.\<close>

definition records_due :: "policy_batch \<Rightarrow> bool" where
  "records_due b \<longleftrightarrow> (pb_records b \<noteq> [] \<longrightarrow> pb_due b)"

lemma apply_policies_due: "apply_policies env s c tg ps b = Inr b' \<Longrightarrow> pb_due b' = pb_due b"
  by (induction ps arbitrary: b) (fastforce split: option.splits)+

lemma policies_loop_due: "policies_loop d env s snap t res cs b = Inr b' \<Longrightarrow> pb_due b' = pb_due b"
proof (induction cs arbitrary: b)
  case (Cons c cs)
  from Cons.prems show ?case
    by (simp split: option.splits prod.splits sum.splits) (metis Cons.IH apply_policies_due)+
qed simp

lemma evaluate_policies_due: "evaluate_policies d env s snap t res classes = Inr pol \<Longrightarrow> records_due pol"
  by (auto simp: evaluate_policies_def records_due_def no_policies_def Let_def dest!: policies_loop_due split: if_splits)

lemma persist_policies_wf:
  assumes "wf_store s" "records_due pol"
  shows "wf_store (persist_policies pol s)"
proof -
  define ev where "ev = (if pb_due pol then insert_policy_evaluation (unix_nano (pb_at pol)) s else (0, s))"
  have "wf_store (snd ev)" "pb_records pol \<noteq> [] \<Longrightarrow> fst ev \<in> fst ` set (sto_evaluations (snd ev))"
    using assms wf_insert_policy_evaluation [OF assms(1)]
    by (auto simp: ev_def insert_policy_evaluation_def records_due_def)
  then have "wf_store (fold (\<lambda>dec. insert_policy_decision (dec\<lparr>pd_evaluation := fst ev\<rparr>)) (pb_records pol) (snd ev))"
    by (rule insert_decisions_wf)
  then have "wf_store (fold append_action_audit (pb_audit pol)
      (fold (\<lambda>dec. insert_policy_decision (dec\<lparr>pd_evaluation := fst ev\<rparr>)) (pb_records pol) (snd ev)))"
    by (rule wf_fold [rotated]) (rule wf_frames(7))
  then show ?thesis unfolding persist_policies_def Let_def case_prod_beta ev_def .
qed

lemma persist_rows_wf:
  "wf_store s \<Longrightarrow> records_due pol \<Longrightarrow> wf_store (persist_rows env snap res act classes pol s)"
  unfolding persist_rows_def by (intro persist_endings_wf persist_policies_wf persist_observed_wf)

section \<open>Requests keep the tables\<close>

lemma insert_with_audit_wf: "wf_store s \<Longrightarrow> insert_with_audit rec entry s = Inr s' \<Longrightarrow> wf_store s'"
  by (auto simp: insert_with_audit_def intro: wf_intros dest: wf_insert_action split: sum.splits)

lemma update_with_audit_wf: "wf_store s \<Longrightarrow> update_with_audit aid r rs es t entry s = Inr s' \<Longrightarrow> wf_store s'"
  by (auto simp: update_with_audit_def intro: wf_intros dest: wf_update_action split: sum.splits)

lemma reject_action_wf:
  assumes "reject_action su aid a e es t w = (out, w')" "wf_store (wo_store w)"
  shows "wf_store (wo_store w')"
proof -
  have "wf_store (snd (with_tx (su_first_tx su) (insert_with_audit r en) (wo_store w)))" for r en
    using assms(2) insert_with_audit_wf by (blast intro: wf_with_tx)
  with assms show ?thesis
    by (auto simp: reject_action_def Let_def split: prod.splits option.splits) (metis snd_conv)
qed

lemma finish_action_wf:
  assumes "finish_action su aid a k es w = (out, w')" "wf_store (wo_store w)"
  shows "wf_store (wo_store w')"
proof -
  have "wf_store (snd (with_tx (su_second_tx su) (update_with_audit aid r rs es t en) (wo_store w)))" for r rs es t en
    using assms(2) update_with_audit_wf by (blast intro: wf_with_tx)
  with assms show ?thesis
    by (auto simp: finish_action_def Let_def split: prod.splits option.splits) (metis snd_conv)+
qed

lemma execute_cleanup_wf:
  assumes "execute_cleanup cy urls su aid a w = (out, w')" "wf_store (wo_store w)"
  shows "wf_store (wo_store w')"
proof -
  have tx: "wf_store (snd (with_tx (su_first_tx su) (insert_with_audit r en) (wo_store w)))" for r en
    using assms(2) insert_with_audit_wf by (blast intro: wf_with_tx)
  show ?thesis
  proof (cases "revalidate_cleanup cy urls su w a")
    case (Inl e)
    with assms show ?thesis by (auto simp: execute_cleanup_def case_prod_beta dest: reject_action_wf)
  next
    case (Inr r)
    obtain k es where r: "r = (k, es)" by (cases r)
    from assms(1) show ?thesis
      unfolding execute_cleanup_def Inr r sum.case prod.case Let_def
      using tx assms(2)
      by (auto split: prod.splits option.splits elim!: finish_action_wf) (metis snd_conv)+
  qed
qed

lemma cleanup_apply_wf:
  assumes "cleanup_apply cy urls su token w = (out, w')" "wf_store (wo_store w)"
  shows "wf_store (wo_store w')"
  using assms(1)
proof (cases rule: cleanup_apply_cases)
  case (refused a e aid d)
  from reject_action_wf [OF refused(2)] assms(2) show ?thesis by simp
next
  case (granted a aid d)
  from execute_cleanup_wf [OF granted(2)] assms(2) show ?thesis by simp
qed (use assms(2) in simp)

lemma cleanup_preview_wf:
  assumes "cleanup_preview cy su pid uid w = (out, w')" "wf_store (wo_store w)"
  shows "wf_store (wo_store w')"
  using assms
  by (auto simp: cleanup_preview_def issue_approval_def Let_def with_tx_def intro: wf_intros
      split: sum.splits option.splits if_splits prod.splits)

lemma record_automatic_failure_wf: "wf_store (wo_store w) \<Longrightarrow> wf_store (wo_store (record_automatic_failure su reason w))"
  by (auto simp: record_automatic_failure_def Let_def intro!: wf_with_tx intro: wf_intros)

lemma run_automatic_wf:
  assumes "wf_store (wo_store w)"
  shows "wf_store (wo_store (run_automatic_cleanup cy urls su due w))"
proof -
  have "wf_store (wo_store (case execute_cleanup cy urls su aid a w of
      (Inl e, w') \<Rightarrow> record_automatic_failure su (f e) w' | (Inr x, w') \<Rightarrow> w'))" for aid a f
    using execute_cleanup_wf [of cy urls su aid a w] assms
    by (cases "execute_cleanup cy urls su aid a w") (auto intro: record_automatic_failure_wf split: sum.splits)
  then have "wf_store (wo_store (execute_automatic_decision cy urls su rec w))" for rec
    using assms unfolding execute_automatic_decision_def Let_def
    by (auto intro: record_automatic_failure_wf split: option.splits sum.splits)
  then show ?thesis
    using assms by (auto simp: run_automatic_cleanup_def intro: record_automatic_failure_wf split: option.splits)
qed

lemma record_scan_failure_wf: "wf_store (wo_store w) \<Longrightarrow> wf_store (wo_store (record_scan_failure env cause w))"
  by (auto simp: record_scan_failure_def Let_def intro!: wf_with_tx intro: wf_intros)

lemma scan_outcome_stored:
  assumes "scan_outcome_of urls env w = ScanStored w' due"
  obtains snap res act classes pol where "sv_snapshot env = Inr snap"
    "evaluate_policies (wo_daemon w) env (wo_store w) snap (build_tree snap) res classes = Inr pol"
    "w' = w\<lparr>wo_daemon := commit_scan snap res act classes pol (wo_daemon w),
            wo_store := persist_rows env snap res act classes pol (wo_store w)\<rparr>" "due = pb_due pol"
  using assms
  by (auto simp: scan_outcome_of_def Let_def with_tx_def split: sum.splits prod.splits option.splits if_splits)

lemma run_scan_wf: "wf_store (wo_store w) \<Longrightarrow> wf_store (wo_store (run_scan cy urls env w))"
  by (auto simp: run_scan_def intro!: run_automatic_wf record_scan_failure_wf persist_rows_wf
      intro: evaluate_policies_due elim!: scan_outcome_stored split: scan_outcome.splits)

section \<open>Retention keeps the tables\<close>

text \<open>Deleting rows from a table keeps its invariant.\<close>

lemma evaluations_ok_filter: "evaluations_ok n es \<Longrightarrow> evaluations_ok n (filter P es)"
  by (auto simp: evaluations_ok_def List.distinct_map_filter)

lemma decisions_ok_filter: "decisions_ok es n ds \<Longrightarrow> decisions_ok es n (filter P ds)"
  by (auto simp: decisions_ok_def List.distinct_map_filter)

text \<open>Evaluations may go when no decision refers to them.\<close>

lemma decisions_ok_evaluations:
  assumes "decisions_ok es n ds" "\<And>i ts. (i, ts) \<in> set es \<Longrightarrow> i \<in> pd_evaluation ` set ds \<Longrightarrow> P (i, ts)"
  shows "decisions_ok (filter P es) n ds"
  using assms by (fastforce simp: decisions_ok_def)

lemma delete_evaluations_wf: "wf_store s \<Longrightarrow> wf_store (delete_evaluations a s)"
  by (auto simp: wf_store_def delete_evaluations_def intro!: evaluations_ok_filter decisions_ok_evaluations)

lemma sessions_ok_filter: "sessions_ok m \<Longrightarrow> sessions_ok (filter P m)"
  by (auto simp: sessions_ok_def List.distinct_map_filter)

lemma wf_deletes [wf_intros]:
  "wf_store s \<Longrightarrow> wf_store (delete_series a s)"
  "wf_store s \<Longrightarrow> wf_store (delete_decisions a b s)"
  "wf_store s \<Longrightarrow> wf_store (delete_journal a b c s)"
  "wf_store s \<Longrightarrow> wf_store (delete_exited a s)"
  "wf_store s \<Longrightarrow> wf_store (delete_sessions a s)"
  "wf_store s \<Longrightarrow> wf_store (delete_unreachable s)"
  by (simp_all add: wf_store_def delete_series_def delete_decisions_def delete_journal_def
      delete_exited_def delete_sessions_def delete_unreachable_def Let_def List.distinct_map_filter
      evaluations_ok_filter decisions_ok_filter sessions_ok_filter)

lemma compact_once_wf [wf_intros]: "wf_store s \<Longrightarrow> wf_store (compact_once p now s)"
  unfolding compact_once_def by (intro wf_intros delete_evaluations_wf)

lemma compact_store_wf: "wf_store s \<Longrightarrow> wf_store (snd (compact_store bytes tx1 tx2 p now s))"
  by (auto simp: compact_store_def with_tx_def intro: wf_intros split: option.splits if_splits)

lemma run_retention_wf: "wf_store (wo_store w) \<Longrightarrow> wf_store (wo_store (run_retention bytes tx1 tx2 audit_tx now w))"
  using compact_store_wf [of "wo_store w" bytes tx1 tx2 "retention_of (dm_cfg (wo_daemon w))" now]
  by (auto simp: run_retention_def Let_def intro!: wf_with_tx intro: wf_intros split: prod.splits option.splits)

section \<open>The daemon as a transition system\<close>

text \<open>
  Every way the daemon's world changes: a request of the cleanup lane, a scan, a retention
  pass, and a restart, which loads a configuration and seeds a new daemon from the store.
\<close>

inductive daemon_step ::
  "crypto_ops \<Rightarrow> 'u url_ops \<Rightarrow> (config \<Rightarrow> bool) \<Rightarrow> world \<Rightarrow> world \<Rightarrow> bool"
  for cy urls loaded where
  previewed: "cleanup_preview cy su pid uid w = (out, w') \<Longrightarrow> daemon_step cy urls loaded w w'"
| requested: "cleanup_apply cy urls su token w = (out, w') \<Longrightarrow> daemon_step cy urls loaded w w'"
| scanned: "run_scan cy urls env w = w' \<Longrightarrow> daemon_step cy urls loaded w w'"
| compacted: "run_retention bytes tx1 tx2 audit_tx now w = w' \<Longrightarrow> daemon_step cy urls loaded w w'"
| restarted: "dm_approvals d = [] \<Longrightarrow> loaded (dm_cfg d) \<Longrightarrow>
     daemon_step cy urls loaded w (w\<lparr>wo_daemon := seed_daemon (wo_store w) d\<rparr>)"

lemma daemon_step_wf:
  assumes "daemon_step cy urls loaded w w'" "wf_store (wo_store w)"
  shows "wf_store (wo_store w')"
  using assms(1)
proof cases
  case (previewed su pid uid out)
  from cleanup_preview_wf [OF previewed assms(2)] show ?thesis .
next
  case (requested su token out)
  from cleanup_apply_wf [OF requested assms(2)] show ?thesis .
next
  case (scanned env)
  with run_scan_wf [OF assms(2), of cy urls env] show ?thesis by simp
next
  case (compacted bytes tx1 tx2 audit_tx now)
  with run_retention_wf [OF assms(2), of bytes tx1 tx2 audit_tx now] show ?thesis by simp
qed (use assms(2) in simp)

interpretation tables: step_invariant "daemon_step cy urls loaded" "\<lambda>w. wf_store (wo_store w)" for cy urls loaded
  by unfold_locales (rule daemon_step_wf)

section \<open>The concrete daemon is a run of the lane\<close>

lemma record_scan_failure_frame:
  "wo_effects (record_scan_failure env cause w) = wo_effects w"
  "dm_approvals (wo_daemon (record_scan_failure env cause w)) = approvals w"
  "dm_cfg (wo_daemon (record_scan_failure env cause w)) = dm_cfg (wo_daemon w)"
  by (simp_all add: record_scan_failure_def Let_def)

lemma run_scan_lane: "(lane_step cy urls (\<lambda>_. True) loaded)\<^sup>*\<^sup>* w (run_scan cy urls env w)"
proof (cases "scan_outcome_of urls env w")
  case (ScanFailed cause)
  then show ?thesis
    by (intro r_into_rtranclp lane_step.observe) (simp_all add: run_scan_def record_scan_failure_frame)
next
  case (ScanStored w1 due)
  from ScanStored have "wo_effects w1 = wo_effects w" "approvals w1 = approvals w"
    "dm_cfg (wo_daemon w1) = dm_cfg (wo_daemon w)"
    by (auto elim!: scan_outcome_stored simp: commit_scan_def)
  then have "lane_step cy urls (\<lambda>_. True) loaded w w1" by (rule lane_step.observe)
  moreover have "lane_step cy urls (\<lambda>_. True) loaded w1 (run_scan cy urls env w)"
    by (rule lane_step.automatic) (simp add: run_scan_def ScanStored)
  ultimately show ?thesis by (meson converse_rtranclp_into_rtranclp r_into_rtranclp)
qed (simp add: run_scan_def)

lemma run_retention_frame:
  "wo_effects (run_retention bytes tx1 tx2 audit_tx now w) = wo_effects w"
  "wo_daemon (run_retention bytes tx1 tx2 audit_tx now w) = wo_daemon w"
  by (simp_all add: run_retention_def Let_def split: prod.splits option.splits)

lemma daemon_step_lane:
  assumes "daemon_step cy urls loaded w w'"
  shows "(lane_step cy urls (\<lambda>_. True) loaded)\<^sup>*\<^sup>* w w'"
  using assms
proof cases
  case (previewed su pid uid out)
  then show ?thesis by (intro r_into_rtranclp lane_step.preview) auto
next
  case (requested su token out)
  then show ?thesis by (intro r_into_rtranclp lane_step.applied)
next
  case (scanned env)
  with run_scan_lane show ?thesis by blast
next
  case (compacted bytes tx1 tx2 audit_tx now)
  then show ?thesis
    by (intro r_into_rtranclp lane_step.observe) (use run_retention_frame in auto)
next
  case (restarted d)
  then show ?thesis by (intro r_into_rtranclp lane_step.restart) (simp_all add: seed_daemon_def)
qed

text \<open>C7: The daemon refines the abstract cleanup lane: every run of the concrete daemon, with its real
  scans, retention passes and restarts, is a run of the lane, so it inherits the lane's
  guarantees. In particular every signal of such a run is preceded by the committed attempt of
  the same action, and the approvals stay a map of at most 128 entries.\<close>

theorem daemon_refines_lane:
  assumes "(daemon_step cy urls loaded)\<^sup>*\<^sup>* w w'"
  shows "(lane_step cy urls (\<lambda>_. True) loaded)\<^sup>*\<^sup>* w w' \<and>
    (wo_effects w = [] \<longrightarrow> journaled (wo_effects w')) \<and>
    (approvals w = [] \<longrightarrow> distinct (List.map fst (approvals w')) \<and> length (approvals w') \<le> 128)"
proof -
  have lane: "(lane_step cy urls (\<lambda>_. True) loaded)\<^sup>*\<^sup>* w w'"
    using assms by (induction rule: rtranclp_induct) (auto dest: daemon_step_lane intro: rtranclp_trans)
  moreover have "approvals_ok w" if "approvals w = []" using that by (simp add: approvals_ok_def)
  ultimately show ?thesis
    using cleanup_lane.run_journaled [OF lane] approvals_bound.run_keeps [OF lane]
    by (auto simp: journaled_no_kills approvals_ok_def max_approvals_def)
qed

section \<open>A failed scan withdraws authority\<close>

lemma no_decisions_no_gates: "current_policy_decisions (wo_store w) = [] \<Longrightarrow> \<not> gates_passed cy urls su w a cur p k snap proc res attr rec s"
  by (auto simp: gates_passed_def Let_def)

lemma execute_without_decisions:
  assumes "current_policy_decisions (wo_store w) = []" "execute_cleanup cy urls su aid a w = (out, w')"
  shows "kills (wo_effects w') = kills (wo_effects w)"
  using assms(2)
proof (cases rule: execute_cleanup_effects)
  case (attempted k es tail)
  from revalidate_gates [OF attempted(2)] no_decisions_no_gates [OF assms(1)] show ?thesis by blast
qed simp_all

lemma apply_without_decisions:
  assumes "current_policy_decisions (wo_store w) = []" "cleanup_apply cy urls su token w = (out, w')"
  shows "kills (wo_effects w') = kills (wo_effects w)"
  using assms(2)
proof (cases rule: cleanup_apply_cases)
  case (refused a e aid d)
  from reject_action_effects [OF refused(2)] show ?thesis by auto
next
  case (granted a aid d)
  from execute_without_decisions [OF _ granted(2)] assms(1) show ?thesis by simp
qed simp

lemma preview_without_decisions:
  assumes "current_policy_decisions (wo_store w) = []"
  shows "\<exists>e. cleanup_preview cy su pid uid w = (Inl e, w)"
  using assms
  by (auto simp: cleanup_preview_def preview_target_def observed_decisions_def Let_def
      split: sum.splits option.splits)

lemma max_evaluation_eq:
  "max_evaluation s = (if sto_evaluations s = [] then None else Some (Max (fst ` set (sto_evaluations s))))"
  by (auto simp: max_evaluation_def split: list.splits)

lemma new_evaluation_no_decisions:
  assumes "wf_store s"
  shows "current_policy_decisions (snd (insert_policy_evaluation ts s)) = []"
proof -
  let ?n = "sto_next_evaluation s"
  have "\<forall>i \<in> insert ?n (fst ` set (sto_evaluations s)). i \<le> ?n"
    using assms by (fastforce simp: wf_store_def evaluations_ok_def)
  then have "Max (insert ?n (fst ` set (sto_evaluations s))) = ?n" by (intro Max_eqI) force+
  then have "max_evaluation (snd (insert_policy_evaluation ts s)) = Some ?n"
    by (simp add: max_evaluation_eq insert_policy_evaluation_def)
  moreover have "\<forall>d \<in> set (sto_decisions s). pd_evaluation d \<noteq> ?n"
    using assms by (fastforce simp: wf_store_def decisions_ok_def evaluations_ok_def)
  ultimately show ?thesis
    by (simp add: current_policy_decisions_def insert_policy_evaluation_def filter_empty_conv)
qed

lemma failed_scan_no_decisions:
  assumes "wf_store (wo_store w)" "scan_outcome_of urls env w = ScanFailed cause" "sv_failure_tx env = None"
  shows "current_policy_decisions (wo_store (run_scan cy urls env w)) = []"
proof -
  have "wo_store (run_scan cy urls env w) = snd (insert_policy_evaluation (unix_nano (sv_start env))
      (append_action_audit \<lparr>aq_ts = unix_nano (sv_now env), aq_kind = ''scan.failed'', aq_subject = ''daemon'',
            aq_summary = detail_prefix ''observation cycle failed and was skipped; no conclusion was drawn: '' cause,
            aq_evidence = []\<rparr>
        (snd (insert_scan \<lparr>sc_started = unix_nano (sv_start env), sc_duration_us = sv_duration_us env, sc_visible = 0,
            sc_inspected = 0, sc_attributed = 0, sc_sessions = 0, sc_error = cause\<rparr> (wo_store w)))))"
    using assms(2,3) by (simp add: run_scan_def record_scan_failure_def Let_def with_tx_def)
  also have "current_policy_decisions \<dots> = []"
    by (intro new_evaluation_no_decisions wf_intros assms(1))
  finally show ?thesis .
qed

text \<open>C5: A failed scan withdraws all authority. Whenever a cycle fails and its failure is recorded, in
  any world the daemon can reach, there are no current decisions afterwards: no preview issues
  an approval, no approval issued earlier leads to a signal, the automatic lane sends none, and
  the evidence that a later strong conclusion could rest on is gone.\<close>

theorem failed_scan_withdraws_authority:
  assumes "(daemon_step cy urls loaded)\<^sup>*\<^sup>* w0 w" and "wo_store w0 = empty_store"
    and "scan_outcome_of urls env w = ScanFailed cause" and "sv_failure_tx env = None"
    and "w' = run_scan cy urls env w"
  shows "wo_effects w' = wo_effects w \<and> dm_previous (wo_daemon w') = [] \<and>
    (\<exists>e. cleanup_preview cy su pid uid w' = (Inl e, w')) \<and>
    (\<forall>out w''. cleanup_apply cy urls su token w' = (out, w'') \<longrightarrow> kills (wo_effects w'') = kills (wo_effects w)) \<and>
    kills (wo_effects (run_automatic_cleanup cy urls su due w')) = kills (wo_effects w)"
proof -
  have "wf_store (wo_store w)" using tables.run_keeps [OF assms(1)] assms(2) wf_empty by simp
  then have none: "current_policy_decisions (wo_store w') = []"
    using failed_scan_no_decisions assms(3,4,5) by blast
  have w': "w' = record_scan_failure env cause w" using assms(3,5) by (simp add: run_scan_def)
  then have "wo_effects w' = wo_effects w" "dm_previous (wo_daemon w') = []"
    by (simp_all add: record_scan_failure_def Let_def)
  moreover have "wo_effects (run_automatic_cleanup cy urls su due w') = wo_effects w'"
    using none by (simp add: run_automatic_cleanup_def split: option.splits)
  ultimately show ?thesis
    using preview_without_decisions [OF none] apply_without_decisions [OF none] by auto
qed

section \<open>Recorded candidates are justified\<close>

lemma apply_policies_records:
  assumes "apply_policies env s c tg ps b = Inr b'" "rec \<in> set (pb_records b')"
  shows "rec \<in> set (pb_records b) \<or> (\<exists>p \<in> set ps. \<exists>dec. rec = decision_row c dec \<and>
    evaluate_policy p tg (time_unix (cx_ts c)) (time_unix (last_candidate_cooldown s (pl_id p) (cx_uid c))) = Some dec)"
  using assms by (induction ps arbitrary: b) (fastforce split: option.splits)+

lemma policies_loop_records:
  assumes "policies_loop d env s snap t res cs b = Inr b'" "rec \<in> set (pb_records b')"
  shows "rec \<in> set (pb_records b) \<or> (\<exists>c \<in> set cs. \<exists>k proc attr. classified_process snap res c = Some (k, proc, attr) \<and>
    (\<exists>p \<in> set (cf_policies (dm_cfg d)). \<exists>dec. rec = decision_row c dec \<and>
      evaluate_policy p (policy_target d t res k proc attr c) (time_unix (cx_ts c))
        (time_unix (last_candidate_cooldown s (pl_id p) (cx_uid c))) = Some dec))"
  using assms
proof (induction cs arbitrary: b)
  case (Cons c cs)
  show ?case
  proof (cases "classified_process snap res c")
    case None
    with Cons show ?thesis by fastforce
  next
    case (Some x)
    obtain k proc attr where x: "x = (k, proc, attr)" by (cases x)
    from Cons.prems(1) Some x obtain b1 where
      b1: "apply_policies env s c (policy_target d t res k proc attr c) (cf_policies (dm_cfg d)) b = Inr b1"
      and rest: "policies_loop d env s snap t res cs b1 = Inr b'" by (auto split: sum.splits)
    from Cons.IH [OF rest Cons.prems(2)] apply_policies_records [OF b1] Some x show ?thesis by fastforce
  qed
qed simp

lemma classified_process_Some:
  "classified_process snap res c = Some (k, p, attr) \<Longrightarrow>
     parse_key (cx_uid c) = Inr k \<and> by_key snap k = Some p \<and> map_of (rs_attributions res) (cx_uid c) = Some attr"
  by (auto simp: classified_process_def split: sum.splits option.splits)

text \<open>C6: Every candidate is justified by the facts of the scan that recorded it. Its policy is
  configured, enabled and matches the conclusion about the process, which is in the snapshot
  under the exact key; the process belongs to the daemon's user, is not the daemon itself, has no
  terminal and no descendants, its session has ended and its attribution clears 0.95; and the
  cooldown of the last candidate for the same policy and process had run out.\<close>

theorem recorded_candidate_justified:
  assumes "evaluate_policies d env s snap t res classes = Inr b"
    and "rec \<in> set (pb_records b)" and "pd_result rec = ResultCandidate"
  shows "\<exists>p c k proc attr. p \<in> set (cf_policies (dm_cfg d)) \<and> pl_id p = pd_policy rec \<and> pl_enabled p \<and>
    c \<in> set (cb_current classes) \<and> cx_uid c = pd_uid rec \<and> pd_state rec = class_name (cx_state c) \<and>
    pd_state rec \<in> set (pl_states p) \<and> (pl_require_detached p \<longrightarrow> cx_detached c) \<and>
    pl_min_stable p \<le> time_sub (time_unix (cx_ts c)) (time_unix (cx_stable_since c)) \<and>
    parse_key (pd_uid rec) = Inr k \<and> by_key snap k = Some proc \<and>
    map_of (rs_attributions res) (pd_uid rec) = Some attr \<and>
    at_agent_id attr \<in> set (pl_agents p) \<and> proc_name proc \<in> set (pl_executables p) \<and>
    pr_uid proc = dm_self_uid d \<and> (dm_self_pid d = 0 \<or> pr_pid proc \<noteq> dm_self_pid d) \<and> pr_tty proc = [] \<and>
    descendants t (pr_pid proc) = [] \<and> cx_session_ended c \<and> 95 / 100 \<le> at_confidence attr \<and>
    last_candidate_cooldown s (pd_policy rec) (pd_uid rec) \<le> pd_class_ts rec"
proof -
  from assms(1,2) have "\<exists>b0. policies_loop d env s snap t res (cb_current classes) b0 = Inr b \<and> pb_records b0 = []"
    by (auto simp: evaluate_policies_def no_policies_def Let_def split: if_splits)
  then obtain b0 where loop: "policies_loop d env s snap t res (cb_current classes) b0 = Inr b" "pb_records b0 = []"
    by blast
  from policies_loop_records [OF loop(1) assms(2)] loop(2) obtain c k proc attr p dec where
    c: "c \<in> set (cb_current classes)" and cp: "classified_process snap res c = Some (k, proc, attr)"
    and p: "p \<in> set (cf_policies (dm_cfg d))" and rec: "rec = decision_row c dec"
    and ev: "evaluate_policy p (policy_target d t res k proc attr c) (time_unix (cx_ts c))
      (time_unix (last_candidate_cooldown s (pl_id p) (cx_uid c))) = Some dec" by auto
  let ?tg = "policy_target d t res k proc attr c"
  have fields: "dc_policy_id dec = pl_id p" "dc_proc_uid dec = cx_uid c" "dc_state dec = class_name (cx_state c)"
    using evaluate_policy_result [OF ev] by (simp_all add: policy_target_def)
  have cand: "dc_result dec = ResultCandidate" using assms(3) rec by (simp add: decision_row_def)
  have nm: "\<not> no_match p ?tg (time_unix (cx_ts c))" and np: "\<not> pe_protected (tg_protection ?tg)"
    and cool: "time_unix (last_candidate_cooldown s (pl_id p) (cx_uid c)) \<le> time_unix (cx_ts c)"
    using evaluate_policy_result(1,2) [OF ev] cand by (auto split: if_splits)
  have clear: "pr_uid proc = dm_self_uid d" "dm_self_pid d = 0 \<or> pr_pid proc \<noteq> dm_self_pid d" "pr_tty proc = []"
    "descendants t (pr_pid proc) = []" "cx_session_ended c" "95 / 100 \<le> at_confidence attr"
    using np by (auto simp: policy_target_def protection_for_def protected_iff_clear clears_protection_def Let_def)
  show ?thesis
    using c p fields nm clear cool classified_process_Some [OF cp] unfolding not_no_match
    by (intro exI [of _ p] exI [of _ c] exI [of _ k] exI [of _ proc] exI [of _ attr])
      (simp add: rec decision_row_def policy_target_def time_unix_def)
qed

section \<open>Retention keeps what authority rests on\<close>

lemma map_of_filter_kept:
  "distinct (List.map fst m) \<Longrightarrow> map_of (filter P m) k =
     (case map_of m k of None \<Rightarrow> None | Some v \<Rightarrow> if P (k, v) then Some v else None)"
  by (induction m) (auto split: option.splits dest: map_of_SomeD simp: image_iff map_of_eq_None_iff)

lemma compact_once_fields:
  "sto_decisions (compact_once p now s) =
     sto_decisions (delete_decisions (cutoff now (rn_decisions p)) (unix_nano now) s)"
  "sto_processes (compact_once p now s) = sto_processes (delete_exited (cutoff now (rn_exited p)) s)"
  "sto_evaluations (compact_once p now s) = sto_evaluations (delete_evaluations (cutoff now (rn_decisions p))
     (delete_decisions (cutoff now (rn_decisions p)) (unix_nano now) s))"
  by (simp_all add: compact_once_def delete_series_def delete_decisions_def delete_evaluations_def delete_journal_def
      delete_exited_def delete_sessions_def delete_unreachable_def max_evaluation_def Let_def)

lemma max_evaluation_compact: "max_evaluation (compact_once p now s) = max_evaluation s"
proof (cases "sto_evaluations s = []")
  case True
  then show ?thesis
    by (simp add: max_evaluation_eq compact_once_fields delete_evaluations_def delete_decisions_def)
next
  case False
  let ?m = "Max (fst ` set (sto_evaluations s))"
  let ?kept = "sto_evaluations (compact_once p now s)"
  have "?m \<in> fst ` set (sto_evaluations s)" using False by (intro Max_in) simp_all
  then obtain ts where "(?m, ts) \<in> set (sto_evaluations s)" by auto
  then have "(?m, ts) \<in> set ?kept"
    using False by (auto simp: compact_once_fields delete_evaluations_def delete_decisions_def max_evaluation_eq)
  then have "?m \<in> fst ` set ?kept" by force
  moreover have sub: "fst ` set ?kept \<subseteq> fst ` set (sto_evaluations s)"
    by (auto simp: compact_once_fields delete_evaluations_def delete_decisions_def)
  ultimately have "Max (fst ` set ?kept) = ?m"
    by (intro Max_eqI) (auto intro!: Max_ge dest: subsetD [OF sub])
  with \<open>?m \<in> fst ` set ?kept\<close> False show ?thesis by (auto simp: max_evaluation_eq)
qed

lemma process_live_compact: "wf_store s \<Longrightarrow> process_live (compact_once p now s) uid = process_live s uid"
  by (auto simp: process_live_def compact_once_fields delete_exited_def Let_def wf_store_def map_of_filter_kept
      exited_before_def split: option.splits)

lemma filter_filter_same:
  "(\<And>x. x \<in> set xs \<Longrightarrow> P x \<Longrightarrow> Q x) \<Longrightarrow> filter P (filter Q xs) = filter P xs"
  by (induction xs) auto

lemma current_decisions_compact:
  assumes "wf_store s"
  shows "current_policy_decisions (compact_once p now s) = current_policy_decisions s"
proof (cases "max_evaluation s")
  case None
  then show ?thesis by (simp add: current_policy_decisions_def max_evaluation_compact)
next
  case (Some m)
  let ?s = "compact_once p now s"
  have decs: "sto_decisions ?s = filter (\<lambda>d. \<not> (pd_ts d < cutoff now (rn_decisions p) \<and> pd_evaluation d \<noteq> m \<and>
      (pd_result d \<noteq> ResultCandidate \<or> pd_cooldown d \<le> unix_nano now))) (sto_decisions s)"
    by (simp add: compact_once_fields delete_decisions_def Some)
  have "is_latest ?s d = is_latest s d" if "pd_evaluation d = m" for d
    using that by (auto simp: is_latest_def decs)
  then have "filter (\<lambda>d. pd_evaluation d = m \<and> process_live ?s (pd_uid d) \<and> is_latest ?s d) (sto_decisions ?s) =
      filter (\<lambda>d. pd_evaluation d = m \<and> process_live s (pd_uid d) \<and> is_latest s d) (sto_decisions ?s)"
    by (intro filter_cong) (auto simp: process_live_compact [OF assms])
  also have "\<dots> = filter (\<lambda>d. pd_evaluation d = m \<and> process_live s (pd_uid d) \<and> is_latest s d) (sto_decisions s)"
    unfolding decs by (rule filter_filter_same) auto
  finally show ?thesis by (simp add: current_policy_decisions_def max_evaluation_compact Some)
qed

lemma pending_cooldown_compact:
  assumes "unix_nano now < last_candidate_cooldown s pid uid"
  shows "last_candidate_cooldown (compact_once p now s) pid uid = last_candidate_cooldown s pid uid"
proof -
  define cand :: "decision_record \<Rightarrow> bool" where "cand = (\<lambda>d. pd_policy d = pid \<and> pd_uid d = uid \<and> pd_result d = ResultCandidate)"
  define keep :: "decision_record \<Rightarrow> bool" where "keep = (\<lambda>d. \<not> (pd_ts d < cutoff now (rn_decisions p) \<and>
      (case max_evaluation s of None \<Rightarrow> False | Some m \<Rightarrow> pd_evaluation d \<noteq> m) \<and>
      (pd_result d \<noteq> ResultCandidate \<or> pd_cooldown d \<le> unix_nano now)))"
  have decs: "sto_decisions (compact_once p now s) = filter keep (sto_decisions s)"
    by (simp add: compact_once_fields delete_decisions_def keep_def)
  have last: "last_candidate_cooldown t pid uid =
      (case rev (sort_key pd_id (filter cand (sto_decisions t))) of [] \<Rightarrow> 0 | d # _ \<Rightarrow> pd_cooldown d)" for t
    by (simp add: last_candidate_cooldown_def cand_def)
  have "filter cand (filter keep (sto_decisions s)) = filter keep (filter cand (sto_decisions s))"
    by (simp add: conj_commute)
  then have cut: "rev (sort_key pd_id (filter cand (sto_decisions (compact_once p now s)))) =
      filter keep (rev (sort_key pd_id (filter cand (sto_decisions s))))"
    by (simp only: decs filter_sort [symmetric] rev_filter)
  show ?thesis
  proof (cases "rev (sort_key pd_id (filter cand (sto_decisions s)))")
    case Nil
    then show ?thesis by (simp add: last cut)
  next
    case (Cons d ds)
    then have "unix_nano now < pd_cooldown d" using assms by (simp add: last)
    moreover have "d \<in> set (rev (sort_key pd_id (filter cand (sto_decisions s))))" unfolding Cons by simp
    then have "pd_result d = ResultCandidate" by (simp add: cand_def)
    ultimately have "keep d" by (simp add: keep_def)
    with Cons show ?thesis by (simp add: last cut)
  qed
qed

text \<open>C26: Retention does not touch authority. Whatever windows it is given, also in the aggressive
  second pass, a compaction leaves the current decisions exactly as they are, and a cooldown
  that has not run out yet is still found afterwards.\<close>

theorem retention_keeps_authority:
  assumes "wf_store s" and "compact_store bytes tx1 tx2 p now s = (err, s')"
  shows "current_policy_decisions s' = current_policy_decisions s \<and>
    (\<forall>pid uid. unix_nano now < last_candidate_cooldown s pid uid \<longrightarrow>
       last_candidate_cooldown s' pid uid = last_candidate_cooldown s pid uid)"
proof -
  have "s' \<in> {s, compact_once p now s, compact_once (tighter p) now (compact_once p now s)}"
    using assms(2) by (auto simp: compact_store_def with_tx_def split: option.splits if_splits)
  then show ?thesis
    using assms(1) current_decisions_compact pending_cooldown_compact compact_once_wf by auto
qed

section \<open>Concrete runs\<close>

definition sample_env :: "string + snapshot \<Rightarrow> scan_env" where
  "sample_env snap = \<lparr>sv_snapshot = snap, sv_cancelled = False, sv_reachable = (\<lambda>_. True),
     sv_sample = (\<lambda>k _. Inr (zero_sample\<lparr>as_key := k, as_taken := 95\<rparr>)), sv_sessions_error = None,
     sv_cooldown_error = (\<lambda>_ _. None), sv_persist_tx = None, sv_failure_tx = None, sv_start = 90,
     sv_duration_us = 1, sv_now = 96, sv_auto = sample_surroundings\<rparr>"

theorem daemon_refines_lane_witness:
  "\<exists>w'. (daemon_step sample_crypto no_urls (\<lambda>_. True))\<^sup>*\<^sup>* (sample_world [] []) w' \<and>
     kills (wo_effects w') = [Killed ''act_1'' 8] \<and> journaled (wo_effects w')"
proof -
  obtain pv entries where p: "cleanup_preview sample_crypto sample_surroundings ''p1'' (key_uid (new_key 8 60)) (sample_world [] []) =
    (pv, sample_world [(''#t'', sample_approval sample_crypto False)] entries)" by (rule sample_preview)
  obtain out w' where a: "cleanup_apply sample_crypto no_urls sample_surroundings ''t''
      (sample_world [(''#t'', sample_approval sample_crypto False)] entries) = (out, w')"
    and e: "wo_effects w' = [Journaled ''act_1'' ActionAttempting, Killed ''act_1'' 8, Journaled ''act_1'' ActionSignalled]"
    by (rule sample_apply)
  have run: "(daemon_step sample_crypto no_urls (\<lambda>_. True))\<^sup>*\<^sup>* (sample_world [] []) w'"
    using daemon_step.previewed [OF p] daemon_step.requested [OF a]
    by (meson converse_rtranclp_into_rtranclp r_into_rtranclp)
  have "wo_effects (sample_world [] []) = []" by (simp add: sample_world_def)
  with daemon_refines_lane [OF run] run e show ?thesis by auto
qed

theorem failed_scan_withdraws_authority_witness:
  "\<exists>w w'. w' = run_scan sample_crypto no_urls (sample_env (Inl ''ps failed'')) w \<and>
     approvals w \<noteq> [] \<and> kills (wo_effects (snd (cleanup_apply sample_crypto no_urls sample_surroundings ''t'' w'))) = []"
proof -
  let ?w = "(sample_world [(''#t'', sample_approval sample_crypto False)] [])\<lparr>wo_store := empty_store\<rparr>"
  let ?w' = "run_scan sample_crypto no_urls (sample_env (Inl ''ps failed'')) ?w"
  have o: "scan_outcome_of no_urls (sample_env (Inl ''ps failed'')) ?w = ScanFailed (Text (''snapshot: '' @ ''ps failed''))"
    by (simp add: scan_outcome_of_def sample_env_def)
  have "(daemon_step sample_crypto no_urls (\<lambda>_. True))\<^sup>*\<^sup>* ?w ?w" "wo_store ?w = empty_store"
    "sv_failure_tx (sample_env (Inl ''ps failed'')) = None" by (simp_all add: sample_env_def)
  from failed_scan_withdraws_authority [OF this(1,2) o this(3) refl, of sample_surroundings _ _ "''t''"]
  have "kills (wo_effects (snd (cleanup_apply sample_crypto no_urls sample_surroundings ''t'' ?w'))) = []"
    by (cases "cleanup_apply sample_crypto no_urls sample_surroundings ''t'' ?w'") (auto simp: sample_world_def)
  moreover have "approvals ?w \<noteq> []" by (simp add: sample_world_def sample_daemon_def)
  ultimately show ?thesis by blast
qed

definition sample_class :: classification_record where
  "sample_class = \<lparr>cx_uid = key_uid (new_key 8 60), cx_session = ''s1'', cx_ts = 95, cx_activity_ts = 95,
     cx_state = ClassUnknown, cx_basis = ClassUnknown, cx_detached = True, cx_session_ended = True,
     cx_stable_since = 95, cx_evidence = []\<rparr>"

definition sample_classes :: class_batch where
  "sample_classes = no_classes\<lparr>cb_due := True, cb_current := [sample_class]\<rparr>"

definition sample_result :: result where
  "sample_result = (empty_result [])\<lparr>rs_attributions := [(key_uid (new_key 8 60),
     no_attribution\<lparr>at_agent_id := ''codex'', at_session_id := ''s1'', at_confidence := 97 / 100\<rparr>)]\<rparr>"

lemma sample_evaluation:
  obtains b rec where "evaluate_policies (sample_daemon []) (sample_env (Inr sample_snapshot)) empty_store sample_snapshot
      (build_tree sample_snapshot) sample_result sample_classes = Inr b"
    "rec \<in> set (pb_records b)" "pd_result rec = ResultCandidate" "pd_uid rec = key_uid (new_key 8 60)"
proof -
  let ?attr = "no_attribution\<lparr>at_agent_id := ''codex'', at_session_id := ''s1'', at_confidence := 97 / 100\<rparr>"
  let ?tg = "policy_target (sample_daemon []) (build_tree sample_snapshot) sample_result (new_key 8 60)
    (sample_process 8 1 60) ?attr sample_class"
  have np: "\<not> pe_protected (tg_protection ?tg)"
    using sample_tree_leaf
    by (simp add: policy_target_def protection_for_def protected_iff_clear clears_protection_def Let_def sample_daemon_def
        sample_unprotected sample_class_def sample_result_def empty_result_def)
  have "\<not> no_match sample_policy ?tg (time_unix 95)"
    unfolding not_no_match
    by (simp add: policy_target_def sample_class_def sample_policy_def time_unix_def unix_epoch_def time_sub_def)
  then obtain dec where dec: "evaluate_policy sample_policy ?tg (time_unix 95) (time_unix 0) = Some dec"
    using evaluate_policy_None [of sample_policy ?tg "time_unix 95" "time_unix 0"] by auto
  have cand: "dc_result dec = ResultCandidate" "dc_proc_uid dec = key_uid (new_key 8 60)"
    using evaluate_policy_result [OF dec] np by (simp_all add: time_unix_def policy_target_def sample_class_def)
  have "classified_process sample_snapshot sample_result sample_class = Some (new_key 8 60, sample_process 8 1 60, ?attr)"
    by (simp add: classified_process_def sample_class_def parse_key_uid [OF key_in_range_sample] sample_by_key
        sample_result_def)
  moreover have "last_candidate_cooldown empty_store x y = 0" for x y
    by (simp add: last_candidate_cooldown_def empty_store_def)
  ultimately have "\<exists>b. evaluate_policies (sample_daemon []) (sample_env (Inr sample_snapshot)) empty_store sample_snapshot
      (build_tree sample_snapshot) sample_result sample_classes = Inr b \<and> decision_row sample_class dec \<in> set (pb_records b)"
    using dec
    by (simp add: evaluate_policies_def sample_classes_def no_classes_def Let_def sample_daemon_def is_zero_time_def
        sample_env_def no_policies_def) (simp add: sample_class_def)
  then show thesis using that cand by (auto simp: decision_row_def)
qed

theorem recorded_candidate_justified_witness:
  "\<exists>b rec p. evaluate_policies (sample_daemon []) (sample_env (Inr sample_snapshot)) empty_store sample_snapshot
      (build_tree sample_snapshot) sample_result sample_classes = Inr b \<and> rec \<in> set (pb_records b) \<and>
     pd_result rec = ResultCandidate \<and> p \<in> set (cf_policies (dm_cfg (sample_daemon []))) \<and> pl_id p = pd_policy rec"
proof -
  obtain b rec where b: "evaluate_policies (sample_daemon []) (sample_env (Inr sample_snapshot)) empty_store sample_snapshot
      (build_tree sample_snapshot) sample_result sample_classes = Inr b"
    "rec \<in> set (pb_records b)" "pd_result rec = ResultCandidate" by (rule sample_evaluation)
  from recorded_candidate_justified [OF this] b show ?thesis by blast
qed

theorem retention_keeps_authority_witness:
  "current_policy_decisions (snd (compact_store (\<lambda>_. 0) None None (retention_of default_config) 1000 (sample_store []))) =
     current_policy_decisions (sample_store [])"
proof -
  have "wf_store (sample_store [])"
    by (simp add: wf_store_def sample_store_def empty_store_def evaluations_ok_def decisions_ok_def sessions_ok_def
        sample_decision_def)
  from retention_keeps_authority [OF this prod.collapse [symmetric]] show ?thesis by blast
qed

text \<open>C28: Decisions never dangle. No foreign key of the schema ties a decision to its evaluation, and
  retention deletes both separately; still, from an empty database and whatever the sequence of
  requests, scans (failed ones included), retention passes and restarts, every decision refers to
  an evaluation that has its row, a real row id of at least 1, so a scan whose policies are not
  due, which would write evaluation 0, leaves no decision; every row id in use stays behind its
  counter, so the evaluation a later scan opens has no decision yet; and every session row is
  stored under the id it carries.\<close>

theorem reachable_tables_well_formed:
  assumes "(daemon_step cy urls loaded)\<^sup>*\<^sup>* w w'" and "wo_store w = empty_store" and "s = wo_store w'"
  shows "(\<forall>d \<in> set (sto_decisions s). \<exists>ts. (pd_evaluation d, ts) \<in> set (sto_evaluations s) \<and> 1 \<le> pd_evaluation d) \<and>
    (\<forall>i ts. (i, ts) \<in> set (sto_evaluations s) \<longrightarrow> 1 \<le> i \<and> i < sto_next_evaluation s) \<and>
    (\<forall>d \<in> set (sto_decisions s). pd_evaluation d \<noteq> fst (insert_policy_evaluation now s) \<and> pd_id d < sto_next_decision s) \<and>
    distinct (List.map fst (sto_evaluations s)) \<and> distinct (List.map pd_id (sto_decisions s)) \<and>
    (\<forall>k r. map_of (sto_sessions s) k = Some r \<longrightarrow> sr_session_id r = k)"
proof -
  have wf: "wf_store s" using tables.run_keeps [OF assms(1)] assms(2,3) wf_empty by simp
  then have es: "evaluations_ok (sto_next_evaluation s) (sto_evaluations s)"
    and ds: "decisions_ok (sto_evaluations s) (sto_next_decision s) (sto_decisions s)"
    and ss: "sessions_ok (sto_sessions s)" by (simp_all add: wf_store_def)
  from es have rows: "\<forall>i ts. (i, ts) \<in> set (sto_evaluations s) \<longrightarrow> 1 \<le> i \<and> i < sto_next_evaluation s"
    and evs: "distinct (List.map fst (sto_evaluations s))" by (force simp: evaluations_ok_def)+
  from ds rows have "\<forall>d \<in> set (sto_decisions s). \<exists>ts. (pd_evaluation d, ts) \<in> set (sto_evaluations s) \<and> 1 \<le> pd_evaluation d"
    by (force simp: decisions_ok_def)
  moreover from this rows ds
  have "\<forall>d \<in> set (sto_decisions s). pd_evaluation d \<noteq> fst (insert_policy_evaluation now s) \<and> pd_id d < sto_next_decision s"
    by (force simp: decisions_ok_def insert_policy_evaluation_def)
  moreover have "\<forall>k r. map_of (sto_sessions s) k = Some r \<longrightarrow> sr_session_id r = k"
    using ss by (auto simp: sessions_ok_def dest!: map_of_SomeD)
  ultimately show ?thesis using rows evs ds by (simp add: decisions_ok_def)
qed

theorem reachable_tables_well_formed_witness:
  "let w = (sample_world [] [])\<lparr>wo_store := empty_store\<rparr>;
       w' = run_scan sample_crypto no_urls (sample_env (Inr sample_snapshot)) w
   in \<forall>d \<in> set (sto_decisions (wo_store w')). \<exists>ts. (pd_evaluation d, ts) \<in> set (sto_evaluations (wo_store w'))"
proof -
  let ?w = "(sample_world [] [])\<lparr>wo_store := empty_store\<rparr>"
  have "(daemon_step sample_crypto no_urls (\<lambda>_. True))\<^sup>*\<^sup>* ?w (run_scan sample_crypto no_urls (sample_env (Inr sample_snapshot)) ?w)"
    by (blast intro: daemon_step.scanned)
  moreover have "wo_store ?w = empty_store" by simp
  ultimately show ?thesis
    unfolding Let_def using reachable_tables_well_formed [OF _ _ refl, of _ _ _ ?w _ 0] by blast
qed

end
