(* ===== verification/Cache_Model.thy ===== *)
theory Cache_Model
  imports Config Classification Paths
begin

text \<open>
  Cache artifacts, the policy that recommends them and the Codex shell-snapshot provider
  (\<open>internal/cacheartifact\<close>, \<open>internal/cachepolicy\<close>, \<open>internal/cacheprovider\<close>). SHA-256 and
  JSON encoding are the record \<open>hash_ops\<close>. A filesystem is seen here only through its
  \<open>Snapshot\<close> operation, an argument of \<open>observe\<close>.
\<close>

named_theorems cache_simps \<open>facts about cache artifacts\<close>

section \<open>Identities and artifacts\<close>

record identity =
  ci_uid :: "32 word"
  ci_device :: "64 word"
  ci_inode :: "64 word"
  ci_mode :: "32 word"
  ci_nlink :: "64 word"
  ci_size :: int
  ci_mtime :: int
  ci_ctime :: int
  ci_atime :: int
  ci_birth :: int
  ci_entry_type :: string

definition same_object :: "identity \<Rightarrow> identity \<Rightarrow> bool" where
  "same_object i j \<longleftrightarrow> ci_uid i = ci_uid j \<and> ci_device i = ci_device j \<and>
     ci_inode i = ci_inode j \<and> ci_entry_type i = ci_entry_type j"

datatype lifecycle = StateObserved | StateProtected | StateSettling | StateStaleCandidate
  | StateRecommended | StateQuarantined | StateRestored | StatePurged | StatePartial | StateFailed

record artifact =
  ca_id :: string
  ca_provider :: string
  ca_agent :: string
  ca_session :: string
  ca_kind :: string
  ca_root_path :: string
  ca_relative_path :: string
  ca_identity :: identity
  ca_root_identity :: identity
  ca_identity_digest :: string
  ca_manifest_digest :: string
  ca_first_observed :: int
  ca_last_observed :: int
  ca_stable_since :: int
  ca_lifecycle :: lifecycle
  ca_reason :: detail
  ca_evidence :: "detail list"
  ca_configuration :: string
  ca_evaluation :: int
  ca_policy :: string
  ca_quarantine_path :: string
  ca_quarantined_at :: int
  ca_quarantine_digest :: string

datatype cache_verdict = VerdictProtected | VerdictSettling | VerdictNoPolicy | VerdictAudit | VerdictRecommended

record cache_decision =
  cd_evaluation :: int
  cd_artifact :: string
  cd_policy :: string
  cd_verdict :: cache_verdict
  cd_reason :: detail
  cd_evidence :: "detail list"

record cache_observation =
  co_artifact :: string
  co_evaluation :: int
  co_observed :: int
  co_identity_digest :: string
  co_manifest_digest :: string
  co_lifecycle :: lifecycle
  co_complete :: bool
  co_evidence :: "detail list"

record cache_evaluation =
  ce_observed :: int
  ce_configuration :: string
  ce_complete :: bool
  ce_inspected :: int
  ce_protected :: int
  ce_candidates :: int
  ce_error :: detail

datatype quarantine_status = Quarantined | Restored | Purged

record quarantine =
  qu_artifact :: string
  qu_root_path :: string
  qu_original_path :: string
  qu_path :: string
  qu_identity :: identity
  qu_manifest_digest :: string
  qu_quarantined :: int
  qu_grace_until :: int
  qu_status :: quarantine_status
  qu_updated :: int
  qu_configuration :: string
  qu_original_manifest :: string

definition provider_codex_shell_snapshot :: string where
  "provider_codex_shell_snapshot = ''codex-shell-snapshot-v1''"
definition agent_codex :: string where "agent_codex = ''codex''"
definition kind_shell_snapshot :: string where "kind_shell_snapshot = ''shell-snapshot''"
definition quarantine_directory :: string where "quarantine_directory = ''.ghostgc-quarantine''"

section \<open>Digests\<close>

text \<open>
  \<open>ha_sum\<close> is SHA-256 as a byte string; the other fields are the JSON encodings that the
  sources hash. The kind of an approval is part of what its binding covers.
\<close>

datatype cache_kind = KindCleanup | KindRestore | KindPurge

record hash_ops =
  ha_sum :: "string \<Rightarrow> string"
  ha_identity_json :: "identity \<Rightarrow> string"
  ha_manifest_json :: "string \<Rightarrow> identity \<Rightarrow> string"
  ha_config_json :: "cache_config \<Rightarrow> string"
  ha_binding_json :: "cache_kind \<Rightarrow> artifact \<Rightarrow> quarantine option \<Rightarrow> string \<Rightarrow> string \<Rightarrow> string"

definition hex_digit :: "nat \<Rightarrow> char" where
  "hex_digit n = (if n < 10 then char_of (48 + n) else char_of (87 + n))"

definition hex_encode :: "string \<Rightarrow> string" where
  "hex_encode s = concat (List.map (\<lambda>c. [hex_digit (of_char c div 16), hex_digit (of_char c mod 16)]) s)"

definition identity_digest :: "hash_ops \<Rightarrow> identity \<Rightarrow> string" where
  "identity_digest h i = hex_encode (ha_sum h (ha_identity_json h i))"

definition show_word :: "64 word \<Rightarrow> string" where
  "show_word w = show_nat (unat w)"

definition artifact_id :: "hash_ops \<Rightarrow> string \<Rightarrow> identity \<Rightarrow> identity \<Rightarrow> string" where
  "artifact_id h provider rt entry =
     ''ca_'' @ hex_encode (take 16 (ha_sum h (provider @ [char_of (0::nat)] @
       show_word (ci_device rt) @ '':'' @ show_word (ci_inode rt) @ [char_of (0::nat)] @
       show_word (ci_device entry) @ '':'' @ show_word (ci_inode entry))))"

definition manifest_digest :: "hash_ops \<Rightarrow> string \<Rightarrow> identity \<Rightarrow> string" where
  "manifest_digest h path i = hex_encode (ha_sum h (ha_manifest_json h path i))"

definition config_digest :: "hash_ops \<Rightarrow> cache_config \<Rightarrow> string" where
  "config_digest h c = hex_encode (ha_sum h (ha_config_json h c))"

section \<open>The cache policy\<close>

definition stable_history_eligible :: "lifecycle \<Rightarrow> bool" where
  "stable_history_eligible l \<longleftrightarrow>
     l \<in> {StateObserved, StateSettling, StateStaleCandidate, StateRecommended, StateRestored}"

definition enabled_cache_policy :: "cache_policy list \<Rightarrow> cache_policy option" where
  "enabled_cache_policy ps = List.find cl_enabled ps"

text \<open>The observation stamped with the time, its byte bound and the history it continues.\<close>

definition size_bound_reason :: detail where
  "size_bound_reason = Text ''artifact size exceeds the configured cache action byte bound''"

definition oversized :: "cache_config \<Rightarrow> artifact \<Rightarrow> bool" where
  "oversized c a \<longleftrightarrow> ci_size (ca_identity a) < 0 \<or> cc_max_bytes_action c < ci_size (ca_identity a)"

definition stamp_artifact :: "hash_ops \<Rightarrow> cache_config \<Rightarrow> gotime \<Rightarrow> artifact \<Rightarrow> artifact" where
  "stamp_artifact h c now observed =
     (let a = observed\<lparr>ca_configuration := config_digest h c, ca_first_observed := unix_nano now,
                ca_last_observed := unix_nano now, ca_stable_since := unix_nano now\<rparr> in
      if oversized c a
      then a\<lparr>ca_lifecycle := StateProtected, ca_reason := size_bound_reason,
             ca_evidence := ca_evidence a @ [size_bound_reason]\<rparr>
      else a)"

definition continue_history :: "artifact option \<Rightarrow> artifact \<Rightarrow> artifact" where
  "continue_history previous a =
     (case previous of
        None \<Rightarrow> a
      | Some p \<Rightarrow>
          let b = a\<lparr>ca_first_observed := ca_first_observed p\<rparr> in
          if stable_history_eligible (ca_lifecycle p) \<and> ca_identity_digest p = ca_identity_digest a \<and>
             ca_manifest_digest p = ca_manifest_digest a
          then b\<lparr>ca_stable_since := ca_stable_since p\<rparr> else b)"

definition cache_decision_of :: "artifact \<Rightarrow> string \<Rightarrow> cache_verdict \<Rightarrow> detail \<Rightarrow> cache_decision" where
  "cache_decision_of a pid verdict reason =
     \<lparr>cd_evaluation = 0, cd_artifact = ca_id a, cd_policy = pid, cd_verdict = verdict,
      cd_reason = reason, cd_evidence = ca_evidence a\<rparr>"

definition duration_truncate :: "duration \<Rightarrow> duration \<Rightarrow> duration" where
  "duration_truncate d m = (if m \<le> 0 then d else if d < 0 then - ((- d) div m * m) else d div m * m)"

text \<open>\<open>Evaluate\<close>: only committed previous state can advance an observation.\<close>

definition evaluate_cache ::
  "hash_ops \<Rightarrow> cache_config \<Rightarrow> gotime \<Rightarrow> artifact \<Rightarrow> artifact option \<Rightarrow> artifact \<times> cache_decision" where
  "evaluate_cache h c now observed previous =
     (let a = continue_history previous (stamp_artifact h c now observed) in
      if ca_lifecycle a = StateProtected then (a, cache_decision_of a [] VerdictProtected (ca_reason a))
      else
        let stable_for = time_sub now (time_unix (ca_stable_since a)) in
        if previous = None \<or> stable_for < cc_min_stable c then
          (let reason = Fmt ''unchanged committed observations span %s; %s required''
                 [ADur (duration_truncate stable_for second), ADur (cc_min_stable c)];
               b = a\<lparr>ca_lifecycle := StateSettling, ca_reason := reason, ca_evidence := ca_evidence a @ [reason]\<rparr> in
           (b, cache_decision_of b [] VerdictSettling reason))
        else
          let reason = Text ''two committed observations prove unchanged identity and manifest across the stable window'';
              b = a\<lparr>ca_lifecycle := StateStaleCandidate, ca_reason := reason, ca_evidence := ca_evidence a @ [reason]\<rparr> in
          (case enabled_cache_policy (cc_policies c) of
             None \<Rightarrow> (b, cache_decision_of b [] VerdictNoPolicy
               (Text ''no enabled exact cache policy grants recommendation authority''))
           | Some p \<Rightarrow>
               let e = b\<lparr>ca_policy := cl_id p\<rparr> in
               if cc_global_mode c = ModeRecommend \<and> cl_mode p = ModeRecommend
               then (let granted = Text ''cache-global recommend authority and one exact policy permit a manual preview'';
                         f = e\<lparr>ca_lifecycle := StateRecommended, ca_reason := granted\<rparr> in
                     (f, cache_decision_of f (cl_id p) VerdictRecommended granted))
               else (e, cache_decision_of e (cl_id p) VerdictAudit
                 (Text ''candidate is audit-only; cache-global and policy recommend authority are both required''))))"

section \<open>The Codex shell-snapshot provider\<close>

record cache_session =
  cs_id :: string
  cs_native_id :: string
  cs_agent :: string
  cs_state :: string
  cs_codex_home :: string
  cs_live_processes :: int
  cs_confidence :: rat

record fs_entry =
  fe_name :: string
  fe_identity :: identity

record fs_snapshot =
  fp_root :: identity
  fp_entries :: "fs_entry list"
  fp_complete :: bool

datatype errno = ENOENT | ELOOP | ENOTDIR | EEXIST | EXDEV | OtherErrno string

datatype fs_error = ErrUnsafePath string | ErrChangedIdentity | ErrDestination | ErrCrossDevice
  | ErrPartialPurge | SysError string errno | ContextDone string | InjectedError string

fun is_not_exist :: "fs_error \<Rightarrow> bool" where
  "is_not_exist (SysError _ n) = (n = ENOENT)"
| "is_not_exist _ = False"

record observe_result =
  or_artifacts :: "artifact list"
  or_complete :: bool
  or_inspected :: int

datatype observe_error = TraversalBound | ProviderFailed fs_error

record codex_provider =
  cv_uid :: "32 word"
  cv_roots :: "string list"

definition minimum_exclusive_confidence :: rat where "minimum_exclusive_confidence = 95 / 100"

definition path_ext :: "string \<Rightarrow> string" where
  "path_ext s =
     (case after_last (CHR ''.'') s of
        None \<Rightarrow> [] | Some r \<Rightarrow> if CHR ''/'' \<in> set r then [] else CHR ''.'' # r)"

definition trim_suffix :: "string \<Rightarrow> string \<Rightarrow> string" where
  "trim_suffix s suf = (if has_suffix suf s then take (length s - length suf) s else s)"

text \<open>\<open>strconv.ParseUint(s, 10, 64)\<close> accepts digits only, without a sign.\<close>

definition parse_uint64 :: "string \<Rightarrow> nat option" where
  "parse_uint64 s =
     (if s = [] \<or> \<not> list_all is_digit s then None
      else let v = digits_val 0 s in if v < 2 ^ 64 then Some v else None)"

definition is_lower_hex :: "char \<Rightarrow> bool" where
  "is_lower_hex c \<longleftrightarrow> is_digit c \<or> (97 \<le> (of_char c :: nat) \<and> (of_char c :: nat) \<le> 102)"

text \<open>The pattern of a thread id: five groups of lower-case hex digits.\<close>

definition thread_id_ok :: "string \<Rightarrow> bool" where
  "thread_id_ok s \<longleftrightarrow>
     List.map length (split_on (CHR ''-'') s) = [8, 4, 4, 4, 12] \<and>
     list_all (list_all is_lower_hex) (split_on (CHR ''-'') s)"

definition parse_snapshot_name :: "string \<Rightarrow> string option" where
  "parse_snapshot_name name =
     (let ext = path_ext name in
      if ext \<noteq> ''.sh'' \<and> ext \<noteq> ''.ps1'' then None
      else (case cut (CHR ''.'') (trim_suffix name ext) of
              None \<Rightarrow> None
            | Some (native, generation) \<Rightarrow>
                if CHR ''.'' \<in> set generation \<or> \<not> thread_id_ok native then None
                else if parse_uint64 generation = None then None else Some native))"

definition protect :: "detail \<Rightarrow> artifact \<Rightarrow> artifact" where
  "protect reason a =
     (let b = a\<lparr>ca_lifecycle := StateProtected,
                ca_reason := (if ca_reason a = Text [] then reason else ca_reason a)\<rparr> in
      if reason \<in> set (ca_evidence b) then b else b\<lparr>ca_evidence := ca_evidence b @ [reason]\<rparr>)"

definition protect_if :: "bool \<Rightarrow> detail \<Rightarrow> artifact \<Rightarrow> artifact" where
  "protect_if bad reason a = (if bad then protect reason a else a)"

definition observed_artifact :: "hash_ops \<Rightarrow> string \<Rightarrow> identity \<Rightarrow> fs_entry \<Rightarrow> artifact" where
  "observed_artifact h rt root_id entry =
     (let i = fe_identity entry in
      \<lparr>ca_id = artifact_id h provider_codex_shell_snapshot root_id i,
       ca_provider = provider_codex_shell_snapshot, ca_agent = agent_codex, ca_session = [],
       ca_kind = kind_shell_snapshot, ca_root_path = rt, ca_relative_path = fe_name entry,
       ca_identity = i, ca_root_identity = root_id, ca_identity_digest = identity_digest h i,
       ca_manifest_digest = manifest_digest h (fe_name entry) i,
       ca_first_observed = 0, ca_last_observed = 0, ca_stable_since = 0,
       ca_lifecycle = StateObserved, ca_reason = Text [],
       ca_evidence = [Text ''OpenAI Codex names shell snapshots from one ThreadId beneath CODEX_HOME/shell_snapshots''],
       ca_configuration = [], ca_evaluation = 0, ca_policy = [], ca_quarantine_path = [],
       ca_quarantined_at = 0, ca_quarantine_digest = []\<rparr>)"

text \<open>The checks on the entry itself, and those on the session that owns it.\<close>

definition entry_checks :: "codex_provider \<Rightarrow> identity \<Rightarrow> identity \<Rightarrow> artifact \<Rightarrow> artifact" where
  "entry_checks p root_id i a =
     protect_if (ci_nlink i \<noteq> 1) (Text ''regular file has an unexpected hard-link count'')
       (protect_if (ci_entry_type i \<noteq> ''regular'') (Text ''entry is not a regular file'')
         (protect_if (ci_device i \<noteq> ci_device root_id) (Text ''entry crosses the provider root filesystem'')
           (protect_if (ci_uid root_id \<noteq> cv_uid p \<or> ci_uid i \<noteq> cv_uid p)
              (Text ''provider root or entry belongs to another user'') a)))"

definition owner_checks :: "cache_session \<Rightarrow> artifact \<Rightarrow> artifact" where
  "owner_checks s a =
     protect_if (cs_live_processes s \<noteq> 0)
        (Fmt ''%d live process(es) still claim the owning session'' [AInt (cs_live_processes s)])
       (protect_if (cs_state s \<noteq> ''completed'')
          (Fmt ''owning session lifecycle is %s, not completed'' [AStr (cs_state s)])
         (protect_if (cs_confidence s < minimum_exclusive_confidence)
            (Fmt ''owning session confidence %.2f is below the exclusive-ownership threshold %.2f''
              [ANum (cs_confidence s), ANum minimum_exclusive_confidence]) a))"

definition artifact_of ::
  "hash_ops \<Rightarrow> codex_provider \<Rightarrow> string \<Rightarrow> identity \<Rightarrow> (string \<Rightarrow> cache_session list) \<Rightarrow> fs_entry \<Rightarrow> artifact" where
  "artifact_of h p rt root_id by_native entry =
     (let a = entry_checks p root_id (fe_identity entry) (observed_artifact h rt root_id entry) in
      case parse_snapshot_name (fe_name entry) of
        None \<Rightarrow> protect (Text ''filename does not match the pinned Codex shell-snapshot contract'') a
      | Some native \<Rightarrow>
          (case by_native native of
             [s] \<Rightarrow> owner_checks s (a\<lparr>ca_session := cs_id s, ca_evidence := ca_evidence a @
               [Fmt ''filename thread id exactly matches the known Codex native session id %s'' [AStr native]]\<rparr>)
           | ms \<Rightarrow> protect (Fmt ''thread id maps to %d known Codex sessions; exact ownership requires one''
               [AInt (int (length ms))]) a))"

definition codex_session :: "cache_session \<Rightarrow> bool" where
  "codex_session s \<longleftrightarrow> cs_agent s = agent_codex \<and> cs_codex_home s \<noteq> []"

definition sessions_by_native :: "cache_session list \<Rightarrow> string \<Rightarrow> cache_session list" where
  "sessions_by_native ss native =
     filter (\<lambda>s. codex_session s \<and> cs_native_id s \<noteq> [] \<and> cs_native_id s = native) ss"

definition snapshot_root :: "cache_session \<Rightarrow> string" where
  "snapshot_root s = path_join [cs_codex_home s, ''shell_snapshots'']"

definition provider_roots :: "codex_provider \<Rightarrow> cache_session list \<Rightarrow> string list" where
  "provider_roots p ss =
     sort (remdups (filter (\<lambda>r. r \<in> set (cv_roots p)) (List.map snapshot_root (filter codex_session ss))))"

definition session_sort_key :: "cache_session \<Rightarrow> string" where
  "session_sort_key s =
     cs_id s @ [char_of (0::nat)] @ cs_native_id s @ [char_of (0::nat)] @ cs_codex_home s"

definition bounded_prefix :: "int \<Rightarrow> 'a list \<Rightarrow> 'a list \<times> bool" where
  "bounded_prefix n xs = (take (nat n) xs, int (length xs) \<le> n)"

definition incomplete_entry_reason :: detail where
  "incomplete_entry_reason = Text ''provider traversal limit was exhausted; the scan is incomplete''"

definition entry_artifacts ::
  "hash_ops \<Rightarrow> codex_provider \<Rightarrow> (string \<Rightarrow> cache_session list) \<Rightarrow> string \<Rightarrow> fs_snapshot \<Rightarrow> artifact list" where
  "entry_artifacts h p by_native rt snap =
     List.map (\<lambda>e. protect_if (\<not> fp_complete snap) incomplete_entry_reason
                     (artifact_of h p rt (fp_root snap) by_native e))
       (filter (\<lambda>e. fe_name e \<noteq> quarantine_directory) (fp_entries snap))"

fun observe_roots ::
  "hash_ops \<Rightarrow> codex_provider \<Rightarrow> (string \<Rightarrow> cache_session list) \<Rightarrow> (string \<Rightarrow> int \<Rightarrow> fs_error + fs_snapshot)
     \<Rightarrow> string list \<Rightarrow> int \<Rightarrow> observe_result \<Rightarrow> observe_error + observe_result" where
  "observe_roots h p by_native snapshot [] remaining res = Inr res"
| "observe_roots h p by_native snapshot (r # rs) remaining res =
     (if remaining < 1 then Inr (res\<lparr>or_complete := False\<rparr>)
      else (case snapshot r remaining of
        Inl e \<Rightarrow> if is_not_exist e then observe_roots h p by_native snapshot rs remaining res
                  else Inl (ProviderFailed e)
      | Inr snap \<Rightarrow>
          let n = int (length (fp_entries snap)) in
          observe_roots h p by_native snapshot rs (remaining - n)
            (res\<lparr>or_inspected := or_inspected res + n,
                 or_complete := or_complete res \<and> fp_complete snap,
                 or_artifacts := or_artifacts res @ entry_artifacts h p by_native r snap\<rparr>)))"

definition incomplete_scan_reason :: detail where
  "incomplete_scan_reason = Text ''bounded provider scan was incomplete''"

definition observe ::
  "hash_ops \<Rightarrow> codex_provider \<Rightarrow> cache_session list \<Rightarrow> (string \<Rightarrow> int \<Rightarrow> fs_error + fs_snapshot) \<Rightarrow> int
     \<Rightarrow> observe_error + observe_result" where
  "observe h p sessions snapshot max_entries =
     (if max_entries < 1 then Inl TraversalBound
      else
        let (ss, sessions_complete) = bounded_prefix max_entries (sort_key session_sort_key sessions);
            (rs, roots_complete) = bounded_prefix max_entries (provider_roots p ss) in
        (case observe_roots h p (sessions_by_native ss) snapshot rs max_entries
                \<lparr>or_artifacts = [], or_complete = sessions_complete \<and> roots_complete, or_inspected = 0\<rparr> of
           Inl e \<Rightarrow> Inl e
         | Inr res \<Rightarrow>
             Inr (if or_complete res then res
                  else res\<lparr>or_artifacts := List.map (protect incomplete_scan_reason) (or_artifacts res)\<rparr>)))"

section \<open>What a recommendation rests on\<close>

text \<open>The history of an observation: what it continues and since when it is unchanged.\<close>

definition continues :: "artifact \<Rightarrow> artifact \<Rightarrow> bool" where
  "continues p a \<longleftrightarrow> stable_history_eligible (ca_lifecycle p) \<and>
     ca_identity_digest p = ca_identity_digest a \<and> ca_manifest_digest p = ca_manifest_digest a"

lemma stamp_artifact_keeps [simp]:
  "ca_id (stamp_artifact h c now a) = ca_id a"
  "ca_identity (stamp_artifact h c now a) = ca_identity a"
  "ca_identity_digest (stamp_artifact h c now a) = ca_identity_digest a"
  "ca_manifest_digest (stamp_artifact h c now a) = ca_manifest_digest a"
  "ca_stable_since (stamp_artifact h c now a) = unix_nano now"
  "ca_last_observed (stamp_artifact h c now a) = unix_nano now"
  "ca_session (stamp_artifact h c now a) = ca_session a"
  "ca_root_path (stamp_artifact h c now a) = ca_root_path a"
  "ca_relative_path (stamp_artifact h c now a) = ca_relative_path a"
  "ca_root_identity (stamp_artifact h c now a) = ca_root_identity a"
  by (simp_all add: stamp_artifact_def Let_def)

lemma stamp_artifact_lifecycle:
  "ca_lifecycle (stamp_artifact h c now a) = (if oversized c a then StateProtected else ca_lifecycle a)"
  by (simp add: stamp_artifact_def Let_def oversized_def)

lemma continue_history_keeps [simp]:
  "ca_id (continue_history prev a) = ca_id a"
  "ca_lifecycle (continue_history prev a) = ca_lifecycle a"
  "ca_identity (continue_history prev a) = ca_identity a"
  "ca_identity_digest (continue_history prev a) = ca_identity_digest a"
  "ca_manifest_digest (continue_history prev a) = ca_manifest_digest a"
  "ca_last_observed (continue_history prev a) = ca_last_observed a"
  "ca_session (continue_history prev a) = ca_session a"
  "ca_root_path (continue_history prev a) = ca_root_path a"
  "ca_relative_path (continue_history prev a) = ca_relative_path a"
  "ca_root_identity (continue_history prev a) = ca_root_identity a"
  by (simp_all add: continue_history_def Let_def split: option.splits)

lemma continue_history_stable_since:
  "ca_stable_since (continue_history prev a) =
     (case prev of Some p \<Rightarrow> if continues p a then ca_stable_since p else ca_stable_since a
      | None \<Rightarrow> ca_stable_since a)"
  by (simp add: continue_history_def continues_def Let_def split: option.splits)

lemma evaluate_cache_keeps [simp]:
  "ca_id (fst (evaluate_cache h c now a prev)) = ca_id a"
  "ca_identity (fst (evaluate_cache h c now a prev)) = ca_identity a"
  "ca_identity_digest (fst (evaluate_cache h c now a prev)) = ca_identity_digest a"
  "ca_manifest_digest (fst (evaluate_cache h c now a prev)) = ca_manifest_digest a"
  "ca_last_observed (fst (evaluate_cache h c now a prev)) = unix_nano now"
  "ca_session (fst (evaluate_cache h c now a prev)) = ca_session a"
  "ca_root_path (fst (evaluate_cache h c now a prev)) = ca_root_path a"
  "ca_relative_path (fst (evaluate_cache h c now a prev)) = ca_relative_path a"
  "ca_root_identity (fst (evaluate_cache h c now a prev)) = ca_root_identity a"
  by (simp_all add: evaluate_cache_def Let_def split: option.splits)

lemma evaluate_cache_stable_since:
  "ca_stable_since (fst (evaluate_cache h c now a prev)) =
     (case prev of Some p \<Rightarrow> if continues p a then ca_stable_since p else unix_nano now | None \<Rightarrow> unix_nano now)"
  by (simp add: evaluate_cache_def Let_def continue_history_stable_since continues_def split: option.splits)

lemma evaluate_cache_lifecycle:
  "ca_lifecycle (fst (evaluate_cache h c now a prev)) =
     (if oversized c a \<or> ca_lifecycle a = StateProtected then StateProtected
      else if prev = None \<or> time_sub now (time_unix (ca_stable_since (fst (evaluate_cache h c now a prev)))) < cc_min_stable c
      then StateSettling
      else if cc_global_mode c = ModeRecommend \<and>
        (\<exists>p. enabled_cache_policy (cc_policies c) = Some p \<and> cl_mode p = ModeRecommend)
      then StateRecommended else StateStaleCandidate)"
  by (simp add: evaluate_cache_def Let_def stamp_artifact_lifecycle split: option.splits)

text \<open>Long enough unchanged, in terms of what \<^const>\<open>continues\<close>.\<close>

definition settled :: "cache_config \<Rightarrow> gotime \<Rightarrow> artifact option \<Rightarrow> artifact \<Rightarrow> bool" where
  "settled c now prev a \<longleftrightarrow>
     (\<exists>p. prev = Some p \<and> continues p a \<and> time_unix (ca_stable_since p) + cc_min_stable c \<le> now)"

definition recommends :: "cache_config \<Rightarrow> bool" where
  "recommends c \<longleftrightarrow> cc_global_mode c = ModeRecommend \<and>
     (\<exists>p. enabled_cache_policy (cc_policies c) = Some p \<and> cl_mode p = ModeRecommend)"

lemma evaluate_recommended_iff:
  assumes "0 < cc_min_stable c" and "in_int64 (cc_min_stable c)" and "in_int64 (now - unix_epoch)"
  shows "ca_lifecycle (fst (evaluate_cache h c now a prev)) = StateRecommended \<longleftrightarrow>
    ca_lifecycle a \<noteq> StateProtected \<and> \<not> oversized c a \<and> settled c now prev a \<and> recommends c"
proof -
  have now: "time_unix (unix_nano now) = now"
    using assms(3) by (simp add: unix_nano_def time_unix_def wrap64_id)
  have "time_sub now (time_unix t) < cc_min_stable c \<longleftrightarrow> \<not> time_unix t + cc_min_stable c \<le> now" for t
    using assms(1,2) time_sub_ge_iff [of "cc_min_stable c" now "time_unix t"]
    by (auto simp: int64_min_def not_less [symmetric])
  then show ?thesis using assms(1) now
    by (auto simp: evaluate_cache_lifecycle evaluate_cache_stable_since settled_def recommends_def
        split: option.splits)
qed

text \<open>C19: A cache artifact is recommended exactly when the provider did not protect it, its size
  is within the action bound, a committed previous observation in an eligible state carries
  the same identity and manifest digests and has been unchanged for at least the stable
  window, and the global mode and the first enabled policy both grant recommendations.
\<close>

theorem recommendation_iff_stable_and_authorised:
  assumes "0 < cc_min_stable c" and "in_int64 (cc_min_stable c)" and "in_int64 (now - unix_epoch)"
  shows "ca_lifecycle (fst (evaluate_cache h c now a prev)) = StateRecommended \<longleftrightarrow>
    ca_lifecycle a \<noteq> StateProtected \<and> 0 \<le> ci_size (ca_identity a) \<and>
    ci_size (ca_identity a) \<le> cc_max_bytes_action c \<and>
    (\<exists>p. prev = Some p \<and> stable_history_eligible (ca_lifecycle p) \<and>
       ca_identity_digest p = ca_identity_digest a \<and> ca_manifest_digest p = ca_manifest_digest a \<and>
       time_unix (ca_stable_since p) + cc_min_stable c \<le> now) \<and>
    cc_global_mode c = ModeRecommend \<and>
    (\<exists>p. enabled_cache_policy (cc_policies c) = Some p \<and> cl_mode p = ModeRecommend)"
  using evaluate_recommended_iff [OF assms, of h a prev]
  by (auto simp: settled_def recommends_def oversized_def continues_def)

lemma evaluate_recommended_policy:
  "ca_lifecycle (fst (evaluate_cache h c now a prev)) = StateRecommended \<Longrightarrow>
     \<exists>p. enabled_cache_policy (cc_policies c) = Some p \<and> ca_policy (fst (evaluate_cache h c now a prev)) = cl_id p"
  by (auto simp: evaluate_cache_def Let_def split: option.splits if_splits)

section \<open>What the provider vouches for\<close>

lemma protect_keeps [simp]:
  "ca_lifecycle (protect r a) = StateProtected" "ca_id (protect r a) = ca_id a"
  "ca_identity (protect r a) = ca_identity a" "ca_session (protect r a) = ca_session a"
  "ca_root_path (protect r a) = ca_root_path a" "ca_relative_path (protect r a) = ca_relative_path a"
  "ca_root_identity (protect r a) = ca_root_identity a"
  "ca_identity_digest (protect r a) = ca_identity_digest a"
  "ca_manifest_digest (protect r a) = ca_manifest_digest a"
  by (simp_all add: protect_def Let_def)

lemma protect_if_keeps [simp]:
  "ca_id (protect_if b r a) = ca_id a" "ca_identity (protect_if b r a) = ca_identity a"
  "ca_session (protect_if b r a) = ca_session a" "ca_root_path (protect_if b r a) = ca_root_path a"
  "ca_relative_path (protect_if b r a) = ca_relative_path a"
  "ca_root_identity (protect_if b r a) = ca_root_identity a"
  "ca_identity_digest (protect_if b r a) = ca_identity_digest a"
  "ca_manifest_digest (protect_if b r a) = ca_manifest_digest a"
  by (simp_all add: protect_if_def)

lemma protect_if_lifecycle [simp]:
  "ca_lifecycle (protect_if b r a) = (if b then StateProtected else ca_lifecycle a)"
  by (simp add: protect_if_def)

text \<open>The facts the provider establishes about an entry that it leaves unprotected.\<close>

definition exclusively_owned ::
  "codex_provider \<Rightarrow> identity \<Rightarrow> (string \<Rightarrow> cache_session list) \<Rightarrow> string \<Rightarrow> identity \<Rightarrow> string \<Rightarrow> bool" where
  "exclusively_owned p root_id by_native name i sid \<longleftrightarrow>
     ci_uid root_id = cv_uid p \<and> ci_uid i = cv_uid p \<and> ci_device i = ci_device root_id \<and>
     ci_entry_type i = ''regular'' \<and> ci_nlink i = 1 \<and>
     (\<exists>native s. parse_snapshot_name name = Some native \<and> by_native native = [s] \<and> sid = cs_id s \<and>
        minimum_exclusive_confidence \<le> cs_confidence s \<and> cs_state s = ''completed'' \<and> cs_live_processes s = 0)"

lemma owner_checks_unprotected:
  "ca_lifecycle (owner_checks s a) \<noteq> StateProtected \<longleftrightarrow> ca_lifecycle a \<noteq> StateProtected \<and>
     minimum_exclusive_confidence \<le> cs_confidence s \<and> cs_state s = ''completed'' \<and> cs_live_processes s = 0"
  by (auto simp: owner_checks_def)

lemma owner_checks_session [simp]: "ca_session (owner_checks s a) = ca_session a"
  by (simp add: owner_checks_def)

lemma entry_checks_unprotected:
  "ca_lifecycle (entry_checks p root_id i a) \<noteq> StateProtected \<longleftrightarrow> ca_lifecycle a \<noteq> StateProtected \<and>
     ci_uid root_id = cv_uid p \<and> ci_uid i = cv_uid p \<and> ci_device i = ci_device root_id \<and>
     ci_entry_type i = ''regular'' \<and> ci_nlink i = 1"
  by (auto simp: entry_checks_def)

lemma artifact_of_keeps [simp]:
  "ca_identity (artifact_of h p rt ri by e) = fe_identity e"
  "ca_root_path (artifact_of h p rt ri by e) = rt"
  "ca_relative_path (artifact_of h p rt ri by e) = fe_name e"
  "ca_root_identity (artifact_of h p rt ri by e) = ri"
  "ca_identity_digest (artifact_of h p rt ri by e) = identity_digest h (fe_identity e)"
  "ca_manifest_digest (artifact_of h p rt ri by e) = manifest_digest h (fe_name e) (fe_identity e)"
  "ca_id (artifact_of h p rt ri by e) = artifact_id h provider_codex_shell_snapshot ri (fe_identity e)"
  by (simp_all add: artifact_of_def Let_def entry_checks_def owner_checks_def observed_artifact_def
      split: option.splits list.splits)

lemma artifact_of_unprotected:
  "ca_lifecycle (artifact_of h p rt ri by e) \<noteq> StateProtected \<longleftrightarrow>
     exclusively_owned p ri by (fe_name e) (fe_identity e) (ca_session (artifact_of h p rt ri by e))"
  by (auto simp: artifact_of_def exclusively_owned_def Let_def entry_checks_unprotected
      owner_checks_unprotected observed_artifact_def split: option.splits list.splits)

text \<open>An artifact that comes from an entry of a snapshot the provider took.\<close>

definition from_entry ::
  "hash_ops \<Rightarrow> codex_provider \<Rightarrow> (string \<Rightarrow> cache_session list) \<Rightarrow> (string \<Rightarrow> int \<Rightarrow> fs_error + fs_snapshot)
     \<Rightarrow> string list \<Rightarrow> artifact \<Rightarrow> bool" where
  "from_entry h p by_native snapshot rs a \<longleftrightarrow>
     (\<exists>r n snap e. r \<in> set rs \<and> snapshot r n = Inr snap \<and> e \<in> set (fp_entries snap) \<and>
        fe_name e \<noteq> quarantine_directory \<and> a = artifact_of h p r (fp_root snap) by_native e)"

lemma entry_artifacts_from_entry:
  assumes "snapshot r n = Inr snap" and "r \<in> set rs" and "a \<in> set (entry_artifacts h p by_native r snap)"
    and "ca_lifecycle a \<noteq> StateProtected"
  shows "from_entry h p by_native snapshot rs a"
  using assms unfolding entry_artifacts_def from_entry_def by (fastforce simp: protect_if_def split: if_splits)

lemma from_entry_mono: "from_entry h p f g rs a \<Longrightarrow> set rs \<subseteq> set rs' \<Longrightarrow> from_entry h p f g rs' a"
  by (fastforce simp: from_entry_def)

lemma observe_roots_from_entry:
  "observe_roots h p f g rs n res = Inr res' \<Longrightarrow> a \<in> set (or_artifacts res') \<Longrightarrow>
   ca_lifecycle a \<noteq> StateProtected \<Longrightarrow> a \<in> set (or_artifacts res) \<or> from_entry h p f g rs a"
proof (induction h p f g rs n res rule: observe_roots.induct)
  case (2 h p f g r rs n res)
  consider "n < 1" | e where "1 \<le> n" "g r n = Inl e" | snap where "1 \<le> n" "g r n = Inr snap"
    by (cases "g r n") force+
  then show ?case
  proof cases
    case 1
    with 2 show ?thesis by auto
  next
    case 2
    with "2.IH" "2.prems" show ?thesis by (auto split: if_splits intro: from_entry_mono)
  next
    case (3 snap)
    with "2.IH" "2.prems"
    have "a \<in> set (or_artifacts res @ entry_artifacts h p f r snap) \<or> from_entry h p f g rs a"
      by (simp add: Let_def)
    with 3 "2.prems" show ?thesis by (auto intro: from_entry_mono entry_artifacts_from_entry)
  qed
qed simp

lemma observe_roots_complete:
  "observe_roots h p f g rs n res = Inr res' \<Longrightarrow> or_complete res' \<Longrightarrow> or_complete res"
  by (induction h p f g rs n res rule: observe_roots.induct)
    (auto simp: Let_def split: if_splits sum.splits)

lemma bounded_prefix_eq: "bounded_prefix n xs = (ys, c) \<longleftrightarrow> ys = take (nat n) xs \<and> (c \<longleftrightarrow> int (length xs) \<le> n)"
  by (auto simp: bounded_prefix_def)

lemma sort_key_single: "sort_key k ys = [x] \<longleftrightarrow> ys = [x]"
proof
  assume sorted: "sort_key k ys = [x]"
  then have "length ys = 1" by (metis length_sort length_Cons list.size(3) One_nat_def)
  then obtain y where "ys = [y]" by (auto simp: length_Suc_conv)
  with sorted show "ys = [x]" by simp
qed simp

lemma filter_sort_key_single: "filter P (sort_key k xs) = [x] \<longleftrightarrow> filter P xs = [x]"
  by (simp add: filter_sort sort_key_single)

lemma provider_roots_allowed: "r \<in> set (provider_roots p ss) \<Longrightarrow> r \<in> set (cv_roots p)"
  by (simp add: provider_roots_def)

lemma observe_unprotected:
  assumes "observe h p sessions snapshot n = Inr res" and "a \<in> set (or_artifacts res)"
    and "ca_lifecycle a \<noteq> StateProtected"
  shows "or_complete res \<and> ca_root_path a \<in> set (cv_roots p) \<and> ca_relative_path a \<noteq> quarantine_directory \<and>
    exclusively_owned p (ca_root_identity a) (sessions_by_native sessions) (ca_relative_path a) (ca_identity a)
      (ca_session a) \<and>
    ca_identity_digest a = identity_digest h (ca_identity a) \<and>
    ca_manifest_digest a = manifest_digest h (ca_relative_path a) (ca_identity a)"
proof -
  obtain ss sc rs rc res0 where
    ss: "bounded_prefix n (sort_key session_sort_key sessions) = (ss, sc)" and
    rs: "bounded_prefix n (provider_roots p ss) = (rs, rc)" and
    run: "observe_roots h p (sessions_by_native ss) snapshot rs n
            \<lparr>or_artifacts = [], or_complete = sc \<and> rc, or_inspected = 0\<rparr> = Inr res0" and
    res: "res = (if or_complete res0 then res0
            else res0\<lparr>or_artifacts := List.map (protect incomplete_scan_reason) (or_artifacts res0)\<rparr>)"
    using assms(1) by (auto simp: observe_def split: if_splits prod.splits sum.splits)
  from res assms(2,3) have c: "or_complete res0" and [simp]: "res = res0" by (auto split: if_splits)
  from observe_roots_complete [OF run c] ss have all: "ss = sort_key session_sort_key sessions"
    by (auto simp: bounded_prefix_eq)
  from observe_roots_from_entry [OF run, of a] assms(2,3)
  obtain r and snap :: fs_snapshot and e where r: "r \<in> set rs" and e: "fe_name e \<noteq> quarantine_directory"
    and a: "a = artifact_of h p r (fp_root snap) (sessions_by_native ss) e"
    by (auto simp: from_entry_def)
  from r rs have "r \<in> set (cv_roots p)"
    by (auto simp: bounded_prefix_eq dest: in_set_takeD intro: provider_roots_allowed)
  moreover from assms(3) a
  have "exclusively_owned p (fp_root snap) (sessions_by_native ss) (fe_name e) (fe_identity e) (ca_session a)"
    by (simp add: artifact_of_unprotected)
  moreover have "sessions_by_native ss native = [s] \<longleftrightarrow> sessions_by_native sessions native = [s]" for native s
    by (simp add: all sessions_by_native_def filter_sort_key_single)
  ultimately show ?thesis using a c e by (auto simp: exclusively_owned_def)
qed

text \<open>The entry itself is one of a listing the provider took.\<close>

lemma observe_seen:
  assumes "observe h p sessions snapshot n = Inr res" and "a \<in> set (or_artifacts res)"
    and "ca_lifecycle a \<noteq> StateProtected"
  shows "\<exists>bound snap e. snapshot (ca_root_path a) bound = Inr snap \<and> e \<in> set (fp_entries snap) \<and>
    fe_name e = ca_relative_path a \<and> fe_identity e = ca_identity a \<and> fp_root snap = ca_root_identity a"
proof -
  obtain ss sc rs rc res0 where
    run: "observe_roots h p (sessions_by_native ss) snapshot rs n
            \<lparr>or_artifacts = [], or_complete = sc \<and> rc, or_inspected = 0\<rparr> = Inr res0" and
    res: "res = (if or_complete res0 then res0
            else res0\<lparr>or_artifacts := List.map (protect incomplete_scan_reason) (or_artifacts res0)\<rparr>)"
    using assms(1) by (auto simp: observe_def split: if_splits prod.splits sum.splits)
  from res assms(2,3) have "a \<in> set (or_artifacts res0)" by (auto split: if_splits)
  with observe_roots_from_entry [OF run, of a] assms(3) show ?thesis
    by (fastforce simp: from_entry_def)
qed

text \<open>C20: An artifact that the provider leaves unprotected comes from a scan that was complete
  within its bound, lies directly under an allowed root of the daemon's own user and device,
  is a regular file with one link whose name carries a thread id, and that thread id belongs
  to exactly one known Codex session, which is completed, has no live process and is known
  with at least 0.95 confidence.
\<close>

theorem unprotected_artifact_is_exclusive:
  assumes "observe h p sessions snapshot n = Inr res" and "a \<in> set (or_artifacts res)"
    and "ca_lifecycle a \<noteq> StateProtected"
  shows "or_complete res \<and> ca_root_path a \<in> set (cv_roots p) \<and>
    ca_relative_path a \<noteq> quarantine_directory \<and>
    ci_uid (ca_identity a) = cv_uid p \<and> ci_uid (ca_root_identity a) = cv_uid p \<and>
    ci_device (ca_identity a) = ci_device (ca_root_identity a) \<and>
    ci_entry_type (ca_identity a) = ''regular'' \<and> ci_nlink (ca_identity a) = 1 \<and>
    (\<exists>native s. parse_snapshot_name (ca_relative_path a) = Some native \<and>
       sessions_by_native sessions native = [s] \<and> ca_session a = cs_id s \<and>
       cs_state s = ''completed'' \<and> cs_live_processes s = 0 \<and> 95 / 100 \<le> cs_confidence s)"
  using observe_unprotected [OF assms] by (auto simp: exclusively_owned_def minimum_exclusive_confidence_def)

section \<open>Concrete inputs\<close>

definition sample_hash :: hash_ops where
  "sample_hash = \<lparr>ha_sum = (\<lambda>s. s), ha_identity_json = (\<lambda>i. show_word (ci_inode i)),
     ha_manifest_json = (\<lambda>p i. p), ha_config_json = (\<lambda>c. []),
     ha_binding_json = (\<lambda>k a q d c. ca_id a @ d)\<rparr>"

definition sample_root_identity :: identity where
  "sample_root_identity = \<lparr>ci_uid = 501, ci_device = 1, ci_inode = 2, ci_mode = 0x41C0, ci_nlink = 2, ci_size = 64,
     ci_mtime = 0, ci_ctime = 0, ci_atime = 0, ci_birth = 0, ci_entry_type = ''directory''\<rparr>"

definition sample_file_identity :: identity where
  "sample_file_identity = \<lparr>ci_uid = 501, ci_device = 1, ci_inode = 7, ci_mode = 0x8180, ci_nlink = 1, ci_size = 100,
     ci_mtime = 0, ci_ctime = 0, ci_atime = 0, ci_birth = 0, ci_entry_type = ''regular''\<rparr>"

definition sample_thread :: string where "sample_thread = ''01234567-89ab-cdef-0123-456789abcdef''"
definition sample_name :: string where "sample_name = sample_thread @ ''.1.sh''"

definition sample_snapshot_dir :: string where "sample_snapshot_dir = ''/c/shell_snapshots''"

definition sample_cache_session :: cache_session where
  "sample_cache_session = \<lparr>cs_id = ''s'', cs_native_id = sample_thread, cs_agent = agent_codex,
     cs_state = ''completed'', cs_codex_home = ''/c'', cs_live_processes = 0, cs_confidence = 1\<rparr>"

definition sample_entry :: fs_entry where
  "sample_entry = \<lparr>fe_name = sample_name, fe_identity = sample_file_identity\<rparr>"

definition sample_provider :: codex_provider where
  "sample_provider = \<lparr>cv_uid = 501, cv_roots = [sample_snapshot_dir]\<rparr>"

definition sample_cache_config :: cache_config where
  "sample_cache_config = \<lparr>cc_enabled = True, cc_global_mode = ModeRecommend, cc_roots = [sample_snapshot_dir],
     cc_scan_interval = minute, cc_min_stable = 2 * minute, cc_quarantine_grace = minute, cc_max_entries_scan = 10,
     cc_max_entries_action = 1, cc_max_bytes_action = 1000,
     cc_policies = [\<lparr>cl_id = ''p'', cl_description = [], cl_enabled = True, cl_mode = ModeRecommend,
       cl_provider = provider_codex_shell_snapshot, cl_agent = agent_codex, cl_artifact_kind = kind_shell_snapshot,
       cl_session_state = ''completed''\<rparr>]\<rparr>"

definition sample_artifact :: artifact where
  "sample_artifact = artifact_of sample_hash sample_provider sample_snapshot_dir sample_root_identity
     (sessions_by_native [sample_cache_session]) sample_entry"

lemma sample_thread_ok: "thread_id_ok sample_thread" by code_simp

lemma sample_name_ok: "parse_snapshot_name sample_name = Some sample_thread"
proof -
  have "path_ext sample_name = ''.sh''" and "cut (CHR ''.'') (trim_suffix sample_name ''.sh'') = Some (sample_thread, ''1'')"
    by code_simp+
  moreover have "parse_uint64 ''1'' = Some 1" by (simp add: parse_uint64_def is_digit_def digit_val_def)
  ultimately show ?thesis by (simp add: parse_snapshot_name_def sample_thread_ok)
qed

lemma sample_snapshot_root: "snapshot_root sample_cache_session = sample_snapshot_dir" by code_simp

lemma sample_artifact_unprotected: "ca_lifecycle sample_artifact = StateObserved"
  by (simp add: sample_artifact_def artifact_of_def sample_entry_def sample_name_ok entry_checks_def owner_checks_def
      sessions_by_native_def codex_session_def sample_cache_session_def observed_artifact_def sample_file_identity_def
      sample_root_identity_def sample_provider_def minimum_exclusive_confidence_def protect_if_def sample_thread_def
      agent_codex_def Let_def)

lemma sample_observation:
  assumes "snapshot sample_snapshot_dir 10 =
    Inr \<lparr>fp_root = sample_root_identity, fp_entries = [sample_entry], fp_complete = True\<rparr>"
  shows "observe sample_hash sample_provider [sample_cache_session] snapshot 10
    = Inr \<lparr>or_artifacts = [sample_artifact], or_complete = True, or_inspected = 1\<rparr>"
proof -
  have "codex_session sample_cache_session" "sample_name \<noteq> quarantine_directory"
    by (simp_all add: codex_session_def sample_cache_session_def quarantine_directory_def sample_name_def sample_thread_def)
  then show ?thesis using assms
    by (simp add: observe_def bounded_prefix_def provider_roots_def sample_snapshot_root sample_provider_def
        entry_artifacts_def sample_entry_def sample_artifact_def protect_if_def Let_def)
qed

definition sample_snapshot_at :: "string \<Rightarrow> int \<Rightarrow> fs_error + fs_snapshot" where
  "sample_snapshot_at r n = Inr \<lparr>fp_root = sample_root_identity, fp_entries = [sample_entry], fp_complete = True\<rparr>"

theorem unprotected_artifact_is_exclusive_witness:
  "ca_root_path sample_artifact \<in> set (cv_roots sample_provider) \<and> ca_session sample_artifact = ''s'' \<and>
   ci_nlink (ca_identity sample_artifact) = 1"
  using unprotected_artifact_is_exclusive [OF sample_observation [OF sample_snapshot_at_def], of sample_artifact]
    sample_artifact_unprotected
  by (auto simp: sessions_by_native_def sample_cache_session_def split: if_splits)

definition sample_previous :: artifact where
  "sample_previous = fst (evaluate_cache sample_hash sample_cache_config (time_unix 0) sample_artifact None)"

lemma sample_previous_eligible:
  "stable_history_eligible (ca_lifecycle sample_previous) \<and> ca_stable_since sample_previous = 0 \<and>
   ca_identity_digest sample_previous = ca_identity_digest sample_artifact \<and>
   ca_manifest_digest sample_previous = ca_manifest_digest sample_artifact"
  by (simp add: sample_previous_def evaluate_cache_lifecycle evaluate_cache_stable_since stable_history_eligible_def
      sample_artifact_unprotected unix_nano_def time_unix_def wrap64_def oversized_def)
    (simp add: sample_cache_config_def sample_artifact_def sample_entry_def sample_file_identity_def)

lemma sample_recommended:
  "ca_lifecycle (fst (evaluate_cache sample_hash sample_cache_config (time_unix (2 * minute)) sample_artifact
     (Some sample_previous))) = StateRecommended"
proof -
  have m: "in_int64 (2 * minute)" "0 < minute" by code_simp+
  have "cc_min_stable sample_cache_config = 2 * minute" by (simp add: sample_cache_config_def)
  with m have "0 < cc_min_stable sample_cache_config" "in_int64 (cc_min_stable sample_cache_config)"
    "in_int64 (time_unix (2 * minute) - unix_epoch)"
    by (simp_all add: time_unix_def)
  note iff = evaluate_recommended_iff [OF this]
  show ?thesis unfolding iff
    by (simp add: sample_previous_eligible sample_artifact_unprotected settled_def continues_def recommends_def
        enabled_cache_policy_def time_unix_def oversized_def)
      (simp add: sample_cache_config_def sample_artifact_def sample_entry_def sample_file_identity_def)
qed

theorem recommendation_iff_stable_and_authorised_witness:
  "ca_lifecycle (fst (evaluate_cache sample_hash sample_cache_config (time_unix (2 * minute)) sample_artifact
     (Some sample_previous))) = StateRecommended"
proof -
  have m: "in_int64 (2 * minute)" "0 < minute" by code_simp+
  have "cc_min_stable sample_cache_config = 2 * minute" by (simp add: sample_cache_config_def)
  with m have "0 < cc_min_stable sample_cache_config" "in_int64 (cc_min_stable sample_cache_config)"
    "in_int64 (time_unix (2 * minute) - unix_epoch)"
    by (simp_all add: time_unix_def)
  note iff = recommendation_iff_stable_and_authorised [OF this]
  show ?thesis unfolding iff
    by (simp add: sample_previous_eligible sample_artifact_unprotected enabled_cache_policy_def time_unix_def)
      (simp add: sample_cache_config_def sample_artifact_def sample_entry_def sample_file_identity_def)
qed

end
