(* ===== verification/Cache_FS.thy ===== *)
theory Cache_FS
  imports Cache_Model "HOL-Library.AList"
begin

text \<open>
  The filesystem boundary of the cache lane (\<open>internal/cachefs/filesystem.go\<close>): the
  operations as a record, what a client may rely on as the locale \<open>cache_filesystem\<close>, and the
  deterministic implementation of \<open>fake.go\<close>. The implementation on descriptors is in the
  theory \<open>Cache_Posix\<close>. Each operation takes the error of its context, if it is done.
\<close>

section \<open>The interface\<close>

record 'f fs_ops =
  fo_snapshot :: "string option \<Rightarrow> string \<Rightarrow> int \<Rightarrow> 'f \<Rightarrow> fs_error + fs_snapshot"
  fo_quarantine :: "string option \<Rightarrow> string \<Rightarrow> string \<Rightarrow> string \<Rightarrow> identity \<Rightarrow> identity \<Rightarrow> 'f
     \<Rightarrow> (fs_error + identity) \<times> 'f"
  fo_restore :: "string option \<Rightarrow> string \<Rightarrow> string \<Rightarrow> string \<Rightarrow> identity \<Rightarrow> identity \<Rightarrow> 'f
     \<Rightarrow> (fs_error + identity) \<times> 'f"
  fo_quarantine_entry :: "string option \<Rightarrow> string \<Rightarrow> string \<Rightarrow> identity \<Rightarrow> 'f \<Rightarrow> fs_error + identity option"
  fo_purge :: "string option \<Rightarrow> string \<Rightarrow> string \<Rightarrow> identity \<Rightarrow> identity \<Rightarrow> 'f \<Rightarrow> fs_error option \<times> 'f"

text \<open>A rename may only change the time of the last status change.\<close>

definition same_across_rename :: "identity \<Rightarrow> identity \<Rightarrow> bool" where
  "same_across_rename current expected \<longleftrightarrow> current\<lparr>ci_ctime := ci_ctime expected\<rparr> = expected"

definition quarantine_path :: "string \<Rightarrow> string" where
  "quarantine_path name = path_join [quarantine_directory, name]"

lemma same_across_rename_refl [simp]: "same_across_rename i i"
  by (simp add: same_across_rename_def)

lemma same_across_rename_trans:
  "same_across_rename i j \<Longrightarrow> same_across_rename j k \<Longrightarrow> same_across_rename i k"
  unfolding same_across_rename_def
  by (cases i; cases j; cases k) simp

lemma same_across_rename_object: "same_across_rename i j \<Longrightarrow> same_object i j"
  unfolding same_across_rename_def same_object_def
  by (cases i; cases j) simp

text \<open>The name of one directory entry.\<close>

definition plain_name :: "string \<Rightarrow> bool" where
  "plain_name n \<longleftrightarrow> n \<noteq> [] \<and> n \<noteq> ''.'' \<and> n \<noteq> ''..'' \<and> CHR ''/'' \<notin> set n"

lemma quarantine_path_plain: "plain_name n \<Longrightarrow> quarantine_path n = quarantine_directory @ ''/'' @ n"
  by (simp add: quarantine_path_def path_join_def path_clean_def plain_name_def quarantine_directory_def
      split_on_plain has_prefix_def is_abs_def)

lemma quarantine_path_inject [simp]:
  "plain_name m \<Longrightarrow> plain_name n \<Longrightarrow> quarantine_path m = quarantine_path n \<longleftrightarrow> m = n"
  by (simp add: quarantine_path_plain)

lemma quarantine_path_not_plain [simp]:
  "plain_name m \<Longrightarrow> plain_name n \<Longrightarrow> quarantine_path n \<noteq> m"
  "plain_name m \<Longrightarrow> plain_name n \<Longrightarrow> m \<noteq> quarantine_path n"
  by (auto simp: quarantine_path_plain plain_name_def)

text \<open>
  The contract, for the environment \<open>k\<close> that one call meets. \<open>entry\<close> is what an observer finds directly below a root, \<open>held\<close> what it
  finds in the quarantine of that root. An operation that reports success has moved or
  removed exactly the expected entry; one that reports an error has changed nothing, or has
  done its one change and could not confirm it. The quarantine directory itself may be
  created on the way.
\<close>

locale cache_filesystem =
  fixes ops :: "'k \<Rightarrow> 'f fs_ops"
    and entry :: "'f \<Rightarrow> string \<Rightarrow> string \<Rightarrow> identity option"
    and held :: "'f \<Rightarrow> string \<Rightarrow> string \<Rightarrow> identity option"
  assumes snapshot_exact:
    "fo_snapshot (ops k) ctx rt limit f = Inr snap \<Longrightarrow> x \<in> set (fp_entries snap) \<Longrightarrow>
       plain_name (fe_name x) \<Longrightarrow> entry f rt (fe_name x) = Some (fe_identity x)"
    and quarantine_moves:
    "plain_name rel \<Longrightarrow> plain_name n \<Longrightarrow> fo_quarantine (ops k) ctx rt rel n er ex f = (Inr moved, f') \<Longrightarrow>
       entry f rt rel = Some ex \<and> held f rt n = None \<and>
       entry f' rt rel = None \<and> held f' rt n = Some moved \<and> same_across_rename moved ex \<and>
       (\<forall>p. plain_name p \<and> p \<notin> {rel, quarantine_directory} \<longrightarrow> entry f' rt p = entry f rt p) \<and>
       (\<forall>m. plain_name m \<and> m \<noteq> n \<longrightarrow> held f' rt m = held f rt m)"
    and quarantine_fails:
    "plain_name rel \<Longrightarrow> plain_name n \<Longrightarrow> fo_quarantine (ops k) ctx rt rel n er ex f = (Inl e, f') \<Longrightarrow>
       (\<forall>p. plain_name p \<and> p \<noteq> quarantine_directory \<longrightarrow> entry f' rt p = entry f rt p) \<and>
         (\<forall>m. plain_name m \<longrightarrow> held f' rt m = held f rt m) \<or>
       entry f rt rel = Some ex \<and> entry f' rt rel = None \<and> held f' rt n \<noteq> None"
    and restore_moves:
    "plain_name n \<Longrightarrow> plain_name rel \<Longrightarrow>
     fo_restore (ops k) ctx rt (quarantine_path n) rel er ex f = (Inr restored, f') \<Longrightarrow>
       held f rt n = Some ex \<and> entry f rt rel = None \<and>
       held f' rt n = None \<and> entry f' rt rel = Some restored \<and> same_across_rename restored ex \<and>
       (\<forall>p. plain_name p \<and> p \<notin> {rel, quarantine_directory} \<longrightarrow> entry f' rt p = entry f rt p) \<and>
       (\<forall>m. plain_name m \<and> m \<noteq> n \<longrightarrow> held f' rt m = held f rt m)"
    and restore_fails:
    "plain_name n \<Longrightarrow> plain_name rel \<Longrightarrow>
     fo_restore (ops k) ctx rt (quarantine_path n) rel er ex f = (Inl e, f') \<Longrightarrow>
       (\<forall>p. plain_name p \<and> p \<noteq> quarantine_directory \<longrightarrow> entry f' rt p = entry f rt p) \<and>
         (\<forall>m. plain_name m \<longrightarrow> held f' rt m = held f rt m) \<or>
       held f rt n = Some ex \<and> held f' rt n = None \<and> entry f' rt rel \<noteq> None"
    and quarantine_entry_exact:
    "plain_name n \<Longrightarrow> fo_quarantine_entry (ops k) ctx rt (quarantine_path n) er f = Inr i \<Longrightarrow> held f rt n = i"
    and purge_removes:
    "plain_name n \<Longrightarrow> fo_purge (ops k) ctx rt (quarantine_path n) er ex f = (None, f') \<Longrightarrow>
       held f rt n = Some ex \<and> held f' rt n = None"
    and purge_only:
    "plain_name n \<Longrightarrow> fo_purge (ops k) ctx rt (quarantine_path n) er ex f = (r, f') \<Longrightarrow>
       (\<forall>p. plain_name p \<and> p \<noteq> quarantine_directory \<longrightarrow> entry f' rt p = entry f rt p) \<and>
       (\<forall>m. plain_name m \<and> m \<noteq> n \<longrightarrow> held f' rt m = held f rt m)"
begin

lemma quarantine_restore:
  assumes "plain_name rel" and "plain_name n"
    and q: "fo_quarantine (ops k1) c1 rt rel n er ex f = (Inr moved, f1)"
    and r: "fo_restore (ops k2) c2 rt (quarantine_path n) rel er' moved f1 = (Inr restored, f2)"
  shows "entry f2 rt rel = Some restored \<and> same_across_rename restored ex \<and> held f2 rt n = None \<and>
    (\<forall>p. plain_name p \<and> p \<notin> {rel, quarantine_directory} \<longrightarrow> entry f2 rt p = entry f rt p) \<and>
    (\<forall>m. plain_name m \<longrightarrow> held f2 rt m = held f rt m)"
  using quarantine_moves [OF assms(1,2) q] restore_moves [OF assms(2,1) r]
  by (auto intro: same_across_rename_trans)

lemma quarantine_needs_expected:
  "plain_name rel \<Longrightarrow> plain_name n \<Longrightarrow> entry f rt rel \<noteq> Some ex \<Longrightarrow>
     \<exists>e f'. fo_quarantine (ops k) ctx rt rel n er ex f = (Inl e, f')"
  by (cases "fo_quarantine (ops k) ctx rt rel n er ex f"; cases "fst (fo_quarantine (ops k) ctx rt rel n er ex f)")
    (auto dest: quarantine_moves)

lemma restore_never_overwrites:
  "plain_name n \<Longrightarrow> plain_name rel \<Longrightarrow> entry f rt rel \<noteq> None \<Longrightarrow>
     \<exists>e f'. fo_restore (ops k) ctx rt (quarantine_path n) rel er ex f = (Inl e, f')"
  by (cases "fo_restore (ops k) ctx rt (quarantine_path n) rel er ex f";
      cases "fst (fo_restore (ops k) ctx rt (quarantine_path n) rel er ex f)")
    (auto dest: restore_moves)

end

section \<open>The deterministic filesystem\<close>

record fake_root =
  fr_identity :: identity
  fr_entries :: "(string \<times> identity) list"

record fake =
  fk_roots :: "(string \<times> fake_root) list"
  fk_errors :: "(string \<times> string) list"
  fk_partial :: bool

definition new_fake :: fake where
  "new_fake = \<lparr>fk_roots = [], fk_errors = [], fk_partial = False\<rparr>"

definition fake_set_root :: "string \<Rightarrow> identity \<Rightarrow> fake \<Rightarrow> fake" where
  "fake_set_root path i f =
     f\<lparr>fk_roots := AList.update path \<lparr>fr_identity = i, fr_entries = []\<rparr> (fk_roots f)\<rparr>"

text \<open>\<open>Put\<close> and \<open>Delete\<close> dereference the root, which panics when there is none: \<^const>\<open>None\<close>.\<close>

definition fake_put :: "string \<Rightarrow> string \<Rightarrow> identity \<Rightarrow> fake \<Rightarrow> fake option" where
  "fake_put rt rel i f =
     (case map_of (fk_roots f) rt of
        None \<Rightarrow> None
      | Some r \<Rightarrow> Some (f\<lparr>fk_roots := AList.update rt
            (r\<lparr>fr_entries := AList.update rel i (fr_entries r)\<rparr>) (fk_roots f)\<rparr>))"

definition fake_delete :: "string \<Rightarrow> string \<Rightarrow> fake \<Rightarrow> fake option" where
  "fake_delete rt rel f =
     (case map_of (fk_roots f) rt of
        None \<Rightarrow> None
      | Some r \<Rightarrow> Some (f\<lparr>fk_roots := AList.update rt
            (r\<lparr>fr_entries := AList.delete rel (fr_entries r)\<rparr>) (fk_roots f)\<rparr>))"

definition fake_entry :: "fake \<Rightarrow> string \<Rightarrow> string \<Rightarrow> identity option" where
  "fake_entry f rt rel =
     (case map_of (fk_roots f) rt of None \<Rightarrow> None | Some r \<Rightarrow> map_of (fr_entries r) rel)"

definition fake_exists :: "string \<Rightarrow> string \<Rightarrow> fake \<Rightarrow> bool option" where
  "fake_exists rt rel f = map_option (\<lambda>r. map_of (fr_entries r) rel \<noteq> None) (map_of (fk_roots f) rt)"

definition operation_error :: "string \<Rightarrow> fake \<Rightarrow> fs_error option" where
  "operation_error kind f = map_option InjectedError (map_of (fk_errors f) kind)"

definition fake_snapshot :: "string option \<Rightarrow> string \<Rightarrow> int \<Rightarrow> fake \<Rightarrow> fs_error + fs_snapshot" where
  "fake_snapshot ctx rt limit f =
     (case operation_error ''snapshot'' f of
        Some e \<Rightarrow> Inl e
      | None \<Rightarrow>
          (case map_of (fk_roots f) rt of
             None \<Rightarrow> Inl (ErrUnsafePath rt)
           | Some r \<Rightarrow>
               let names = sort (filter (\<lambda>n. CHR ''/'' \<notin> set n) (remdups (List.map fst (fr_entries r))));
                   (kept, all) = bounded_prefix limit names in
               (case ctx of
                  Some e \<Rightarrow> if kept = [] then Inr \<lparr>fp_root = fr_identity r, fp_entries = [], fp_complete = all\<rparr>
                            else Inl (ContextDone e)
                | None \<Rightarrow> Inr \<lparr>fp_root = fr_identity r,
                    fp_entries = List.map (\<lambda>n. \<lparr>fe_name = n,
                       fe_identity = the (map_of (fr_entries r) n)\<rparr>) kept,
                    fp_complete = all\<rparr>)))"

text \<open>The rename that both moves share: the expected entry leaves, the target appears.\<close>

definition fake_move ::
  "string \<Rightarrow> string \<Rightarrow> string \<Rightarrow> identity \<Rightarrow> identity \<Rightarrow> fake \<Rightarrow> (fs_error + identity) \<times> fake" where
  "fake_move rt source target er ex f =
     (case map_of (fk_roots f) rt of
        None \<Rightarrow> (Inl ErrChangedIdentity, f)
      | Some r \<Rightarrow>
          if \<not> same_object (fr_identity r) er \<or> map_of (fr_entries r) source \<noteq> Some ex
          then (Inl ErrChangedIdentity, f)
          else if map_of (fr_entries r) target \<noteq> None then (Inl ErrDestination, f)
          else (Inr ex, f\<lparr>fk_roots := AList.update rt
            (r\<lparr>fr_entries := AList.update target ex (AList.delete source (fr_entries r))\<rparr>) (fk_roots f)\<rparr>))"

definition fake_quarantine ::
  "string option \<Rightarrow> string \<Rightarrow> string \<Rightarrow> string \<Rightarrow> identity \<Rightarrow> identity \<Rightarrow> fake \<Rightarrow> (fs_error + identity) \<times> fake" where
  "fake_quarantine ctx rt rel dest er ex f =
     (case operation_error ''quarantine'' f of
        Some e \<Rightarrow> (Inl e, f)
      | None \<Rightarrow>
          (case ctx of
             Some e \<Rightarrow> (Inl (ContextDone e), f)
           | None \<Rightarrow> fake_move rt rel (quarantine_path dest) er ex f))"

definition fake_restore ::
  "string option \<Rightarrow> string \<Rightarrow> string \<Rightarrow> string \<Rightarrow> identity \<Rightarrow> identity \<Rightarrow> fake \<Rightarrow> (fs_error + identity) \<times> fake" where
  "fake_restore ctx rt q dest er ex f =
     (case operation_error ''restore'' f of
        Some e \<Rightarrow> (Inl e, f) | None \<Rightarrow> fake_move rt q dest er ex f)"

definition fake_quarantine_entry ::
  "string option \<Rightarrow> string \<Rightarrow> string \<Rightarrow> identity \<Rightarrow> fake \<Rightarrow> fs_error + identity option" where
  "fake_quarantine_entry ctx rt q er f =
     (case operation_error ''quarantine-entry'' f of
        Some e \<Rightarrow> Inl e
      | None \<Rightarrow>
          (case ctx of
             Some e \<Rightarrow> Inl (ContextDone e)
           | None \<Rightarrow>
               (case map_of (fk_roots f) rt of
                  None \<Rightarrow> Inl ErrChangedIdentity
                | Some r \<Rightarrow> if \<not> same_object (fr_identity r) er then Inl ErrChangedIdentity
                            else Inr (map_of (fr_entries r) q))))"

definition fake_purge ::
  "string option \<Rightarrow> string \<Rightarrow> string \<Rightarrow> identity \<Rightarrow> identity \<Rightarrow> fake \<Rightarrow> fs_error option \<times> fake" where
  "fake_purge ctx rt q er ex f =
     (case operation_error ''purge'' f of
        Some e \<Rightarrow> (Some e, f)
      | None \<Rightarrow>
          (case map_of (fk_roots f) rt of
             None \<Rightarrow> (Some ErrChangedIdentity, f)
           | Some r \<Rightarrow>
               if \<not> same_object (fr_identity r) er \<or> map_of (fr_entries r) q \<noteq> Some ex
               then (Some ErrChangedIdentity, f)
               else (if fk_partial f then Some ErrPartialPurge else None,
                 f\<lparr>fk_roots := AList.update rt (r\<lparr>fr_entries := AList.delete q (fr_entries r)\<rparr>) (fk_roots f)\<rparr>)))"

definition fake_ops :: "fake fs_ops" where
  "fake_ops = \<lparr>fo_snapshot = fake_snapshot, fo_quarantine = fake_quarantine, fo_restore = fake_restore,
     fo_quarantine_entry = fake_quarantine_entry, fo_purge = fake_purge\<rparr>"

definition fake_held :: "fake \<Rightarrow> string \<Rightarrow> string \<Rightarrow> identity option" where
  "fake_held f rt n = fake_entry f rt (quarantine_path n)"

lemma fake_move_ok:
  "fake_move rt source target er ex f = (Inr i, f') \<Longrightarrow>
     i = ex \<and> fake_entry f rt source = Some ex \<and> fake_entry f rt target = None \<and>
     fake_entry f' rt source = None \<and> fake_entry f' rt target = Some ex \<and>
     (\<forall>p. p \<notin> {source, target} \<longrightarrow> fake_entry f' rt p = fake_entry f rt p)"
  by (auto simp: fake_move_def fake_entry_def AList.update_conv' AList.delete_conv' split: option.splits if_splits)

lemma fake_move_error: "fake_move rt source target er ex f = (Inl e, f') \<Longrightarrow> f' = f"
  by (auto simp: fake_move_def split: option.splits if_splits)

lemma fake_snapshot_entry:
  "fake_snapshot ctx rt limit f = Inr snap \<Longrightarrow> e \<in> set (fp_entries snap) \<Longrightarrow>
     fake_entry f rt (fe_name e) = Some (fe_identity e)"
  by (auto simp: fake_snapshot_def fake_entry_def bounded_prefix_def Let_def
      split: option.splits if_splits dest!: in_set_takeD) (auto dest!: weak_map_of_SomeI)

interpretation fake: cache_filesystem "\<lambda>_ :: unit. fake_ops" fake_entry fake_held
proof (unfold_locales, goal_cases)
  case (1 k ctx rt limit f snap e)
  then show ?case by (auto simp: fake_ops_def dest: fake_snapshot_entry)
next
  case (2 rel n k ctx rt er ex f moved f')
  then show ?case using fake_move_ok [of rt rel "quarantine_path n" er ex f moved f']
    by (auto simp: fake_ops_def fake_quarantine_def fake_held_def split: option.splits)
next
  case (3 rel n k ctx rt er ex f e f')
  then show ?case
    by (auto simp: fake_ops_def fake_quarantine_def dest: fake_move_error split: option.splits)
next
  case (4 n rel k ctx rt er ex f restored f')
  then show ?case using fake_move_ok [of rt "quarantine_path n" rel er ex f restored f']
    by (auto simp: fake_ops_def fake_restore_def fake_held_def split: option.splits)
next
  case (5 n rel k ctx rt er ex f e f')
  then show ?case
    by (auto simp: fake_ops_def fake_restore_def dest: fake_move_error split: option.splits)
next
  case (6 n k ctx rt er f i)
  then show ?case
    by (auto simp: fake_ops_def fake_quarantine_entry_def fake_entry_def fake_held_def
        split: option.splits if_splits)
next
  case (7 n k ctx rt er ex f f')
  then show ?case
    by (auto simp: fake_ops_def fake_purge_def fake_entry_def fake_held_def AList.update_conv'
        AList.delete_conv' split: option.splits if_splits)
next
  case (8 n k ctx rt er ex f r f')
  then show ?case
    by (auto simp: fake_ops_def fake_purge_def fake_entry_def fake_held_def AList.update_conv'
        AList.delete_conv' split: option.splits if_splits)
qed

end
