(* ===== verification/Cache_Store.thy ===== *)
theory Cache_Store
  imports Cache_FS Store
begin

text \<open>
  The tables of the cache lane (\<open>internal/storage\<close>: \<open>cache_write.go\<close>, \<open>cache_query.go\<close>,
  \<open>cache_transition.go\<close>, \<open>cache_action_query.go\<close>). Every statement is a function on lists of
  rows; a transaction that fails leaves the tables as they were.
\<close>

section \<open>Rows and tables\<close>

datatype cache_result = CacheAttempting | CacheRejected | CacheFailed | CacheQuarantined
  | CacheRestored | CachePurging | CachePurged | CachePartial

record cache_action =
  ct_id :: string
  ct_artifact :: string
  ct_kind :: cache_kind
  ct_policy :: string
  ct_requested :: int
  ct_updated :: int
  ct_result :: cache_result
  ct_reason :: detail
  ct_evidence :: "detail list"

record cache_store =
  ks_evaluations :: "(int \<times> cache_evaluation) list"
  ks_next_evaluation :: int
  ks_artifacts :: "(string \<times> artifact) list"
  ks_observations :: "cache_observation list"
  ks_decisions :: "cache_decision list"
  ks_quarantines :: "(string \<times> quarantine) list"
  ks_actions :: "cache_action list"
  ks_audit :: "(int \<times> string \<times> string \<times> detail \<times> detail list) list"
  ks_meta :: "(string \<times> string) list"

definition empty_cache_store :: cache_store where
  "empty_cache_store = \<lparr>ks_evaluations = [], ks_next_evaluation = 1, ks_artifacts = [], ks_observations = [],
     ks_decisions = [], ks_quarantines = [], ks_actions = [], ks_audit = [], ks_meta = []\<rparr>"

text \<open>A transaction: \<open>fault\<close> is the error of the database, if it has one.\<close>

definition cache_tx ::
  "string option \<Rightarrow> (cache_store \<Rightarrow> detail + cache_store) \<Rightarrow> cache_store \<Rightarrow> detail option \<times> cache_store" where
  "cache_tx fault f s =
     (case fault of
        Some e \<Rightarrow> (Some (Text e), s)
      | None \<Rightarrow> (case f s of Inl e \<Rightarrow> (Some e, s) | Inr s' \<Rightarrow> (None, s')))"

section \<open>Evaluations\<close>

definition upsert_cache_artifact :: "artifact \<Rightarrow> cache_store \<Rightarrow> cache_store" where
  "upsert_cache_artifact a s =
     s\<lparr>ks_artifacts := AList.update (ca_id a)
         (case map_of (ks_artifacts s) (ca_id a) of
            None \<Rightarrow> a
          | Some old \<Rightarrow> a\<lparr>ca_first_observed := min (ca_first_observed old) (ca_first_observed a)\<rparr>)
         (ks_artifacts s)\<rparr>"

definition insert_cache_observation :: "int \<Rightarrow> artifact \<Rightarrow> bool \<Rightarrow> cache_store \<Rightarrow> cache_store" where
  "insert_cache_observation evaluation a all s =
     s\<lparr>ks_observations := ks_observations s @
         [\<lparr>co_artifact = ca_id a, co_evaluation = evaluation, co_observed = ca_last_observed a,
           co_identity_digest = ca_identity_digest a, co_manifest_digest = ca_manifest_digest a,
           co_lifecycle = ca_lifecycle a, co_complete = all, co_evidence = ca_evidence a\<rparr>]\<rparr>"

definition insert_cache_decision :: "cache_decision \<Rightarrow> cache_store \<Rightarrow> cache_store" where
  "insert_cache_decision d s = s\<lparr>ks_decisions := ks_decisions s @ [d]\<rparr>"

definition store_cache_artifact :: "int \<Rightarrow> bool \<Rightarrow> artifact \<Rightarrow> cache_store \<Rightarrow> cache_store" where
  "store_cache_artifact evaluation all a s =
     (let b = a\<lparr>ca_evaluation := evaluation\<rparr> in
      insert_cache_observation evaluation b all (upsert_cache_artifact b s))"

definition persist_cache_evaluation ::
  "string option \<Rightarrow> cache_evaluation \<Rightarrow> artifact list \<Rightarrow> cache_decision list \<Rightarrow> cache_store
     \<Rightarrow> detail option \<times> cache_store" where
  "persist_cache_evaluation fault evaluation artifacts decisions = cache_tx fault (\<lambda>s.
     let n = ks_next_evaluation s;
         s1 = s\<lparr>ks_evaluations := ks_evaluations s @ [(n, evaluation)], ks_next_evaluation := n + 1\<rparr>;
         s2 = fold (store_cache_artifact n (ce_complete evaluation)) artifacts s1;
         s3 = fold (\<lambda>d. insert_cache_decision (d\<lparr>cd_evaluation := n\<rparr>)) decisions s2 in
     Inr (s3\<lparr>ks_meta := AList.update ''last_cache_scan_ns'' (show_int (ce_observed evaluation)) (ks_meta s3)\<rparr>))"

section \<open>Actions and transitions\<close>

definition begin_cache_action :: "string option \<Rightarrow> cache_action \<Rightarrow> cache_store \<Rightarrow> detail option \<times> cache_store" where
  "begin_cache_action fault a = cache_tx fault (\<lambda>s.
     if ct_id a \<in> ct_id ` set (ks_actions s) then Inl (Text ''storage: beginning cache action'')
     else Inr (s\<lparr>ks_actions := ks_actions s @ [a]\<rparr>))"

definition not_found :: detail where "not_found = Text ''not found''"

definition set_cache_action :: "string \<Rightarrow> (cache_action \<Rightarrow> cache_action) \<Rightarrow> cache_store \<Rightarrow> detail + cache_store" where
  "set_cache_action aid g s =
     (if length (filter (\<lambda>a. ct_id a = aid) (ks_actions s)) \<noteq> 1 then Inl not_found
      else Inr (s\<lparr>ks_actions := List.map (\<lambda>a. if ct_id a = aid then g a else a) (ks_actions s)\<rparr>))"

definition update_cache_artifact :: "string \<Rightarrow> (artifact \<Rightarrow> artifact) \<Rightarrow> cache_store \<Rightarrow> cache_store" where
  "update_cache_artifact i g s =
     (case map_of (ks_artifacts s) i of
        None \<Rightarrow> s | Some a \<Rightarrow> s\<lparr>ks_artifacts := AList.update i (g a) (ks_artifacts s)\<rparr>)"

definition update_quarantine :: "string \<Rightarrow> (quarantine \<Rightarrow> quarantine) \<Rightarrow> cache_store \<Rightarrow> cache_store" where
  "update_quarantine i g s =
     (case map_of (ks_quarantines s) i of
        None \<Rightarrow> s | Some q \<Rightarrow> s\<lparr>ks_quarantines := AList.update i (g q) (ks_quarantines s)\<rparr>)"

definition finish_cache_action ::
  "string option \<Rightarrow> string \<Rightarrow> cache_result \<Rightarrow> detail \<Rightarrow> detail list \<Rightarrow> int \<Rightarrow> cache_store \<Rightarrow> detail option \<times> cache_store" where
  "finish_cache_action fault aid result reason evidence now_ns = cache_tx fault (\<lambda>s.
     (case set_cache_action aid (\<lambda>a. a\<lparr>ct_updated := now_ns, ct_result := result, ct_reason := reason,
             ct_evidence := evidence\<rparr>) s of
        Inl e \<Rightarrow> Inl e
      | Inr s' \<Rightarrow>
          if result \<noteq> CachePartial then Inr s'
          else (case List.find (\<lambda>a. ct_id a = aid) (ks_actions s') of
                  None \<Rightarrow> Inr s'
                | Some a \<Rightarrow> Inr (update_cache_artifact (ct_artifact a)
                    (\<lambda>x. x\<lparr>ca_lifecycle := StatePartial, ca_reason := reason\<rparr>) s'))))"

definition finish_cache_action_tx :: "string \<Rightarrow> cache_result \<Rightarrow> detail \<Rightarrow> int \<Rightarrow> cache_store \<Rightarrow> detail + cache_store" where
  "finish_cache_action_tx aid result reason now_ns =
     set_cache_action aid (\<lambda>a. a\<lparr>ct_updated := now_ns, ct_result := result, ct_reason := reason\<rparr>)"

definition record_cache_quarantined ::
  "hash_ops \<Rightarrow> string option \<Rightarrow> string \<Rightarrow> quarantine \<Rightarrow> cache_store \<Rightarrow> detail option \<times> cache_store" where
  "record_cache_quarantined h fault aid q = cache_tx fault (\<lambda>s.
     finish_cache_action_tx aid CacheQuarantined (Text ''atomic same-filesystem quarantine completed'') (qu_updated q)
       (update_cache_artifact (qu_artifact q) (\<lambda>a. a\<lparr>ca_lifecycle := StateQuarantined, ca_identity := qu_identity q,
            ca_identity_digest := identity_digest h (qu_identity q), ca_manifest_digest := qu_manifest_digest q,
            ca_quarantine_path := qu_path q, ca_quarantined_at := qu_quarantined q,
            ca_quarantine_digest := qu_manifest_digest q,
            ca_reason := Text ''atomically quarantined on the provider filesystem''\<rparr>)
         (s\<lparr>ks_quarantines := AList.update (qu_artifact q) q (ks_quarantines s)\<rparr>)))"

definition record_cache_restored ::
  "hash_ops \<Rightarrow> string option \<Rightarrow> string \<Rightarrow> string \<Rightarrow> identity \<Rightarrow> string \<Rightarrow> int \<Rightarrow> cache_store \<Rightarrow> detail option \<times> cache_store" where
  "record_cache_restored h fault aid i identity manifest now_ns = cache_tx fault (\<lambda>s.
     finish_cache_action_tx aid CacheRestored (Text ''atomic restoration completed'') now_ns
       (update_cache_artifact i (\<lambda>a. a\<lparr>ca_lifecycle := StateRestored, ca_identity := identity,
            ca_identity_digest := identity_digest h identity, ca_manifest_digest := manifest,
            ca_stable_since := now_ns, ca_quarantine_path := [], ca_quarantined_at := 0, ca_quarantine_digest := [],
            ca_reason := Text ''restored to the exact absent original destination''\<rparr>)
         (update_quarantine i (\<lambda>q. q\<lparr>qu_status := Restored, qu_updated := now_ns\<rparr>) s)))"

definition record_cache_purged ::
  "string option \<Rightarrow> string \<Rightarrow> string \<Rightarrow> int \<Rightarrow> cache_store \<Rightarrow> detail option \<times> cache_store" where
  "record_cache_purged fault aid i now_ns = cache_tx fault (\<lambda>s.
     finish_cache_action_tx aid CachePurged (Text ''quarantine-only purge completed'') now_ns
       (update_cache_artifact i (\<lambda>a. a\<lparr>ca_lifecycle := StatePurged,
            ca_reason := Text ''permanently purged from quarantine after separate approval''\<rparr>)
         (update_quarantine i (\<lambda>q. q\<lparr>qu_status := Purged, qu_updated := now_ns\<rparr>) s)))"

section \<open>Queries\<close>

definition newest_cache_evaluation :: "cache_store \<Rightarrow> int option" where
  "newest_cache_evaluation s =
     (case ks_evaluations s of [] \<Rightarrow> None | es \<Rightarrow> Some (Max (set (List.map fst es))))"

definition artifact_current :: "cache_store \<Rightarrow> artifact \<Rightarrow> bool" where
  "artifact_current s a \<longleftrightarrow> newest_cache_evaluation s = Some (ca_evaluation a)"

text \<open>Newest first, and by identifier among those observed at the same time.\<close>

definition list_cache_artifacts :: "lifecycle option \<Rightarrow> bool \<Rightarrow> cache_store \<Rightarrow> artifact list" where
  "list_cache_artifacts l current_only s =
     sort_key (\<lambda>a. - ca_last_observed a) (sort_key ca_id
       (filter (\<lambda>a. (case l of None \<Rightarrow> True | Some x \<Rightarrow> ca_lifecycle a = x) \<and>
          (current_only \<longrightarrow> artifact_current s a)) (List.map snd (ks_artifacts s))))"

definition get_cache_artifact :: "string \<Rightarrow> cache_store \<Rightarrow> detail + artifact" where
  "get_cache_artifact i s = (case map_of (ks_artifacts s) i of None \<Rightarrow> Inl not_found | Some a \<Rightarrow> Inr a)"

definition cache_artifact_map :: "cache_store \<Rightarrow> (string \<times> artifact) list" where
  "cache_artifact_map s = List.map (\<lambda>a. (ca_id a, a)) (rev (list_cache_artifacts None True s))"

definition list_quarantines :: "quarantine_status option \<Rightarrow> cache_store \<Rightarrow> quarantine list" where
  "list_quarantines st s =
     sort_key (\<lambda>q. - qu_updated q)
       (filter (\<lambda>q. case st of None \<Rightarrow> True | Some x \<Rightarrow> qu_status q = x) (List.map snd (ks_quarantines s)))"

definition get_quarantine :: "string \<Rightarrow> cache_store \<Rightarrow> detail + quarantine" where
  "get_quarantine i s = (case map_of (ks_quarantines s) i of None \<Rightarrow> Inl not_found | Some q \<Rightarrow> Inr q)"

definition list_cache_actions ::
  "string \<Rightarrow> cache_kind option \<Rightarrow> cache_result option \<Rightarrow> int \<Rightarrow> cache_store \<Rightarrow> cache_action list" where
  "list_cache_actions artifact kind result limit s =
     (let n = (if limit \<le> 0 then 100 else if 1000 < limit then 1000 else limit) in
      take (nat n) (sort_key (\<lambda>a. - ct_requested a) (filter (\<lambda>a. (artifact = [] \<or> ct_artifact a = artifact) \<and>
        (case kind of None \<Rightarrow> True | Some k \<Rightarrow> ct_kind a = k) \<and>
        (case result of None \<Rightarrow> True | Some r \<Rightarrow> ct_result a = r)) (ks_actions s))))"

end
