(* ===== verification/Cache_Lane.thy ===== *)
theory Cache_Lane
  imports Cache_Store Scan
begin

text \<open>
  The cache lane of the daemon (\<open>internal/daemon\<close>: \<open>cache_scan.go\<close>, \<open>cache_sessions.go\<close>,
  \<open>cache_approval.go\<close>, \<open>cache_revalidation.go\<close>, \<open>cache_action.go\<close>, \<open>cache_quarantine_action.go\<close>,
  \<open>cache_restore_action.go\<close>, \<open>cache_purge_action.go\<close>, \<open>cache_backend.go\<close>). What clock, random
  source, database and filesystem answer during one request is the record \<open>cache_env\<close>. The
  type of filesystem states is a parameter. Counters for the status page and log lines are
  left out.
\<close>

section \<open>State\<close>

record cache_approval =
  ka_kind :: cache_kind
  ka_binding :: string
  ka_artifact :: artifact
  ka_quarantine :: "quarantine option"
  ka_destination :: string
  ka_configuration :: string
  ka_expires :: gotime
  ka_used :: bool

record purge_plan =
  pp_action :: string
  pp_artifact :: string
  pp_root_path :: string
  pp_quarantine_path :: string
  pp_root_identity :: identity
  pp_identity :: identity
  pp_configuration :: string
  pp_expires :: int
  pp_completion :: string

record purge_execution =
  px_plan :: purge_plan
  px_approval :: cache_approval
  px_evidence :: "detail list"
  px_used :: bool

record cache_daemon =
  kd_cfg :: cache_config
  kd_provider :: codex_provider
  kd_healthy :: bool
  kd_fs_healthy :: bool
  kd_approvals :: "(string \<times> cache_approval) list"
  kd_plans :: "(string \<times> purge_execution) list"
  kd_degraded :: "detail list"

text \<open>
  The effects: a committed change of an action's row, and a call that asks the filesystem to
  move the entry at a path.
\<close>

datatype cache_effect = CacheJournaled string cache_result | FsQuarantine string string string
  | FsRestore string string string

record 'f cache_world =
  cw_daemon :: cache_daemon
  cw_tables :: cache_store
  cw_store :: store
  cw_fs :: 'f
  cw_effects :: "cache_effect list"

record 'f cache_env =
  kv_fs :: "'f fs_ops"
  kv_ctx :: "string option"
  kv_query_error :: "string option"
  kv_sessions_error :: "string option"
  kv_begin_tx :: "string option"
  kv_finish_tx :: "string option"
  kv_record_tx :: "string option"
  kv_audit_tx :: "string option"
  kv_secret :: "string + string"
  kv_action_secret :: "string + string"
  kv_now :: gotime
  kv_check :: gotime
  kv_done :: gotime

text \<open>A new daemon grants nothing until its first complete cache scan.\<close>

definition start_cache_daemon :: "cache_config \<Rightarrow> codex_provider \<Rightarrow> cache_daemon" where
  "start_cache_daemon c p = \<lparr>kd_cfg = c, kd_provider = p, kd_healthy = False, kd_fs_healthy = True,
     kd_approvals = [], kd_plans = [], kd_degraded = []\<rparr>"

definition secret_digest :: "hash_ops \<Rightarrow> string \<Rightarrow> string" where
  "secret_digest h token = hex_encode (ha_sum h token)"

definition cache_approval_binding ::
  "hash_ops \<Rightarrow> cache_kind \<Rightarrow> artifact \<Rightarrow> quarantine option \<Rightarrow> string \<Rightarrow> string \<Rightarrow> string" where
  "cache_approval_binding h k a q dest configuration =
     hex_encode (ha_sum h (ha_binding_json h k a q dest configuration))"

fun fs_error_text :: "fs_error \<Rightarrow> detail" where
  "fs_error_text (ErrUnsafePath t) = Fmt ''cache filesystem: unsafe path: %s'' [AStr t]"
| "fs_error_text ErrChangedIdentity = Text ''cache filesystem: identity changed''"
| "fs_error_text ErrDestination = Text ''cache filesystem: destination exists''"
| "fs_error_text ErrCrossDevice = Text ''cache filesystem: entry crosses provider filesystem''"
| "fs_error_text ErrPartialPurge = Text ''cache filesystem: purge was partial''"
| "fs_error_text (SysError t e) = Text t"
| "fs_error_text (ContextDone e) = Text e"
| "fs_error_text (InjectedError e) = Text e"

fun observe_error_text :: "observe_error \<Rightarrow> detail" where
  "observe_error_text TraversalBound = Text ''codex cache provider: traversal bound must be positive''"
| "observe_error_text (ProviderFailed e) = detail_prefix ''codex cache provider: '' (fs_error_text e)"

section \<open>Sessions as the provider sees them\<close>

definition live_processes_of :: "store \<Rightarrow> string \<Rightarrow> process_record list" where
  "live_processes_of s sid =
     concat (List.map (\<lambda>(uid, rec, ex). if ex = None \<and> (sid = [] \<or> pc_session_id rec = sid) then [rec] else [])
       (sto_processes s))"

definition codex_home_of :: "session_record \<Rightarrow> string" where
  "codex_home_of s =
     (case sr_metadata s of
        None \<Rightarrow> []
      | Some m \<Rightarrow> (case map_of (sm_extra m) ''CODEX_HOME'' of None \<Rightarrow> [] | Some v \<Rightarrow> v))"

definition cache_session_of :: "store \<Rightarrow> session_record \<Rightarrow> cache_session" where
  "cache_session_of st s =
     \<lparr>cs_id = sr_session_id s, cs_native_id = sr_native_id s, cs_agent = sr_agent_id s,
      cs_state = state_name (sr_state s), cs_codex_home = codex_home_of s,
      cs_live_processes = int (length (live_processes_of st (sr_session_id s))), cs_confidence = sr_confidence s\<rparr>"

definition cache_session_facts :: "'f cache_env \<Rightarrow> int \<Rightarrow> store \<Rightarrow> detail + cache_session list" where
  "cache_session_facts env bound st =
     (case kv_sessions_error env of
        Some e \<Rightarrow> Inl (Text e)
      | None \<Rightarrow> Inr (List.map (cache_session_of st)
          (if 0 < bound + 1 then take (nat (bound + 1)) (list_sessions st) else list_sessions st)))"

definition observe_now :: "hash_ops \<Rightarrow> 'f cache_env \<Rightarrow> 'f cache_world \<Rightarrow> detail + observe_result" where
  "observe_now h env w =
     (let bound = cc_max_entries_scan (kd_cfg (cw_daemon w)) in
      case cache_session_facts env bound (cw_store w) of
        Inl e \<Rightarrow> Inl e
      | Inr sessions \<Rightarrow>
          (case observe h (kd_provider (cw_daemon w)) sessions
                  (\<lambda>r n. fo_snapshot (kv_fs env) (kv_ctx env) r n (cw_fs w)) bound of
             Inl e \<Rightarrow> Inl (observe_error_text e) | Inr res \<Rightarrow> Inr res))"

section \<open>The cache scan\<close>

definition record_cache_failure ::
  "hash_ops \<Rightarrow> 'f cache_env \<Rightarrow> gotime \<Rightarrow> detail \<Rightarrow> 'f cache_world \<Rightarrow> 'f cache_world" where
  "record_cache_failure h env observed_at cause w =
     (let d = cw_daemon w;
          row = \<lparr>ce_observed = unix_nano observed_at, ce_configuration = config_digest h (kd_cfg d),
                 ce_complete = False, ce_inspected = 0, ce_protected = 0, ce_candidates = 0, ce_error = cause\<rparr> in
      w\<lparr>cw_daemon := d\<lparr>kd_healthy := False\<rparr>,
        cw_tables := snd (persist_cache_evaluation (kv_finish_tx env) row [] [] (cw_tables w))\<rparr>)"

definition evaluate_observed ::
  "hash_ops \<Rightarrow> cache_config \<Rightarrow> gotime \<Rightarrow> (string \<times> artifact) list \<Rightarrow> artifact list
     \<Rightarrow> (artifact \<times> cache_decision) list" where
  "evaluate_observed h c at_time previous observed =
     List.map (\<lambda>a. evaluate_cache h c at_time a (map_of previous (ca_id a))) observed"

definition count_if :: "('a \<Rightarrow> bool) \<Rightarrow> 'a list \<Rightarrow> int" where
  "count_if P xs = int (length (filter P xs))"

definition cache_evaluation_row ::
  "hash_ops \<Rightarrow> cache_config \<Rightarrow> gotime \<Rightarrow> observe_result \<Rightarrow> artifact list \<Rightarrow> cache_evaluation" where
  "cache_evaluation_row h c at_time res artifacts =
     \<lparr>ce_observed = unix_nano at_time, ce_configuration = config_digest h c, ce_complete = or_complete res,
      ce_inspected = or_inspected res,
      ce_protected = count_if (\<lambda>a. ca_lifecycle a = StateProtected) artifacts,
      ce_candidates = count_if (\<lambda>a. ca_lifecycle a = StateStaleCandidate \<or> ca_lifecycle a = StateRecommended) artifacts,
      ce_error = Text []\<rparr>"

definition run_cache_scan :: "hash_ops \<Rightarrow> 'f cache_env \<Rightarrow> gotime \<Rightarrow> 'f cache_world \<Rightarrow> 'f cache_world" where
  "run_cache_scan h env observed_at w =
     (let d = cw_daemon w; c = kd_cfg d in
      if \<not> cc_enabled c then w
      else (case kv_query_error env of
        Some e \<Rightarrow> record_cache_failure h env observed_at (Text e) w
      | None \<Rightarrow>
          (case observe_now h env w of
             Inl e \<Rightarrow> record_cache_failure h env observed_at e w
           | Inr res \<Rightarrow>
               let rows = evaluate_observed h c observed_at (cache_artifact_map (cw_tables w)) (or_artifacts res);
                   artifacts = List.map fst rows;
                   row = cache_evaluation_row h c observed_at res artifacts in
               (case persist_cache_evaluation (kv_record_tx env) row artifacts (List.map snd rows) (cw_tables w) of
                  (Some e, _) \<Rightarrow> record_cache_failure h env observed_at e w
                | (None, s) \<Rightarrow> w\<lparr>cw_daemon := d\<lparr>kd_healthy := or_complete res\<rparr>, cw_tables := s\<rparr>))))"

section \<open>Authority\<close>

definition cache_global_recommend_enabled :: "cache_daemon \<Rightarrow> bool" where
  "cache_global_recommend_enabled d \<longleftrightarrow> cc_enabled (kd_cfg d) \<and> cc_global_mode (kd_cfg d) = ModeRecommend"

definition cache_policy_enabled :: "cache_daemon \<Rightarrow> string \<Rightarrow> bool" where
  "cache_policy_enabled d i \<longleftrightarrow> kd_healthy d \<and> kd_fs_healthy d \<and> cache_global_recommend_enabled d \<and>
     list_ex (\<lambda>p. cl_id p = i \<and> cl_enabled p \<and> cl_mode p = ModeRecommend) (cc_policies (kd_cfg d))"

definition current_cache_artifact :: "'f cache_env \<Rightarrow> string \<Rightarrow> 'f cache_world \<Rightarrow> detail + artifact" where
  "current_cache_artifact env i w =
     (case kv_query_error env of
        Some e \<Rightarrow> Inl (Text e)
      | None \<Rightarrow> (case List.find (\<lambda>a. ca_id a = i) (list_cache_artifacts None True (cw_tables w)) of
                  None \<Rightarrow> Inl not_found | Some a \<Rightarrow> Inr a))"

definition read_artifact :: "'f cache_env \<Rightarrow> string \<Rightarrow> 'f cache_world \<Rightarrow> detail + artifact" where
  "read_artifact env i w =
     (case kv_query_error env of Some e \<Rightarrow> Inl (Text e) | None \<Rightarrow> get_cache_artifact i (cw_tables w))"

definition read_quarantine :: "'f cache_env \<Rightarrow> string \<Rightarrow> 'f cache_world \<Rightarrow> detail + quarantine" where
  "read_quarantine env i w =
     (case kv_query_error env of Some e \<Rightarrow> Inl (Text e) | None \<Rightarrow> get_quarantine i (cw_tables w))"

section \<open>Approvals\<close>

definition cache_approval_lifetime :: duration where "cache_approval_lifetime = 2 * minute"
definition max_cache_approvals :: nat where "max_cache_approvals = 128"

definition prune_cache_approvals ::
  "gotime \<Rightarrow> (string \<times> cache_approval) list \<Rightarrow> (string \<times> cache_approval) list" where
  "prune_cache_approvals now as = filter (\<lambda>(_, a). \<not> ka_expires a + cache_approval_lifetime < now) as"

fun kind_name :: "cache_kind \<Rightarrow> string" where
  "kind_name KindCleanup = ''cleanup''"
| "kind_name KindRestore = ''restore''"
| "kind_name KindPurge = ''purge''"

definition approval_unknown :: detail where
  "approval_unknown = Text ''cache approval is unknown or was lost when the daemon restarted''"
definition approval_consumed :: detail where
  "approval_consumed = Text ''cache approval has already been consumed''"
definition approval_expired :: detail where
  "approval_expired = Text ''cache approval has expired''"

definition consume_cache_approval ::
  "hash_ops \<Rightarrow> string \<Rightarrow> gotime \<Rightarrow> cache_daemon \<Rightarrow> (detail + cache_approval \<times> detail option) \<times> cache_daemon" where
  "consume_cache_approval h token now d =
     (let k = secret_digest h token in
      case map_of (kd_approvals d) k of
        None \<Rightarrow> (Inl approval_unknown, d)
      | Some a \<Rightarrow>
          if ka_used a then (Inr (a, Some approval_consumed), d)
          else let a' = a\<lparr>ka_used := True\<rparr>;
                   d' = d\<lparr>kd_approvals := AList.update k a' (kd_approvals d)\<rparr> in
            (Inr (a', if \<not> now < ka_expires a then Some approval_expired else None), d'))"

definition issue_cache_approval ::
  "hash_ops \<Rightarrow> 'f cache_env \<Rightarrow> cache_kind \<Rightarrow> artifact \<Rightarrow> quarantine option \<Rightarrow> string \<Rightarrow> 'f cache_world
     \<Rightarrow> (detail + string \<times> cache_approval) \<times> 'f cache_world" where
  "issue_cache_approval h env k a q dest w =
     (case kv_secret env of
        Inl e \<Rightarrow> (Inl (Text e), w)
      | Inr token \<Rightarrow>
          let d = cw_daemon w;
              digest = secret_digest h token;
              conf = config_digest h (kd_cfg d);
              ap = \<lparr>ka_kind = k, ka_binding = cache_approval_binding h k a q dest conf, ka_artifact = a,
                    ka_quarantine = q, ka_destination = dest, ka_configuration = conf,
                    ka_expires = kv_now env + cache_approval_lifetime, ka_used = False\<rparr>;
              kept = prune_cache_approvals (kv_now env) (kd_approvals d) in
          if max_cache_approvals \<le> length kept
          then (Inl (Text ''too many outstanding cache approvals''), w\<lparr>cw_daemon := d\<lparr>kd_approvals := kept\<rparr>\<rparr>)
          else let issued = AList.update digest ap kept;
                   entry = (unix_nano (kv_now env), ''cache.'' @ kind_name k @ ''.previewed'', ca_id a,
                     Fmt ''single-use cache %s preview issued; expires at %s'' [AStr (kind_name k), ATime (ka_expires ap)],
                     [Fmt ''binding %s'' [AStr (ka_binding ap)], Fmt ''configuration %s'' [AStr conf]]) in
            (case cache_tx (kv_audit_tx env) (\<lambda>s. Inr (s\<lparr>ks_audit := ks_audit s @ [entry]\<rparr>)) (cw_tables w) of
               (Some e, _) \<Rightarrow> (Inl e, w\<lparr>cw_daemon := d\<lparr>kd_approvals := AList.delete digest issued\<rparr>\<rparr>)
             | (None, s) \<Rightarrow> (Inr (token, ap), w\<lparr>cw_daemon := d\<lparr>kd_approvals := issued\<rparr>, cw_tables := s\<rparr>)))"

definition too_large :: "cache_daemon \<Rightarrow> identity \<Rightarrow> bool" where
  "too_large d i \<longleftrightarrow> cc_max_bytes_action (kd_cfg d) < ci_size i"

definition cache_cleanup_preview ::
  "hash_ops \<Rightarrow> 'f cache_env \<Rightarrow> string \<Rightarrow> string \<Rightarrow> 'f cache_world
     \<Rightarrow> (detail + string \<times> cache_approval) \<times> 'f cache_world" where
  "cache_cleanup_preview h env i policy w =
     (let d = cw_daemon w in
      if i = [] \<or> policy = [] then (Inl (Text ''cache cleanup preview requires artifact_id and policy_id''), w)
      else if \<not> cache_policy_enabled d policy then (Inl (Text ''cache recommendation authority is disabled''), w)
      else (case current_cache_artifact env i w of
        Inl e \<Rightarrow> (Inl e, w)
      | Inr a \<Rightarrow>
          if ca_lifecycle a \<noteq> StateRecommended \<or> ca_policy a \<noteq> policy
          then (Inl (Text ''artifact is not a current recommendation for that exact policy''), w)
          else if cc_max_entries_action (kd_cfg d) < 1 \<or> too_large d (ca_identity a)
          then (Inl (Text ''artifact exceeds the current cache action bounds''), w)
          else issue_cache_approval h env KindCleanup a None (path_join [quarantine_directory, ca_id a]) w))"

definition cache_restore_preview ::
  "hash_ops \<Rightarrow> 'f cache_env \<Rightarrow> string \<Rightarrow> 'f cache_world \<Rightarrow> (detail + string \<times> cache_approval) \<times> 'f cache_world" where
  "cache_restore_preview h env i w =
     (let d = cw_daemon w in
      if i = [] then (Inl (Text ''cache restore preview requires artifact_id''), w)
      else (case read_artifact env i w of
        Inl e \<Rightarrow> (Inl e, w)
      | Inr a \<Rightarrow>
          if \<not> cache_policy_enabled d (ca_policy a) then (Inl (Text ''cache restore authority is disabled''), w)
          else (case read_quarantine env i w of
            Inl e \<Rightarrow> (Inl e, w)
          | Inr q \<Rightarrow>
              if qu_status q \<noteq> Quarantined then (Inl (Text ''artifact is not currently quarantined''), w)
              else if too_large d (qu_identity q)
              then (Inl (Text ''artifact exceeds the current cache action byte bound''), w)
              else issue_cache_approval h env KindRestore a (Some q) (qu_original_path q) w)))"

definition cache_purge_preview ::
  "hash_ops \<Rightarrow> 'f cache_env \<Rightarrow> string \<Rightarrow> string \<Rightarrow> 'f cache_world
     \<Rightarrow> (detail + string \<times> cache_approval) \<times> 'f cache_world" where
  "cache_purge_preview h env i policy w =
     (let d = cw_daemon w in
      if i = [] \<or> policy = [] then (Inl (Text ''cache purge preview requires artifact_id and policy_id''), w)
      else if \<not> cache_policy_enabled d policy then (Inl (Text ''cache purge authority is disabled''), w)
      else (case read_artifact env i w of
        Inl e \<Rightarrow> (Inl e, w)
      | Inr a \<Rightarrow>
          if ca_policy a \<noteq> policy
          then (Inl (Text ''purge policy does not match the artifact quarantine authority''), w)
          else (case read_quarantine env i w of
            Inl e \<Rightarrow> (Inl e, w)
          | Inr q \<Rightarrow>
              if qu_status q \<noteq> Quarantined \<or> unix_nano (kv_check env) < qu_grace_until q
              then (Inl (Text ''artifact is not purge-eligible or its quarantine grace period has not elapsed''), w)
              else if too_large d (qu_identity q)
              then (Inl (Text ''artifact exceeds the current cache action byte bound''), w)
              else issue_cache_approval h env KindPurge a (Some q) (qu_path q) w)))"

section \<open>Revalidation\<close>

definition authority_changed :: "hash_ops \<Rightarrow> cache_daemon \<Rightarrow> cache_approval \<Rightarrow> bool" where
  "authority_changed h d ap \<longleftrightarrow> ka_configuration ap \<noteq> config_digest h (kd_cfg d) \<or>
     \<not> cache_policy_enabled d (ca_policy (ka_artifact ap))"

text \<open>\<open>freshCleanupArtifact\<close>: the provider looks again and the policy still recommends the same entry.\<close>

definition fresh_cleanup_artifact ::
  "hash_ops \<Rightarrow> 'f cache_env \<Rightarrow> cache_approval \<Rightarrow> 'f cache_world \<Rightarrow> detail + artifact \<times> detail list" where
  "fresh_cleanup_artifact h env ap w =
     (let d = cw_daemon w; c = kd_cfg d in
      if authority_changed h d ap then Inl (Text ''cache configuration or recommendation authority changed'')
      else (case current_cache_artifact env (ca_id (ka_artifact ap)) w of
        Inl e \<Rightarrow> Inl e
      | Inr current \<Rightarrow>
          if cache_approval_binding h KindCleanup current None (ka_destination ap) (config_digest h c) \<noteq> ka_binding ap
          then Inl (Text ''committed cache decision or approval binding changed'')
          else (case observe_now h env w of
            Inl e \<Rightarrow> Inl e
          | Inr observed \<Rightarrow>
              if \<not> or_complete observed then Inl (Text ''fresh provider inspection was incomplete'')
              else (case List.find (\<lambda>a. ca_id a = ca_id current) (or_artifacts observed) of
                None \<Rightarrow> Inl (Text ''approved artifact is absent from the fresh provider observation'')
              | Some exact \<Rightarrow>
                  let fresh = fst (evaluate_cache h c (kv_check env) exact (Some current)) in
                  if ca_lifecycle fresh \<noteq> StateRecommended \<or> ca_policy fresh \<noteq> ca_policy current
                  then Inl (Text ''fresh provider, session or policy facts no longer recommend the artifact'')
                  else if ca_identity fresh \<noteq> ca_identity current \<or>
                    ca_manifest_digest fresh \<noteq> ca_manifest_digest current \<or>
                    ca_session fresh \<noteq> ca_session current \<or> ca_root_path fresh \<noteq> ca_root_path current \<or>
                    ca_relative_path fresh \<noteq> ca_relative_path current \<or>
                    \<not> same_object (ca_root_identity fresh) (ca_root_identity current)
                  then Inl (Text ''exact artifact identity, manifest, ownership or provider root changed'')
                  else Inr (fresh, ca_evidence fresh @
                    [Text ''fresh provider observation retained the exact approved identity and recommendation''])))))"

text \<open>\<open>currentQuarantineApproval\<close>: the durable records still agree with each other and the approval.\<close>

definition quarantine_consistent :: "hash_ops \<Rightarrow> artifact \<Rightarrow> quarantine \<Rightarrow> bool" where
  "quarantine_consistent h a q \<longleftrightarrow>
     qu_manifest_digest q = manifest_digest h (qu_path q) (qu_identity q) \<and> ca_identity a = qu_identity q \<and>
     ca_manifest_digest a = qu_manifest_digest q \<and> ca_quarantine_digest a = qu_manifest_digest q \<and>
     ca_quarantine_path a = qu_path q \<and> ca_root_path a = qu_root_path q"

definition current_quarantine_approval ::
  "hash_ops \<Rightarrow> 'f cache_env \<Rightarrow> cache_approval \<Rightarrow> 'f cache_world \<Rightarrow> detail + quarantine \<times> detail list" where
  "current_quarantine_approval h env ap w =
     (let d = cw_daemon w; i = ca_id (ka_artifact ap) in
      if authority_changed h d ap then Inl (Text ''cache configuration or global authority changed'')
      else (case read_artifact env i w of
        Inl e \<Rightarrow> Inl e
      | Inr a \<Rightarrow>
          (case read_quarantine env i w of
             Inl e \<Rightarrow> Inl e
           | Inr q \<Rightarrow>
               if qu_status q \<noteq> Quarantined then Inl (Text ''artifact is no longer quarantined'')
               else if \<not> quarantine_consistent h a q
               then Inl (Text ''durable quarantine identity or metadata-only manifest is inconsistent'')
               else if cache_approval_binding h (ka_kind ap) a (Some q) (ka_destination ap)
                         (config_digest h (kd_cfg d)) \<noteq> ka_binding ap
               then Inl (Text ''quarantine identity, manifest, destination or approval binding changed'')
               else Inr (q, [Text ''durable quarantine record and configuration still match the single-use approval'']))))"

section \<open>The journal of the lane\<close>

record cache_response =
  cr_action :: string
  cr_artifact :: string
  cr_kind :: cache_kind
  cr_result :: cache_result
  cr_reason :: detail
  cr_at :: int
  cr_evidence :: "detail list"

definition cache_action_response ::
  "string \<Rightarrow> cache_approval \<Rightarrow> cache_result \<Rightarrow> detail \<Rightarrow> detail list \<Rightarrow> gotime \<Rightarrow> cache_response" where
  "cache_action_response aid ap result reason evidence at_time =
     \<lparr>cr_action = aid, cr_artifact = ca_id (ka_artifact ap), cr_kind = ka_kind ap, cr_result = result,
      cr_reason = reason, cr_at = unix_nano at_time, cr_evidence = evidence\<rparr>"

definition journal_begin ::
  "'f cache_env \<Rightarrow> string \<Rightarrow> cache_approval \<Rightarrow> cache_result \<Rightarrow> detail \<Rightarrow> detail list \<Rightarrow> 'f cache_world
     \<Rightarrow> detail option \<times> 'f cache_world" where
  "journal_begin env aid ap result reason evidence w =
     (case begin_cache_action (kv_begin_tx env)
             \<lparr>ct_id = aid, ct_artifact = ca_id (ka_artifact ap), ct_kind = ka_kind ap,
              ct_policy = ca_policy (ka_artifact ap), ct_requested = unix_nano (kv_now env),
              ct_updated = unix_nano (kv_now env), ct_result = result, ct_reason = reason,
              ct_evidence = evidence\<rparr> (cw_tables w) of
        (Some e, _) \<Rightarrow> (Some e, w)
      | (None, s) \<Rightarrow> (None, w\<lparr>cw_tables := s, cw_effects := cw_effects w @ [CacheJournaled aid result]\<rparr>))"

definition journal_fail ::
  "'f cache_env \<Rightarrow> string \<Rightarrow> cache_result \<Rightarrow> detail \<Rightarrow> detail list \<Rightarrow> 'f cache_world
     \<Rightarrow> detail option \<times> 'f cache_world" where
  "journal_fail env aid result cause evidence w =
     (case finish_cache_action (kv_finish_tx env) aid result cause (evidence @ [cause]) (unix_nano (kv_done env))
             (cw_tables w) of
        (Some e, _) \<Rightarrow> (Some e, w)
      | (None, s) \<Rightarrow> (None, w\<lparr>cw_tables := s, cw_effects := cw_effects w @ [CacheJournaled aid result]\<rparr>))"

definition reject_cache_action ::
  "'f cache_env \<Rightarrow> string \<Rightarrow> cache_approval \<Rightarrow> detail \<Rightarrow> 'f cache_world
     \<Rightarrow> (detail + cache_response) \<times> 'f cache_world" where
  "reject_cache_action env aid ap reason w =
     (let evidence = [Text ''cache action refused before filesystem mutation'', reason] in
      case journal_begin env aid ap CacheRejected reason evidence w of
        (Some e, w') \<Rightarrow> (Inl e, w')
      | (None, w') \<Rightarrow> (Inr (cache_action_response aid ap CacheRejected reason evidence (kv_now env)), w'))"

section \<open>Quarantine and restoration\<close>

definition fs_after :: "'f cache_world \<Rightarrow> cache_effect \<Rightarrow> 'f \<Rightarrow> 'f cache_world" where
  "fs_after w e f = w\<lparr>cw_fs := f, cw_effects := cw_effects w @ [e]\<rparr>"

definition failed_response ::
  "'f cache_env \<Rightarrow> string \<Rightarrow> cache_approval \<Rightarrow> detail \<Rightarrow> detail list \<Rightarrow> 'f cache_world
     \<Rightarrow> (detail + cache_response) \<times> 'f cache_world" where
  "failed_response env aid ap cause evidence w =
     (Inr (cache_action_response aid ap CacheFailed cause (evidence @ [cause]) (kv_done env)),
      snd (journal_fail env aid CacheFailed cause evidence w))"

definition quarantine_row ::
  "hash_ops \<Rightarrow> cache_config \<Rightarrow> gotime \<Rightarrow> artifact \<Rightarrow> string \<Rightarrow> identity \<Rightarrow> quarantine" where
  "quarantine_row h c at_time a name moved =
     (let path = path_join [quarantine_directory, name] in
      \<lparr>qu_artifact = ca_id a, qu_root_path = ca_root_path a, qu_original_path = ca_relative_path a, qu_path = path,
       qu_identity = moved, qu_manifest_digest = manifest_digest h path moved,
       qu_quarantined = unix_nano at_time, qu_grace_until = unix_nano (at_time + cc_quarantine_grace c),
       qu_status = Quarantined, qu_updated = unix_nano at_time, qu_configuration = config_digest h c,
       qu_original_manifest = ca_manifest_digest a\<rparr>)"

definition quarantine_attempt :: detail where
  "quarantine_attempt = Text ''fresh revalidation passed; atomic same-filesystem quarantine is about to be attempted''"

definition restore_attempt :: detail where
  "restore_attempt = Text ''exact restoration revalidation passed; atomic rename is about to be attempted''"

definition apply_cache_quarantine ::
  "hash_ops \<Rightarrow> 'f cache_env \<Rightarrow> string \<Rightarrow> cache_approval \<Rightarrow> 'f cache_world
     \<Rightarrow> (detail + cache_response) \<times> 'f cache_world" where
  "apply_cache_quarantine h env aid ap w =
     (case fresh_cleanup_artifact h env ap w of
        Inl e \<Rightarrow> reject_cache_action env aid ap e w
      | Inr (a, evidence) \<Rightarrow>
          (case journal_begin env aid ap CacheAttempting
                  quarantine_attempt evidence w of
             (Some e, w1) \<Rightarrow> (Inl e, w1)
           | (None, w1) \<Rightarrow>
               let name = path_base (ka_destination ap);
                   call = FsQuarantine (ca_root_path a) (ca_relative_path a) name in
               (case fo_quarantine (kv_fs env) (kv_ctx env) (ca_root_path a) (ca_relative_path a) name
                       (ca_root_identity a) (ca_identity a) (cw_fs w1) of
                  (Inl e, f) \<Rightarrow> failed_response env aid ap (fs_error_text e) evidence (fs_after w1 call f)
                | (Inr moved, f) \<Rightarrow>
                    let w2 = fs_after w1 call f;
                        q = quarantine_row h (kd_cfg (cw_daemon w)) (kv_done env) a name moved in
                    (case record_cache_quarantined h (kv_record_tx env) aid q (cw_tables w2) of
                       (Some e, _) \<Rightarrow> (Inl e, w2)
                     | (None, s) \<Rightarrow>
                         (Inr (cache_action_response aid ap CacheQuarantined
                            (Text ''one exact artifact was atomically renamed into provider-local quarantine; no disk space was reclaimed'')
                            evidence (kv_done env)),
                          w2\<lparr>cw_tables := s, cw_effects := cw_effects w2 @ [CacheJournaled aid CacheQuarantined]\<rparr>)))))"

definition apply_cache_restore ::
  "hash_ops \<Rightarrow> 'f cache_env \<Rightarrow> string \<Rightarrow> cache_approval \<Rightarrow> 'f cache_world
     \<Rightarrow> (detail + cache_response) \<times> 'f cache_world" where
  "apply_cache_restore h env aid ap w =
     (case current_quarantine_approval h env ap w of
        Inl e \<Rightarrow> reject_cache_action env aid ap e w
      | Inr (q, evidence) \<Rightarrow>
          (case journal_begin env aid ap CacheAttempting
                  restore_attempt evidence w of
             (Some e, w1) \<Rightarrow> (Inl e, w1)
           | (None, w1) \<Rightarrow>
               let call = FsRestore (qu_root_path q) (qu_path q) (qu_original_path q) in
               (case fo_restore (kv_fs env) (kv_ctx env) (qu_root_path q) (qu_path q) (qu_original_path q)
                       (ca_root_identity (ka_artifact ap)) (qu_identity q) (cw_fs w1) of
                  (Inl e, f) \<Rightarrow> failed_response env aid ap (fs_error_text e) evidence (fs_after w1 call f)
                | (Inr restored, f) \<Rightarrow>
                    let w2 = fs_after w1 call f in
                    (case record_cache_restored h (kv_record_tx env) aid (qu_artifact q) restored
                            (manifest_digest h (qu_original_path q) restored) (unix_nano (kv_done env)) (cw_tables w2) of
                       (Some e, _) \<Rightarrow> (Inl e, w2)
                     | (None, s) \<Rightarrow>
                         (Inr (cache_action_response aid ap CacheRestored
                            (Text ''exact quarantined artifact was atomically restored to its absent original destination'')
                            evidence (kv_done env)),
                          w2\<lparr>cw_tables := s, cw_effects := cw_effects w2 @ [CacheJournaled aid CacheRestored]\<rparr>)))))"

text \<open>
  The part that both endpoints and the purge share: the approval is spent before anything
  else is looked at.
\<close>

definition spend_approval ::
  "hash_ops \<Rightarrow> 'f cache_env \<Rightarrow> string \<Rightarrow> 'f cache_world
     \<Rightarrow> (detail + string \<times> cache_approval \<times> detail option) \<times> 'f cache_world" where
  "spend_approval h env token w =
     (case consume_cache_approval h token (kv_now env) (cw_daemon w) of
        (Inl e, d) \<Rightarrow> (Inl e, w\<lparr>cw_daemon := d\<rparr>)
      | (Inr (ap, refusal), d) \<Rightarrow>
          (case kv_action_secret env of
             Inl e \<Rightarrow> (Inl (Text e), w\<lparr>cw_daemon := d\<rparr>)
           | Inr secret \<Rightarrow> (Inr (''act_'' @ secret, ap, refusal), w\<lparr>cw_daemon := d\<rparr>)))"

definition apply_cache_approval ::
  "hash_ops \<Rightarrow> 'f cache_env \<Rightarrow> cache_kind \<Rightarrow> string \<Rightarrow> 'f cache_world
     \<Rightarrow> (detail + cache_response) \<times> 'f cache_world" where
  "apply_cache_approval h env k token w =
     (if token = [] then (Inl (Text ''cache apply requires an approval''), w)
      else (case spend_approval h env token w of
        (Inl e, w1) \<Rightarrow> (Inl e, w1)
      | (Inr (aid, ap, refusal), w1) \<Rightarrow>
          (case (if ka_kind ap \<noteq> k then Some (Text ''approval action does not match the requested endpoint'') else refusal) of
             Some reason \<Rightarrow> reject_cache_action env aid ap reason w1
           | None \<Rightarrow>
               (case k of
                  KindCleanup \<Rightarrow> apply_cache_quarantine h env aid ap w1
                | KindRestore \<Rightarrow> apply_cache_restore h env aid ap w1
                | KindPurge \<Rightarrow> reject_cache_action env aid ap (Text ''unsupported cache action'') w1))))"

definition cache_cleanup_apply ::
  "hash_ops \<Rightarrow> 'f cache_env \<Rightarrow> string \<Rightarrow> 'f cache_world \<Rightarrow> (detail + cache_response) \<times> 'f cache_world" where
  "cache_cleanup_apply h env = apply_cache_approval h env KindCleanup"

definition cache_restore_apply ::
  "hash_ops \<Rightarrow> 'f cache_env \<Rightarrow> string \<Rightarrow> 'f cache_world \<Rightarrow> (detail + cache_response) \<times> 'f cache_world" where
  "cache_restore_apply h env = apply_cache_approval h env KindRestore"

section \<open>Purge\<close>

definition cache_purge_plan_lifetime :: duration where "cache_purge_plan_lifetime = 2 * minute"

definition prune_plans :: "gotime \<Rightarrow> (string \<times> purge_execution) list \<Rightarrow> (string \<times> purge_execution) list" where
  "prune_plans now ps = filter (\<lambda>(_, x). \<not> pp_expires (px_plan x) < unix_nano now) ps"

definition purge_plan_of ::
  "hash_ops \<Rightarrow> 'f cache_env \<Rightarrow> cache_config \<Rightarrow> string \<Rightarrow> cache_approval \<Rightarrow> quarantine \<Rightarrow> string \<Rightarrow> purge_plan" where
  "purge_plan_of h env c aid ap q completion =
     \<lparr>pp_action = aid, pp_artifact = qu_artifact q, pp_root_path = qu_root_path q, pp_quarantine_path = qu_path q,
      pp_root_identity = ca_root_identity (ka_artifact ap), pp_identity = qu_identity q,
      pp_configuration = config_digest h c, pp_expires = unix_nano (kv_now env + cache_purge_plan_lifetime),
      pp_completion = completion\<rparr>"

text \<open>The reply of the endpoint: the action and, when it was granted, the plan.\<close>

type_synonym purge_reply = "cache_response \<times> purge_plan option"

definition rejected_purge ::
  "(detail + cache_response) \<times> 'f cache_world \<Rightarrow> (detail + purge_reply) \<times> 'f cache_world" where
  "rejected_purge r = (case r of (Inl e, w) \<Rightarrow> (Inl e, w) | (Inr x, w) \<Rightarrow> (Inr (x, None), w))"

definition purge_attempt :: detail where
  "purge_attempt = Text ''foreground-only exact quarantine purge was prepared after grace and revalidation''"

definition prepare_cache_purge ::
  "hash_ops \<Rightarrow> 'f cache_env \<Rightarrow> string \<Rightarrow> cache_approval \<Rightarrow> 'f cache_world
     \<Rightarrow> (detail + purge_reply) \<times> 'f cache_world" where
  "prepare_cache_purge h env aid ap w =
     (case current_quarantine_approval h env ap w of
        Inl e \<Rightarrow> rejected_purge (reject_cache_action env aid ap e w)
      | Inr (q, evidence) \<Rightarrow>
          if \<not> cache_policy_enabled (cw_daemon w) (ca_policy (ka_artifact ap)) \<or> unix_nano (kv_now env) < qu_grace_until q
          then rejected_purge (reject_cache_action env aid ap
                 (Text ''purge policy changed or quarantine grace has not elapsed'') w)
          else (case kv_secret env of
            Inl e \<Rightarrow> (Inl (Text e), w)
          | Inr completion \<Rightarrow>
              let plan = purge_plan_of h env (kd_cfg (cw_daemon w)) aid ap q completion in
              (case journal_begin env aid ap CachePurging
                      purge_attempt evidence w of
                 (Some e, w1) \<Rightarrow> (Inl e, w1)
               | (None, w1) \<Rightarrow>
                   let kept = prune_plans (kv_now env) (kd_plans (cw_daemon w1)) in
                   if 1 \<le> length kept
                   then (let cause = Text ''too many outstanding foreground purge plans'' in
                         (Inl cause, snd (journal_fail env aid CacheFailed cause evidence
                            (w1\<lparr>cw_daemon := (cw_daemon w1)\<lparr>kd_plans := kept\<rparr>\<rparr>))))
                   else (Inr (cache_action_response aid ap CachePurging
                            (Text ''daemon committed intent; only the short-lived foreground executor can unlink'')
                            evidence (kv_now env), Some plan),
                         w1\<lparr>cw_daemon := (cw_daemon w1)\<lparr>kd_plans :=
                            AList.update (secret_digest h completion)
                              \<lparr>px_plan = plan, px_approval = ap, px_evidence = evidence, px_used = False\<rparr> kept\<rparr>\<rparr>))))"

definition cache_purge_apply ::
  "hash_ops \<Rightarrow> 'f cache_env \<Rightarrow> string \<Rightarrow> string \<Rightarrow> 'f cache_world \<Rightarrow> (detail + purge_reply) \<times> 'f cache_world" where
  "cache_purge_apply h env token confirmation w =
     (if token = [] \<or> confirmation = []
      then (Inl (Text ''cache purge apply requires approval and exact artifact confirmation''), w)
      else (case spend_approval h env token w of
        (Inl e, w1) \<Rightarrow> (Inl e, w1)
      | (Inr (aid, ap, refusal), w1) \<Rightarrow>
          (case (if confirmation \<noteq> ca_id (ka_artifact ap)
                 then Some (Text ''foreground confirmation does not exactly match the approved artifact'')
                 else if ka_kind ap \<noteq> KindPurge
                 then Some (Text ''approval action does not match the purge endpoint'') else refusal) of
             Some reason \<Rightarrow> rejected_purge (reject_cache_action env aid ap reason w1)
           | None \<Rightarrow> prepare_cache_purge h env aid ap w1)))"

definition trip_filesystem_circuit :: "detail \<Rightarrow> 'f cache_world \<Rightarrow> 'f cache_world" where
  "trip_filesystem_circuit reason w =
     (let d = cw_daemon w in w\<lparr>cw_daemon := d\<lparr>kd_fs_healthy := False, kd_degraded := kd_degraded d @ [reason]\<rparr>\<rparr>)"

definition ambiguous_cache_purge ::
  "'f cache_env \<Rightarrow> purge_execution \<Rightarrow> detail \<Rightarrow> 'f cache_world \<Rightarrow> (detail + cache_response) \<times> 'f cache_world" where
  "ambiguous_cache_purge env x cause w =
     (let aid = pp_action (px_plan x) in
      case journal_fail env aid CachePartial cause (px_evidence x)
             (trip_filesystem_circuit (detail_prefix ''cache purge completion became ambiguous: '' cause) w) of
        (Some e, w1) \<Rightarrow> (Inl e, w1)
      | (None, w1) \<Rightarrow> (Inr (cache_action_response aid (px_approval x) CachePartial cause
            (px_evidence x @ [cause]) (kv_done env)), w1))"

definition unmutated_cause :: "bool \<Rightarrow> string \<Rightarrow> detail" where
  "unmutated_cause expired execution_error =
     (if expired then Text ''foreground purge plan expired without a verified mutation''
      else if execution_error \<noteq> [] then Fmt ''foreground executor failed without mutation: %s'' [AStr execution_error]
      else Text ''foreground executor left the exact quarantine artifact present'')"

definition verify_cache_purge ::
  "'f cache_env \<Rightarrow> purge_execution \<Rightarrow> string \<Rightarrow> 'f cache_world \<Rightarrow> (detail + cache_response) \<times> 'f cache_world" where
  "verify_cache_purge env x execution_error w =
     (let plan = px_plan x; expired = pp_expires plan \<le> unix_nano (kv_check env) in
      case fo_quarantine_entry (kv_fs env) (kv_ctx env) (pp_root_path plan) (pp_quarantine_path plan)
             (pp_root_identity plan) (cw_fs w) of
        Inl e \<Rightarrow> ambiguous_cache_purge env x (detail_prefix ''post-purge verification failed: '' (fs_error_text e)) w
      | Inr (Some current) \<Rightarrow>
          if current \<noteq> pp_identity plan then ambiguous_cache_purge env x (fs_error_text ErrChangedIdentity) w
          else (let cause = unmutated_cause expired execution_error in
            case journal_fail env (pp_action plan) CacheFailed cause (px_evidence x) w of
              (Some e, w1) \<Rightarrow> (Inl e, w1)
            | (None, w1) \<Rightarrow> (Inr (cache_action_response (pp_action plan) (px_approval x) CacheFailed cause
                  (px_evidence x @ [cause]) (kv_done env)), w1))
      | Inr None \<Rightarrow>
          if expired
          then ambiguous_cache_purge env x
                 (Text ''quarantine artifact became absent after the foreground purge plan expired'') w
          else (case record_cache_purged (kv_record_tx env) (pp_action plan) (pp_artifact plan)
                       (unix_nano (kv_done env)) (cw_tables w) of
            (Some e, _) \<Rightarrow> (Inl e, w)
          | (None, s) \<Rightarrow>
              (Inr (cache_action_response (pp_action plan) (px_approval x) CachePurged
                 (Text ''foreground executor removed one exact quarantine artifact; daemon verified absence'')
                 (px_evidence x @ (if execution_error = [] then []
                    else [Fmt ''executor reported an error but exact post-action absence was verified: %s''
                            [AStr execution_error]])) (kv_done env)),
               w\<lparr>cw_tables := s, cw_effects := cw_effects w @ [CacheJournaled (pp_action plan) CachePurged]\<rparr>)))"

definition cache_purge_complete ::
  "hash_ops \<Rightarrow> 'f cache_env \<Rightarrow> string \<Rightarrow> string \<Rightarrow> string \<Rightarrow> 'f cache_world
     \<Rightarrow> (detail + cache_response) \<times> 'f cache_world" where
  "cache_purge_complete h env aid completion execution_error w =
     (if aid = [] \<or> completion = []
      then (Inl (Text ''cache purge completion requires action_id and completion capability''), w)
      else
        let d = cw_daemon w; k = secret_digest h completion in
        (case map_of (kd_plans d) k of
           None \<Rightarrow> (Inl (Text ''foreground purge completion is unknown or was lost when the daemon restarted''), w)
         | Some x \<Rightarrow>
             if pp_action (px_plan x) \<noteq> aid
             then (Inl (Text ''foreground purge completion is unknown or was lost when the daemon restarted''), w)
             else if px_used x then (Inl (Text ''foreground purge completion was already consumed''), w)
             else verify_cache_purge env (x\<lparr>px_used := True\<rparr>) execution_error
                    (w\<lparr>cw_daemon := d\<lparr>kd_plans := AList.delete k (kd_plans d)\<rparr>\<rparr>)))"

section \<open>What the status endpoints show\<close>

definition cache_candidates :: "'f cache_world \<Rightarrow> artifact list" where
  "cache_candidates w =
     (if \<not> kd_healthy (cw_daemon w) then []
      else filter (\<lambda>a. ca_lifecycle a = StateStaleCandidate \<or> ca_lifecycle a = StateRecommended)
             (list_cache_artifacts None True (cw_tables w)))"

definition cache_quarantines :: "'f cache_world \<Rightarrow> quarantine list" where
  "cache_quarantines w = list_quarantines (Some Quarantined) (cw_tables w)"

end
