(* ===== verification/Cache_Posix.thy ===== *)
theory Cache_Posix
  imports Cache_FS
begin

text \<open>
  The descriptor-anchored filesystem (\<open>internal/cachefs\<close>: \<open>real_unix.go\<close>, \<open>purge_unix.go\<close>,
  \<open>stat_darwin.go\<close>, \<open>stat_linux.go\<close>). The operating system is a table of paths, as component
  lists, with the metadata of what lies there; a descriptor of a directory is its path. The
  record \<open>kernel\<close> decides which call fails for a reason outside the table, in which order a
  directory is listed, and what a change does to metadata. One operation runs at a time.
\<close>

unbundle bit_operations_syntax

section \<open>The operating system\<close>

type_synonym vfs = "(string list \<times> identity) list"

datatype syscall = SysOpen "string list" | SysFstat | SysReadDir | SysStat string | SysStatQuarantine
  | SysOpenQuarantine | SysMkdir | SysExists string | SysRename | SysStatMoved | SysUnlink

datatype fault = CrossDeviceFault | IoFault string

record kernel =
  kn_fault :: "syscall \<Rightarrow> fault option"
  kn_list :: "string list \<Rightarrow> string list"
  kn_new_directory :: identity
  kn_touch_file :: "identity \<Rightarrow> identity"
  kn_touch_directory :: "identity \<Rightarrow> identity"

fun fault_errno :: "fault \<Rightarrow> errno" where
  "fault_errno CrossDeviceFault = EXDEV"
| "fault_errno (IoFault t) = OtherErrno t"

definition entry_type :: "32 word \<Rightarrow> string" where
  "entry_type mode =
     (let t = mode AND 0xF000 in
      if t = 0x8000 then ''regular'' else if t = 0x4000 then ''directory''
      else if t = 0xA000 then ''symlink'' else ''other'')"

definition identity_from_stat :: "identity \<Rightarrow> identity" where
  "identity_from_stat st = st\<lparr>ci_entry_type := entry_type (ci_mode st)\<rparr>"

definition look :: "vfs \<Rightarrow> string list \<Rightarrow> identity option" where
  "look v p = map_option identity_from_stat (map_of v p)"

text \<open>\<open>fstatat\<close> without following links, and \<open>openat\<close> for a directory.\<close>

definition sys_stat :: "kernel \<Rightarrow> syscall \<Rightarrow> string list \<Rightarrow> vfs \<Rightarrow> errno + identity" where
  "sys_stat k call p v =
     (case kn_fault k call of
        Some e \<Rightarrow> Inl (fault_errno e)
      | None \<Rightarrow> (case look v p of None \<Rightarrow> Inl ENOENT | Some i \<Rightarrow> Inr i))"

definition sys_open_directory :: "kernel \<Rightarrow> syscall \<Rightarrow> string list \<Rightarrow> vfs \<Rightarrow> errno option" where
  "sys_open_directory k call p v =
     (case kn_fault k call of
        Some e \<Rightarrow> Some (fault_errno e)
      | None \<Rightarrow>
          (case look v p of
             None \<Rightarrow> Some ENOENT
           | Some i \<Rightarrow> if ci_entry_type i = ''symlink'' then Some ELOOP
                       else if ci_entry_type i \<noteq> ''directory'' then Some ENOTDIR else None))"

definition touch :: "string list \<Rightarrow> (identity \<Rightarrow> identity) \<Rightarrow> vfs \<Rightarrow> vfs" where
  "touch p g v = List.map (\<lambda>(q, i). (q, if q = p then g i else i)) v"

text \<open>A rename moves an entry and everything below it.\<close>

definition moved_path :: "string list \<Rightarrow> string list \<Rightarrow> string list \<Rightarrow> string list" where
  "moved_path src dst p = (if prefix src p then dst @ drop (length src) p else p)"

definition rename_tree :: "string list \<Rightarrow> string list \<Rightarrow> vfs \<Rightarrow> vfs" where
  "rename_tree src dst v = List.map (\<lambda>(p, i). (moved_path src dst p, i)) v"

definition sys_rename ::
  "kernel \<Rightarrow> string list \<Rightarrow> string \<Rightarrow> string list \<Rightarrow> string \<Rightarrow> vfs \<Rightarrow> errno option \<times> vfs" where
  "sys_rename k from name to_dir name' v =
     (case kn_fault k SysRename of
        Some e \<Rightarrow> (Some (fault_errno e), v)
      | None \<Rightarrow>
          if look v (from @ [name]) = None then (Some ENOENT, v)
          else (None, touch from (kn_touch_directory k) (touch to_dir (kn_touch_directory k)
                 (touch (to_dir @ [name']) (kn_touch_file k)
                   (rename_tree (from @ [name]) (to_dir @ [name']) v)))))"

definition sys_unlink :: "kernel \<Rightarrow> string list \<Rightarrow> string \<Rightarrow> vfs \<Rightarrow> errno option \<times> vfs" where
  "sys_unlink k dir name v =
     (case kn_fault k SysUnlink of
        Some e \<Rightarrow> (Some (fault_errno e), v)
      | None \<Rightarrow> (None, touch dir (kn_touch_directory k) (filter (\<lambda>(p, _). p \<noteq> dir @ [name]) v)))"

definition sys_mkdir :: "kernel \<Rightarrow> string list \<Rightarrow> string \<Rightarrow> vfs \<Rightarrow> errno option \<times> vfs" where
  "sys_mkdir k dir name v =
     (case kn_fault k SysMkdir of
        Some e \<Rightarrow> (Some (fault_errno e), v)
      | None \<Rightarrow> if look v (dir @ [name]) \<noteq> None then (Some EEXIST, v)
                else (None, touch dir (kn_touch_directory k) ((dir @ [name], kn_new_directory k) # v)))"

definition child_names :: "string list \<Rightarrow> vfs \<Rightarrow> string list" where
  "child_names dir v =
     remdups (concat (List.map (\<lambda>(p, _). if p \<noteq> [] \<and> butlast p = dir then [last p] else []) v))"

section \<open>Helpers of the operations\<close>

definition safe_base :: "string \<Rightarrow> bool" where
  "safe_base name \<longleftrightarrow> name \<noteq> [] \<and> name \<noteq> ''.'' \<and> name \<noteq> ''..'' \<and> path_base name = name \<and>
     char_of (0::nat) \<notin> set name"

definition safe_quarantine_path :: "string \<Rightarrow> bool" where
  "safe_quarantine_path p \<longleftrightarrow> path_dir p = quarantine_directory \<and> safe_base (path_base p)"

text \<open>\<open>openRoot\<close> walks down from the root directory, one component at a time.\<close>

fun open_components :: "kernel \<Rightarrow> vfs \<Rightarrow> string list \<Rightarrow> string list \<Rightarrow> fs_error + string list" where
  "open_components k v at_dir [] = Inr at_dir"
| "open_components k v at_dir (c # cs) =
     (if \<not> safe_base c then Inl (ErrUnsafePath [])
      else (case sys_open_directory k (SysOpen (at_dir @ [c])) (at_dir @ [c]) v of
              Some e \<Rightarrow> if e = ELOOP \<or> e = ENOTDIR then Inl (ErrUnsafePath c)
                        else Inl (SysError ''cache filesystem: opening provider path component'' e)
            | None \<Rightarrow> open_components k v (at_dir @ [c]) cs))"

definition root_components :: "string \<Rightarrow> string list" where
  "root_components rt = split_on (CHR ''/'') (tl rt)"

definition open_root :: "kernel \<Rightarrow> string \<Rightarrow> vfs \<Rightarrow> fs_error + string list \<times> identity" where
  "open_root k rt v =
     (if \<not> is_abs rt \<or> path_clean rt \<noteq> rt \<or> char_of (0::nat) \<in> set rt then Inl (ErrUnsafePath [])
      else (case kn_fault k (SysOpen []) of
        Some e \<Rightarrow> Inl (SysError ''cache filesystem: opening filesystem root'' (fault_errno e))
      | None \<Rightarrow>
          (case open_components k v [] (root_components rt) of
             Inl e \<Rightarrow> Inl e
           | Inr dir \<Rightarrow>
               (case sys_stat k SysFstat dir v of
                  Inl e \<Rightarrow> Inl (SysError ''cache filesystem: stating provider root'' e)
                | Inr i \<Rightarrow> if ci_entry_type i \<noteq> ''directory'' then Inl (ErrUnsafePath []) else Inr (dir, i)))))"

definition stat_at :: "kernel \<Rightarrow> syscall \<Rightarrow> string list \<Rightarrow> string \<Rightarrow> vfs \<Rightarrow> fs_error + identity" where
  "stat_at k call dir name v =
     (case sys_stat k call (dir @ [name]) v of
        Inl e \<Rightarrow> Inl (SysError ''cache filesystem: stating'' e) | Inr i \<Rightarrow> Inr i)"

definition validate_source :: "kernel \<Rightarrow> string list \<Rightarrow> string \<Rightarrow> identity \<Rightarrow> identity \<Rightarrow> vfs \<Rightarrow> fs_error option" where
  "validate_source k dir name root_id expected v =
     (if \<not> safe_base name \<or> name = quarantine_directory then Some (ErrUnsafePath [])
      else (case stat_at k (SysStat name) dir name v of
        Inl e \<Rightarrow> Some e
      | Inr current \<Rightarrow>
          if current \<noteq> expected then Some ErrChangedIdentity
          else if ci_entry_type current \<noteq> ''regular'' \<or> ci_nlink current \<noteq> 1 \<or> ci_uid current \<noteq> ci_uid root_id
          then Some (ErrUnsafePath [])
          else if ci_device current \<noteq> ci_device root_id then Some ErrCrossDevice else None))"

definition quarantine_refusal :: "kernel \<Rightarrow> string list \<Rightarrow> identity \<Rightarrow> vfs \<Rightarrow> fs_error option" where
  "quarantine_refusal k dir root_id v =
     (case stat_at k SysStatQuarantine dir quarantine_directory v of
        Inl _ \<Rightarrow> Some (ErrUnsafePath [])
      | Inr i \<Rightarrow>
          if ci_entry_type i \<noteq> ''directory'' \<or> ci_uid i \<noteq> ci_uid root_id \<or> ci_device i \<noteq> ci_device root_id \<or>
             ci_mode i AND 0x1FF \<noteq> 0x1C0
          then Some (ErrUnsafePath [])
          else (case sys_open_directory k SysOpenQuarantine (dir @ [quarantine_directory]) v of
                  Some e \<Rightarrow> Some (SysError ''cache filesystem: opening quarantine'' e) | None \<Rightarrow> None))"

definition make_quarantine :: "kernel \<Rightarrow> string list \<Rightarrow> vfs \<Rightarrow> fs_error option \<times> vfs" where
  "make_quarantine k dir v =
     (case sys_mkdir k dir quarantine_directory v of
        (Some e, v') \<Rightarrow> (if e \<noteq> EEXIST then Some (SysError ''cache filesystem: creating quarantine'' e) else None, v')
      | (None, v') \<Rightarrow> (None, v'))"

text \<open>The descriptor it returns is \<open>quarantine_of\<close> of the root's.\<close>

definition quarantine_of :: "string list \<Rightarrow> string list" where
  "quarantine_of dir = dir @ [quarantine_directory]"

definition open_quarantine ::
  "kernel \<Rightarrow> string list \<Rightarrow> identity \<Rightarrow> bool \<Rightarrow> vfs \<Rightarrow> fs_error option \<times> vfs" where
  "open_quarantine k dir root_id create v =
     (case (if create then make_quarantine k dir v else (None, v)) of
        (Some e, v') \<Rightarrow> (Some e, v')
      | (None, v') \<Rightarrow> (quarantine_refusal k dir root_id v', v'))"

definition exists_at :: "kernel \<Rightarrow> string list \<Rightarrow> string \<Rightarrow> vfs \<Rightarrow> bool" where
  "exists_at k dir name v =
     (case sys_stat k (SysExists name) (dir @ [name]) v of Inr _ \<Rightarrow> True | Inl e \<Rightarrow> e \<noteq> ENOENT)"

definition rename_error :: "string \<Rightarrow> errno \<Rightarrow> fs_error" where
  "rename_error t e = (if e = EXDEV then ErrCrossDevice else SysError t e)"

section \<open>The operations\<close>

fun snapshot_loop :: "kernel \<Rightarrow> string option \<Rightarrow> string list \<Rightarrow> vfs \<Rightarrow> string list \<Rightarrow> fs_error + fs_entry list" where
  "snapshot_loop k ctx dir v [] = Inr []"
| "snapshot_loop k ctx dir v (n # ns) =
     (case ctx of
        Some e \<Rightarrow> Inl (ContextDone e)
      | None \<Rightarrow>
          if \<not> safe_base n then Inl (ErrUnsafePath n)
          else (case stat_at k (SysStat n) dir n v of
                  Inl e \<Rightarrow> Inl e
                | Inr i \<Rightarrow> (case snapshot_loop k ctx dir v ns of
                             Inl e \<Rightarrow> Inl e | Inr es \<Rightarrow> Inr (\<lparr>fe_name = n, fe_identity = i\<rparr> # es))))"

text \<open>\<open>ReadDir\<close> yields at most one name more than the limit, in the order of the system.\<close>

definition listed_names :: "kernel \<Rightarrow> string list \<Rightarrow> vfs \<Rightarrow> string list" where
  "listed_names k dir v =
     filter (\<lambda>n. n \<in> set (child_names dir v)) (remdups (kn_list k dir)) @
     filter (\<lambda>n. n \<notin> set (kn_list k dir)) (child_names dir v)"

definition real_snapshot :: "kernel \<Rightarrow> string option \<Rightarrow> string \<Rightarrow> int \<Rightarrow> vfs \<Rightarrow> fs_error + fs_snapshot" where
  "real_snapshot k ctx rt limit v =
     (if limit < 1 then Inl (ErrUnsafePath ''traversal limit must be positive'')
      else (case open_root k rt v of
        Inl e \<Rightarrow> Inl e
      | Inr (dir, root_id) \<Rightarrow>
          (case kn_fault k SysReadDir of
             Some e \<Rightarrow> Inl (SysError ''cache filesystem: reading provider root'' (fault_errno e))
           | None \<Rightarrow>
               let names = take (nat (limit + 1)) (listed_names k dir v);
                   all = int (length names) \<le> limit in
               (case snapshot_loop k ctx dir v (take (nat limit) names) of
                  Inl e \<Rightarrow> Inl e
                | Inr es \<Rightarrow> Inr \<lparr>fp_root = root_id, fp_entries = sort_key fe_name es, fp_complete = all\<rparr>))))"

text \<open>The entry after a rename is looked at again and compared with the expected one.\<close>

definition verify_moved :: "kernel \<Rightarrow> string list \<Rightarrow> string \<Rightarrow> identity \<Rightarrow> vfs \<Rightarrow> fs_error + identity" where
  "verify_moved k dir name expected v =
     (case stat_at k SysStatMoved dir name v of
        Inl e \<Rightarrow> Inl e
      | Inr m \<Rightarrow> if \<not> same_across_rename m expected then Inl ErrChangedIdentity else Inr m)"

definition real_quarantine ::
  "kernel \<Rightarrow> string option \<Rightarrow> string \<Rightarrow> string \<Rightarrow> string \<Rightarrow> identity \<Rightarrow> identity \<Rightarrow> vfs \<Rightarrow> (fs_error + identity) \<times> vfs" where
  "real_quarantine k ctx rt rel dest expected_root expected v =
     (case ctx of
        Some e \<Rightarrow> (Inl (ContextDone e), v)
      | None \<Rightarrow>
          (case open_root k rt v of
             Inl e \<Rightarrow> (Inl e, v)
           | Inr (dir, root_id) \<Rightarrow>
               if \<not> same_object root_id expected_root then (Inl ErrChangedIdentity, v)
               else (case validate_source k dir rel root_id expected v of
                 Some e \<Rightarrow> (Inl e, v)
               | None \<Rightarrow>
                   (case open_quarantine k dir root_id True v of
                      (Some e, v') \<Rightarrow> (Inl e, v')
                    | (None, v') \<Rightarrow>
                        if \<not> safe_base dest then (Inl (ErrUnsafePath []), v')
                        else if exists_at k (quarantine_of dir) dest v' then (Inl ErrDestination, v')
                        else (case sys_rename k dir rel (quarantine_of dir) dest v' of
                          (Some e, w) \<Rightarrow> (Inl (rename_error ''cache filesystem: atomic quarantine rename'' e), w)
                        | (None, w) \<Rightarrow> (verify_moved k (quarantine_of dir) dest expected w, w))))))"

definition real_restore ::
  "kernel \<Rightarrow> string option \<Rightarrow> string \<Rightarrow> string \<Rightarrow> string \<Rightarrow> identity \<Rightarrow> identity \<Rightarrow> vfs \<Rightarrow> (fs_error + identity) \<times> vfs" where
  "real_restore k ctx rt q dest expected_root expected v =
     (case ctx of
        Some e \<Rightarrow> (Inl (ContextDone e), v)
      | None \<Rightarrow>
          (case open_root k rt v of
             Inl e \<Rightarrow> (Inl e, v)
           | Inr (dir, root_id) \<Rightarrow>
               if \<not> same_object root_id expected_root \<or> \<not> safe_quarantine_path q \<or> \<not> safe_base dest
               then (Inl (ErrUnsafePath []), v)
               else (case open_quarantine k dir root_id False v of
                 (Some e, v') \<Rightarrow> (Inl e, v')
               | (None, v') \<Rightarrow>
                   (case stat_at k (SysStat (path_base q)) (quarantine_of dir) (path_base q) v' of
                      Inl e \<Rightarrow> (Inl e, v')
                    | Inr current \<Rightarrow>
                        if current \<noteq> expected then (Inl ErrChangedIdentity, v')
                        else if exists_at k dir dest v' then (Inl ErrDestination, v')
                        else (case sys_rename k (quarantine_of dir) (path_base q) dir dest v' of
                          (Some e, w) \<Rightarrow> (Inl (rename_error ''cache filesystem: atomic restore rename'' e), w)
                        | (None, w) \<Rightarrow>
                            (case verify_moved k dir dest expected w of
                               Inl _ \<Rightarrow> (Inl ErrChangedIdentity, w) | Inr i \<Rightarrow> (Inr i, w)))))))"

definition real_quarantine_entry ::
  "kernel \<Rightarrow> string option \<Rightarrow> string \<Rightarrow> string \<Rightarrow> identity \<Rightarrow> vfs \<Rightarrow> fs_error + identity option" where
  "real_quarantine_entry k ctx rt q expected_root v =
     (case ctx of
        Some e \<Rightarrow> Inl (ContextDone e)
      | None \<Rightarrow>
          (case open_root k rt v of
             Inl e \<Rightarrow> Inl e
           | Inr (dir, root_id) \<Rightarrow>
               if \<not> same_object root_id expected_root \<or> \<not> safe_quarantine_path q then Inl (ErrUnsafePath [])
               else (case open_quarantine k dir root_id False v of
                 (Some e, _) \<Rightarrow> Inl e
               | (None, v') \<Rightarrow>
                   (case stat_at k (SysStat (path_base q)) (quarantine_of dir) (path_base q) v' of
                      Inl e \<Rightarrow> if is_not_exist e then Inr None else Inl e
                    | Inr i \<Rightarrow> Inr (Some i)))))"

definition real_purge ::
  "kernel \<Rightarrow> string option \<Rightarrow> string \<Rightarrow> string \<Rightarrow> identity \<Rightarrow> identity \<Rightarrow> vfs \<Rightarrow> fs_error option \<times> vfs" where
  "real_purge k ctx rt q expected_root expected v =
     (case ctx of
        Some e \<Rightarrow> (Some (ContextDone e), v)
      | None \<Rightarrow>
          (case open_root k rt v of
             Inl e \<Rightarrow> (Some e, v)
           | Inr (dir, root_id) \<Rightarrow>
               if \<not> same_object root_id expected_root \<or> \<not> safe_quarantine_path q then (Some (ErrUnsafePath []), v)
               else (case open_quarantine k dir root_id False v of
                 (Some e, v') \<Rightarrow> (Some e, v')
               | (None, v') \<Rightarrow>
                   (case stat_at k (SysStat (path_base q)) (quarantine_of dir) (path_base q) v' of
                      Inl e \<Rightarrow> (Some e, v')
                    | Inr current \<Rightarrow>
                        if current \<noteq> expected \<or> ci_entry_type current \<noteq> ''regular'' \<or> ci_nlink current \<noteq> 1
                        then (Some ErrChangedIdentity, v')
                        else (case sys_unlink k (quarantine_of dir) (path_base q) v' of
                          (Some e, w) \<Rightarrow> (Some (SysError ''cache filesystem: purge'' e), w)
                        | (None, w) \<Rightarrow> (None, w))))))"

definition real_ops :: "kernel \<Rightarrow> vfs fs_ops" where
  "real_ops k = \<lparr>fo_snapshot = real_snapshot k, fo_quarantine = real_quarantine k, fo_restore = real_restore k,
     fo_quarantine_entry = real_quarantine_entry k, fo_purge = real_purge k\<rparr>"

section \<open>The contract\<close>

definition posix_entry :: "vfs \<Rightarrow> string \<Rightarrow> string \<Rightarrow> identity option" where
  "posix_entry v rt name = look v (root_components rt @ [name])"

definition posix_held :: "vfs \<Rightarrow> string \<Rightarrow> string \<Rightarrow> identity option" where
  "posix_held v rt name = look v (root_components rt @ [quarantine_directory, name])"

lemma open_components_path: "open_components k v d cs = Inr dir \<Longrightarrow> dir = d @ cs"
  by (induction k v d cs rule: open_components.induct) (auto split: if_splits option.splits)

lemma open_root_path: "open_root k rt v = Inr (dir, i) \<Longrightarrow> dir = root_components rt"
  by (auto simp: open_root_def dest: open_components_path split: if_splits option.splits sum.splits)

lemma sys_stat_look: "sys_stat k call p v = Inr i \<Longrightarrow> look v p = Some i"
  by (auto simp: sys_stat_def split: option.splits)

lemma stat_at_look: "stat_at k call dir n v = Inr i \<Longrightarrow> look v (dir @ [n]) = Some i"
  by (auto simp: stat_at_def dest: sys_stat_look split: sum.splits)

lemma stat_at_not_exist: "stat_at k call dir n v = Inl e \<Longrightarrow> is_not_exist e \<Longrightarrow> look v (dir @ [n]) = None"
  by (auto simp: stat_at_def sys_stat_def split: sum.splits option.splits elim: fault_errno.elims)

lemma exists_at_False: "\<not> exists_at k dir n v \<Longrightarrow> look v (dir @ [n]) = None"
  by (auto simp: exists_at_def sys_stat_def split: sum.splits option.splits elim: fault_errno.elims)

lemma map_of_touch: "map_of (touch p g v) q = (if q = p then map_option g (map_of v q) else map_of v q)"
  by (induction v) (auto simp: touch_def)

lemma look_touch_other [simp]: "q \<noteq> p \<Longrightarrow> look (touch p g v) q = look v q"
  by (simp add: look_def map_of_touch)

lemma look_touch_None [simp]: "look (touch p g v) q = None \<longleftrightarrow> look v q = None"
  by (simp add: look_def map_of_touch)

lemma moved_path_other: "\<not> prefix src p \<Longrightarrow> moved_path src dst p = p"
  by (simp add: moved_path_def)

lemma look_rename_other:
  "\<not> prefix src p \<Longrightarrow> \<not> prefix dst p \<Longrightarrow> look (rename_tree src dst v) p = look v p"
  by (induction v) (auto simp: look_def rename_tree_def moved_path_def)

lemma look_rename_source:
  "\<not> prefix dst src \<Longrightarrow> look (rename_tree src dst v) src = None"
  by (auto simp: look_def rename_tree_def moved_path_def map_of_eq_None_iff prefix_def split: if_splits)

lemma look_rename_target:
  "look v dst = None \<Longrightarrow> \<not> prefix src dst \<Longrightarrow> look (rename_tree src dst v) dst = look v src"
proof (induction v)
  case (Cons x v)
  obtain p i where x: "x = (p, i)" by (cases x)
  have "moved_path src dst p = dst \<longleftrightarrow> p = src" if "p \<noteq> dst"
    using that by (auto simp: moved_path_def prefix_def)
  with Cons x show ?case by (auto simp: look_def rename_tree_def split: if_splits)
qed (simp add: look_def rename_tree_def)

lemma sys_rename_moves:
  assumes run: "sys_rename k d n d' n' v = (None, w)" and free: "look v (d' @ [n']) = None"
    and "\<not> prefix (d @ [n]) (d' @ [n'])" and "\<not> prefix (d' @ [n']) (d @ [n])"
  shows "look w (d @ [n]) = None" and "look w (d' @ [n']) \<noteq> None"
    and "\<not> prefix (d @ [n]) p \<Longrightarrow> \<not> prefix (d' @ [n']) p \<Longrightarrow> p \<noteq> d \<Longrightarrow> p \<noteq> d' \<Longrightarrow> look w p = look v p"
proof -
  let ?r = "rename_tree (d @ [n]) (d' @ [n']) v"
  from run have w: "w = touch d (kn_touch_directory k) (touch d' (kn_touch_directory k)
      (touch (d' @ [n']) (kn_touch_file k) ?r))" and src: "look v (d @ [n]) \<noteq> None"
    by (auto simp: sys_rename_def split: option.splits if_splits)
  show "look w (d @ [n]) = None" unfolding w using look_rename_source [OF assms(4)] by simp
  show "look w (d' @ [n']) \<noteq> None" unfolding w using src look_rename_target [OF free assms(3)] by simp
  show "look w p = look v p"
    if "\<not> prefix (d @ [n]) p" "\<not> prefix (d' @ [n']) p" "p \<noteq> d" "p \<noteq> d'"
  proof -
    have "p \<noteq> d' @ [n']" using that(2) by auto
    with that show ?thesis unfolding w by (simp add: look_rename_other)
  qed
qed

lemma sys_rename_error: "sys_rename k d n d' n' v = (Some e, w) \<Longrightarrow> w = v"
  by (auto simp: sys_rename_def split: option.splits if_splits)

lemma make_quarantine_frame:
  "make_quarantine k dir v = (r, w) \<Longrightarrow> p \<noteq> dir \<Longrightarrow> p \<noteq> dir @ [quarantine_directory] \<Longrightarrow> look w p = look v p"
  by (auto simp: make_quarantine_def sys_mkdir_def look_def map_of_touch split: option.splits if_splits)

lemma open_quarantine_frame:
  "open_quarantine k dir i c v = (r, w) \<Longrightarrow> p \<noteq> dir \<Longrightarrow> p \<noteq> dir @ [quarantine_directory] \<Longrightarrow> look w p = look v p"
  by (auto simp: open_quarantine_def dest: make_quarantine_frame split: option.splits if_splits prod.splits)

lemma open_quarantine_ok:
  "open_quarantine k dir i c v = (None, w) \<Longrightarrow> look w (quarantine_of dir) \<noteq> None"
  by (auto simp: open_quarantine_def quarantine_refusal_def quarantine_of_def dest: stat_at_look
      split: option.splits if_splits prod.splits sum.splits)

lemma open_quarantine_reads [simp]: "open_quarantine k dir i False v = (quarantine_refusal k dir i v, v)"
  by (simp add: open_quarantine_def)

lemma quarantine_refusal_ok: "quarantine_refusal k dir i v = None \<Longrightarrow> \<exists>j. look v (quarantine_of dir) = Some j"
  by (auto simp: quarantine_refusal_def quarantine_of_def dest: stat_at_look
      split: option.splits if_splits sum.splits)

lemma after_last_append: "c \<notin> set r \<Longrightarrow> after_last c (a @ c # r) = Some r"
proof (induction a)
  case Nil
  have "after_last c r = None" if "c \<notin> set r" for r
    using that by (induction r) auto
  with Nil show ?case by simp
qed simp

lemma path_base_quarantine: "plain_name n \<Longrightarrow> path_base (quarantine_path n) = n"
proof -
  assume n: "plain_name n"
  then obtain c cs where rev: "rev n = c # cs" and c: "c \<noteq> CHR ''/''"
    by (cases "rev n") (auto simp: plain_name_def)
  have "dropWhile (\<lambda>c. c = CHR ''/'') (rev (quarantine_directory @ ''/'' @ n)) = rev (quarantine_directory @ ''/'' @ n)"
    using rev c by simp
  then show ?thesis
    using n after_last_append [of "CHR ''/''" n quarantine_directory]
    by (simp add: path_base_def quarantine_path_plain plain_name_def quarantine_directory_def Let_def)
qed

lemma verify_moved_ok:
  "verify_moved k dir n ex w = Inr m \<Longrightarrow> look w (dir @ [n]) = Some m \<and> same_across_rename m ex"
  by (auto simp: verify_moved_def dest: stat_at_look split: sum.splits if_splits)

lemma validate_source_ok:
  "validate_source k dir n rid ex v = None \<Longrightarrow> n \<noteq> quarantine_directory \<and> look v (dir @ [n]) = Some ex"
  by (auto simp: validate_source_def dest: stat_at_look split: sum.splits if_splits)

text \<open>A quarantine either stops before its rename, or the rename happened.\<close>

lemma real_quarantine_cases:
  assumes "real_quarantine k ctx rt rel n er ex v = (r, w)"
  obtains (stopped) e i s where "r = Inl e" and
      "w = v \<or> open_quarantine k (root_components rt) i True v = (s, w)"
  | (renamed) i v' where "look v (root_components rt @ [rel]) = Some ex" and "rel \<noteq> quarantine_directory" and
      "open_quarantine k (root_components rt) i True v = (None, v')" and
      "look v' (quarantine_of (root_components rt) @ [n]) = None" and
      "sys_rename k (root_components rt) rel (quarantine_of (root_components rt)) n v' = (None, w)" and
      "r = verify_moved k (quarantine_of (root_components rt)) n ex w"
  using assms
  by (auto simp: real_quarantine_def dest!: open_root_path validate_source_ok exists_at_False sys_rename_error
      split: option.splits sum.splits prod.splits if_splits)

lemma real_restore_cases:
  assumes "real_restore k ctx rt q dest er ex v = (r, w)"
  obtains (stopped) e where "r = Inl e" and "w = v"
  | (renamed) "look v (quarantine_of (root_components rt) @ [path_base q]) = Some ex" and
      "look v (root_components rt @ [dest]) = None" and "look v (quarantine_of (root_components rt)) \<noteq> None" and
      "sys_rename k (quarantine_of (root_components rt)) (path_base q) (root_components rt) dest v = (None, w)" and
      "r = Inl ErrChangedIdentity \<or> r = verify_moved k (root_components rt) dest ex w"
  using assms
  by (auto simp: real_restore_def quarantine_refusal_ok stat_at_look dest!: open_root_path exists_at_False sys_rename_error
      split: option.splits sum.splits prod.splits if_splits) metis+

lemma held_look: "posix_held v rt n = look v (quarantine_of (root_components rt) @ [n])"
  by (simp add: posix_held_def quarantine_of_def)

lemma root_not_below [simp]: "dir @ [n] \<noteq> dir" "quarantine_of dir @ [n] \<noteq> dir" "quarantine_of dir \<noteq> dir"
  by (simp_all add: quarantine_of_def)

lemma entry_quarantine_frame:
  assumes "open_quarantine k (root_components rt) i c v = (s, w)"
  shows "p \<noteq> quarantine_directory \<Longrightarrow> posix_entry w rt p = posix_entry v rt p" and "posix_held w rt m = posix_held v rt m"
  using assms by (auto simp: posix_entry_def posix_held_def intro!: open_quarantine_frame)

text \<open>The rename of either move, seen through the two observers.\<close>

lemma rename_into_quarantine:
  assumes "sys_rename k (root_components rt) rel (quarantine_of (root_components rt)) n v = (None, w)"
    and "posix_held v rt n = None" and "rel \<noteq> quarantine_directory"
  shows "posix_entry w rt rel = None" and "posix_held w rt n \<noteq> None"
    and "p \<notin> {rel, quarantine_directory} \<Longrightarrow> posix_entry w rt p = posix_entry v rt p"
    and "m \<noteq> n \<Longrightarrow> posix_held w rt m = posix_held v rt m"
  using sys_rename_moves [OF assms(1)] assms(2,3)
  by (auto simp: posix_entry_def held_look) (auto simp: quarantine_of_def)

lemma rename_out_of_quarantine:
  assumes "sys_rename k (quarantine_of (root_components rt)) n (root_components rt) dest v = (None, w)"
    and "posix_entry v rt dest = None" and "dest \<noteq> quarantine_directory"
  shows "posix_held w rt n = None" and "posix_entry w rt dest \<noteq> None"
    and "p \<notin> {dest, quarantine_directory} \<Longrightarrow> posix_entry w rt p = posix_entry v rt p"
    and "m \<noteq> n \<Longrightarrow> posix_held w rt m = posix_held v rt m"
  using sys_rename_moves [OF assms(1)] assms(2,3)
  by (auto simp: posix_entry_def held_look) (auto simp: quarantine_of_def)

lemma snapshot_loop_entries:
  "snapshot_loop k ctx dir v ns = Inr es \<Longrightarrow> e \<in> set es \<Longrightarrow> look v (dir @ [fe_name e]) = Some (fe_identity e)"
  by (induction k ctx dir v ns arbitrary: es rule: snapshot_loop.induct)
    (auto simp: stat_at_look split: option.splits sum.splits if_splits)

lemma real_snapshot_entry:
  "real_snapshot k ctx rt limit v = Inr snap \<Longrightarrow> e \<in> set (fp_entries snap) \<Longrightarrow>
     posix_entry v rt (fe_name e) = Some (fe_identity e)"
  by (auto simp: real_snapshot_def posix_entry_def Let_def dest!: open_root_path snapshot_loop_entries
      split: option.splits sum.splits if_splits)

interpretation real: cache_filesystem real_ops posix_entry posix_held
proof (unfold_locales, goal_cases)
  case (1 k ctx rt limit f snap x)
  then show ?case by (simp add: real_ops_def real_snapshot_entry)
next
  case (2 rel n k ctx rt er ex f moved f')
  then have "real_quarantine k ctx rt rel n er ex f = (Inr moved, f')" by (simp add: real_ops_def)
  then show ?case
  proof (cases rule: real_quarantine_cases)
    case (renamed i v')
    note frame = entry_quarantine_frame [OF renamed(3)] and free = renamed(4) [folded held_look]
    note into = rename_into_quarantine [OF renamed(5) free renamed(2)]
    from renamed(1) have "posix_entry f rt rel = Some ex" by (simp add: posix_entry_def)
    moreover from verify_moved_ok [OF renamed(6) [symmetric]]
    have "posix_held f' rt n = Some moved" "same_across_rename moved ex" by (simp_all add: held_look)
    ultimately show ?thesis using free into frame by auto
  qed simp
next
  case (3 rel n k ctx rt er ex f e f')
  then have "real_quarantine k ctx rt rel n er ex f = (Inl e, f')" by (simp add: real_ops_def)
  then show ?case
  proof (cases rule: real_quarantine_cases)
    case (stopped _ i s)
    then show ?thesis using entry_quarantine_frame [of k rt i True f s f'] by auto
  next
    case (renamed i v')
    note into = rename_into_quarantine [OF renamed(5) renamed(4) [folded held_look] renamed(2)]
    from renamed(1) into(1,2) show ?thesis by (simp add: posix_entry_def)
  qed
next
  case (4 n rel k ctx rt er ex f restored f')
  then have "real_restore k ctx rt (quarantine_path n) rel er ex f = (Inr restored, f')" by (simp add: real_ops_def)
  then show ?case
  proof (cases rule: real_restore_cases)
    case renamed
    have free: "posix_entry f rt rel = None" and held: "posix_held f rt n = Some ex"
      using renamed(1,2) 4(1) by (simp_all add: posix_entry_def held_look path_base_quarantine)
    from renamed(2,3) have rel: "rel \<noteq> quarantine_directory" by (auto simp: quarantine_of_def)
    note out = rename_out_of_quarantine [OF renamed(4) [unfolded path_base_quarantine [OF 4(1)]] free rel]
    from renamed(5) have "posix_entry f' rt rel = Some restored \<and> same_across_rename restored ex"
      by (auto simp: posix_entry_def dest: sym verify_moved_ok)
    with free held out show ?thesis by auto
  qed simp
next
  case (5 n rel k ctx rt er ex f e f')
  then have "real_restore k ctx rt (quarantine_path n) rel er ex f = (Inl e, f')" by (simp add: real_ops_def)
  then show ?case
  proof (cases rule: real_restore_cases)
    case renamed
    have free: "posix_entry f rt rel = None" and held: "posix_held f rt n = Some ex"
      using renamed(1,2) 5(1) by (simp_all add: posix_entry_def held_look path_base_quarantine)
    from renamed(2,3) have rel: "rel \<noteq> quarantine_directory" by (auto simp: quarantine_of_def)
    note out = rename_out_of_quarantine [OF renamed(4) [unfolded path_base_quarantine [OF 5(1)]] free rel]
    from held out(1,2) show ?thesis by simp
  qed simp
next
  case (6 n k ctx rt er f i)
  then show ?case
    by (auto simp: real_ops_def real_quarantine_entry_def held_look path_base_quarantine
        dest!: open_root_path dest: stat_at_look stat_at_not_exist
        split: option.splits sum.splits if_splits)
next
  case (7 n k ctx rt er ex f f')
  have gone: "look (filter (\<lambda>(p, _). p \<noteq> d) v) d = None" for d v
    by (auto simp: look_def map_of_eq_None_iff)
  from 7 show ?case
    by (auto simp: real_ops_def real_purge_def held_look path_base_quarantine sys_unlink_def gone
        dest!: open_root_path stat_at_look split: option.splits sum.splits if_splits prod.splits)
next
  case (8 n k ctx rt er ex f r f')
  have gone: "look (filter (\<lambda>(p, _). p \<noteq> d) v) p = look v p" if "p \<noteq> d" for p d v
    using that by (induction v) (auto simp: look_def)
  from 8 show ?case
    by (auto simp: real_ops_def real_purge_def posix_entry_def held_look path_base_quarantine sys_unlink_def gone quarantine_of_def
        dest!: open_root_path split: option.splits sum.splits if_splits prod.splits)
qed

text \<open>C21: On the Unix filesystem, a quarantine that reports success followed by a restore of the
  identity it returned, each meeting whatever faults the system has, puts the file back under
  its name with nothing but its change time altered, empties its quarantine slot, and leaves
  every other entry of the root and of the quarantine as it was.
\<close>

theorem quarantine_restore_roundtrip:
  assumes "plain_name rel" and "plain_name n"
    and "real_quarantine k1 c1 rt rel n er ex v = (Inr moved, v1)"
    and "real_restore k2 c2 rt (quarantine_path n) rel er' moved v1 = (Inr restored, v2)"
  shows "posix_entry v2 rt rel = Some restored \<and> same_across_rename restored ex \<and> posix_held v2 rt n = None \<and>
    (\<forall>p. plain_name p \<and> p \<notin> {rel, quarantine_directory} \<longrightarrow> posix_entry v2 rt p = posix_entry v rt p) \<and>
    (\<forall>m. plain_name m \<longrightarrow> posix_held v2 rt m = posix_held v rt m)"
  using real.quarantine_restore [OF assms(1,2), of k1 c1 rt er ex v moved v1 k2 c2 er' restored v2] assms(3,4)
  by (simp add: real_ops_def)

definition sample_kernel :: kernel where
  "sample_kernel = \<lparr>kn_fault = (\<lambda>_. None), kn_list = (\<lambda>_. []),
     kn_new_directory = sample_root_identity, kn_touch_file = (\<lambda>i. i\<lparr>ci_ctime := ci_ctime i + 1\<rparr>),
     kn_touch_directory = (\<lambda>i. i)\<rparr>"

definition sample_vfs :: vfs where
  "sample_vfs = [([''c''], sample_root_identity), ([''c'', ''f''], sample_file_identity)]"

lemma sample_moves:
  "real_quarantine sample_kernel None ''/c'' ''f'' ''q'' sample_root_identity sample_file_identity sample_vfs =
     (Inr (sample_file_identity\<lparr>ci_ctime := 1\<rparr>),
      [([''c'', quarantine_directory], sample_root_identity), ([''c''], sample_root_identity),
       ([''c'', quarantine_directory, ''q''], sample_file_identity\<lparr>ci_ctime := 1\<rparr>)])"
  "real_restore sample_kernel None ''/c'' (quarantine_path ''q'') ''f'' sample_root_identity (sample_file_identity\<lparr>ci_ctime := 1\<rparr>)
     [([''c'', quarantine_directory], sample_root_identity), ([''c''], sample_root_identity),
       ([''c'', quarantine_directory, ''q''], sample_file_identity\<lparr>ci_ctime := 1\<rparr>)] =
     (Inr (sample_file_identity\<lparr>ci_ctime := 2\<rparr>),
      [([''c'', quarantine_directory], sample_root_identity), ([''c''], sample_root_identity),
       ([''c'', ''f''], sample_file_identity\<lparr>ci_ctime := 2\<rparr>)])"
  by code_simp+

theorem quarantine_restore_roundtrip_witness:
  "posix_entry [([''c'', quarantine_directory], sample_root_identity), ([''c''], sample_root_identity),
     ([''c'', ''f''], sample_file_identity\<lparr>ci_ctime := 2\<rparr>)] ''/c'' ''f'' = Some (sample_file_identity\<lparr>ci_ctime := 2\<rparr>)"
  using quarantine_restore_roundtrip [OF _ _ sample_moves] by (simp add: plain_name_def)

end
