(* ===== verification/Cache_Laws.thy ===== *)
theory Cache_Laws
  imports Cache_Lane Cache_Posix Lane_Runs
begin

text \<open>
  What the cache lane guarantees: the relation of its requests, the order of its effects, the
  circuit breaker, the bounds on its authority, and what one quarantine rests on.
\<close>

section \<open>Requests\<close>

text \<open>
  Besides its requests, the world changes by other programs that touch the filesystem
  (among them the foreground executor of a purge) and by process scans that change the
  store. A restart is kept apart: it forgets all authority.
\<close>

inductive cache_step :: "hash_ops \<Rightarrow> 'f cache_world \<Rightarrow> 'f cache_world \<Rightarrow> bool" for h where
  scan: "cache_step h w (run_cache_scan h env t w)"
| cleanup_preview: "cache_step h w (snd (cache_cleanup_preview h env i p w))"
| restore_preview: "cache_step h w (snd (cache_restore_preview h env i w))"
| purge_preview: "cache_step h w (snd (cache_purge_preview h env i p w))"
| cleanup_apply: "cache_step h w (snd (cache_cleanup_apply h env token w))"
| restore_apply: "cache_step h w (snd (cache_restore_apply h env token w))"
| purge_apply: "cache_step h w (snd (cache_purge_apply h env token confirmation w))"
| purge_complete: "cache_step h w (snd (cache_purge_complete h env aid completion err w))"
| outside: "cache_step h w (w\<lparr>cw_fs := f, cw_store := s\<rparr>)"

inductive cache_restart :: "'f cache_world \<Rightarrow> 'f cache_world \<Rightarrow> bool" where
  restart: "cache_restart w (w\<lparr>cw_daemon := start_cache_daemon c p\<rparr>)"

definition cache_start :: "cache_config \<Rightarrow> codex_provider \<Rightarrow> store \<Rightarrow> 'f \<Rightarrow> 'f cache_world" where
  "cache_start c p st f = \<lparr>cw_daemon = start_cache_daemon c p, cw_tables = empty_cache_store,
     cw_store = st, cw_fs = f, cw_effects = []\<rparr>"

section \<open>Effects\<close>

fun mutates :: "cache_effect \<Rightarrow> bool" where
  "mutates (CacheJournaled aid r) = False"
| "mutates _ = True"

fun cache_attempt :: "cache_effect \<Rightarrow> bool" where
  "cache_attempt (CacheJournaled aid r) \<longleftrightarrow> r = CacheAttempting"
| "cache_attempt _ \<longleftrightarrow> False"

text \<open>How one request extends the effects: quietly, or by one journaled move.\<close>

definition quiet_step :: "'f cache_world \<Rightarrow> 'f cache_world \<Rightarrow> bool" where
  "quiet_step w w' \<longleftrightarrow> (\<exists>es. cw_effects w' = cw_effects w @ es \<and> list_all (\<lambda>e. \<not> mutates e) es)"

definition move_step :: "cache_effect \<Rightarrow> 'f cache_world \<Rightarrow> 'f cache_world \<Rightarrow> bool" where
  "move_step e w w' \<longleftrightarrow> (\<exists>aid es. cw_effects w' = cw_effects w @ CacheJournaled aid CacheAttempting # e # es \<and>
     list_all (\<lambda>e. \<not> mutates e) es)"

named_theorems quiet \<open>requests that move nothing\<close>

lemma quiet_refl [quiet]: "cw_effects w' = cw_effects w \<Longrightarrow> quiet_step w w'"
  by (auto simp: quiet_step_def)

lemma quiet_trans: "quiet_step w w1 \<Longrightarrow> quiet_step w1 w2 \<Longrightarrow> quiet_step w w2"
  by (fastforce simp: quiet_step_def)

lemma quiet_journal:
  "journal_begin env aid ap r reason es w = (x, w') \<Longrightarrow> quiet_step w w'"
  "journal_fail env aid r reason es w = (x, w') \<Longrightarrow> quiet_step w w'"
  by (auto simp: journal_begin_def journal_fail_def quiet_step_def split: prod.splits option.splits)

lemma quiet_reject: "reject_cache_action env aid ap reason w = (x, w') \<Longrightarrow> quiet_step w w'"
  by (auto simp: reject_cache_action_def Let_def dest: quiet_journal split: prod.splits option.splits)

lemma effects_issue [simp]: "cw_effects (snd (issue_cache_approval h env k a q dest w)) = cw_effects w"
  by (auto simp: issue_cache_approval_def Let_def split: sum.splits prod.splits option.splits)

lemma effects_preview [simp]:
  "cw_effects (snd (cache_cleanup_preview h env i p w)) = cw_effects w"
  "cw_effects (snd (cache_restore_preview h env i w)) = cw_effects w"
  "cw_effects (snd (cache_purge_preview h env i p w)) = cw_effects w"
  by (auto simp: cache_cleanup_preview_def cache_restore_preview_def cache_purge_preview_def Let_def
      split: sum.splits)

lemma effects_scan [simp]: "cw_effects (run_cache_scan h env t w) = cw_effects w"
  by (auto simp: run_cache_scan_def record_cache_failure_def Let_def split: sum.splits prod.splits option.splits)

lemma spend_effects: "spend_approval h env token w = (r, w') \<Longrightarrow> cw_effects w' = cw_effects w"
  by (auto simp: spend_approval_def split: prod.splits sum.splits)

lemma journal_begin_None:
  "journal_begin env aid ap r reason es w = (None, w') \<Longrightarrow> cw_effects w' = cw_effects w @ [CacheJournaled aid r]"
  by (auto simp: journal_begin_def split: prod.splits option.splits)

lemma quiet_failed: "failed_response env aid ap c es w = (x, w') \<Longrightarrow> quiet_step w w'"
  by (auto simp: failed_response_def quiet_step_def journal_fail_def split: prod.splits option.splits)

lemma quiet_done [quiet]:
  "quiet_step w (w\<lparr>cw_tables := s, cw_effects := cw_effects w @ [CacheJournaled aid r]\<rparr>)"
  by (simp add: quiet_step_def)

lemma move_step_intro:
  assumes "cw_effects w1 = cw_effects w @ [CacheJournaled aid CacheAttempting]"
    and "quiet_step (fs_after w1 e f) w'"
  shows "move_step e w w'"
  using assms by (auto simp: move_step_def quiet_step_def fs_after_def)

lemma apply_quarantine_effects:
  assumes "apply_cache_quarantine h env aid ap w = (r, w')"
  shows "quiet_step w w' \<or> (\<exists>a es. fresh_cleanup_artifact h env ap w = Inr (a, es) \<and>
    move_step (FsQuarantine (ca_root_path a) (ca_relative_path a) (path_base (ka_destination ap))) w w')"
proof (cases "fresh_cleanup_artifact h env ap w")
  case (Inl e)
  with assms show ?thesis by (auto simp: apply_cache_quarantine_def dest: quiet_reject)
next
  case (Inr p)
  obtain a es where p: "p = (a, es)" by (cases p)
  obtain x w1 where jb: "journal_begin env aid ap CacheAttempting quarantine_attempt es w = (x, w1)"
    by (cases "journal_begin env aid ap CacheAttempting quarantine_attempt es w")
  show ?thesis
  proof (cases x)
    case (Some e)
    with assms Inr p jb show ?thesis by (auto simp: apply_cache_quarantine_def dest: quiet_journal)
  next
    case None
    with jb have "cw_effects w1 = cw_effects w @ [CacheJournaled aid CacheAttempting]"
      by (simp add: journal_begin_None)
    moreover have "\<exists>f. quiet_step (fs_after w1 (FsQuarantine (ca_root_path a) (ca_relative_path a) (path_base (ka_destination ap))) f) w'"
      using assms Inr p jb None
      by (auto simp: apply_cache_quarantine_def Let_def intro: quiet_done quiet_refl dest: quiet_failed
          split: prod.splits sum.splits option.splits)
    ultimately have "move_step (FsQuarantine (ca_root_path a) (ca_relative_path a) (path_base (ka_destination ap))) w w'"
      by (auto intro: move_step_intro)
    with Inr p show ?thesis by blast
  qed
qed

lemma apply_restore_effects:
  assumes "apply_cache_restore h env aid ap w = (r, w')"
  shows "quiet_step w w' \<or> (\<exists>q es. current_quarantine_approval h env ap w = Inr (q, es) \<and>
    move_step (FsRestore (qu_root_path q) (qu_path q) (qu_original_path q)) w w')"
proof (cases "current_quarantine_approval h env ap w")
  case (Inl e)
  with assms show ?thesis by (auto simp: apply_cache_restore_def dest: quiet_reject)
next
  case (Inr p)
  obtain q es where p: "p = (q, es)" by (cases p)
  obtain x w1 where jb: "journal_begin env aid ap CacheAttempting restore_attempt es w = (x, w1)"
    by (cases "journal_begin env aid ap CacheAttempting restore_attempt es w")
  show ?thesis
  proof (cases x)
    case (Some e)
    with assms Inr p jb show ?thesis by (auto simp: apply_cache_restore_def dest: quiet_journal)
  next
    case None
    with jb have "cw_effects w1 = cw_effects w @ [CacheJournaled aid CacheAttempting]"
      by (simp add: journal_begin_None)
    moreover have "\<exists>f. quiet_step (fs_after w1 (FsRestore (qu_root_path q) (qu_path q) (qu_original_path q)) f) w'"
      using assms Inr p jb None
      by (auto simp: apply_cache_restore_def Let_def intro: quiet_done quiet_refl dest: quiet_failed
          split: prod.splits sum.splits option.splits)
    ultimately have "move_step (FsRestore (qu_root_path q) (qu_path q) (qu_original_path q)) w w'"
      by (auto intro: move_step_intro)
    with Inr p show ?thesis by blast
  qed
qed

lemma quiet_after: "cw_effects w1 = cw_effects w \<Longrightarrow> quiet_step w1 w' \<Longrightarrow> quiet_step w w'"
  and move_after: "cw_effects w1 = cw_effects w \<Longrightarrow> move_step e w1 w' \<Longrightarrow> move_step e w w'"
  by (simp_all add: quiet_step_def move_step_def)

text \<open>A request is quiet, or it reaches the action of its kind with a freshly spent approval.\<close>

lemma apply_approval_cases:
  assumes "apply_cache_approval h env k token w = (r, w')"
  obtains (quiet) "quiet_step w w'"
  | (cleanup) aid ap w1 where "k = KindCleanup" and "spend_approval h env token w = (Inr (aid, ap, None), w1)"
      and "ka_kind ap = k" and "cw_effects w1 = cw_effects w" and "apply_cache_quarantine h env aid ap w1 = (r, w')"
  | (restore) aid ap w1 where "k = KindRestore" and "spend_approval h env token w = (Inr (aid, ap, None), w1)"
      and "ka_kind ap = k" and "cw_effects w1 = cw_effects w" and "apply_cache_restore h env aid ap w1 = (r, w')"
proof (cases "spend_approval h env token w")
  case (Pair s w1)
  note eff = spend_effects [OF Pair]
  show thesis
  proof (cases s)
    case (Inl e)
    with assms Pair eff have "quiet_step w w'"
      by (auto simp: apply_cache_approval_def intro: quiet_refl split: if_splits)
    then show thesis by (rule that(1))
  next
    case (Inr p)
    obtain aid ap ref where p: "p = (aid, ap, ref)" by (cases p) auto
    have "quiet_step w w'" if "reject_cache_action env aid ap reason w1 = (r, w')" for reason
      using eff quiet_reject [OF that] by (rule quiet_after)
    moreover have "quiet_step w w" by (simp add: quiet_refl)
    ultimately show thesis using assms Pair Inr p eff that
      by (auto simp: apply_cache_approval_def split: if_splits option.splits cache_kind.splits)
  qed
qed

lemma cache_cleanup_cases:
  assumes "cache_cleanup_apply h env token w = (r, w')"
  shows "quiet_step w w' \<or> (\<exists>aid ap w1 a es. spend_approval h env token w = (Inr (aid, ap, None), w1) \<and>
    ka_kind ap = KindCleanup \<and> fresh_cleanup_artifact h env ap w1 = Inr (a, es) \<and>
    move_step (FsQuarantine (ca_root_path a) (ca_relative_path a) (path_base (ka_destination ap))) w w')"
  using assms unfolding cache_cleanup_apply_def
  by (cases rule: apply_approval_cases) (auto dest!: apply_quarantine_effects intro: quiet_after move_after)

lemma cache_restore_cases:
  assumes "cache_restore_apply h env token w = (r, w')"
  shows "quiet_step w w' \<or> (\<exists>aid ap w1 q es. spend_approval h env token w = (Inr (aid, ap, None), w1) \<and>
    ka_kind ap = KindRestore \<and> current_quarantine_approval h env ap w1 = Inr (q, es) \<and>
    move_step (FsRestore (qu_root_path q) (qu_path q) (qu_original_path q)) w w')"
  using assms unfolding cache_restore_apply_def
  by (cases rule: apply_approval_cases) (auto dest!: apply_restore_effects intro: quiet_after move_after)

lemma quiet_prepare: "prepare_cache_purge h env aid ap w = (r, w') \<Longrightarrow> quiet_step w w'"
  by (auto simp: prepare_cache_purge_def rejected_purge_def Let_def quiet_step_def reject_cache_action_def
      journal_begin_def journal_fail_def split: sum.splits prod.splits if_splits option.splits)

lemma quiet_purge_apply: "quiet_step w (snd (cache_purge_apply h env token confirmation w))"
proof (cases "spend_approval h env token w")
  case (Pair s w1)
  note eff = spend_effects [OF Pair]
  obtain r w' where run: "cache_purge_apply h env token confirmation w = (r, w')"
    by (cases "cache_purge_apply h env token confirmation w")
  with Pair consider "cw_effects w' = cw_effects w" | aid ap reason x where "reject_cache_action env aid ap reason w1 = (x, w')"
    | aid ap where "prepare_cache_purge h env aid ap w1 = (r, w')"
    using eff by (auto simp: cache_purge_apply_def rejected_purge_def split: if_splits sum.splits option.splits prod.splits)
  then have "quiet_step w w'"
    by cases (use eff in \<open>auto intro: quiet_refl quiet_after dest: quiet_reject quiet_prepare\<close>)
  with run show ?thesis by simp
qed

lemma quiet_verify: "verify_cache_purge env x err w = (r, w') \<Longrightarrow> quiet_step w w'"
  by (auto simp: verify_cache_purge_def ambiguous_cache_purge_def trip_filesystem_circuit_def Let_def quiet_step_def
      journal_fail_def split: sum.splits prod.splits if_splits option.splits)

lemma quiet_purge_complete: "quiet_step w (snd (cache_purge_complete h env aid completion err w))"
  by (auto simp: cache_purge_complete_def Let_def intro: quiet_refl split: option.splits)
    (rule quiet_after [OF _ quiet_verify [OF surjective_pairing]], simp)

lemma cache_step_effects:
  "cache_step h w w' \<Longrightarrow> quiet_step w w' \<or> (\<exists>e. move_step e w w')"
proof (induction rule: cache_step.induct)
  case (cleanup_apply w env token)
  show ?case
    using cache_cleanup_cases [of h env token w "fst (cache_cleanup_apply h env token w)" "snd (cache_cleanup_apply h env token w)"]
    by auto
next
  case (restore_apply w env token)
  show ?case
    using cache_restore_cases [of h env token w "fst (cache_restore_apply h env token w)" "snd (cache_restore_apply h env token w)"]
    by auto
qed (simp_all add: quiet_refl quiet_purge_apply quiet_purge_complete)

definition cache_any :: "hash_ops \<Rightarrow> 'f cache_world \<Rightarrow> 'f cache_world \<Rightarrow> bool" where
  "cache_any h w w' \<longleftrightarrow> cache_step h w w' \<or> cache_restart w w'"

lemma cache_any_effects: "cache_any h w w' \<Longrightarrow> quiet_step w w' \<or> (\<exists>e. move_step e w w')"
  by (auto simp: cache_any_def cache_restart.simps intro: quiet_refl dest!: cache_step_effects)

interpretation journaled_moves: moving_lane "cache_any h" cw_effects mutates cache_attempt for h
proof
  show "\<not> mutates a" if "cache_attempt a" for a using that by (cases a) simp_all
  show "(\<exists>es. cw_effects w' = cw_effects w @ es \<and> list_all (\<lambda>e. \<not> mutates e) es) \<or>
      (\<exists>a e es. cw_effects w' = cw_effects w @ a # e # es \<and> cache_attempt a \<and> list_all (\<lambda>e. \<not> mutates e) es)"
    if "cache_any h w w'" for w w'
    using cache_any_effects [OF that] unfolding quiet_step_def move_step_def by (metis cache_attempt.simps(1))
qed

text \<open>C38: In every run of the lane from a world without effects, such as its start, through requests,
  restarts and whatever other programs do, each quarantine and each restoration that the
  filesystem was asked for comes directly after the committed journal entry of the attempt: a
  crash at any moment leaves a record of the move.\<close>

theorem every_cache_move_is_journaled:
  assumes "(cache_any h)\<^sup>*\<^sup>* w0 w" and "cw_effects w0 = []" and "cw_effects w = before @ e # after" and "mutates e"
  shows "\<exists>b aid. before = b @ [CacheJournaled aid CacheAttempting]"
  using journaled_moves.run_move_attempted [OF assms] by (metis cache_attempt.elims(2))

section \<open>The circuit breaker\<close>

named_theorems healthy_frames \<open>requests that leave the health of the filesystem alone\<close>

definition fs_tripped :: "'f cache_world \<Rightarrow> bool" where
  "fs_tripped w \<longleftrightarrow> \<not> kd_fs_healthy (cw_daemon w)"

lemma spend_frame [healthy_frames]:
  "spend_approval h env token w = (r, w') \<Longrightarrow> kd_fs_healthy (cw_daemon w') = kd_fs_healthy (cw_daemon w)"
  by (auto simp: spend_approval_def consume_cache_approval_def Let_def split: prod.splits sum.splits option.splits if_splits)

lemma journal_frame [simp]:
  "cw_daemon (snd (journal_begin env aid ap r reason es w)) = cw_daemon w"
  "cw_daemon (snd (journal_fail env aid r reason es w)) = cw_daemon w"
  by (auto simp: journal_begin_def journal_fail_def split: prod.splits option.splits)

lemma journal_frame_eq:
  "journal_begin env aid ap r reason es w = (x, w') \<Longrightarrow> cw_daemon w' = cw_daemon w"
  "journal_fail env aid r reason es w = (x, w') \<Longrightarrow> cw_daemon w' = cw_daemon w"
  by (metis journal_frame snd_conv)+

lemma reject_frame: "reject_cache_action env aid ap reason w = (x, w') \<Longrightarrow> cw_daemon w' = cw_daemon w"
  by (auto simp: reject_cache_action_def Let_def dest: journal_frame_eq split: prod.splits option.splits)

lemma apply_frame:
  "apply_cache_quarantine h env aid ap w = (r, w') \<Longrightarrow> cw_daemon w' = cw_daemon w"
  "apply_cache_restore h env aid ap w = (r, w') \<Longrightarrow> cw_daemon w' = cw_daemon w"
  by (auto simp: apply_cache_quarantine_def apply_cache_restore_def failed_response_def fs_after_def Let_def
      dest!: journal_frame_eq reject_frame split: sum.splits prod.splits option.splits)

lemma daemon_frames [simp]:
  "cw_daemon (snd (reject_cache_action env aid ap reason w)) = cw_daemon w"
  "cw_daemon (snd (apply_cache_quarantine h env aid ap w)) = cw_daemon w"
  "cw_daemon (snd (apply_cache_restore h env aid ap w)) = cw_daemon w"
  by (metis prod.collapse reject_frame) (metis prod.collapse apply_frame)+

lemma rejected_purge_world [simp]: "snd (rejected_purge r) = snd r"
  by (auto simp: rejected_purge_def split: prod.splits sum.splits)

text \<open>A prepared purge changes nothing but the journal and the plans.\<close>

lemma prepare_cases:
  assumes "prepare_cache_purge h env aid ap w = (r, w')"
  obtains (rejected) reason where "w' = snd (reject_cache_action env aid ap reason w)"
  | (untouched) "w' = w"
  | (crowded) q es completion w1 cause kept where
      "current_quarantine_approval h env ap w = Inr (q, es)" and "kv_secret env = Inr completion" and
      "journal_begin env aid ap CachePurging purge_attempt es w = (None, w1)" and
      "kept = prune_plans (kv_now env) (kd_plans (cw_daemon w))" and
      "w' = snd (journal_fail env aid CacheFailed cause es (w1\<lparr>cw_daemon := (cw_daemon w)\<lparr>kd_plans := kept\<rparr>\<rparr>))"
  | (granted) q es completion w1 where
      "current_quarantine_approval h env ap w = Inr (q, es)" and "kv_secret env = Inr completion" and
      "cache_policy_enabled (cw_daemon w) (ca_policy (ka_artifact ap))" and "qu_grace_until q \<le> unix_nano (kv_now env)" and
      "journal_begin env aid ap CachePurging purge_attempt es w = (None, w1)" and
      "prune_plans (kv_now env) (kd_plans (cw_daemon w)) = []" and
      "w' = w1\<lparr>cw_daemon := (cw_daemon w)\<lparr>kd_plans := [(secret_digest h completion,
         \<lparr>px_plan = purge_plan_of h env (kd_cfg (cw_daemon w)) aid ap q completion, px_approval = ap,
          px_evidence = es, px_used = False\<rparr>)]\<rparr>\<rparr>"
proof (cases "current_quarantine_approval h env ap w")
  case (Inl e)
  with assms have "w' = snd (reject_cache_action env aid ap e w)"
    by (auto simp: prepare_cache_purge_def dest: arg_cong [where f = snd])
  then show thesis by (rule rejected)
next
  case (Inr p)
  obtain q es where p: "p = (q, es)" by (cases p)
  show thesis
  proof (cases "\<not> cache_policy_enabled (cw_daemon w) (ca_policy (ka_artifact ap)) \<or> unix_nano (kv_now env) < qu_grace_until q")
    case True
    with assms Inr p have "w' = snd (reject_cache_action env aid ap
        (Text ''purge policy changed or quarantine grace has not elapsed'') w)"
      by (auto simp: prepare_cache_purge_def dest: arg_cong [where f = snd])
    then show thesis by (rule rejected)
  next
    case False
    show thesis
    proof (cases "kv_secret env")
      case (Inl e)
      with assms Inr p False have "w' = w" by (simp add: prepare_cache_purge_def)
      then show thesis by (rule untouched)
    next
      case secret: (Inr completion)
      obtain x w1 where jb: "journal_begin env aid ap CachePurging purge_attempt es w = (x, w1)"
        by (cases "journal_begin env aid ap CachePurging purge_attempt es w")
      note d = journal_frame_eq(1) [OF jb]
      show thesis
      proof (cases x)
        case (Some e)
        with jb have "w1 = w" by (auto simp: journal_begin_def split: prod.splits option.splits)
        with assms Inr p False secret jb Some have "w' = w" by (simp add: prepare_cache_purge_def Let_def)
        then show thesis by (rule untouched)
      next
        case None
        note run = assms [unfolded prepare_cache_purge_def, simplified, simplified Inr p, simplified, simplified secret,
            simplified, simplified jb None Let_def, simplified]
        show thesis
        proof (cases "prune_plans (kv_now env) (kd_plans (cw_daemon w))")
          case Nil
          with run False d have "w' = w1\<lparr>cw_daemon := (cw_daemon w)\<lparr>kd_plans := [(secret_digest h completion,
             \<lparr>px_plan = purge_plan_of h env (kd_cfg (cw_daemon w)) aid ap q completion, px_approval = ap,
              px_evidence = es, px_used = False\<rparr>)]\<rparr>\<rparr>"
            by auto
          with Inr p secret False jb None Nil show thesis by (intro granted) auto
        next
          case (Cons y ys)
          with run False d Inr p secret jb None show thesis by (intro crowded) auto
        qed
      qed
    qed
  qed
qed

lemma prepare_frame [simp]:
  "kd_fs_healthy (cw_daemon (snd (prepare_cache_purge h env aid ap w))) = kd_fs_healthy (cw_daemon w)"
proof (cases "prepare_cache_purge h env aid ap w")
  case (Pair r w')
  then show ?thesis by (cases rule: prepare_cases) (use Pair in \<open>auto dest: journal_frame_eq\<close>)
qed

text \<open>The world after a journal entry that ends a request.\<close>

lemma journal_reply [simp]:
  "snd (case p of (Some e, w) \<Rightarrow> (Inl e, w) | (None, w) \<Rightarrow> (Inr x, w)) = snd p"
  by (cases p) (auto split: option.splits)

lemma ambiguous_trips [simp]:
  "fs_tripped (snd (ambiguous_cache_purge env x c w))"
  "\<not> kd_fs_healthy (cw_daemon (snd (ambiguous_cache_purge env x c w)))"
  by (simp_all add: ambiguous_cache_purge_def trip_filesystem_circuit_def fs_tripped_def Let_def)

lemma verify_trips: "fs_tripped w \<Longrightarrow> fs_tripped (snd (verify_cache_purge env x err w))"
proof (cases "fo_quarantine_entry (kv_fs env) (kv_ctx env) (pp_root_path (px_plan x)) (pp_quarantine_path (px_plan x))
    (pp_root_identity (px_plan x)) (cw_fs w)")
  case (Inr i)
  assume "fs_tripped w"
  with Inr show ?thesis
    by (cases i) (auto simp: verify_cache_purge_def Let_def fs_tripped_def split: prod.split option.split)
qed (simp add: verify_cache_purge_def)

lemma issue_frame [simp]:
  "kd_fs_healthy (cw_daemon (snd (issue_cache_approval h env k a q dest w))) = kd_fs_healthy (cw_daemon w)"
  by (auto simp: issue_cache_approval_def Let_def split: sum.splits prod.splits option.splits)

lemma step_keeps_tripped:
  "cache_step h w w' \<Longrightarrow> fs_tripped w \<Longrightarrow> fs_tripped w'"
proof (induction rule: cache_step.induct)
  case (scan w env t)
  then show ?case
    by (auto simp: fs_tripped_def run_cache_scan_def record_cache_failure_def Let_def split: sum.splits prod.splits option.splits)
next
  case (cleanup_preview w env i p)
  then show ?case by (auto simp: fs_tripped_def cache_cleanup_preview_def Let_def split: sum.splits)
next
  case (restore_preview w env i)
  then show ?case by (auto simp: fs_tripped_def cache_restore_preview_def Let_def split: sum.splits)
next
  case (purge_preview w env i p)
  then show ?case by (auto simp: fs_tripped_def cache_purge_preview_def Let_def split: sum.splits)
next
  case (cleanup_apply w env token)
  then show ?case
    by (auto simp: fs_tripped_def cache_cleanup_apply_def apply_cache_approval_def
        dest!: spend_frame split: sum.splits prod.splits option.splits cache_kind.splits)
next
  case (restore_apply w env token)
  then show ?case
    by (auto simp: fs_tripped_def cache_restore_apply_def apply_cache_approval_def
        dest!: spend_frame split: sum.splits prod.splits option.splits cache_kind.splits)
next
  case (purge_apply w env token confirmation)
  then show ?case
    by (auto simp: fs_tripped_def cache_purge_apply_def rejected_purge_def
        dest!: spend_frame reject_frame split: sum.splits prod.splits option.splits)
next
  case (purge_complete w env aid completion err)
  then show ?case
    by (auto simp: cache_purge_complete_def Let_def split: option.splits intro!: verify_trips)
      (simp add: fs_tripped_def)
qed (simp add: fs_tripped_def)

lemma authority_needs_circuit: "fs_tripped w \<Longrightarrow> authority_changed h (cw_daemon w) ap"
  by (simp add: fs_tripped_def authority_changed_def cache_policy_enabled_def)

lemma tripped_step_quiet:
  assumes "cache_step h w w'" and "fs_tripped w"
  shows "quiet_step w w'"
  using assms
proof (induction rule: cache_step.induct)
  case (cleanup_apply w env token)
  then show ?case
    using cache_cleanup_cases [of h env token w "fst (cache_cleanup_apply h env token w)" "snd (cache_cleanup_apply h env token w)"]
    by (auto simp: fresh_cleanup_artifact_def Let_def fs_tripped_def authority_changed_def cache_policy_enabled_def
        dest!: spend_frame)
next
  case (restore_apply w env token)
  then show ?case
    using cache_restore_cases [of h env token w "fst (cache_restore_apply h env token w)" "snd (cache_restore_apply h env token w)"]
    by (auto simp: current_quarantine_approval_def Let_def fs_tripped_def authority_changed_def cache_policy_enabled_def
        dest!: spend_frame)
qed (simp_all add: quiet_refl quiet_purge_apply quiet_purge_complete)

lemma tripped_run_quiet:
  "(cache_step h)\<^sup>*\<^sup>* w w' \<Longrightarrow> fs_tripped w \<Longrightarrow> fs_tripped w' \<and> quiet_step w w'"
  by (induction rule: rtranclp_induct)
    (auto intro: quiet_refl quiet_trans step_keeps_tripped tripped_step_quiet)

lemma partial_trips:
  assumes "cache_purge_complete h env aid completion err w = (Inr r, w')" and "cr_result r = CachePartial"
  shows "fs_tripped w'"
  using assms
  by (auto simp: cache_purge_complete_def verify_cache_purge_def ambiguous_cache_purge_def trip_filesystem_circuit_def
      cache_action_response_def fs_tripped_def Let_def journal_fail_def
      split: if_splits sum.splits prod.splits option.splits)

text \<open>C9: After a purge completion that was answered as partial, no sequence of scans, previews,
  applications and completions of the same daemon asks the filesystem to move anything: the
  circuit stays open until a restart, and everything the lane does before it is journaling.\<close>

theorem ambiguous_purge_stops_the_lane:
  assumes "cache_purge_complete h env aid completion err w = (Inr r, w1)" and "cr_result r = CachePartial"
    and "(cache_step h)\<^sup>*\<^sup>* w1 w2"
  shows "\<not> kd_fs_healthy (cw_daemon w2) \<and>
    (\<exists>es. cw_effects w2 = cw_effects w1 @ es \<and> (\<forall>rt p n. FsQuarantine rt p n \<notin> set es \<and> FsRestore rt p n \<notin> set es))"
proof -
  from assms(1,2) have "fs_tripped w1" by (rule partial_trips)
  from tripped_run_quiet [OF assms(3) this] show ?thesis
    by (force simp: fs_tripped_def quiet_step_def list_all_iff)
qed

section \<open>What one quarantine rests on\<close>

lemma spend_approval_fresh:
  assumes "spend_approval h env token w = (Inr (aid, ap, None), w1)"
  shows "\<exists>a. map_of (kd_approvals (cw_daemon w)) (secret_digest h token) = Some a \<and> \<not> ka_used a \<and>
    ap = a\<lparr>ka_used := True\<rparr> \<and> kv_now env < ka_expires a \<and>
    w1 = w\<lparr>cw_daemon := (cw_daemon w)\<lparr>kd_approvals := AList.update (secret_digest h token) ap (kd_approvals (cw_daemon w))\<rparr>\<rparr>"
  using assms
  by (auto simp: spend_approval_def consume_cache_approval_def Let_def
      split: prod.splits sum.splits option.splits if_splits)

lemma find_Some_elem: "List.find P xs = Some x \<Longrightarrow> x \<in> set xs \<and> P x"
  by (auto simp: find_Some_iff)

lemma observe_now_cases:
  assumes "observe_now h env w = Inr res"
  obtains sessions where
    "cache_session_facts env (cc_max_entries_scan (kd_cfg (cw_daemon w))) (cw_store w) = Inr sessions"
    and "observe h (kd_provider (cw_daemon w)) sessions
      (\<lambda>r n. fo_snapshot (kv_fs env) (kv_ctx env) r n (cw_fs w)) (cc_max_entries_scan (kd_cfg (cw_daemon w))) = Inr res"
  using assms by (auto simp: observe_now_def Let_def split: sum.splits)

text \<open>A fresh revalidation ties the committed row to an entry the provider just saw.\<close>

lemma fresh_cleanup_cases:
  assumes "fresh_cleanup_artifact h env ap w = Inr (a, es)"
  obtains cur res exact where "ka_configuration ap = config_digest h (kd_cfg (cw_daemon w))"
    and "cache_policy_enabled (cw_daemon w) (ca_policy (ka_artifact ap))"
    and "cur \<in> set (list_cache_artifacts None True (cw_tables w))" and "ca_id cur = ca_id (ka_artifact ap)"
    and "cache_approval_binding h KindCleanup cur None (ka_destination ap) (config_digest h (kd_cfg (cw_daemon w))) = ka_binding ap"
    and "observe_now h env w = Inr res" and "or_complete res" and "exact \<in> set (or_artifacts res)"
    and "a = fst (evaluate_cache h (kd_cfg (cw_daemon w)) (kv_check env) exact (Some cur))"
    and "ca_lifecycle a = StateRecommended" and "ca_identity a = ca_identity cur"
    and "ca_session a = ca_session cur" and "ca_root_path a = ca_root_path cur"
    and "ca_relative_path a = ca_relative_path cur" and "same_object (ca_root_identity a) (ca_root_identity cur)"
  using assms
  by (auto simp: fresh_cleanup_artifact_def authority_changed_def current_cache_artifact_def Let_def
      split: if_splits sum.splits option.splits dest!: find_Some_elem)

lemma quarantine_call_cases:
  assumes "cache_cleanup_apply h env token w = (r, w')"
    and "FsQuarantine rt rel n \<in> set (drop (length (cw_effects w)) (cw_effects w'))"
  obtains aid ap w1 a es where "spend_approval h env token w = (Inr (aid, ap, None), w1)" and "ka_kind ap = KindCleanup"
    and "fresh_cleanup_artifact h env ap w1 = Inr (a, es)" and "rt = ca_root_path a" and "rel = ca_relative_path a"
    and "n = path_base (ka_destination ap)"
  using cache_cleanup_cases [OF assms(1)] assms(2)
  by (fastforce simp: quiet_step_def move_step_def list_all_iff)

text \<open>C8: The daemon asks for a quarantine only when the approval was unspent, unexpired, for a
  cleanup and under the same configuration, the lane and the filesystem circuit were healthy and
  the policy still granted; the committed row it is bound to belongs to the newest evaluation
  and has been unchanged for the stable window; and a listing of the root, an allowed one, taken from the filesystem
  as this request finds it, contains an entry of that name with exactly the row's identity, under the row's root
  object, owned by the daemon's user, with one link, within the
  byte bound, and exclusively owned by a completed session without a live process among the sessions the database holds.\<close>

theorem quarantine_needs_fresh_exclusive_ownership:
  assumes "cache_cleanup_apply h env token w = (r, w')"
    and "FsQuarantine rt rel n \<in> set (drop (length (cw_effects w)) (cw_effects w'))"
    and "0 < cc_min_stable (kd_cfg (cw_daemon w))" and "in_int64 (cc_min_stable (kd_cfg (cw_daemon w)))"
    and "in_int64 (kv_check env - unix_epoch)"
  shows "\<exists>ap cur sessions bound snap e.
    map_of (kd_approvals (cw_daemon w)) (secret_digest h token) = Some ap \<and> \<not> ka_used ap \<and>
    kv_now env < ka_expires ap \<and> ka_kind ap = KindCleanup \<and> n = path_base (ka_destination ap) \<and>
    ka_configuration ap = config_digest h (kd_cfg (cw_daemon w)) \<and>
    cache_policy_enabled (cw_daemon w) (ca_policy (ka_artifact ap)) \<and>
    cur \<in> set (list_cache_artifacts None True (cw_tables w)) \<and> ca_id cur = ca_id (ka_artifact ap) \<and>
    cache_approval_binding h KindCleanup cur None (ka_destination ap) (ka_configuration ap) = ka_binding ap \<and>
    rt = ca_root_path cur \<and> rel = ca_relative_path cur \<and> stable_history_eligible (ca_lifecycle cur) \<and>
    time_unix (ca_stable_since cur) + cc_min_stable (kd_cfg (cw_daemon w)) \<le> kv_check env \<and>
    0 \<le> ci_size (ca_identity cur) \<and> ci_size (ca_identity cur) \<le> cc_max_bytes_action (kd_cfg (cw_daemon w)) \<and>
    cache_session_facts env (cc_max_entries_scan (kd_cfg (cw_daemon w))) (cw_store w) = Inr sessions \<and>
    fo_snapshot (kv_fs env) (kv_ctx env) rt bound (cw_fs w) = Inr snap \<and> e \<in> set (fp_entries snap) \<and>
    fe_name e = rel \<and> fe_identity e = ca_identity cur \<and>
    same_object (fp_root snap) (ca_root_identity cur) \<and> rt \<in> set (cv_roots (kd_provider (cw_daemon w))) \<and>
    exclusively_owned (kd_provider (cw_daemon w)) (fp_root snap) (sessions_by_native sessions) rel (fe_identity e) (ca_session cur)"
proof -
  obtain aid ap w1 a es where sp: "spend_approval h env token w = (Inr (aid, ap, None), w1)" and k: "ka_kind ap = KindCleanup"
    and fr: "fresh_cleanup_artifact h env ap w1 = Inr (a, es)" and call: "rt = ca_root_path a" "rel = ca_relative_path a"
      "n = path_base (ka_destination ap)"
    using assms(1,2) by (rule quarantine_call_cases)
  from spend_approval_fresh [OF sp] obtain ap0 where ap0: "map_of (kd_approvals (cw_daemon w)) (secret_digest h token) = Some ap0"
    "\<not> ka_used ap0" "ap = ap0\<lparr>ka_used := True\<rparr>" "kv_now env < ka_expires ap0" and
    w1: "w1 = w\<lparr>cw_daemon := (cw_daemon w)\<lparr>kd_approvals := AList.update (secret_digest h token) ap (kd_approvals (cw_daemon w))\<rparr>\<rparr>"
    by blast
  from fr obtain cur res exact where f: "ka_configuration ap = config_digest h (kd_cfg (cw_daemon w1))"
    "cache_policy_enabled (cw_daemon w1) (ca_policy (ka_artifact ap))"
    "cur \<in> set (list_cache_artifacts None True (cw_tables w1))" "ca_id cur = ca_id (ka_artifact ap)"
    "cache_approval_binding h KindCleanup cur None (ka_destination ap) (config_digest h (kd_cfg (cw_daemon w1))) = ka_binding ap"
    and ob: "observe_now h env w1 = Inr res" "exact \<in> set (or_artifacts res)"
    and a: "a = fst (evaluate_cache h (kd_cfg (cw_daemon w1)) (kv_check env) exact (Some cur))" "ca_lifecycle a = StateRecommended"
      "ca_identity a = ca_identity cur" "ca_session a = ca_session cur" "ca_root_path a = ca_root_path cur"
      "ca_relative_path a = ca_relative_path cur" "same_object (ca_root_identity a) (ca_root_identity cur)"
    by (rule fresh_cleanup_cases)
  from a(1,2) evaluate_recommended_iff [OF assms(3-5), of h exact "Some cur"]
  have rec: "ca_lifecycle exact \<noteq> StateProtected" "\<not> oversized (kd_cfg (cw_daemon w)) exact"
    "settled (kd_cfg (cw_daemon w)) (kv_check env) (Some cur) exact" by (simp_all add: w1)
  from ob(1) obtain sessions where
    s: "cache_session_facts env (cc_max_entries_scan (kd_cfg (cw_daemon w))) (cw_store w) = Inr sessions"
    and run: "observe h (kd_provider (cw_daemon w)) sessions
      (\<lambda>r n. fo_snapshot (kv_fs env) (kv_ctx env) r n (cw_fs w)) (cc_max_entries_scan (kd_cfg (cw_daemon w))) = Inr res"
    by (rule observe_now_cases) (simp add: w1)
  from observe_unprotected [OF run ob(2) rec(1)] a
  have own: "rt \<in> set (cv_roots (kd_provider (cw_daemon w)))"
    "exclusively_owned (kd_provider (cw_daemon w)) (ca_root_identity exact) (sessions_by_native sessions) rel (ca_identity cur) (ca_session cur)"
    by (auto simp: call)
  from observe_seen [OF run ob(2) rec(1)] a obtain bound snap e where
    seen: "fo_snapshot (kv_fs env) (kv_ctx env) rt bound (cw_fs w) = Inr snap" "e \<in> set (fp_entries snap)"
      "fe_name e = rel" "fe_identity e = ca_identity cur" "fp_root snap = ca_root_identity exact"
    by (auto simp: call)
  show ?thesis
    by (rule exI [of _ ap0], rule exI [of _ cur], rule exI [of _ sessions], rule exI [of _ bound], rule exI [of _ snap], rule exI [of _ e])
      (use seen ap0 f a call k s own rec in \<open>auto simp: w1 settled_def continues_def oversized_def cache_policy_enabled_def
        cache_global_recommend_enabled_def\<close>)
qed

section \<open>A concrete lane\<close>

definition sample_owner :: session_record where
  "sample_owner = \<lparr>sr_session_id = ''s'', sr_agent_id = agent_codex, sr_root_uid = [], sr_root_pid = 0,
     sr_state = SCompleted, sr_confidence = 1, sr_working_dir = [], sr_repository = [], sr_tty = [], sr_invocation = [],
     sr_metadata = Some (empty_metadata\<lparr>sm_extra := [(''CODEX_HOME'', ''/c'')]\<rparr>), sr_evidence = [], sr_started_ns = 0,
     sr_last_seen_ns = 0, sr_ended_ns = Some 0, sr_native_id = sample_thread, sr_previous = SNone, sr_changed_ns = 0,
     sr_host_uid = [], sr_host_pid = 0, sr_host_name = [], sr_host_exec = [], sr_branch = [], sr_busy = False,
     sr_terminal_sid = 0\<rparr>"

definition sample_cache_fs :: fake where
  "sample_cache_fs = \<lparr>fk_roots = [(sample_snapshot_dir, \<lparr>fr_identity = sample_root_identity,
     fr_entries = [(sample_name, sample_file_identity)]\<rparr>)], fk_errors = [], fk_partial = False\<rparr>"

definition sample_cache_env :: "gotime \<Rightarrow> fake cache_env" where
  "sample_cache_env t = \<lparr>kv_fs = fake_ops, kv_ctx = None, kv_query_error = None, kv_sessions_error = None,
     kv_begin_tx = None, kv_finish_tx = None, kv_record_tx = None, kv_audit_tx = None, kv_secret = Inr ''k'',
     kv_action_secret = Inr ''1'', kv_now = t, kv_check = t, kv_done = t\<rparr>"

text \<open>The row that a scan after the stable window commits, and an approval for it.\<close>

definition sample_row :: artifact where
  "sample_row = (fst (evaluate_cache sample_hash sample_cache_config (time_unix (2 * minute)) sample_artifact
     (Some sample_previous)))\<lparr>ca_evaluation := 2\<rparr>"

definition sample_cache_tables :: cache_store where
  "sample_cache_tables = empty_cache_store\<lparr>ks_evaluations := [(2, cache_evaluation_row sample_hash sample_cache_config
       (time_unix (2 * minute)) \<lparr>or_artifacts = [], or_complete = True, or_inspected = 1\<rparr> [])],
     ks_next_evaluation := 3, ks_artifacts := [(ca_id sample_row, sample_row)]\<rparr>"

definition sample_cache_approval :: cache_approval where
  "sample_cache_approval = \<lparr>ka_kind = KindCleanup,
     ka_binding = cache_approval_binding sample_hash KindCleanup sample_row None (quarantine_path ''q'') (config_digest sample_hash sample_cache_config),
     ka_artifact = sample_row, ka_quarantine = None, ka_destination = quarantine_path ''q'',
     ka_configuration = config_digest sample_hash sample_cache_config, ka_expires = time_unix (4 * minute), ka_used = False\<rparr>"

definition sample_cache_world :: "fake cache_world" where
  "sample_cache_world = \<lparr>cw_daemon = \<lparr>kd_cfg = sample_cache_config, kd_provider = sample_provider, kd_healthy = True,
       kd_fs_healthy = True, kd_approvals = [(secret_digest sample_hash ''k'', sample_cache_approval)], kd_plans = [],
       kd_degraded = []\<rparr>,
     cw_tables = sample_cache_tables, cw_store = empty_store\<lparr>sto_sessions := [(''s'', sample_owner)]\<rparr>,
     cw_fs = sample_cache_fs, cw_effects = []\<rparr>"

lemma sample_policy_row:
  "ca_policy (fst (evaluate_cache sample_hash sample_cache_config (time_unix (2 * minute)) sample_artifact
     (Some sample_previous))) = ''p''"
  using evaluate_recommended_policy [OF sample_recommended]
  by (simp add: enabled_cache_policy_def sample_cache_config_def)

lemma sample_row_fields [simp]:
  "ca_policy sample_row = ''p''" "ca_identity sample_row = sample_file_identity" "ca_root_path sample_row = sample_snapshot_dir"
  "ca_relative_path sample_row = sample_name" "ca_root_identity sample_row = sample_root_identity"
  "ca_evaluation sample_row = 2" "ca_stable_since sample_row = 0"
  "ca_identity_digest sample_row = ca_identity_digest sample_artifact" "ca_manifest_digest sample_row = ca_manifest_digest sample_artifact"
  "ca_id sample_row = ca_id sample_artifact" "ca_session sample_row = ca_session sample_artifact"
  using sample_previous_eligible
  by (simp_all add: sample_row_def evaluate_cache_stable_since continues_def sample_policy_row)
    (simp_all add: sample_artifact_def sample_entry_def)

lemma sample_row_recommended [simp]: "ca_lifecycle sample_row = StateRecommended"
  by (simp add: sample_row_def sample_recommended)

lemma sample_session_facts:
  "cache_session_facts (sample_cache_env t) 10 (cw_store sample_cache_world) = Inr [sample_cache_session]"
  by (simp add: cache_session_facts_def sample_cache_env_def sample_cache_world_def list_sessions_def empty_store_def
      cache_session_of_def sample_owner_def sample_cache_session_def codex_home_of_def live_processes_of_def
      empty_metadata_def)

lemma sample_observe_now:
  "cw_store w = cw_store sample_cache_world \<Longrightarrow> cw_fs w = sample_cache_fs \<Longrightarrow>
   kd_cfg (cw_daemon w) = sample_cache_config \<Longrightarrow> kd_provider (cw_daemon w) = sample_provider \<Longrightarrow>
   observe_now sample_hash (sample_cache_env t) w = Inr \<lparr>or_artifacts = [sample_artifact], or_complete = True, or_inspected = 1\<rparr>"
proof -
  have bound: "cc_max_entries_scan sample_cache_config = 10" by (simp add: sample_cache_config_def)
  have "CHR ''/'' \<notin> set sample_name" by code_simp
  then have "fo_snapshot (kv_fs (sample_cache_env t)) (kv_ctx (sample_cache_env t)) sample_snapshot_dir 10 sample_cache_fs =
    Inr \<lparr>fp_root = sample_root_identity, fp_entries = [sample_entry], fp_complete = True\<rparr>"
    by (simp add: sample_cache_env_def fake_ops_def fake_snapshot_def operation_error_def sample_cache_fs_def
        bounded_prefix_def sample_entry_def Let_def)
  from sample_observation [of "\<lambda>r n. fo_snapshot (kv_fs (sample_cache_env t)) (kv_ctx (sample_cache_env t)) r n sample_cache_fs", OF this]
  show ?thesis if "cw_store w = cw_store sample_cache_world" "cw_fs w = sample_cache_fs"
    "kd_cfg (cw_daemon w) = sample_cache_config" "kd_provider (cw_daemon w) = sample_provider"
    using that by (simp add: observe_now_def bound sample_session_facts)
qed

lemma sample_fresh_evaluation:
  "ca_lifecycle (fst (evaluate_cache sample_hash sample_cache_config (time_unix (3 * minute)) sample_artifact
     (Some sample_row))) = StateRecommended"
proof -
  have m: "in_int64 (3 * minute)" "in_int64 (2 * minute)" "0 < minute" by code_simp+
  have c: "cc_min_stable sample_cache_config = 2 * minute" by (simp add: sample_cache_config_def)
  with m have "0 < cc_min_stable sample_cache_config" "in_int64 (cc_min_stable sample_cache_config)"
    "in_int64 (time_unix (3 * minute) - unix_epoch)"
    by (simp_all add: time_unix_def)
  note iff = evaluate_recommended_iff [OF this]
  from sample_recommended have "\<not> oversized sample_cache_config sample_artifact" "recommends sample_cache_config"
    using evaluate_recommended_iff [of sample_cache_config "time_unix (2 * minute)" sample_hash sample_artifact "Some sample_previous"] c m
    by (simp_all add: time_unix_def)
  then show ?thesis unfolding iff using c m
    by (simp add: sample_artifact_unprotected settled_def continues_def stable_history_eligible_def time_unix_def)
qed

lemma sample_fresh_policy:
  "ca_policy (fst (evaluate_cache sample_hash sample_cache_config (time_unix (3 * minute)) sample_artifact
     (Some sample_row))) = ''p''"
  using evaluate_recommended_policy [OF sample_fresh_evaluation]
  by (simp add: enabled_cache_policy_def sample_cache_config_def)

text \<open>The approval, applied a minute after that scan.\<close>

definition sample_spent :: "fake cache_world" where
  "sample_spent = sample_cache_world\<lparr>cw_daemon := (cw_daemon sample_cache_world)\<lparr>kd_approvals :=
     [(secret_digest sample_hash ''k'', sample_cache_approval\<lparr>ka_used := True\<rparr>)]\<rparr>\<rparr>"

abbreviation sample_later :: "fake cache_env" where
  "sample_later \<equiv> sample_cache_env (time_unix (3 * minute))"

lemma sample_spend:
  "spend_approval sample_hash sample_later ''k'' sample_cache_world =
     (Inr (''act_1'', sample_cache_approval\<lparr>ka_used := True\<rparr>, None), sample_spent)"
proof -
  have "time_unix (3 * minute) < ka_expires sample_cache_approval"
    by (simp add: sample_cache_approval_def time_unix_def) code_simp
  then show ?thesis
    by (simp add: spend_approval_def consume_cache_approval_def sample_cache_world_def sample_spent_def sample_cache_env_def Let_def)
      (simp add: sample_cache_approval_def)
qed

lemma sample_current:
  "current_cache_artifact sample_later (ca_id sample_artifact) sample_spent = Inr sample_row"
  by (simp add: current_cache_artifact_def sample_cache_env_def sample_spent_def sample_cache_world_def sample_cache_tables_def
      list_cache_artifacts_def artifact_current_def newest_cache_evaluation_def empty_cache_store_def)

lemma sample_fresh:
  "\<exists>es. fresh_cleanup_artifact sample_hash sample_later (sample_cache_approval\<lparr>ka_used := True\<rparr>) sample_spent =
     Inr (fst (evaluate_cache sample_hash sample_cache_config (time_unix (3 * minute)) sample_artifact (Some sample_row)), es)"
proof -
  have d: "kd_cfg (cw_daemon sample_spent) = sample_cache_config" "kd_provider (cw_daemon sample_spent) = sample_provider"
    "cw_store sample_spent = cw_store sample_cache_world" "cw_fs sample_spent = sample_cache_fs"
    by (simp_all add: sample_spent_def sample_cache_world_def)
  have authority: "\<not> authority_changed sample_hash (cw_daemon sample_spent) (sample_cache_approval\<lparr>ka_used := True\<rparr>)"
    by (simp add: authority_changed_def cache_policy_enabled_def cache_global_recommend_enabled_def sample_spent_def
        sample_cache_world_def sample_cache_approval_def)
      (simp add: sample_cache_config_def)
  have [simp]: "kv_check sample_later = time_unix (3 * minute)" by (simp add: sample_cache_env_def)
  have ap: "ka_artifact (sample_cache_approval\<lparr>ka_used := True\<rparr>) = sample_row"
    "ka_destination (sample_cache_approval\<lparr>ka_used := True\<rparr>) = quarantine_path ''q''"
    "ka_binding (sample_cache_approval\<lparr>ka_used := True\<rparr>) = cache_approval_binding sample_hash KindCleanup sample_row None
       (quarantine_path ''q'') (config_digest sample_hash sample_cache_config)"
    by (simp_all add: sample_cache_approval_def)
  have row: "sample_root_identity = ca_root_identity sample_artifact" "sample_file_identity = ca_identity sample_artifact"
    "sample_snapshot_dir = ca_root_path sample_artifact" "sample_name = ca_relative_path sample_artifact"
    by (simp_all add: sample_artifact_def sample_entry_def)
  show ?thesis
    by (simp add: fresh_cleanup_artifact_def authority d ap sample_current sample_observe_now Let_def sample_fresh_evaluation
        sample_fresh_policy row same_object_def)
qed

lemma sample_quarantine_effects:
  "\<exists>r w'. cache_cleanup_apply sample_hash sample_later ''k'' sample_cache_world = (r, w') \<and>
     FsQuarantine sample_snapshot_dir sample_name ''q'' \<in> set (drop (length (cw_effects sample_cache_world)) (cw_effects w'))"
proof -
  obtain a es where fresh: "fresh_cleanup_artifact sample_hash sample_later (sample_cache_approval\<lparr>ka_used := True\<rparr>) sample_spent = Inr (a, es)"
    and a: "a = fst (evaluate_cache sample_hash sample_cache_config (time_unix (3 * minute)) sample_artifact (Some sample_row))"
    using sample_fresh by auto
  have path: "ca_root_path a = sample_snapshot_dir" "ca_relative_path a = sample_name"
    by (simp_all add: a) (simp_all add: sample_artifact_def sample_entry_def)
  have name: "path_base (ka_destination sample_cache_approval) = ''q''"
    by (simp add: sample_cache_approval_def path_base_quarantine plain_name_def)
  obtain w1 where jb: "journal_begin sample_later ''act_1'' (sample_cache_approval\<lparr>ka_used := True\<rparr>) CacheAttempting
      quarantine_attempt es sample_spent = (None, w1)"
    by (simp add: journal_begin_def begin_cache_action_def cache_tx_def sample_cache_env_def sample_spent_def
        sample_cache_world_def sample_cache_tables_def empty_cache_store_def)
  have kind: "ka_kind (sample_cache_approval\<lparr>ka_used := True\<rparr>) = KindCleanup" by (simp add: sample_cache_approval_def)
  obtain r w' where run: "apply_cache_quarantine sample_hash sample_later ''act_1'' (sample_cache_approval\<lparr>ka_used := True\<rparr>) sample_spent = (r, w')"
    by fastforce
  then have "cache_cleanup_apply sample_hash sample_later ''k'' sample_cache_world = (r, w')"
    by (simp add: cache_cleanup_apply_def apply_cache_approval_def sample_spend kind)
  moreover have "\<exists>f. quiet_step (fs_after w1 (FsQuarantine sample_snapshot_dir sample_name ''q'') f) w'"
    using run by (auto simp: apply_cache_quarantine_def fresh jb path name Let_def intro: quiet_done quiet_refl dest: quiet_failed
        split: prod.splits sum.splits option.splits)
  with journal_begin_None [OF jb] have "move_step (FsQuarantine sample_snapshot_dir sample_name ''q'') sample_spent w'"
    by (auto intro: move_step_intro)
  then have "FsQuarantine sample_snapshot_dir sample_name ''q'' \<in> set (cw_effects w')" by (auto simp: move_step_def)
  moreover have "cw_effects sample_cache_world = []" by (simp add: sample_cache_world_def)
  ultimately show ?thesis by auto
qed

theorem every_cache_move_is_journaled_witness:
  "\<exists>w b aid. (cache_any sample_hash)\<^sup>*\<^sup>* sample_cache_world w \<and>
     cw_effects w \<noteq> [] \<and> (\<exists>after. cw_effects w = (b @ [CacheJournaled aid CacheAttempting]) @ FsQuarantine sample_snapshot_dir sample_name ''q'' # after)"
proof -
  have none: "cw_effects sample_cache_world = []" by (simp add: sample_cache_world_def)
  obtain r w' where run: "cache_cleanup_apply sample_hash sample_later ''k'' sample_cache_world = (r, w')"
    and "FsQuarantine sample_snapshot_dir sample_name ''q'' \<in> set (cw_effects w')"
    using sample_quarantine_effects none by auto
  then obtain before after where split: "cw_effects w' = before @ FsQuarantine sample_snapshot_dir sample_name ''q'' # after"
    by (meson split_list)
  from cache_step.cleanup_apply [of sample_hash sample_cache_world sample_later "''k''"] run
  have steps: "(cache_any sample_hash)\<^sup>*\<^sup>* sample_cache_world w'" by (auto simp: cache_any_def)
  from every_cache_move_is_journaled [OF this none split] steps split show ?thesis by force
qed

theorem quarantine_needs_fresh_exclusive_ownership_witness:
  "\<exists>ap. map_of (kd_approvals (cw_daemon sample_cache_world)) (secret_digest sample_hash ''k'') = Some ap \<and>
     \<not> ka_used ap \<and> ka_kind ap = KindCleanup \<and> sample_snapshot_dir \<in> set (cv_roots (kd_provider (cw_daemon sample_cache_world)))"
proof -
  obtain r w' where run: "cache_cleanup_apply sample_hash sample_later ''k'' sample_cache_world = (r, w')"
    "FsQuarantine sample_snapshot_dir sample_name ''q'' \<in> set (drop (length (cw_effects sample_cache_world)) (cw_effects w'))"
    using sample_quarantine_effects by auto
  have m: "in_int64 (3 * minute)" "in_int64 (2 * minute)" "0 < minute" by code_simp+
  have "kd_cfg (cw_daemon sample_cache_world) = sample_cache_config" "cc_min_stable sample_cache_config = 2 * minute"
    by (simp_all add: sample_cache_world_def sample_cache_config_def)
  with quarantine_needs_fresh_exclusive_ownership [OF run] m show ?thesis
    by (auto simp: sample_cache_env_def time_unix_def)
qed

text \<open>A plan that expired before the foreground executor reported, with its entry gone.\<close>

definition sample_plan :: purge_plan where
  "sample_plan = \<lparr>pp_action = ''a'', pp_artifact = ca_id sample_row, pp_root_path = sample_snapshot_dir,
     pp_quarantine_path = quarantine_path ''q'', pp_root_identity = sample_root_identity,
     pp_identity = sample_file_identity, pp_configuration = config_digest sample_hash sample_cache_config,
     pp_expires = 0, pp_completion = ''p''\<rparr>"

definition sample_expired_world :: "fake cache_world" where
  "sample_expired_world = sample_cache_world\<lparr>
     cw_daemon := (cw_daemon sample_cache_world)\<lparr>kd_plans := [(secret_digest sample_hash ''p'',
       \<lparr>px_plan = sample_plan, px_approval = sample_cache_approval, px_evidence = [], px_used = False\<rparr>)]\<rparr>,
     cw_tables := sample_cache_tables\<lparr>ks_actions := [\<lparr>ct_id = ''a'', ct_artifact = ca_id sample_row, ct_kind = KindPurge,
       ct_policy = ''p'', ct_requested = 0, ct_updated = 0, ct_result = CachePurging, ct_reason = purge_attempt,
       ct_evidence = []\<rparr>]\<rparr>\<rparr>"

lemma sample_ambiguous:
  "\<exists>r w. cache_purge_complete sample_hash (sample_cache_env (time_unix 0)) ''a'' ''p'' [] sample_expired_world = (Inr r, w) \<and>
     cr_result r = CachePartial"
proof -
  have "0 \<le> unix_nano (time_unix 0)" "quarantine_path ''q'' \<noteq> sample_name" by code_simp+
  then show ?thesis
    by (simp add: cache_purge_complete_def sample_expired_world_def sample_cache_world_def sample_plan_def verify_cache_purge_def
        sample_cache_env_def fake_ops_def fake_quarantine_entry_def operation_error_def sample_cache_fs_def Let_def
        ambiguous_cache_purge_def trip_filesystem_circuit_def journal_fail_def finish_cache_action_def cache_tx_def
        set_cache_action_def cache_action_response_def same_object_def)
qed

theorem ambiguous_purge_stops_the_lane_witness:
  "\<exists>w. \<not> kd_fs_healthy (cw_daemon w) \<and>
     snd (cache_cleanup_apply sample_hash sample_later ''k'' (snd (cache_purge_complete sample_hash
       (sample_cache_env (time_unix 0)) ''a'' ''p'' [] sample_expired_world))) = w"
proof -
  obtain r w where run: "cache_purge_complete sample_hash (sample_cache_env (time_unix 0)) ''a'' ''p'' [] sample_expired_world = (Inr r, w)"
    "cr_result r = CachePartial"
    using sample_ambiguous by blast
  from cache_step.cleanup_apply [of sample_hash w sample_later "''k''"]
  have "(cache_step sample_hash)\<^sup>*\<^sup>* w (snd (cache_cleanup_apply sample_hash sample_later ''k'' w))" by blast
  from ambiguous_purge_stops_the_lane [OF run this] run show ?thesis by simp
qed

end
