(* ===== verification/Worktree_Parse.thy ===== *)
theory Worktree_Parse
  imports Repository Cache_FS
begin

text \<open>
  The data of the worktree inventory and the two parsers of Git's NUL-delimited output
  (\<open>internal/worktree\<close>: \<open>types.go\<close>, \<open>parse.go\<close>). What Git prints is written down as a
  renderer of records, and the parsers are shown to read it back.
\<close>

named_theorems worktree_text \<open>facts about Git's output\<close>

section \<open>Data\<close>

record file_identity =
  fi_path :: string
  fi_device :: "64 word"
  fi_inode :: "64 word"
  fi_size :: int
  fi_mtime :: int

definition no_file :: file_identity where
  "no_file = \<lparr>fi_path = [], fi_device = 0, fi_inode = 0, fi_size = 0, fi_mtime = 0\<rparr>"

record git_identity =
  gi_file :: file_identity
  gi_digest :: string

record registration =
  rg_path :: string
  rg_common :: string
  rg_admin :: string
  rg_head :: string
  rg_ref :: string
  rg_branch :: string
  rg_detached :: bool
  rg_bare :: bool
  rg_locked :: bool
  rg_prunable :: bool

record approved_link =
  al_name :: string
  al_text :: string
  al_target :: file_identity

record status_evidence =
  se_staged :: int
  se_tracked :: int
  se_conflicted :: int
  se_untracked :: int
  se_ignored :: int
  se_fingerprint :: string

definition no_status :: status_evidence where
  "no_status = \<lparr>se_staged = 0, se_tracked = 0, se_conflicted = 0, se_untracked = 0, se_ignored = 0,
     se_fingerprint = []\<rparr>"

definition status_clean :: "status_evidence \<Rightarrow> bool" where
  "status_clean s \<longleftrightarrow> se_staged s + se_tracked s + se_conflicted s + se_untracked s + se_ignored s = 0"

section \<open>Registrations\<close>

definition max_registrations :: nat where "max_registrations = 256"

definition nul :: char where "nul = CHR 0x00"

datatype parse_error = TooManyRegistrations | MalformedBoundary | RegistrationWithoutPath
  | MalformedStatus | MalformedRename | UnknownStatus char

definition new_registration :: "string \<Rightarrow> registration" where
  "new_registration path = \<lparr>rg_path = path, rg_common = [], rg_admin = [], rg_head = [], rg_ref = [],
     rg_branch = [], rg_detached = False, rg_bare = False, rg_locked = False, rg_prunable = False\<rparr>"

definition registration_attribute :: "string \<Rightarrow> string \<Rightarrow> registration \<Rightarrow> registration" where
  "registration_attribute key value r =
     (if key = ''HEAD'' then r\<lparr>rg_head := value\<rparr>
      else if key = ''branch'' then r\<lparr>rg_ref := value, rg_branch := trim_prefix ''refs/heads/'' value\<rparr>
      else if key = ''detached'' then r\<lparr>rg_detached := True\<rparr>
      else if key = ''bare'' then r\<lparr>rg_bare := True\<rparr>
      else if key = ''locked'' then r\<lparr>rg_locked := True\<rparr>
      else if key = ''prunable'' then r\<lparr>rg_prunable := True\<rparr>
      else r)"

text \<open>\<open>bytes.Cut\<close> at the first space.\<close>

definition key_value :: "string \<Rightarrow> string \<times> string" where
  "key_value part = (case cut (CHR '' '') part of None \<Rightarrow> (part, []) | Some p \<Rightarrow> p)"

fun registration_parts ::
  "registration option \<Rightarrow> registration list \<Rightarrow> string list \<Rightarrow> parse_error + registration list" where
  "registration_parts current out [] = Inr (case current of None \<Rightarrow> out | Some r \<Rightarrow> out @ [r])"
| "registration_parts current out (part # parts) =
     (if part = [] then
        (case current of
           None \<Rightarrow> registration_parts None out parts
         | Some r \<Rightarrow>
             if max_registrations < length (out @ [r]) then Inl TooManyRegistrations
             else registration_parts None (out @ [r]) parts)
      else let (key, value) = key_value part in
        if key = ''worktree'' then
          (case current of
             Some r \<Rightarrow> Inl MalformedBoundary
           | None \<Rightarrow> registration_parts (Some (new_registration value)) out parts)
        else registration_parts (map_option (registration_attribute key value) current) out parts)"

definition parse_registrations :: "string \<Rightarrow> parse_error + registration list" where
  "parse_registrations raw =
     (case registration_parts None [] (split_on nul raw) of
        Inl e \<Rightarrow> Inl e
      | Inr rs \<Rightarrow> if \<exists>r \<in> set rs. rg_path r = [] then Inl RegistrationWithoutPath else Inr rs)"

section \<open>Status\<close>

text \<open>\<open>bytes.SplitN\<close>: at most \<open>n\<close> pieces, the last one unsplit.\<close>

fun split_n :: "nat \<Rightarrow> char \<Rightarrow> string \<Rightarrow> string list" where
  "split_n 0 sep s = []"
| "split_n (Suc 0) sep s = [s]"
| "split_n (Suc (Suc n)) sep s =
     (case cut sep s of None \<Rightarrow> [s] | Some (a, b) \<Rightarrow> a # split_n (Suc n) sep b)"

text \<open>The parse so far: the counts, and the links the check approved on the way.\<close>

type_synonym status_state = "status_evidence \<times> approved_link list"
type_synonym status_check = "char \<Rightarrow> string \<Rightarrow> approved_link option"

definition add_changed :: "string \<Rightarrow> status_evidence \<Rightarrow> status_evidence" where
  "add_changed xy s = s\<lparr>se_staged := se_staged s + (if xy ! 0 \<noteq> CHR ''.'' then 1 else 0),
     se_tracked := se_tracked s + (if xy ! 1 \<noteq> CHR ''.'' then 1 else 0)\<rparr>"

definition add_unversioned :: "status_check \<Rightarrow> char \<Rightarrow> string \<Rightarrow> status_state \<Rightarrow> status_state" where
  "add_unversioned approved kind path st =
     (case approved kind path of
        Some l \<Rightarrow> (fst st, snd st @ [l])
      | None \<Rightarrow>
          (if kind = CHR ''?'' then (fst st)\<lparr>se_untracked := se_untracked (fst st) + 1\<rparr>
           else (fst st)\<lparr>se_ignored := se_ignored (fst st) + 1\<rparr>, snd st))"

fun status_fields ::
  "status_check \<Rightarrow> status_state \<Rightarrow> string list \<Rightarrow> status_state \<times> parse_error option" where
  "status_fields approved st [] = (st, None)"
| "status_fields approved st (entry # later) =
     (if entry = [] then status_fields approved st later
      else let kind = hd entry in
        if kind = CHR ''1'' \<or> kind = CHR ''2'' then
          (let parts = split_n 9 (CHR '' '') entry in
           if length parts < 9 \<or> length (parts ! 1) \<noteq> 2 then (st, Some MalformedStatus)
           else let st' = (add_changed (parts ! 1) (fst st), snd st) in
             if kind = CHR ''2'' then
               (case later of
                  [] \<Rightarrow> (st', Some MalformedRename)
                | orig # rest \<Rightarrow> if orig = [] then (st', Some MalformedRename) else status_fields approved st' rest)
             else status_fields approved st' later)
        else if kind = CHR ''u'' then
          status_fields approved ((fst st)\<lparr>se_conflicted := se_conflicted (fst st) + 1\<rparr>, snd st) later
        else if kind = CHR ''?'' \<or> kind = CHR ''!'' then
          status_fields approved (add_unversioned approved kind (if 2 < length entry then drop 2 entry else []) st) later
        else (st, Some (UnknownStatus kind)))"

definition parse_status ::
  "hash_ops \<Rightarrow> status_check \<Rightarrow> string \<Rightarrow> status_evidence \<times> approved_link list \<times> parse_error option" where
  "parse_status h approved raw =
     (case status_fields approved (no_status, []) (split_on nul raw) of
        ((s, links), Some e) \<Rightarrow> (s, links, Some e)
      | ((s, links), None) \<Rightarrow> (s\<lparr>se_fingerprint := hex_encode (ha_sum h raw)\<rparr>, links, None))"

section \<open>What Git prints\<close>

text \<open>
  \<open>git worktree list --porcelain -z\<close>: attributes, each ended by NUL, and an empty attribute
  after each worktree. A lock and a prunable mark may carry a reason.
\<close>

definition render_lines :: "string list \<Rightarrow> string" where
  "render_lines ls = concat (List.map (\<lambda>l. l @ [nul]) ls)"

definition reason_suffix :: "string \<Rightarrow> string" where
  "reason_suffix reason = (if reason = [] then [] else CHR '' '' # reason)"

definition registration_lines :: "registration \<times> string \<times> string \<Rightarrow> string list" where
  "registration_lines x = (case x of (r, lock_reason, prune_reason) \<Rightarrow>
     [''worktree '' @ rg_path r] @
     (if rg_bare r then [''bare''] else [''HEAD '' @ rg_head r, if rg_detached r then ''detached'' else ''branch '' @ rg_ref r]) @
     (if rg_locked r then [''locked'' @ reason_suffix lock_reason] else []) @
     (if rg_prunable r then [''prunable'' @ reason_suffix prune_reason] else []))"

definition render_registrations :: "(registration \<times> string \<times> string) list \<Rightarrow> string" where
  "render_registrations xs = concat (List.map (\<lambda>x. render_lines (registration_lines x @ [[]])) xs)"

text \<open>Registrations as Git lists them: no NUL in any text, a branch or a detached head unless bare.\<close>

definition listed :: "registration \<times> string \<times> string \<Rightarrow> bool" where
  "listed x = (case x of (r, lock_reason, prune_reason) \<Rightarrow>
     rg_path r \<noteq> [] \<and> nul \<notin> set (rg_path r) \<union> set (rg_head r) \<union> set (rg_ref r) \<union> set lock_reason \<union> set prune_reason \<and>
     rg_common r = [] \<and> rg_admin r = [] \<and> rg_branch r = trim_prefix ''refs/heads/'' (rg_ref r) \<and>
     (rg_bare r \<longrightarrow> rg_head r = [] \<and> rg_ref r = [] \<and> \<not> rg_detached r) \<and>
     (rg_detached r \<longrightarrow> rg_ref r = []))"

lemma split_render_lines [worktree_text]:
  "list_all (\<lambda>l. nul \<notin> set l) ls \<Longrightarrow> split_on nul (render_lines ls @ rest) = ls @ split_on nul rest"
  by (induction ls) (simp_all add: render_lines_def split_on_append)

lemma key_value_pair [simp]: "CHR '' '' \<notin> set k \<Longrightarrow> key_value (k @ CHR '' '' # v) = (k, v)"
  by (simp add: key_value_def)

lemma key_value_plain [simp]: "CHR '' '' \<notin> set k \<Longrightarrow> key_value k = (k, [])"
  by (simp add: key_value_def cut_None [THEN iffD2])

lemma key_value_reason [simp]:
  "CHR '' '' \<notin> set k \<Longrightarrow> key_value (k @ reason_suffix v) = (k, v)"
  by (cases "v = []") (simp_all add: reason_suffix_def)


lemma trim_prefix_Nil [simp]: "trim_prefix p [] = []"
  by (simp add: trim_prefix_def)

lemma registration_parts_listed:
  assumes "listed (r, lr, pr)" and "length out < max_registrations"
  shows "registration_parts None out (registration_lines (r, lr, pr) @ [[]] @ parts) =
    registration_parts None (out @ [r]) parts"
proof -
  have lines: "key_value (''worktree '' @ p) = (''worktree'', p)" "key_value (''HEAD '' @ p) = (''HEAD'', p)"
    "key_value (''branch '' @ p) = (''branch'', p)" for p
    by (simp_all add: key_value_def)
  have marks: "key_value (''locked'' @ reason_suffix q) = (''locked'', q)"
    "key_value (''prunable'' @ reason_suffix q) = (''prunable'', q)" for q
    by (rule key_value_reason, simp)+
  have plain: "key_value ''bare'' = (''bare'', [])" "key_value ''detached'' = (''detached'', [])"
    by (simp_all add: key_value_def)
  show ?thesis
    using assms
    by (cases r) (simp add: listed_def registration_lines_def lines [simplified] marks [simplified] plain
        registration_attribute_def new_registration_def)
qed

lemma render_Cons: "render_registrations (x # xs) = render_lines (registration_lines x @ [[]]) @ render_registrations xs"
  by (simp add: render_registrations_def)

lemma listed_lines: "listed x \<Longrightarrow> list_all (\<lambda>l. nul \<notin> set l) (registration_lines x @ [[]])"
  by (cases x) (auto simp: listed_def registration_lines_def reason_suffix_def nul_def)

lemma registration_parts_render:
  "list_all listed xs \<Longrightarrow> length out + length xs \<le> max_registrations \<Longrightarrow>
   registration_parts None out (split_on nul (render_registrations xs)) = Inr (out @ List.map fst xs)"
proof (induction xs arbitrary: out)
  case Nil
  then show ?case by (simp add: render_registrations_def)
next
  case (Cons x xs)
  obtain r lr pr where x: "x = (r, lr, pr)" by (cases x)
  have "split_on nul (render_registrations (x # xs)) = (registration_lines x @ [[]]) @ split_on nul (render_registrations xs)"
    unfolding render_Cons using Cons.prems(1) by (intro split_render_lines listed_lines) simp
  with Cons registration_parts_listed [of r lr pr out "split_on nul (render_registrations xs)"] show ?case
    by (simp add: x)
qed


lemma rendered_path: "listed x \<Longrightarrow> rg_path (fst x) \<noteq> []"
  by (cases x) (simp add: listed_def)

lemma parse_rendered:
  assumes "list_all listed xs" and "length xs \<le> max_registrations"
  shows "parse_registrations (render_registrations xs) = Inr (List.map fst xs)"
proof -
  have "\<not> (\<exists>r \<in> set (List.map fst xs). rg_path r = [])"
    using assms(1) by (auto simp: list_all_iff dest: rendered_path)
  moreover have "registration_parts None [] (split_on nul (render_registrations xs)) = Inr (List.map fst xs)"
    using registration_parts_render [OF assms(1), of "[]"] assms(2) by simp
  ultimately show ?thesis by (auto simp: parse_registrations_def)
qed

text \<open>C39: Parsing what \<open>git worktree list --porcelain -z\<close> prints for a list of at most 256
  worktrees, whatever reasons their locks and prunable marks carry, gives back exactly those
  registrations in their order.\<close>

theorem registrations_roundtrip:
  assumes "list_all listed xs" and "length xs \<le> max_registrations"
  shows "parse_registrations (render_registrations xs) = Inr (List.map fst xs)"
  by (rule parse_rendered [OF assms])

definition sample_registration :: registration where
  "sample_registration = (new_registration ''/r'')\<lparr>rg_head := ''ab'', rg_ref := ''refs/heads/m'', rg_branch := ''m''\<rparr>"

lemma sample_listed:
  "listed (sample_registration, [], [])" "listed ((new_registration ''/s'')\<lparr>rg_head := ''ab'', rg_detached := True, rg_locked := True\<rparr>, ''a b'', [])"
  by code_simp+

theorem registrations_roundtrip_witness:
  "parse_registrations (render_registrations [(sample_registration, [], []),
     ((new_registration ''/s'')\<lparr>rg_head := ''ab'', rg_detached := True, rg_locked := True\<rparr>, ''a b'', [])]) =
   Inr [sample_registration, (new_registration ''/s'')\<lparr>rg_head := ''ab'', rg_detached := True, rg_locked := True\<rparr>]"
  using registrations_roundtrip [of "[(sample_registration, [], []),
     ((new_registration ''/s'')\<lparr>rg_head := ''ab'', rg_detached := True, rg_locked := True\<rparr>, ''a b'', [])]"] sample_listed
  by (simp add: max_registrations_def)

section \<open>Records of the status\<close>

text \<open>
  \<open>git status --porcelain=v2 -z\<close>: changed and renamed entries with their two state letters
  and six more fields before the path, unmerged, untracked and ignored entries.
\<close>

datatype status_record = Changed char char string | Renamed char char string string | Unmerged string
  | Unversioned bool string

definition kind_of :: "bool \<Rightarrow> char" where
  "kind_of untracked = (if untracked then CHR ''?'' else CHR ''!'')"

fun record_fields :: "status_record \<Rightarrow> string list" where
  "record_fields (Changed x y rest) = [''1 '' @ [x, y] @ CHR '' '' # rest]"
| "record_fields (Renamed x y rest orig) = [''2 '' @ [x, y] @ CHR '' '' # rest, orig]"
| "record_fields (Unmerged rest) = [''u '' @ rest]"
| "record_fields (Unversioned u path) = [[kind_of u, CHR '' ''] @ path]"

definition render_status :: "status_record list \<Rightarrow> string" where
  "render_status rs = render_lines (concat (List.map record_fields rs))"

definition changed_letters :: "char \<Rightarrow> char \<Rightarrow> bool" where
  "changed_letters x y \<longleftrightarrow> x \<notin> {nul, CHR '' ''} \<and> y \<notin> {nul, CHR '' ''} \<and> (x \<noteq> CHR ''.'' \<or> y \<noteq> CHR ''.'')"

definition six_fields :: "string \<Rightarrow> bool" where
  "six_fields rest \<longleftrightarrow> nul \<notin> set rest \<and> 7 \<le> length (split_n 7 (CHR '' '') rest)"

fun printed :: "status_record \<Rightarrow> bool" where
  "printed (Changed x y rest) \<longleftrightarrow> changed_letters x y \<and> six_fields rest"
| "printed (Renamed x y rest orig) \<longleftrightarrow> changed_letters x y \<and> six_fields rest \<and> orig \<noteq> [] \<and> nul \<notin> set orig"
| "printed (Unmerged rest) \<longleftrightarrow> nul \<notin> set rest"
| "printed (Unversioned u path) \<longleftrightarrow> path \<noteq> [] \<and> nul \<notin> set path"

fun record_counts :: "status_check \<Rightarrow> status_state \<Rightarrow> status_record \<Rightarrow> status_state" where
  "record_counts approved st (Changed x y rest) = (add_changed [x, y] (fst st), snd st)"
| "record_counts approved st (Renamed x y rest orig) = (add_changed [x, y] (fst st), snd st)"
| "record_counts approved st (Unmerged rest) = ((fst st)\<lparr>se_conflicted := se_conflicted (fst st) + 1\<rparr>, snd st)"
| "record_counts approved st (Unversioned u path) = add_unversioned approved (kind_of u) path st"

fun only_approved :: "status_check \<Rightarrow> status_record \<Rightarrow> bool" where
  "only_approved approved (Unversioned u path) \<longleftrightarrow> approved (kind_of u) path \<noteq> None"
| "only_approved approved r \<longleftrightarrow> False"

lemma split_nine:
  "x \<noteq> CHR '' '' \<Longrightarrow> y \<noteq> CHR '' '' \<Longrightarrow> k \<noteq> CHR '' '' \<Longrightarrow>
   split_n 9 (CHR '' '') (k # CHR '' '' # x # y # CHR '' '' # rest) = [k] # [x, y] # split_n 7 (CHR '' '') rest"
  by (simp add: eval_nat_numeral)

lemma status_fields_record:
  assumes "printed r"
  shows "status_fields approved st (record_fields r @ later) = status_fields approved (record_counts approved st r) later"
  using assms
  by (cases r) (auto simp: changed_letters_def six_fields_def split_nine kind_of_def)

lemma status_fields_records:
  "list_all printed rs \<Longrightarrow> status_fields approved st (concat (List.map record_fields rs) @ later) =
     status_fields approved (fold (\<lambda>r st. record_counts approved st r) rs st) later"
  by (induction rs arbitrary: st) (simp_all add: status_fields_record)

lemma printed_fields: "printed r \<Longrightarrow> list_all (\<lambda>l. nul \<notin> set l) (record_fields r)"
  by (cases r) (auto simp: changed_letters_def six_fields_def kind_of_def nul_def)

lemma status_fields_render:
  assumes "list_all printed rs"
  shows "status_fields approved st (split_on nul (render_status rs)) =
    (fold (\<lambda>r st. record_counts approved st r) rs st, None)"
proof -
  have "list_all (\<lambda>l. nul \<notin> set l) (concat (List.map record_fields rs))"
    using assms printed_fields by (fastforce simp: list_all_iff)
  from split_render_lines [OF this, of "[]"]
  have "split_on nul (render_status rs) = concat (List.map record_fields rs) @ [[]]"
    by (simp add: render_status_def)
  with status_fields_records [OF assms, of approved st "[[]]"] show ?thesis by simp
qed


text \<open>The counts never fall, and they stay at zero only over approved entries.\<close>

definition weight :: "status_evidence \<Rightarrow> int" where
  "weight s = se_staged s + se_tracked s + se_conflicted s + se_untracked s + se_ignored s"

lemma record_weight:
  "printed r \<Longrightarrow> weight (fst (record_counts approved st r)) \<ge> weight (fst st) \<and>
     (weight (fst (record_counts approved st r)) = weight (fst st) \<longleftrightarrow> only_approved approved r)"
  by (cases r) (auto simp: weight_def add_changed_def changed_letters_def add_unversioned_def split: option.split)

lemma fold_weight:
  "list_all printed rs \<Longrightarrow>
     weight (fst (fold (\<lambda>r st. record_counts approved st r) rs st)) \<ge> weight (fst st) \<and>
     (weight (fst (fold (\<lambda>r st. record_counts approved st r) rs st)) = weight (fst st) \<longleftrightarrow> list_all (only_approved approved) rs)"
proof (induction rs arbitrary: st)
  case Nil
  show ?case by simp
next
  case (Cons r rs)
  from Cons.prems have "list_all printed rs" by simp
  note rest = Cons.IH [OF this, of "record_counts approved st r"]
  from Cons.prems have "printed r" by simp
  from record_weight [OF this, of st approved] rest show ?case
    by (cases "only_approved approved r") auto
qed

text \<open>A status listing always parses, whatever records it has, and it is found clean exactly
  when every record is an untracked or ignored path that the check approved as an environment
  link: a staged, changed, renamed, unmerged or unapproved entry makes the worktree dirty.\<close>

theorem status_clean_iff_only_approved:
  assumes "list_all printed rs"
  shows "\<exists>s links. parse_status h approved (render_status rs) = (s, links, None) \<and>
    se_fingerprint s = hex_encode (ha_sum h (render_status rs)) \<and>
    (status_clean s \<longleftrightarrow> list_all (only_approved approved) rs)"
proof -
  obtain s links where f: "fold (\<lambda>r st. record_counts approved st r) rs (no_status, []) = (s, links)"
    by fastforce
  with status_fields_render [OF assms, of approved "(no_status, [])"]
  have "parse_status h approved (render_status rs) =
      (s\<lparr>se_fingerprint := hex_encode (ha_sum h (render_status rs))\<rparr>, links, None)"
    by (simp add: parse_status_def)
  with fold_weight [OF assms, of "(no_status, [])" approved] f show ?thesis
    by (simp add: status_clean_def weight_def no_status_def)
qed

definition sample_link :: approved_link where
  "sample_link = \<lparr>al_name = ''.env'', al_text = ''../.env'', al_target = no_file\<rparr>"

definition approve_env :: status_check where
  "approve_env kind path = (if path = ''.env'' then Some sample_link else None)"

theorem status_clean_iff_only_approved_witness:
  "\<exists>s links. parse_status sample_hash approve_env (render_status [Unversioned True ''.env'', Changed CHR ''M'' CHR ''.'' ''a b c d e f g'']) =
     (s, links, None) \<and> \<not> status_clean s"
proof -
  have "list_all printed [Unversioned True ''.env'', Changed CHR ''M'' CHR ''.'' ''a b c d e f g'']" by code_simp
  from status_clean_iff_only_approved [OF this, of sample_hash approve_env] show ?thesis by auto
qed

end
