(* ===== verification/Worktree_Git.thy ===== *)
theory Worktree_Git
  imports Worktree_Parse
begin

text \<open>
  Inspection of one worktree (\<open>internal/worktree\<close>: \<open>identity.go\<close>, \<open>git.go\<close>, \<open>git_exec.go\<close>,
  \<open>inspect.go\<close>, \<open>filesystem.go\<close>, \<open>discovery.go\<close>, \<open>failure.go\<close>). The operating system at one
  moment and the outcome of running Git are the record \<open>host\<close>; directory trees are finite
  trees that \<open>filepath.WalkDir\<close> visits.
\<close>

section \<open>The host\<close>

datatype file_kind = KindDirectory | KindSymlink | KindRegular | KindOther

record file_info =
  in_kind :: file_kind
  in_device :: "64 word"
  in_inode :: "64 word"
  in_size :: int
  in_mtime :: int

datatype lstat_result = Found file_info | NoEntry | Unreadable

text \<open>A tree node: its name, its type, and its children unless reading them fails.\<close>

datatype dir_tree = Node string file_kind "dir_tree list option"

datatype git_error = Evidence string detail | ContextTimedOut | ContextCanceled | PlainError detail

datatype exec_failure = ExitedWith int | NotStarted

record exec_outcome =
  eo_context :: "git_error option"
  eo_stdout :: "string list"
  eo_stderr :: "string list"
  eo_failure :: "exec_failure option"

record path_usage =
  us_complete :: bool
  us_inspected :: int
  us_cwd :: int
  us_vnodes :: int
  us_keys :: "key list"

record host =
  ho_lstat :: "string \<Rightarrow> lstat_result"
  ho_eval :: "string \<Rightarrow> string option"
  ho_readlink :: "string \<Rightarrow> string option"
  ho_readdir :: "string \<Rightarrow> (string \<times> file_kind option) list option"
  ho_read :: "string \<Rightarrow> string option"
  ho_tree :: "string \<Rightarrow> dir_tree option"
  ho_exec :: "string list \<Rightarrow> exec_outcome"
  ho_usage :: "string \<Rightarrow> git_error + path_usage"
  ho_context :: "nat \<Rightarrow> git_error option"

section \<open>Failures\<close>

definition failure_discovery_bound :: string where "failure_discovery_bound = ''discovery_bound_exceeded''"
definition failure_discovery_incomplete :: string where "failure_discovery_incomplete = ''discovery_incomplete''"
definition failure_git_changed :: string where "failure_git_changed = ''git_executable_changed''"
definition failure_git_inspection :: string where "failure_git_inspection = ''git_inspection_incomplete''"
definition failure_git_unavailable :: string where "failure_git_unavailable = ''git_unavailable''"

fun evidence_category :: "git_error \<Rightarrow> string" where
  "evidence_category (Evidence c m) = c"
| "evidence_category ContextTimedOut = ''operation_timed_out''"
| "evidence_category ContextCanceled = ''operation_canceled''"
| "evidence_category (PlainError d) = ''inventory_incomplete''"

fun git_error_text :: "git_error \<Rightarrow> detail" where
  "git_error_text (Evidence c m) = m"
| "git_error_text ContextTimedOut = Text ''context deadline exceeded''"
| "git_error_text ContextCanceled = Text ''context canceled''"
| "git_error_text (PlainError d) = d"

section \<open>Identities\<close>

definition identity_of :: "string \<Rightarrow> file_info \<Rightarrow> file_identity" where
  "identity_of path i = \<lparr>fi_path = path, fi_device = in_device i, fi_inode = in_inode i,
     fi_size = in_size i, fi_mtime = in_mtime i\<rparr>"

definition identify :: "host \<Rightarrow> string \<Rightarrow> git_error + file_identity" where
  "identify h path =
     (if \<not> is_abs path \<or> path_clean path \<noteq> path
      then Inl (PlainError (Fmt ''worktree: path %s is not canonical and absolute'' [AStr path]))
      else (case ho_lstat h path of
        Found i \<Rightarrow> Inr (identity_of path i)
      | NoEntry \<Rightarrow> Inl (PlainError (Fmt ''lstat %s: no such file or directory'' [AStr path]))
      | Unreadable \<Rightarrow> Inl (PlainError (Fmt ''lstat %s: unreadable'' [AStr path]))))"

text \<open>\<open>binary.BigEndian.AppendUint64\<close>.\<close>

definition word_bytes :: "64 word \<Rightarrow> string" where
  "word_bytes w = List.map (\<lambda>i. char_of (unat (drop_bit (8 * i) w))) (rev [0..<8])"

definition stable_id_input :: "file_identity \<Rightarrow> file_identity \<Rightarrow> string" where
  "stable_id_input common admin = fi_path common @ [nul] @ fi_path admin @ [nul] @
     concat (List.map word_bytes [fi_device common, fi_inode common, fi_device admin, fi_inode admin])"

definition stable_id :: "hash_ops \<Rightarrow> file_identity \<Rightarrow> file_identity \<Rightarrow> string" where
  "stable_id hs common admin = hex_encode (ha_sum hs (stable_id_input common admin))"

section \<open>Running Git\<close>

record bounded_buffer =
  bb_bytes :: string
  bb_limit :: nat
  bb_overflow :: bool

definition buffer_write :: "string \<Rightarrow> bounded_buffer \<Rightarrow> bounded_buffer" where
  "buffer_write p b =
     (let remaining = bb_limit b - length (bb_bytes b) in
      if remaining = 0 then b\<lparr>bb_overflow := True\<rparr>
      else b\<lparr>bb_bytes := bb_bytes b @ take remaining p,
             bb_overflow := bb_overflow b \<or> remaining < length p\<rparr>)"

definition buffer_all :: "nat \<Rightarrow> string list \<Rightarrow> bounded_buffer" where
  "buffer_all limit ps = fold buffer_write ps \<lparr>bb_bytes = [], bb_limit = limit, bb_overflow = False\<rparr>"

definition max_git_output :: nat where "max_git_output = 4 * 2 ^ 20"
definition max_git_errors :: nat where "max_git_errors = 32 * 2 ^ 10"

record git_adapter =
  ga_path :: string
  ga_exec_path :: string
  ga_identity :: git_identity
  ga_exec_identity :: file_identity
  ga_max_bytes :: nat

definition git_changed :: "detail \<Rightarrow> git_error" where
  "git_changed m = Evidence failure_git_changed m"

definition verify_identity :: "host \<Rightarrow> git_adapter \<Rightarrow> git_error option" where
  "verify_identity h g =
     (if identify h (ga_path g) \<noteq> Inr (gi_file (ga_identity g))
      then Some (git_changed (Text ''worktree: git executable identity changed''))
      else if identify h (ga_exec_path g) \<noteq> Inr (ga_exec_identity g)
      then Some (git_changed (Text ''worktree: private Git execution snapshot changed''))
      else None)"

definition git_arguments :: "string \<Rightarrow> string list \<Rightarrow> string list" where
  "git_arguments dir args =
     [''-c'', ''color.ui=false'', ''-c'', ''core.fsmonitor=false'', ''-c'', ''core.untrackedCache=false''] @
     (if dir = [] then [] else [''-C'', dir]) @ args"

text \<open>The environment of a command: nothing of Git's is inherited.\<close>

definition git_environment :: "string list \<Rightarrow> string list" where
  "git_environment environ =
     filter (\<lambda>item. case cut (CHR ''='') item of None \<Rightarrow> False | Some (k, v) \<Rightarrow> \<not> has_prefix ''GIT_'' k) environ @
     [''GIT_TERMINAL_PROMPT=0'', ''GIT_PAGER=cat'', ''PAGER=cat'', ''GIT_OPTIONAL_LOCKS=0'']"

definition inspection_failed :: "detail \<Rightarrow> git_error" where
  "inspection_failed m = Evidence failure_git_inspection m"

definition outcome_of :: "nat \<Rightarrow> exec_outcome \<Rightarrow> git_error + string" where
  "outcome_of limit r =
     (let out = buffer_all limit (eo_stdout r); err = buffer_all max_git_errors (eo_stderr r) in
      if eo_context r \<noteq> None then Inl (inspection_failed (Text ''worktree: Git command timed out''))
      else if bb_overflow out \<or> bb_overflow err
      then Inl (inspection_failed (Text ''worktree: Git command exceeded its output bound''))
      else (case eo_failure r of
        Some (ExitedWith n) \<Rightarrow> Inl (inspection_failed (Fmt ''worktree: Git command exited %d'' [AInt n]))
      | Some NotStarted \<Rightarrow> Inl (inspection_failed (Text ''worktree: starting private Git execution snapshot failed''))
      | None \<Rightarrow> Inr (bb_bytes out)))"

definition git_run :: "host \<Rightarrow> git_adapter \<Rightarrow> string \<Rightarrow> string list \<Rightarrow> git_error + string" where
  "git_run h g dir args =
     (case verify_identity h g of
        Some e \<Rightarrow> Inl e
      | None \<Rightarrow> outcome_of (ga_max_bytes g) (ho_exec h (ga_exec_path g # git_arguments dir args)))"

definition newline :: string where "newline = [CHR 0x0A]"

definition rev_path :: "host \<Rightarrow> git_adapter \<Rightarrow> string \<Rightarrow> string \<Rightarrow> git_error + string" where
  "rev_path h g path flag =
     (case git_run h g path [''rev-parse'', ''--path-format=absolute'', flag] of
        Inl e \<Rightarrow> Inl e
      | Inr raw \<Rightarrow>
          let v = trim_suffix raw newline in
          if \<not> is_abs v then Inl (PlainError (Fmt ''worktree: git returned non-absolute %s'' [AStr flag]))
          else Inr (path_clean v))"

text \<open>On an error the count is zero, as the source returns it.\<close>

definition git_count :: "host \<Rightarrow> git_adapter \<Rightarrow> string \<Rightarrow> string list \<Rightarrow> int \<times> git_error option" where
  "git_count h g path args =
     (case git_run h g path args of
        Inl e \<Rightarrow> (0, Some e)
      | Inr raw \<Rightarrow> (case parse_int64 (trim_space raw) of
            None \<Rightarrow> (0, Some (PlainError (Text ''worktree: parsing git count'')))
          | Some n \<Rightarrow> (n, None)))"

definition git_succeeds :: "host \<Rightarrow> git_adapter \<Rightarrow> string \<Rightarrow> string list \<Rightarrow> bool" where
  "git_succeeds h g path args = (case git_run h g path args of Inl e \<Rightarrow> False | Inr raw \<Rightarrow> True)"

section \<open>The registered inventory\<close>

definition max_git_path :: nat where "max_git_path = 4096"

definition read_bounded_git_path :: "host \<Rightarrow> string \<Rightarrow> string option" where
  "read_bounded_git_path h path =
     (case ho_read h path of
        None \<Rightarrow> None
      | Some raw \<Rightarrow>
          if max_git_path < length raw then None
          else let v = trim_suffix raw newline in if \<not> is_abs v then None else Some (path_clean v))"

text \<open>The administrative directories under \<open>worktrees\<close>, by the checkout they point at; a later entry wins.\<close>

definition admin_entry :: "host \<Rightarrow> string \<Rightarrow> string \<times> file_kind option \<Rightarrow> (string \<times> string) option" where
  "admin_entry h common entry =
     (case entry of (name, kind) \<Rightarrow>
        if kind \<noteq> Some KindDirectory then None
        else let admin = path_join [common, ''worktrees'', name] in
          (case read_bounded_git_path h (path_join [admin, ''gitdir'']) of
             None \<Rightarrow> None
           | Some pointer \<Rightarrow> if path_base pointer \<noteq> ''.git'' then None
                             else Some (path_clean (path_dir pointer), admin)))"

definition admin_by_path :: "host \<Rightarrow> string \<Rightarrow> (string \<times> file_kind option) list \<Rightarrow> string \<Rightarrow> string option" where
  "admin_by_path h common entries path = map_of (rev (List.map_filter (admin_entry h common) entries)) path"

definition enrich_administrative_dirs ::
  "host \<Rightarrow> git_adapter \<Rightarrow> string \<Rightarrow> registration list \<Rightarrow> registration list" where
  "enrich_administrative_dirs h g repo records =
     (case records of
        [] \<Rightarrow> []
      | first # others \<Rightarrow>
          (case rev_path h g repo ''--git-common-dir'' of
             Inl e \<Rightarrow> records
           | Inr raw \<Rightarrow>
               (case ho_eval h raw of
                  None \<Rightarrow> records
                | Some common \<Rightarrow>
                    let first' = first\<lparr>rg_common := common, rg_admin := common\<rparr> in
                    (case ho_readdir h (path_join [common, ''worktrees'']) of
                       None \<Rightarrow> first' # others
                     | Some entries \<Rightarrow>
                         if max_registrations < length entries then first' # others
                         else first' # List.map (\<lambda>r.
                           (case admin_by_path h common entries (path_clean (rg_path r)) of
                              None \<Rightarrow> r
                            | Some admin \<Rightarrow> if admin = [] then r else r\<lparr>rg_common := common, rg_admin := admin\<rparr>)) others))))"

definition git_registrations :: "host \<Rightarrow> git_adapter \<Rightarrow> string \<Rightarrow> git_error + registration list" where
  "git_registrations h g repo =
     (case git_run h g repo [''worktree'', ''list'', ''--porcelain'', ''-z''] of
        Inl e \<Rightarrow> Inl e
      | Inr raw \<Rightarrow>
          (case parse_registrations raw of
             Inl e \<Rightarrow> Inl (inspection_failed (Text ''worktree: Git registration inventory was malformed''))
           | Inr rs \<Rightarrow> Inr (enrich_administrative_dirs h g repo rs)))"

text \<open>\<open>filepath.EvalSymlinks\<close> and then \<open>Identify\<close>, for both directories.\<close>

definition administrative_identities ::
  "host \<Rightarrow> string \<Rightarrow> string \<Rightarrow> (file_identity \<times> file_identity) option" where
  "administrative_identities h common admin =
     (case (ho_eval h common, ho_eval h admin) of
        (Some c, Some a) \<Rightarrow>
          (case (identify h c, identify h a) of (Inr ci, Inr ai) \<Rightarrow> Some (ci, ai) | _ \<Rightarrow> None)
      | _ \<Rightarrow> None)"

definition registration_id :: "hash_ops \<Rightarrow> host \<Rightarrow> registration \<Rightarrow> string option" where
  "registration_id hs h r =
     (if rg_common r = [] \<or> rg_admin r = [] then None
      else map_option (\<lambda>(c, a). stable_id hs c a) (administrative_identities h (rg_common r) (rg_admin r)))"

definition find_registration ::
  "hash_ops \<Rightarrow> host \<Rightarrow> git_adapter \<Rightarrow> string \<Rightarrow> string \<Rightarrow> git_error + registration \<times> string" where
  "find_registration hs h g repo wid =
     (case git_registrations h g repo of
        Inl e \<Rightarrow> Inl e
      | Inr [] \<Rightarrow> Inl (PlainError (Text ''worktree: repository has no registrations''))
      | Inr (r # rs) \<Rightarrow>
          (case List.find (\<lambda>x. registration_id hs h x = Some wid) (r # rs) of
             None \<Rightarrow> Inl (PlainError (Text ''worktree: registration identity is absent''))
           | Some x \<Rightarrow> Inr (x, rg_path r)))"


section \<open>One inspection\<close>

record observation =
  og_id :: string
  og_path :: string
  og_path_identity :: file_identity
  og_common_identity :: file_identity
  og_admin_identity :: file_identity
  og_common :: string
  og_admin :: string
  og_head :: string
  og_ref :: string
  og_branch :: string
  og_detached :: bool
  og_primary :: bool
  og_present :: bool
  og_canonical :: bool
  og_locked :: bool
  og_prunable :: bool
  og_complete :: bool
  og_status :: status_evidence
  og_operations :: "string list"
  og_links :: "approved_link list"
  og_published :: bool
  og_reachable :: bool
  og_submodules :: bool
  og_protection :: "string list"
  og_observed_at :: gotime

definition first_observation :: "registration \<Rightarrow> gotime \<Rightarrow> observation" where
  "first_observation r now = \<lparr>og_id = [], og_path = rg_path r, og_path_identity = no_file,
     og_common_identity = no_file, og_admin_identity = no_file, og_common = [], og_admin = [],
     og_head = rg_head r, og_ref = rg_ref r, og_branch = rg_branch r, og_detached = rg_detached r,
     og_primary = False, og_present = True, og_canonical = False, og_locked = rg_locked r,
     og_prunable = rg_prunable r, og_complete = False, og_status = no_status, og_operations = [], og_links = [],
     og_published = False, og_reachable = False, og_submodules = False, og_protection = [], og_observed_at = now\<rparr>"

definition refused :: "string \<Rightarrow> observation \<Rightarrow> observation" where
  "refused p ob = ob\<lparr>og_protection := og_protection ob @ [p]\<rparr>"

definition operation_paths :: "string list" where
  "operation_paths = [''MERGE_HEAD'', ''CHERRY_PICK_HEAD'', ''REVERT_HEAD'', ''BISECT_LOG'',
     ''rebase-apply'', ''rebase-merge'', ''sequencer'', ''index.lock'', ''locked'']"

definition path_exists :: "host \<Rightarrow> string \<Rightarrow> bool" where
  "path_exists h path = (case ho_lstat h path of Found i \<Rightarrow> True | _ \<Rightarrow> False)"

definition is_symlink :: "host \<Rightarrow> string \<Rightarrow> bool" where
  "is_symlink h path = (case ho_lstat h path of Found i \<Rightarrow> in_kind i = KindSymlink | _ \<Rightarrow> False)"

definition git_operations :: "host \<Rightarrow> string \<Rightarrow> string list" where
  "git_operations h admin = filter (\<lambda>name. path_exists h (path_join [admin, name])) operation_paths"

text \<open>\<open>filepath.EvalSymlinks\<close> of a link's text, taken relative to the directory the link is in.\<close>

definition link_target :: "host \<Rightarrow> string \<Rightarrow> string \<Rightarrow> string option" where
  "link_target h dir text = ho_eval h (if is_abs text then text else path_join [dir, text])"

definition approved_environment_link :: "host \<Rightarrow> string \<Rightarrow> string \<Rightarrow> string \<Rightarrow> approved_link option" where
  "approved_environment_link h dir primary relative =
     (if primary = [] \<or> (relative \<noteq> ''.env'' \<and> relative \<noteq> ''.envrc'') then None
      else let path = path_join [dir, relative]; want = path_join [primary, relative] in
        if \<not> is_symlink h path then None
        else (case ho_readlink h path of
          None \<Rightarrow> None
        | Some text \<Rightarrow>
            if link_target h dir text \<noteq> Some want then None
            else (case identify h want of
              Inl e \<Rightarrow> None
            | Inr i \<Rightarrow> Some \<lparr>al_name = relative, al_text = text, al_target = i\<rparr>)))"

definition base_protections :: "observation \<Rightarrow> string list" where
  "base_protections ob =
     (if og_primary ob then [''primary_worktree''] else []) @
     (if og_locked ob then [''worktree_locked''] else []) @
     (if og_prunable ob then [''worktree_prunable''] else []) @
     (if \<not> status_clean (og_status ob) then [''worktree_dirty''] else []) @
     (if og_operations ob \<noteq> [] then [''git_operation_in_progress''] else []) @
     (if og_submodules ob then [''submodule_metadata_present''] else []) @
     (if \<not> og_published ob then [''local_only_commits''] else []) @
     (if og_detached ob \<and> \<not> og_reachable ob then [''detached_head_unreachable''] else [])"

definition upstream :: string where "upstream = CHR 0x40 # ''{upstream}''"

text \<open>Published, reachable from a branch or tag, and the error if the question has no answer.\<close>

definition git_reachability :: "host \<Rightarrow> git_adapter \<Rightarrow> observation \<Rightarrow> bool \<times> bool \<times> git_error option" where
  "git_reachability h g ob =
     (if og_detached ob then
        (case git_run h g (og_path ob) [''for-each-ref'', ''--contains=HEAD'', ''--format=%(objectname)'', ''refs/heads'', ''refs/tags''] of
           Inl e \<Rightarrow> (False, False, Some e)
         | Inr raw \<Rightarrow> (trim_space raw \<noteq> [], trim_space raw \<noteq> [], None))
      else if git_succeeds h g (og_path ob) [''rev-parse'', ''--verify'', upstream] then
        (case git_count h g (og_path ob) [''rev-list'', ''--count'', upstream @ ''..HEAD''] of
           (ahead, e) \<Rightarrow> (ahead = 0, False, e))
      else
        (case git_run h g (og_path ob) [''branch'', ''-r'', ''--contains'', ''HEAD'', ''--format=%(objectname)''] of
           Inl e \<Rightarrow> (False, False, Some e)
         | Inr raw \<Rightarrow> (trim_space raw \<noteq> [], False, None)))"

definition identify_missing :: "hash_ops \<Rightarrow> host \<Rightarrow> registration \<Rightarrow> observation \<Rightarrow> observation" where
  "identify_missing hs h r ob =
     (if rg_common r = [] \<or> rg_admin r = [] then ob
      else (case administrative_identities h (rg_common r) (rg_admin r) of
        None \<Rightarrow> ob
      | Some (ci, ai) \<Rightarrow> ob\<lparr>og_common := fi_path ci, og_admin := fi_path ai, og_common_identity := ci,
          og_admin_identity := ai, og_id := stable_id hs ci ai\<rparr>))"

text \<open>The last steps: the status, operations in progress, submodules and publication.\<close>

definition inspect_content :: "hash_ops \<Rightarrow> host \<Rightarrow> git_adapter \<Rightarrow> string \<Rightarrow> observation \<Rightarrow> observation" where
  "inspect_content hs h g primary ob =
     (let dir = og_path ob; common = og_common ob; admin = og_admin ob in
      case git_run h g dir [''status'', ''--porcelain=v2'', ''-z'', ''--ignored=matching'', ''--untracked-files=all''] of
        Inl e \<Rightarrow> refused ''git_status_incomplete'' ob
      | Inr raw \<Rightarrow>
          (case parse_status hs (\<lambda>kind path. approved_environment_link h dir primary path) raw of
             (status, links, Some e) \<Rightarrow> refused ''git_status_incomplete'' (ob\<lparr>og_status := status, og_links := links\<rparr>)
           | (status, links, None) \<Rightarrow>
               let ob1 = ob\<lparr>og_status := status, og_links := links, og_operations := git_operations h admin,
                     og_submodules := git_succeeds h g dir [''ls-files'', ''--error-unmatch'', ''--'', ''.gitmodules''] \<or>
                       path_exists h (path_join [common, ''modules'']) \<or> path_exists h (path_join [admin, ''modules''])\<rparr> in
               (case git_reachability h g ob1 of
                  (published, reachable, e) \<Rightarrow>
                    let ob2 = ob1\<lparr>og_published := published, og_reachable := reachable\<rparr> in
                    if e \<noteq> None then refused ''git_reachability_incomplete'' ob2
                    else ob2\<lparr>og_complete := True, og_protection := sort (og_protection ob2 @ base_protections ob2)\<rparr>)))"

text \<open>The administrative directories and the identity they give the worktree.\<close>

definition inspect_administration ::
  "hash_ops \<Rightarrow> host \<Rightarrow> git_adapter \<Rightarrow> string \<Rightarrow> observation \<Rightarrow> observation" where
  "inspect_administration hs h g primary ob =
     (let dir = og_path ob in
      case rev_path h g dir ''--git-common-dir'' of
        Inl e \<Rightarrow> refused ''git_common_directory_unavailable'' ob
      | Inr raw_common \<Rightarrow>
          let ob1 = ob\<lparr>og_common := raw_common\<rparr> in
          (case rev_path h g dir ''--git-dir'' of
             Inl e \<Rightarrow> refused ''git_admin_directory_unavailable'' ob1
           | Inr raw_admin \<Rightarrow>
               let ob2 = ob1\<lparr>og_admin := raw_admin\<rparr> in
               (case ho_eval h raw_common of
                  None \<Rightarrow> refused ''git_common_directory_unreadable'' ob2
                | Some common \<Rightarrow>
                    (case ho_eval h raw_admin of
                       None \<Rightarrow> refused ''git_admin_directory_unreadable'' ob2
                     | Some admin \<Rightarrow>
                         let ob3 = ob2\<lparr>og_common := common, og_admin := admin\<rparr> in
                         (case identify h common of
                            Inl e \<Rightarrow> refused ''git_common_directory_unreadable'' ob3
                          | Inr ci \<Rightarrow>
                              let ob4 = ob3\<lparr>og_common_identity := ci\<rparr> in
                              (case identify h admin of
                                 Inl e \<Rightarrow> refused ''git_admin_directory_unreadable'' ob4
                               | Inr ai \<Rightarrow>
                                   let pc = (case ho_eval h primary of None \<Rightarrow> [] | Some p \<Rightarrow> p) in
                                   inspect_content hs h g pc (ob4\<lparr>og_admin_identity := ai, og_id := stable_id hs ci ai,
                                     og_primary := dir = pc \<or> common = admin\<rparr>)))))))"

definition inspect :: "hash_ops \<Rightarrow> host \<Rightarrow> git_adapter \<Rightarrow> gotime \<Rightarrow> registration \<Rightarrow> string \<Rightarrow> observation" where
  "inspect hs h g now r primary =
     (let ob = first_observation r now in
      case ho_lstat h (rg_path r) of
        NoEntry \<Rightarrow> identify_missing hs h r (refused ''worktree_missing'' (ob\<lparr>og_present := False\<rparr>))
      | Unreadable \<Rightarrow> refused ''worktree_unreadable'' ob
      | Found i \<Rightarrow>
          if in_kind i \<noteq> KindDirectory then refused ''worktree_path_symlinked'' ob
          else if ho_eval h (rg_path r) \<noteq> Some (path_clean (rg_path r)) then refused ''worktree_path_not_canonical'' ob
          else let dir = path_clean (rg_path r); ob1 = ob\<lparr>og_canonical := True, og_path := dir\<rparr> in
            (case identify h dir of
               Inl e \<Rightarrow> refused ''worktree_unreadable'' ob1
             | Inr path_id \<Rightarrow> inspect_administration hs h g primary (ob1\<lparr>og_path_identity := path_id\<rparr>)))"

end
