(* ===== verification/Worktree_Files.thy ===== *)
theory Worktree_Files
  imports Worktree_Git
begin

text \<open>
  The traversals of the worktree inventory (\<open>internal/worktree\<close>: \<open>discovery.go\<close>,
  \<open>filesystem.go\<close>): \<open>filepath.WalkDir\<close> over a finite tree, the discovery of repositories
  under a configured root and the search for nested mounts.
\<close>

section \<open>Walking a directory\<close>

datatype walk_answer = WalkOn | WalkSkipDir | WalkStop git_error

text \<open>
  A callback gets the path, the name and the type of an entry, and whether it is called
  because the entry could not be read.
\<close>

type_synonym 's visitor = "'s \<Rightarrow> string \<Rightarrow> string \<Rightarrow> file_kind \<Rightarrow> bool \<Rightarrow> 's \<times> walk_answer"

fun walk_entry :: "'s visitor \<Rightarrow> 's \<Rightarrow> string \<Rightarrow> dir_tree \<Rightarrow> 's \<times> walk_answer"
  and walk_entries :: "'s visitor \<Rightarrow> 's \<Rightarrow> string \<Rightarrow> dir_tree list \<Rightarrow> 's \<times> walk_answer" where
  "walk_entry visit s path (Node name kind kids) =
     (case visit s path name kind False of
        (s1, WalkOn) \<Rightarrow>
          if kind \<noteq> KindDirectory then (s1, WalkOn)
          else (case kids of
            None \<Rightarrow> (case visit s1 path name kind True of
                (s2, WalkSkipDir) \<Rightarrow> (s2, WalkOn)
              | (s2, a) \<Rightarrow> (s2, a))
          | Some cs \<Rightarrow> walk_entries visit s1 path cs)
      | (s1, WalkSkipDir) \<Rightarrow> (s1, if kind = KindDirectory then WalkOn else WalkSkipDir)
      | (s1, WalkStop e) \<Rightarrow> (s1, WalkStop e))"
| "walk_entries visit s path [] = (s, WalkOn)"
| "walk_entries visit s path (Node name kind kids # rest) =
     (case walk_entry visit s (path_join [path, name]) (Node name kind kids) of
        (s1, WalkOn) \<Rightarrow> walk_entries visit s1 path rest
      | (s1, WalkSkipDir) \<Rightarrow> (s1, WalkOn)
      | (s1, WalkStop e) \<Rightarrow> (s1, WalkStop e))"

definition walk_dir :: "'s visitor \<Rightarrow> 's \<Rightarrow> string \<Rightarrow> dir_tree option \<Rightarrow> 's \<times> git_error option" where
  "walk_dir visit s path tree =
     (case (case tree of None \<Rightarrow> visit s path [] KindOther True | Some t \<Rightarrow> walk_entry visit s path t) of
        (s1, WalkStop e) \<Rightarrow> (s1, Some e)
      | (s1, a) \<Rightarrow> (s1, None))"

section \<open>Discovery\<close>

definition max_discovery_depth :: nat where "max_discovery_depth = 4"
definition max_discovery_entries :: nat where "max_discovery_entries = 50000"

definition depth_below :: "string \<Rightarrow> string \<Rightarrow> nat option" where
  "depth_below root_path path =
     (case path_rel root_path path of
        None \<Rightarrow> None
      | Some rel \<Rightarrow> Some (if rel = ''.'' then 0 else length (split_on (CHR ''/'') rel)))"

definition discover_visit :: "host \<Rightarrow> string \<Rightarrow> (nat \<times> string list) visitor" where
  "discover_visit h root_path st path name kind failed =
     (case st of (entries, repos) \<Rightarrow>
        if failed then (st, WalkStop (Evidence failure_discovery_incomplete (Text ''worktree: root traversal was incomplete'')))
        else (case ho_context h entries of
          Some e \<Rightarrow> (st, WalkStop e)
        | None \<Rightarrow>
            let st1 = (entries + 1, repos) in
            if max_discovery_entries < entries + 1
            then (st1, WalkStop (Evidence failure_discovery_bound (Text ''worktree: root traversal exceeded its entry bound'')))
            else (case depth_below root_path path of
              None \<Rightarrow> (st1, WalkStop (Evidence failure_discovery_incomplete (Text ''worktree: root traversal relation was unavailable'')))
            | Some depth \<Rightarrow>
                if kind = KindSymlink then (st1, WalkOn)
                else let here = name = ''.git'' \<and> 0 < depth \<and> depth - 1 \<le> max_discovery_depth;
                         st2 = (entries + 1, if here then repos @ [path_dir path] else repos) in
                  if here \<and> kind = KindDirectory then (st2, WalkSkipDir)
                  else if max_discovery_depth < depth \<and> kind = KindDirectory then (st2, WalkSkipDir)
                  else (st2, WalkOn))))"

definition discover_repositories :: "host \<Rightarrow> string \<Rightarrow> git_error + string list" where
  "discover_repositories h root_path =
     (case walk_dir (discover_visit h root_path) (0, []) root_path (ho_tree h root_path) of
        ((entries, repos), Some e) \<Rightarrow> Inl e
      | ((entries, repos), None) \<Rightarrow> Inr repos)"

section \<open>Nested filesystems\<close>

definition max_filesystem_entries :: nat where "max_filesystem_entries = 100000"

record filesystem_evidence =
  fv_entries :: nat
  fv_mounts :: nat
  fv_all :: bool

definition mount_visit :: "host \<Rightarrow> string \<Rightarrow> 64 word \<Rightarrow> filesystem_evidence visitor" where
  "mount_visit h root_path device st path name kind failed =
     (if failed then (st, WalkStop (PlainError (Text ''worktree: filesystem traversal was incomplete'')))
      else (case ho_context h (fv_entries st) of
        Some e \<Rightarrow> (st, WalkStop e)
      | None \<Rightarrow>
          let st1 = st\<lparr>fv_entries := fv_entries st + 1\<rparr> in
          if max_filesystem_entries < fv_entries st1
          then (st1, WalkStop (PlainError (Fmt ''worktree: filesystem inspection exceeded %d entries'' [AInt (int max_filesystem_entries)])))
          else if kind \<noteq> KindDirectory \<or> path = root_path then (st1, WalkOn)
          else (case identify h path of
            Inl e \<Rightarrow> (st1, WalkStop (PlainError (Text ''worktree: nested filesystem identity was unavailable'')))
          | Inr i \<Rightarrow> if fi_device i \<noteq> device then (st1\<lparr>fv_mounts := fv_mounts st1 + 1\<rparr>, WalkSkipDir) else (st1, WalkOn))))"

definition no_filesystem :: filesystem_evidence where
  "no_filesystem = \<lparr>fv_entries = 0, fv_mounts = 0, fv_all = False\<rparr>"

definition inspect_filesystem :: "host \<Rightarrow> string \<Rightarrow> git_error + filesystem_evidence" where
  "inspect_filesystem h root_path =
     (case identify h root_path of
        Inl e \<Rightarrow> Inl (PlainError (Text ''worktree: filesystem root identity was unavailable''))
      | Inr i \<Rightarrow>
          (case walk_dir (mount_visit h root_path (fi_device i)) no_filesystem root_path (ho_tree h root_path) of
             (st, Some e) \<Rightarrow> Inl e
           | (st, None) \<Rightarrow> Inr (st\<lparr>fv_all := True\<rparr>)))"

section \<open>Environment links\<close>

fun validate_links :: "host \<Rightarrow> string \<Rightarrow> string list \<Rightarrow> approved_link list \<Rightarrow> detail option" where
  "validate_links h dir seen [] = None"
| "validate_links h dir seen (l # ls) =
     (if al_name l \<in> set seen \<or> (al_name l \<noteq> ''.env'' \<and> al_name l \<noteq> ''.envrc'')
      then Some (Text ''worktree: invalid approved environment link'')
      else let path = path_join [dir, al_name l] in
        if \<not> is_symlink h path then Some (Fmt ''worktree: approved %s link changed'' [AStr (al_name l)])
        else if ho_readlink h path \<noteq> Some (al_text l)
        then Some (Fmt ''worktree: approved %s link target changed'' [AStr (al_name l)])
        else if identify h (fi_path (al_target l)) \<noteq> Inr (al_target l)
        then Some (Fmt ''worktree: approved %s primary target changed'' [AStr (al_name l)])
        else if link_target h dir (al_text l) \<noteq> Some (fi_path (al_target l))
        then Some (Fmt ''worktree: approved %s link no longer resolves exactly'' [AStr (al_name l)])
        else validate_links h dir (al_name l # seen) ls)"

definition validate_approved_links :: "host \<Rightarrow> string \<Rightarrow> approved_link list \<Rightarrow> detail option" where
  "validate_approved_links h dir ls = validate_links h dir [] ls"

end
