(* ===== verification/Worktree_State.thy ===== *)
theory Worktree_State
  imports Worktree_Files
begin

text \<open>
  The continuous-inactivity state machine (\<open>internal/worktree/state.go\<close>): a worktree becomes
  stale only through observations that follow each other closely, all of them undisturbed and
  of the same commit, reference and status.
\<close>

datatype wt_state = WtActive | WtObserving | WtStale | WtProtected | WtUnknown | WtMissing | WtRetired | WtRemoved

text \<open>The record of an earlier conclusion; the state is \<^const>\<open>None\<close> when there is none.\<close>

record inactivity =
  ir_id :: string
  ir_state :: "wt_state option"
  ir_head :: string
  ir_ref :: string
  ir_fingerprint :: string
  ir_last_seen :: gotime
  ir_last_activity :: gotime
  ir_inactive_since :: gotime
  ir_daemon_started :: gotime

definition no_inactivity :: inactivity where
  "no_inactivity = \<lparr>ir_id = [], ir_state = None, ir_head = [], ir_ref = [], ir_fingerprint = [],
     ir_last_seen = 0, ir_last_activity = 0, ir_inactive_since = 0, ir_daemon_started = 0\<rparr>"

record conclusion =
  cn_state :: wt_state
  cn_last_activity :: gotime
  cn_inactive_since :: gotime
  cn_protection :: "string list"

definition reset_window :: "wt_state \<Rightarrow> gotime \<Rightarrow> string list \<Rightarrow> conclusion" where
  "reset_window s now protection = \<lparr>cn_state = s, cn_last_activity = now, cn_inactive_since = 0, cn_protection = protection\<rparr>"

definition window_continues :: "inactivity \<Rightarrow> observation \<Rightarrow> gotime \<Rightarrow> gotime \<Rightarrow> duration \<Rightarrow> bool" where
  "window_continues previous ob now started interval \<longleftrightarrow>
     (ir_state previous = Some WtObserving \<or> ir_state previous = Some WtStale) \<and>
     ir_id previous = og_id ob \<and> ir_daemon_started previous = started \<and>
     \<not> is_zero_time (ir_last_seen previous) \<and> \<not> now < ir_last_seen previous \<and>
     time_sub now (ir_last_seen previous) \<le> wrap64 (2 * interval) \<and> ir_head previous = og_head ob \<and>
     ir_ref previous = og_ref ob \<and> ir_fingerprint previous = se_fingerprint (og_status ob)"

definition classify_worktree ::
  "inactivity \<Rightarrow> observation \<Rightarrow> gotime \<Rightarrow> gotime \<Rightarrow> duration \<Rightarrow> duration \<Rightarrow> bool \<Rightarrow> bool \<Rightarrow> conclusion" where
  "classify_worktree previous ob now started stale_after interval active evidence_complete =
     (let protection = og_protection ob;
          last = (if is_zero_time (ir_last_activity previous) then now else ir_last_activity previous) in
      if \<not> og_present ob \<or> og_prunable ob then reset_window WtMissing now protection
      else if \<not> evidence_complete \<or> \<not> og_complete ob \<or> \<not> og_canonical ob then reset_window WtUnknown now protection
      else if active then reset_window WtActive now protection
      else if protection \<noteq> [] then reset_window WtProtected now protection
      else if \<not> window_continues previous ob now started interval
      then \<lparr>cn_state = WtObserving, cn_last_activity = now, cn_inactive_since = now, cn_protection = []\<rparr>
      else let since = (if is_zero_time (ir_inactive_since previous) \<or> now < ir_inactive_since previous then now
                        else ir_inactive_since previous) in
        \<lparr>cn_state = (if stale_after \<le> time_sub now since then WtStale else WtObserving),
         cn_last_activity = last, cn_inactive_since = since, cn_protection = []\<rparr>)"

text \<open>An observation that disturbs nothing.\<close>

definition undisturbed :: "observation \<Rightarrow> bool \<Rightarrow> bool \<Rightarrow> bool" where
  "undisturbed ob active evidence_complete \<longleftrightarrow> og_present ob \<and> \<not> og_prunable ob \<and> evidence_complete \<and>
     og_complete ob \<and> og_canonical ob \<and> \<not> active \<and> og_protection ob = []"

named_theorems window \<open>facts about the inactivity window\<close>

lemma classify_states [window]:
  "cn_state (classify_worktree p ob now started stale interval active ec) \<in> {WtObserving, WtStale} \<longleftrightarrow>
     undisturbed ob active ec"
  "cn_state (classify_worktree p ob now started stale interval active ec) \<notin> {WtRetired, WtRemoved}"
  by (auto simp: classify_worktree_def undisturbed_def reset_window_def Let_def)

lemma classify_stale [window]:
  assumes "0 < stale" and "cn_state (classify_worktree p ob now started stale interval active ec) = WtStale"
  shows "undisturbed ob active ec \<and> window_continues p ob now started interval \<and> \<not> is_zero_time (ir_inactive_since p) \<and>
    ir_inactive_since p \<le> now \<and> stale \<le> time_sub now (ir_inactive_since p) \<and>
    cn_inactive_since (classify_worktree p ob now started stale interval active ec) = ir_inactive_since p"
  using assms
  by (auto simp: classify_worktree_def undisturbed_def reset_window_def Let_def time_sub_def sat64_def int64_max_def int64_min_def
      split: if_splits)

text \<open>The window either starts now or goes on from the record.\<close>

lemma classify_window [window]:
  assumes "undisturbed ob active ec"
  shows "cn_inactive_since (classify_worktree p ob now started stale interval active ec) = now \<or>
    window_continues p ob now started interval \<and>
    cn_inactive_since (classify_worktree p ob now started stale interval active ec) = ir_inactive_since p"
  using assms by (auto simp: classify_worktree_def undisturbed_def Let_def)

end
