(* ===== verification/Worktree_Store.thy ===== *)
theory Worktree_Store
  imports Worktree_State Store
begin

text \<open>
  The tables of the worktree lane (\<open>internal/storage\<close>: \<open>worktree.go\<close>,
  \<open>worktree_action.go\<close>, \<open>worktree_types.go\<close>). JSON columns hold the values they encode.
\<close>

section \<open>Rows\<close>

datatype wt_source = SourceRoot | SourceSession

text \<open>In the order of their names, \<open>configured_root\<close> before \<open>session\<close>.\<close>

definition sorted_sources :: "wt_source list \<Rightarrow> wt_source list" where
  "sorted_sources ss = filter (\<lambda>s. s \<in> set ss) [SourceRoot, SourceSession]"

record wt_evidence =
  we_status :: status_evidence
  we_primary :: bool
  we_detached :: bool
  we_published :: bool
  we_reachable :: bool
  we_submodules :: bool
  we_operations :: "string list"

text \<open>The outcome of a full validation, which an action journals as its evidence.\<close>

record validation =
  va_observation :: observation
  va_usage :: path_usage
  va_filesystem :: filesystem_evidence
  va_git :: git_identity
  va_primary :: string
  va_recreate :: string

datatype wt_proof = Validated validation | Because detail

record worktree_row =
  wr_id :: string
  wr_path :: string
  wr_device :: "64 word"
  wr_inode :: "64 word"
  wr_common :: string
  wr_admin :: string
  wr_head :: string
  wr_ref :: string
  wr_branch :: string
  wr_sources :: "wt_source list"
  wr_state :: wt_state
  wr_first_seen :: int
  wr_last_seen :: int
  wr_last_activity :: int
  wr_inactive_since :: int
  wr_daemon_started :: int
  wr_fingerprint :: string
  wr_protection :: "string list"
  wr_evidence :: "wt_evidence + validation"
  wr_links :: "approved_link list"
  wr_git :: git_identity
  wr_registered :: bool
  wr_complete :: bool
  wr_removed :: "int option"
  wr_recreate :: string
  wr_original :: string
  wr_retired :: "int option"
  wr_grace_until :: int

datatype wt_result = WtAttempting | WtRetiredResult | WtRestored | WtRemovedResult | WtRejected | WtFailed
  | WtPurging | WtPartial

record wt_action =
  wa_id :: string
  wa_worktree :: string
  wa_path :: string
  wa_branch :: string
  wa_requested :: int
  wa_updated :: int
  wa_result :: wt_result
  wa_reason :: detail
  wa_evidence :: wt_proof
  wa_recreate :: string

record wt_store =
  ws_worktrees :: "(string \<times> worktree_row) list"
  ws_actions :: "wt_action list"
  ws_audit :: "(int \<times> string \<times> string \<times> detail \<times> wt_proof) list"

definition empty_wt_store :: wt_store where
  "empty_wt_store = \<lparr>ws_worktrees = [], ws_actions = [], ws_audit = []\<rparr>"

definition wt_tx :: "string option \<Rightarrow> (wt_store \<Rightarrow> detail + wt_store) \<Rightarrow> wt_store \<Rightarrow> detail option \<times> wt_store" where
  "wt_tx fault f s =
     (case fault of
        Some e \<Rightarrow> (Some (Text e), s)
      | None \<Rightarrow> (case f s of Inl e \<Rightarrow> (Some e, s) | Inr s' \<Rightarrow> (None, s')))"

section \<open>Statements\<close>

text \<open>An upsert keeps the time of the first observation.\<close>

definition upsert_worktree :: "worktree_row \<Rightarrow> wt_store \<Rightarrow> wt_store" where
  "upsert_worktree r s =
     s\<lparr>ws_worktrees := AList.update (wr_id r)
         (case map_of (ws_worktrees s) (wr_id r) of
            None \<Rightarrow> r
          | Some old \<Rightarrow> r\<lparr>wr_first_seen := wr_first_seen old\<rparr>) (ws_worktrees s)\<rparr>"

definition reset_worktree_inactivity :: "int \<Rightarrow> int \<Rightarrow> wt_store \<Rightarrow> wt_store" where
  "reset_worktree_inactivity at_ns started_ns s =
     s\<lparr>ws_worktrees := List.map (\<lambda>(k, r).
         (k, if wr_state r = WtRemoved \<or> wr_state r = WtRetired then r
             else r\<lparr>wr_state := WtUnknown, wr_last_activity := at_ns, wr_inactive_since := 0,
                    wr_daemon_started := started_ns, wr_complete := False,
                    wr_protection := [''daemon_scan_incomplete'']\<rparr>)) (ws_worktrees s)\<rparr>"

definition unresolved :: "wt_store \<Rightarrow> string \<Rightarrow> bool" where
  "unresolved s i \<longleftrightarrow> (\<exists>a \<in> set (ws_actions s). wa_worktree a = i \<and>
     (wa_result a = WtAttempting \<or> wa_result a = WtPurging \<or> wa_result a = WtPartial))"

text \<open>Registered rows first, then those with unresolved actions, then the newest.\<close>

definition inventory_order :: "wt_store \<Rightarrow> worktree_row list \<Rightarrow> worktree_row list" where
  "inventory_order s rs =
     sort_key (\<lambda>r. if wr_registered r then (0::nat) else 1)
       (sort_key (\<lambda>r. if unresolved s (wr_id r) then (0::nat) else 1)
         (sort_key (\<lambda>r. - wr_last_seen r) (sort_key wr_id rs)))"

definition current_rows :: "wt_store \<Rightarrow> worktree_row list" where
  "current_rows s = filter (\<lambda>r. wr_state r \<noteq> WtRemoved) (List.map snd (ws_worktrees s))"

definition prune_absent_worktrees :: "nat \<Rightarrow> wt_store \<Rightarrow> detail + wt_store" where
  "prune_absent_worktrees bound s =
     (if bound < 1 then Inl (Text ''storage: worktree inventory bound must be positive'')
      else let kept = List.map wr_id (take bound (inventory_order s (current_rows s))) in
        Inr (s\<lparr>ws_worktrees := filter (\<lambda>(k, r). \<not> (\<not> wr_registered r \<and> wr_state r \<noteq> WtRemoved \<and> wr_state r \<noteq> WtRetired \<and>
             \<not> unresolved s (wr_id r) \<and> wr_id r \<notin> set kept)) (ws_worktrees s)\<rparr>))"

definition insert_wt_action :: "wt_action \<Rightarrow> wt_store \<Rightarrow> detail + wt_store" where
  "insert_wt_action a s =
     (if \<exists>b \<in> set (ws_actions s). wa_id b = wa_id a
      then Inl (Fmt ''storage: inserting worktree action %s'' [AStr (wa_id a)])
      else Inr (s\<lparr>ws_actions := ws_actions s @ [a]\<rparr>))"

definition update_wt_action :: "string \<Rightarrow> wt_result \<Rightarrow> detail \<Rightarrow> wt_proof \<Rightarrow> int \<Rightarrow> wt_store \<Rightarrow> detail + wt_store" where
  "update_wt_action i result reason evidence at_ns s =
     (if length (filter (\<lambda>a. wa_id a = i) (ws_actions s)) \<noteq> 1
      then Inl (Fmt ''storage: updating worktree action %s: not found'' [AStr i])
      else Inr (s\<lparr>ws_actions := List.map (\<lambda>a. if wa_id a = i then a\<lparr>wa_result := result, wa_reason := reason,
             wa_evidence := evidence, wa_updated := at_ns\<rparr> else a) (ws_actions s)\<rparr>))"

definition wt_audit :: "int \<times> string \<times> string \<times> detail \<times> wt_proof \<Rightarrow> wt_store \<Rightarrow> wt_store" where
  "wt_audit entry s = s\<lparr>ws_audit := ws_audit s @ [entry]\<rparr>"

section \<open>Queries\<close>

definition list_current_worktrees :: "int \<Rightarrow> wt_store \<Rightarrow> worktree_row list" where
  "list_current_worktrees limit s =
     take (nat (if limit \<le> 0 \<or> 500 < limit then 500 else limit)) (inventory_order s (current_rows s))"

definition list_worktrees :: "wt_state option \<Rightarrow> wt_source option \<Rightarrow> int \<Rightarrow> wt_store \<Rightarrow> worktree_row list" where
  "list_worktrees state source limit s =
     take (nat (if limit \<le> 0 \<or> 500 < limit then 100 else limit))
       (sort_key (\<lambda>r. - wr_last_seen r) (sort_key wr_id (filter (\<lambda>r.
          (case state of None \<Rightarrow> True | Some x \<Rightarrow> wr_state r = x) \<and>
          (case source of None \<Rightarrow> True | Some x \<Rightarrow> x \<in> set (wr_sources r))) (List.map snd (ws_worktrees s)))))"

definition valid_worktree_prefix :: "string \<Rightarrow> bool" where
  "valid_worktree_prefix v \<longleftrightarrow> 1 \<le> length v \<and> length v \<le> 64 \<and>
     list_all (\<lambda>c. is_digit c \<or> (of_char c :: nat) \<in> {97..102}) v"

definition get_worktree :: "wt_store \<Rightarrow> string \<Rightarrow> detail + worktree_row" where
  "get_worktree s v =
     (if \<not> valid_worktree_prefix v
      then Inl (Text ''storage: worktree identity must be a 1-64 character lowercase hexadecimal prefix'')
      else let rows = take 2 (sort_key (\<lambda>r. - wr_last_seen r)
             (filter (\<lambda>r. has_prefix v (wr_id r)) (List.map snd (ws_worktrees s)))) in
        (case List.find (\<lambda>r. wr_id r = v) rows of
           Some r \<Rightarrow> Inr r
         | None \<Rightarrow>
             (case rows of
                [] \<Rightarrow> Inl (Text ''not found'')
              | [r] \<Rightarrow> Inr r
              | _ \<Rightarrow> Inl (Fmt ''ambiguous: %s'' [AStr v]))))"

definition list_wt_actions :: "string \<Rightarrow> wt_result option \<Rightarrow> int \<Rightarrow> wt_store \<Rightarrow> wt_action list" where
  "list_wt_actions i result limit s =
     take (nat (if limit \<le> 0 \<or> 500 < limit then 100 else limit))
       (rev (sort_key wa_requested (filter (\<lambda>a. (i = [] \<or> wa_worktree a = i) \<and>
          (case result of None \<Rightarrow> True | Some x \<Rightarrow> wa_result a = x)) (ws_actions s))))"

definition wt_action_counts :: "wt_store \<Rightarrow> int \<times> int \<times> int \<times> int" where
  "wt_action_counts s =
     (let n = (\<lambda>P. int (length (filter P (List.map wa_result (ws_actions s))))) in
      (n (\<lambda>r. r \<noteq> WtRejected), n (\<lambda>r. r = WtRejected), n (\<lambda>r. r = WtRemovedResult), n (\<lambda>r. r = WtFailed)))"

end
