(* ===== verification/Worktree_Scan.thy ===== *)
theory Worktree_Scan
  imports Worktree_Store Scan
begin

text \<open>
  The worktree inventory of an observation cycle (\<open>internal/daemon\<close>: \<open>worktree_scan.go\<close>,
  \<open>worktree_scan_failure.go\<close>, \<open>worktree_retired_scan.go\<close>, and what \<open>scan.go\<close> persists of it).
  The iteration over Go's maps takes their keys in the order of insertion; the result is sorted
  by identifier.
\<close>

section \<open>Repositories\<close>

record inventory =
  wi_cfg :: worktrees
  wi_git :: "git_error + git_adapter"
  wi_started :: gotime
  wi_last_at :: gotime

text \<open>What the store answers during one request: the errors of its two queries, and its sessions.\<close>

record stored_facts =
  sf_rows_error :: "git_error option"
  sf_sessions :: "git_error + session_record list"

definition max_inventory_worktrees :: nat where "max_inventory_worktrees = 500"

type_synonym sources = "(string \<times> wt_source list) list"

definition add_source :: "host \<Rightarrow> wt_source \<Rightarrow> string \<Rightarrow> sources \<Rightarrow> sources" where
  "add_source h source path out =
     (if path = [] then out
      else (case ho_lstat h path of
        Found i \<Rightarrow>
          if in_kind i \<noteq> KindDirectory then out
          else AList.update path (source # (case map_of out path of None \<Rightarrow> [] | Some ss \<Rightarrow> ss)) out
      | _ \<Rightarrow> out))"

fun discover_roots :: "host \<Rightarrow> string list \<Rightarrow> sources \<Rightarrow> git_error + sources" where
  "discover_roots h [] out = Inr out"
| "discover_roots h (r # rs) out =
     (case discover_repositories h r of
        Inl e \<Rightarrow> Inl e
      | Inr paths \<Rightarrow> discover_roots h rs (fold (add_source h SourceRoot) paths out))"

definition worktree_repositories ::
  "inventory \<Rightarrow> host \<Rightarrow> stored_facts \<Rightarrow> session_record list \<Rightarrow> git_error + sources" where
  "worktree_repositories inven h sf current =
     (case sf_sessions sf of
        Inl e \<Rightarrow> Inl e
      | Inr stored \<Rightarrow>
          (case discover_roots h (wt_roots (wi_cfg inven))
                  (fold (add_source h SourceSession) (List.map sr_repository stored @ List.map sr_repository current) []) of
             Inl e \<Rightarrow> Inl e
           | Inr out \<Rightarrow>
               if max_inventory_worktrees < length out
               then Inl (PlainError (Fmt ''worktree repository source count exceeded %d'' [AInt (int max_inventory_worktrees)]))
               else Inr out))"

section \<open>Use of a worktree\<close>

definition within_worktree :: "string \<Rightarrow> string \<Rightarrow> bool" where
  "within_worktree dir path \<longleftrightarrow> dir \<noteq> [] \<and> path \<noteq> [] \<and>
     (case path_rel dir path of
        None \<Rightarrow> False
      | Some rel \<Rightarrow> rel \<noteq> ''..'' \<and> \<not> is_abs rel \<and> \<not> has_prefix ''../'' rel)"

definition complete_process_evidence :: "snapshot \<Rightarrow> bool" where
  "complete_process_evidence snap \<longleftrightarrow>
     list_all (\<lambda>p. pr_detailed p \<and> (pr_status p = StatusZombie \<or> pr_cwd p \<noteq> [])) (sn_procs snap)"

definition worktree_active :: "string \<Rightarrow> snapshot \<Rightarrow> session_record list \<Rightarrow> bool" where
  "worktree_active dir snap ss \<longleftrightarrow>
     (\<exists>p \<in> set (sn_procs snap). pr_detailed p \<and> within_worktree dir (pr_cwd p)) \<or>
     (\<exists>s \<in> set ss. live (sr_state s) \<and> sr_repository s = dir)"

section \<open>One row\<close>

definition time_or_zero :: "gotime \<Rightarrow> int" where
  "time_or_zero t = (if is_zero_time t then 0 else unix_nano t)"

definition time_from_ns :: "int \<Rightarrow> gotime" where
  "time_from_ns n = (if n = 0 then 0 else time_unix n)"

definition validate_fresh_observation :: "worktree_row \<Rightarrow> observation \<Rightarrow> detail option" where
  "validate_fresh_observation r ob = first_failure
     [(\<not> og_complete ob \<or> \<not> og_present ob \<or> \<not> og_canonical ob, Text ''fresh Git observation is incomplete''),
      (og_id ob \<noteq> wr_id r \<or> og_path ob \<noteq> wr_path r \<or> og_common ob \<noteq> wr_common r \<or> og_admin ob \<noteq> wr_admin r,
       Text ''registered worktree identity or path changed''),
      (fi_device (og_path_identity ob) \<noteq> wr_device r \<or> fi_inode (og_path_identity ob) \<noteq> wr_inode r,
       Text ''worktree directory inode changed''),
      (og_head ob \<noteq> wr_head r \<or> og_ref ob \<noteq> wr_ref r \<or> og_branch ob \<noteq> wr_branch r \<or>
         se_fingerprint (og_status ob) \<noteq> wr_fingerprint r,
       Text ''worktree HEAD, ref, branch or aggregate status changed''),
      (og_protection ob \<noteq> [], Fmt ''worktree is protected: %v'' (List.map AStr (og_protection ob)))]"

definition retired_worktree_record :: "worktree_row \<Rightarrow> observation \<Rightarrow> gotime \<Rightarrow> bool \<Rightarrow> worktree_row" where
  "retired_worktree_record previous ob now evidence_complete =
     (let ok = evidence_complete \<and> validate_fresh_observation previous ob = None;
          r = previous\<lparr>wr_last_seen := unix_nano now, wr_registered := True, wr_complete := ok\<rparr> in
      if ok then r else r\<lparr>wr_protection := [''retired_identity_or_observation_changed'']\<rparr>)"

definition prior_of :: "worktree_row option \<Rightarrow> observation \<Rightarrow> wt_source list \<Rightarrow> inactivity" where
  "prior_of previous ob sources =
     (case previous of
        None \<Rightarrow> no_inactivity
      | Some r \<Rightarrow> \<lparr>ir_id = wr_id r,
          ir_state = Some (if wr_path r \<noteq> og_path ob \<or> wr_device r \<noteq> fi_device (og_path_identity ob) \<or>
              wr_inode r \<noteq> fi_inode (og_path_identity ob) \<or> wr_sources r \<noteq> sources then WtUnknown else wr_state r),
          ir_head = wr_head r, ir_ref = wr_ref r, ir_fingerprint = wr_fingerprint r,
          ir_last_seen = time_from_ns (wr_last_seen r), ir_last_activity = time_from_ns (wr_last_activity r),
          ir_inactive_since = time_from_ns (wr_inactive_since r), ir_daemon_started = time_from_ns (wr_daemon_started r)\<rparr>)"

definition evidence_of :: "observation \<Rightarrow> wt_evidence" where
  "evidence_of ob = \<lparr>we_status = og_status ob, we_primary = og_primary ob, we_detached = og_detached ob,
     we_published = og_published ob, we_reachable = og_reachable ob, we_submodules = og_submodules ob,
     we_operations = og_operations ob\<rparr>"

definition no_git_identity :: git_identity where
  "no_git_identity = \<lparr>gi_file = no_file, gi_digest = []\<rparr>"

definition worktree_row_of ::
  "inventory \<Rightarrow> git_identity \<Rightarrow> worktree_row option \<Rightarrow> observation \<Rightarrow> wt_source list \<Rightarrow> bool \<Rightarrow> gotime \<Rightarrow> bool
     \<Rightarrow> worktree_row" where
  "worktree_row_of inven git previous ob sources active now evidence_complete =
     (let c = classify_worktree (prior_of previous ob sources) ob now (wi_started inven) (wt_stale_after (wi_cfg inven))
            (wt_scan_interval (wi_cfg inven)) active evidence_complete;
          first = (case previous of None \<Rightarrow> 0 | Some r \<Rightarrow> wr_first_seen r) in
      \<lparr>wr_id = og_id ob, wr_path = og_path ob, wr_device = fi_device (og_path_identity ob),
       wr_inode = fi_inode (og_path_identity ob), wr_common = og_common ob, wr_admin = og_admin ob,
       wr_head = og_head ob, wr_ref = og_ref ob, wr_branch = og_branch ob, wr_sources = sources,
       wr_state = cn_state c, wr_first_seen = (if first = 0 then unix_nano now else first),
       wr_last_seen = unix_nano now, wr_last_activity = unix_nano (cn_last_activity c),
       wr_inactive_since = time_or_zero (cn_inactive_since c), wr_daemon_started = unix_nano (wi_started inven),
       wr_fingerprint = se_fingerprint (og_status ob),
       wr_protection = cn_protection c @ (if active then [''same_user_process_or_active_session''] else []) @
         (if \<not> evidence_complete then [''process_scan_incomplete''] else []),
       wr_evidence = Inl (evidence_of ob), wr_links = og_links ob, wr_git = git, wr_registered = True,
       wr_complete = og_complete ob \<and> evidence_complete, wr_removed = None, wr_recreate = [], wr_original = [],
       wr_retired = None, wr_grace_until = 0\<rparr>)"

definition worktree_record ::
  "inventory \<Rightarrow> git_identity \<Rightarrow> worktree_row option \<Rightarrow> observation \<Rightarrow> wt_source list \<Rightarrow> snapshot \<Rightarrow> session_record list
     \<Rightarrow> gotime \<Rightarrow> bool \<Rightarrow> worktree_row" where
  "worktree_record inven git previous ob found snap ss now evidence_complete =
     (let active = worktree_active (og_path ob) snap ss in
      case previous of
        Some r \<Rightarrow>
          if wr_state r = WtRetired then retired_worktree_record r ob now evidence_complete
          else worktree_row_of inven git previous ob (sorted_sources found) active now evidence_complete
      | None \<Rightarrow> worktree_row_of inven git previous ob (sorted_sources found) active now evidence_complete)"

section \<open>Batches\<close>

record wt_batch =
  wb_due :: bool
  wb_at :: gotime
  wb_rows :: "worktree_row list"
  wb_audit :: "(int \<times> string \<times> string \<times> detail \<times> wt_proof) list"

text \<open>Nothing is known of the worktrees: the window of every row starts again.\<close>

definition unknown_row :: "inventory \<Rightarrow> gotime \<Rightarrow> string \<Rightarrow> worktree_row \<Rightarrow> worktree_row" where
  "unknown_row inven now protection r =
     r\<lparr>wr_state := WtUnknown, wr_last_activity := unix_nano now, wr_inactive_since := 0,
       wr_daemon_started := unix_nano (wi_started inven), wr_complete := False, wr_protection := [protection]\<rparr>"

definition unknown_worktree_batch :: "inventory \<Rightarrow> worktree_row list \<Rightarrow> gotime \<Rightarrow> git_error \<Rightarrow> wt_batch" where
  "unknown_worktree_batch inven existing now cause =
     \<lparr>wb_due = True, wb_at = now,
      wb_rows = List.map (unknown_row inven now ''worktree_scan_incomplete'') (filter (\<lambda>r. wr_state r \<noteq> WtRemoved) existing),
      wb_audit = [(unix_nano now, ''worktree.scan.incomplete'', ''worktrees'',
        Text ''worktree observation was incomplete; every inactivity window was reset'',
        Because (Fmt ''inventory failed closed: %s'' [AStr (evidence_category cause)]))]\<rparr>"

definition missing_worktree_record :: "worktree_row \<Rightarrow> gotime \<Rightarrow> gotime \<Rightarrow> worktree_row" where
  "missing_worktree_record r now started =
     r\<lparr>wr_state := WtMissing, wr_last_activity := unix_nano now, wr_inactive_since := 0,
       wr_daemon_started := unix_nano started, wr_complete := False, wr_registered := False,
       wr_protection := [''worktree_missing'']\<rparr>"

definition incomplete_process_batch :: "inventory \<Rightarrow> wt_batch \<Rightarrow> wt_batch" where
  "incomplete_process_batch inven b =
     b\<lparr>wb_rows := List.map (\<lambda>r. if wr_state r = WtRemoved then r else unknown_row inven (wb_at b) ''process_scan_incomplete'' r) (wb_rows b),
       wb_audit := wb_audit b @ [(unix_nano (wb_at b), ''worktree.scan.incomplete'', ''worktrees'',
        Text ''worktree inventory was refreshed without complete process evidence; inactivity was reset'',
        Because (Text ''process evidence failed closed: process_evidence_incomplete''))]\<rparr>"

section \<open>The inventory\<close>

type_synonym reg_groups = "(string \<times> registration list \<times> wt_source list) list"

text \<open>Repositories with the same common directory are one group.\<close>

fun group_registrations :: "host \<Rightarrow> git_adapter \<Rightarrow> sources \<Rightarrow> reg_groups \<Rightarrow> git_error + reg_groups" where
  "group_registrations h g [] groups = Inr groups"
| "group_registrations h g ((path, ss) # rest) groups =
     (case git_registrations h g path of
        Inl e \<Rightarrow> Inl e
      | Inr [] \<Rightarrow> group_registrations h g rest groups
      | Inr (r # rs) \<Rightarrow>
          let k = (if rg_common r = [] then path_clean (rg_path r) else rg_common r);
              entry = (case map_of groups k of None \<Rightarrow> (r # rs, ss) | Some (recs, ss') \<Rightarrow> (recs, ss' @ ss)) in
          group_registrations h g rest (AList.update k entry groups))"

type_synonym observed = "(string \<times> observation \<times> wt_source list) list"

definition observe_registration ::
  "hash_ops \<Rightarrow> host \<Rightarrow> git_adapter \<Rightarrow> gotime \<Rightarrow> (string \<times> string) list \<Rightarrow> string \<Rightarrow> wt_source list \<Rightarrow> registration
     \<Rightarrow> observed \<Rightarrow> observed" where
  "observe_registration hs h g now path_ids primary ss r seen =
     (let ob = inspect hs h g now r primary;
          i = (if og_id ob \<noteq> [] then og_id ob
               else (case map_of (rev path_ids) (rg_path r) of None \<Rightarrow> [] | Some i \<Rightarrow> i)) in
      if i = [] then seen
      else AList.update i (case map_of seen i of
          None \<Rightarrow> (ob\<lparr>og_id := i\<rparr>, ss)
        | Some (ob', ss') \<Rightarrow> (ob', ss' @ ss)) seen)"

fun observe_registrations ::
  "hash_ops \<Rightarrow> host \<Rightarrow> git_adapter \<Rightarrow> gotime \<Rightarrow> (string \<times> string) list \<Rightarrow> (string \<times> wt_source list \<times> registration) list
     \<Rightarrow> observed \<Rightarrow> git_error + observed" where
  "observe_registrations hs h g now path_ids [] seen = Inr seen"
| "observe_registrations hs h g now path_ids ((primary, ss, r) # rest) seen =
     (let seen' = observe_registration hs h g now path_ids primary ss r seen in
      if max_inventory_worktrees < length seen'
      then Inl (PlainError (Fmt ''worktree inventory exceeded %d entries'' [AInt (int max_inventory_worktrees)]))
      else observe_registrations hs h g now path_ids rest seen')"

definition group_members :: "reg_groups \<Rightarrow> (string \<times> wt_source list \<times> registration) list" where
  "group_members groups = concat (List.map (\<lambda>(k, rs, ss). List.map (\<lambda>r. (rg_path (hd rs), ss, r)) rs) groups)"

definition observe_worktrees ::
  "hash_ops \<Rightarrow> inventory \<Rightarrow> host \<Rightarrow> stored_facts \<Rightarrow> session_record list \<Rightarrow> gotime \<Rightarrow> worktree_row list
     \<Rightarrow> git_error + git_adapter \<times> observed" where
  "observe_worktrees hs inven h sf ss now existing =
     (case wi_git inven of
        Inl e \<Rightarrow> Inl e
      | Inr g \<Rightarrow>
          (case verify_identity h g of
             Some e \<Rightarrow> Inl e
           | None \<Rightarrow>
               (case worktree_repositories inven h sf ss of
                  Inl e \<Rightarrow> Inl e
                | Inr repos \<Rightarrow>
                    (case group_registrations h g repos [] of
                       Inl e \<Rightarrow> Inl e
                     | Inr groups \<Rightarrow>
                         (case observe_registrations hs h g now (List.map (\<lambda>r. (wr_path r, wr_id r)) existing)
                                 (group_members groups) [] of
                            Inl e \<Rightarrow> Inl e
                          | Inr seen \<Rightarrow> Inr (g, seen))))))"

text \<open>A row that the inventory no longer shows: a retirement stays one, everything else is missing.\<close>

definition absent_row :: "inventory \<Rightarrow> gotime \<Rightarrow> worktree_row \<Rightarrow> worktree_row option" where
  "absent_row inven now r =
     (if wr_state r = WtRemoved then None
      else if wr_state r = WtRetired then Some (r\<lparr>wr_last_seen := unix_nano now, wr_registered := False,
             wr_complete := False, wr_protection := [''retired_registration_missing'']\<rparr>)
      else Some (missing_worktree_record r now (wi_started inven)))"

definition collect_worktrees ::
  "hash_ops \<Rightarrow> inventory \<Rightarrow> host \<Rightarrow> stored_facts \<Rightarrow> snapshot \<Rightarrow> session_record list \<Rightarrow> wt_store \<Rightarrow> wt_batch" where
  "collect_worktrees hs inven h sf snap ss s =
     (let now = sn_taken snap; cfg = wi_cfg inven; none = \<lparr>wb_due = False, wb_at = now, wb_rows = [], wb_audit = []\<rparr> in
      if \<not> wt_enabled cfg \<or>
        (\<not> is_zero_time (wi_last_at inven) \<and> time_sub now (wi_last_at inven) < wt_scan_interval cfg) then none
      else (case sf_rows_error sf of
        Some e \<Rightarrow> unknown_worktree_batch inven [] now e
      | None \<Rightarrow>
          let existing = list_current_worktrees (int max_inventory_worktrees) s in
          (case observe_worktrees hs inven h sf ss now existing of
             Inl e \<Rightarrow> unknown_worktree_batch inven existing now e
           | Inr (g, seen) \<Rightarrow>
               let evidence = complete_process_evidence snap;
                   previous = (\<lambda>i. map_of (rev (List.map (\<lambda>r. (wr_id r, r)) existing)) i);
                   found = List.map (\<lambda>(i, ob, srcs). worktree_record inven (ga_identity g) (previous i) ob srcs snap ss now evidence) seen;
                   gone = List.map_filter (absent_row inven now) (filter (\<lambda>r. wr_id r \<notin> fst ` set seen) existing) in
               none\<lparr>wb_due := True, wb_rows := sort_key wr_id (found @ gone)\<rparr>)))"

section \<open>What a cycle writes\<close>

definition store_batch :: "wt_batch \<Rightarrow> wt_store \<Rightarrow> detail + wt_store" where
  "store_batch b s =
     (let s1 = fold upsert_worktree (wb_rows b) s in
      case (if wb_due b then prune_absent_worktrees max_inventory_worktrees s1 else Inr s1) of
        Inl e \<Rightarrow> Inl e
      | Inr s2 \<Rightarrow> Inr (fold wt_audit (wb_audit b) s2))"

text \<open>A cycle that worked, and one that failed before its snapshot could be used.\<close>

definition worktree_cycle ::
  "hash_ops \<Rightarrow> host \<Rightarrow> stored_facts \<Rightarrow> string option \<Rightarrow> snapshot \<Rightarrow> session_record list \<Rightarrow> inventory \<Rightarrow> wt_store
     \<Rightarrow> inventory \<times> wt_store" where
  "worktree_cycle hs h sf fault snap ss inven s =
     (let b = collect_worktrees hs inven h sf snap ss s in
      case wt_tx fault (store_batch b) s of
        (Some e, _) \<Rightarrow> (inven, s)
      | (None, s') \<Rightarrow> (if wb_due b then inven\<lparr>wi_last_at := wb_at b\<rparr> else inven, s'))"

definition worktree_failed_cycle ::
  "hash_ops \<Rightarrow> host \<Rightarrow> stored_facts \<Rightarrow> string option \<Rightarrow> gotime \<Rightarrow> inventory \<Rightarrow> wt_store \<Rightarrow> inventory \<times> wt_store" where
  "worktree_failed_cycle hs h sf fault start inven s =
     (let b0 = collect_worktrees hs inven h sf (new_snapshot start [] 0) [] s;
          b = (if wb_due b0 then incomplete_process_batch inven b0 else b0) in
      case wt_tx fault (\<lambda>s. store_batch b (reset_worktree_inactivity (unix_nano start) (unix_nano (wi_started inven)) s)) s of
        (Some e, _) \<Rightarrow> (inven, s)
      | (None, s') \<Rightarrow> (if wb_due b then inven\<lparr>wi_last_at := wb_at b\<rparr> else inven, s'))"

end
