(* ===== verification/Worktree_Lane.thy ===== *)
theory Worktree_Lane
  imports Worktree_Scan Cache_Lane
begin

text \<open>
  Retirement, restoration and finalisation of worktrees (\<open>internal/daemon\<close>:
  \<open>worktree_approval.go\<close>, \<open>worktree_validation.go\<close>, \<open>worktree_retired_validation.go\<close>,
  \<open>worktree_removal.go\<close>, \<open>worktree_restore.go\<close>, \<open>worktree_purge.go\<close>, \<open>worktree_lifecycle.go\<close>).
  The state of the operating system is a parameter: \<open>wv_view\<close> shows it, and running Git's
  \<open>worktree move\<close> is the only operation of the daemon that changes it.
\<close>

section \<open>State\<close>

datatype wt_kind = WtRetire | WtRestore | WtPurge

fun wt_kind_name :: "wt_kind \<Rightarrow> string" where
  "wt_kind_name WtRetire = ''retire''"
| "wt_kind_name WtRestore = ''restore''"
| "wt_kind_name WtPurge = ''purge''"

record wt_approval =
  wp_kind :: wt_kind
  wp_binding :: string
  wp_row :: worktree_row
  wp_validation :: validation
  wp_expires :: gotime
  wp_used :: bool

record wt_purge_plan =
  wg_action :: string
  wg_worktree :: string
  wg_primary :: string
  wg_retired_path :: string
  wg_git :: git_identity
  wg_path_identity :: file_identity
  wg_links :: "approved_link list"
  wg_expires :: int
  wg_completion :: string

record wt_purge_execution =
  wx_plan :: wt_purge_plan
  wx_row :: worktree_row
  wx_validation :: validation
  wx_action :: wt_action
  wx_used :: bool

record wt_daemon =
  wd_inventory :: inventory
  wd_platform :: string
  wd_fs_healthy :: bool
  wd_approvals :: "(string \<times> wt_approval) list"
  wd_plans :: "(string \<times> wt_purge_execution) list"
  wd_degraded :: "detail list"

text \<open>Effects: a committed change of an action's row, and a call of \<open>git worktree move\<close>.\<close>

datatype wt_effect = WtJournaled string wt_result | WtMove string string

record 'f wt_world =
  ww_daemon :: wt_daemon
  ww_tables :: wt_store
  ww_host :: 'f
  ww_effects :: "wt_effect list"

record 'f wt_env =
  wv_view :: "'f \<Rightarrow> host"
  wv_exec :: "string list \<Rightarrow> 'f \<Rightarrow> exec_outcome \<times> 'f"
  wv_facts :: stored_facts
  wv_begin_tx :: "string option"
  wv_finish_tx :: "string option"
  wv_audit_tx :: "string option"
  wv_secret :: "string + string"
  wv_action_secret :: "string + string"
  wv_now :: gotime
  wv_check :: gotime
  wv_done :: gotime
  wv_binding_json :: "worktree_row \<Rightarrow> validation \<Rightarrow> worktrees \<Rightarrow> string"

definition start_wt_daemon :: "worktrees \<Rightarrow> git_error + git_adapter \<Rightarrow> gotime \<Rightarrow> string \<Rightarrow> wt_daemon" where
  "start_wt_daemon c g started platform = \<lparr>wd_inventory = \<lparr>wi_cfg = c, wi_git = g, wi_started = started, wi_last_at = 0\<rparr>,
     wd_platform = platform, wd_fs_healthy = True, wd_approvals = [], wd_plans = [], wd_degraded = []\<rparr>"

definition short_id :: "string \<Rightarrow> string" where "short_id i = take 8 i"

section \<open>Commands shown to the operator\<close>

definition shell_quote :: "string \<Rightarrow> string" where
  "shell_quote v = CHR 0x27 # concat (List.map (\<lambda>c. if c = CHR 0x27 then [CHR 0x27, CHR 0x22, CHR 0x27, CHR 0x22, CHR 0x27] else [c]) v) @ [CHR 0x27]"

definition recreate_command :: "string \<Rightarrow> worktree_row \<Rightarrow> string" where
  "recreate_command primary r =
     (if wr_branch r \<noteq> []
      then ''git -C '' @ shell_quote primary @ '' worktree add '' @ shell_quote (wr_path r) @ '' '' @ shell_quote (wr_branch r)
      else ''git -C '' @ shell_quote primary @ '' worktree add --detach '' @ shell_quote (wr_path r) @ '' '' @ shell_quote (wr_head r))"

definition restore_hint :: "string \<Rightarrow> string" where
  "restore_hint i = ''ghostgc worktree restore --dry-run --worktree '' @ i"

section \<open>Validation\<close>

definition active_session_in_worktree :: "stored_facts \<Rightarrow> string \<Rightarrow> bool" where
  "active_session_in_worktree sf path =
     (case sf_sessions sf of Inl e \<Rightarrow> True | Inr ss \<Rightarrow> \<exists>s \<in> set ss. sr_repository s = path \<and> live (sr_state s))"

text \<open>The sources that still lead to the worktree, from the registrations of every repository.\<close>

fun fresh_sources :: "hash_ops \<Rightarrow> host \<Rightarrow> git_adapter \<Rightarrow> worktree_row \<Rightarrow> sources \<Rightarrow> git_error + wt_source list" where
  "fresh_sources hs h g r [] = Inr []"
| "fresh_sources hs h g r ((path, ss) # rest) =
     (case git_registrations h g path of
        Inl e \<Rightarrow> Inl e
      | Inr recs \<Rightarrow>
          (case fresh_sources hs h g r rest of
             Inl e \<Rightarrow> Inl e
           | Inr found \<Rightarrow>
               Inr (if \<exists>x \<in> set recs. path_clean (rg_path x) = wr_path r \<and> registration_id hs h x = Some (wr_id r)
                    then ss @ found else found)))"

definition validate_discovery ::
  "hash_ops \<Rightarrow> inventory \<Rightarrow> host \<Rightarrow> git_adapter \<Rightarrow> stored_facts \<Rightarrow> worktree_row \<Rightarrow> detail option" where
  "validate_discovery hs inven h g sf r =
     (case worktree_repositories inven h sf [] of
        Inl e \<Rightarrow> Some (git_error_text e)
      | Inr repos \<Rightarrow>
          (case fresh_sources hs h g r repos of
             Inl e \<Rightarrow> Some (git_error_text e)
           | Inr [] \<Rightarrow> Some (Text ''worktree is no longer reachable from configured discovery authority'')
           | Inr ss \<Rightarrow> if sorted_sources ss \<noteq> wr_sources r then Some (Text ''worktree discovery sources changed'') else None))"

text \<open>The part of the validation that both directions share: one fresh look at the worktree.\<close>

definition fresh_look ::
  "hash_ops \<Rightarrow> host \<Rightarrow> git_adapter \<Rightarrow> gotime \<Rightarrow> worktree_row \<Rightarrow> detail + observation \<times> string" where
  "fresh_look hs h g now r =
     (case find_registration hs h g (wr_path r) (wr_id r) of
        Inl e \<Rightarrow> Inl (git_error_text e)
      | Inr (reg, raw) \<Rightarrow>
          (case ho_eval h raw of
             None \<Rightarrow> Inl (Text ''primary worktree path is unavailable or non-canonical'')
           | Some primary \<Rightarrow>
               if \<not> is_abs primary then Inl (Text ''primary worktree path is unavailable or non-canonical'')
               else let ob = inspect hs h g now reg primary in
                 (case validate_fresh_observation r ob of
                    Some e \<Rightarrow> Inl e
                  | None \<Rightarrow> Inr (ob\<lparr>og_observed_at := 0\<rparr>, primary))))"

definition usage_none :: "path_usage \<Rightarrow> bool" where
  "usage_none u \<longleftrightarrow> us_keys u = [] \<and> us_cwd u \<le> 0 \<and> us_vnodes u \<le> 0"

definition row_history :: "worktree_row \<Rightarrow> inactivity" where
  "row_history r = \<lparr>ir_id = wr_id r, ir_state = Some (wr_state r), ir_head = wr_head r, ir_ref = wr_ref r,
     ir_fingerprint = wr_fingerprint r, ir_last_seen = time_from_ns (wr_last_seen r),
     ir_last_activity = time_from_ns (wr_last_activity r), ir_inactive_since = time_from_ns (wr_inactive_since r),
     ir_daemon_started = time_from_ns (wr_daemon_started r)\<rparr>"

text \<open>The checks on the row alone, before anything is looked at.\<close>

definition stale_row_refusal :: "wt_daemon \<Rightarrow> gotime \<Rightarrow> worktree_row \<Rightarrow> detail option" where
  "stale_row_refusal d now r =
     (let inven = wd_inventory d in first_failure
       [(\<not> wt_enabled (wi_cfg inven), Text ''worktree inventory is disabled''),
        (wd_platform d \<noteq> ''darwin'', Text ''worktree retirement is supported on macOS only''),
        (wr_state r \<noteq> WtStale \<or> \<not> wr_complete r,
         Fmt ''worktree %s is not stale with complete evidence'' [AStr (short_id (wr_id r))]),
        (wr_daemon_started r \<noteq> unix_nano (wi_started inven), Text ''daemon restart reset the inactivity window''),
        (wr_inactive_since r = 0 \<or> time_sub now (time_unix (wr_inactive_since r)) < wt_stale_after (wi_cfg inven),
         Text ''seven continuous days of inactivity are not established'')])"

text \<open>What is measured on the machine once the observation holds.\<close>

definition unused_path :: "host \<Rightarrow> string \<Rightarrow> detail + path_usage" where
  "unused_path h path =
     (case ho_usage h path of
        Inl e \<Rightarrow> Inl (git_error_text e)
      | Inr u \<Rightarrow>
          if \<not> us_complete u then Inl (Text ''same-user process usage inspection was incomplete'')
          else if \<not> usage_none u
          then Inl (Text ''same-user process working-directory or vnode usage remains inside the worktree'')
          else Inr u)"

definition one_filesystem :: "host \<Rightarrow> string \<Rightarrow> detail + filesystem_evidence" where
  "one_filesystem h path =
     (case inspect_filesystem h path of
        Inl e \<Rightarrow> Inl (git_error_text e)
      | Inr fs \<Rightarrow>
          if \<not> fv_all fs then Inl (Text ''filesystem inspection was incomplete'')
          else if fv_mounts fs \<noteq> 0 then Inl (Text ''nested mounts are present inside the worktree'')
          else Inr fs)"

text \<open>The use, the filesystem and the environment links of a worktree, in this order.\<close>

definition quiet_on_disk :: "host \<Rightarrow> worktree_row \<Rightarrow> observation \<Rightarrow> detail + path_usage \<times> filesystem_evidence" where
  "quiet_on_disk h r ob =
     (case unused_path h (wr_path r) of
        Inl e \<Rightarrow> Inl (if wr_state r = WtRetired then Text ''same-user process usage inspection is incomplete or found references'' else e)
      | Inr u \<Rightarrow>
          (case one_filesystem h (wr_path r) of
             Inl e \<Rightarrow> Inl (if wr_state r = WtRetired
               then Text ''retired worktree filesystem inspection is incomplete or found nested mounts'' else e)
           | Inr fs \<Rightarrow>
               if wr_links r \<noteq> og_links ob
               then Inl (if wr_state r = WtRetired then Text ''approved environment-link evidence changed''
                 else Text ''approved environment symlink evidence changed'')
               else (case validate_approved_links h (wr_path r) (wr_links r) of
                 Some e \<Rightarrow> Inl e
               | None \<Rightarrow> Inr (u, fs))))"

definition validate_removal ::
  "hash_ops \<Rightarrow> 'f wt_env \<Rightarrow> wt_daemon \<Rightarrow> 'f \<Rightarrow> worktree_row \<Rightarrow> detail + validation" where
  "validate_removal hs env d f r =
     (let inven = wd_inventory d; h = wv_view env f; sf = wv_facts env in
      case stale_row_refusal d (wv_check env) r of
        Some e \<Rightarrow> Inl e
      | None \<Rightarrow>
          (case wi_git inven of
             Inl e \<Rightarrow> Inl (git_error_text e)
           | Inr g \<Rightarrow>
               (case or_else (map_option git_error_text (verify_identity h g)) (validate_discovery hs inven h g sf r) of
                  Some e \<Rightarrow> Inl e
                | None \<Rightarrow>
                    if wr_git r \<noteq> ga_identity g then Inl (Text ''resolved Git executable identity differs from inventory'')
                    else (case fresh_look hs h g (wv_check env) r of
                      Inl e \<Rightarrow> Inl e
                    | Inr (ob, primary) \<Rightarrow>
                        if active_session_in_worktree sf (wr_path r)
                        then Inl (Text ''an active agent session remains associated with the worktree'')
                        else (case quiet_on_disk h r ob of
                          Inl e \<Rightarrow> Inl e
                        | Inr (u, fs) \<Rightarrow>
                            if cn_state (classify_worktree (row_history r) ob (wv_check env) (wi_started inven)
                                 (wt_stale_after (wi_cfg inven)) (wt_scan_interval (wi_cfg inven)) False True) \<noteq> WtStale
                            then Inl (Text ''fresh inactivity classification is not stale'')
                            else Inr \<lparr>va_observation = ob, va_usage = u, va_filesystem = fs,
                              va_git = ga_identity g, va_primary = primary,
                              va_recreate = recreate_command primary r\<rparr>)))))"

text \<open>The row of a retirement, before anything is looked at.\<close>

definition retired_row_refusal :: "wt_daemon \<Rightarrow> gotime \<Rightarrow> bool \<Rightarrow> worktree_row \<Rightarrow> detail option" where
  "retired_row_refusal d now require_grace r = first_failure
     [(\<not> wd_fs_healthy d, Text ''filesystem mutation circuit is open; restart the daemon and re-observe''),
      (\<not> wt_enabled (wi_cfg (wd_inventory d)) \<or> wd_platform d \<noteq> ''darwin'',
       Text ''worktree mutation is disabled or unsupported on this platform''),
      (wr_state r \<noteq> WtRetired \<or> \<not> wr_registered r \<or> \<not> wr_complete r \<or> wr_original r = [] \<or> wr_retired r = None,
       Text ''worktree is not a complete registered retirement''),
      (require_grace \<and> unix_nano now < wr_grace_until r, Text ''worktree retirement grace has not elapsed'')]"

definition validate_retired ::
  "hash_ops \<Rightarrow> 'f wt_env \<Rightarrow> wt_daemon \<Rightarrow> 'f \<Rightarrow> bool \<Rightarrow> worktree_row \<Rightarrow> detail + validation" where
  "validate_retired hs env d f require_grace r =
     (let inven = wd_inventory d; h = wv_view env f; sf = wv_facts env in
      case retired_row_refusal d (wv_check env) require_grace r of
        Some e \<Rightarrow> Inl e
      | None \<Rightarrow>
          if ho_lstat h (wr_original r) \<noteq> NoEntry then Inl (Text ''original worktree destination exists or is unreadable'')
          else (case wi_git inven of
             Inl e \<Rightarrow> Inl (git_error_text e)
           | Inr g \<Rightarrow>
               (case verify_identity h g of
                  Some e \<Rightarrow> Inl (git_error_text e)
                | None \<Rightarrow>
                    if wr_git r \<noteq> ga_identity g then Inl (Text ''resolved Git executable identity differs from retirement'')
                    else (case fresh_look hs h g (wv_check env) r of
                      Inl e \<Rightarrow> Inl e
                    | Inr (ob, primary) \<Rightarrow>
                        if active_session_in_worktree sf (wr_path r)
                        then Inl (Text ''an active agent session remains associated with the retired worktree'')
                        else (case quiet_on_disk h r ob of
                          Inl e \<Rightarrow> Inl e
                        | Inr (u, fs) \<Rightarrow>
                            Inr \<lparr>va_observation = ob, va_usage = u, va_filesystem = fs, va_git = wr_git r,
                              va_primary = primary, va_recreate = restore_hint (wr_id r)\<rparr>)))))"

section \<open>Approvals\<close>

definition wt_binding :: "hash_ops \<Rightarrow> 'f wt_env \<Rightarrow> worktree_row \<Rightarrow> validation \<Rightarrow> worktrees \<Rightarrow> string" where
  "wt_binding hs env r v c = secret_digest hs (wv_binding_json env r v c)"

definition prune_wt_approvals :: "gotime \<Rightarrow> (string \<times> wt_approval) list \<Rightarrow> (string \<times> wt_approval) list" where
  "prune_wt_approvals now aps = filter (\<lambda>(_, a). \<not> wp_expires a + approval_lifetime < now) aps"

definition consume_wt_approval ::
  "hash_ops \<Rightarrow> string \<Rightarrow> gotime \<Rightarrow> wt_daemon \<Rightarrow> (detail + wt_approval \<times> detail option) \<times> wt_daemon" where
  "consume_wt_approval hs token now d =
     (let k = secret_digest hs token in
      case map_of (wd_approvals d) k of
        None \<Rightarrow> (Inl (Text ''approval is unknown or was lost when the daemon restarted''), d)
      | Some a \<Rightarrow>
          if wp_used a then (Inr (a, Some (Text ''approval has already been consumed'')), d)
          else let a' = a\<lparr>wp_used := True\<rparr>;
                   d' = d\<lparr>wd_approvals := AList.update k a' (wd_approvals d)\<rparr> in
            (Inr (a', if \<not> now < wp_expires a then Some (Text ''approval has expired'') else None), d'))"

text \<open>A preview that has passed its checks issues one approval and audits it, or takes it back.\<close>

definition issue_wt_approval ::
  "hash_ops \<Rightarrow> 'f wt_env \<Rightarrow> wt_kind \<Rightarrow> worktree_row \<Rightarrow> validation \<Rightarrow> 'f wt_world
     \<Rightarrow> (detail + string \<times> wt_approval) \<times> 'f wt_world" where
  "issue_wt_approval hs env k r v w =
     (case wv_secret env of
        Inl e \<Rightarrow> (Inl (Text e), w)
      | Inr token \<Rightarrow>
          let d = ww_daemon w; digest = secret_digest hs token;
              binding = wt_binding hs env r v (wi_cfg (wd_inventory d));
              ap = \<lparr>wp_kind = k, wp_binding = binding, wp_row = r, wp_validation = v,
                    wp_expires = wv_now env + approval_lifetime, wp_used = False\<rparr>;
              kept = prune_wt_approvals (wv_now env) (wd_approvals d) in
          if max_approvals \<le> length kept
          then (Inl (Text ''too many outstanding worktree approvals''), w\<lparr>ww_daemon := d\<lparr>wd_approvals := kept\<rparr>\<rparr>)
          else let issued = AList.update digest ap kept;
                   entry = (unix_nano (wv_now env),
                     if k = WtRetire then ''worktree.retirement.previewed'' else ''worktree.'' @ wt_kind_name k @ ''.previewed'',
                     wr_id r, Fmt ''manual worktree %s preview issued; expires at %s'' [AStr (wt_kind_name k), ATime (wp_expires ap)],
                     Because (Fmt ''binding %s'' [AStr binding])) in
            (case wt_tx (wv_audit_tx env) (\<lambda>s. Inr (wt_audit entry s)) (ww_tables w) of
               (Some e, _) \<Rightarrow> (Inl e, w\<lparr>ww_daemon := d\<lparr>wd_approvals := AList.delete digest issued\<rparr>\<rparr>)
             | (None, s) \<Rightarrow> (Inr (token, ap), w\<lparr>ww_daemon := d\<lparr>wd_approvals := issued\<rparr>, ww_tables := s\<rparr>)))"

definition worktree_removal_preview ::
  "hash_ops \<Rightarrow> 'f wt_env \<Rightarrow> string \<Rightarrow> 'f wt_world \<Rightarrow> (detail + string \<times> wt_approval) \<times> 'f wt_world" where
  "worktree_removal_preview hs env i w =
     (if i = [] then (Inl (Text ''worktree retirement preview requires worktree_id''), w)
      else if \<not> wd_fs_healthy (ww_daemon w)
      then (Inl (Text ''filesystem mutation circuit is open; restart the daemon and re-observe''), w)
      else (case get_worktree (ww_tables w) i of
        Inl e \<Rightarrow> (Inl e, w)
      | Inr r \<Rightarrow>
          (case validate_removal hs env (ww_daemon w) (ww_host w) r of
             Inl e \<Rightarrow> (Inl e, w)
           | Inr v \<Rightarrow> issue_wt_approval hs env WtRetire r v w)))"

text \<open>The previews of a restoration and of a purge differ in whether the grace must be over.\<close>

definition retired_preview ::
  "hash_ops \<Rightarrow> 'f wt_env \<Rightarrow> wt_kind \<Rightarrow> string \<Rightarrow> 'f wt_world \<Rightarrow> (detail + string \<times> wt_approval) \<times> 'f wt_world" where
  "retired_preview hs env k i w =
     (if i = [] then (Inl (Fmt ''worktree %s preview requires worktree_id'' [AStr (wt_kind_name k)]), w)
      else (case get_worktree (ww_tables w) i of
        Inl e \<Rightarrow> (Inl e, w)
      | Inr r \<Rightarrow>
          (case validate_retired hs env (ww_daemon w) (ww_host w) (k = WtPurge) r of
             Inl e \<Rightarrow> (Inl e, w)
           | Inr v \<Rightarrow>
               if \<not> wd_fs_healthy (ww_daemon w)
               then (Inl (Text ''filesystem mutation circuit is open; restart the daemon and re-observe''), w)
               else issue_wt_approval hs env k r v w)))"

definition worktree_restore_preview ::
  "hash_ops \<Rightarrow> 'f wt_env \<Rightarrow> string \<Rightarrow> 'f wt_world \<Rightarrow> (detail + string \<times> wt_approval) \<times> 'f wt_world" where
  "worktree_restore_preview hs env i w = retired_preview hs env WtRestore i w"

definition worktree_purge_preview ::
  "hash_ops \<Rightarrow> 'f wt_env \<Rightarrow> string \<Rightarrow> 'f wt_world \<Rightarrow> (detail + string \<times> wt_approval) \<times> 'f wt_world" where
  "worktree_purge_preview hs env i w = retired_preview hs env WtPurge i w"


section \<open>The journal\<close>

record wt_response =
  wn_action :: string
  wn_worktree :: string
  wn_path :: string
  wn_branch :: string
  wn_result :: wt_result
  wn_at :: int
  wn_reason :: detail
  wn_evidence :: wt_proof
  wn_recreate :: string

type_synonym 'f wt_reply = "(detail + wt_response) \<times> 'f wt_world"

definition wt_action_response :: "wt_action \<Rightarrow> wt_result \<Rightarrow> detail \<Rightarrow> wt_proof \<Rightarrow> gotime \<Rightarrow> wt_response" where
  "wt_action_response a result reason evidence at_time =
     \<lparr>wn_action = wa_id a, wn_worktree = wa_worktree a, wn_path = wa_path a, wn_branch = wa_branch a, wn_result = result,
      wn_at = unix_nano at_time, wn_reason = reason, wn_evidence = evidence, wn_recreate = wa_recreate a\<rparr>"

definition journaled_world :: "wt_store \<Rightarrow> string \<Rightarrow> wt_result \<Rightarrow> 'f wt_world \<Rightarrow> 'f wt_world" where
  "journaled_world s aid result w = w\<lparr>ww_tables := s, ww_effects := ww_effects w @ [WtJournaled aid result]\<rparr>"

definition begin_wt_action :: "'f wt_env \<Rightarrow> wt_action \<Rightarrow> string \<Rightarrow> 'f wt_world \<Rightarrow> detail option \<times> 'f wt_world" where
  "begin_wt_action env a kind w =
     (case wt_tx (wv_begin_tx env) (\<lambda>s. case insert_wt_action a s of
         Inl e \<Rightarrow> Inl e
       | Inr s' \<Rightarrow> Inr (wt_audit (wa_updated a, kind, wa_worktree a, wa_reason a, wa_evidence a) s')) (ww_tables w) of
        (Some e, _) \<Rightarrow> (Some e, w)
      | (None, s) \<Rightarrow> (None, journaled_world s (wa_id a) (wa_result a) w))"

text \<open>The result of an action, with the row it leaves behind if it has one.\<close>

definition finish_wt_action ::
  "'f wt_env \<Rightarrow> wt_action \<Rightarrow> worktree_row option \<Rightarrow> wt_result \<Rightarrow> detail \<Rightarrow> string \<Rightarrow> 'f wt_world
     \<Rightarrow> detail option \<times> 'f wt_world" where
  "finish_wt_action env a row result reason kind w =
     (case wt_tx (wv_finish_tx env) (\<lambda>s. case update_wt_action (wa_id a) result reason (wa_evidence a) (unix_nano (wv_done env)) s of
         Inl e \<Rightarrow> Inl e
       | Inr s' \<Rightarrow> Inr (wt_audit (unix_nano (wv_done env), kind, wa_worktree a, reason, wa_evidence a)
           (case row of None \<Rightarrow> s' | Some r \<Rightarrow> upsert_worktree r s'))) (ww_tables w) of
        (Some e, _) \<Rightarrow> (Some e, w)
      | (None, s) \<Rightarrow> (None, journaled_world s (wa_id a) result w))"

definition reject_wt_action :: "'f wt_env \<Rightarrow> string \<Rightarrow> worktree_row \<Rightarrow> string \<Rightarrow> detail \<Rightarrow> 'f wt_world \<Rightarrow> 'f wt_reply" where
  "reject_wt_action env aid r recreate reason w =
     (let a = \<lparr>wa_id = aid, wa_worktree = wr_id r, wa_path = wr_path r, wa_branch = wr_branch r,
            wa_requested = unix_nano (wv_now env), wa_updated = unix_nano (wv_now env), wa_result = WtRejected,
            wa_reason = reason, wa_evidence = Because reason, wa_recreate = recreate\<rparr> in
      case begin_wt_action env a ''worktree.lifecycle.rejected'' w of
        (Some e, w') \<Rightarrow> (Inl e, w')
      | (None, w') \<Rightarrow> (Inr (wt_action_response a WtRejected reason (Because reason) (wv_now env)), w'))"

definition finish_failed :: "'f wt_env \<Rightarrow> wt_action \<Rightarrow> detail \<Rightarrow> 'f wt_world \<Rightarrow> 'f wt_reply" where
  "finish_failed env a reason w =
     (case finish_wt_action env a None WtFailed reason ''worktree.lifecycle.failed'' w of
        (Some e, w') \<Rightarrow> (Inl (Fmt ''worktree action %s remains unresolved as attempting; recreate with: %s''
            [AStr (wa_id a), AStr (wa_recreate a)]), w')
      | (None, w') \<Rightarrow> (Inr (wt_action_response a WtFailed reason (wa_evidence a) (wv_done env)), w'))"

definition finish_partial :: "'f wt_env \<Rightarrow> wt_action \<Rightarrow> detail \<Rightarrow> 'f wt_world \<Rightarrow> 'f wt_reply" where
  "finish_partial env a reason w =
     (case finish_wt_action env a None WtPartial reason ''worktree.lifecycle.partial'' w of
        (Some e, w') \<Rightarrow> (Inl e, w')
      | (None, w') \<Rightarrow> (Inr (wt_action_response a WtPartial reason (wa_evidence a) (wv_done env)), w'))"

definition trip_wt_circuit :: "detail \<Rightarrow> 'f wt_world \<Rightarrow> 'f wt_world" where
  "trip_wt_circuit reason w =
     (let d = ww_daemon w in w\<lparr>ww_daemon := d\<lparr>wd_fs_healthy := False, wd_degraded := wd_degraded d @ [reason]\<rparr>\<rparr>)"

section \<open>Moving a checkout\<close>

definition retirement_path :: "host \<Rightarrow> worktree_row \<Rightarrow> detail + string" where
  "retirement_path h r =
     (if wr_path r = [] \<or> wr_id r = [] then Inl (Text ''worktree retirement requires exact path and identity'')
      else let destination = path_clean (wr_path r @ ''.ghostgc-retired-'' @ short_id (wr_id r)) in
        if destination = wr_path r \<or> path_dir destination \<noteq> path_dir (wr_path r)
        then Inl (Text ''worktree retirement destination escaped the source parent'')
        else if ho_lstat h destination \<noteq> NoEntry
        then Inl (Text ''worktree retirement destination exists or is unreadable'')
        else Inr destination)"

definition git_move :: "'f wt_env \<Rightarrow> git_error + git_adapter \<Rightarrow> string \<Rightarrow> string \<Rightarrow> string \<Rightarrow> 'f \<Rightarrow> git_error option \<times> 'f" where
  "git_move env git primary source destination f =
     (case git of
        Inl e \<Rightarrow> (Some e, f)
      | Inr g \<Rightarrow>
          (case verify_identity (wv_view env f) g of
             Some e \<Rightarrow> (Some e, f)
           | None \<Rightarrow>
               (case wv_exec env (ga_exec_path g # git_arguments primary [''worktree'', ''move'', source, destination]) f of
                  (out, f') \<Rightarrow> (case outcome_of (ga_max_bytes g) out of Inl e \<Rightarrow> (Some e, f') | Inr raw \<Rightarrow> (None, f')))))"

definition ambiguous_move :: "host \<Rightarrow> string \<Rightarrow> string \<Rightarrow> bool" where
  "ambiguous_move h source destination \<longleftrightarrow> \<not> path_exists h source \<or> ho_lstat h destination \<noteq> NoEntry"

definition verify_wt_moved :: "hash_ops \<Rightarrow> host \<Rightarrow> git_error + git_adapter \<Rightarrow> string \<Rightarrow> worktree_row \<Rightarrow> string \<Rightarrow> detail option" where
  "verify_wt_moved hs h git primary r destination =
     (if ho_lstat h (wr_path r) \<noteq> NoEntry then Some (Text ''original worktree path is still present or unreadable'')
      else (case identify h destination of
        Inl e \<Rightarrow> Some (Text ''retired worktree directory identity changed'')
      | Inr i \<Rightarrow>
          if fi_device i \<noteq> wr_device r \<or> fi_inode i \<noteq> wr_inode r
          then Some (Text ''retired worktree directory identity changed'')
          else (case git of
            Inl e \<Rightarrow> Some (git_error_text e)
          | Inr g \<Rightarrow>
              (case git_registrations h g primary of
                 Inl e \<Rightarrow> Some (git_error_text e)
               | Inr recs \<Rightarrow>
                   if \<exists>x \<in> set recs. path_clean (rg_path x) = destination \<and> registration_id hs h x = Some (wr_id r)
                   then None else Some (Text ''retired worktree registration is missing or changed'')))))"

definition verify_absent :: "host \<Rightarrow> git_error + git_adapter \<Rightarrow> string \<Rightarrow> string \<Rightarrow> detail option" where
  "verify_absent h git primary path =
     (if ho_lstat h path \<noteq> NoEntry then Some (Text ''worktree directory is still present or unreadable'')
      else (case git of
        Inl e \<Rightarrow> Some (git_error_text e)
      | Inr g \<Rightarrow>
          (case git_registrations h g primary of
             Inl e \<Rightarrow> Some (git_error_text e)
           | Inr recs \<Rightarrow> if \<exists>x \<in> set recs. path_clean (rg_path x) = path
                         then Some (Text ''worktree remains registered'') else None)))"

text \<open>
  The move both directions share: Git is asked, an error leaves the action failed when the paths
  show that nothing moved, and every other doubt opens the circuit. \<open>after\<close> is the row that a
  verified move leaves.
\<close>

definition move_and_verify ::
  "hash_ops \<Rightarrow> 'f wt_env \<Rightarrow> wt_action \<Rightarrow> worktree_row \<Rightarrow> string \<Rightarrow> string \<Rightarrow> string \<Rightarrow> wt_result \<Rightarrow> detail
     \<Rightarrow> worktree_row \<Rightarrow> string \<Rightarrow> string \<Rightarrow> 'f wt_world \<Rightarrow> 'f wt_reply" where
  "move_and_verify hs env a r primary destination name result reason after kind recreate w =
     (let git = wi_git (wd_inventory (ww_daemon w)) in
      case git_move env git primary (wr_path r) destination (ww_host w) of
        (moved, f') \<Rightarrow>
          let w1 = w\<lparr>ww_host := f', ww_effects := ww_effects w @ [WtMove (wr_path r) destination]\<rparr>; h = wv_view env f' in
          (case moved of
             Some e \<Rightarrow>
               if ambiguous_move h (wr_path r) destination
               then finish_partial env a (detail_prefix (''native worktree '' @ name @ '' returned an error after an ambiguous path change: '') (git_error_text e))
                      (trip_wt_circuit (detail_prefix (''worktree '' @ name @ '' failed with ambiguous path state: '') (git_error_text e)) w1)
               else finish_failed env a (detail_prefix (''native worktree '' @ name @ '' failed: '') (git_error_text e)) w1
           | None \<Rightarrow>
               (case verify_wt_moved hs h git primary r destination of
                  Some e \<Rightarrow> finish_partial env a (detail_prefix (''post-'' @ name @ '' verification failed: '') e)
                      (trip_wt_circuit (detail_prefix (''worktree '' @ name @ '' verification failed: '') e) w1)
                | None \<Rightarrow>
                    (case finish_wt_action env a (Some after) result reason kind w1 of
                       (Some e, w2) \<Rightarrow> (Inl (Fmt ''the worktree moved but durable action %s is unresolved'' [AStr (wa_id a)]), w2)
                     | (None, w2) \<Rightarrow> (Inr ((wt_action_response a result reason (wa_evidence a) (wv_done env))\<lparr>wn_recreate := recreate\<rparr>), w2)))))"

definition attempt_of :: "'f wt_env \<Rightarrow> string \<Rightarrow> worktree_row \<Rightarrow> validation \<Rightarrow> wt_result \<Rightarrow> detail \<Rightarrow> string \<Rightarrow> wt_action" where
  "attempt_of env aid r v result reason recreate =
     \<lparr>wa_id = aid, wa_worktree = wr_id r, wa_path = wr_path r, wa_branch = wr_branch r,
      wa_requested = unix_nano (wv_now env), wa_updated = unix_nano (wv_check env), wa_result = result,
      wa_reason = reason, wa_evidence = Validated v, wa_recreate = recreate\<rparr>"

definition retired_row :: "'f wt_env \<Rightarrow> worktrees \<Rightarrow> worktree_row \<Rightarrow> validation \<Rightarrow> string \<Rightarrow> worktree_row" where
  "retired_row env c r v destination =
     r\<lparr>wr_original := wr_path r, wr_path := destination, wr_state := WtRetired, wr_last_seen := unix_nano (wv_done env),
       wr_complete := True, wr_retired := Some (unix_nano (wv_done env)),
       wr_grace_until := unix_nano (wv_done env + wt_retirement_grace c), wr_recreate := restore_hint (wr_id r),
       wr_registered := True, wr_protection := [''retirement_grace''], wr_evidence := Inr v\<rparr>"

definition execute_removal ::
  "hash_ops \<Rightarrow> 'f wt_env \<Rightarrow> string \<Rightarrow> worktree_row \<Rightarrow> validation \<Rightarrow> 'f wt_world \<Rightarrow> 'f wt_reply" where
  "execute_removal hs env aid r v w =
     (case retirement_path (wv_view env (ww_host w)) r of
        Inl e \<Rightarrow> reject_wt_action env aid r (va_recreate v) e w
      | Inr destination \<Rightarrow>
          let a = attempt_of env aid r v WtAttempting
                (Text ''full fresh revalidation passed; reversible native worktree retirement is about to be attempted'') (va_recreate v) in
          (case begin_wt_action env a ''worktree.retirement.attempting'' w of
             (Some e, w1) \<Rightarrow> (Inl e, w1)
           | (None, w1) \<Rightarrow>
               move_and_verify hs env a r (va_primary v) destination ''retirement'' WtRetiredResult
                 (Text ''registered worktree was moved to a restorable same-filesystem retirement path'')
                 (retired_row env (wi_cfg (wd_inventory (ww_daemon w))) r v destination) ''worktree.retirement.retired'' (restore_hint (wr_id r)) w1))"

definition restored_row :: "'f wt_env \<Rightarrow> worktree_row \<Rightarrow> worktree_row" where
  "restored_row env r =
     r\<lparr>wr_path := wr_original r, wr_original := [], wr_state := WtObserving, wr_complete := False,
       wr_last_seen := unix_nano (wv_done env), wr_last_activity := unix_nano (wv_done env), wr_inactive_since := 0,
       wr_grace_until := 0, wr_retired := None, wr_removed := None, wr_recreate := [],
       wr_protection := [''fresh_observation_required'']\<rparr>"

definition execute_restore ::
  "hash_ops \<Rightarrow> 'f wt_env \<Rightarrow> string \<Rightarrow> worktree_row \<Rightarrow> validation \<Rightarrow> 'f wt_world \<Rightarrow> 'f wt_reply" where
  "execute_restore hs env aid r v w =
     (let a = attempt_of env aid r v WtAttempting (Text ''fresh restore checks passed; reversible worktree move is about to run'') (wr_recreate r) in
      case begin_wt_action env a ''worktree.restore.attempting'' w of
        (Some e, w1) \<Rightarrow> (Inl e, w1)
      | (None, w1) \<Rightarrow>
          move_and_verify hs env a r (va_primary v) (wr_original r) ''restore'' WtRestored
            (Text ''retired checkout was restored to its exact original path'') (restored_row env r) ''worktree.restored'' (wr_recreate r) w1)"

section \<open>Applying an approval\<close>

definition same_authority :: "worktree_row \<Rightarrow> worktree_row \<Rightarrow> bool" where
  "same_authority a b \<longleftrightarrow> wr_id a = wr_id b \<and> wr_path a = wr_path b \<and> wr_head a = wr_head b \<and> wr_ref a = wr_ref b \<and>
     wr_branch a = wr_branch b \<and> wr_sources a = wr_sources b \<and> wr_last_activity a = wr_last_activity b \<and>
     wr_inactive_since a = wr_inactive_since b \<and> wr_daemon_started a = wr_daemon_started b"

definition same_retired_authority :: "worktree_row \<Rightarrow> worktree_row \<Rightarrow> bool" where
  "same_retired_authority a b \<longleftrightarrow> same_authority a b \<and> wr_original a = wr_original b \<and>
     wr_grace_until a = wr_grace_until b \<and> wr_retired a \<noteq> None \<and> wr_retired a = wr_retired b"

definition spend_wt_approval ::
  "hash_ops \<Rightarrow> 'f wt_env \<Rightarrow> string \<Rightarrow> 'f wt_world \<Rightarrow> (detail + string \<times> wt_approval \<times> detail option) \<times> 'f wt_world" where
  "spend_wt_approval hs env token w =
     (case consume_wt_approval hs token (wv_now env) (ww_daemon w) of
        (Inl e, d) \<Rightarrow> (Inl e, w\<lparr>ww_daemon := d\<rparr>)
      | (Inr (ap, refusal), d) \<Rightarrow>
          (case wv_action_secret env of
             Inl e \<Rightarrow> (Inl (Text e), w\<lparr>ww_daemon := d\<rparr>)
           | Inr secret \<Rightarrow> (Inr (''wta_'' @ secret, ap, refusal), w\<lparr>ww_daemon := d\<rparr>)))"

text \<open>The bound row and validation again, or the reason why they no longer hold.\<close>

definition revalidate ::
  "hash_ops \<Rightarrow> 'f wt_env \<Rightarrow> wt_approval \<Rightarrow> 'f wt_world \<Rightarrow> detail + worktree_row \<times> validation" where
  "revalidate hs env ap w =
     (let k = wp_kind ap; d = ww_daemon w; stale = Text ''bound retirement authority changed'' in
      case get_worktree (ww_tables w) (wr_id (wp_row ap)) of
        Inl e \<Rightarrow> Inl (if k = WtRetire then e else stale)
      | Inr current \<Rightarrow>
          if k = WtRetire \<and> \<not> same_authority (wp_row ap) current
          then Inl (Text ''bound inactivity or inventory authority changed'')
          else if k \<noteq> WtRetire \<and> \<not> same_retired_authority (wp_row ap) current then Inl stale
          else (case (if k = WtRetire then validate_removal hs env d (ww_host w) current
                      else validate_retired hs env d (ww_host w) (k = WtPurge) current) of
            Inl e \<Rightarrow> Inl e
          | Inr v \<Rightarrow>
              if wt_binding hs env current v (wi_cfg (wd_inventory d)) \<noteq> wp_binding ap \<or> wp_validation ap \<noteq> v
              then Inl (Fmt ''a fact bound to the %s preview changed'' [AStr (wt_kind_name k)]) else Inr (current, v)))"

definition apply_wt_move ::
  "hash_ops \<Rightarrow> 'f wt_env \<Rightarrow> wt_kind \<Rightarrow> string \<Rightarrow> 'f wt_world \<Rightarrow> 'f wt_reply" where
  "apply_wt_move hs env k token w =
     (if token = [] then (Inl (Fmt ''worktree %s apply requires an approval'' [AStr (wt_kind_name k)]), w)
      else (case spend_wt_approval hs env token w of
        (Inl e, w1) \<Rightarrow> (Inl e, w1)
      | (Inr (aid, ap, refusal), w1) \<Rightarrow>
          let rejected = (\<lambda>reason. reject_wt_action env aid (wp_row ap) (va_recreate (wp_validation ap)) reason w1) in
          (case (if wp_kind ap \<noteq> k then Some (Fmt ''approval action does not match worktree %s'' [AStr (wt_kind_name k)]) else refusal) of
             Some reason \<Rightarrow> rejected reason
           | None \<Rightarrow>
               (case revalidate hs env ap w1 of
                  Inl reason \<Rightarrow> rejected reason
                | Inr (r, v) \<Rightarrow>
                    if k = WtRetire then execute_removal hs env aid r v w1 else execute_restore hs env aid r v w1))))"

definition worktree_removal_apply :: "hash_ops \<Rightarrow> 'f wt_env \<Rightarrow> string \<Rightarrow> 'f wt_world \<Rightarrow> 'f wt_reply" where
  "worktree_removal_apply hs env token w = apply_wt_move hs env WtRetire token w"

definition worktree_restore_apply :: "hash_ops \<Rightarrow> 'f wt_env \<Rightarrow> string \<Rightarrow> 'f wt_world \<Rightarrow> 'f wt_reply" where
  "worktree_restore_apply hs env token w = apply_wt_move hs env WtRestore token w"

section \<open>Finalising\<close>

definition worktree_purge_plan_lifetime :: duration where "worktree_purge_plan_lifetime = 2 * minute"

definition wt_purge_plan_of :: "'f wt_env \<Rightarrow> string \<Rightarrow> worktree_row \<Rightarrow> validation \<Rightarrow> string \<Rightarrow> wt_purge_plan" where
  "wt_purge_plan_of env aid r v completion =
     \<lparr>wg_action = aid, wg_worktree = wr_id r, wg_primary = va_primary v, wg_retired_path = wr_path r, wg_git = va_git v,
      wg_path_identity = og_path_identity (va_observation v), wg_links = og_links (va_observation v),
      wg_expires = unix_nano (wv_now env + worktree_purge_plan_lifetime), wg_completion = completion\<rparr>"

definition prune_wt_plans ::
  "gotime \<Rightarrow> (string \<times> wt_purge_execution) list \<Rightarrow> (string \<times> wt_purge_execution) list" where
  "prune_wt_plans now ps = filter (\<lambda>(_, x). \<not> wg_expires (wx_plan x) < unix_nano now) ps"

type_synonym wt_purge_reply = "wt_response \<times> wt_purge_plan option"

definition prepare_worktree_purge ::
  "hash_ops \<Rightarrow> 'f wt_env \<Rightarrow> string \<Rightarrow> worktree_row \<Rightarrow> validation \<Rightarrow> 'f wt_world \<Rightarrow> (detail + wt_purge_reply) \<times> 'f wt_world" where
  "prepare_worktree_purge hs env aid r v w =
     (case wv_secret env of
        Inl e \<Rightarrow> (Inl (Text e), w)
      | Inr completion \<Rightarrow>
          let plan = wt_purge_plan_of env aid r v completion;
              a = (attempt_of env aid r v WtPurging (Text ''daemon committed foreground worktree finalization intent'')
                    (recreate_command (va_primary v) (r\<lparr>wr_path := wr_original r\<rparr>)))\<lparr>wa_updated := unix_nano (wv_now env)\<rparr> in
          (case begin_wt_action env a ''worktree.purge.prepared'' w of
             (Some e, w1) \<Rightarrow> (Inl e, w1)
           | (None, w1) \<Rightarrow>
               let d = ww_daemon w1; kept = prune_wt_plans (wv_now env) (wd_plans d);
                   cause = Text ''too many outstanding worktree purge plans'' in
               if 1 \<le> length kept
               then (Inl cause,
                 (case wt_tx (wv_finish_tx env) (update_wt_action aid WtFailed cause (wa_evidence a) (unix_nano (wv_done env))) (ww_tables w1) of
                    (Some e, _) \<Rightarrow> w1\<lparr>ww_daemon := d\<lparr>wd_plans := kept\<rparr>\<rparr>
                  | (None, s) \<Rightarrow> journaled_world s aid WtFailed (w1\<lparr>ww_daemon := d\<lparr>wd_plans := kept\<rparr>\<rparr>)))
               else (Inr (wt_action_response a WtPurging (wa_reason a) (wa_evidence a) (wv_now env), Some plan),
                 w1\<lparr>ww_daemon := d\<lparr>wd_plans := AList.update (secret_digest hs completion)
                   \<lparr>wx_plan = plan, wx_row = r, wx_validation = v, wx_action = a, wx_used = False\<rparr> kept\<rparr>\<rparr>)))"

definition rejected_wt_purge :: "'f wt_reply \<Rightarrow> (detail + wt_purge_reply) \<times> 'f wt_world" where
  "rejected_wt_purge r = (case r of (Inl e, w) \<Rightarrow> (Inl e, w) | (Inr x, w) \<Rightarrow> (Inr (x, None), w))"

definition worktree_purge_apply ::
  "hash_ops \<Rightarrow> 'f wt_env \<Rightarrow> string \<Rightarrow> string \<Rightarrow> 'f wt_world \<Rightarrow> (detail + wt_purge_reply) \<times> 'f wt_world" where
  "worktree_purge_apply hs env token confirmation w =
     (if token = [] \<or> confirmation = [] then (Inl (Text ''worktree purge requires approval and exact confirmation''), w)
      else (case spend_wt_approval hs env token w of
        (Inl e, w1) \<Rightarrow> (Inl e, w1)
      | (Inr (aid, ap, refusal), w1) \<Rightarrow>
          let rejected = (\<lambda>reason. rejected_wt_purge (reject_wt_action env aid (wp_row ap) (va_recreate (wp_validation ap)) reason w1)) in
          (case (if wp_kind ap \<noteq> WtPurge \<or> confirmation \<noteq> wr_id (wp_row ap)
                 then Some (Text ''approval action or exact worktree confirmation does not match'') else refusal) of
             Some reason \<Rightarrow> rejected reason
           | None \<Rightarrow>
               (case revalidate hs env ap w1 of
                  Inl reason \<Rightarrow> rejected reason
                | Inr (r, v) \<Rightarrow> prepare_worktree_purge hs env aid r v w1))))"

definition consume_wt_plan :: "hash_ops \<Rightarrow> string \<Rightarrow> string \<Rightarrow> wt_daemon \<Rightarrow> (wt_purge_execution \<times> wt_daemon) option" where
  "consume_wt_plan hs aid completion d =
     (if aid = [] \<or> completion = [] then None
      else (case map_of (wd_plans d) (secret_digest hs completion) of
        None \<Rightarrow> None
      | Some x \<Rightarrow>
          if wg_action (wx_plan x) \<noteq> aid \<or> wx_used x then None
          else Some (x\<lparr>wx_used := True\<rparr>, d\<lparr>wd_plans := AList.delete (secret_digest hs completion) (wd_plans d)\<rparr>)))"

definition removed_row :: "'f wt_env \<Rightarrow> wt_purge_execution \<Rightarrow> worktree_row" where
  "removed_row env x = (wx_row x)\<lparr>wr_state := WtRemoved, wr_registered := False, wr_complete := False,
     wr_last_seen := unix_nano (wv_done env), wr_removed := Some (unix_nano (wv_done env)),
     wr_recreate := wa_recreate (wx_action x)\<rparr>"

definition worktree_purge_complete ::
  "hash_ops \<Rightarrow> 'f wt_env \<Rightarrow> string \<Rightarrow> string \<Rightarrow> string \<Rightarrow> 'f wt_world \<Rightarrow> 'f wt_reply" where
  "worktree_purge_complete hs env aid completion execution_error w =
     (case consume_wt_plan hs aid completion (ww_daemon w) of
        None \<Rightarrow> (Inl (Text ''worktree purge completion is unknown, consumed, or lost after daemon restart''), w)
      | Some (x, d) \<Rightarrow>
          let w0 = w\<lparr>ww_daemon := d\<rparr>; h = wv_view env (ww_host w);
              expired = wg_expires (wx_plan x) \<le> unix_nano (wv_check env);
              unmutated = validate_retired hs env d (ww_host w) True (wx_row x) = Inr (wx_validation x);
              ambiguous = (\<lambda>cause. finish_partial env (wx_action x) cause
                (trip_wt_circuit (detail_prefix ''worktree purge completion became ambiguous: '' cause) w0)) in
          (case verify_absent h (wi_git (wd_inventory d)) (wg_primary (wx_plan x)) (wg_retired_path (wx_plan x)) of
             Some cause \<Rightarrow>
               if (execution_error \<noteq> [] \<or> expired) \<and> unmutated
               then finish_failed env (wx_action x)
                 (if expired then Text ''foreground worktree purge plan expired without a verified mutation''
                  else Fmt ''foreground native removal failed without verified mutation: %s'' [AStr execution_error]) w0
               else ambiguous cause
           | None \<Rightarrow>
               if expired then ambiguous (Text ''worktree became absent after the foreground purge plan expired'')
               else (let reason = Text ''foreground native non-force removal completed; daemon verified path and registration absence'' in
                 case finish_wt_action env (wx_action x) (Some (removed_row env x)) WtRemovedResult reason ''worktree.removed'' w0 of
                   (Some e, w1) \<Rightarrow> (Inl (Fmt ''worktree was removed but action %s is unresolved'' [AStr aid]), w1)
                 | (None, w1) \<Rightarrow> (Inr (wt_action_response (wx_action x) WtRemovedResult reason (wa_evidence (wx_action x)) (wv_done env)), w1))))"

section \<open>The status endpoints\<close>

definition inactive_seconds :: "gotime \<Rightarrow> worktree_row \<Rightarrow> duration" where
  "inactive_seconds now r =
     (if 0 < wr_inactive_since r then max 0 (time_sub now (time_unix (wr_inactive_since r))) else 0)"

definition worktrees_view :: "gotime \<Rightarrow> wt_state option \<Rightarrow> wt_source option \<Rightarrow> int \<Rightarrow> wt_store \<Rightarrow> (worktree_row \<times> duration) list" where
  "worktrees_view now state source limit s =
     List.map (\<lambda>r. (r, inactive_seconds now r)) (list_worktrees state source limit s)"

definition worktree_actions_view :: "string \<Rightarrow> wt_result option \<Rightarrow> int \<Rightarrow> wt_store \<Rightarrow> detail + wt_action list" where
  "worktree_actions_view i result limit s =
     (if i = [] then Inr (list_wt_actions [] result limit s)
      else (case get_worktree s i of
        Inl e \<Rightarrow> Inl e
      | Inr r \<Rightarrow> Inr (list_wt_actions (wr_id r) result limit s)))"

end
