(* ===== verification/Worktree_Sample.thy ===== *)
theory Worktree_Sample
  imports Worktree_Lane
begin

text \<open>
  A small machine with one linked worktree, on which the properties of the worktree lane are
  exercised: the repository \<open>/r\<close>, its worktree \<open>/s\<close> on a published branch, and Git's
  answers about them. The state of the machine is whether the checkout has been moved.
\<close>

section \<open>The machine\<close>

definition sample_info :: "file_kind \<Rightarrow> 64 word \<Rightarrow> file_info" where
  "sample_info k n = \<lparr>in_kind = k, in_device = 1, in_inode = n, in_size = 0, in_mtime = 0\<rparr>"

definition sample_place :: "bool \<Rightarrow> string" where
  "sample_place moved = (if moved then ''/s.ghostgc-retired-05'' else ''/s'')"

definition sample_objects :: "bool \<Rightarrow> (string \<times> file_info) list" where
  "sample_objects moved = [(''/g'', sample_info KindRegular 2), (''/r'', sample_info KindDirectory 3),
     (''/r/.git'', sample_info KindDirectory 4), (''/r/.git/worktrees/s'', sample_info KindDirectory 5),
     (sample_place moved, sample_info KindDirectory 6)]"

definition answered :: "string \<Rightarrow> exec_outcome" where
  "answered out = \<lparr>eo_context = None, eo_stdout = [out], eo_stderr = [], eo_failure = None\<rparr>"

definition exited :: "int \<Rightarrow> exec_outcome" where
  "exited n = \<lparr>eo_context = None, eo_stdout = [], eo_stderr = [], eo_failure = Some (ExitedWith n)\<rparr>"

definition sample_primary :: registration where
  "sample_primary = (new_registration ''/r'')\<lparr>rg_head := ''ab'', rg_ref := ''refs/heads/m'', rg_branch := ''m''\<rparr>"

definition sample_linked :: "bool \<Rightarrow> registration" where
  "sample_linked moved = (new_registration (sample_place moved))\<lparr>rg_head := ''cd'', rg_ref := ''refs/heads/t'', rg_branch := ''t''\<rparr>"

definition sample_printed :: "bool \<Rightarrow> (registration \<times> string \<times> string) list" where
  "sample_printed moved = [(sample_primary, [], []), (sample_linked moved, [], [])]"

definition sample_answer :: "bool \<Rightarrow> string list \<Rightarrow> exec_outcome" where
  "sample_answer moved args =
     (case args of
        [] \<Rightarrow> exited 1
      | cmd # rest \<Rightarrow>
          if cmd = ''worktree'' then answered (render_registrations (sample_printed moved))
          else if cmd = ''rev-parse'' \<and> last rest = ''--git-common-dir'' then answered (''/r/.git'' @ newline)
          else if cmd = ''rev-parse'' \<and> last rest = ''--git-dir'' then answered (''/r/.git/worktrees/s'' @ newline)
          else if cmd = ''status'' then answered []
          else if cmd = ''branch'' then answered ''ab''
          else exited 1)"

definition sample_host :: "bool \<Rightarrow> host" where
  "sample_host moved = \<lparr>
     ho_lstat = (\<lambda>p. case map_of (sample_objects moved) p of None \<Rightarrow> NoEntry | Some i \<Rightarrow> Found i),
     ho_eval = (\<lambda>p. case map_of (sample_objects moved) p of None \<Rightarrow> None | Some i \<Rightarrow> Some p),
     ho_readlink = (\<lambda>p. None),
     ho_readdir = (\<lambda>p. if p = ''/r/.git/worktrees'' then Some [(''s'', Some KindDirectory)] else None),
     ho_read = (\<lambda>p. if p = ''/r/.git/worktrees/s/gitdir'' then Some (sample_place moved @ ''/.git'' @ newline) else None),
     ho_tree = (\<lambda>p. if p = ''/s'' then Some (Node ''s'' KindDirectory (Some [Node ''.git'' KindRegular None]))
       else if p = sample_place moved then Some (Node ''s'' KindDirectory (Some [])) else None),
     ho_exec = (\<lambda>argv. sample_answer moved (drop 9 argv)),
     ho_usage = (\<lambda>p. Inr \<lparr>us_complete = True, us_inspected = 0, us_cwd = 0, us_vnodes = 0, us_keys = []\<rparr>),
     ho_context = (\<lambda>n. None)\<rparr>"

definition sample_executable :: file_identity where
  "sample_executable = identity_of ''/g'' (sample_info KindRegular 2)"

definition sample_git :: git_adapter where
  "sample_git = \<lparr>ga_path = ''/g'', ga_exec_path = ''/g'', ga_identity = \<lparr>gi_file = sample_executable, gi_digest = ''x''\<rparr>,
     ga_exec_identity = sample_executable, ga_max_bytes = 1000\<rparr>"

text \<open>The digest of a text is its last byte; of an identity that is the inode of the administrative directory.\<close>

definition last_byte :: hash_ops where
  "last_byte = sample_hash\<lparr>ha_sum := (\<lambda>s. [if s = [] then CHR 0x00 else last s])\<rparr>"

section \<open>Git's answers\<close>

lemma sample_objects_simps [simp]:
  "ho_lstat (sample_host b) p = (case map_of (sample_objects b) p of None \<Rightarrow> NoEntry | Some i \<Rightarrow> Found i)"
  "ho_eval (sample_host b) p = (case map_of (sample_objects b) p of None \<Rightarrow> None | Some i \<Rightarrow> Some p)"
  by (simp_all add: sample_host_def)

lemma sample_verify [simp]: "verify_identity (sample_host b) sample_git = None"
  by (induction b) code_simp+

lemma outcome_answered [simp]: "length s \<le> limit \<Longrightarrow> 0 < limit \<Longrightarrow> outcome_of limit (answered s) = Inr s"
  by (simp add: outcome_of_def answered_def buffer_all_def buffer_write_def Let_def)

lemma outcome_exited [simp]: "outcome_of limit (exited n) =
    Inl (inspection_failed (Fmt ''worktree: Git command exited %d'' [AInt n]))"
  by (simp add: outcome_of_def exited_def buffer_all_def)

lemma sample_run [simp]:
  "dir \<noteq> [] \<Longrightarrow> git_run (sample_host b) sample_git dir args = outcome_of 1000 (sample_answer b args)"
  unfolding git_run_def sample_verify
  by (simp add: git_arguments_def) (simp add: sample_host_def sample_git_def)

lemma sample_rev [simp]:
  "dir \<noteq> [] \<Longrightarrow> rev_path (sample_host b) sample_git dir ''--git-common-dir'' = Inr ''/r/.git''"
  "dir \<noteq> [] \<Longrightarrow> rev_path (sample_host b) sample_git dir ''--git-dir'' = Inr ''/r/.git/worktrees/s''"
  by (simp_all add: rev_path_def sample_answer_def newline_def) code_simp+

definition sample_registered :: "bool \<Rightarrow> registration list" where
  "sample_registered moved = [sample_primary\<lparr>rg_common := ''/r/.git'', rg_admin := ''/r/.git''\<rparr>,
     (sample_linked moved)\<lparr>rg_common := ''/r/.git'', rg_admin := ''/r/.git/worktrees/s''\<rparr>]"

lemma sample_enriched:
  "dir \<noteq> [] \<Longrightarrow> enrich_administrative_dirs (sample_host b) sample_git dir (List.map fst (sample_printed b)) = sample_registered b"
  apply (simp add: enrich_administrative_dirs_def sample_printed_def)
  apply (induction b)
   apply code_simp+
  done

lemma sample_parsed: "parse_registrations (render_registrations (sample_printed b)) = Inr (List.map fst (sample_printed b))"
proof (rule parse_rendered)
  show "list_all listed (sample_printed b)"
    by (simp add: sample_printed_def listed_def sample_primary_def sample_linked_def sample_place_def new_registration_def
        nul_def trim_prefix_def has_prefix_def)
  show "length (sample_printed b) \<le> max_registrations" by (simp add: sample_printed_def max_registrations_def)
qed

lemma sample_registrations [simp]:
  assumes "dir \<noteq> []"
  shows "git_registrations (sample_host b) sample_git dir = Inr (sample_registered b)"
proof -
  have "length (render_registrations (sample_printed b)) \<le> 1000" by (induction b) code_simp+
  with assms show ?thesis
    by (simp add: git_registrations_def sample_answer_def sample_parsed sample_enriched)
qed

section \<open>One look at the worktree\<close>

definition sample_identity_of :: "string \<Rightarrow> 64 word \<Rightarrow> file_identity" where
  "sample_identity_of path n = identity_of path (sample_info KindDirectory n)"

lemma sample_identities [simp]:
  "identify (sample_host b) ''/r/.git'' = Inr (sample_identity_of ''/r/.git'' 4)"
  "identify (sample_host b) ''/r/.git/worktrees/s'' = Inr (sample_identity_of ''/r/.git/worktrees/s'' 5)"
  "identify (sample_host b) (sample_place b) = Inr (sample_identity_of (sample_place b) 6)"
  by (induction b) code_simp+

lemma sample_ids [simp]:
  "stable_id last_byte (sample_identity_of ''/r/.git'' 4) (sample_identity_of ''/r/.git'' 4) = ''04''"
  "stable_id last_byte (sample_identity_of ''/r/.git'' 4) (sample_identity_of ''/r/.git/worktrees/s'' 5) = ''05''"
  by code_simp+

lemma sample_paths [simp]:
  "path_clean (sample_place b) = sample_place b" "is_abs (sample_place b)" "sample_place b \<noteq> []"
  "map_of (sample_objects b) (sample_place b) = Some (sample_info KindDirectory 6)"
  "map_of (sample_objects b) ''/r'' = Some (sample_info KindDirectory 3)"
  "map_of (sample_objects b) ''/r/.git'' = Some (sample_info KindDirectory 4)"
  "map_of (sample_objects b) ''/r/.git/worktrees/s'' = Some (sample_info KindDirectory 5)"
  "sample_place b \<noteq> ''/r''"
  by (induction b) code_simp+

lemma sample_registered_fields [simp]:
  "rg_path (sample_linked b) = sample_place b" "rg_head (sample_linked b) = ''cd''" "rg_ref (sample_linked b) = ''refs/heads/t''"
  "rg_branch (sample_linked b) = ''t''" "\<not> rg_detached (sample_linked b)" "\<not> rg_locked (sample_linked b)"
  "\<not> rg_prunable (sample_linked b)" "rg_path sample_primary = ''/r''"
  by (simp_all add: sample_linked_def sample_primary_def new_registration_def)

lemma sample_registration_ids [simp]:
  "registration_id last_byte (sample_host b) (sample_primary\<lparr>rg_common := ''/r/.git'', rg_admin := ''/r/.git''\<rparr>) = Some ''04''"
  "registration_id last_byte (sample_host b) ((sample_linked b)\<lparr>rg_common := ''/r/.git'', rg_admin := ''/r/.git/worktrees/s''\<rparr>) = Some ''05''"
  by (simp_all add: registration_id_def administrative_identities_def)

definition sample_look :: "bool \<Rightarrow> observation" where
  "sample_look b = \<lparr>og_id = ''05'', og_path = sample_place b, og_path_identity = sample_identity_of (sample_place b) 6,
     og_common_identity = sample_identity_of ''/r/.git'' 4, og_admin_identity = sample_identity_of ''/r/.git/worktrees/s'' 5,
     og_common = ''/r/.git'', og_admin = ''/r/.git/worktrees/s'', og_head = ''cd'', og_ref = ''refs/heads/t'', og_branch = ''t'',
     og_detached = False, og_primary = False, og_present = True, og_canonical = True, og_locked = False, og_prunable = False,
     og_complete = True, og_status = no_status\<lparr>se_fingerprint := ''00''\<rparr>, og_operations = [], og_links = [],
     og_published = True, og_reachable = False, og_submodules = False, og_protection = [], og_observed_at = 0\<rparr>"

lemma sample_quiet_admin [simp]:
  "git_operations (sample_host b) ''/r/.git/worktrees/s'' = []"
  "path_exists (sample_host b) (path_join [''/r/.git'', ''modules'']) = False"
  "path_exists (sample_host b) (path_join [''/r/.git/worktrees/s'', ''modules'']) = False"
  by (induction b) code_simp+

lemma sample_status [simp]: "parse_status last_byte approved [] = (no_status\<lparr>se_fingerprint := ''00''\<rparr>, [], None)"
proof -
  have "hex_encode (ha_sum last_byte []) = ''00''" by code_simp
  then show ?thesis by (simp add: parse_status_def)
qed

lemma sample_reachability: "og_path ob \<noteq> [] \<Longrightarrow> \<not> og_detached ob \<Longrightarrow>
    git_reachability (sample_host b) sample_git ob = (True, False, None)"
proof -
  have "trim_space ''ab'' \<noteq> []" by code_simp
  then show "og_path ob \<noteq> [] \<Longrightarrow> \<not> og_detached ob \<Longrightarrow> ?thesis"
    by (simp add: git_reachability_def git_succeeds_def sample_answer_def upstream_def)
qed

lemma sample_inspect [simp]:
  "inspect last_byte (sample_host b) sample_git now ((sample_linked b)\<lparr>rg_common := ''/r/.git'', rg_admin := ''/r/.git/worktrees/s''\<rparr>) ''/r'' =
     (sample_look b)\<lparr>og_observed_at := now\<rparr>"
  by (simp add: inspect_def first_observation_def inspect_administration_def inspect_content_def sample_info_def
      sample_answer_def git_succeeds_def sample_reachability base_protections_def status_clean_def no_status_def sample_look_def Let_def)

section \<open>A stale worktree and its approval\<close>

definition sample_wt_config :: worktrees where
  "sample_wt_config = \<lparr>wt_enabled = True, wt_scan_interval = 5 * minute, wt_stale_after = 2 * minute,
     wt_retirement_grace = hour, wt_roots = [''/s'']\<rparr>"

definition sample_facts :: stored_facts where
  "sample_facts = \<lparr>sf_rows_error = None, sf_sessions = Inr []\<rparr>"

definition sample_inventory :: inventory where
  "sample_inventory = \<lparr>wi_cfg = sample_wt_config, wi_git = Inr sample_git, wi_started = time_unix 1, wi_last_at = 0\<rparr>"

definition sample_stale_row :: worktree_row where
  "sample_stale_row = \<lparr>wr_id = ''05'', wr_path = ''/s'', wr_device = 1, wr_inode = 6, wr_common = ''/r/.git'',
     wr_admin = ''/r/.git/worktrees/s'', wr_head = ''cd'', wr_ref = ''refs/heads/t'', wr_branch = ''t'', wr_sources = [SourceRoot],
     wr_state = WtStale, wr_first_seen = minute, wr_last_seen = 7 * minute, wr_last_activity = minute,
     wr_inactive_since = minute, wr_daemon_started = 1, wr_fingerprint = ''00'', wr_protection = [],
     wr_evidence = Inl (evidence_of (sample_look False)), wr_links = [], wr_git = ga_identity sample_git, wr_registered = True,
     wr_complete = True, wr_removed = None, wr_recreate = [], wr_original = [], wr_retired = None, wr_grace_until = 0\<rparr>"

text \<open>A move changes the state of the machine, and nothing else does.\<close>

definition sample_move :: "string list \<Rightarrow> bool \<Rightarrow> exec_outcome \<times> bool" where
  "sample_move argv moved = (answered [], \<not> moved)"

definition sample_wt_env :: "gotime \<Rightarrow> bool wt_env" where
  "sample_wt_env t = \<lparr>wv_view = sample_host, wv_exec = sample_move, wv_facts = sample_facts, wv_begin_tx = None,
     wv_finish_tx = None, wv_audit_tx = None, wv_secret = Inr ''k'', wv_action_secret = Inr ''1'', wv_now = t, wv_check = t,
     wv_done = t, wv_binding_json = (\<lambda>r v c. wr_id r)\<rparr>"

definition sample_wt_daemon :: wt_daemon where
  "sample_wt_daemon = \<lparr>wd_inventory = sample_inventory, wd_platform = ''darwin'', wd_fs_healthy = True, wd_approvals = [],
     wd_plans = [], wd_degraded = []\<rparr>"

definition sample_usage :: path_usage where
  "sample_usage = \<lparr>us_complete = True, us_inspected = 0, us_cwd = 0, us_vnodes = 0, us_keys = []\<rparr>"

definition sample_validation :: validation where
  "sample_validation = \<lparr>va_observation = sample_look False, va_usage = sample_usage,
     va_filesystem = \<lparr>fv_entries = 2, fv_mounts = 0, fv_all = True\<rparr>, va_git = ga_identity sample_git, va_primary = ''/r'',
     va_recreate = recreate_command ''/r'' sample_stale_row\<rparr>"

lemma sample_fields [simp]:
  "wr_id sample_stale_row = ''05''" "wr_path sample_stale_row = ''/s''" "wr_git sample_stale_row = ga_identity sample_git"
  "wr_state sample_stale_row = WtStale" "wr_links sample_stale_row = []" "wr_device sample_stale_row = 1" "wr_inode sample_stale_row = 6"
  "wv_view (sample_wt_env t) = sample_host" "wv_exec (sample_wt_env t) = sample_move" "wv_facts (sample_wt_env t) = sample_facts"
  "wv_begin_tx (sample_wt_env t) = None" "wv_finish_tx (sample_wt_env t) = None" "wv_audit_tx (sample_wt_env t) = None"
  "wv_secret (sample_wt_env t) = Inr ''k''" "wv_action_secret (sample_wt_env t) = Inr ''1''"
  "wv_now (sample_wt_env t) = t" "wv_check (sample_wt_env t) = t" "wv_done (sample_wt_env t) = t"
  "wv_binding_json (sample_wt_env t) r v c = wr_id r"
  "wd_inventory sample_wt_daemon = sample_inventory" "wd_platform sample_wt_daemon = ''darwin''" "wd_fs_healthy sample_wt_daemon"
  "wi_cfg sample_inventory = sample_wt_config" "wi_git sample_inventory = Inr sample_git" "wi_started sample_inventory = time_unix 1"
  "wt_stale_after sample_wt_config = 2 * minute" "wt_scan_interval sample_wt_config = 5 * minute"
  "sf_sessions sample_facts = Inr []" "ga_max_bytes sample_git = 1000"
  by (simp_all add: sample_stale_row_def sample_wt_env_def sample_wt_daemon_def sample_inventory_def sample_wt_config_def sample_facts_def sample_git_def)

lemma sample_tree_paths:
  "path_join [''/s'', ''.git''] = ''/s/.git''" "path_dir ''/s/.git'' = ''/s''" "depth_below ''/s'' ''/s'' = Some 0"
  "depth_below ''/s'' ''/s/.git'' = Some 1"
  by code_simp+

lemma sample_tree: "ho_tree (sample_host False) ''/s'' = Some (Node ''s'' KindDirectory (Some [Node ''.git'' KindRegular None]))"
  "ho_context (sample_host b) n = None"
  by (simp_all add: sample_host_def)

lemma sample_discovered [simp]: "discover_repositories (sample_host False) ''/s'' = Inr [''/s'']"
  by (simp add: discover_repositories_def walk_dir_def sample_tree discover_visit_def sample_tree_paths max_discovery_entries_def
      max_discovery_depth_def)

lemma sample_filesystem [simp]:
  "inspect_filesystem (sample_host False) ''/s'' = Inr \<lparr>fv_entries = 2, fv_mounts = 0, fv_all = True\<rparr>"
proof -
  have "identify (sample_host False) ''/s'' = Inr (sample_identity_of ''/s'' 6)"
    using sample_identities(3) [of False] by (simp add: sample_place_def)
  then show ?thesis
    by (simp add: inspect_filesystem_def walk_dir_def sample_tree mount_visit_def sample_tree_paths no_filesystem_def max_filesystem_entries_def)
qed

lemma sample_discovery: "validate_discovery last_byte sample_inventory (sample_host False) sample_git sample_facts sample_stale_row = None"
proof -
  have m: "map_of (sample_objects False) ''/s'' = Some (sample_info KindDirectory 6)" by code_simp
  have "worktree_repositories sample_inventory (sample_host False) sample_facts [] = Inr [(''/s'', [SourceRoot])]"
    by (simp add: worktree_repositories_def sample_facts_def sample_inventory_def sample_wt_config_def add_source_def m sample_info_def
        max_inventory_worktrees_def)
  moreover have "fresh_sources last_byte (sample_host False) sample_git sample_stale_row [(''/s'', [SourceRoot])] = Inr [SourceRoot]"
    using sample_paths(1) [of False] by (simp add: sample_registered_def sample_stale_row_def sample_place_def)
  ultimately show ?thesis by (simp add: validate_discovery_def sample_stale_row_def sorted_sources_def)
qed

lemma sample_find:
  "find_registration last_byte (sample_host b) sample_git (sample_place b) ''05'' =
     Inr ((sample_linked b)\<lparr>rg_common := ''/r/.git'', rg_admin := ''/r/.git/worktrees/s''\<rparr>, ''/r'')"
  by (simp add: find_registration_def sample_registered_def)

lemma sample_fresh_look:
  "fresh_look last_byte (sample_host False) sample_git t sample_stale_row = Inr (sample_look False, ''/r'')"
proof -
  have f: "find_registration last_byte (sample_host False) sample_git ''/s'' ''05'' =
     Inr ((sample_linked False)\<lparr>rg_common := ''/r/.git'', rg_admin := ''/r/.git/worktrees/s''\<rparr>, ''/r'')"
    using sample_find [of False] by (simp add: sample_place_def)
  have v: "validate_fresh_observation sample_stale_row ((sample_look False)\<lparr>og_observed_at := t\<rparr>) = None"
    by (simp add: validate_fresh_observation_def sample_stale_row_def sample_look_def sample_identity_of_def identity_of_def
        sample_info_def sample_place_def no_status_def guard_simps)
  have "is_abs ''/r''" by code_simp
  then show ?thesis
    by (simp add: fresh_look_def f v) (simp_all add: f v sample_stale_row_def sample_look_def)
qed

lemma sample_unused: "unused_path (sample_host b) p = Inr sample_usage"
  by (simp add: unused_path_def sample_host_def usage_none_def sample_usage_def)

lemma sample_validates:
  "validate_removal last_byte (sample_wt_env (time_unix (8 * minute))) sample_wt_daemon False sample_stale_row = Inr sample_validation"
proof -
  have q: "quiet_on_disk (sample_host False) sample_stale_row (sample_look False) =
      Inr (sample_usage, \<lparr>fv_entries = 2, fv_mounts = 0, fv_all = True\<rparr>)"
    by (simp add: quiet_on_disk_def one_filesystem_def sample_unused sample_stale_row_def sample_look_def validate_approved_links_def)
  have "stale_row_refusal sample_wt_daemon (time_unix (8 * minute)) sample_stale_row = None" by code_simp
  moreover have "cn_state (classify_worktree (row_history sample_stale_row) (sample_look False) (time_unix (8 * minute)) (time_unix 1)
      (2 * minute) (5 * minute) False True) = WtStale" by code_simp
  ultimately show ?thesis
    using sample_discovery
    by (simp add: validate_removal_def or_else_def sample_fresh_look active_session_in_worktree_def q sample_validation_def)
qed

section \<open>The retirement\<close>

definition sample_wt_approval :: "gotime \<Rightarrow> wt_approval" where
  "sample_wt_approval t = \<lparr>wp_kind = WtRetire, wp_binding = secret_digest last_byte ''05'', wp_row = sample_stale_row,
     wp_validation = sample_validation, wp_expires = t, wp_used = False\<rparr>"

definition sample_wt_tables :: wt_store where
  "sample_wt_tables = empty_wt_store\<lparr>ws_worktrees := [(''05'', sample_stale_row)]\<rparr>"

definition sample_approved :: "bool wt_world" where
  "sample_approved = \<lparr>ww_daemon = sample_wt_daemon\<lparr>wd_approvals := [(secret_digest last_byte ''k'', sample_wt_approval (time_unix (10 * minute)))]\<rparr>,
     ww_tables = sample_wt_tables, ww_host = False, ww_effects = []\<rparr>"

definition sample_wt_spent :: "bool wt_world" where
  "sample_wt_spent = sample_approved\<lparr>ww_daemon := sample_wt_daemon\<lparr>wd_approvals :=
     [(secret_digest last_byte ''k'', (sample_wt_approval (time_unix (10 * minute)))\<lparr>wp_used := True\<rparr>)]\<rparr>\<rparr>"

abbreviation sample_now :: gotime where "sample_now \<equiv> time_unix (8 * minute)"

lemma sample_spends: "spend_wt_approval last_byte (sample_wt_env sample_now) ''k'' sample_approved =
    (Inr (''wta_1'', (sample_wt_approval (time_unix (10 * minute)))\<lparr>wp_used := True\<rparr>, None), sample_wt_spent)"
  by (simp add: spend_wt_approval_def consume_wt_approval_def sample_approved_def sample_wt_spent_def sample_wt_approval_def Let_def time_unix_def
      minute_def second_def)

lemma sample_get: "get_worktree sample_wt_tables ''05'' = Inr sample_stale_row"
proof -
  have "valid_worktree_prefix ''05''" by code_simp
  then show ?thesis by (simp add: get_worktree_def sample_wt_tables_def has_prefix_def)
qed

lemma sample_validates_with:
  assumes "wd_inventory d = sample_inventory" and "wd_platform d = ''darwin''"
  shows "validate_removal last_byte (sample_wt_env sample_now) d False sample_stale_row = Inr sample_validation"
proof -
  have "stale_row_refusal d sample_now sample_stale_row = stale_row_refusal sample_wt_daemon sample_now sample_stale_row"
    by (simp add: stale_row_refusal_def assms)
  with sample_validates show ?thesis by (simp add: validate_removal_def assms)
qed

lemma sample_revalidates:
  assumes "wd_inventory (ww_daemon w) = sample_inventory" and "wd_platform (ww_daemon w) = ''darwin''"
    and "ww_tables w = sample_wt_tables" and "ww_host w = False"
  shows "revalidate last_byte (sample_wt_env sample_now) ((sample_wt_approval t)\<lparr>wp_used := True\<rparr>) w = Inr (sample_stale_row, sample_validation)"
  using assms sample_validates_with [OF assms(1,2)]
  by (simp add: revalidate_def sample_wt_approval_def sample_get same_authority_def wt_binding_def)

lemma sample_retirement_path: "retirement_path (sample_host False) sample_stale_row = Inr ''/s.ghostgc-retired-05''"
proof -
  have p: "path_clean (''/s'' @ ''.ghostgc-retired-'' @ short_id ''05'') = ''/s.ghostgc-retired-05''"
    "path_dir ''/s.ghostgc-retired-05'' = path_dir ''/s''" "map_of (sample_objects False) ''/s.ghostgc-retired-05'' = None"
    by code_simp+
  then show ?thesis by (simp add: retirement_path_def)
qed

lemma sample_moves_checkout: "git_move (sample_wt_env t) (Inr sample_git) primary source target b = (None, \<not> b)"
  by (simp add: git_move_def sample_move_def)

lemma sample_verifies_move: "verify_wt_moved last_byte (sample_host True) (Inr sample_git) ''/r'' sample_stale_row ''/s.ghostgc-retired-05'' = None"
proof -
  have "map_of (sample_objects True) ''/s'' = None" by code_simp
  then show ?thesis
    using sample_identities(3) [of True] sample_paths(1) [of True]
    by (simp add: verify_wt_moved_def sample_place_def sample_identity_of_def identity_of_def sample_info_def sample_registered_def)
qed

end
