(* ===== verification/Worktree_Laws.thy ===== *)
theory Worktree_Laws
  imports Worktree_Sample Cache_Laws
begin

text \<open>
  What the worktree lane guarantees: the order of its effects, what one retirement rests on,
  what the filesystem circuit stops and what it does not, and what a failed inventory costs.
\<close>

section \<open>Effects\<close>

fun wt_mutates :: "wt_effect \<Rightarrow> bool" where
  "wt_mutates (WtMove s t) = True"
| "wt_mutates _ = False"

fun wt_attempt :: "wt_effect \<Rightarrow> bool" where
  "wt_attempt (WtJournaled aid r) \<longleftrightarrow> r = WtAttempting"
| "wt_attempt _ \<longleftrightarrow> False"

definition wt_quiet :: "'f wt_world \<Rightarrow> 'f wt_world \<Rightarrow> bool" where
  "wt_quiet w w' \<longleftrightarrow> (\<exists>es. ww_effects w' = ww_effects w @ es \<and> list_all (\<lambda>e. \<not> wt_mutates e) es)"

definition wt_moved :: "string \<Rightarrow> string \<Rightarrow> 'f wt_world \<Rightarrow> 'f wt_world \<Rightarrow> bool" where
  "wt_moved source target w w' \<longleftrightarrow>
     (\<exists>aid es. ww_effects w' = ww_effects w @ WtJournaled aid WtAttempting # WtMove source target # es \<and>
        list_all (\<lambda>e. \<not> wt_mutates e) es)"

lemma wt_quiet_refl [simp]: "ww_effects w' = ww_effects w \<Longrightarrow> wt_quiet w w'"
  by (simp add: wt_quiet_def)

lemma wt_quiet_trans: "wt_quiet w w1 \<Longrightarrow> wt_quiet w1 w2 \<Longrightarrow> wt_quiet w w2"
  by (fastforce simp: wt_quiet_def)

lemma wt_quiet_after: "ww_effects w1 = ww_effects w \<Longrightarrow> wt_quiet w1 w' \<longleftrightarrow> wt_quiet w w'"
  and wt_moved_after: "ww_effects w1 = ww_effects w \<Longrightarrow> wt_moved s t w1 w' \<longleftrightarrow> wt_moved s t w w'"
  by (simp_all add: wt_quiet_def wt_moved_def)

lemma journaled_fields [simp]:
  "ww_effects (journaled_world s aid r w) = ww_effects w @ [WtJournaled aid r]"
  "ww_daemon (journaled_world s aid r w) = ww_daemon w"
  "ww_host (journaled_world s aid r w) = ww_host w"
  "ww_tables (journaled_world s aid r w) = s"
  by (simp_all add: journaled_world_def)

lemma begin_wt_cases:
  assumes "begin_wt_action env a kind w = (x, w')"
  obtains (failed) e where "x = Some e" and "w' = w"
  | (begun) s where "x = None" and "w' = journaled_world s (wa_id a) (wa_result a) w"
  using assms by (auto simp: begin_wt_action_def split: prod.splits option.splits)

lemma finish_wt_cases:
  assumes "finish_wt_action env a row result reason kind w = (x, w')"
  obtains (failed) e where "x = Some e" and "w' = w"
  | (finished) s where "x = None" and "w' = journaled_world s (wa_id a) result w"
  using assms by (auto simp: finish_wt_action_def split: prod.splits option.splits)

lemma wt_quiet_journal [simp]: "wt_quiet w (journaled_world s aid r w)"
  by (simp add: wt_quiet_def)

lemma wt_quiet_begin: "wt_quiet w (snd (begin_wt_action env a kind w))"
  by (cases "begin_wt_action env a kind w") (auto elim: begin_wt_cases)

lemma wt_quiet_finish: "wt_quiet w (snd (finish_wt_action env a row result reason kind w))"
  by (cases "finish_wt_action env a row result reason kind w") (auto elim: finish_wt_cases)

text \<open>A reply that a journal entry ends has that entry's world.\<close>

lemma wt_reply_world [simp]:
  "snd (case p of (Some e, w') \<Rightarrow> (Inl (f e), w') | (None, w') \<Rightarrow> (Inr x, w')) = snd p"
  by (cases p) (auto split: option.splits)

lemma wt_quiet_replies:
  "wt_quiet w (snd (reject_wt_action env aid r recreate reason w))"
  "wt_quiet w (snd (finish_failed env a reason w))"
  "wt_quiet w (snd (finish_partial env a reason w))"
  unfolding reject_wt_action_def finish_failed_def finish_partial_def Let_def wt_reply_world
  by (rule wt_quiet_begin wt_quiet_finish)+

lemma trip_fields [simp]:
  "ww_effects (trip_wt_circuit reason w) = ww_effects w"
  "ww_tables (trip_wt_circuit reason w) = ww_tables w"
  "ww_host (trip_wt_circuit reason w) = ww_host w"
  "wd_inventory (ww_daemon (trip_wt_circuit reason w)) = wd_inventory (ww_daemon w)"
  "wd_approvals (ww_daemon (trip_wt_circuit reason w)) = wd_approvals (ww_daemon w)"
  "wd_plans (ww_daemon (trip_wt_circuit reason w)) = wd_plans (ww_daemon w)"
  "wd_platform (ww_daemon (trip_wt_circuit reason w)) = wd_platform (ww_daemon w)"
  "\<not> wd_fs_healthy (ww_daemon (trip_wt_circuit reason w))"
  by (simp_all add: trip_wt_circuit_def Let_def)

lemma wt_quiet_tripped:
  "wt_quiet w (snd (finish_partial env a reason (trip_wt_circuit cause w)))"
  using wt_quiet_replies(3) [of "trip_wt_circuit cause w" env a reason]
  by (simp add: wt_quiet_def)

lemma move_and_verify_effects:
  "\<exists>w1. ww_effects w1 = ww_effects w @ [WtMove (wr_path r) destination] \<and>
     wt_quiet w1 (snd (move_and_verify hs env a r primary destination name result reason after kind recreate w))"
proof -
  obtain moved f' where m: "git_move env (wi_git (wd_inventory (ww_daemon w))) primary (wr_path r) destination (ww_host w) = (moved, f')"
    by fastforce
  let ?w1 = "w\<lparr>ww_host := f', ww_effects := ww_effects w @ [WtMove (wr_path r) destination]\<rparr>"
  have "wt_quiet ?w1 (snd (move_and_verify hs env a r primary destination name result reason after kind recreate w))"
    by (auto simp: move_and_verify_def m Let_def wt_quiet_replies wt_quiet_tripped wt_quiet_finish split: option.split)
  then show ?thesis by (intro exI [of _ ?w1]) simp
qed

lemma moved_intro:
  assumes "w' = snd (move_and_verify hs env a r primary t name result reason after kind recreate w1)"
    and "ww_effects w1 = ww_effects w @ [WtJournaled aid WtAttempting]"
  shows "wt_moved (wr_path r) t w w'"
  using assms(2) move_and_verify_effects [of w1 r t hs env a primary name result reason after kind recreate]
  unfolding assms(1) by (auto simp: wt_moved_def wt_quiet_def)

lemma attempt_result [simp]:
  "wa_result (attempt_of env aid r v result reason recreate) = result"
  "wa_id (attempt_of env aid r v result reason recreate) = aid"
  by (simp_all add: attempt_of_def)

lemma execute_removal_effects:
  assumes "execute_removal hs env aid r v w = (x, w')"
  shows "wt_quiet w w' \<or>
    (\<exists>t. retirement_path (wv_view env (ww_host w)) r = Inr t \<and> wt_moved (wr_path r) t w w')"
proof (cases "retirement_path (wv_view env (ww_host w)) r")
  case (Inl e)
  with assms wt_quiet_replies(1) [of w env aid r "va_recreate v" e] show ?thesis
    by (simp add: execute_removal_def)
next
  case (Inr t)
  define a where "a = attempt_of env aid r v WtAttempting
    (Text ''full fresh revalidation passed; reversible native worktree retirement is about to be attempted'') (va_recreate v)"
  obtain y w1 where b: "begin_wt_action env a ''worktree.retirement.attempting'' w = (y, w1)" by fastforce
  from b show ?thesis
  proof (cases rule: begin_wt_cases)
    case (failed e)
    with assms Inr b show ?thesis by (simp add: execute_removal_def a_def [symmetric])
  next
    case (begun s)
    with assms Inr b have "w' = snd (move_and_verify hs env a r (va_primary v) t ''retirement'' WtRetiredResult
        (Text ''registered worktree was moved to a restorable same-filesystem retirement path'')
        (retired_row env (wi_cfg (wd_inventory (ww_daemon w))) r v t) ''worktree.retirement.retired'' (restore_hint (wr_id r)) w1)"
      by (simp add: execute_removal_def a_def [symmetric])
    then have "wt_moved (wr_path r) t w w'" by (rule moved_intro) (simp add: begun a_def)
    with Inr show ?thesis by blast
  qed
qed

lemma execute_restore_effects:
  assumes "execute_restore hs env aid r v w = (x, w')"
  shows "wt_quiet w w' \<or> wt_moved (wr_path r) (wr_original r) w w'"
proof -
  define a where "a = attempt_of env aid r v WtAttempting
    (Text ''fresh restore checks passed; reversible worktree move is about to run'') (wr_recreate r)"
  obtain y w1 where b: "begin_wt_action env a ''worktree.restore.attempting'' w = (y, w1)" by fastforce
  from b show ?thesis
  proof (cases rule: begin_wt_cases)
    case (failed e)
    with assms b show ?thesis by (simp add: execute_restore_def a_def [symmetric])
  next
    case (begun s)
    with assms b have "w' = snd (move_and_verify hs env a r (va_primary v) (wr_original r) ''restore'' WtRestored
        (Text ''retired checkout was restored to its exact original path'') (restored_row env r) ''worktree.restored'' (wr_recreate r) w1)"
      by (simp add: execute_restore_def a_def [symmetric])
    then have "wt_moved (wr_path r) (wr_original r) w w'" by (rule moved_intro) (simp add: begun a_def)
    then show ?thesis by blast
  qed
qed


lemma consume_wt_frame:
  assumes "consume_wt_approval hs token now d = (r, d')"
  shows "wd_fs_healthy d' = wd_fs_healthy d \<and> wd_inventory d' = wd_inventory d \<and> wd_plans d' = wd_plans d \<and>
    wd_platform d' = wd_platform d"
proof (cases "map_of (wd_approvals d) (secret_digest hs token)")
  case None
  with assms show ?thesis by (simp add: consume_wt_approval_def)
next
  case (Some a)
  with assms show ?thesis by (cases "wp_used a") (auto simp: consume_wt_approval_def Let_def)
qed

lemma spend_wt_world:
  assumes "spend_wt_approval hs env token w = (r, w1)"
  shows "\<exists>x d. consume_wt_approval hs token (wv_now env) (ww_daemon w) = (x, d) \<and> w1 = w\<lparr>ww_daemon := d\<rparr>"
proof -
  obtain x d where c: "consume_wt_approval hs token (wv_now env) (ww_daemon w) = (x, d)" by fastforce
  with assms show ?thesis
    by (cases x; cases "wv_action_secret env") (auto simp: spend_wt_approval_def)
qed

lemma spend_wt_frame:
  assumes "spend_wt_approval hs env token w = (r, w1)"
  shows "ww_effects w1 = ww_effects w" "ww_tables w1 = ww_tables w" "ww_host w1 = ww_host w"
    "wd_fs_healthy (ww_daemon w1) = wd_fs_healthy (ww_daemon w)" "wd_inventory (ww_daemon w1) = wd_inventory (ww_daemon w)"
    "wd_plans (ww_daemon w1) = wd_plans (ww_daemon w)" "wd_platform (ww_daemon w1) = wd_platform (ww_daemon w)"
proof -
  obtain x d where c: "consume_wt_approval hs token (wv_now env) (ww_daemon w) = (x, d)" and w1: "w1 = w\<lparr>ww_daemon := d\<rparr>"
    using spend_wt_world [OF assms] by blast
  from consume_wt_frame [OF c] w1
  show "ww_effects w1 = ww_effects w" "ww_tables w1 = ww_tables w" "ww_host w1 = ww_host w"
    "wd_fs_healthy (ww_daemon w1) = wd_fs_healthy (ww_daemon w)" "wd_inventory (ww_daemon w1) = wd_inventory (ww_daemon w)"
    "wd_plans (ww_daemon w1) = wd_plans (ww_daemon w)" "wd_platform (ww_daemon w1) = wd_platform (ww_daemon w)"
    by simp_all
qed

text \<open>A request that moves something has spent a fresh approval of its kind and revalidated it.\<close>

lemma apply_wt_cases:
  assumes "apply_wt_move hs env k token w = (x, w')"
  obtains (quiet) "wt_quiet w w'"
  | (moved) aid ap w1 r v t where "spend_wt_approval hs env token w = (Inr (aid, ap, None), w1)" and "wp_kind ap = k"
      and "revalidate hs env ap w1 = Inr (r, v)" and "wt_moved (wr_path r) t w w'"
      and "if k = WtRetire then retirement_path (wv_view env (ww_host w)) r = Inr t else t = wr_original r"
proof (cases "spend_wt_approval hs env token w")
  case (Pair s w1)
  note frame = spend_wt_frame [OF Pair]
  have same: "wt_quiet w1 y \<Longrightarrow> wt_quiet w y" for y by (simp add: wt_quiet_after [OF frame(1)])
  show thesis
  proof (cases s)
    case (Inl e)
    with assms Pair frame have "wt_quiet w w'" by (auto simp: apply_wt_move_def split: if_splits)
    then show thesis by (rule quiet)
  next
    case (Inr p)
    obtain aid ap refusal where p: "p = (aid, ap, refusal)" by (cases p) auto
    have rejected: "wt_quiet w (snd (reject_wt_action env aid r recreate reason w1))" for r recreate reason
      by (rule same) (rule wt_quiet_replies)
    define stop where "stop = (if wp_kind ap \<noteq> k then Some (Fmt ''approval action does not match worktree %s'' [AStr (wt_kind_name k)]) else refusal)"
    have run: "token = [] \<and> w' = w \<or> (x, w') = (case stop of
          Some reason \<Rightarrow> reject_wt_action env aid (wp_row ap) (va_recreate (wp_validation ap)) reason w1
        | None \<Rightarrow> (case revalidate hs env ap w1 of
            Inl reason \<Rightarrow> reject_wt_action env aid (wp_row ap) (va_recreate (wp_validation ap)) reason w1
          | Inr (r, v) \<Rightarrow> if k = WtRetire then execute_removal hs env aid r v w1 else execute_restore hs env aid r v w1))"
      using assms Pair Inr p by (auto simp: apply_wt_move_def Let_def stop_def split: if_splits)
    consider (stop) "wt_quiet w w'" | (go) r v where "refusal = None" "wp_kind ap = k" "revalidate hs env ap w1 = Inr (r, v)"
      "(if k = WtRetire then execute_removal hs env aid r v w1 else execute_restore hs env aid r v w1) = (x, w')"
    proof (cases stop)
      case (Some reason)
      with run rejected have "wt_quiet w w'" by (metis (no_types, lifting) option.simps(5) snd_conv wt_quiet_refl)
      then show thesis by (rule that(1))
    next
      case None
      then have ok: "refusal = None" "wp_kind ap = k" by (auto simp: stop_def split: if_splits)
      show thesis
      proof (cases "revalidate hs env ap w1")
        case (Inl reason)
        with run None rejected have "wt_quiet w w'" by (metis (no_types, lifting) option.simps(4) sum.case(1) snd_conv wt_quiet_refl)
        then show thesis by (rule that(1))
      next
        case (Inr q)
        obtain r v where "q = (r, v)" by (cases q)
        with run None Inr ok that show thesis by (auto split: if_splits)
      qed
    qed
    then show thesis
    proof cases
      case stop
      then show thesis by (rule quiet)
    next
      case go
      have "wt_quiet w1 w' \<or> (\<exists>t. (if k = WtRetire then retirement_path (wv_view env (ww_host w)) r = Inr t else t = wr_original r) \<and>
          wt_moved (wr_path r) t w1 w')"
        using go(4) frame(3) by (auto split: if_splits dest!: execute_removal_effects execute_restore_effects)
      then show thesis
      proof
        assume "wt_quiet w1 w'"
        then show thesis by (intro quiet same)
      next
        assume "\<exists>t. (if k = WtRetire then retirement_path (wv_view env (ww_host w)) r = Inr t else t = wr_original r) \<and>
          wt_moved (wr_path r) t w1 w'"
        then obtain t where t: "if k = WtRetire then retirement_path (wv_view env (ww_host w)) r = Inr t else t = wr_original r"
          and m: "wt_moved (wr_path r) t w1 w'" by blast
        from m have "wt_moved (wr_path r) t w w'" by (simp add: wt_moved_after [OF frame(1)])
        with Pair Inr p go t show thesis by (intro moved) auto
      qed
    qed
  qed
qed


lemma wt_quiet_issue: "wt_quiet w (snd (issue_wt_approval hs env k r v w))"
  by (auto simp: issue_wt_approval_def Let_def split: sum.splits prod.splits option.splits)

lemma wt_quiet_previews:
  "wt_quiet w (snd (worktree_removal_preview hs env i w))"
  "wt_quiet w (snd (worktree_restore_preview hs env i w))"
  "wt_quiet w (snd (worktree_purge_preview hs env i w))"
  by (auto simp: worktree_removal_preview_def worktree_restore_preview_def worktree_purge_preview_def retired_preview_def
      wt_quiet_issue split: sum.splits)

lemma rejected_wt_world [simp]: "snd (rejected_wt_purge r) = snd r"
  by (auto simp: rejected_wt_purge_def split: prod.splits sum.splits)

lemma wt_quiet_prepare: "wt_quiet w (snd (prepare_worktree_purge hs env aid r v w))"
proof (cases "wv_secret env")
  case (Inr completion)
  obtain x w1 where b: "begin_wt_action env ((attempt_of env aid r v WtPurging (Text ''daemon committed foreground worktree finalization intent'')
      (recreate_command (va_primary v) (r\<lparr>wr_path := wr_original r\<rparr>)))\<lparr>wa_updated := unix_nano (wv_now env)\<rparr>)
      ''worktree.purge.prepared'' w = (x, w1)" (is "begin_wt_action env ?a ?k w = _") by fastforce
  from b have q: "wt_quiet w w1" by (metis wt_quiet_begin snd_conv)
  have q2: "wt_quiet w1 (journaled_world s aid WtFailed (w1\<lparr>ww_daemon := d\<rparr>))" for s d
    by (simp add: wt_quiet_def)
  have q3: "wt_quiet w1 (w1\<lparr>ww_daemon := d\<rparr>)" for d by simp
  show ?thesis
    using Inr q wt_quiet_trans [OF q q2] wt_quiet_trans [OF q q3]
    by (auto simp: prepare_worktree_purge_def b Let_def split: option.splits prod.splits)
qed (simp add: prepare_worktree_purge_def)

lemma wt_quiet_purge_apply: "wt_quiet w (snd (worktree_purge_apply hs env token confirmation w))"
proof (cases "spend_wt_approval hs env token w")
  case (Pair s w1)
  note frame = spend_wt_frame [OF Pair]
  have same: "wt_quiet w1 y \<Longrightarrow> wt_quiet w y" for y by (simp add: wt_quiet_after [OF frame(1)])
  have q: "wt_quiet w w1" using frame(1) by simp
  show ?thesis
    using Pair q same [OF wt_quiet_prepare] same [OF wt_quiet_replies(1)]
    by (simp add: worktree_purge_apply_def Let_def split: sum.split option.split prod.split)
qed

lemma wt_quiet_purge_complete: "wt_quiet w (snd (worktree_purge_complete hs env aid completion err w))"
proof (cases "consume_wt_plan hs aid completion (ww_daemon w)")
  case (Some p)
  obtain x d where p: "p = (x, d)" by (cases p)
  have same: "wt_quiet (w\<lparr>ww_daemon := d\<rparr>) y \<Longrightarrow> wt_quiet w y" for y by (simp add: wt_quiet_def)
  show ?thesis
    using Some p same [OF wt_quiet_replies(2)] same [OF wt_quiet_tripped] same [OF wt_quiet_finish]
    by (simp add: worktree_purge_complete_def Let_def split: option.split)
qed (simp add: worktree_purge_complete_def)

section \<open>Requests\<close>

text \<open>
  Besides the requests: the two kinds of cycles, what other programs do to the host (among them
  the foreground removal), and the cache lane opening the shared circuit. A restart forgets all
  authority and closes the circuit.
\<close>

inductive wt_step :: "hash_ops \<Rightarrow> 'f wt_world \<Rightarrow> 'f wt_world \<Rightarrow> bool" for hs where
  cycle: "worktree_cycle hs (wv_view (env :: 'f wt_env) (ww_host w)) (wv_facts env) fault snap ss (wd_inventory (ww_daemon w)) (ww_tables w) = (inven, s) \<Longrightarrow>
     wt_step hs w (w\<lparr>ww_daemon := (ww_daemon w)\<lparr>wd_inventory := inven\<rparr>, ww_tables := s\<rparr>)"
| failed_cycle: "worktree_failed_cycle hs (wv_view (env :: 'f wt_env) (ww_host w)) (wv_facts env) fault start (wd_inventory (ww_daemon w)) (ww_tables w) = (inven, s) \<Longrightarrow>
     wt_step hs w (w\<lparr>ww_daemon := (ww_daemon w)\<lparr>wd_inventory := inven\<rparr>, ww_tables := s\<rparr>)"
| removal_preview: "wt_step hs w (snd (worktree_removal_preview hs env i w))"
| restore_preview: "wt_step hs w (snd (worktree_restore_preview hs env i w))"
| purge_preview: "wt_step hs w (snd (worktree_purge_preview hs env i w))"
| removal_apply: "wt_step hs w (snd (worktree_removal_apply hs env token w))"
| restore_apply: "wt_step hs w (snd (worktree_restore_apply hs env token w))"
| purge_apply: "wt_step hs w (snd (worktree_purge_apply hs env token confirmation w))"
| purge_complete: "wt_step hs w (snd (worktree_purge_complete hs env aid completion err w))"
| outside: "wt_step hs w (w\<lparr>ww_host := f\<rparr>)"
| tripped: "wt_step hs w (trip_wt_circuit reason w)"
| restart: "wt_step hs w (w\<lparr>ww_daemon := start_wt_daemon c g started platform\<rparr>)"

lemma apply_wt_effects:
  "wt_quiet w (snd (apply_wt_move hs env k token w)) \<or> (\<exists>s t. wt_moved s t w (snd (apply_wt_move hs env k token w)))"
proof (cases "apply_wt_move hs env k token w")
  case (Pair x w')
  then show ?thesis by (cases rule: apply_wt_cases) (use Pair in auto)
qed

lemma wt_step_effects: "wt_step hs w w' \<Longrightarrow> wt_quiet w w' \<or> (\<exists>s t. wt_moved s t w w')"
  by (induction rule: wt_step.induct)
    (simp_all add: wt_quiet_previews wt_quiet_purge_apply wt_quiet_purge_complete worktree_removal_apply_def
      worktree_restore_apply_def apply_wt_effects)

interpretation worktree_moves: moving_lane "wt_step hs" ww_effects wt_mutates wt_attempt for hs
proof
  show "\<not> wt_mutates a" if "wt_attempt a" for a using that by (cases a) simp_all
  show "(\<exists>es. ww_effects w' = ww_effects w @ es \<and> list_all (\<lambda>e. \<not> wt_mutates e) es) \<or>
      (\<exists>a e es. ww_effects w' = ww_effects w @ a # e # es \<and> wt_attempt a \<and> list_all (\<lambda>e. \<not> wt_mutates e) es)"
    if "wt_step hs w w'" for w w'
    using wt_step_effects [OF that] unfolding wt_quiet_def wt_moved_def by (metis wt_attempt.simps(1))
qed

text \<open>C11: In every run from a world without effects, through cycles that work and cycles that fail,
  previews, retirements, restorations, purges, restarts and whatever other programs do, each
  checkout that the daemon asks Git to move is asked for directly after the committed journal
  entry of the attempt.\<close>

theorem every_worktree_move_is_journaled:
  assumes "(wt_step hs)\<^sup>*\<^sup>* w0 w" and "ww_effects w0 = []" and "ww_effects w = before @ e # after" and "wt_mutates e"
  shows "\<exists>b aid. before = b @ [WtJournaled aid WtAttempting]"
  using worktree_moves.run_move_attempted [OF assms] by (metis wt_attempt.elims(2))

section \<open>What a fresh look shows\<close>

lemma base_protections_frame [simp]:
  "base_protections (ob\<lparr>og_complete := c, og_protection := p\<rparr>) = base_protections ob"
  by (simp add: base_protections_def)

lemma inspect_content_complete:
  assumes "og_complete (inspect_content hs h g p ob)" and "\<not> og_complete ob"
  shows "og_protection (inspect_content hs h g p ob) =
    sort (og_protection ob @ base_protections (inspect_content hs h g p ob))"
proof -
  obtain raw where run: "git_run h g (og_path ob) [''status'', ''--porcelain=v2'', ''-z'', ''--ignored=matching'', ''--untracked-files=all''] = Inr raw"
    using assms by (auto simp: inspect_content_def refused_def Let_def split: sum.splits)
  obtain st ls e where parsed: "parse_status hs (\<lambda>kind path. approved_environment_link h (og_path ob) p path) raw = (st, ls, e)"
    by (metis prod_cases3)
  with run assms have e: "e = None" by (auto simp: inspect_content_def refused_def Let_def split: option.splits)
  show ?thesis using assms by (auto simp: inspect_content_def run parsed e refused_def Let_def split: prod.splits if_splits)
qed

lemma inspect_content_frame [simp]:
  "og_path (inspect_content hs h g p ob) = og_path ob"
  "og_id (inspect_content hs h g p ob) = og_id ob"
  "og_common (inspect_content hs h g p ob) = og_common ob"
  "og_admin (inspect_content hs h g p ob) = og_admin ob"
  by (auto simp: inspect_content_def refused_def Let_def split: sum.splits prod.splits option.splits)

lemma inspect_administration_complete:
  assumes "og_complete (inspect_administration hs h g p ob)" and "\<not> og_complete ob"
  shows "og_protection (inspect_administration hs h g p ob) =
    sort (og_protection ob @ base_protections (inspect_administration hs h g p ob))"
proof -
  obtain c a where r: "rev_path h g (og_path ob) ''--git-common-dir'' = Inr c" "rev_path h g (og_path ob) ''--git-dir'' = Inr a"
    using assms by (auto simp: inspect_administration_def refused_def Let_def split: sum.splits)
  with assms obtain c' a' where ev: "ho_eval h c = Some c'" "ho_eval h a = Some a'"
    by (auto simp: inspect_administration_def refused_def Let_def split: option.splits)
  with r assms obtain ci ai where i: "identify h c' = Inr ci" "identify h a' = Inr ai"
    by (auto simp: inspect_administration_def refused_def Let_def split: sum.splits)
  from assms r ev i show ?thesis
    by (auto simp: inspect_administration_def Let_def dest!: inspect_content_complete)
qed

text \<open>An observation that is complete has exactly the protections of its own facts.\<close>

lemma inspect_complete:
  assumes "og_complete (inspect hs h g now r primary)"
  shows "og_protection (inspect hs h g now r primary) = sort (base_protections (inspect hs h g now r primary))"
  using assms
  by (auto simp: inspect_def first_observation_def refused_def identify_missing_def Let_def
      split: lstat_result.splits if_splits sum.splits option.splits dest!: inspect_administration_complete)

text \<open>
  What the machine itself answers about a checkout, in terms of the system calls and the runs of Git:
  \<open>regs\<close> is the list Git prints, \<open>primary\<close> the first entry's directory.
\<close>

definition machine_shows :: "hash_ops \<Rightarrow> host \<Rightarrow> git_adapter \<Rightarrow> worktree_row \<Rightarrow> bool" where
  "machine_shows hs h g r \<longleftrightarrow> (\<exists>regs reg primary pc i pid ci ai raw st links.
     git_registrations h g (wr_path r) = Inr regs \<and> reg \<in> set regs \<and> registration_id hs h reg = Some (wr_id r) \<and>
     \<not> rg_locked reg \<and> \<not> rg_prunable reg \<and>
     rg_head reg = wr_head r \<and> rg_ref reg = wr_ref r \<and> rg_branch reg = wr_branch r \<and>
     ho_lstat h (rg_path reg) = Found i \<and> in_kind i = KindDirectory \<and> ho_eval h (rg_path reg) = Some (wr_path r) \<and>
     identify h (wr_path r) = Inr pid \<and> fi_device pid = wr_device r \<and> fi_inode pid = wr_inode r \<and>
     identify h (wr_common r) = Inr ci \<and> identify h (wr_admin r) = Inr ai \<and> stable_id hs ci ai = wr_id r \<and>
     wr_common r \<noteq> wr_admin r \<and> ho_eval h (rg_path (hd regs)) = Some primary \<and>
     pc = (case ho_eval h primary of None \<Rightarrow> [] | Some p \<Rightarrow> p) \<and> wr_path r \<noteq> pc \<and>
     git_run h g (wr_path r) [''status'', ''--porcelain=v2'', ''-z'', ''--ignored=matching'', ''--untracked-files=all''] = Inr raw \<and>
     parse_status hs (\<lambda>kind path. approved_environment_link h (wr_path r) pc path) raw = (st, links, None) \<and>
     status_clean st \<and> se_fingerprint st = wr_fingerprint r \<and>
     (\<forall>name \<in> set operation_paths. \<not> path_exists h (path_join [wr_admin r, name])) \<and>
     \<not> git_succeeds h g (wr_path r) [''ls-files'', ''--error-unmatch'', ''--'', ''.gitmodules''] \<and>
     \<not> path_exists h (path_join [wr_common r, ''modules'']) \<and> \<not> path_exists h (path_join [wr_admin r, ''modules'']) \<and>
     (if rg_detached reg
      then \<exists>raw. git_run h g (wr_path r) [''for-each-ref'', ''--contains=HEAD'', ''--format=%(objectname)'', ''refs/heads'', ''refs/tags''] = Inr raw \<and>
        trim_space raw \<noteq> []
      else if git_succeeds h g (wr_path r) [''rev-parse'', ''--verify'', upstream]
      then git_count h g (wr_path r) [''rev-list'', ''--count'', upstream @ ''..HEAD''] = (0, None)
      else \<exists>raw. git_run h g (wr_path r) [''branch'', ''-r'', ''--contains'', ''HEAD'', ''--format=%(objectname)''] = Inr raw \<and>
        trim_space raw \<noteq> []))"

lemma inspect_content_shows:
  assumes "og_complete (inspect_content hs h g p ob)" and "\<not> og_complete ob"
  shows "\<exists>raw links. git_run h g (og_path ob) [''status'', ''--porcelain=v2'', ''-z'', ''--ignored=matching'', ''--untracked-files=all''] = Inr raw \<and>
    parse_status hs (\<lambda>kind path. approved_environment_link h (og_path ob) p path) raw = (og_status (inspect_content hs h g p ob), links, None) \<and>
    og_operations (inspect_content hs h g p ob) = git_operations h (og_admin ob) \<and>
    og_submodules (inspect_content hs h g p ob) = (git_succeeds h g (og_path ob) [''ls-files'', ''--error-unmatch'', ''--'', ''.gitmodules''] \<or>
      path_exists h (path_join [og_common ob, ''modules'']) \<or> path_exists h (path_join [og_admin ob, ''modules''])) \<and>
    git_reachability h g ob = (og_published (inspect_content hs h g p ob), og_reachable (inspect_content hs h g p ob), None)"
proof -
  obtain raw where run: "git_run h g (og_path ob) [''status'', ''--porcelain=v2'', ''-z'', ''--ignored=matching'', ''--untracked-files=all''] = Inr raw"
    using assms by (auto simp: inspect_content_def refused_def Let_def split: sum.splits)
  obtain st ls e where parsed: "parse_status hs (\<lambda>kind path. approved_environment_link h (og_path ob) p path) raw = (st, ls, e)"
    by (metis prod_cases3)
  with run assms have e: "e = None" by (auto simp: inspect_content_def refused_def Let_def split: option.splits)
  obtain pub reach e2 where reach: "git_reachability h g ob = (pub, reach, e2)" by (metis prod_cases3)
  have same: "git_reachability h g (ob\<lparr>og_status := st, og_links := ls, og_operations := x, og_submodules := y\<rparr>) = (pub, reach, e2)" for x y
  proof -
    have "git_reachability h g (ob\<lparr>og_status := st, og_links := ls, og_operations := x, og_submodules := y\<rparr>) = git_reachability h g ob"
      unfolding git_reachability_def by simp
    with reach show ?thesis by simp
  qed
  with run parsed e assms have "e2 = None" by (auto simp: inspect_content_def refused_def Let_def split: if_splits)
  with run parsed e same reach show ?thesis by (simp add: inspect_content_def Let_def)
qed

lemma inspect_content_registered [simp]:
  "og_head (inspect_content hs h g p ob) = og_head ob" "og_ref (inspect_content hs h g p ob) = og_ref ob"
  "og_branch (inspect_content hs h g p ob) = og_branch ob" "og_detached (inspect_content hs h g p ob) = og_detached ob"
  "og_locked (inspect_content hs h g p ob) = og_locked ob" "og_prunable (inspect_content hs h g p ob) = og_prunable ob"
  "og_primary (inspect_content hs h g p ob) = og_primary ob" "og_path_identity (inspect_content hs h g p ob) = og_path_identity ob"
  by (auto simp: inspect_content_def refused_def Let_def split: sum.splits prod.splits option.splits)

text \<open>A complete inspection is that of a directory Git administers, by the last step of the chain.\<close>

lemma inspect_steps:
  assumes "og_complete (inspect hs h g now reg primary)"
  obtains i pid common admin ci ai pc ob where "ho_lstat h (rg_path reg) = Found i" "in_kind i = KindDirectory"
    "ho_eval h (rg_path reg) = Some (path_clean (rg_path reg))" "identify h (path_clean (rg_path reg)) = Inr pid"
    "identify h common = Inr ci" "identify h admin = Inr ai"
    "pc = (case ho_eval h primary of None \<Rightarrow> [] | Some p \<Rightarrow> p)"
    "og_path ob = path_clean (rg_path reg)" "og_common ob = common" "og_admin ob = admin" "og_path_identity ob = pid"
    "og_id ob = stable_id hs ci ai" "og_primary ob \<longleftrightarrow> path_clean (rg_path reg) = pc \<or> common = admin"
    "og_head ob = rg_head reg" "og_ref ob = rg_ref reg" "og_branch ob = rg_branch reg" "og_detached ob = rg_detached reg"
    "og_locked ob = rg_locked reg" "og_prunable ob = rg_prunable reg"
    "\<not> og_complete ob" "inspect hs h g now reg primary = inspect_content hs h g pc ob"
proof -
  obtain i where i: "ho_lstat h (rg_path reg) = Found i" "in_kind i = KindDirectory"
    "ho_eval h (rg_path reg) = Some (path_clean (rg_path reg))"
    using assms by (auto simp: inspect_def first_observation_def refused_def identify_missing_def Let_def
      split: lstat_result.splits if_splits option.splits)
  with assms obtain pid where pid: "identify h (path_clean (rg_path reg)) = Inr pid"
    by (auto simp: inspect_def first_observation_def refused_def Let_def split: sum.splits)
  define ob0 where "ob0 = (first_observation reg now)\<lparr>og_canonical := True, og_path := path_clean (rg_path reg), og_path_identity := pid\<rparr>"
  from i pid have adm: "inspect hs h g now reg primary = inspect_administration hs h g primary ob0"
    by (simp add: inspect_def ob0_def Let_def)
  have nc: "\<not> og_complete ob0" by (simp add: ob0_def first_observation_def)
  from assms adm have c: "og_complete (inspect_administration hs h g primary ob0)" by simp
  obtain c0 a0 where r: "rev_path h g (og_path ob0) ''--git-common-dir'' = Inr c0" "rev_path h g (og_path ob0) ''--git-dir'' = Inr a0"
    using c nc by (auto simp: inspect_administration_def refused_def Let_def split: sum.splits)
  with c nc obtain common admin where ev: "ho_eval h c0 = Some common" "ho_eval h a0 = Some admin"
    by (auto simp: inspect_administration_def refused_def Let_def split: option.splits)
  with r c nc obtain ci ai where ids: "identify h common = Inr ci" "identify h admin = Inr ai"
    by (auto simp: inspect_administration_def refused_def Let_def split: sum.splits)
  define pc where "pc = (case ho_eval h primary of None \<Rightarrow> [] | Some p \<Rightarrow> p)"
  define ob where "ob = ob0\<lparr>og_common := common, og_admin := admin, og_common_identity := ci, og_admin_identity := ai,
    og_id := stable_id hs ci ai, og_primary := og_path ob0 = pc \<or> common = admin\<rparr>"
  from r ev ids have "inspect_administration hs h g primary ob0 = inspect_content hs h g pc ob"
    by (simp add: inspect_administration_def ob_def pc_def Let_def)
  with adm have eq: "inspect hs h g now reg primary = inspect_content hs h g pc ob" by simp
  have fields: "og_path ob = path_clean (rg_path reg)" "og_common ob = common" "og_admin ob = admin" "og_path_identity ob = pid"
    "og_id ob = stable_id hs ci ai" "og_primary ob \<longleftrightarrow> path_clean (rg_path reg) = pc \<or> common = admin"
    "og_head ob = rg_head reg" "og_ref ob = rg_ref reg" "og_branch ob = rg_branch reg" "og_detached ob = rg_detached reg"
    "og_locked ob = rg_locked reg" "og_prunable ob = rg_prunable reg" "\<not> og_complete ob"
    by (simp_all add: ob_def ob0_def first_observation_def)
  show thesis by (rule that [OF i pid ids pc_def fields eq])
qed

definition removable :: "observation \<Rightarrow> bool" where
  "removable ob \<longleftrightarrow> og_present ob \<and> og_canonical ob \<and> og_complete ob \<and> \<not> og_primary ob \<and> \<not> og_locked ob \<and> \<not> og_prunable ob \<and>
     status_clean (og_status ob) \<and> og_operations ob = [] \<and> \<not> og_submodules ob \<and> og_published ob \<and>
     (og_detached ob \<longrightarrow> og_reachable ob)"

lemma sort_Nil_iff [simp]: "sort xs = [] \<longleftrightarrow> xs = []"
  by (metis length_0_conv length_sort)

lemma base_protections_none:
  "base_protections ob = [] \<longleftrightarrow> \<not> og_primary ob \<and> \<not> og_locked ob \<and> \<not> og_prunable ob \<and>
     status_clean (og_status ob) \<and> og_operations ob = [] \<and> \<not> og_submodules ob \<and> og_published ob \<and>
     (og_detached ob \<longrightarrow> og_reachable ob)"
  by (auto simp: base_protections_def)

lemma validate_fresh_None:
  "validate_fresh_observation r ob = None \<longleftrightarrow> og_complete ob \<and> og_present ob \<and> og_canonical ob \<and>
     og_id ob = wr_id r \<and> og_path ob = wr_path r \<and> og_common ob = wr_common r \<and> og_admin ob = wr_admin r \<and>
     fi_device (og_path_identity ob) = wr_device r \<and> fi_inode (og_path_identity ob) = wr_inode r \<and>
     og_head ob = wr_head r \<and> og_ref ob = wr_ref r \<and> og_branch ob = wr_branch r \<and>
     se_fingerprint (og_status ob) = wr_fingerprint r \<and> og_protection ob = []"
  by (auto simp: validate_fresh_observation_def guard_simps)

lemma operations_none: "git_operations h admin = [] \<longleftrightarrow> (\<forall>name \<in> set operation_paths. \<not> path_exists h (path_join [admin, name]))"
  by (simp add: git_operations_def filter_empty_conv)

lemma find_registration_listed:
  assumes "find_registration hs h g repo wid = Inr (reg, raw)"
  shows "\<exists>regs. git_registrations h g repo = Inr regs \<and> reg \<in> set regs \<and> registration_id hs h reg = Some wid \<and> raw = rg_path (hd regs)"
proof -
  from assms obtain regs where g: "git_registrations h g repo = Inr regs"
    by (auto simp: find_registration_def split: sum.splits)
  with assms obtain y ys where ys: "regs = y # ys" by (cases regs) (simp_all add: find_registration_def)
  from assms g ys have "List.find (\<lambda>x. registration_id hs h x = Some wid) (y # ys) = Some reg" "raw = rg_path y"
    unfolding find_registration_def by (cases "List.find (\<lambda>x. registration_id hs h x = Some wid) (y # ys)"; simp)+
  with find_Some_elem g ys show ?thesis by fastforce
qed

lemma reachability_published:
  assumes "git_reachability h g ob = (True, reachable, None)"
  shows "if og_detached ob
      then \<exists>raw. git_run h g (og_path ob) [''for-each-ref'', ''--contains=HEAD'', ''--format=%(objectname)'', ''refs/heads'', ''refs/tags''] = Inr raw \<and>
        trim_space raw \<noteq> []
      else if git_succeeds h g (og_path ob) [''rev-parse'', ''--verify'', upstream]
      then git_count h g (og_path ob) [''rev-list'', ''--count'', upstream @ ''..HEAD''] = (0, None)
      else \<exists>raw. git_run h g (og_path ob) [''branch'', ''-r'', ''--contains'', ''HEAD'', ''--format=%(objectname)''] = Inr raw \<and>
        trim_space raw \<noteq> []"
proof (cases "og_detached ob")
  case True
  with assms show ?thesis by (simp add: git_reachability_def split: sum.splits)
next
  case False
  note detached = this
  show ?thesis
  proof (cases "git_succeeds h g (og_path ob) [''rev-parse'', ''--verify'', upstream]")
    case True
    with detached assms show ?thesis by (simp add: git_reachability_def split: prod.splits)
  next
    case False
    with detached assms show ?thesis by (simp add: git_reachability_def split: sum.splits)
  qed
qed

lemma fresh_look_shows:
  assumes "fresh_look hs h g now r = Inr (ob, primary)"
  shows "machine_shows hs h g r"
proof -
  from assms obtain reg raw where f: "find_registration hs h g (wr_path r) (wr_id r) = Inr (reg, raw)"
    by (auto simp: fresh_look_def split: sum.splits)
  from find_registration_listed [OF f] obtain regs where regs: "git_registrations h g (wr_path r) = Inr regs" "reg \<in> set regs"
    "registration_id hs h reg = Some (wr_id r)" "raw = rg_path (hd regs)" by blast
  from assms f have p: "ho_eval h raw = Some primary"
    by (auto simp: fresh_look_def Let_def split: option.splits if_splits)
  define look where "look = inspect hs h g now reg primary"
  from assms f p have ok: "validate_fresh_observation r look = None"
    by (auto simp: fresh_look_def look_def Let_def split: option.splits if_splits)
  then have c: "og_complete look" "og_protection look = []" by (simp_all add: validate_fresh_None)
  with inspect_complete [of hs h g now reg primary] have none: "base_protections look = []" by (simp add: look_def)
  from c(1) obtain i pid common admin ci ai pc ob1 where st: "ho_lstat h (rg_path reg) = Found i" "in_kind i = KindDirectory"
    "ho_eval h (rg_path reg) = Some (path_clean (rg_path reg))" "identify h (path_clean (rg_path reg)) = Inr pid"
    "identify h common = Inr ci" "identify h admin = Inr ai"
    "pc = (case ho_eval h primary of None \<Rightarrow> [] | Some p \<Rightarrow> p)"
    and ob1: "og_path ob1 = path_clean (rg_path reg)" "og_common ob1 = common" "og_admin ob1 = admin" "og_path_identity ob1 = pid"
    "og_id ob1 = stable_id hs ci ai" "og_primary ob1 \<longleftrightarrow> path_clean (rg_path reg) = pc \<or> common = admin"
    "og_head ob1 = rg_head reg" "og_ref ob1 = rg_ref reg" "og_branch ob1 = rg_branch reg" "og_detached ob1 = rg_detached reg"
    "og_locked ob1 = rg_locked reg" "og_prunable ob1 = rg_prunable reg"
    "\<not> og_complete ob1" "look = inspect_content hs h g pc ob1"
    unfolding look_def by (rule inspect_steps)
  from c(1) ob1(14) have "og_complete (inspect_content hs h g pc ob1)" by simp
  note content = inspect_content_shows [OF this ob1(13), folded ob1(14)]
  from ok ob1 have row: "path_clean (rg_path reg) = wr_path r" "common = wr_common r" "admin = wr_admin r" "stable_id hs ci ai = wr_id r"
    "fi_device pid = wr_device r" "fi_inode pid = wr_inode r" "rg_head reg = wr_head r" "rg_ref reg = wr_ref r" "rg_branch reg = wr_branch r"
    "se_fingerprint (og_status look) = wr_fingerprint r"
    by (simp_all add: validate_fresh_None)
  from none ob1 have clear: "path_clean (rg_path reg) \<noteq> pc" "common \<noteq> admin" "\<not> rg_locked reg" "\<not> rg_prunable reg"
    "status_clean (og_status look)" "og_operations look = []" "\<not> og_submodules look" "og_published look" "rg_detached reg \<longrightarrow> og_reachable look"
    by (auto simp: base_protections_none)
  from content clear have reach: "git_reachability h g ob1 = (True, og_reachable look, None)" by auto
  note published = reachability_published [OF reach, unfolded ob1(1,10) row(1)]
  obtain bytes links where status: "git_run h g (wr_path r) [''status'', ''--porcelain=v2'', ''-z'', ''--ignored=matching'', ''--untracked-files=all''] = Inr bytes"
    "parse_status hs (\<lambda>kind path. approved_environment_link h (wr_path r) pc path) bytes = (og_status look, links, None)"
    using content unfolding ob1(1) row(1) by blast
  have quiet: "\<forall>name \<in> set operation_paths. \<not> path_exists h (path_join [wr_admin r, name])"
  proof -
    from content have "og_operations look = git_operations h (og_admin ob1)" by blast
    with clear(6) show ?thesis unfolding ob1(3) row(3) operations_none [symmetric] by simp
  qed
  have plain: "\<not> git_succeeds h g (wr_path r) [''ls-files'', ''--error-unmatch'', ''--'', ''.gitmodules'']"
    "\<not> path_exists h (path_join [wr_common r, ''modules''])" "\<not> path_exists h (path_join [wr_admin r, ''modules''])"
  proof -
    from content have "og_submodules look = (git_succeeds h g (og_path ob1) [''ls-files'', ''--error-unmatch'', ''--'', ''.gitmodules''] \<or>
      path_exists h (path_join [og_common ob1, ''modules'']) \<or> path_exists h (path_join [og_admin ob1, ''modules'']))" by blast
    with clear(7) show "\<not> git_succeeds h g (wr_path r) [''ls-files'', ''--error-unmatch'', ''--'', ''.gitmodules'']"
      "\<not> path_exists h (path_join [wr_common r, ''modules''])" "\<not> path_exists h (path_join [wr_admin r, ''modules''])"
      unfolding ob1(1-3) row(1-3) by simp_all
  qed
  note st = st [unfolded row(1-3)] and clear = clear [unfolded row(1-3)]
  have primary: "ho_eval h (rg_path (hd regs)) = Some primary" using p regs(4) by simp
  show ?thesis
    unfolding machine_shows_def
    by (intro exI conjI) (rule regs(1) regs(2) regs(3) clear row(4-10) st primary status quiet plain published)+
qed

lemma fresh_look_Inr:
  assumes "fresh_look hs h g now r = Inr (ob, primary)"
  shows "removable ob \<and> og_id ob = wr_id r \<and> og_path ob = wr_path r \<and> og_head ob = wr_head r \<and> og_ref ob = wr_ref r \<and>
    fi_device (og_path_identity ob) = wr_device r \<and> fi_inode (og_path_identity ob) = wr_inode r \<and> is_abs primary"
proof -
  from assms obtain reg raw where f: "find_registration hs h g (wr_path r) (wr_id r) = Inr (reg, raw)"
    by (auto simp: fresh_look_def split: sum.splits)
  define look where "look = inspect hs h g now reg primary"
  from assms f have p: "is_abs primary" and ok: "validate_fresh_observation r look = None" and ob: "ob = look\<lparr>og_observed_at := 0\<rparr>"
    by (auto simp: fresh_look_def look_def Let_def split: option.splits if_splits)
  from ok have c: "og_complete look" "og_protection look = []" by (simp_all add: validate_fresh_None)
  with inspect_complete [of hs h g now reg primary] have "base_protections look = []" by (simp add: look_def)
  with ok p show ?thesis by (auto simp: ob removable_def base_protections_none validate_fresh_None)
qed


section \<open>What one retirement rests on\<close>

text \<open>The row itself carries the authority: a complete stale window of this daemon.\<close>

definition stale_authority :: "wt_daemon \<Rightarrow> gotime \<Rightarrow> worktree_row \<Rightarrow> bool" where
  "stale_authority d now r \<longleftrightarrow> wt_enabled (wi_cfg (wd_inventory d)) \<and> wd_platform d = ''darwin'' \<and>
     wr_state r = WtStale \<and> wr_complete r \<and> wr_daemon_started r = unix_nano (wi_started (wd_inventory d)) \<and>
     wr_inactive_since r \<noteq> 0 \<and>
     wt_stale_after (wi_cfg (wd_inventory d)) \<le> time_sub now (time_unix (wr_inactive_since r))"

lemma stale_row_None: "stale_row_refusal d now r = None \<longleftrightarrow> stale_authority d now r"
  by (auto simp: stale_row_refusal_def stale_authority_def guard_simps Let_def)

lemma quiet_on_disk_Inr:
  assumes "quiet_on_disk h r ob = Inr (u, fs)"
  shows "ho_usage h (wr_path r) = Inr u \<and> us_complete u \<and> usage_none u \<and>
    inspect_filesystem h (wr_path r) = Inr fs \<and> fv_mounts fs = 0 \<and> wr_links r = og_links ob \<and>
    validate_approved_links h (wr_path r) (wr_links r) = None"
proof -
  from assms obtain u' where u: "unused_path h (wr_path r) = Inr u'"
    by (auto simp: quiet_on_disk_def split: sum.splits)
  from assms u obtain fs' where f: "one_filesystem h (wr_path r) = Inr fs'"
    by (auto simp: quiet_on_disk_def split: sum.splits)
  from assms u f have rest: "u' = u" "fs' = fs" "wr_links r = og_links ob" "validate_approved_links h (wr_path r) (wr_links r) = None"
    by (auto simp: quiet_on_disk_def split: if_splits option.splits)
  with u f show ?thesis
    by (auto simp: unused_path_def one_filesystem_def split: sum.splits if_splits)
qed

definition retirable :: "hash_ops \<Rightarrow> 'f wt_env \<Rightarrow> wt_daemon \<Rightarrow> 'f \<Rightarrow> worktree_row \<Rightarrow> observation \<Rightarrow> bool" where
  "retirable hs env d f r ob \<longleftrightarrow> stale_authority d (wv_check env) r \<and> removable ob \<and>
     og_id ob = wr_id r \<and> og_path ob = wr_path r \<and> og_head ob = wr_head r \<and> og_ref ob = wr_ref r \<and>
     fi_device (og_path_identity ob) = wr_device r \<and> fi_inode (og_path_identity ob) = wr_inode r \<and>
     \<not> active_session_in_worktree (wv_facts env) (wr_path r) \<and>
     (\<exists>u. ho_usage (wv_view env f) (wr_path r) = Inr u \<and> us_complete u \<and> usage_none u) \<and>
     (\<exists>fs. inspect_filesystem (wv_view env f) (wr_path r) = Inr fs \<and> fv_mounts fs = 0) \<and>
     (\<exists>g. wi_git (wd_inventory d) = Inr g \<and> verify_identity (wv_view env f) g = None \<and> wr_git r = ga_identity g \<and>
        machine_shows hs (wv_view env f) g r \<and>
        validate_discovery hs (wd_inventory d) (wv_view env f) g (wv_facts env) r = None)"

lemma validate_removal_Inr:
  assumes "validate_removal hs env d f r = Inr v"
  shows "retirable hs env d f r (va_observation v)"
proof -
  let ?h = "wv_view env f"
  from assms have st: "stale_row_refusal d (wv_check env) r = None"
    by (auto simp: validate_removal_def Let_def split: option.splits)
  with assms obtain g where g: "wi_git (wd_inventory d) = Inr g"
    by (auto simp: validate_removal_def Let_def split: sum.splits)
  with assms st have v: "verify_identity ?h g = None" "validate_discovery hs (wd_inventory d) ?h g (wv_facts env) r = None"
    and gi: "wr_git r = ga_identity g"
    by (auto simp: validate_removal_def Let_def or_else_def split: option.splits if_splits)
  with assms st g obtain ob primary where l: "fresh_look hs ?h g (wv_check env) r = Inr (ob, primary)"
    by (auto simp: validate_removal_def Let_def or_else_def split: sum.splits)
  with assms st g v gi have ses: "\<not> active_session_in_worktree (wv_facts env) (wr_path r)"
    by (auto simp: validate_removal_def Let_def or_else_def split: if_splits)
  with assms st g v gi l obtain u fs where q: "quiet_on_disk ?h r ob = Inr (u, fs)"
    by (auto simp: validate_removal_def Let_def or_else_def split: sum.splits)
  with assms st g v gi l ses have "va_observation v = ob"
    by (auto simp: validate_removal_def Let_def or_else_def split: if_splits)
  with st g v gi ses fresh_look_Inr [OF l] fresh_look_shows [OF l] quiet_on_disk_Inr [OF q] show ?thesis
    by (auto simp: retirable_def stale_row_None)
qed

lemma spend_wt_fresh:
  assumes "spend_wt_approval hs env token w = (Inr (aid, ap, None), w1)"
  shows "\<exists>a. map_of (wd_approvals (ww_daemon w)) (secret_digest hs token) = Some a \<and> \<not> wp_used a \<and>
    ap = a\<lparr>wp_used := True\<rparr> \<and> wv_now env < wp_expires a"
proof -
  obtain x d where c: "consume_wt_approval hs token (wv_now env) (ww_daemon w) = (x, d)" by fastforce
  with assms have x: "x = Inr (ap, None)"
    by (cases x; cases "wv_action_secret env") (auto simp: spend_wt_approval_def)
  show ?thesis
  proof (cases "map_of (wd_approvals (ww_daemon w)) (secret_digest hs token)")
    case None
    with c x show ?thesis by (simp add: consume_wt_approval_def)
  next
    case (Some a)
    with c x show ?thesis by (cases "wp_used a") (auto simp: consume_wt_approval_def Let_def split: if_splits)
  qed
qed

lemma revalidate_Inr:
  assumes "revalidate hs env ap w = Inr (r, v)"
  shows "get_worktree (ww_tables w) (wr_id (wp_row ap)) = Inr r \<and> v = wp_validation ap \<and>
    wt_binding hs env r v (wi_cfg (wd_inventory (ww_daemon w))) = wp_binding ap \<and>
    (wp_kind ap = WtRetire \<longrightarrow> same_authority (wp_row ap) r \<and> validate_removal hs env (ww_daemon w) (ww_host w) r = Inr v) \<and>
    (wp_kind ap \<noteq> WtRetire \<longrightarrow> same_retired_authority (wp_row ap) r \<and>
       validate_retired hs env (ww_daemon w) (ww_host w) (wp_kind ap = WtPurge) r = Inr v)"
  using assms by (auto simp: revalidate_def Let_def split: sum.splits if_splits)

lemma moved_call:
  assumes "wt_moved s t w w'" and "WtMove src dst \<in> set (drop (length (ww_effects w)) (ww_effects w'))"
  shows "src = s \<and> dst = t"
  using assms by (fastforce simp: wt_moved_def list_all_iff)

lemma quiet_no_call:
  assumes "wt_quiet w w'"
  shows "WtMove src dst \<notin> set (drop (length (ww_effects w)) (ww_effects w'))"
  using assms by (fastforce simp: wt_quiet_def list_all_iff)

lemma retirable_same:
  assumes "wd_inventory d' = wd_inventory d" and "wd_platform d' = wd_platform d"
  shows "retirable hs env d' f r ob = retirable hs env d f r ob"
  by (simp add: retirable_def stale_authority_def assms)

text \<open>C10: The daemon asks Git to move a checkout for retirement only with an unspent, unexpired
  approval of that kind; the stored row is the one the approval is bound to, stale with complete
  evidence of this daemon for the whole configured window; and the machine, as this request finds it, answers so:
  Git lists the row's worktree with the row's commit, reference and branch, neither locked nor prunable; its path is
  a directory with the row's device and inode, and is neither the primary worktree nor its own common directory;
  Git's status is clean with the row's fingerprint; no operation is in progress and no submodule metadata exists; its
  commits are published, or reachable from a branch or tag when the head is detached; no agent session, process or nested
  mount is inside; the Git executable is the row's, and the discovery sources still lead to it. The
  target is an absent sibling path.\<close>

theorem retirement_needs_fresh_validation:
  assumes "worktree_removal_apply hs env token w = (x, w')"
    and "WtMove src dst \<in> set (drop (length (ww_effects w)) (ww_effects w'))"
  shows "\<exists>a r. map_of (wd_approvals (ww_daemon w)) (secret_digest hs token) = Some a \<and> \<not> wp_used a \<and>
    wv_now env < wp_expires a \<and> wp_kind a = WtRetire \<and>
    get_worktree (ww_tables w) (wr_id (wp_row a)) = Inr r \<and> same_authority (wp_row a) r \<and>
    retirable hs env (ww_daemon w) (ww_host w) r (va_observation (wp_validation a)) \<and>
    src = wr_path r \<and> path_dir dst = path_dir src \<and> dst \<noteq> src \<and> ho_lstat (wv_view env (ww_host w)) dst = NoEntry"
proof -
  from assms(1) have run: "apply_wt_move hs env WtRetire token w = (x, w')" by (simp add: worktree_removal_apply_def)
  then show ?thesis
  proof (cases rule: apply_wt_cases)
    case quiet
    with assms(2) quiet_no_call show ?thesis by blast
  next
    case (moved aid ap w1 r v t)
    note frame = spend_wt_frame [OF moved(1)]
    obtain a where a: "map_of (wd_approvals (ww_daemon w)) (secret_digest hs token) = Some a" "\<not> wp_used a"
      "ap = a\<lparr>wp_used := True\<rparr>" "wv_now env < wp_expires a"
      using spend_wt_fresh [OF moved(1)] by blast
    from revalidate_Inr [OF moved(3)] moved(2) frame(2,3)
    have r: "get_worktree (ww_tables w) (wr_id (wp_row ap)) = Inr r" "same_authority (wp_row ap) r" "v = wp_validation ap"
      "validate_removal hs env (ww_daemon w1) (ww_host w) r = Inr v" by simp_all
    from validate_removal_Inr [OF r(4)] have ok: "retirable hs env (ww_daemon w) (ww_host w) r (va_observation v)"
      by (simp add: retirable_same [OF frame(5,7)])
    from moved_call [OF moved(4) assms(2)] moved(5)
    have call: "src = wr_path r" "dst = t" "retirement_path (wv_view env (ww_host w)) r = Inr t" by simp_all
    from call(3) have "path_dir t = path_dir (wr_path r) \<and> t \<noteq> wr_path r \<and> ho_lstat (wv_view env (ww_host w)) t = NoEntry"
      by (auto simp: retirement_path_def Let_def split: if_splits)
    with a r ok call moved(2) show ?thesis by (intro exI [of _ a] exI [of _ r]) auto
  qed
qed

text \<open>The sample retirement, from the approval to the request to Git.\<close>

lemma sample_begins:
  assumes "ws_actions (ww_tables w) = []"
  shows "\<exists>s. begin_wt_action (sample_wt_env t) a kind w = (None, journaled_world s (wa_id a) (wa_result a) w)"
  using assms by (auto simp: begin_wt_action_def insert_wt_action_def wt_tx_def)

lemma sample_retires:
  "\<exists>r w'. worktree_removal_apply last_byte (sample_wt_env sample_now) ''k'' sample_approved = (r, w') \<and>
     wt_moved ''/s'' ''/s.ghostgc-retired-05'' sample_approved w'"
proof -
  obtain r w' where run: "worktree_removal_apply last_byte (sample_wt_env sample_now) ''k'' sample_approved = (r, w')" by fastforce
  have re: "revalidate last_byte (sample_wt_env sample_now) ((sample_wt_approval (time_unix (10 * minute)))\<lparr>wp_used := True\<rparr>) sample_wt_spent =
      Inr (sample_stale_row, sample_validation)"
    by (rule sample_revalidates) (simp_all add: sample_wt_spent_def sample_approved_def)
  have kind: "wp_kind (sample_wt_approval t) = WtRetire" for t by (simp add: sample_wt_approval_def)
  from run have go: "execute_removal last_byte (sample_wt_env sample_now) ''wta_1'' sample_stale_row sample_validation sample_wt_spent = (r, w')"
    by (simp add: worktree_removal_apply_def apply_wt_move_def sample_spends re kind)
  have host: "ww_host sample_wt_spent = False" "ww_effects sample_wt_spent = ww_effects sample_approved" "ws_actions (ww_tables sample_wt_spent) = []"
    by (simp_all add: sample_wt_spent_def sample_approved_def sample_wt_tables_def empty_wt_store_def)
  define a where "a = attempt_of (sample_wt_env sample_now) ''wta_1'' sample_stale_row sample_validation WtAttempting
    (Text ''full fresh revalidation passed; reversible native worktree retirement is about to be attempted'') (va_recreate sample_validation)"
  obtain s where b: "begin_wt_action (sample_wt_env sample_now) a ''worktree.retirement.attempting'' sample_wt_spent =
      (None, journaled_world s (wa_id a) (wa_result a) sample_wt_spent)"
    using sample_begins [OF host(3)] by blast
  from go have w': "w' = snd (move_and_verify last_byte (sample_wt_env sample_now) a sample_stale_row (va_primary sample_validation)
      ''/s.ghostgc-retired-05'' ''retirement'' WtRetiredResult
      (Text ''registered worktree was moved to a restorable same-filesystem retirement path'')
      (retired_row (sample_wt_env sample_now) (wi_cfg (wd_inventory (ww_daemon sample_wt_spent))) sample_stale_row sample_validation
        ''/s.ghostgc-retired-05'') ''worktree.retirement.retired'' (restore_hint (wr_id sample_stale_row))
      (journaled_world s (wa_id a) (wa_result a) sample_wt_spent))"
    by (simp add: execute_removal_def host sample_retirement_path a_def [symmetric] b)
  have "wt_moved (wr_path sample_stale_row) ''/s.ghostgc-retired-05'' sample_wt_spent w'"
    by (rule moved_intro [OF w']) (simp add: a_def)
  then have "wt_moved ''/s'' ''/s.ghostgc-retired-05'' sample_approved w'" by (simp add: wt_moved_after [OF host(2)])
  with run show ?thesis by blast
qed

theorem every_worktree_move_is_journaled_witness:
  "\<exists>w b aid after. (wt_step last_byte)\<^sup>*\<^sup>* sample_approved w \<and>
     ww_effects w = (b @ [WtJournaled aid WtAttempting]) @ WtMove ''/s'' ''/s.ghostgc-retired-05'' # after"
proof -
  have none: "ww_effects sample_approved = []" by (simp add: sample_approved_def)
  obtain r w' where run: "worktree_removal_apply last_byte (sample_wt_env sample_now) ''k'' sample_approved = (r, w')"
    and m: "wt_moved ''/s'' ''/s.ghostgc-retired-05'' sample_approved w'" using sample_retires by blast
  then obtain before after where split: "ww_effects w' = before @ WtMove ''/s'' ''/s.ghostgc-retired-05'' # after"
    by (auto simp: wt_moved_def none intro: that [of "[_]"])
  have steps: "(wt_step last_byte)\<^sup>*\<^sup>* sample_approved w'"
    using wt_step.removal_apply [of last_byte sample_approved "sample_wt_env sample_now" "''k''"] run by auto
  from every_worktree_move_is_journaled [OF this none split] steps split show ?thesis by force
qed

theorem retirement_needs_fresh_validation_witness:
  "\<exists>a. map_of (wd_approvals (ww_daemon sample_approved)) (secret_digest last_byte ''k'') = Some a \<and>
     wp_kind a = WtRetire \<and> \<not> wp_used a \<and> removable (va_observation (wp_validation a))"
proof -
  obtain r w' where run: "worktree_removal_apply last_byte (sample_wt_env sample_now) ''k'' sample_approved = (r, w')"
    and m: "wt_moved ''/s'' ''/s.ghostgc-retired-05'' sample_approved w'" using sample_retires by blast
  from m have "WtMove ''/s'' ''/s.ghostgc-retired-05'' \<in> set (drop (length (ww_effects sample_approved)) (ww_effects w'))"
    by (auto simp: wt_moved_def)
  from retirement_needs_fresh_validation [OF run this] show ?thesis by (auto simp: retirable_def)
qed

end
