(* ===== verification/Worktree_Safety.thy ===== *)
theory Worktree_Safety
  imports Worktree_Laws
begin

text \<open>
  What the filesystem circuit stops in the worktree lane and what it does not, when a removal
  is recorded, how many authorities can be outstanding, and what a failed inventory costs a
  retirement.
\<close>

section \<open>Worlds that differ in their health only\<close>

definition same_but_health :: "'f wt_world \<Rightarrow> 'f wt_world \<Rightarrow> bool" where
  "same_but_health w w' \<longleftrightarrow> ww_tables w' = ww_tables w \<and> ww_host w' = ww_host w \<and> ww_effects w' = ww_effects w \<and>
     wd_inventory (ww_daemon w') = wd_inventory (ww_daemon w) \<and> wd_platform (ww_daemon w') = wd_platform (ww_daemon w) \<and>
     wd_approvals (ww_daemon w') = wd_approvals (ww_daemon w) \<and> wd_plans (ww_daemon w') = wd_plans (ww_daemon w)"

definition same_outcome :: "'a \<times> 'f wt_world \<Rightarrow> 'a \<times> 'f wt_world \<Rightarrow> bool" where
  "same_outcome r r' \<longleftrightarrow> fst r' = fst r \<and> same_but_health (snd r) (snd r')"

named_theorems health_blind \<open>operations that do not look at the circuit\<close>

lemma same_outcome_pair [simp]: "same_outcome (x, w) (y, w') \<longleftrightarrow> y = x \<and> same_but_health w w'"
  by (simp add: same_outcome_def)

lemma same_after_trip: "same_but_health w (trip_wt_circuit reason w)"
  by (simp add: same_but_health_def)

lemma trip_same [health_blind]: "same_but_health w w' \<Longrightarrow> same_but_health (trip_wt_circuit r w) (trip_wt_circuit r w')"
  by (simp add: same_but_health_def)

lemma begin_same [health_blind]:
  "same_but_health w w' \<Longrightarrow> same_outcome (begin_wt_action env a kind w) (begin_wt_action env a kind w')"
  by (auto simp: same_but_health_def begin_wt_action_def journaled_world_def split: prod.split option.split)

lemma finish_same [health_blind]:
  "same_but_health w w' \<Longrightarrow>
     same_outcome (finish_wt_action env a row result reason kind w) (finish_wt_action env a row result reason kind w')"
  by (auto simp: same_but_health_def finish_wt_action_def journaled_world_def split: prod.split option.split)

text \<open>A reply made from a journal entry.\<close>

lemma reply_same [health_blind]:
  "same_outcome p p' \<Longrightarrow> same_outcome (case p of (Some e, w1) \<Rightarrow> (Inl (f e), w1) | (None, w1) \<Rightarrow> (Inr x, w1))
     (case p' of (Some e, w1) \<Rightarrow> (Inl (f e), w1) | (None, w1) \<Rightarrow> (Inr x, w1))"
  by (cases p; cases p') (auto split: option.split)

lemma replies_same [health_blind]:
  assumes "same_but_health w w'"
  shows "same_outcome (reject_wt_action env aid r recreate reason w) (reject_wt_action env aid r recreate reason w')"
    "same_outcome (finish_failed env a reason w) (finish_failed env a reason w')"
    "same_outcome (finish_partial env a reason w) (finish_partial env a reason w')"
  unfolding reject_wt_action_def finish_failed_def finish_partial_def Let_def
  by (intro health_blind assms)+

lemma move_same [health_blind]:
  assumes "same_but_health w w'"
  shows "same_outcome (move_and_verify hs env a r primary destination name result reason after kind recreate w)
    (move_and_verify hs env a r primary destination name result reason after kind recreate w')"
proof -
  from assms have eqs: "wd_inventory (ww_daemon w') = wd_inventory (ww_daemon w)" "ww_host w' = ww_host w"
    by (simp_all add: same_but_health_def)
  obtain moved f' where m: "git_move env (wi_git (wd_inventory (ww_daemon w))) primary (wr_path r) destination (ww_host w) = (moved, f')"
    by fastforce
  have after_move: "same_but_health (w\<lparr>ww_host := f', ww_effects := ww_effects w @ es\<rparr>) (w'\<lparr>ww_host := f', ww_effects := ww_effects w' @ es\<rparr>)"
    for es using assms by (simp add: same_but_health_def)
  show ?thesis
    unfolding move_and_verify_def Let_def eqs m prod.case
    by (auto split: option.split intro!: health_blind after_move)
qed

lemma removal_same [health_blind]:
  assumes "same_but_health w w'"
  shows "same_outcome (execute_removal hs env aid r v w) (execute_removal hs env aid r v w')"
proof -
  from assms have eqs: "wd_inventory (ww_daemon w') = wd_inventory (ww_daemon w)" "ww_host w' = ww_host w"
    by (simp_all add: same_but_health_def)
  show ?thesis
  proof (cases "retirement_path (wv_view env (ww_host w)) r")
    case (Inl e)
    then show ?thesis by (simp add: execute_removal_def eqs replies_same [OF assms])
  next
    case (Inr destination)
    define a where "a = attempt_of env aid r v WtAttempting
      (Text ''full fresh revalidation passed; reversible native worktree retirement is about to be attempted'') (va_recreate v)"
    obtain x w1 where b: "begin_wt_action env a ''worktree.retirement.attempting'' w = (x, w1)" by fastforce
    obtain y w2 where b': "begin_wt_action env a ''worktree.retirement.attempting'' w' = (y, w2)" by fastforce
    from begin_same [OF assms, of env a "''worktree.retirement.attempting''"] have yx: "y = x" and s: "same_but_health w1 w2"
      by (simp_all add: b b')
    show ?thesis
      by (cases x) (simp_all add: execute_removal_def Inr eqs a_def [symmetric] b b' yx s move_same)
  qed
qed

lemma spend_same:
  assumes "same_but_health w w'"
  shows "same_outcome (spend_wt_approval hs env token w) (spend_wt_approval hs env token w')"
proof -
  from assms have eq: "wd_approvals (ww_daemon w') = wd_approvals (ww_daemon w)" by (simp add: same_but_health_def)
  show ?thesis
  proof (cases "map_of (wd_approvals (ww_daemon w)) (secret_digest hs token)")
    case None
    with assms eq show ?thesis by (simp add: spend_wt_approval_def consume_wt_approval_def same_but_health_def)
  next
    case (Some a)
    with assms eq show ?thesis
      by (cases "wp_used a"; cases "wv_action_secret env")
        (simp_all add: spend_wt_approval_def consume_wt_approval_def same_but_health_def Let_def)
  qed
qed

lemma validate_removal_same:
  assumes "wd_inventory d' = wd_inventory d" and "wd_platform d' = wd_platform d"
  shows "validate_removal hs env d' f r = validate_removal hs env d f r"
  by (simp add: validate_removal_def stale_row_refusal_def assms Let_def)

lemma revalidate_same:
  assumes "same_but_health w w'" and "wp_kind ap = WtRetire"
  shows "revalidate hs env ap w' = revalidate hs env ap w"
proof -
  from assms have eqs: "ww_tables w' = ww_tables w" "ww_host w' = ww_host w" "wd_inventory (ww_daemon w') = wd_inventory (ww_daemon w)"
    and v: "validate_removal hs env (ww_daemon w') f r = validate_removal hs env (ww_daemon w) f r" for f r
    by (auto simp: same_but_health_def intro: validate_removal_same)
  show ?thesis
    by (cases "get_worktree (ww_tables w) (wr_id (wp_row ap))") (simp_all add: revalidate_def eqs v assms(2) Let_def split: sum.split)
qed

lemma apply_retire_same:
  assumes "same_but_health w w'"
  shows "same_outcome (apply_wt_move hs env WtRetire token w) (apply_wt_move hs env WtRetire token w')"
proof -
  obtain s w1 where p: "spend_wt_approval hs env token w = (s, w1)" by fastforce
  obtain s' w2 where p': "spend_wt_approval hs env token w' = (s', w2)" by fastforce
  from spend_same [OF assms, of hs env token] have eq: "s' = s" and sm: "same_but_health w1 w2" by (simp_all add: p p')
  show ?thesis
  proof (cases s)
    case (Inl e)
    with assms eq sm show ?thesis by (simp add: apply_wt_move_def p p')
  next
    case (Inr q)
    obtain aid ap refusal where q: "q = (aid, ap, refusal)" by (cases q) auto
    have rej: "same_outcome (reject_wt_action env aid (wp_row ap) (va_recreate (wp_validation ap)) reason w1)
        (reject_wt_action env aid (wp_row ap) (va_recreate (wp_validation ap)) reason w2)" for reason
      by (rule replies_same(1) [OF sm])
    show ?thesis
    proof (cases "wp_kind ap = WtRetire")
      case True
      with sm have "revalidate hs env ap w2 = revalidate hs env ap w1" by (rule revalidate_same)
      with True Inr q eq sm assms show ?thesis
        by (simp add: apply_wt_move_def p p' Let_def rej removal_same split: option.split sum.split prod.split)
    next
      case False
      with Inr q eq sm assms show ?thesis by (simp add: apply_wt_move_def p p' Let_def rej)
    qed
  qed
qed

text \<open>Opening the filesystem circuit does not stop a retirement that was approved before, although the
  specification demands a restart before any further mutation: the
  request answers the same, journals the same, leaves the same tables and asks Git for the same
  move as if the circuit were closed. The sample retirement goes through with the circuit open.\<close>

theorem retirement_ignores_the_circuit:
  "let r = worktree_removal_apply hs env token w; r' = worktree_removal_apply hs env token (trip_wt_circuit reason w) in
   fst r' = fst r \<and> ww_effects (snd r') = ww_effects (snd r) \<and> ww_host (snd r') = ww_host (snd r) \<and>
   ww_tables (snd r') = ww_tables (snd r)"
  using apply_retire_same [OF same_after_trip [of w reason], of hs env token]
  by (simp add: worktree_removal_apply_def same_outcome_def same_but_health_def)

lemma retirement_despite_open_circuit:
  "\<not> wd_fs_healthy (ww_daemon (trip_wt_circuit reason sample_approved)) \<and>
   WtMove ''/s'' ''/s.ghostgc-retired-05'' \<in> set (ww_effects (snd (worktree_removal_apply last_byte (sample_wt_env sample_now) ''k''
     (trip_wt_circuit reason sample_approved))))"
proof -
  obtain r w' where run: "worktree_removal_apply last_byte (sample_wt_env sample_now) ''k'' sample_approved = (r, w')"
    and m: "wt_moved ''/s'' ''/s.ghostgc-retired-05'' sample_approved w'" using sample_retires by blast
  from m have "WtMove ''/s'' ''/s.ghostgc-retired-05'' \<in> set (ww_effects w')" by (auto simp: wt_moved_def)
  with retirement_ignores_the_circuit [of last_byte "sample_wt_env sample_now" "''k''" sample_approved reason] run
  show ?thesis by (simp add: Let_def trip_wt_circuit_def)
qed

section \<open>What the circuit stops\<close>


lemma reject_wt_frame [simp]: "ww_daemon (snd (reject_wt_action env aid r recreate reason w)) = ww_daemon w"
  unfolding reject_wt_action_def Let_def wt_reply_world
  by (auto simp: begin_wt_action_def split: prod.split option.split)




section \<open>When a removal is recorded\<close>

lemma finish_wt_row:
  assumes "finish_wt_action env a (Some r) result reason kind w = (None, w')"
  shows "\<exists>old. map_of (ws_worktrees (ww_tables w')) (wr_id r) = Some (r\<lparr>wr_first_seen := old\<rparr>)"
proof -
  from assms obtain s where s: "update_wt_action (wa_id a) result reason (wa_evidence a) (unix_nano (wv_done env)) (ww_tables w) = Inr s"
    and w': "ww_tables w' = wt_audit (unix_nano (wv_done env), kind, wa_worktree a, reason, wa_evidence a) (upsert_worktree r s)"
    by (auto simp: finish_wt_action_def wt_tx_def split: option.splits sum.splits prod.splits)
  show ?thesis
    by (cases "map_of (ws_worktrees s) (wr_id r)")
      (auto simp: w' wt_audit_def upsert_worktree_def map_of_alist_update intro: exI [of _ "wr_first_seen r"])
qed

lemma replies_not_removed:
  "fst (finish_failed env a reason w) = Inr x \<Longrightarrow> wn_result x = WtFailed"
  "fst (finish_partial env a reason w) = Inr x \<Longrightarrow> wn_result x = WtPartial"
  by (auto simp: finish_failed_def finish_partial_def wt_action_response_def split: prod.splits option.splits)

lemma verify_absent_None:
  assumes "verify_absent h git primary path = None"
  shows "ho_lstat h path = NoEntry \<and> (\<exists>g recs. git = Inr g \<and> git_registrations h g primary = Inr recs \<and>
    (\<forall>x \<in> set recs. path_clean (rg_path x) \<noteq> path))"
  using assms by (auto simp: verify_absent_def split: if_splits sum.splits)

text \<open>C12: A worktree is recorded as removed only when the completion names the action of an unused plan
  before that plan expires, the machine shows nothing at the retired path, and a fresh listing by
  Git no longer registers it; the stored row is then a tombstone without registration.\<close>

theorem removal_recorded_only_when_absent:
  assumes "worktree_purge_complete hs env aid completion err w = (Inr x, w')" and "wn_result x = WtRemovedResult"
  shows "\<exists>p g recs row. map_of (wd_plans (ww_daemon w)) (secret_digest hs completion) = Some p \<and>
    wg_action (wx_plan p) = aid \<and> \<not> wx_used p \<and> unix_nano (wv_check env) < wg_expires (wx_plan p) \<and>
    ho_lstat (wv_view env (ww_host w)) (wg_retired_path (wx_plan p)) = NoEntry \<and>
    wi_git (wd_inventory (ww_daemon w)) = Inr g \<and>
    git_registrations (wv_view env (ww_host w)) g (wg_primary (wx_plan p)) = Inr recs \<and>
    (\<forall>r \<in> set recs. path_clean (rg_path r) \<noteq> wg_retired_path (wx_plan p)) \<and>
    map_of (ws_worktrees (ww_tables w')) (wr_id (wx_row p)) = Some row \<and> wr_state row = WtRemoved \<and> \<not> wr_registered row"
proof -
  let ?h = "wv_view env (ww_host w)"
  from assms(1) obtain p d where c: "consume_wt_plan hs aid completion (ww_daemon w) = Some (p, d)"
    by (auto simp: worktree_purge_complete_def split: option.splits)
  then obtain q where q: "map_of (wd_plans (ww_daemon w)) (secret_digest hs completion) = Some q" "wg_action (wx_plan q) = aid"
      "\<not> wx_used q" "p = q\<lparr>wx_used := True\<rparr>" "wd_inventory d = wd_inventory (ww_daemon w)"
    by (auto simp: consume_wt_plan_def split: if_splits option.splits)
  have absent: "verify_absent ?h (wi_git (wd_inventory (ww_daemon w))) (wg_primary (wx_plan q)) (wg_retired_path (wx_plan q)) = None"
  proof (rule ccontr)
    assume "\<not> ?thesis"
    then obtain e where "verify_absent ?h (wi_git (wd_inventory (ww_daemon w))) (wg_primary (wx_plan q)) (wg_retired_path (wx_plan q)) = Some e"
      by auto
    with assms(1) c q have "(\<exists>r w0. finish_failed env (wx_action p) r w0 = (Inr x, w')) \<or> (\<exists>r w0. finish_partial env (wx_action p) r w0 = (Inr x, w'))"
      by (auto simp: worktree_purge_complete_def Let_def split: if_splits)
    with replies_not_removed [of env "wx_action p"] assms(2) show False by (metis fst_conv wt_result.distinct(1) wt_result.simps)
  qed
  have live: "unix_nano (wv_check env) < wg_expires (wx_plan q)"
  proof (rule ccontr)
    assume "\<not> ?thesis"
    with assms(1) c q absent have "\<exists>r w0. finish_partial env (wx_action p) r w0 = (Inr x, w')"
      by (auto simp: worktree_purge_complete_def Let_def split: if_splits)
    with replies_not_removed(2) [of env "wx_action p"] assms(2) show False by (metis fst_conv wt_result.simps)
  qed
  with assms(1) c q absent obtain reason kind w0 where
    "finish_wt_action env (wx_action p) (Some (removed_row env p)) WtRemovedResult reason kind w0 = (None, w')"
    by (auto simp: worktree_purge_complete_def Let_def split: prod.splits option.splits)
  from finish_wt_row [OF this] obtain old where
    "map_of (ws_worktrees (ww_tables w')) (wr_id (removed_row env p)) = Some ((removed_row env p)\<lparr>wr_first_seen := old\<rparr>)" by blast
  then have "map_of (ws_worktrees (ww_tables w')) (wr_id (wx_row q)) = Some ((removed_row env p)\<lparr>wr_first_seen := old\<rparr>)"
    "wr_state ((removed_row env p)\<lparr>wr_first_seen := old\<rparr>) = WtRemoved" "\<not> wr_registered ((removed_row env p)\<lparr>wr_first_seen := old\<rparr>)"
    by (simp_all add: removed_row_def q)
  with q live verify_absent_None [OF absent] show ?thesis by blast
qed

text \<open>A plan for the checkout at \<open>/s\<close>, completed on a machine that has nothing there any more.\<close>

definition sample_purge_action :: wt_action where
  "sample_purge_action = attempt_of (sample_wt_env sample_now) ''wta_2'' sample_stale_row sample_validation WtPurging (Text ''purging'') ''recreate''"

definition sample_purge :: wt_purge_execution where
  "sample_purge = \<lparr>wx_plan = wt_purge_plan_of (sample_wt_env sample_now) ''wta_2'' sample_stale_row sample_validation ''c'',
     wx_row = sample_stale_row\<lparr>wr_state := WtRetired\<rparr>, wx_validation = sample_validation, wx_action = sample_purge_action, wx_used = False\<rparr>"

definition sample_purging :: "bool wt_world" where
  "sample_purging = \<lparr>ww_daemon = sample_wt_daemon\<lparr>wd_plans := [(secret_digest last_byte ''c'', sample_purge)]\<rparr>,
     ww_tables = sample_wt_tables\<lparr>ws_actions := [sample_purge_action]\<rparr>, ww_host = True, ww_effects = []\<rparr>"

lemma sample_completes:
  "\<exists>x w'. worktree_purge_complete last_byte (sample_wt_env sample_now) ''wta_2'' ''c'' [] sample_purging = (Inr x, w') \<and>
     wn_result x = WtRemovedResult"
proof -
  let ?p = "sample_purge\<lparr>wx_used := True\<rparr>"
  have c: "consume_wt_plan last_byte ''wta_2'' ''c'' (ww_daemon sample_purging) = Some (?p, sample_wt_daemon\<lparr>wd_plans := []\<rparr>)"
    by (simp add: consume_wt_plan_def sample_purging_def sample_purge_def wt_purge_plan_of_def)
  have gone: "map_of (sample_objects True) ''/s'' = None" "path_clean ''/r'' \<noteq> ''/s''" by code_simp+
  have absent: "verify_absent (sample_host True) (Inr sample_git) ''/r'' ''/s'' = None"
    using sample_paths(1) [of True] by (simp add: verify_absent_def gone sample_registered_def sample_place_def)
  have live: "\<not> unix_nano (sample_now + worktree_purge_plan_lifetime) \<le> unix_nano sample_now" by code_simp
  have plan: "wg_primary (wx_plan sample_purge) = ''/r''" "wg_retired_path (wx_plan sample_purge) = ''/s''"
    "wg_expires (wx_plan sample_purge) = unix_nano (sample_now + worktree_purge_plan_lifetime)" "wx_action sample_purge = sample_purge_action"
    "wd_inventory (ww_daemon sample_purging) = sample_inventory" "ww_host sample_purging = True"
    by (simp_all add: sample_purge_def wt_purge_plan_of_def sample_validation_def sample_purging_def)
  have finishes: "\<exists>w'. finish_wt_action (sample_wt_env sample_now) sample_purge_action row WtRemovedResult reason kind
      (sample_purging\<lparr>ww_daemon := d\<rparr>) = (None, w')" for row reason kind d
    by (simp add: finish_wt_action_def update_wt_action_def wt_tx_def sample_purging_def)
  obtain w' where w': "finish_wt_action (sample_wt_env sample_now) sample_purge_action (Some (removed_row (sample_wt_env sample_now) ?p)) WtRemovedResult
      (Text ''foreground native non-force removal completed; daemon verified path and registration absence'') ''worktree.removed''
      (sample_purging\<lparr>ww_daemon := sample_wt_daemon\<lparr>wd_plans := []\<rparr>\<rparr>) = (None, w')" using finishes by blast
  show ?thesis
    by (simp add: worktree_purge_complete_def c plan absent live w' wt_action_response_def)
qed

theorem removal_recorded_only_when_absent_witness:
  "\<exists>w' row. map_of (ws_worktrees (ww_tables w')) ''05'' = Some row \<and> wr_state row = WtRemoved \<and>
     snd (worktree_purge_complete last_byte (sample_wt_env sample_now) ''wta_2'' ''c'' [] sample_purging) = w'"
proof -
  obtain x w' where run: "worktree_purge_complete last_byte (sample_wt_env sample_now) ''wta_2'' ''c'' [] sample_purging = (Inr x, w')"
    and x: "wn_result x = WtRemovedResult" using sample_completes by blast
  from removal_recorded_only_when_absent [OF run x] run show ?thesis
    by (auto simp: sample_purging_def sample_purge_def)
qed

section \<open>Outstanding authority\<close>

definition authority_bounded :: "'f wt_world \<Rightarrow> bool" where
  "authority_bounded w \<longleftrightarrow> length (wd_approvals (ww_daemon w)) \<le> max_approvals \<and> length (wd_plans (ww_daemon w)) \<le> 1"

lemma length_delete_le: "length (AList.delete k xs) \<le> length xs"
  by (simp add: AList.delete_eq)

lemma issue_daemon:
  "ww_daemon (snd (issue_wt_approval hs env k r v w)) = ww_daemon w \<or>
   (\<exists>xs. ww_daemon (snd (issue_wt_approval hs env k r v w)) = (ww_daemon w)\<lparr>wd_approvals := xs\<rparr> \<and>
      (let kept = prune_wt_approvals (wv_now env) (wd_approvals (ww_daemon w)) in
       xs = kept \<or> \<not> max_approvals \<le> length kept \<and>
         (\<exists>t ap. xs = AList.update t ap kept \<or> xs = AList.delete t (AList.update t ap kept))))"
proof (cases "wv_secret env")
  case (Inr token)
  let ?kept = "prune_wt_approvals (wv_now env) (wd_approvals (ww_daemon w))"
  show ?thesis
  proof (cases "max_approvals \<le> length ?kept")
    case False
    then show ?thesis
    proof (cases "wv_audit_tx env")
      case None
      with Inr False show ?thesis
        unfolding issue_wt_approval_def Let_def wt_tx_def by (simp, blast)
    next
      case (Some e)
      with Inr False show ?thesis
        unfolding issue_wt_approval_def Let_def wt_tx_def by (simp, blast)
    qed
  qed (simp add: Inr issue_wt_approval_def Let_def)
qed (simp add: issue_wt_approval_def)

lemma issue_bounded:
  assumes "authority_bounded w"
  shows "authority_bounded (snd (issue_wt_approval hs env k r v w))"
proof -
  let ?kept = "prune_wt_approvals (wv_now env) (wd_approvals (ww_daemon w))"
  have kept: "length ?kept \<le> max_approvals"
    using assms by (auto simp: prune_wt_approvals_def authority_bounded_def intro: le_trans [OF length_filter_le])
  have new: "length (AList.update t ap ?kept) \<le> max_approvals" if "\<not> max_approvals \<le> length ?kept" for t ap
    using that length_alist_update [of t ap ?kept] by linarith
  have gone: "length (AList.delete t (AList.update t ap ?kept)) \<le> max_approvals" if "\<not> max_approvals \<le> length ?kept" for t ap
    by (rule le_trans [OF length_delete_le new [OF that]])
  have plans: "length (wd_plans (ww_daemon w)) \<le> 1" using assms by (simp add: authority_bounded_def)
  let ?d = "ww_daemon (snd (issue_wt_approval hs env k r v w))"
  consider "?d = ww_daemon w"
    | xs where "?d = (ww_daemon w)\<lparr>wd_approvals := xs\<rparr>" "xs = ?kept"
    | xs t ap where "?d = (ww_daemon w)\<lparr>wd_approvals := xs\<rparr>" "\<not> max_approvals \<le> length ?kept" "xs = AList.update t ap ?kept"
    | xs t ap where "?d = (ww_daemon w)\<lparr>wd_approvals := xs\<rparr>" "\<not> max_approvals \<le> length ?kept"
        "xs = AList.delete t (AList.update t ap ?kept)"
    using issue_daemon [of hs env k r v w] unfolding Let_def by blast
  then show ?thesis
  proof cases
    case 1
    with assms show ?thesis by (simp add: authority_bounded_def)
  next
    case 2
    with kept plans show ?thesis by (simp add: authority_bounded_def)
  next
    case (3 xs t ap)
    with new [OF 3(2), of t ap] plans show ?thesis by (simp add: authority_bounded_def)
  next
    case (4 xs t ap)
    with gone [OF 4(2), of t ap] plans show ?thesis by (simp add: authority_bounded_def)
  qed
qed

text \<open>Requests that add no authority.\<close>

definition adds_nothing :: "'f wt_world \<Rightarrow> 'f wt_world \<Rightarrow> bool" where
  "adds_nothing w w' \<longleftrightarrow> length (wd_approvals (ww_daemon w')) \<le> length (wd_approvals (ww_daemon w)) \<and>
     length (wd_plans (ww_daemon w')) \<le> length (wd_plans (ww_daemon w))"

named_theorems bounded_intros \<open>operations that add no authority\<close>

lemma adds_nothing_bounded: "adds_nothing w w' \<Longrightarrow> authority_bounded w \<Longrightarrow> authority_bounded w'"
  by (auto simp: adds_nothing_def authority_bounded_def)

lemma adds_nothing_refl [simp]: "adds_nothing w w"
  by (simp add: adds_nothing_def)

lemma adds_nothing_trans: "adds_nothing w w1 \<Longrightarrow> adds_nothing w1 w2 \<Longrightarrow> adds_nothing w w2"
  by (auto simp: adds_nothing_def)

lemma adds_nothing_daemon: "ww_daemon w' = ww_daemon w \<Longrightarrow> adds_nothing w w'"
  by (simp add: adds_nothing_def)

lemma begin_daemon [simp]: "ww_daemon (snd (begin_wt_action env a kind w)) = ww_daemon w"
  by (auto simp: begin_wt_action_def split: prod.split option.split)

lemma finish_daemon [simp]: "ww_daemon (snd (finish_wt_action env a row result reason kind w)) = ww_daemon w"
  by (auto simp: finish_wt_action_def split: prod.split option.split)

lemma replies_daemon [simp]:
  "ww_daemon (snd (finish_failed env a reason w)) = ww_daemon w"
  "ww_daemon (snd (finish_partial env a reason w)) = ww_daemon w"
  unfolding finish_failed_def finish_partial_def Let_def wt_reply_world by simp_all

lemma move_adds_nothing [bounded_intros]:
  "adds_nothing w (snd (move_and_verify hs env a r primary destination name result reason after kind recreate w))"
proof -
  obtain moved f' where m: "git_move env (wi_git (wd_inventory (ww_daemon w))) primary (wr_path r) destination (ww_host w) = (moved, f')"
    by fastforce
  show ?thesis by (auto simp: move_and_verify_def m Let_def adds_nothing_def split: option.split)
qed

lemma execute_adds_nothing [bounded_intros]:
  "adds_nothing w (snd (execute_removal hs env aid r v w))" "adds_nothing w (snd (execute_restore hs env aid r v w))"
proof -
  have begun: "adds_nothing w w1" if "begin_wt_action env a kind w = (x, w1)" for a kind x w1
    using begin_daemon [of env a kind w] that by (intro adds_nothing_daemon) simp
  show "adds_nothing w (snd (execute_removal hs env aid r v w))"
    by (auto simp: execute_removal_def Let_def intro: adds_nothing_daemon begun adds_nothing_trans [OF begun] bounded_intros
        split: sum.split prod.split option.split)
  show "adds_nothing w (snd (execute_restore hs env aid r v w))"
    by (auto simp: execute_restore_def Let_def intro: begun adds_nothing_trans [OF begun] bounded_intros split: prod.split option.split)
qed

lemma spend_adds_nothing:
  assumes "spend_wt_approval hs env token w = (s, w1)"
  shows "adds_nothing w w1"
proof (cases "map_of (wd_approvals (ww_daemon w)) (secret_digest hs token)")
  case None
  with assms show ?thesis by (auto simp: spend_wt_approval_def consume_wt_approval_def)
next
  case (Some a)
  then have "secret_digest hs token \<in> fst ` set (wd_approvals (ww_daemon w))" by (metis domI dom_map_of_conv_image_fst)
  then have "length (AList.update (secret_digest hs token) x (wd_approvals (ww_daemon w))) = length (wd_approvals (ww_daemon w))" for x
    by (rule length_alist_update_same)
  with assms Some show ?thesis
    by (cases "wp_used a"; cases "wv_action_secret env")
      (auto simp: spend_wt_approval_def consume_wt_approval_def Let_def adds_nothing_def)
qed

lemma apply_adds_nothing [bounded_intros]: "adds_nothing w (snd (apply_wt_move hs env k token w))"
proof (cases "spend_wt_approval hs env token w")
  case (Pair s w1)
  from spend_adds_nothing [OF Pair] have sp: "adds_nothing w w1" .
  have rej: "adds_nothing w (snd (reject_wt_action env aid r recreate reason w1))" for aid r recreate reason
    by (rule adds_nothing_trans [OF sp]) (simp add: adds_nothing_daemon)
  show ?thesis
    using Pair sp
    by (auto simp: apply_wt_move_def Let_def intro: rej adds_nothing_trans [OF sp] bounded_intros
        split: sum.split option.split prod.split)
qed

lemma prepare_bounded:
  assumes "authority_bounded w"
  shows "authority_bounded (snd (prepare_worktree_purge hs env aid r v w))"
proof (cases "wv_secret env")
  case (Inr completion)
  define a where "a = (attempt_of env aid r v WtPurging (Text ''daemon committed foreground worktree finalization intent'')
      (recreate_command (va_primary v) (r\<lparr>wr_path := wr_original r\<rparr>)))\<lparr>wa_updated := unix_nano (wv_now env)\<rparr>"
  obtain x w1 where b: "begin_wt_action env a ''worktree.purge.prepared'' w = (x, w1)" by fastforce
  with begin_daemon [of env a "''worktree.purge.prepared''" w] have d: "ww_daemon w1 = ww_daemon w" by simp
  let ?kept = "prune_wt_plans (wv_now env) (wd_plans (ww_daemon w))"
  have kept: "length ?kept \<le> 1"
    using assms by (auto simp: prune_wt_plans_def authority_bounded_def intro: le_trans [OF length_filter_le])
  have new: "length (AList.update k p ?kept) \<le> 1" if "\<not> 1 \<le> length ?kept" for k p
    using that length_alist_update [of k p ?kept] by linarith
  show ?thesis
    using assms kept new
    by (auto simp: prepare_worktree_purge_def Inr a_def [symmetric] b d Let_def authority_bounded_def split: option.split prod.split)
qed (use assms in \<open>simp add: prepare_worktree_purge_def\<close>)

lemma purge_apply_bounded:
  assumes "authority_bounded w"
  shows "authority_bounded (snd (worktree_purge_apply hs env token confirmation w))"
proof (cases "spend_wt_approval hs env token w")
  case (Pair s w1)
  from spend_adds_nothing [OF Pair] assms have sp: "authority_bounded w1" by (rule adds_nothing_bounded)
  then have rej: "authority_bounded (snd (reject_wt_action env aid r recreate reason w1))" for aid r recreate reason
    by (rule adds_nothing_bounded [rotated]) (simp add: adds_nothing_daemon)
  show ?thesis
    using Pair sp assms
    by (auto simp: worktree_purge_apply_def Let_def intro: rej prepare_bounded split: sum.split option.split prod.split)
qed

lemma complete_adds_nothing [bounded_intros]: "adds_nothing w (snd (worktree_purge_complete hs env aid completion err w))"
proof (cases "consume_wt_plan hs aid completion (ww_daemon w)")
  case (Some p)
  obtain x d where p: "p = (x, d)" by (cases p)
  with Some have d: "length (wd_approvals d) \<le> length (wd_approvals (ww_daemon w))" "length (wd_plans d) \<le> length (wd_plans (ww_daemon w))"
    by (auto simp: consume_wt_plan_def length_delete_le split: if_splits option.splits)
  then have d0: "adds_nothing w (w\<lparr>ww_daemon := d\<rparr>)" by (simp add: adds_nothing_def)
  have fin: "adds_nothing w w2" if "finish_wt_action env a row result reason kind (w\<lparr>ww_daemon := d\<rparr>) = (y, w2)" for a row result reason kind y w2
    using finish_daemon [of env a row result reason kind "w\<lparr>ww_daemon := d\<rparr>"] that d by (simp add: adds_nothing_def)
  show ?thesis
    using Some p d by (auto simp: worktree_purge_complete_def Let_def adds_nothing_def intro: fin [unfolded adds_nothing_def, THEN conjunct1]
        fin [unfolded adds_nothing_def, THEN conjunct2] split: option.split prod.split)
qed (simp add: worktree_purge_complete_def)

lemma preview_bounded:
  assumes "authority_bounded w"
  shows "authority_bounded (snd (worktree_removal_preview hs env i w))"
    "authority_bounded (snd (worktree_restore_preview hs env i w))"
    "authority_bounded (snd (worktree_purge_preview hs env i w))"
  using assms
  by (auto simp: worktree_removal_preview_def worktree_restore_preview_def worktree_purge_preview_def retired_preview_def
      issue_bounded split: sum.split)

lemma wt_step_bounded: "wt_step hs w w' \<Longrightarrow> authority_bounded w \<Longrightarrow> authority_bounded w'"
proof (induction rule: wt_step.induct)
  case (removal_apply w env token)
  then show ?case unfolding worktree_removal_apply_def by (rule adds_nothing_bounded [OF bounded_intros(4)])
next
  case (restore_apply w env token)
  then show ?case unfolding worktree_restore_apply_def by (rule adds_nothing_bounded [OF bounded_intros(4)])
next
  case (purge_complete w env aid completion err)
  then show ?case by (rule adds_nothing_bounded [OF bounded_intros(5)])
next
  case (purge_apply w env token confirmation)
  then show ?case by (rule purge_apply_bounded)
qed (simp_all add: preview_bounded, simp_all add: authority_bounded_def start_wt_daemon_def)

text \<open>C40: From the start of a daemon on, in every run, at most 128 worktree approvals and at most one
  purge plan are outstanding.\<close>

theorem outstanding_authority_bounded:
  assumes "(wt_step hs)\<^sup>*\<^sup>* w0 w" and "ww_daemon w0 = start_wt_daemon c g started platform"
  shows "length (wd_approvals (ww_daemon w)) \<le> 128 \<and> length (wd_plans (ww_daemon w)) \<le> 1"
proof -
  from assms(2) have "authority_bounded w0" by (simp add: authority_bounded_def start_wt_daemon_def)
  with assms(1) have "authority_bounded w"
    by (induction rule: rtranclp_induct) (auto intro: wt_step_bounded)
  then show ?thesis by (simp add: authority_bounded_def max_approvals_def)
qed

theorem outstanding_authority_bounded_witness:
  "\<exists>w1 w :: bool wt_world. (wt_step last_byte)\<^sup>*\<^sup>* w1 w \<and> wd_fs_healthy (ww_daemon w1) \<and> \<not> wd_fs_healthy (ww_daemon w) \<and>
     length (wd_plans (ww_daemon w)) \<le> 1"
proof -
  let ?w1 = "sample_approved\<lparr>ww_daemon := start_wt_daemon sample_wt_config (Inr sample_git) 1 ''darwin''\<rparr>"
  let ?w = "trip_wt_circuit (Text ''ambiguous'') ?w1"
  have run: "(wt_step last_byte)\<^sup>*\<^sup>* ?w1 ?w" by (rule r_into_rtranclp) (rule wt_step.tripped)
  have start: "ww_daemon ?w1 = start_wt_daemon sample_wt_config (Inr sample_git) 1 ''darwin''" by simp
  have "wd_fs_healthy (ww_daemon ?w1)" "\<not> wd_fs_healthy (ww_daemon ?w)" by (simp_all add: start_wt_daemon_def)
  with run outstanding_authority_bounded [OF run start] show ?thesis by blast
qed

end
