(* ===== verification/Json_Text.thy ===== *)
theory Json_Text
  imports GG_Prelude
begin

text \<open>
  Text between byte strings and runes, and the JSON text of a struct of strings: what
  \<open>json.Marshal\<close> writes for the request structs of \<open>internal/api\<close>, and how \<open>json.Decoder\<close>
  reads such a compact object back. Both are functions of Go's standard library that the client
  and the server rest on; strings are byte strings, as in Go.
\<close>

section \<open>Runes\<close>

text \<open>The width of the first rune of a string; Go reads an invalid byte as one rune.\<close>

definition byte_in :: "nat \<Rightarrow> nat \<Rightarrow> char \<Rightarrow> bool" where
  "byte_in lo hi c \<longleftrightarrow> lo \<le> of_char c \<and> of_char c \<le> hi"

definition two_bytes :: "char \<Rightarrow> char \<Rightarrow> bool" where
  "two_bytes a b \<longleftrightarrow> byte_in 0xC2 0xDF a \<and> byte_in 0x80 0xBF b"

definition three_bytes :: "char \<Rightarrow> char \<Rightarrow> char \<Rightarrow> bool" where
  "three_bytes a b c \<longleftrightarrow> byte_in 0x80 0xBF c \<and>
     (byte_in 0xE0 0xE0 a \<and> byte_in 0xA0 0xBF b \<or> byte_in 0xE1 0xEC a \<and> byte_in 0x80 0xBF b \<or>
      byte_in 0xED 0xED a \<and> byte_in 0x80 0x9F b \<or> byte_in 0xEE 0xEF a \<and> byte_in 0x80 0xBF b)"

definition four_bytes :: "char \<Rightarrow> char \<Rightarrow> char \<Rightarrow> char \<Rightarrow> bool" where
  "four_bytes a b c d \<longleftrightarrow> byte_in 0x80 0xBF c \<and> byte_in 0x80 0xBF d \<and>
     (byte_in 0xF0 0xF0 a \<and> byte_in 0x90 0xBF b \<or> byte_in 0xF1 0xF3 a \<and> byte_in 0x80 0xBF b \<or>
      byte_in 0xF4 0xF4 a \<and> byte_in 0x80 0x8F b)"

fun rune_width :: "string \<Rightarrow> nat" where
  "rune_width (a # b # rest) =
     (if two_bytes a b then 2
      else (case rest of
              [] \<Rightarrow> 1
            | c # rest' \<Rightarrow>
                if three_bytes a b c then 3
                else (case rest' of [] \<Rightarrow> 1 | d # _ \<Rightarrow> if four_bytes a b c d then 4 else 1)))"
| "rune_width s = 1"

definition ascii :: "char \<Rightarrow> bool" where
  "ascii c \<longleftrightarrow> (of_char c :: nat) < 128"

text \<open>\<open>utf8.ValidString\<close>.\<close>

fun valid_utf8 :: "string \<Rightarrow> bool" where
  "valid_utf8 [] = True"
| "valid_utf8 (c # cs) \<longleftrightarrow> (ascii c \<or> 1 < rune_width (c # cs)) \<and> valid_utf8 (drop (rune_width (c # cs) - 1) cs)"

text \<open>\<open>utf8.EncodeRune\<close>; what is no code point becomes U+FFFD.\<close>

definition replacement :: string where
  "replacement = [CHR 0xEF, CHR 0xBF, CHR 0xBD]"

definition encode_rune :: "nat \<Rightarrow> string" where
  "encode_rune n =
     (if n < 0x80 then [char_of n]
      else if n < 0x800 then [char_of (0xC0 + n div 64), char_of (0x80 + n mod 64)]
      else if 0xD800 \<le> n \<and> n < 0xE000 \<or> 0x10FFFF < n then replacement
      else if n < 0x10000 then [char_of (0xE0 + n div 4096), char_of (0x80 + n div 64 mod 64), char_of (0x80 + n mod 64)]
      else [char_of (0xF0 + n div 262144), char_of (0x80 + n div 4096 mod 64), char_of (0x80 + n div 64 mod 64), char_of (0x80 + n mod 64)])"

section \<open>Writing strings\<close>

definition quote :: char where "quote = CHR 0x22"

definition backslash :: char where "backslash = CHR 0x5C"

definition json_hex :: "nat \<Rightarrow> char" where
  "json_hex n = (if n < 10 then char_of (48 + n) else char_of (87 + n))"

definition unicode_escape :: "nat \<Rightarrow> string" where
  "unicode_escape n = [backslash, CHR ''u'', json_hex (n div 4096 mod 16), json_hex (n div 256 mod 16),
     json_hex (n div 16 mod 16), json_hex (n mod 16)]"

text \<open>One byte of ASCII: HTML characters are escaped too, as \<open>Marshal\<close> does.\<close>

definition write_ascii :: "char \<Rightarrow> string" where
  "write_ascii c =
     (if c = quote \<or> c = backslash then [backslash, c]
      else if c = CHR 0x08 then [backslash, CHR ''b''] else if c = CHR 0x0C then [backslash, CHR ''f'']
      else if c = CHR 0x0A then [backslash, CHR ''n''] else if c = CHR 0x0D then [backslash, CHR ''r'']
      else if c = CHR 0x09 then [backslash, CHR ''t'']
      else if (of_char c :: nat) < 0x20 \<or> c = CHR ''<'' \<or> c = CHR ''>'' \<or> c = CHR ''&'' then unicode_escape (of_char c)
      else [c])"

text \<open>The text of the first rune; U+2028 and U+2029 are escaped, a byte that is no rune is replaced.\<close>

definition write_rune :: "string \<Rightarrow> string" where
  "write_rune s =
     (let r = take (rune_width s) s in
      if rune_width s = 1 then (if ascii (hd s) then write_ascii (hd s) else unicode_escape 0xFFFD)
      else if r = [CHR 0xE2, CHR 0x80, CHR 0xA8] then unicode_escape 0x2028
      else if r = [CHR 0xE2, CHR 0x80, CHR 0xA9] then unicode_escape 0x2029
      else r)"

fun write_text :: "string \<Rightarrow> string" where
  "write_text [] = []"
| "write_text (c # cs) = write_rune (c # cs) @ write_text (drop (rune_width (c # cs) - 1) cs)"

section \<open>Reading strings\<close>

definition hex_value :: "char \<Rightarrow> nat option" where
  "hex_value c =
     (let n = of_char c in
      if 48 \<le> n \<and> n \<le> 57 then Some (n - 48) else if 97 \<le> n \<and> n \<le> 102 then Some (n - 87)
      else if 65 \<le> n \<and> n \<le> 70 then Some (n - 55) else None)"

fun hex4 :: "string \<Rightarrow> nat option" where
  "hex4 (a # b # c # d # _) =
     (case (hex_value a, hex_value b, hex_value c, hex_value d) of
        (Some x, Some y, Some z, Some w) \<Rightarrow> Some (((x * 16 + y) * 16 + z) * 16 + w)
      | _ \<Rightarrow> None)"
| "hex4 _ = None"

text \<open>Behind a \<open>u\<close>: a pair of surrogates is one rune; what does not pair up is replaced.\<close>

definition read_unicode :: "string \<Rightarrow> (string \<times> nat) option" where
  "read_unicode s =
     (case hex4 s of
        None \<Rightarrow> None
      | Some n \<Rightarrow>
          if n < 0xD800 \<or> 0xE000 \<le> n then Some (encode_rune n, 6)
          else (case drop 4 s of
                  b # u # rest \<Rightarrow>
                    if b \<noteq> backslash \<or> u \<noteq> CHR ''u'' then Some (replacement, 6)
                    else (case hex4 rest of
                            None \<Rightarrow> Some (replacement, 6)
                          | Some m \<Rightarrow>
                              if n < 0xDC00 \<and> 0xDC00 \<le> m \<and> m < 0xE000
                              then Some (encode_rune (0x10000 + (n - 0xD800) * 1024 + (m - 0xDC00)), 12)
                              else Some (replacement, 6))
                | _ \<Rightarrow> Some (replacement, 6)))"

definition read_escape :: "string \<Rightarrow> (string \<times> nat) option" where
  "read_escape s =
     (case s of
        [] \<Rightarrow> None
      | e # rest \<Rightarrow>
          if e = quote \<or> e = backslash \<or> e = CHR ''/'' then Some ([e], 2)
          else if e = CHR ''b'' then Some ([CHR 0x08], 2) else if e = CHR ''f'' then Some ([CHR 0x0C], 2)
          else if e = CHR ''n'' then Some ([CHR 0x0A], 2) else if e = CHR ''r'' then Some ([CHR 0x0D], 2)
          else if e = CHR ''t'' then Some ([CHR 0x09], 2)
          else if e = CHR ''u'' then read_unicode rest else None)"

text \<open>The rune a piece of text stands for, and the bytes the piece takes.\<close>

definition read_rune :: "string \<Rightarrow> (string \<times> nat) option" where
  "read_rune s =
     (let c = hd s; w = rune_width s in
      if c = backslash then read_escape (tl s)
      else if (of_char c :: nat) < 0x20 then None
      else if w = 1 then Some (if ascii c then [c] else replacement, 1)
      else Some (take w s, w))"

text \<open>The text up to the closing quote, and what follows it.\<close>

fun read_text :: "string \<Rightarrow> (string \<times> string) option" where
  "read_text [] = None"
| "read_text (c # cs) =
     (if c = quote then Some ([], cs)
      else (case read_rune (c # cs) of
              None \<Rightarrow> None
            | Some (r, n) \<Rightarrow>
                (case read_text (drop (n - 1) cs) of None \<Rightarrow> None | Some (s, rest) \<Rightarrow> Some (r @ s, rest))))"

section \<open>Objects of strings\<close>

definition write_string :: "string \<Rightarrow> string" where
  "write_string s = quote # write_text s @ [quote]"

fun write_members :: "(string \<times> string) list \<Rightarrow> string" where
  "write_members [] = []"
| "write_members [(k, v)] = write_string k @ CHR '':'' # write_string v"
| "write_members ((k, v) # fs) = write_string k @ CHR '':'' # write_string v @ CHR '','' # write_members fs"

definition write_object :: "(string \<times> string) list \<Rightarrow> string" where
  "write_object fs = CHR ''{'' # write_members fs @ ''}''"

definition read_string :: "string \<Rightarrow> (string \<times> string) option" where
  "read_string s = (case s of c # cs \<Rightarrow> if c = quote then read_text cs else None | [] \<Rightarrow> None)"

definition read_member :: "string \<Rightarrow> ((string \<times> string) \<times> string) option" where
  "read_member s =
     (case read_string s of
        Some (k, c # rest) \<Rightarrow>
          if c \<noteq> CHR '':'' then None
          else (case read_string rest of Some (v, rest') \<Rightarrow> Some ((k, v), rest') | None \<Rightarrow> None)
      | _ \<Rightarrow> None)"

text \<open>Every member takes at least one byte, so the length of the text bounds their number.\<close>

fun read_members :: "nat \<Rightarrow> string \<Rightarrow> ((string \<times> string) list \<times> string) option" where
  "read_members 0 s = None"
| "read_members (Suc n) s =
     (case read_member s of
        Some (f, c # rest) \<Rightarrow>
          if c = CHR ''}'' then Some ([f], rest)
          else if c = CHR '','' then (case read_members n rest of Some (fs, rest') \<Rightarrow> Some (f # fs, rest') | None \<Rightarrow> None)
          else None
      | _ \<Rightarrow> None)"

definition read_object :: "string \<Rightarrow> ((string \<times> string) list \<times> string) option" where
  "read_object s =
     (case s of
        b # rest \<Rightarrow>
          if b \<noteq> CHR ''{'' then None
          else if rest \<noteq> [] \<and> hd rest = CHR ''}'' then Some ([], tl rest) else read_members (length rest) rest
      | [] \<Rightarrow> None)"

section \<open>What is written is read back\<close>

lemma rune_width_pos: "0 < rune_width s"
  by (cases s rule: rune_width.cases) (auto split: list.splits)

lemma rune_width_le: "rune_width (c # cs) \<le> Suc (length cs)"
  by (cases "c # cs" rule: rune_width.cases) (auto split: list.splits)

lemma rune_width_local:
  assumes "1 < rune_width s"
  shows "rune_width (take (rune_width s) s @ x) = rune_width s"
proof (cases s rule: rune_width.cases)
  case (1 a b rest)
  show ?thesis
  proof (cases "two_bytes a b")
    case False
    note no2 = False
    with assms 1 obtain c rest' where c: "rest = c # rest'" by (cases rest) auto
    show ?thesis
    proof (cases "three_bytes a b c")
      case False
      with assms 1 c no2 obtain d r where "rest' = d # r" "four_bytes a b c d" by (cases rest') (auto split: if_splits)
      with 1 c no2 False show ?thesis by simp
    qed (use 1 c no2 in simp)
  qed (use 1 in simp)
qed (use assms in simp_all)

lemma multi_byte_first:
  assumes "1 < rune_width (c # cs)"
  shows "\<not> ascii c"
proof (cases "c # cs" rule: rune_width.cases)
  case (1 a b rest)
  have "\<not> two_bytes a b" "\<not> three_bytes a b x" "\<not> four_bytes a b x y" if "ascii a" for x y
    using that by (auto simp: ascii_def two_bytes_def three_bytes_def four_bytes_def byte_in_def)
  with assms 1 show ?thesis by (auto split: list.splits if_splits)
qed (use assms in simp_all)

lemma ascii_width: "ascii c \<Longrightarrow> rune_width (c # cs) = 1"
  using multi_byte_first [of c cs] rune_width_pos [of "c # cs"] by fastforce

lemma hex_value_json_hex: "m < 16 \<Longrightarrow> hex_value (json_hex m) = Some m"
  by (auto simp: hex_value_def json_hex_def Let_def)

lemma hex_digits:
  assumes "n < 65536"
  shows "((n div 4096 mod 16 * 16 + n div 256 mod 16) * 16 + n div 16 mod 16) * 16 + n mod 16 = (n :: nat)"
proof -
  have "n div 4096 < 16" using assms by (simp add: less_mult_imp_div_less)
  moreover have "n div 4096 = n div 256 div 16" "n div 256 = n div 16 div 16" by (simp_all flip: div_mult2_eq)
  ultimately show ?thesis by (metis div_mult_mod_eq mod_less)
qed

lemma read_unicode_escape:
  assumes "n < 0xD800 \<or> 0xE000 \<le> n" and "n < 65536"
  shows "read_rune (unicode_escape n @ x) = Some (encode_rune n, 6)"
proof -
  have hv: "hex_value (json_hex (m mod 16)) = Some (m mod 16)" for m by (simp add: hex_value_json_hex)
  have "hex4 (json_hex (n div 4096 mod 16) # json_hex (n div 256 mod 16) # json_hex (n div 16 mod 16) # json_hex (n mod 16) # x) = Some n"
    by (simp only: hex4.simps hv prod.case option.case hex_digits [OF assms(2)])
  with assms(1) show ?thesis
    by (auto simp: read_rune_def unicode_escape_def read_escape_def quote_def backslash_def read_unicode_def)
qed

lemma read_write_ascii:
  assumes "ascii c"
  shows "read_rune (write_ascii c @ x) = Some ([c], length (write_ascii c))"
proof -
  have n: "(of_char c :: nat) < 128" using assms by (simp add: ascii_def)
  then have rune: "encode_rune (of_char c) = [c]" by (simp add: encode_rune_def)
  have esc: "read_rune (unicode_escape (of_char c) @ x) = Some ([c], 6)"
    using read_unicode_escape [of "of_char c" x] n rune by simp
  have plain: "read_rune (c # x) = Some ([c], 1)" if "c \<noteq> backslash" "\<not> (of_char c :: nat) < 0x20"
    using that assms by (simp add: read_rune_def ascii_width Let_def)
  have "length (unicode_escape (of_char c)) = 6" by (simp add: unicode_escape_def)
  with esc plain show ?thesis
    by (simp add: write_ascii_def) (auto simp: read_rune_def read_escape_def quote_def backslash_def Let_def)
qed

lemma encoded_runes:
  "encode_rune 0x2028 = [CHR 0xE2, CHR 0x80, CHR 0xA8]" "encode_rune 0x2029 = [CHR 0xE2, CHR 0x80, CHR 0xA9]"
  "encode_rune 0xFFFD = replacement"
proof -
  have "char_of (226 :: nat) = CHR 0xE2" "char_of (128 :: nat) = CHR 0x80" "char_of (168 :: nat) = CHR 0xA8"
    "char_of (169 :: nat) = CHR 0xA9" "char_of (239 :: nat) = CHR 0xEF" "char_of (191 :: nat) = CHR 0xBF"
    "char_of (189 :: nat) = CHR 0xBD" by code_simp+
  then show "encode_rune 0x2028 = [CHR 0xE2, CHR 0x80, CHR 0xA8]" "encode_rune 0x2029 = [CHR 0xE2, CHR 0x80, CHR 0xA9]"
    "encode_rune 0xFFFD = replacement" by (simp_all add: encode_rune_def replacement_def)
qed

lemma read_write_rune:
  assumes "ascii c \<or> 1 < rune_width (c # cs)"
  shows "read_rune (write_rune (c # cs) @ x) = Some (take (rune_width (c # cs)) (c # cs), length (write_rune (c # cs)))"
proof (cases "1 < rune_width (c # cs)")
  case False
  then have "rune_width (c # cs) = 1" using rune_width_pos [of "c # cs"] by simp
  with assms False show ?thesis by (simp add: write_rune_def read_write_ascii)
next
  case True
  let ?w = "rune_width (c # cs)" and ?r = "take (rune_width (c # cs)) (c # cs)"
  have len: "length ?r = ?w" using rune_width_le [of c cs] by simp
  have nonascii: "\<not> ascii c" using multi_byte_first [OF True] .
  then have first: "c \<noteq> backslash" "\<not> (of_char c :: nat) < 0x20" by (auto simp: ascii_def backslash_def)
  have "hd (?r @ x) = c" using True by (cases ?w) simp_all
  with first True have plain: "read_rune (?r @ x) = Some (?r, length ?r)"
    unfolding read_rune_def Let_def rune_width_local [OF True] using len by simp
  have sep: "read_rune (unicode_escape 0x2028 @ x) = Some ([CHR 0xE2, CHR 0x80, CHR 0xA8], 6)"
    "read_rune (unicode_escape 0x2029 @ x) = Some ([CHR 0xE2, CHR 0x80, CHR 0xA9], 6)"
    using read_unicode_escape [of "0x2028" x] read_unicode_escape [of "0x2029" x] by (simp_all add: encoded_runes)
  have "length (unicode_escape n) = 6" for n by (simp add: unicode_escape_def)
  with plain sep True show ?thesis by (auto simp: write_rune_def Let_def)
qed

lemma write_rune_start: "\<exists>d ds. write_rune (c # cs) = d # ds \<and> d \<noteq> quote"
proof -
  have "\<exists>d ds. write_ascii c = d # ds \<and> d \<noteq> quote"
    by (auto simp: write_ascii_def unicode_escape_def quote_def backslash_def)
  moreover have "\<exists>d ds. take (rune_width (c # cs)) (c # cs) = d # ds \<and> d \<noteq> quote" if "rune_width (c # cs) \<noteq> 1"
  proof -
    have w: "1 < rune_width (c # cs)" using that rune_width_pos [of "c # cs"] by simp
    then have "c \<noteq> quote" using multi_byte_first [OF w] by (auto simp: ascii_def quote_def)
    with w show ?thesis by (cases "rune_width (c # cs)") simp_all
  qed
  ultimately show ?thesis by (auto simp: write_rune_def unicode_escape_def quote_def backslash_def Let_def)
qed

lemma read_write_text: "valid_utf8 s \<Longrightarrow> read_text (write_text s @ quote # rest) = Some (s, rest)"
proof (induction s rule: write_text.induct)
  case (2 c cs)
  let ?w = "rune_width (c # cs)"
  let ?x = "write_text (drop (?w - 1) cs) @ quote # rest"
  have ih: "read_text ?x = Some (drop (?w - 1) cs, rest)" using 2 by simp
  obtain d ds where d: "write_rune (c # cs) = d # ds" "d \<noteq> quote" using write_rune_start by blast
  have rune: "read_rune (d # ds @ ?x) = Some (take ?w (c # cs), Suc (length ds))"
    using read_write_rune [of c cs ?x] "2.prems" d(1) by simp
  have "take ?w (c # cs) @ drop (?w - 1) cs = c # cs"
    using rune_width_pos [of "c # cs"] by (cases ?w) simp_all
  with d(2) rune ih show ?case by (simp add: d(1) del: rune_width.simps)
qed simp

lemma read_write_string: "valid_utf8 s \<Longrightarrow> read_string (write_string s @ rest) = Some (s, rest)"
  by (simp add: read_string_def write_string_def read_write_text)

lemma read_write_member:
  "valid_utf8 k \<Longrightarrow> valid_utf8 v \<Longrightarrow> read_member (write_string k @ CHR '':'' # write_string v @ rest) = Some ((k, v), rest)"
  by (simp add: read_member_def read_write_string)

lemma read_write_members:
  assumes "fs \<noteq> []" and "list_all (\<lambda>(k, v). valid_utf8 k \<and> valid_utf8 v) fs" and "length fs \<le> n"
  shows "read_members n (write_members fs @ CHR ''}'' # rest) = Some (fs, rest)"
  using assms
proof (induction fs arbitrary: n rule: write_members.induct)
  case (2 k v)
  then show ?case by (cases n) (simp_all add: read_write_member)
next
  case (3 k v f fs)
  then obtain m where "n = Suc m" by (cases n) simp_all
  with 3 show ?case by (simp add: read_write_member)
qed simp

lemma members_length: "length fs \<le> length (write_members fs)"
  by (induction fs rule: write_members.induct) (simp_all add: write_string_def)

text \<open>Every object of valid strings is read back; invalid bytes arrive as U+FFFD.\<close>

lemma read_write_object:
  assumes "list_all (\<lambda>(k, v). valid_utf8 k \<and> valid_utf8 v) fs"
  shows "read_object (write_object fs) = Some (fs, [])"
proof (cases fs)
  case Nil
  then show ?thesis by (simp add: read_object_def write_object_def)
next
  case (Cons f gs)
  obtain ys where ys: "write_members fs = quote # ys"
    by (cases f; cases gs) (simp_all add: Cons write_string_def)
  have "read_members (length (write_members fs @ ''}'')) (write_members fs @ ''}'') = Some (fs, [])"
    using read_write_members [of fs "length (write_members fs @ ''}'')" "[]"] assms Cons members_length [of fs]
    by (simp del: read_members.simps write_members.simps)
  then show ?thesis by (simp add: read_object_def write_object_def ys quote_def del: read_members.simps)
qed

lemma invalid_bytes_replaced: "read_string (write_string [CHR 0xFF, CHR ''a'']) = Some (replacement @ ''a'', [])"
proof -
  have "write_string [CHR 0xFF, CHR ''a''] = quote # unicode_escape 0xFFFD @ [CHR ''a'', quote]"
    by (simp add: write_string_def write_rune_def two_bytes_def byte_in_def ascii_def write_ascii_def quote_def backslash_def)
  moreover have "read_rune (unicode_escape 0xFFFD @ [CHR ''a'', quote]) = Some (replacement, 6)"
    using read_unicode_escape [of "0xFFFD"] by (simp add: encoded_runes)
  ultimately show ?thesis
    by (simp add: read_string_def unicode_escape_def quote_def backslash_def)
      (simp add: read_rune_def two_bytes_def byte_in_def ascii_def quote_def backslash_def)
qed

text \<open>Clients reason with the round trip, not with the code of the runes.\<close>

declare rune_width.simps [simp del] valid_utf8.simps(2) [simp del] write_text.simps(2) [simp del] read_text.simps(2) [simp del]

end
