(* ===== verification/Codex.thy ===== *)
theory Codex
  imports Adapters Redaction Repository Json_Text
begin

text \<open>
  Detection of Codex sessions (\<open>internal/adapters/codex\<close>: \<open>signals.go\<close>, \<open>codex.go\<close>,
  \<open>paths.go\<close>). Evidence that a process is the program and evidence that it runs inside a session
  are kept apart; only the first creates a session. The home directory and the file system are
  the record \<open>codex_os\<close>.
\<close>

definition codex_id :: string where "codex_id = ''codex''"

definition codex_env_keys :: "string list" where
  "codex_env_keys = [''CODEX_HOME'', ''CODEX_MANAGED_BY_BUN'', ''CODEX_MANAGED_BY_NPM'', ''CODEX_MANAGED_PACKAGE_ROOT'',
     ''CODEX_SANDBOX'', ''CODEX_SANDBOX_NETWORK_DISABLED'', ''CODEX_SESSION_ID'', ''CODEX_THREAD_ID'']"

definition js_runtimes :: "string list" where
  "js_runtimes = [''node'', ''bun'', ''deno'', ''node.exe'']"

section \<open>Path segments\<close>

definition path_segments :: "string \<Rightarrow> string list" where
  "path_segments p = (if p = [] then [] else split_on (CHR ''/'') (trim_both (\<lambda>c. c = CHR ''/'') p))"

definition contains_segment :: "string list \<Rightarrow> string \<Rightarrow> bool" where
  "contains_segment segs want \<longleftrightarrow> List.member segs want"

definition contains_segment_suffix :: "string list \<Rightarrow> string \<Rightarrow> bool" where
  "contains_segment_suffix segs sfx \<longleftrightarrow> list_ex (\<lambda>s. has_suffix sfx s) segs"

fun has_segment_pair :: "string list \<Rightarrow> string \<Rightarrow> string \<Rightarrow> bool" where
  "has_segment_pair (a # b # rest) x y \<longleftrightarrow> a = x \<and> b = y \<or> has_segment_pair (b # rest) x y"
| "has_segment_pair segs x y \<longleftrightarrow> False"

definition desktop_backend :: "string list \<Rightarrow> string \<Rightarrow> bool" where
  "desktop_backend segs exec_base \<longleftrightarrow> exec_base = ''codex'' \<and> 4 \<le> length segs \<and>
     (case drop (length segs - 4) segs of
        [bundle, a, b, c] \<Rightarrow> (bundle = ''Codex.app'' \<or> bundle = ''ChatGPT.app'') \<and> a = ''Contents'' \<and> b = ''Resources'' \<and> c = ''codex''
      | _ \<Rightarrow> False)"

section \<open>Signals\<close>

record signals =
  sg_identity :: "agent_evidence list"
  sg_membership :: "agent_evidence list"
  sg_conflicts :: "agent_evidence list"
  sg_native :: string

definition identity_confidence :: "signals \<Rightarrow> rat" where
  "identity_confidence s = combine_weights (sg_identity s)"

definition signals_evidence :: "signals \<Rightarrow> agent_evidence list" where
  "signals_evidence s = sg_identity s @ sg_membership s"

definition signals_confidence :: "signals \<Rightarrow> rat" where
  "signals_confidence s = combine_weights (signals_evidence s)"

definition env_entry :: "process \<Rightarrow> string \<Rightarrow> string" where
  "env_entry p k = (case map_of (pr_env p) k of None \<Rightarrow> [] | Some v \<Rightarrow> v)"

definition weighed :: "evidence_kind \<Rightarrow> rat \<Rightarrow> string \<Rightarrow> agent_evidence" where
  "weighed k w d = \<lparr>ae_kind = k, ae_detail = Text d, ae_weight = w\<rparr>"

text \<open>A helper of an application bundle whose name only begins like the program's.\<close>

definition bundled_helper :: "process \<Rightarrow> bool" where
  "bundled_helper p \<longleftrightarrow> (let base = path_base (pr_exec_path p); segs = path_segments (pr_exec_path p) in
     \<not> desktop_backend segs base \<and> contains_segment_suffix segs ''.app'' \<and> contains_segment segs ''Contents'' \<and>
     has_prefix ''codex'' (to_lower base))"

definition executable_evidence :: "process \<Rightarrow> agent_evidence list" where
  "executable_evidence p =
     (let base = path_base (pr_exec_path p); segs = path_segments (pr_exec_path p) in
      (if desktop_backend segs base
       then [weighed KindExecutable (9 / 10) (''executable is the exact Codex macOS app backend ('' @ pr_exec_path p @ '')'')] else []) @
      (if pr_exec_path p \<noteq> [] \<and> base = ''codex''
       then [weighed KindExecutable (55 / 100) (''executable basename is exactly '' @ [CHR 0x22] @ ''codex'' @ [CHR 0x22] @ '' ('' @ pr_exec_path p @ '')'')] else []) @
      (if has_segment_pair segs (CHR 0x40 # ''openai'') ''codex''
       then [weighed KindExecutable (6 / 10) (''executable path contains the '' @ CHR 0x40 # ''openai/codex package directory'')]
       else if contains_segment segs (CHR 0x40 # ''openai'')
       then [weighed KindExecutable (3 / 10) (''executable path contains an '' @ CHR 0x40 # ''openai package directory'')] else []))"

definition script_evidence :: "string list \<Rightarrow> agent_evidence list" where
  "script_evidence args =
     (case args of
        runtime # script # rest \<Rightarrow>
          if \<not> List.member js_runtimes (path_base runtime) then []
          else if path_base script = ''codex.js'' \<and> has_segment_pair (path_segments script) (CHR 0x40 # ''openai'') ''codex''
          then [weighed KindArgv (7 / 10) (''javascript runtime was given '' @ CHR 0x40 # ''openai/codex/bin/codex.js'')]
          else if path_base script = ''codex.js''
          then [weighed KindArgv (4 / 10) ''javascript runtime was given a script named codex.js''] else []
      | _ \<Rightarrow> [])"

definition thread_keys :: "string list" where
  "thread_keys = [''CODEX_SESSION_ID'', ''CODEX_THREAD_ID'']"

definition first_thread :: "process \<Rightarrow> (string \<times> string) option" where
  "first_thread p = map_option (\<lambda>k. (k, env_entry p k)) (List.find (\<lambda>k. env_entry p k \<noteq> []) thread_keys)"

definition environment_evidence :: "process \<Rightarrow> agent_evidence list" where
  "environment_evidence p =
     (if env_entry p ''CODEX_MANAGED_PACKAGE_ROOT'' \<noteq> []
      then [weighed KindEnvironment (85 / 100) ''CODEX_MANAGED_PACKAGE_ROOT is set by the official Codex launcher before it execs the native binary''] else []) @
     (if env_entry p ''CODEX_MANAGED_BY_NPM'' = ''1'' \<or> env_entry p ''CODEX_MANAGED_BY_BUN'' = ''1''
      then [weighed KindEnvironment (7 / 10) ''the Codex launcher marked this process as package-manager managed''] else []) @
     (if env_entry p ''CODEX_HOME'' \<noteq> [] then [weighed KindEnvironment (45 / 100) ''CODEX_HOME is set''] else []) @
     (case first_thread p of
        None \<Rightarrow> []
      | Some (k, v) \<Rightarrow> [weighed KindEnvironment (9 / 10) (k @ '' names a Codex session directly'')])"

definition inspect_process :: "process \<Rightarrow> signals" where
  "inspect_process p =
     (if bundled_helper p
      then \<lparr>sg_identity = [], sg_membership = [],
        sg_conflicts = [weighed KindExecutable 0 (''executable is an unrecognized helper inside a macOS application bundle ('' @ pr_exec_path p @ '')'')], sg_native = []\<rparr>
      else \<lparr>sg_identity = executable_evidence p @ script_evidence (pr_args p), sg_membership = environment_evidence p,
        sg_conflicts = [], sg_native = (case first_thread p of None \<Rightarrow> [] | Some (k, v) \<Rightarrow> v)\<rparr>)"

section \<open>Session identifiers\<close>

definition id_char :: "char \<Rightarrow> bool" where
  "id_char c \<longleftrightarrow> byte_in 97 122 c \<or> byte_in 65 90 c \<or> byte_in 48 57 c \<or> c = CHR ''-'' \<or> c = CHR ''_''"

fun sanitize_runes :: "string \<Rightarrow> string" where
  "sanitize_runes [] = []"
| "sanitize_runes (c # cs) =
     (if id_char c then c # sanitize_runes cs else CHR ''-'' # sanitize_runes (drop (rune_width (c # cs) - 1) cs))"

definition sanitize :: "string \<Rightarrow> string" where
  "sanitize s = take 64 (sanitize_runes s)"

text \<open>\<open>hash\<close> is SHA-256 and \<open>hex\<close> its first eight bytes in hexadecimal.\<close>

definition derive_session_id :: "(string \<Rightarrow> string) \<Rightarrow> agent_root \<Rightarrow> string" where
  "derive_session_id hex r =
     (let native = sm_session_id (ar_metadata r) in
      if native \<noteq> [] then sanitize native else hex (codex_id @ ''|'' @ key_uid (ar_key r)))"

definition native_session_id :: "process \<Rightarrow> string option" where
  "native_session_id p = map_option (\<lambda>(k, v). sanitize v) (first_thread p)"

section \<open>Roots\<close>

record codex_entry =
  ce_directory :: bool
  ce_symlink :: bool
  ce_regular :: bool
  ce_shared_write :: bool
  ce_uid :: "32 word"
  ce_links :: nat
  ce_size :: nat

record codex_os =
  co_home :: "string option"
  co_cwd :: string
  co_lstat :: "string \<Rightarrow> codex_entry option"
  co_eval :: "string \<Rightarrow> string option"
  co_glob :: "string \<Rightarrow> string list option"
  co_open :: "string \<Rightarrow> (codex_entry \<times> string) option"
  co_repos :: repo_fs

definition default_codex_home :: "codex_os \<Rightarrow> string" where
  "default_codex_home fs =
     (case co_home fs of
        None \<Rightarrow> []
      | Some home \<Rightarrow>
          let candidate = path_join [home, ''.codex''] in
          (case co_lstat fs candidate of
             None \<Rightarrow> []
           | Some i \<Rightarrow>
               if \<not> ce_directory i \<or> ce_symlink i then []
               else (case co_eval fs candidate of None \<Rightarrow> [] | Some c \<Rightarrow> c)))"

definition codex_home :: "codex_os \<Rightarrow> process \<Rightarrow> string" where
  "codex_home fs p = (if env_entry p ''CODEX_HOME'' \<noteq> [] then env_entry p ''CODEX_HOME'' else default_codex_home fs)"

definition ellipsis :: string where "ellipsis = [CHR 0xE2, CHR 0x80, CHR 0xA6]"

definition extract_metadata :: "'u url_ops \<Rightarrow> codex_os \<Rightarrow> process \<Rightarrow> session_metadata" where
  "extract_metadata ops fs p =
     (let line = join_with '' '' (redact_args ops (pr_args p)); home = codex_home fs p in
      \<lparr>sm_session_id = [], sm_working_dir = pr_cwd p,
       sm_repository_path = fst (finder_root (co_repos fs) new_finder (pr_cwd p)), sm_tty = pr_tty p,
       sm_invocation = (if 512 < length line then take 512 line @ ellipsis else line),
       sm_extra = (if home \<noteq> [] then [(''CODEX_HOME'', home)] else [])\<rparr>)"

definition root_of :: "'u url_ops \<Rightarrow> codex_os \<Rightarrow> process \<Rightarrow> agent_root" where
  "root_of ops fs p =
     (let s = inspect_process p; m = extract_metadata ops fs p in
      \<lparr>ar_agent_id = codex_id, ar_process = p, ar_key = proc_key p,
       ar_metadata = (if sg_native s \<noteq> [] then m\<lparr>sm_session_id := sg_native s\<rparr> else m),
       ar_confidence = signals_confidence s, ar_evidence = signals_evidence s, ar_conflicts = sg_conflicts s\<rparr>)"

definition root_candidate :: "process \<Rightarrow> bool" where
  "root_candidate p \<longleftrightarrow> pr_detailed p \<and> confidence_root_detection \<le> identity_confidence (inspect_process p)"

definition root_candidates :: "'u url_ops \<Rightarrow> codex_os \<Rightarrow> process list \<Rightarrow> (int \<times> agent_root) list" where
  "root_candidates ops fs ps =
     fold (\<lambda>p cs. if root_candidate p then AList.update (pr_pid p) (root_of ops fs p) cs else cs) ps []"

text \<open>A candidate below another one is part of it, unless it has a session identifier of its own.\<close>

definition shadowed :: "tree \<Rightarrow> (int \<times> agent_root) list \<Rightarrow> int \<Rightarrow> agent_root \<Rightarrow> bool" where
  "shadowed t cs pid c \<longleftrightarrow> list_ex (\<lambda>a.
     case map_of cs a of
       None \<Rightarrow> False
     | Some upper \<Rightarrow> sm_session_id (ar_metadata c) = [] \<or> sm_session_id (ar_metadata c) = sm_session_id (ar_metadata upper))
     (ancestors t pid)"

definition detect_codex_roots :: "'u url_ops \<Rightarrow> codex_os \<Rightarrow> graph \<Rightarrow> agent_root list" where
  "detect_codex_roots ops fs g =
     (let cs = root_candidates ops fs (sn_procs (gr_snapshot g)) in
      List.map snd (filter (\<lambda>(pid, c). \<not> shadowed (gr_tree g) cs pid c) cs))"

section \<open>Attribution\<close>

definition not_codex :: adapter_attribution where
  "not_codex = \<lparr>aa_agent_id = [], aa_session_id = [], aa_confidence = 0, aa_evidence = [], aa_conflicts = [],
     aa_relation = RelationNone, aa_root_key = \<lparr>key_pid = 0, key_start = 0\<rparr>\<rparr>"

definition attribute_codex :: "(string \<Rightarrow> string) \<Rightarrow> process \<Rightarrow> graph \<Rightarrow> adapter_attribution" where
  "attribute_codex hex p g =
     (let own = (case map_of (gr_roots g) (pr_pid p) of
            Some r \<Rightarrow> if ar_key r = proc_key p \<and> ar_agent_id r = codex_id then Some r else None | None \<Rightarrow> None);
          chain = ancestors (gr_tree g) (pr_pid p);
          nearest = List.find (\<lambda>(depth, a). case map_of (gr_roots g) a of None \<Rightarrow> False | Some r \<Rightarrow> ar_agent_id r = codex_id)
            (List.enumerate 0 chain) in
      case own of
        Some r \<Rightarrow> \<lparr>aa_agent_id = codex_id, aa_session_id = derive_session_id hex r, aa_confidence = ar_confidence r,
            aa_evidence = ar_evidence r, aa_conflicts = ar_conflicts r, aa_relation = RelationRoot, aa_root_key = ar_key r\<rparr>
      | None \<Rightarrow>
          (case nearest of
             None \<Rightarrow> not_codex
           | Some (depth, a) \<Rightarrow>
               (case map_of (gr_roots g) a of
                  None \<Rightarrow> not_codex
                | Some r \<Rightarrow> \<lparr>aa_agent_id = codex_id, aa_session_id = derive_session_id hex r, aa_confidence = ar_confidence r,
                    aa_evidence = [\<lparr>ae_kind = KindAncestry, ae_detail = Fmt ''process is a descendant of Codex session root pid %d through %d intact parent link(s)'' [AInt a, AInt (int depth + 1)], ae_weight = 0\<rparr>,
                      \<lparr>ae_kind = KindProcessInfo, ae_detail = Fmt ''session root was identified with confidence %.2f'' [ANum (ar_confidence r)], ae_weight = ar_confidence r\<rparr>],
                    aa_conflicts = [], aa_relation = RelationDescendant, aa_root_key = ar_key r\<rparr>)))"

definition codex_protected_patterns :: "protection_rule list" where
  "codex_protected_patterns =
     [\<lparr>pt_id = ''codex-session-root-v1'',
       pt_reason = ''an active Codex session root is the user's session; terminating it would end their work'',
       pt_exec_names = [''codex''], pt_path_segment = [], pt_always = False\<rparr>,
      \<lparr>pt_id = ''codex-npm-launcher-v1'',
       pt_reason = ''the '' @ CHR 0x40 # ''openai/codex launcher forwards signals to the native binary and owns the session lifetime'',
       pt_exec_names = [], pt_path_segment = CHR 0x40 # ''openai/codex'', pt_always = False\<rparr>]"

end
