(* ===== verification/Codex_Rollout.thy ===== *)
theory Codex_Rollout
  imports Codex
begin

text \<open>
  Sessions that one Codex program hosts for several tasks (\<open>internal/adapters/codex\<close>:
  \<open>rollout.go\<close>, \<open>rollout_path.go\<close>): only threads already visible are looked up, each in exactly one
  file of the expected owner, and the last lifecycle event within the read bound decides.
  Decoding a JSON line into the fields that are read, and parsing a time, are the record
  \<open>rollout_json\<close>.
\<close>

definition max_rollout_metadata :: nat where "max_rollout_metadata = 2 ^ 20"
definition max_rollout_tail :: nat where "max_rollout_tail = 2 * 2 ^ 20"

record rollout_meta =
  rm_type :: string
  rm_id :: string
  rm_timestamp :: string
  rm_cwd :: string

record rollout_event =
  re_timestamp :: string
  re_type :: string
  re_payload :: string

record rollout_json =
  rj_meta :: "string \<Rightarrow> rollout_meta option"
  rj_event :: "string \<Rightarrow> rollout_event option"
  rj_time :: "string \<Rightarrow> gotime option"

record rollout_lifecycle =
  rl_id :: string
  rl_cwd :: string
  rl_home :: string
  rl_state :: provider_state
  rl_started :: gotime
  rl_changed :: gotime

section \<open>Parsing\<close>

definition hex_letter :: "char \<Rightarrow> bool" where
  "hex_letter c \<longleftrightarrow> List.member ''0123456789abcdefABCDEF'' c"

definition valid_thread_id :: "string \<Rightarrow> bool" where
  "valid_thread_id i \<longleftrightarrow> length i = 36 \<and>
     list_all (\<lambda>(n, c). if n \<in> {8, 13, 18, 23} then c = CHR ''-'' else hex_letter c) (List.enumerate 0 i)"

definition lifecycle_state :: "rollout_event \<Rightarrow> provider_state option" where
  "lifecycle_state e =
     (if re_type e \<noteq> ''event_msg'' then None
      else if re_payload e = ''task_started'' then Some ProviderActive
      else if re_payload e = ''task_complete'' then Some ProviderCompleted
      else None)"

text \<open>The lines from the last to the first: the first lifecycle event met decides.\<close>

fun last_lifecycle :: "rollout_json \<Rightarrow> string list \<Rightarrow> (provider_state \<times> string) option" where
  "last_lifecycle j [] = None"
| "last_lifecycle j (l # ls) =
     (case rj_event j l of
        None \<Rightarrow> last_lifecycle j ls
      | Some e \<Rightarrow>
          (case lifecycle_state e of
             None \<Rightarrow> last_lifecycle j ls
           | Some st \<Rightarrow> Some (st, re_timestamp e)))"

definition parse_rollout :: "rollout_json \<Rightarrow> string \<Rightarrow> string \<Rightarrow> string \<Rightarrow> rollout_lifecycle option" where
  "parse_rollout j metadata tail_bytes want =
     (case rj_meta j metadata of
        None \<Rightarrow> None
      | Some m \<Rightarrow>
          if rm_type m \<noteq> ''session_meta'' \<or> rm_id m \<noteq> want then None
          else (case rj_time j (rm_timestamp m) of
            None \<Rightarrow> None
          | Some started \<Rightarrow>
              (case last_lifecycle j (rev (split_on (CHR 0x0A) tail_bytes)) of
                 None \<Rightarrow> None
               | Some (st, stamp) \<Rightarrow>
                   (case rj_time j stamp of
                      None \<Rightarrow> None
                    | Some changed \<Rightarrow>
                        if changed < started then None
                        else Some \<lparr>rl_id = want, rl_cwd = rm_cwd m, rl_home = [], rl_state = st,
                          rl_started = started, rl_changed = changed\<rparr>))))"

section \<open>Reading\<close>

definition secure_directory :: "codex_os \<Rightarrow> string \<Rightarrow> 32 word \<Rightarrow> string option" where
  "secure_directory fs path uid =
     (let full = (if is_abs path then path_clean path else path_join [co_cwd fs, path]) in
      case co_lstat fs full of
        None \<Rightarrow> None
      | Some i \<Rightarrow>
          if \<not> ce_directory i \<or> ce_symlink i \<or> ce_shared_write i \<or> ce_uid i \<noteq> uid then None
          else if co_eval fs full \<noteq> Some full then None else Some full)"

text \<open>Go's comparison with a single parent component lets every sibling of the directory pass.\<close>

definition path_within :: "string \<Rightarrow> string \<Rightarrow> bool" where
  "path_within dir path \<longleftrightarrow>
     (case path_rel dir path of
        None \<Rightarrow> False
      | Some rel \<Rightarrow> rel \<noteq> ''..'' \<and> \<not> is_abs rel \<and> rel \<noteq> [] \<and> hd rel \<noteq> CHR ''/'')"

fun secure_parts :: "codex_os \<Rightarrow> string \<Rightarrow> 32 word \<Rightarrow> string \<Rightarrow> string list \<Rightarrow> bool" where
  "secure_parts fs path uid current [] \<longleftrightarrow> True"
| "secure_parts fs path uid current (part # parts) \<longleftrightarrow>
     (let here = path_join [current, part] in
      case co_lstat fs here of
        None \<Rightarrow> False
      | Some i \<Rightarrow> \<not> ce_symlink i \<and> \<not> ce_shared_write i \<and> ce_uid i = uid \<and>
          (here = path \<longrightarrow> ce_regular i \<and> ce_links i = 1) \<and> secure_parts fs path uid here parts)"

definition secure_path :: "codex_os \<Rightarrow> string \<Rightarrow> string \<Rightarrow> 32 word \<Rightarrow> bool" where
  "secure_path fs path dir uid \<longleftrightarrow>
     (case path_rel dir path of
        None \<Rightarrow> False
      | Some rel \<Rightarrow> rel \<noteq> ''.'' \<and> rel \<noteq> ''..'' \<and> \<not> is_abs rel \<and>
          secure_parts fs path uid dir (split_on (CHR ''/'') rel) \<and>
          co_eval fs path = Some (path_clean path) \<and> path_within dir (path_clean path))"

text \<open>The first line, and the last bytes of the file; the length of what was read is bounded.\<close>

definition bounded_rollout_read :: "codex_os \<Rightarrow> string \<Rightarrow> 32 word \<Rightarrow> (string \<times> string) option" where
  "bounded_rollout_read fs path uid =
     (case co_open fs path of
        None \<Rightarrow> None
      | Some (i, content) \<Rightarrow>
          if \<not> ce_regular i \<or> ce_uid i \<noteq> uid \<or> ce_links i \<noteq> 1 \<or> ce_shared_write i then None
          else if content = [] then None
          else (case cut (CHR 0x0A) (take (max_rollout_metadata + 1) content) of
            None \<Rightarrow> None
          | Some (metadata, rest) \<Rightarrow>
              if max_rollout_metadata < length metadata then None
              else let tail_size = min max_rollout_tail (ce_size i) in
                Some (metadata, take tail_size (drop (ce_size i - tail_size) content))))"

definition rollout_pattern :: "string \<Rightarrow> string \<Rightarrow> string" where
  "rollout_pattern sessions i = path_join [sessions, ''*'', ''*'', ''*'', ''rollout-*-'' @ i @ ''.jsonl'']"

definition read_rollout :: "rollout_json \<Rightarrow> codex_os \<Rightarrow> string \<Rightarrow> string \<Rightarrow> 32 word \<Rightarrow> (rollout_lifecycle \<times> string) option" where
  "read_rollout j fs home i uid =
     (case secure_directory fs home uid of
        None \<Rightarrow> None
      | Some h \<Rightarrow>
          (case secure_directory fs (path_join [h, ''sessions'']) uid of
             None \<Rightarrow> None
           | Some sessions \<Rightarrow>
               if \<not> path_within h sessions then None
               else (case co_glob fs (rollout_pattern sessions i) of
                 Some [path] \<Rightarrow>
                   if \<not> secure_path fs path sessions uid then None
                   else (case bounded_rollout_read fs path uid of
                     None \<Rightarrow> None
                   | Some (metadata, tail_bytes) \<Rightarrow>
                       map_option (\<lambda>l. (l\<lparr>rl_home := h\<rparr>, path)) (parse_rollout j metadata tail_bytes i))
               | _ \<Rightarrow> None)))"

text \<open>The homes are a set in the code; a file met a second time does not count again.\<close>

fun resolved_rollouts :: "rollout_json \<Rightarrow> codex_os \<Rightarrow> string \<Rightarrow> 32 word \<Rightarrow> string list \<Rightarrow> string list \<Rightarrow> rollout_lifecycle list" where
  "resolved_rollouts j fs i uid [] seen = []"
| "resolved_rollouts j fs i uid (home # homes) seen =
     (case read_rollout j fs home i uid of
        None \<Rightarrow> resolved_rollouts j fs i uid homes seen
      | Some (l, path) \<Rightarrow>
          if path \<in> set seen then resolved_rollouts j fs i uid homes seen
          else l # resolved_rollouts j fs i uid homes (path # seen))"

definition resolve_rollout :: "rollout_json \<Rightarrow> codex_os \<Rightarrow> string list \<Rightarrow> string \<Rightarrow> 32 word \<Rightarrow> rollout_lifecycle option" where
  "resolve_rollout j fs homes i uid = (case resolved_rollouts j fs i uid homes [] of [l] \<Rightarrow> Some l | _ \<Rightarrow> None)"

section \<open>Discovery\<close>

record rollout_candidate =
  rc_root :: agent_root
  rc_homes :: "string list"
  rc_ambiguous :: bool

type_synonym rollout_candidates = "(string \<times> rollout_candidate) list"

definition add_rollout_candidate :: "string \<Rightarrow> agent_root \<Rightarrow> string \<Rightarrow> rollout_candidates \<Rightarrow> rollout_candidates" where
  "add_rollout_candidate i r home cs =
     (let c = (case map_of cs i of
          None \<Rightarrow> \<lparr>rc_root = r, rc_homes = [], rc_ambiguous = False\<rparr>
        | Some c \<Rightarrow> if ar_key (rc_root c) \<noteq> ar_key r then c\<lparr>rc_ambiguous := True\<rparr> else c) in
      AList.update i (if home \<noteq> [] \<and> home \<notin> set (rc_homes c) then c\<lparr>rc_homes := rc_homes c @ [home]\<rparr> else c) cs)"

definition provider_host_root :: "process \<Rightarrow> graph \<Rightarrow> agent_root option" where
  "provider_host_root p g =
     (case List.find (\<lambda>pid. case map_of (gr_roots g) pid of None \<Rightarrow> False
          | Some r \<Rightarrow> ar_agent_id r = codex_id \<and> pr_uid (ar_process r) = pr_uid p) (ancestors (gr_tree g) (pr_pid p)) of
        None \<Rightarrow> None
      | Some pid \<Rightarrow> map_of (gr_roots g) pid)"

definition visible_thread :: "codex_os \<Rightarrow> graph \<Rightarrow> process \<Rightarrow> rollout_candidates \<Rightarrow> rollout_candidates" where
  "visible_thread fs g p cs =
     (if \<not> pr_detailed p then cs
      else (case native_session_id p of
        None \<Rightarrow> cs
      | Some native \<Rightarrow>
          if \<not> valid_thread_id native then cs
          else (case provider_host_root p g of
            None \<Rightarrow> cs
          | Some r \<Rightarrow> if sm_session_id (ar_metadata r) = native then cs
                      else add_rollout_candidate native r (codex_home fs p) cs)))"

definition known_thread :: "graph \<Rightarrow> known_session \<Rightarrow> rollout_candidates \<Rightarrow> rollout_candidates" where
  "known_thread g k cs =
     (if ks_agent_id k \<noteq> codex_id \<or> \<not> valid_thread_id (ks_native_id k) then cs
      else (case map_of (gr_roots g) (key_pid (ks_root_key k)) of
        None \<Rightarrow> cs
      | Some r \<Rightarrow>
          if ar_key r \<noteq> ks_root_key k \<or> sm_session_id (ar_metadata r) = ks_native_id k then cs
          else (case map_of (sm_extra (ks_metadata k)) ''CODEX_HOME'' of
            None \<Rightarrow> cs
          | Some home \<Rightarrow> if home = [] then cs else add_rollout_candidate (ks_native_id k) r home cs)))"

definition rollout_candidates_of :: "codex_os \<Rightarrow> graph \<Rightarrow> rollout_candidates" where
  "rollout_candidates_of fs g =
     fold (known_thread g) (gr_known g) (fold (visible_thread fs g) (sn_procs (gr_snapshot g)) [])"

definition provider_state_name :: "provider_state \<Rightarrow> string" where
  "provider_state_name st = (case st of ProviderActive \<Rightarrow> ''active'' | ProviderCompleted \<Rightarrow> ''completed'' | ProviderOther s \<Rightarrow> s)"

definition provider_session_of :: "string \<Rightarrow> rollout_candidate \<Rightarrow> rollout_lifecycle \<Rightarrow> provider_session" where
  "provider_session_of i c l =
     \<lparr>ps_agent_id = codex_id, ps_native_id = i, ps_session_id = sanitize i, ps_root = rc_root c,
      ps_state = rl_state l, ps_started_at = rl_started l, ps_changed_at = rl_changed l,
      ps_metadata = empty_metadata\<lparr>sm_session_id := i, sm_working_dir := rl_cwd l, sm_invocation := ''Codex task '' @ i,
        sm_extra := [(''CODEX_HOME'', rl_home l), (''lifecycle_source'', ''codex-rollout'')]\<rparr>,
      ps_evidence =
        [\<lparr>ae_kind = KindAncestry, ae_detail = Fmt ''native Codex task %s is hosted by identified Codex root pid %d'' [AStr i, AInt (pr_pid (ar_process (rc_root c)))], ae_weight = 0\<rparr>,
         \<lparr>ae_kind = KindEnvironment, ae_detail = Text ''the process environment and rollout session_meta carry the same exact Codex thread ID'', ae_weight = 0\<rparr>,
         \<lparr>ae_kind = KindProcessInfo, ae_detail = Fmt ''the latest bounded rollout lifecycle event is %s at %s'' [AStr (provider_state_name (rl_state l)), ATime (rl_changed l)], ae_weight = 0\<rparr>]\<rparr>"

definition discover_codex_sessions :: "rollout_json \<Rightarrow> codex_os \<Rightarrow> graph \<Rightarrow> provider_session list" where
  "discover_codex_sessions j fs g =
     List.map_filter (\<lambda>(i, c).
       if rc_ambiguous c then None
       else map_option (provider_session_of i c) (resolve_rollout j fs (rc_homes c) i (pr_uid (ar_process (rc_root c)))))
       (sort_key fst (rollout_candidates_of fs g))"

section \<open>The adapter\<close>

definition codex_adapter :: "'u url_ops \<Rightarrow> rollout_json \<Rightarrow> codex_os \<Rightarrow> (string \<Rightarrow> string) \<Rightarrow> adapter" where
  "codex_adapter ops j fs hex = \<lparr>ag_id = codex_id, ag_env_keys = codex_env_keys,
     ag_detect_roots = (\<lambda>g. Inr (detect_codex_roots ops fs g)), ag_attribute = attribute_codex hex,
     ag_native_session_id = native_session_id, ag_protected_patterns = codex_protected_patterns,
     ag_discover_sessions = Some (discover_codex_sessions j fs)\<rparr>"

end
