(* ===== verification/Codex_Laws.thy ===== *)
theory Codex_Laws
  imports Codex_Rollout
begin

text \<open>
  What the detection of Codex sessions rests on: exactly which processes are taken for the
  program, and what a discovered task session is backed by.
\<close>

section \<open>The program\<close>

text \<open>A script that a JavaScript runtime was given as its first argument.\<close>

definition runtime_script :: "string list \<Rightarrow> string option" where
  "runtime_script args =
     (case args of r # s # rest \<Rightarrow> if List.member js_runtimes (path_base r) then Some s else None | _ \<Rightarrow> None)"

definition named_script :: "string list \<Rightarrow> bool" where
  "named_script args \<longleftrightarrow> (case runtime_script args of None \<Rightarrow> False | Some s \<Rightarrow> path_base s = ''codex.js'')"

definition packaged_script :: "string list \<Rightarrow> bool" where
  "packaged_script args \<longleftrightarrow> (case runtime_script args of None \<Rightarrow> False
     | Some s \<Rightarrow> path_base s = ''codex.js'' \<and> has_segment_pair (path_segments s) (CHR 0x40 # ''openai'') ''codex'')"

definition weights :: "agent_evidence list \<Rightarrow> rat list" where
  "weights es = List.map ae_weight es"

lemma weights_simps [simp]:
  "weights [] = []" "weights (e # es) = ae_weight e # weights es" "weights (xs @ ys) = weights xs @ weights ys"
  by (simp_all add: weights_def)

lemma ae_weight_weighed [simp]: "ae_weight (weighed k w d) = w"
  by (simp add: weighed_def)

fun weigh :: "rat list \<Rightarrow> rat \<Rightarrow> rat" where
  "weigh [] acc = acc"
| "weigh (w # ws) acc = (if w \<le> 0 then weigh ws acc else weigh ws (acc * (1 - (if weight_cap < w then weight_cap else w))))"

lemma combine_weigh: "combine_inverse es acc = weigh (weights es) acc"
  by (induction es acc rule: combine_inverse.induct) simp_all

lemma script_weights:
  "weights (script_evidence args) = (if packaged_script args then [7 / 10] else if named_script args then [4 / 10] else [])"
  by (auto simp: script_evidence_def packaged_script_def named_script_def runtime_script_def split: list.split)

lemma packaged_named: "packaged_script args \<Longrightarrow> named_script args"
  by (auto simp: packaged_script_def named_script_def split: option.splits)

lemma desktop_is_codex: "desktop_backend (path_segments path) base \<Longrightarrow> path \<noteq> [] \<and> base = ''codex''"
  by (auto simp: desktop_backend_def path_segments_def)

lemma executable_weights:
  "weights (executable_evidence p) =
     (let b = path_base (pr_exec_path p); s = path_segments (pr_exec_path p) in
      (if desktop_backend s b then [9 / 10] else []) @
      (if pr_exec_path p \<noteq> [] \<and> b = ''codex'' then [55 / 100] else []) @
      (if has_segment_pair s (CHR 0x40 # ''openai'') ''codex'' then [6 / 10]
       else if contains_segment s (CHR 0x40 # ''openai'') then [3 / 10] else []))"
  by (simp add: executable_evidence_def Let_def)

lemma weighed_enough:
  assumes "\<And>x. d \<Longrightarrow> e"
  shows "confidence_root_detection \<le>
      (let c = 1 - weigh (((if d then [9 / 10] else []) @ (if e then [55 / 100] else []) @ (if q then [6 / 10] else if s then [3 / 10] else []))
         @ (if a then [7 / 10] else if n then [4 / 10] else [])) 1 in if weight_cap < c then weight_cap else c) \<longleftrightarrow>
    e \<or> q \<or> a \<or> s \<and> n"
  using assms
  by (cases d; cases e; cases q; cases s; cases a; cases n) (simp_all add: confidence_root_detection_def weight_cap_def)

text \<open>A process is taken for the Codex program exactly if it was observed in detail, is no helper of an
  application bundle, and its executable is named codex or lies in the package's directory, or a JavaScript
  runtime was given the package's script, or a script of that name while running from the vendor's directory.
  Its environment plays no part.\<close>

theorem codex_program_iff:
  "root_candidate p \<longleftrightarrow> pr_detailed p \<and> \<not> bundled_helper p \<and>
     (pr_exec_path p \<noteq> [] \<and> path_base (pr_exec_path p) = ''codex'' \<or>
      has_segment_pair (path_segments (pr_exec_path p)) (CHR 0x40 # ''openai'') ''codex'' \<or>
      packaged_script (pr_args p) \<or>
      contains_segment (path_segments (pr_exec_path p)) (CHR 0x40 # ''openai'') \<and> named_script (pr_args p))"
proof (cases "bundled_helper p")
  case True
  then show ?thesis
    by (simp add: root_candidate_def identity_confidence_def inspect_process_def combine_weights_def confidence_root_detection_def weight_cap_def)
next
  case False
  then have "identity_confidence (inspect_process p) =
    (let c = 1 - weigh (weights (executable_evidence p) @ weights (script_evidence (pr_args p))) 1 in if weight_cap < c then weight_cap else c)"
    by (simp add: identity_confidence_def inspect_process_def combine_weights_def combine_weigh Let_def)
  then show ?thesis
    using False desktop_is_codex [of "pr_exec_path p" "path_base (pr_exec_path p)"]
    unfolding root_candidate_def executable_weights script_weights Let_def [of "path_base _"] Let_def [of "path_segments _"]
    by (simp only:) (subst weighed_enough; blast)
qed

section \<open>Discovered sessions\<close>

text \<open>
  The observations a task session may rest on: a thread that a process of the owner carries below
  an identified root, or one a committed session of that root has recorded.
\<close>

definition thread_of_process :: "codex_os \<Rightarrow> graph \<Rightarrow> process \<Rightarrow> (string \<times> agent_root \<times> string) option" where
  "thread_of_process fs g p =
     (case (native_session_id p, provider_host_root p g) of
        (Some i, Some r) \<Rightarrow>
          if pr_detailed p \<and> valid_thread_id i \<and> sm_session_id (ar_metadata r) \<noteq> i then Some (i, r, codex_home fs p) else None
      | _ \<Rightarrow> None)"

definition thread_of_known :: "graph \<Rightarrow> known_session \<Rightarrow> (string \<times> agent_root \<times> string) option" where
  "thread_of_known g k =
     (case (map_of (gr_roots g) (key_pid (ks_root_key k)), map_of (sm_extra (ks_metadata k)) ''CODEX_HOME'') of
        (Some r, Some home) \<Rightarrow>
          if ks_agent_id k = codex_id \<and> valid_thread_id (ks_native_id k) \<and> ar_key r = ks_root_key k \<and>
             sm_session_id (ar_metadata r) \<noteq> ks_native_id k \<and> home \<noteq> []
          then Some (ks_native_id k, r, home) else None
      | _ \<Rightarrow> None)"

definition thread_sources :: "codex_os \<Rightarrow> graph \<Rightarrow> (string \<times> agent_root \<times> string) list" where
  "thread_sources fs g =
     List.map_filter (thread_of_process fs g) (sn_procs (gr_snapshot g)) @ List.map_filter (thread_of_known g) (gr_known g)"

definition add_source :: "string \<times> agent_root \<times> string \<Rightarrow> rollout_candidates \<Rightarrow> rollout_candidates" where
  "add_source x = add_rollout_candidate (fst x) (fst (snd x)) (snd (snd x))"

lemma visible_source:
  "visible_thread fs g p cs = (case thread_of_process fs g p of None \<Rightarrow> cs | Some x \<Rightarrow> add_source x cs)"
  by (auto simp: visible_thread_def thread_of_process_def add_source_def split: option.split)

lemma known_source:
  "known_thread g k cs = (case thread_of_known g k of None \<Rightarrow> cs | Some x \<Rightarrow> add_source x cs)"
  by (auto simp: known_thread_def thread_of_known_def add_source_def split: option.split)

lemma fold_sources:
  assumes "\<And>x cs. f x cs = (case h x of None \<Rightarrow> cs | Some y \<Rightarrow> add_source y cs)"
  shows "fold f xs cs = fold add_source (List.map_filter h xs) cs"
  by (induction xs arbitrary: cs) (simp_all add: assms map_filter_simps split: option.split)

lemma candidates_of_sources: "rollout_candidates_of fs g = fold add_source (thread_sources fs g) []"
  unfolding rollout_candidates_of_def thread_sources_def fold_append comp_def
    fold_sources [of "visible_thread fs g", OF visible_source] fold_sources [of "known_thread g", OF known_source] ..

text \<open>
  A candidate's root and its homes come from the sources, and a source under another root marks it
  ambiguous.
\<close>

definition sourced :: "(string \<times> agent_root \<times> string) list \<Rightarrow> rollout_candidates \<Rightarrow> bool" where
  "sourced xs cs \<longleftrightarrow> distinct (List.map fst cs) \<and>
     (\<forall>i c. map_of cs i = Some c \<longrightarrow> (\<exists>h. (i, rc_root c, h) \<in> set xs) \<and> (\<forall>h\<in>set (rc_homes c). \<exists>r. (i, r, h) \<in> set xs)) \<and>
     (\<forall>i r h. (i, r, h) \<in> set xs \<longrightarrow> (\<exists>c. map_of cs i = Some c \<and> (rc_ambiguous c \<or> ar_key (rc_root c) = ar_key r)))"

lemma sourcedD:
  assumes "sourced xs cs"
  shows "distinct (List.map fst cs)"
    and "map_of cs i = Some c \<Longrightarrow> \<exists>h. (i, rc_root c, h) \<in> set xs"
    and "map_of cs i = Some c \<Longrightarrow> h \<in> set (rc_homes c) \<Longrightarrow> \<exists>r. (i, r, h) \<in> set xs"
    and "(i, r, h) \<in> set xs \<Longrightarrow> \<exists>c. map_of cs i = Some c \<and> (rc_ambiguous c \<or> ar_key (rc_root c) = ar_key r)"
  using assms unfolding sourced_def by blast+

lemma add_source_step:
  assumes "sourced xs cs"
  shows "sourced (xs @ [(i, r, h)]) (add_source (i, r, h) cs)"
proof -
  define c0 where "c0 = (case map_of cs i of None \<Rightarrow> \<lparr>rc_root = r, rc_homes = [], rc_ambiguous = False\<rparr>
      | Some c \<Rightarrow> if ar_key (rc_root c) \<noteq> ar_key r then c\<lparr>rc_ambiguous := True\<rparr> else c)"
  define c1 where "c1 = (if h \<noteq> [] \<and> h \<notin> set (rc_homes c0) then c0\<lparr>rc_homes := rc_homes c0 @ [h]\<rparr> else c0)"
  have add: "add_source (i, r, h) cs = AList.update i c1 cs"
    by (simp add: add_source_def add_rollout_candidate_def c0_def c1_def Let_def)
  have root: "rc_root c1 = (case map_of cs i of None \<Rightarrow> r | Some c \<Rightarrow> rc_root c)"
    and amb: "rc_ambiguous c1 \<longleftrightarrow> (case map_of cs i of None \<Rightarrow> False | Some c \<Rightarrow> rc_ambiguous c \<or> ar_key (rc_root c) \<noteq> ar_key r)"
    and homes: "set (rc_homes c1) \<subseteq> (case map_of cs i of None \<Rightarrow> {} | Some c \<Rightarrow> set (rc_homes c)) \<union> {h}"
    by (auto simp: c0_def c1_def split: option.split)
  have new: "\<exists>h'. (i, rc_root c1, h') \<in> set (xs @ [(i, r, h)])"
    using root sourcedD(2) [OF assms] by (cases "map_of cs i") auto
  have new_homes: "\<exists>r'. (i, r', h') \<in> set (xs @ [(i, r, h)])" if "h' \<in> set (rc_homes c1)" for h'
  proof (cases "h' = h")
    case False
    with that homes obtain c where c: "map_of cs i = Some c" "h' \<in> set (rc_homes c)" by (cases "map_of cs i") auto
    from sourcedD(3) [OF assms c] show ?thesis by auto
  qed auto
  have mine: "rc_ambiguous c1 \<or> ar_key (rc_root c1) = ar_key r"
    using root amb by (cases "map_of cs i") auto
  have others: "rc_ambiguous c1 \<or> ar_key (rc_root c1) = ar_key r'" if "(i, r', h') \<in> set xs" for r' h'
    using sourcedD(4) [OF assms that] root amb by auto
  show ?thesis
    unfolding sourced_def add
  proof (intro conjI allI impI)
    show "distinct (List.map fst (AList.update i c1 cs))" using sourcedD(1) [OF assms] by (rule distinct_update)
  next
    fix j c
    assume "map_of (AList.update i c1 cs) j = Some c"
    then show "\<exists>h'. (j, rc_root c, h') \<in> set (xs @ [(i, r, h)])"
      using new sourcedD(2) [OF assms] by (auto simp: update_conv' split: if_splits)
  next
    fix j c
    assume m: "map_of (AList.update i c1 cs) j = Some c"
    show "\<forall>h'\<in>set (rc_homes c). \<exists>r'. (j, r', h') \<in> set (xs @ [(i, r, h)])"
    proof (cases "j = i")
      case True
      with m new_homes show ?thesis by (simp add: update_conv')
    next
      case False
      with m sourcedD(3) [OF assms] show ?thesis by (fastforce simp: update_conv')
    qed
  next
    fix j r' h'
    assume "(j, r', h') \<in> set (xs @ [(i, r, h)])"
    then show "\<exists>c. map_of (AList.update i c1 cs) j = Some c \<and> (rc_ambiguous c \<or> ar_key (rc_root c) = ar_key r')"
      using mine others sourcedD(4) [OF assms] by (cases "j = i") (auto simp: update_conv')
  qed
qed

lemma sources_sourced: "sourced xs (fold add_source xs [])"
proof (induction xs rule: rev_induct)
  case (snoc x xs)
  then show ?case using add_source_step [of xs _ "fst x" "fst (snd x)" "snd (snd x)"] by simp
qed (simp add: sourced_def)

lemma id_chars: "list_all id_char s \<Longrightarrow> sanitize_runes s = s"
  by (induction s) simp_all

lemma hex_letter_id: "hex_letter c \<Longrightarrow> id_char c"
proof -
  have "list_all id_char ''0123456789abcdefABCDEF''" by code_simp
  moreover assume "hex_letter c"
  ultimately show "id_char c" by (auto simp: hex_letter_def list_all_iff)
qed

lemma valid_thread_id_chars:
  assumes "valid_thread_id i"
  shows "list_all id_char i"
  unfolding list_all_length
proof (intro allI impI)
  fix n
  assume n: "n < length i"
  have "id_char (CHR ''-'')" by code_simp
  moreover from assms n have "if n \<in> {8, 13, 18, 23} then i ! n = CHR ''-'' else hex_letter (i ! n)"
    by (auto simp: valid_thread_id_def list_all_length nth_enumerate_eq)
  ultimately show "id_char (i ! n)" by (auto simp: hex_letter_id split: if_splits)
qed

lemma sanitize_thread_id: "valid_thread_id i \<Longrightarrow> sanitize i = i"
  by (simp add: sanitize_def id_chars valid_thread_id_chars) (simp add: valid_thread_id_def)

lemma resolved_from:
  "l \<in> set (resolved_rollouts j fs i uid homes seen) \<Longrightarrow> \<exists>h\<in>set homes. \<exists>path. read_rollout j fs h i uid = Some (l, path)"
  by (induction homes arbitrary: seen) (auto split: option.splits if_splits)

lemma resolve_from:
  assumes "resolve_rollout j fs homes i uid = Some l"
  shows "\<exists>h\<in>set homes. \<exists>path. read_rollout j fs h i uid = Some (l, path)"
proof -
  from assms have "l \<in> set (resolved_rollouts j fs i uid homes [])" by (auto simp: resolve_rollout_def split: list.splits)
  then show ?thesis by (rule resolved_from)
qed

lemma parse_ordered: "parse_rollout j m t i = Some l \<Longrightarrow> rl_started l \<le> rl_changed l"
  by (auto simp: parse_rollout_def split: option.splits if_splits)

lemma read_ordered: "read_rollout j fs h i uid = Some (l, path) \<Longrightarrow> rl_started l \<le> rl_changed l"
  by (auto simp: read_rollout_def dest!: parse_ordered split: option.splits if_splits list.splits)

lemma process_source_valid:
  "thread_of_process fs g p = Some (i, r, h) \<Longrightarrow> valid_thread_id i \<and> sm_session_id (ar_metadata r) \<noteq> i"
  by (cases "native_session_id p"; cases "provider_host_root p g") (auto simp: thread_of_process_def split: if_splits)

lemma known_source_valid:
  "thread_of_known g k = Some (i, r, h) \<Longrightarrow> valid_thread_id i \<and> sm_session_id (ar_metadata r) \<noteq> i"
  by (cases "map_of (gr_roots g) (key_pid (ks_root_key k))"; cases "map_of (sm_extra (ks_metadata k)) ''CODEX_HOME''")
    (auto simp: thread_of_known_def split: if_splits)

lemma source_valid:
  assumes "(i, r, h) \<in> set (thread_sources fs g)"
  shows "valid_thread_id i" and "sm_session_id (ar_metadata r) \<noteq> i"
  using assms process_source_valid known_source_valid by (fastforce simp: thread_sources_def set_map_filter)+

text \<open>C16: Each discovered task session carries the exact identifier of a thread that was visible below its root or
  recorded for it; every other such observation of the thread names the same root; the root's own session is a
  different one; and its state and times are those read from one file of the root's owner under a home that came
  with the thread, with the change not before the start.\<close>

theorem discovered_sessions_are_backed:
  assumes "s \<in> set (discover_codex_sessions j fs g)"
  shows "ps_session_id s = ps_native_id s \<and> sm_session_id (ar_metadata (ps_root s)) \<noteq> ps_native_id s \<and>
    (\<exists>h. (ps_native_id s, ps_root s, h) \<in> set (thread_sources fs g)) \<and>
    (\<forall>r h. (ps_native_id s, r, h) \<in> set (thread_sources fs g) \<longrightarrow> ar_key r = ar_key (ps_root s)) \<and>
    (\<exists>r h l path. (ps_native_id s, r, h) \<in> set (thread_sources fs g) \<and>
       read_rollout j fs h (ps_native_id s) (pr_uid (ar_process (ps_root s))) = Some (l, path) \<and>
       ps_state s = rl_state l \<and> ps_started_at s = rl_started l \<and> ps_changed_at s = rl_changed l \<and> rl_started l \<le> rl_changed l)"
proof -
  let ?xs = "thread_sources fs g" and ?cs = "rollout_candidates_of fs g"
  from assms obtain x where "x \<in> set (sort_key fst ?cs)" and
    "(case x of (i, c) \<Rightarrow> if rc_ambiguous c then None
       else map_option (provider_session_of i c) (resolve_rollout j fs (rc_homes c) i (pr_uid (ar_process (rc_root c))))) = Some s"
    unfolding discover_codex_sessions_def set_map_filter by blast
  then obtain i c l where c: "(i, c) \<in> set ?cs" "\<not> rc_ambiguous c"
    and l: "resolve_rollout j fs (rc_homes c) i (pr_uid (ar_process (rc_root c))) = Some l" and s: "s = provider_session_of i c l"
    by (auto split: if_splits prod.splits)
  have src: "sourced ?xs ?cs" by (simp add: candidates_of_sources sources_sourced)
  with c(1) have m: "map_of ?cs i = Some c" by (simp add: sourcedD(1))
  from sourcedD(2) [OF src m] obtain h where h: "(i, rc_root c, h) \<in> set ?xs" by blast
  have same: "ar_key r = ar_key (rc_root c)" if "(i, r, h') \<in> set ?xs" for r h'
    using sourcedD(4) [OF src that] m c(2) by auto
  from resolve_from [OF l] obtain h' path where r: "h' \<in> set (rc_homes c)"
      "read_rollout j fs h' i (pr_uid (ar_process (rc_root c))) = Some (l, path)" by blast
  from sourcedD(3) [OF src m r(1)] obtain r' where r': "(i, r', h') \<in> set ?xs" by blast
  from source_valid [OF h] have own: "sanitize i = i" "sm_session_id (ar_metadata (rc_root c)) \<noteq> i"
    by (simp_all add: sanitize_thread_id)
  have f: "ps_native_id s = i" "ps_session_id s = sanitize i" "ps_root s = rc_root c"
    "ps_state s = rl_state l" "ps_started_at s = rl_started l" "ps_changed_at s = rl_changed l"
    by (simp_all add: s provider_session_of_def)
  from own h same r(2) r' read_ordered [OF r(2)] show ?thesis unfolding f by blast
qed

text \<open>A machine on which root 10 hosts a task that process 20 carries in its environment.\<close>

definition sample_thread :: string where "sample_thread = ''01234567-0123-0123-0123-0123456789ab''"

definition sample_codex_process :: "int \<Rightarrow> int \<Rightarrow> (string \<times> string) list \<Rightarrow> process" where
  "sample_codex_process pid parent env = \<lparr>pr_pid = pid, pr_ppid = parent, pr_pgid = 1, pr_sid = 1, pr_uid = 501, pr_start = pid,
     pr_comm = ''codex'', pr_status = StatusSleeping, pr_tty = [], pr_detailed = True, pr_exec_path = ''/opt/codex'', pr_args = [],
     pr_cwd = ''/w'', pr_env = env, pr_env_readable = True, pr_cpu_time = 0, pr_rss = 0, pr_vsz = 0, pr_threads = 1\<rparr>"

definition sample_codex_root :: agent_root where
  "sample_codex_root = \<lparr>ar_agent_id = codex_id, ar_process = sample_codex_process 10 1 [], ar_key = new_key 10 10,
     ar_metadata = empty_metadata, ar_confidence = 55 / 100, ar_evidence = [], ar_conflicts = []\<rparr>"

definition sample_codex_procs :: "process list" where
  "sample_codex_procs = [sample_codex_process 10 1 [], sample_codex_process 20 10 [(''CODEX_THREAD_ID'', sample_thread), (''CODEX_HOME'', ''/h'')]]"

definition sample_codex_graph :: graph where
  "sample_codex_graph = (let s = new_snapshot 90 sample_codex_procs 2 in
     \<lparr>gr_snapshot = s, gr_tree = build_tree s, gr_roots = [(10, sample_codex_root)], gr_known = []\<rparr>)"

definition sample_rollout_path :: string where
  "sample_rollout_path = ''/h/sessions/1/2/3/rollout-1-'' @ sample_thread @ ''.jsonl''"

definition sample_rollout_entry :: "string \<Rightarrow> codex_entry" where
  "sample_rollout_entry p = \<lparr>ce_directory = (p \<noteq> sample_rollout_path), ce_symlink = False, ce_regular = (p = sample_rollout_path),
     ce_shared_write = False, ce_uid = 501, ce_links = 1, ce_size = 3\<rparr>"

definition sample_codex_os :: codex_os where
  "sample_codex_os = \<lparr>co_home = None, co_cwd = ''/w'', co_lstat = (\<lambda>p. Some (sample_rollout_entry p)), co_eval = Some,
     co_glob = (\<lambda>_. Some [sample_rollout_path]), co_open = (\<lambda>p. Some (sample_rollout_entry p, ''m'' @ [CHR 0x0A] @ ''e'')),
     co_repos = \<lparr>fs_lstat = (\<lambda>_. None), fs_stat = (\<lambda>_. None), fs_read = (\<lambda>_. None)\<rparr>\<rparr>"

definition sample_rollout_json :: rollout_json where
  "sample_rollout_json = \<lparr>rj_meta = (\<lambda>l. if l = ''m'' then Some \<lparr>rm_type = ''session_meta'', rm_id = sample_thread, rm_timestamp = ''5'', rm_cwd = ''/w''\<rparr> else None),
     rj_event = (\<lambda>l. if l = ''e'' then Some \<lparr>re_timestamp = ''7'', re_type = ''event_msg'', re_payload = ''task_started''\<rparr> else None),
     rj_time = (\<lambda>s. Some (if s = ''5'' then 5 else 7))\<rparr>"

definition sample_lifecycle :: rollout_lifecycle where
  "sample_lifecycle = \<lparr>rl_id = sample_thread, rl_cwd = ''/w'', rl_home = ''/h'', rl_state = ProviderActive, rl_started = 5, rl_changed = 7\<rparr>"

lemma sample_candidate:
  "rollout_candidates_of sample_codex_os sample_codex_graph = [(sample_thread, \<lparr>rc_root = sample_codex_root, rc_homes = [''/h''], rc_ambiguous = False\<rparr>)]"
  by code_simp

lemma sample_secured:
  "secure_directory sample_codex_os ''/h'' 501 = Some ''/h''"
  "secure_directory sample_codex_os (path_join [''/h'', ''sessions'']) 501 = Some ''/h/sessions''"
  "path_within ''/h'' ''/h/sessions''"
  "secure_path sample_codex_os sample_rollout_path ''/h/sessions'' 501"
  by code_simp+

lemma sample_rollout_parsed:
  "parse_rollout sample_rollout_json ''m'' (''m'' @ [CHR 0x0A] @ ''e'') sample_thread = Some (sample_lifecycle\<lparr>rl_home := []\<rparr>)"
  by code_simp

lemma sample_read:
  "read_rollout sample_rollout_json sample_codex_os ''/h'' sample_thread 501 = Some (sample_lifecycle, sample_rollout_path)"
proof -
  have entry: "sample_rollout_entry sample_rollout_path = \<lparr>ce_directory = False, ce_symlink = False, ce_regular = True,
     ce_shared_write = False, ce_uid = 501, ce_links = 1, ce_size = 3\<rparr>" by (simp add: sample_rollout_entry_def)
  have "bounded_rollout_read sample_codex_os sample_rollout_path 501 = Some (''m'', ''m'' @ [CHR 0x0A] @ ''e'')"
    by (simp add: bounded_rollout_read_def sample_codex_os_def entry max_rollout_metadata_def max_rollout_tail_def)
  with sample_secured sample_rollout_parsed show ?thesis
    by (simp add: read_rollout_def) (simp add: sample_codex_os_def sample_lifecycle_def)
qed

lemma sample_session_found:
  "provider_session_of sample_thread \<lparr>rc_root = sample_codex_root, rc_homes = [''/h''], rc_ambiguous = False\<rparr> sample_lifecycle
     \<in> set (discover_codex_sessions sample_rollout_json sample_codex_os sample_codex_graph)"
proof -
  have "pr_uid (ar_process sample_codex_root) = 501" by (simp add: sample_codex_root_def sample_codex_process_def)
  with sample_read show ?thesis
    by (simp add: discover_codex_sessions_def sample_candidate resolve_rollout_def map_filter_simps)
qed

theorem discovered_sessions_are_backed_witness:
  "\<exists>s\<in>set (discover_codex_sessions sample_rollout_json sample_codex_os sample_codex_graph).
     ps_session_id s = sample_thread \<and> ps_root s = sample_codex_root \<and> ps_state s = ProviderActive \<and>
     ar_key (ps_root s) = new_key 10 10 \<and> sm_session_id (ar_metadata (ps_root s)) \<noteq> sample_thread"
  using sample_session_found discovered_sessions_are_backed [OF sample_session_found]
  by (intro bexI [OF _ sample_session_found]) (simp add: provider_session_of_def sample_lifecycle_def sample_codex_root_def)

end
