(* ===== verification/Ownership_Laws.thy ===== *)
theory Ownership_Laws
  imports Session_Laws Codex_Laws
begin

text \<open>
  What the one adapter the program ships means for the ownership of a process that lost its
  parent: the daemon keeps what it recorded.
\<close>

section \<open>Ownership with the shipped registry\<close>

lemma codex_claims_nothing:
  assumes "link (gr_tree g) (pr_pid p) \<noteq> LinkIntact" "map_of (gr_roots g) (pr_pid p) = None"
  shows "attribute_codex hex p g = not_codex"
  using assms ancestors_unlinked [OF assms(1)] by (simp add: attribute_codex_def Let_def)

text \<open>C31: Ownership survives reparenting, with the registry the program ships (the Codex adapter
  alone), whatever its file system, hashes and JSON reader answer. If a process of the daemon's user
  that was recorded as owned has lost its parent link and is not itself a root of this cycle, then
  the next committed cycle still attributes it to the same session and agent, with the same
  confidence.\<close>

theorem ownership_survives_reparenting:
  assumes "rc_reg r = [codex_adapter ops j fs hex]" and "reconcile urls r s t cmds = Inr res"
    and "distinct (List.map pr_pid (sn_procs s))"
    and "p \<in> set (sn_procs s)" and "pr_detailed p" and "pr_uid p = rc_self_uid r"
    and "link t (pr_pid p) \<noteq> LinkIntact" and "map_of (rs_roots res) (pr_pid p) = None"
    and "map_of (rc_ownership r) (key_uid (proc_key p)) = Some prior" and "ow_session_id prior \<noteq> []"
  shows "\<exists>own. map_of (rc_ownership (commit res r)) (key_uid (proc_key p)) = Some own \<and>
    ow_session_id own = ow_session_id prior \<and> ow_agent_id own = ow_agent_id prior \<and>
    ow_confidence own = ow_confidence prior \<and> ow_last_seen own = unix_nano (sn_taken s)"
proof -
  obtain g where g: "detect_all (rc_reg r) (rootless r s t) = Inr g" and roots: "rs_roots res = gr_roots g"
    using reconcile_roots [OF assms(2)] .
  have "attribute_codex hex p g = not_codex"
    using assms(7,8) roots detected_graph(2) [OF g] by (intro codex_claims_nothing) simp_all
  then have "unclaimed r g p"
    using assms(1,7) detected_graph(2) [OF g] by (simp add: unclaimed_def codex_adapter_def not_codex_def)
  from unclaimed_keeps_owner [OF assms(2-6) g this assms(9,10)] show ?thesis .
qed

definition codex_reconciler :: reconciler where
  "codex_reconciler = (new_reconciler [codex_adapter no_urls sample_rollout_json sample_codex_os id] 2 501 no_repos)
     \<lparr>rc_ownership := [(key_uid (new_key 8 60), sample_ownership ''s1'' (new_key 8 60))]\<rparr>"

lemma codex_reconciler_simps:
  "rc_reg codex_reconciler = [codex_adapter no_urls sample_rollout_json sample_codex_os id]"
  "rc_self_uid codex_reconciler = 501"
  "rc_ownership codex_reconciler = [(key_uid (new_key 8 60), sample_ownership ''s1'' (new_key 8 60))]"
  by (simp_all add: codex_reconciler_def new_reconciler_def)

theorem ownership_survives_reparenting_witness:
  "\<exists>r' own. cycle no_urls codex_reconciler r' \<and>
     map_of (rc_ownership r') (key_uid (new_key 8 60)) = Some own \<and> ow_session_id own = ''s1'' \<and>
     ow_confidence own = 97 / 100"
proof -
  let ?p = "sample_process 8 1 60"
  let ?s = "new_snapshot 90 [?p] 1"
  let ?t = "build_tree ?s"
  have procs: "sn_procs ?s = [?p]" by (simp add: new_snapshot_def)
  obtain res where res: "reconcile no_urls codex_reconciler ?s ?t True = Inr res"
    using reconcile_total [of codex_reconciler no_urls ?s ?t True] by (auto simp: codex_reconciler_simps codex_adapter_def)
  obtain g where g: "detect_all (rc_reg codex_reconciler) (rootless codex_reconciler ?s ?t) = Inr g"
    and roots: "rs_roots res = gr_roots g" using reconcile_roots [OF res] .
  have "\<not> root_candidate ?p" by code_simp
  then have "detect_codex_roots no_urls sample_codex_os (rootless codex_reconciler ?s ?t) = []"
    by (simp add: detect_codex_roots_def root_candidates_def rootless_def procs Let_def)
  with g have "gr_roots g = []" by (auto simp: codex_reconciler_simps codex_adapter_def rootless_def)
  then have none: "map_of (rs_roots res) (pr_pid ?p) = None" by (simp add: roots)
  have "link ?t 8 = LinkReparented" by code_simp
  with ownership_survives_reparenting [OF codex_reconciler_simps(1) res _ _ _ _ _ none, of "sample_ownership ''s1'' (new_key 8 60)"]
  obtain own where "map_of (rc_ownership (commit res codex_reconciler)) (key_uid (new_key 8 60)) = Some own"
    "ow_session_id own = ''s1''" "ow_confidence own = 97 / 100"
    by (auto simp: procs codex_reconciler_simps sample_ownership_def)
  with cycle.stored [OF res] show ?thesis by blast
qed

end
