(* ===== verification/Service_Log.thy ===== *)
theory Service_Log
  imports Paths Classification "HOL-Library.Sublist"
begin

text \<open>
  The bounded diagnostic log of the background service (\<open>internal/servicelog\<close>:
  \<open>writer_unix.go\<close>, \<open>path_unix.go\<close>). The bytes of the open file are the writer's state; what the
  operating system answers during one operation is the record \<open>log_os\<close>, with one answer per
  call of \<open>write\<close>, which may take fewer bytes than it was given, or fail after some. A loop that need not end is a
  partial function.
\<close>

section \<open>The operating system\<close>

record log_stat =
  lt_directory :: bool
  lt_regular :: bool
  lt_shared_write :: bool
  lt_uid :: "32 word"
  lt_links :: nat
  lt_device :: "64 word"
  lt_inode :: "64 word"

datatype log_look = LogFound log_stat | LogAbsent | LogUnreadable

datatype write_answer = Wrote nat | WriteFailed nat

text \<open>What opening a file gives: nothing there, a refusal, or its state and its bytes.\<close>

datatype log_open = OpenAbsent | OpenFailed | Opened log_stat string

record log_os =
  lv_uid :: "32 word"
  lv_abs :: "string \<Rightarrow> string option"
  lv_eval :: "string \<Rightarrow> string option"
  lv_lstat :: "string \<Rightarrow> log_look"
  lv_open :: "string \<Rightarrow> log_open"
  lv_create :: "string \<Rightarrow> log_open"
  lv_fstat :: "string \<Rightarrow> (64 word \<times> 64 word) option"
  lv_write :: "nat \<Rightarrow> write_answer"
  lv_truncates :: bool
  lv_reads :: bool
  lv_stats :: bool

record log_writer =
  lr_path :: string
  lr_device :: "64 word"
  lr_inode :: "64 word"
  lr_limit :: nat
  lr_bytes :: string
  lr_closed :: bool

definition max_log_bytes :: nat where "max_log_bytes = 10000000"
definition output_name :: string where "output_name = ''ghostgc.out.log''"
definition error_name :: string where "error_name = ''ghostgc.err.log''"

section \<open>Paths\<close>

definition validate_directory :: "log_os \<Rightarrow> string \<Rightarrow> detail + string" where
  "validate_directory os dir =
     (case lv_abs os dir of
        None \<Rightarrow> Inl (Text ''service log: resolve directory'')
      | Some full \<Rightarrow>
          (case lv_eval os full of
             None \<Rightarrow> Inl (Fmt ''service log: resolve directory %s'' [AStr full])
           | Some physical \<Rightarrow>
               if physical \<noteq> full then Inl (Fmt ''service log: refusing symlinked directory %s'' [AStr full])
               else (case lv_lstat os full of
                 LogFound i \<Rightarrow>
                   if \<not> lt_directory i \<or> lt_uid i \<noteq> lv_uid os \<or> lt_shared_write i
                   then Inl (Fmt ''service log: refusing unsafe directory %s'' [AStr full]) else Inr full
               | _ \<Rightarrow> Inl (Fmt ''service log: inspect directory %s'' [AStr full]))))"

definition managed_file :: "log_os \<Rightarrow> log_stat \<Rightarrow> bool" where
  "managed_file os i \<longleftrightarrow> lt_regular i \<and> lt_uid i = lv_uid os \<and> lt_links i = 1 \<and> \<not> lt_shared_write i"

definition inspect_managed_path :: "log_os \<Rightarrow> string \<Rightarrow> detail option" where
  "inspect_managed_path os path =
     (case lv_lstat os path of
        LogAbsent \<Rightarrow> None
      | LogUnreadable \<Rightarrow> Some (Fmt ''service log: inspect %s'' [AStr path])
      | LogFound i \<Rightarrow> if managed_file os i then None
                      else Some (Fmt ''service log: refusing unsafe managed file %s'' [AStr path]))"

definition open_managed_file :: "log_os \<Rightarrow> log_open \<Rightarrow> string \<Rightarrow> detail + log_stat \<times> string" where
  "open_managed_file os answer path =
     (case answer of
        Opened i bytes \<Rightarrow> if managed_file os i then Inr (i, bytes)
                          else Inl (Fmt ''service log: refusing unsafe managed file %s'' [AStr path])
      | _ \<Rightarrow> Inl (Fmt ''service log: open %s'' [AStr path]))"

definition open_existing_managed_file :: "log_os \<Rightarrow> string \<Rightarrow> detail + (log_stat \<times> string) option" where
  "open_existing_managed_file os path =
     (if lv_open os path = OpenAbsent then Inr None
      else (case open_managed_file os (lv_open os path) path of Inl e \<Rightarrow> Inl e | Inr f \<Rightarrow> Inr (Some f)))"

definition validate_open_path :: "log_os \<Rightarrow> string \<Rightarrow> 64 word \<Rightarrow> 64 word \<Rightarrow> detail option" where
  "validate_open_path os path device inode =
     (case validate_directory os (path_dir path) of
        Inl e \<Rightarrow> Some (Text ''service log: managed directory changed'')
      | Inr dir \<Rightarrow>
          if dir \<noteq> path_dir path then Some (Fmt ''service log: managed directory changed: %s'' [AStr dir])
          else (case lv_lstat os path of
            LogFound i \<Rightarrow>
              if \<not> managed_file os i \<or> lt_device i \<noteq> device \<or> lt_inode i \<noteq> inode
              then Some (Fmt ''service log: refusing changed file %s'' [AStr path])
              else if lv_fstat os path \<noteq> Some (device, inode) then Some (Text ''service log: open file changed'')
              else None
          | _ \<Rightarrow> Some (Fmt ''service log: inspect current file %s'' [AStr path])))"

section \<open>Writing\<close>

text \<open>
  The loop ends when everything is written, on an error and on a write of nothing; \<open>k\<close> numbers
  the calls.
\<close>

partial_function (option) write_all ::
  "(nat \<Rightarrow> write_answer) \<Rightarrow> nat \<Rightarrow> string \<Rightarrow> string \<Rightarrow> (detail option \<times> nat \<times> string) option" where
  "write_all answers k p file =
     (if p = [] then Some (None, k, file)
      else (case answers k of
        WriteFailed n \<Rightarrow> Some (Some (Text ''service log: write output''), Suc k, file @ take n p)
      | Wrote n \<Rightarrow>
          if n = 0 then Some (Some (Text ''service log: write output: short write''), Suc k, file)
          else write_all answers (Suc k) (drop n p) (file @ take n p)))"

definition read_tail :: "string \<Rightarrow> nat \<Rightarrow> string" where
  "read_tail file keep = drop (length file - keep) file"

definition after_newline :: "string \<Rightarrow> string" where
  "after_newline s = (case cut (CHR 0x0A) s of None \<Rightarrow> s | Some (a, b) \<Rightarrow> b)"

definition keep_bytes :: "nat \<Rightarrow> string \<Rightarrow> nat" where
  "keep_bytes limit p = min (limit * 3 div 4) (limit - length p)"

definition kept_tail :: "nat \<Rightarrow> string \<Rightarrow> string \<Rightarrow> string" where
  "kept_tail limit file p = after_newline (read_tail file (keep_bytes limit p))"

text \<open>
  Append what fits; otherwise keep the newest lines and the record, or the end of the record. Only
  this writer changes the file, so a read of its tail that does not fail is complete.
\<close>

definition enforce_bound :: "log_os \<Rightarrow> string \<Rightarrow> log_writer \<Rightarrow> (detail option \<times> log_writer) option" where
  "enforce_bound os p w =
     (let limit = lr_limit w; file = lr_bytes w;
          done = (\<lambda>r. map_option (\<lambda>(e, k, f). (e, w\<lparr>lr_bytes := f\<rparr>)) r) in
      case validate_open_path os (lr_path w) (lr_device w) (lr_inode w) of
        Some e \<Rightarrow> Some (Some e, w)
      | None \<Rightarrow>
          if \<not> lv_stats os then Some (Some (Text ''service log: inspect output''), w)
          else if length file \<le> limit \<and> length p \<le> limit - length file then done (write_all (lv_write os) 0 p file)
          else if limit \<le> length p then
            if \<not> lv_truncates os then Some (Some (Text ''service log: compact output''), w)
            else done (write_all (lv_write os) 0 (drop (length p - limit) p) [])
          else if 0 < keep_bytes limit p \<and> file \<noteq> [] \<and> \<not> lv_reads os then Some (Some (Text ''service log: read output tail''), w)
          else if \<not> lv_truncates os then Some (Some (Text ''service log: compact output''), w)
          else (case write_all (lv_write os) 0 (kept_tail limit file p) [] of
            None \<Rightarrow> None
          | Some (Some e, k, f) \<Rightarrow> Some (Some e, w\<lparr>lr_bytes := f\<rparr>)
          | Some (None, k, f) \<Rightarrow> done (write_all (lv_write os) k p f)))"

definition log_write :: "log_os \<Rightarrow> string \<Rightarrow> log_writer \<Rightarrow> ((detail + nat) \<times> log_writer) option" where
  "log_write os p w =
     (if lr_closed w then Some (Inl (Text ''file already closed''), w)
      else map_option (\<lambda>(e, w'). (case e of Some e \<Rightarrow> Inl e | None \<Rightarrow> Inr (length p), w')) (enforce_bound os p w))"

definition log_close :: "log_writer \<Rightarrow> log_writer" where
  "log_close w = w\<lparr>lr_closed := True\<rparr>"

text \<open>
  Opening trims an output file that is too long and empties the superseded error log; the error
  log's bytes are the second component.
\<close>

definition open_with_limit :: "log_os \<Rightarrow> string \<Rightarrow> int \<Rightarrow> (detail + log_writer \<times> string option) option" where
  "open_with_limit os log_dir limit =
     (if limit \<le> 0 then Some (Inl (Fmt ''service log: invalid size limit %d'' [AInt limit]))
      else (case validate_directory os log_dir of
        Inl e \<Rightarrow> Some (Inl e)
      | Inr dir \<Rightarrow>
          let out_path = path_join [dir, output_name]; err_path = path_join [dir, error_name] in
          (case or_else (inspect_managed_path os out_path) (inspect_managed_path os err_path) of
             Some e \<Rightarrow> Some (Inl e)
           | None \<Rightarrow>
               (case open_existing_managed_file os err_path of
                  Inl e \<Rightarrow> Some (Inl e)
                | Inr err_file \<Rightarrow>
                    (case open_managed_file os (lv_create os out_path) out_path of
                       Inl e \<Rightarrow> Some (Inl e)
                     | Inr (i, bytes) \<Rightarrow>
                         (case enforce_bound os [] \<lparr>lr_path = out_path, lr_device = lt_device i, lr_inode = lt_inode i,
                               lr_limit = nat limit, lr_bytes = bytes, lr_closed = False\<rparr> of
                            None \<Rightarrow> None
                          | Some (Some e, w) \<Rightarrow> Some (Inl e)
                          | Some (None, w) \<Rightarrow>
                              (case err_file of
                                 None \<Rightarrow> Some (Inr (w, None))
                               | Some (j, old) \<Rightarrow>
                                   if validate_open_path os err_path (lt_device j) (lt_inode j) \<noteq> None \<or> \<not> lv_truncates os
                                   then Some (Inl (Text ''service log: empty superseded error log''))
                                   else Some (Inr (w, Some [])))))))))"

definition open_service_log :: "log_os \<Rightarrow> string \<Rightarrow> (detail + log_writer \<times> string option) option" where
  "open_service_log os log_dir = open_with_limit os log_dir (int max_log_bytes)"

section \<open>What the loop writes\<close>

lemma write_all_Nil [simp]: "write_all answers k [] f = Some (None, k, f)"
  by (subst write_all.simps) simp

lemma write_all_step:
  "p \<noteq> [] \<Longrightarrow> answers k = Wrote n \<Longrightarrow> 0 < n \<Longrightarrow>
     write_all answers k p f = write_all answers (Suc k) (drop n p) (f @ take n p)"
  by (subst write_all.simps) simp

text \<open>The loop returns, after at most one call per byte, and has appended some part of its input.\<close>

lemma write_all_returns:
  "\<exists>e k' m. write_all answers k p f = Some (e, k', f @ take m p) \<and> k' \<le> k + length p \<and>
     (e = None \<longrightarrow> length p \<le> m)"
proof (induction "length p" arbitrary: k p f rule: less_induct)
  case less
  show ?case
  proof (cases "p = []")
    case False
    then have len: "0 < length p" by simp
    show ?thesis
    proof (cases "answers k")
      case (WriteFailed n)
      with False len show ?thesis by (subst write_all.simps) (auto simp: Suc_le_eq)
    next
      case (Wrote n)
      show ?thesis
      proof (cases "n = 0")
        case True
        with False Wrote len show ?thesis by (subst write_all.simps) (auto simp: Suc_le_eq intro!: exI [of _ 0])
      next
        case pos: False
        with len have "length (drop n p) < length p" by simp
        from less.hyps [OF this, of "Suc k" "f @ take n p"] obtain e k' m where
          r: "write_all answers (Suc k) (drop n p) (f @ take n p) = Some (e, k', (f @ take n p) @ take m (drop n p))"
            "k' \<le> Suc k + length (drop n p)" "e = None \<longrightarrow> length (drop n p) \<le> m" by blast
        have "write_all answers k p f = Some (e, k', f @ take (n + m) p)"
          by (subst write_all.simps) (simp add: False Wrote pos r(1) take_add)
        moreover have "k' \<le> k + length p" using r(2) pos len diff_less [of n "length p"] by (simp, linarith)
        ultimately show ?thesis using r(3) by (intro exI [of _ e] exI [of _ k'] exI [of _ "n + m"]) auto
      qed
    qed
  qed (auto intro!: exI [of _ 0])
qed

lemma write_all_success:
  assumes "write_all answers k p f = Some (None, k', f')"
  shows "f' = f @ p"
  using write_all_returns [of answers k p f] assms by auto

lemma write_all_bounded:
  "\<exists>e k' f'. write_all answers k p f = Some (e, k', f') \<and> length f' \<le> length f + length p"
  using write_all_returns [of answers k p f] by (metis length_append length_take min.cobounded1 add_le_mono order_refl)

section \<open>The bound\<close>

lemma suffix_after_newline: "suffix (after_newline s) s"
  by (auto simp: after_newline_def suffix_def cut_Some split: option.split)

lemma suffix_kept_tail: "suffix (kept_tail limit file p) file"
  unfolding kept_tail_def read_tail_def by (rule suffix_order.trans [OF suffix_after_newline suffix_drop])

lemma length_kept_tail: "length (kept_tail limit file p) \<le> keep_bytes limit p"
  using suffix_length_le [OF suffix_after_newline, of "read_tail file (keep_bytes limit p)"]
  by (simp add: kept_tail_def read_tail_def)

lemma keep_bytes_fits: "length p < limit \<Longrightarrow> keep_bytes limit p + length p \<le> limit"
  by (simp add: keep_bytes_def)

text \<open>What one operation does to the bytes of the file, in every case.\<close>

definition bounded_outcome :: "string \<Rightarrow> log_writer \<Rightarrow> detail option \<Rightarrow> log_writer \<Rightarrow> bool" where
  "bounded_outcome p w e w' \<longleftrightarrow>
     w' = w\<lparr>lr_bytes := lr_bytes w'\<rparr> \<and> length (lr_bytes w') \<le> max (lr_limit w) (length (lr_bytes w)) \<and>
     (e = None \<longrightarrow> length (lr_bytes w') \<le> lr_limit w \<and> suffix (lr_bytes w') (lr_bytes w @ p) \<and>
        suffix (drop (length p - lr_limit w) p) (lr_bytes w'))"

lemma outcome_unchanged: "bounded_outcome p w (Some e) w"
  by (simp add: bounded_outcome_def)

lemma outcome_written:
  assumes "write_all answers k q f = Some (e, k', f')"
    and "length f + length q \<le> max (lr_limit w) (length (lr_bytes w))"
    and "length (f @ q) \<le> lr_limit w" "suffix (f @ q) (lr_bytes w @ p)" "suffix (drop (length p - lr_limit w) p) (f @ q)"
  shows "bounded_outcome p w e (w\<lparr>lr_bytes := f'\<rparr>)"
proof -
  from write_all_bounded [of answers k q f] assms(1) have "length f' \<le> length f + length q" by auto
  moreover have "f' = f @ q" if "e = None" using write_all_success [of answers k q f k' f'] assms(1) that by simp
  ultimately show ?thesis using assms(2-) by (simp add: bounded_outcome_def)
qed

lemma compaction_returns:
  assumes big: "length p < lr_limit w"
  defines "kept \<equiv> kept_tail (lr_limit w) (lr_bytes w) p"
  obtains e k f e' k' f' where "write_all answers 0 kept [] = Some (e, k, f)" "write_all answers k p f = Some (e', k', f')"
    and "e \<noteq> None \<Longrightarrow> bounded_outcome p w e (w\<lparr>lr_bytes := f\<rparr>)"
    and "e = None \<Longrightarrow> bounded_outcome p w e' (w\<lparr>lr_bytes := f'\<rparr>)"
proof -
  obtain e k f where a: "write_all answers 0 kept [] = Some (e, k, f)" "length f \<le> length kept"
    using write_all_bounded [of answers 0 kept "[]"] by auto
  obtain e' k' f' where b: "write_all answers k p f = Some (e', k', f')"
    using write_all_bounded [of answers k p f] by auto
  have fits: "length kept + length p \<le> lr_limit w"
    using length_kept_tail [of "lr_limit w" "lr_bytes w" p] keep_bytes_fits [OF big] unfolding kept_def by linarith
  have "bounded_outcome p w e (w\<lparr>lr_bytes := f\<rparr>)" if "e \<noteq> None"
    using that a(2) fits by (auto simp: bounded_outcome_def)
  moreover have "bounded_outcome p w e' (w\<lparr>lr_bytes := f'\<rparr>)" if "e = None"
  proof (rule outcome_written [OF b])
    from that write_all_success [of answers 0 kept "[]" k f] a(1) have f: "f = kept" by simp
    show "length f + length p \<le> max (lr_limit w) (length (lr_bytes w))" "length (f @ p) \<le> lr_limit w" using f fits by simp_all
    show "suffix (f @ p) (lr_bytes w @ p)" using f suffix_kept_tail [of "lr_limit w" "lr_bytes w" p] by (simp add: kept_def)
    show "suffix (drop (length p - lr_limit w) p) (f @ p)" using big by (simp add: suffix_def)
  qed
  ultimately show ?thesis using that a(1) b by blast
qed

lemma enforce_returns:
  "\<exists>e w'. enforce_bound os p w = Some (e, w') \<and> bounded_outcome p w e w'"
proof (cases "validate_open_path os (lr_path w) (lr_device w) (lr_inode w)")
  case (Some e)
  then show ?thesis by (simp add: enforce_bound_def outcome_unchanged)
next
  case None
  consider (blind) "\<not> lv_stats os" | (append) "length (lr_bytes w) \<le> lr_limit w \<and> length p \<le> lr_limit w - length (lr_bytes w)"
    | (large) "\<not> (length (lr_bytes w) \<le> lr_limit w \<and> length p \<le> lr_limit w - length (lr_bytes w))" "lr_limit w \<le> length p"
    | (compact) "\<not> (length (lr_bytes w) \<le> lr_limit w \<and> length p \<le> lr_limit w - length (lr_bytes w))" "\<not> lr_limit w \<le> length p"
    by blast
  then show ?thesis
  proof cases
    case blind
    with None show ?thesis by (simp add: enforce_bound_def outcome_unchanged)
  next
    case append
    obtain e k f where r: "write_all (lv_write os) 0 p (lr_bytes w) = Some (e, k, f)"
      using write_all_bounded [of "lv_write os" 0 p "lr_bytes w"] by auto
    have "bounded_outcome p w e (w\<lparr>lr_bytes := f\<rparr>)"
      using append by (intro outcome_written [OF r]) (auto simp: suffix_def)
    with None append r show ?thesis by (cases "lv_stats os") (simp_all add: enforce_bound_def outcome_unchanged)
  next
    case large
    let ?q = "drop (length p - lr_limit w) p"
    obtain e k f where r: "write_all (lv_write os) 0 ?q [] = Some (e, k, f)"
      using write_all_bounded [of "lv_write os" 0 ?q "[]"] by auto
    have "bounded_outcome p w e (w\<lparr>lr_bytes := f\<rparr>)"
    proof (rule outcome_written [OF r])
      show "suffix ([] @ ?q) (lr_bytes w @ p)" by (simp add: suffix_appendI suffix_drop)
    qed (use large in auto)
    with None large r show ?thesis by (cases "lv_stats os"; cases "lv_truncates os") (auto simp: enforce_bound_def outcome_unchanged)
  next
    case compact
    then have "length p < lr_limit w" by simp
    then obtain e k f e' k' f' where r: "write_all (lv_write os) 0 (kept_tail (lr_limit w) (lr_bytes w) p) [] = Some (e, k, f)"
      "write_all (lv_write os) k p f = Some (e', k', f')"
      "e \<noteq> None \<Longrightarrow> bounded_outcome p w e (w\<lparr>lr_bytes := f\<rparr>)" "e = None \<Longrightarrow> bounded_outcome p w e' (w\<lparr>lr_bytes := f'\<rparr>)"
      by (rule compaction_returns [where answers = "lv_write os"]) blast
    show ?thesis
      using None compact r by (cases "lv_stats os"; cases e) (auto simp: enforce_bound_def Let_def outcome_unchanged)
  qed
qed

text \<open>C18: Whatever the operating system answers, and however few bytes each of its writes takes, a write to the
  log returns, its loops having ended; and it never leaves the file longer than its limit, or than it was.\<close>

theorem log_write_returns_bounded:
  "\<exists>r w'. log_write os p w = Some (r, w') \<and>
     length (lr_bytes w') \<le> max (lr_limit w) (length (lr_bytes w)) \<and> lr_limit w' = lr_limit w"
proof -
  from enforce_returns [of os p w] obtain e w' where e: "enforce_bound os p w = Some (e, w')" "bounded_outcome p w e w'" by blast
  then have "lr_limit w' = lr_limit w" unfolding bounded_outcome_def by (metis log_writer.select_convs(4) log_writer.surjective log_writer.update_convs(5))
  with e show ?thesis by (cases "lr_closed w") (auto simp: log_write_def bounded_outcome_def)
qed

text \<open>A write that succeeds has kept the newest output: the file fits its limit, it is an end of the
  old bytes followed by the record, and it ends in the record, or in as much of its end as the limit holds.\<close>

theorem log_keeps_the_newest:
  assumes "log_write os p w = Some (Inr n, w')"
  shows "n = length p \<and> length (lr_bytes w') \<le> lr_limit w \<and> suffix (lr_bytes w') (lr_bytes w @ p) \<and>
    suffix (drop (length p - lr_limit w) p) (lr_bytes w')"
proof -
  from enforce_returns [of os p w] obtain e x where e: "enforce_bound os p w = Some (e, x)" "bounded_outcome p w e x" by blast
  with assms have "e = None" "n = length p" "w' = x" by (auto simp: log_write_def split: if_splits option.splits)
  with e(2) show ?thesis by (simp add: bounded_outcome_def)
qed

text \<open>A log of at most eight bytes, on a system whose writes take two bytes each.\<close>

definition sample_log_os :: log_os where
  "sample_log_os = \<lparr>lv_uid = 1, lv_abs = Some, lv_eval = Some,
     lv_lstat = (\<lambda>p. LogFound \<lparr>lt_directory = (p = ''/l''), lt_regular = (p \<noteq> ''/l''), lt_shared_write = False, lt_uid = 1,
                    lt_links = 1, lt_device = 1, lt_inode = 2\<rparr>),
     lv_open = (\<lambda>_. OpenAbsent), lv_create = (\<lambda>_. OpenFailed), lv_fstat = (\<lambda>_. Some (1, 2)), lv_write = (\<lambda>_. Wrote 2),
     lv_truncates = True, lv_reads = True, lv_stats = True\<rparr>"

definition sample_log :: log_writer where
  "sample_log = \<lparr>lr_path = ''/l/o'', lr_device = 1, lr_inode = 2, lr_limit = 8,
     lr_bytes = ''ab'' @ [CHR 0x0A] @ ''cd'', lr_closed = False\<rparr>"

lemma sample_log_path: "validate_open_path sample_log_os ''/l/o'' 1 2 = None"
  by code_simp

lemma sample_log_written:
  "log_write sample_log_os ''wxyz'' sample_log = Some (Inr 4, sample_log\<lparr>lr_bytes := ''cdwxyz''\<rparr>)"
proof -
  have os: "lv_write sample_log_os = (\<lambda>_. Wrote 2)" "lv_truncates sample_log_os" "lv_reads sample_log_os" "lv_stats sample_log_os" by (simp_all add: sample_log_os_def)
  have t: "kept_tail 8 (''ab'' @ [CHR 0x0A] @ ''cd'') ''wxyz'' = ''cd''" by code_simp
  show ?thesis
    using t sample_log_path by (simp add: log_write_def enforce_bound_def sample_log_def Let_def os write_all_step)
qed

theorem log_keeps_the_newest_witness:
  "log_write sample_log_os ''wxyz'' sample_log = Some (Inr 4, sample_log\<lparr>lr_bytes := ''cdwxyz''\<rparr>) \<and>
     suffix ''cdwxyz'' (''ab'' @ [CHR 0x0A] @ ''cd'' @ ''wxyz'') \<and> suffix ''wxyz'' ''cdwxyz''"
  using sample_log_written log_keeps_the_newest [OF sample_log_written] by (simp add: sample_log_def)

end
