(* ===== verification/Darwin.thy ===== *)
theory Darwin
  imports Process_Model Paths "HOL-Library.AList"
begin

text \<open>
  The macOS collector (\<open>internal/platform/darwin\<close>: \<open>collector.go\<close>, \<open>detail.go\<close>): the kernel's
  process table, the decoding of its argument buffer and the detail of one process. Answers of
  the kernel are the record \<open>darwin_kernel\<close>; the worker pool only fixes the order in which the
  processes of a snapshot are looked at, and the cache of terminal names repeats an answer.
\<close>

section \<open>The kernel\<close>

record kinfo =
  ki_pid :: int
  ki_ppid :: int
  ki_pgid :: int
  ki_uid :: "32 word"
  ki_sec :: int
  ki_usec :: int
  ki_comm :: string
  ki_stat :: int
  ki_tdev :: int

record task_counters =
  tk_user :: "64 word"
  tk_system :: "64 word"
  tk_resident :: "64 word"
  tk_virtual :: "64 word"
  tk_threads :: int

record darwin_kernel =
  kn_devname :: "int \<Rightarrow> string option"
  kn_path :: "int \<Rightarrow> string"
  kn_procargs :: "int \<Rightarrow> string option"
  kn_sid :: "int \<Rightarrow> int option"
  kn_cwd :: "int \<Rightarrow> string"
  kn_task :: "int \<Rightarrow> task_counters option"

record collector =
  cl_uid :: "32 word"
  cl_env_allow :: "string list"

definition max_args :: nat where "max_args = 128"
definition max_arg_bytes :: nat where "max_arg_bytes = 4 * 1024"

section \<open>Strings in kernel buffers\<close>

abbreviation NUL :: char where "NUL \<equiv> CHR 0x00"

definition c_string :: "string \<Rightarrow> string" where
  "c_string b = takeWhile (\<lambda>c. c \<noteq> NUL) b"

definition skip_nuls :: "string \<Rightarrow> string" where
  "skip_nuls b = dropWhile (\<lambda>c. c = NUL) b"

definition next_cstring :: "string \<Rightarrow> string \<times> string \<times> bool" where
  "next_cstring b = (case cut NUL b of None \<Rightarrow> (b, [], b \<noteq> []) | Some (tok, rest) \<Rightarrow> (tok, rest, True))"

lemma next_cstring_less: "b \<noteq> [] \<Longrightarrow> next_cstring b = (tok, rest, ok) \<Longrightarrow> length rest < length b"
  by (auto simp: next_cstring_def cut_Some split: option.splits)

definition tty_name :: "darwin_kernel \<Rightarrow> int \<Rightarrow> string" where
  "tty_name k tdev =
     (if tdev = -1 \<or> tdev = 0 then no_tty
      else let name = (case kn_devname k tdev of None \<Rightarrow> [] | Some buf \<Rightarrow> c_string buf) in
        if name = [] then ''dev:'' @ show_int tdev
        else if \<not> has_prefix ''/'' name then ''/dev/'' @ name else name)"

definition status_of :: "int \<Rightarrow> status" where
  "status_of stat =
     (if stat = 1 then StatusStarting else if stat = 2 then StatusRunning else if stat = 3 then StatusSleeping
      else if stat = 4 then StatusStopped else if stat = 5 then StatusZombie else StatusUnknown)"

definition from_kinfo :: "darwin_kernel \<Rightarrow> kinfo \<Rightarrow> process" where
  "from_kinfo k i =
     \<lparr>pr_pid = ki_pid i, pr_ppid = ki_ppid i, pr_pgid = ki_pgid i, pr_sid = 0, pr_uid = ki_uid i,
      pr_start = time_unix (ki_sec i * 1000000000 + ki_usec i * 1000), pr_comm = c_string (ki_comm i),
      pr_status = status_of (ki_stat i), pr_tty = tty_name k (ki_tdev i), pr_detailed = False, pr_exec_path = [],
      pr_args = [], pr_cwd = [], pr_env = [], pr_env_readable = False, pr_cpu_time = 0, pr_rss = 0, pr_vsz = 0, pr_threads = 0\<rparr>"

section \<open>The argument buffer\<close>

text \<open>The first four bytes, little-endian, as a signed number.\<close>

definition le_int32 :: "string \<Rightarrow> int" where
  "le_int32 raw =
     (let n = (\<Sum>i\<leftarrow>[0, 1, 2, 3]. (of_char (raw ! i) :: int) * 256 ^ i) in if n < 2 ^ 31 then n else n - 2 ^ 32)"

fun read_args :: "nat \<Rightarrow> string \<Rightarrow> string list \<Rightarrow> nat \<Rightarrow> string list \<times> string" where
  "read_args 0 rest args bytes = (args, rest)"
| "read_args (Suc n) rest args bytes =
     (if rest = [] then (args, rest)
      else (case next_cstring rest of (tok, remainder, ok) \<Rightarrow>
        if \<not> ok then (args, remainder)
        else if length args < max_args \<and> bytes < max_arg_bytes
        then read_args n remainder (args @ [tok]) (bytes + length tok)
        else read_args n remainder args bytes))"

definition keep_env :: "string list \<Rightarrow> string \<Rightarrow> (string \<times> string) list \<Rightarrow> (string \<times> string) list" where
  "keep_env allow tok env =
     (case cut (CHR ''='') tok of
        None \<Rightarrow> env
      | Some (name, value) \<Rightarrow> if name = [] \<or> \<not> List.member allow name then env else AList.update name value env)"

function read_env :: "string list \<Rightarrow> string \<Rightarrow> (string \<times> string) list \<Rightarrow> (string \<times> string) list" where
  "read_env allow rest env =
     (if rest = [] then env
      else (case next_cstring rest of (tok, remainder, ok) \<Rightarrow>
        if \<not> ok then env else read_env allow remainder (keep_env allow tok env)))"
  by pat_completeness auto
termination
  by (relation "measure (\<lambda>(allow, rest, env). length rest)") (auto dest: next_cstring_less [OF _ sym])

declare read_env.simps [simp del]

text \<open>The executable's path, the arguments, the allowed variables, and whether there were variables at all.\<close>

definition proc_args :: "string list \<Rightarrow> string option \<Rightarrow> string \<times> string list \<times> (string \<times> string) list \<times> bool" where
  "proc_args allow answer =
     (case answer of
        None \<Rightarrow> ([], [], [], False)
      | Some raw \<Rightarrow>
          if length raw < 4 then ([], [], [], False)
          else (case cut NUL (drop 4 raw) of
            None \<Rightarrow> ([], [], [], False)
          | Some (exec_path, rest) \<Rightarrow>
              let (args, rest) = read_args (nat (le_int32 raw)) (skip_nuls rest) [] 0;
                  rest = skip_nuls rest in
              (exec_path, args, if allow = [] then [] else read_env allow rest [], rest \<noteq> [])))"

section \<open>One process\<close>

definition proc_detail :: "collector \<Rightarrow> darwin_kernel \<Rightarrow> process \<Rightarrow> process" where
  "proc_detail c k p =
     (let pid = pr_pid p; (exec_path, args, env, readable) = proc_args (cl_env_allow c) (kn_procargs k pid);
          p1 = p\<lparr>pr_exec_path := if kn_path k pid = [] then exec_path else kn_path k pid, pr_args := args, pr_env := env,
                 pr_env_readable := readable, pr_cwd := kn_cwd k pid, pr_detailed := True\<rparr>;
          p2 = (case kn_sid k pid of None \<Rightarrow> p1 | Some sid \<Rightarrow> p1\<lparr>pr_sid := sid\<rparr>) in
      case kn_task k pid of
        None \<Rightarrow> p2
      | Some t \<Rightarrow> p2\<lparr>pr_cpu_time := sint (tk_user t + tk_system t), pr_rss := tk_resident t, pr_vsz := tk_virtual t,
                     pr_threads := tk_threads t\<rparr>)"

text \<open>One query of one PID: the process is inspected only if it is the user's own.\<close>

definition inspect_one :: "collector \<Rightarrow> darwin_kernel \<Rightarrow> kinfo option \<Rightarrow> int \<Rightarrow> string + process" where
  "inspect_one c k answer pid =
     (case answer of
        None \<Rightarrow> Inl (''darwin: kern.proc.pid '' @ show_int pid)
      | Some i \<Rightarrow>
          if ki_pid i \<noteq> pid then Inl (''darwin: kern.proc.pid '' @ show_int pid @ '' returned pid '' @ show_int (ki_pid i))
          else let p = from_kinfo k i in Inr (if pr_uid p \<noteq> cl_uid c then p else proc_detail c k p))"

definition snapshot_processes :: "collector \<Rightarrow> darwin_kernel \<Rightarrow> gotime \<Rightarrow> kinfo list option \<Rightarrow> string + snapshot" where
  "snapshot_processes c k taken table =
     (case table of
        None \<Rightarrow> Inl ''darwin: kern.proc.all''
      | Some is \<Rightarrow>
          let own = filter (\<lambda>p. pr_uid p = cl_uid c) (List.map (from_kinfo k) (filter (\<lambda>i. 0 < ki_pid i) is)) in
          Inr (new_snapshot taken (sort_key pr_pid (List.map (proc_detail c k) own)) (int (length is))))"

section \<open>What the decoder may return\<close>

text \<open>All but the last argument that was kept fit the bound on bytes.\<close>

lemma read_args_bounded:
  assumes "bytes = sum_list (List.map length args)" "length args \<le> max_args"
    and "sum_list (List.map length (butlast args)) < max_arg_bytes"
  shows "length (fst (read_args n rest args bytes)) \<le> max_args \<and>
    sum_list (List.map length (butlast (fst (read_args n rest args bytes)))) < max_arg_bytes"
  using assms
proof (induction n rest args bytes rule: read_args.induct)
  case (2 n rest args bytes)
  obtain tok remainder ok where t: "next_cstring rest = (tok, remainder, ok)" by (cases "next_cstring rest")
  show ?case
  proof (cases "rest = [] \<or> \<not> ok")
    case True
    with 2(4,5) t show ?thesis by auto
  next
    case False
    then have ne: "rest \<noteq> []" "\<not> \<not> ok" by auto
    show ?thesis
    proof (cases "length args < max_args \<and> bytes < max_arg_bytes")
      case True
      then have "length (args @ [tok]) \<le> max_args" "sum_list (List.map length (butlast (args @ [tok]))) < max_arg_bytes"
        "bytes + length tok = sum_list (List.map length (args @ [tok]))" using 2(3) by simp_all
      from 2(1) [OF ne(1) t [symmetric] refl ne(2) True this(3,1,2)] True ne t show ?thesis by simp
    next
      case no: False
      have "read_args (Suc n) rest args bytes = read_args n remainder args bytes" using no ne t by auto
      with 2(2) [OF ne(1) t [symmetric] refl ne(2) no 2(3-5)] show ?thesis by simp
    qed
  qed
qed simp

lemma keep_env_allowed: "fst ` set env \<subseteq> set allow \<Longrightarrow> fst ` set (keep_env allow tok env) \<subseteq> set allow"
  by (auto simp: keep_env_def dom_update List.member_iff split: option.split)

lemma read_env_allowed: "fst ` set env \<subseteq> set allow \<Longrightarrow> fst ` set (read_env allow rest env) \<subseteq> set allow"
proof (induction "length rest" arbitrary: rest env rule: less_induct)
  case less
  show ?case
  proof (cases "rest = []")
    case False
    obtain tok remainder ok where t: "next_cstring rest = (tok, remainder, ok)" by (cases "next_cstring rest")
    from less.hyps [OF next_cstring_less [OF False t] keep_env_allowed [OF less.prems]] less.prems t False show ?thesis
      by (subst read_env.simps) auto
  qed (use less.prems in \<open>simp add: read_env.simps\<close>)
qed

text \<open>Whatever bytes the kernel returns, the decoder keeps at most 128 arguments, stops keeping them once
  they hold 4096 bytes, and keeps no variable that is not on the list of allowed names.\<close>

theorem procargs_bounded:
  "case proc_args allow answer of (exec_path, args, env, readable) \<Rightarrow>
     length args \<le> 128 \<and> sum_list (List.map length (butlast args)) < 4096 \<and> fst ` set env \<subseteq> set allow"
proof (cases "\<exists>raw e rest. answer = Some raw \<and> \<not> length raw < 4 \<and> cut NUL (drop 4 raw) = Some (e, rest)")
  case True
  then obtain raw e rest where r: "answer = Some raw" "\<not> length raw < 4" "cut NUL (drop 4 raw) = Some (e, rest)" by blast
  obtain args rest' where a: "read_args (nat (le_int32 raw)) (skip_nuls rest) [] 0 = (args, rest')" by fastforce
  from read_args_bounded [of 0 "[]" "nat (le_int32 raw)" "skip_nuls rest"] a
  have "length args \<le> 128 \<and> sum_list (List.map length (butlast args)) < 4096" by (simp add: max_args_def max_arg_bytes_def)
  moreover from read_env_allowed [of "[]" allow "skip_nuls rest'"] have "fst ` set (read_env allow (skip_nuls rest') []) \<subseteq> set allow" by simp
  ultimately show ?thesis using r a by (simp add: proc_args_def Let_def)
next
  case False
  then show ?thesis by (auto simp: proc_args_def split: option.split prod.split)
qed

section \<open>A round trip\<close>

text \<open>The buffer as the kernel lays it out: the count, the path, padding, arguments, variables.\<close>

definition le_bytes :: "nat \<Rightarrow> string" where
  "le_bytes n = List.map (\<lambda>i. char_of (n div 256 ^ i)) [0, 1, 2, 3]"

definition c_strings :: "string list \<Rightarrow> string" where
  "c_strings ss = concat (List.map (\<lambda>s. s @ [NUL]) ss)"

definition encode_procargs :: "string \<Rightarrow> nat \<Rightarrow> string list \<Rightarrow> string list \<Rightarrow> string" where
  "encode_procargs exec_path padding args env =
     le_bytes (length args) @ exec_path @ [NUL] @ replicate padding NUL @ c_strings args @ c_strings env"

lemma c_strings_simps [simp]: "c_strings [] = []" "c_strings (s # ss) = s @ NUL # c_strings ss"
  by (simp_all add: c_strings_def)

lemma next_c_string [simp]: "NUL \<notin> set s \<Longrightarrow> next_cstring (s @ NUL # rest) = (s, rest, True)"
  by (simp add: next_cstring_def)

lemma base_256:
  fixes n :: nat
  assumes "n < 2 ^ 31"
  shows "n = n mod 256 + n div 256 mod 256 * 256 + n div 65536 mod 256 * 65536 + n div 16777216 mod 256 * 16777216"
proof -
  define a where "a = n div 256"
  define b where "b = a div 256"
  define c where "c = b div 256"
  have "c < 256" using assms by (simp add: a_def b_def c_def div_mult2_eq [symmetric] less_mult_imp_div_less)
  moreover have "n = n mod 256 + a * 256" "a = a mod 256 + b * 256" "b = b mod 256 + c * 256"
    by (simp_all add: a_def b_def c_def)
  moreover have "n div 65536 = b" "n div 16777216 = c" by (simp_all add: a_def b_def c_def div_mult2_eq [symmetric])
  ultimately show ?thesis unfolding a_def [symmetric] by simp
qed

lemma byte_int: "(of_char (char_of (n :: nat) :: char) :: int) = int (n mod 256)"
  by (simp add: of_nat_of_char [symmetric, where 'a = int])

lemma le_int32_bytes:
  assumes "n < 2 ^ 31"
  shows "le_int32 (le_bytes n @ rest) = int n"
proof -
  have "(\<Sum>i\<leftarrow>[0, 1, 2, 3]. (of_char ((le_bytes n @ rest) ! i) :: int) * 256 ^ i) =
      int (n mod 256 + n div 256 mod 256 * 256 + n div 65536 mod 256 * 65536 + n div 16777216 mod 256 * 16777216)"
    by (simp add: le_bytes_def byte_int)
  also have "\<dots> = int n" by (rule arg_cong [where f = int, OF base_256 [OF assms, symmetric]])
  finally show ?thesis using assms by (simp add: le_int32_def Let_def)
qed

lemma read_args_strings:
  assumes "\<forall>s\<in>set ss. NUL \<notin> set s" "length args + length ss \<le> max_args"
    and "ss \<noteq> [] \<longrightarrow> bytes + sum_list (List.map length (butlast ss)) < max_arg_bytes"
  shows "read_args (length ss) (c_strings ss @ rest) args bytes = (args @ ss, rest)"
  using assms
proof (induction ss arbitrary: args bytes)
  case (Cons s ss)
  then have "length args < max_args" "bytes < max_arg_bytes" by simp_all
  moreover have "ss \<noteq> [] \<longrightarrow> bytes + length s + sum_list (List.map length (butlast ss)) < max_arg_bytes"
    using Cons.prems(3) by (simp split: if_splits)
  ultimately show ?case using Cons by simp
qed simp

lemma skip_padding: "skip_nuls (replicate n NUL @ b) = skip_nuls b"
  by (induction n) (simp_all add: skip_nuls_def)

lemma skip_twice [simp]: "skip_nuls (skip_nuls b) = skip_nuls b"
  by (simp add: skip_nuls_def dropWhile_idem)

lemma skip_c_strings: "skip_nuls (c_strings ss) = c_strings (dropWhile (\<lambda>s. s = []) ss)" if "\<forall>s\<in>set ss. NUL \<notin> set s"
  using that
proof (induction ss)
  case (Cons s ss)
  then show ?case by (cases s) (auto simp: skip_nuls_def)
qed (simp add: skip_nuls_def)

lemma keep_env_Nil [simp]: "keep_env allow [] env = env"
  by (simp add: keep_env_def)

lemma fold_keep_env_dropWhile: "fold (keep_env allow) (dropWhile (\<lambda>s. s = []) es) env = fold (keep_env allow) es env"
  by (induction es) simp_all

lemma read_env_strings:
  "\<forall>s\<in>set es. NUL \<notin> set s \<Longrightarrow> read_env allow (c_strings es) env = fold (keep_env allow) es env"
  by (induction es arbitrary: env) (simp_all add: read_env.simps)

lemma keep_env_none: "fold (keep_env []) es [] = []"
  by (induction es) (simp_all add: keep_env_def split: option.split)

lemma c_strings_Nil_iff: "c_strings (dropWhile (\<lambda>s. s = []) es) \<noteq> [] \<longleftrightarrow> (\<exists>e\<in>set es. e \<noteq> [])"
  by (induction es) auto

text \<open>C25: An argument buffer decodes to what was encoded: the path, the arguments, the allowed variables in order,
  and whether there was a variable, provided the first argument is not empty and the arguments fit the bounds.\<close>

theorem procargs_roundtrip:
  assumes "NUL \<notin> set exec_path" "\<forall>s\<in>set (args @ env). NUL \<notin> set s" "args = [] \<or> hd args \<noteq> []"
    and "length args \<le> 128" "sum_list (List.map length (butlast args)) < 4096"
  shows "proc_args allow (Some (encode_procargs exec_path padding args env)) =
    (exec_path, args, fold (keep_env allow) env [], \<exists>e\<in>set env. e \<noteq> [])"
proof -
  let ?raw = "encode_procargs exec_path padding args env" and ?es = "dropWhile (\<lambda>s. s = []) env"
  have len: "length (le_bytes n) = 4" for n by (simp add: le_bytes_def)
  have "length args < 2 ^ 31" using assms(4) by simp
  then have argc: "nat (le_int32 ?raw) = length args" by (simp add: encode_procargs_def le_int32_bytes)
  have body: "\<not> length ?raw < 4" "cut NUL (drop 4 ?raw) = Some (exec_path, replicate padding NUL @ c_strings args @ c_strings env)"
    using assms(1) len by (simp_all add: encode_procargs_def)
  have env: "skip_nuls (c_strings env) = c_strings ?es" "\<forall>s\<in>set ?es. NUL \<notin> set s"
    using assms(2) skip_c_strings [of env] by (auto dest: set_dropWhileD)
  have "\<exists>rest. read_args (length args) (skip_nuls (c_strings args @ c_strings env)) [] 0 = (args, rest) \<and> skip_nuls rest = c_strings ?es"
  proof (cases args)
    case Nil
    then show ?thesis by (simp flip: env(1))
  next
    case (Cons a as)
    with assms(2,3) have "skip_nuls (c_strings args @ c_strings env) = c_strings args @ c_strings env"
      by (cases a) (auto simp: skip_nuls_def)
    moreover have "read_args (length args) (c_strings args @ c_strings env) [] 0 = ([] @ args, c_strings env)"
      using assms(2,4,5) by (intro read_args_strings) (auto simp: max_args_def max_arg_bytes_def)
    ultimately show ?thesis using env(1) by simp
  qed
  then obtain rest where r: "read_args (length args) (skip_nuls (c_strings args @ c_strings env)) [] 0 = (args, rest)"
    "skip_nuls rest = c_strings ?es" by blast
  have e: "(if allow = [] then [] else read_env allow (c_strings ?es) []) = fold (keep_env allow) env []"
    using env(2) by (simp add: read_env_strings fold_keep_env_dropWhile keep_env_none)
  show ?thesis
    using body r e by (cases "allow = []") (simp_all add: proc_args_def argc skip_padding Let_def c_strings_Nil_iff keep_env_none)
qed

theorem procargs_roundtrip_witness:
  "proc_args [''A''] (Some (encode_procargs ''/b'' 3 [''b'', ''-x''] [''A=1'', ''S=2''])) = (''/b'', [''b'', ''-x''], [(''A'', ''1'')], True)"
proof -
  have "proc_args [''A''] (Some (encode_procargs ''/b'' 3 [''b'', ''-x''] [''A=1'', ''S=2''])) =
      (''/b'', [''b'', ''-x''], fold (keep_env [''A'']) [''A=1'', ''S=2''] [], \<exists>e\<in>set [''A=1'', ''S=2'']. e \<noteq> [])"
    by (rule procargs_roundtrip) simp_all
  moreover have "fold (keep_env [''A'']) [''A=1'', ''S=2''] [] = [(''A'', ''1'')]" by code_simp
  ultimately show ?thesis by simp
qed

text \<open>An empty first argument is taken for padding, and the first variable for an argument.\<close>

lemma empty_first_argument:
  "proc_args [''A''] (Some (encode_procargs ''/b'' 0 [[]] [''SECRET=x'', ''A=1''])) = (''/b'', [''SECRET=x''], [(''A'', ''1'')], True)"
proof -
  let ?rest = "NUL # c_strings [''SECRET=x'', ''A=1'']"
  have raw: "encode_procargs ''/b'' 0 [[]] [''SECRET=x'', ''A=1''] = le_bytes 1 @ ''/b'' @ NUL # ?rest"
    by (simp add: encode_procargs_def)
  have len: "length (le_bytes 1) = 4" by (simp add: le_bytes_def)
  have first: "cut NUL (''/b'' @ NUL # ?rest) = Some (''/b'', ?rest)" by (rule cut_append) simp
  have args: "read_args 1 (skip_nuls ?rest) [] 0 = ([''SECRET=x''], c_strings [''A=1''])" by code_simp
  have env: "read_env [''A''] (skip_nuls (c_strings [''A=1''])) [] = [(''A'', ''1'')]" "skip_nuls (c_strings [''A=1'']) \<noteq> []" by code_simp+
  have "le_int32 (le_bytes 1 @ ''/b'' @ NUL # ?rest) = 1" using le_int32_bytes [of 1] by simp
  then show ?thesis using first args env len unfolding raw by (simp add: proc_args_def Let_def del: c_strings_simps)
qed

end
