(* ===== verification/Path_Laws.thy ===== *)
theory Path_Laws
  imports Paths
begin

text \<open>
  Cleaned absolute paths: what their components are, and when one lies below another.
\<close>

section \<open>Splitting and joining\<close>

lemma split_on_parts: "s \<in> set (split_on c t) \<Longrightarrow> c \<notin> set s"
proof (induction t arbitrary: s)
  case (Cons d t)
  obtain w ws where "split_on c t = w # ws" by (cases "split_on c t") auto
  with Cons show ?case by (auto split: if_splits)
qed simp

lemma split_on_join:
  assumes "ss \<noteq> []" "\<forall>s\<in>set ss. CHR ''/'' \<notin> set s"
  shows "split_on (CHR ''/'') (join_with ''/'' ss) = ss"
  using assms
proof (induction ss)
  case (Cons s ss)
  then show ?case by (cases ss) (auto simp: split_on_plain split_on_append)
qed simp

text \<open>A component of a cleaned absolute path.\<close>

definition plain_part :: "string \<Rightarrow> bool" where
  "plain_part s \<longleftrightarrow> s \<noteq> [] \<and> s \<noteq> ''.'' \<and> s \<noteq> ''..'' \<and> CHR ''/'' \<notin> set s"

lemma clean_segments_plain:
  assumes "\<forall>s\<in>set stack. plain_part s" "\<forall>s\<in>set ss. CHR ''/'' \<notin> set s"
  shows "\<forall>s\<in>set (clean_segments True stack ss). plain_part s"
  using assms
proof (induction ss arbitrary: stack)
  case (Cons s ss)
  from Cons.prems have st: "\<forall>s\<in>set stack. plain_part s" and ss: "\<forall>s\<in>set ss. CHR ''/'' \<notin> set s" and s: "CHR ''/'' \<notin> set s"
    by simp_all
  consider "s = [] \<or> s = ''.''" | "s = ''..''" "stack = []" | t ts where "s = ''..''" "stack = t # ts" | "plain_part s"
    using s unfolding plain_part_def by (cases stack) auto
  then show ?case
  proof cases
    case 1
    then have "clean_segments True stack (s # ss) = clean_segments True stack ss" by simp
    with Cons.IH [OF st ss] show ?thesis by (simp only:)
  next
    case 2
    then have "clean_segments True stack (s # ss) = clean_segments True stack ss" by simp
    with Cons.IH [OF st ss] show ?thesis by (simp only:)
  next
    case (3 t ts)
    with st have "clean_segments True stack (s # ss) = clean_segments True ts ss" "\<forall>s\<in>set ts. plain_part s"
      by (simp_all add: plain_part_def)
    with Cons.IH [OF this(2) ss] show ?thesis by (simp only:)
  next
    case 4
    then have "clean_segments True stack (s # ss) = clean_segments True (s # stack) ss" by (simp add: plain_part_def)
    moreover from 4 st have "\<forall>x\<in>set (s # stack). plain_part x" by simp
    ultimately show ?thesis using Cons.IH [OF _ ss, of "s # stack"] by (simp only:)
  qed
qed simp

lemma clean_segments_id:
  assumes "\<forall>s\<in>set ss. plain_part s"
  shows "clean_segments True stack ss = rev stack @ ss"
  using assms by (induction ss arbitrary: stack) (simp_all add: plain_part_def)

definition abs_parts :: "string \<Rightarrow> string list" where
  "abs_parts p = clean_segments True [] (split_on (CHR ''/'') p)"

lemma abs_parts_plain: "\<forall>s\<in>set (abs_parts p). plain_part s"
  unfolding abs_parts_def by (rule clean_segments_plain) (auto dest: split_on_parts)

lemma path_clean_abs:
  assumes "is_abs p"
  shows "path_clean p = CHR ''/'' # join_with ''/'' (abs_parts p)"
proof -
  from assms have "p \<noteq> []" by (auto simp: is_abs_def has_prefix_def)
  with assms show ?thesis by (simp add: path_clean_def abs_parts_def Let_def)
qed

lemma abs_clean [simp]: "is_abs p \<Longrightarrow> is_abs (path_clean p)"
  by (simp add: path_clean_abs) (simp add: is_abs_def has_prefix_def)

lemma abs_parts_split:
  assumes "is_abs p"
  shows "split_on (CHR ''/'') (path_clean p) = [] # (if abs_parts p = [] then [[]] else abs_parts p)"
  using split_on_join [of "abs_parts p"] abs_parts_plain [of p] by (auto simp: path_clean_abs [OF assms] plain_part_def)

lemma path_components_abs:
  assumes "is_abs p"
  shows "path_components p = abs_parts p"
proof -
  have "filter (\<lambda>c. c \<noteq> [] \<and> c \<noteq> ''.'') (abs_parts p) = abs_parts p"
    using abs_parts_plain [of p] by (simp add: filter_id_conv plain_part_def)
  then show ?thesis by (simp add: path_components_def abs_parts_split [OF assms])
qed

lemma abs_parts_clean [simp]:
  assumes "is_abs p"
  shows "abs_parts (path_clean p) = abs_parts p"
  unfolding abs_parts_def [of "path_clean p"] abs_parts_split [OF assms]
  using clean_segments_id [OF abs_parts_plain [of p]] by simp

lemma drop_common_prefix: "fst (drop_common xs ys) = [] \<longleftrightarrow> prefix xs ys"
  by (induction xs ys rule: drop_common.induct) auto

lemma drop_common_parts: "set (fst (drop_common xs ys)) \<subseteq> set xs \<and> set (snd (drop_common xs ys)) \<subseteq> set ys"
  by (induction xs ys rule: drop_common.induct) auto

lemma join_parent:
  assumes "\<forall>s\<in>set ts. CHR ''/'' \<notin> set s" "ts \<noteq> []"
  shows "join_with ''/'' ts = ''..'' \<or> has_prefix ''../'' (join_with ''/'' ts) \<longleftrightarrow> hd ts = ''..''"
proof (cases ts)
  case (Cons t us)
  show ?thesis
  proof (cases us)
    case Nil
    with Cons assms show ?thesis by (auto simp: has_prefix_iff prefix_def)
  next
    case (Cons u vs)
    have cut: "cut (CHR ''/'') (join_with ''/'' ts) = Some (t, join_with ''/'' us)"
      using assms \<open>ts = t # us\<close> Cons by (simp add: cut_Some)
    have "has_prefix ''../'' (join_with ''/'' ts) \<longleftrightarrow> t = ''..''"
    proof
      assume "has_prefix ''../'' (join_with ''/'' ts)"
      then obtain r where "join_with ''/'' ts = ''..'' @ CHR ''/'' # r" by (auto simp: has_prefix_iff prefix_def)
      with cut show "t = ''..''" by simp
    qed (use \<open>ts = t # us\<close> Cons in \<open>simp add: has_prefix_iff\<close>)
    moreover from cut have "CHR ''/'' \<in> set (join_with ''/'' ts)" by (simp add: cut_Some)
    then have "join_with ''/'' ts \<noteq> ''..''" by auto
    ultimately show ?thesis using \<open>ts = t # us\<close> by simp
  qed
qed (use assms in simp)

end
