(* ===== verification/Darwin_Usage.thy ===== *)
theory Darwin_Usage
  imports Darwin Activity Worktree_Git Path_Laws
begin

text \<open>
  Descriptors of the user's processes (\<open>internal/platform/darwin\<close>: \<open>activity.go\<close>,
  \<open>path_usage.go\<close>): the sample of one process's activity, and the inspection of which processes
  hold a path, between two tables of processes that must agree. The answers about one process are
  records; \<open>fd_size\<close> is the size of the kernel's descriptor entry.
\<close>

definition max_activity_fds :: int where "max_activity_fds = 4096"
definition max_usage_processes :: nat where "max_usage_processes = 4096"
definition max_usage_fds :: nat where "max_usage_fds = 131072"
definition max_usage_entries :: nat where "max_usage_entries = 100000"

definition within_repository :: "string \<Rightarrow> string \<Rightarrow> bool" where
  "within_repository dir path \<longleftrightarrow>
     (case path_rel (path_clean dir) (path_clean path) of
        None \<Rightarrow> False
      | Some rel \<Rightarrow> rel \<noteq> ''..'' \<and> \<not> has_prefix ''../'' rel)"

text \<open>For absolute paths, a path counts as within a directory exactly if the directory's components, after
  cleaning, are the first components of the path: neither a sibling nor a name with a common beginning does.\<close>

theorem within_repository_iff:
  assumes "is_abs dir" "is_abs path"
  shows "within_repository dir path \<longleftrightarrow> prefix (path_components dir) (path_components path)"
proof -
  let ?x = "abs_parts dir" and ?y = "abs_parts path"
  have c: "path_components (path_clean dir) = ?x" "path_components (path_clean path) = ?y"
    "path_components dir = ?x" "path_components path = ?y" using assms by (simp_all add: path_components_abs)
  obtain bs ts where d: "drop_common ?x ?y = (bs, ts)" by fastforce
  from drop_common_parts [of ?x ?y] d abs_parts_plain have plain: "\<forall>s\<in>set bs. plain_part s" "\<forall>s\<in>set ts. plain_part s" by fastforce+
  have abs: "is_abs (path_clean (path_clean dir)) = is_abs (path_clean (path_clean path))" using assms by simp
  show ?thesis
  proof (cases bs)
    case Nil
    with d drop_common_prefix [of ?x ?y] have pre: "prefix ?x ?y" by simp
    have "within_repository dir path"
    proof (cases ts)
      case (Cons t us)
      with plain(2) have "hd ts \<noteq> ''..''" "\<forall>s\<in>set ts. CHR ''/'' \<notin> set s" "ts \<noteq> []" by (auto simp: plain_part_def)
      moreover have "path_rel (path_clean dir) (path_clean path) = Some (join_with ''/'' ts)"
        using Nil Cons d abs unfolding path_rel_def c by simp
      ultimately show ?thesis using join_parent [of ts] by (auto simp: within_repository_def)
    next
      case empty: Nil
      have "path_rel (path_clean dir) (path_clean path) = Some ''.''"
        using Nil empty d abs unfolding path_rel_def c by simp
      then show ?thesis by (simp add: within_repository_def has_prefix_def)
    qed
    with pre c show ?thesis by simp
  next
    case (Cons b cs)
    let ?up = "replicate (length bs) ''..'' @ ts"
    have "\<forall>s\<in>set ts. CHR ''/'' \<notin> set s" using plain(2) by (simp add: plain_part_def)
    then have up: "\<forall>s\<in>set ?up. CHR ''/'' \<notin> set s" "?up \<noteq> []" "hd ?up = ''..''" using Cons by (simp_all add: ball_Un)
    have b: "b \<noteq> ''..''" using plain(1) Cons by (simp add: plain_part_def)
    from join_parent [OF up(1,2)] up(3) have "join_with ''/'' ?up = ''..'' \<or> has_prefix ''../'' (join_with ''/'' ?up)" by blast
    moreover have "path_rel (path_clean dir) (path_clean path) = Some (join_with ''/'' ?up)"
      using Cons d abs b unfolding path_rel_def c by simp
    ultimately have "\<not> within_repository dir path" by (auto simp: within_repository_def)
    moreover have "\<not> prefix ?x ?y" using drop_common_prefix [of ?x ?y] d Cons by simp
    ultimately show ?thesis using c by simp
  qed
qed

theorem within_repository_iff_witness:
  "within_repository ''/r/./a'' ''/r/a/x'' \<and> \<not> within_repository ''/r/a'' ''/r/ab'' \<and> \<not> within_repository ''/r/a'' ''/r/a/../b''"
proof -
  have abs: "is_abs ''/r/./a''" "is_abs ''/r/a/x''" "is_abs ''/r/a''" "is_abs ''/r/ab''" "is_abs ''/r/a/../b''" by code_simp+
  have parts: "path_components ''/r/./a'' = [''r'', ''a'']" "path_components ''/r/a/x'' = [''r'', ''a'', ''x'']"
    "path_components ''/r/a'' = [''r'', ''a'']" "path_components ''/r/ab'' = [''r'', ''ab'']" "path_components ''/r/a/../b'' = [''r'', ''b'']"
    by code_simp+
  show ?thesis
    using within_repository_iff [OF abs(1,2)] within_repository_iff [OF abs(3,4)] within_repository_iff [OF abs(3,5)]
    by (simp add: parts)
qed

section \<open>Activity of one process\<close>

record vnode_look =
  vl_path :: string
  vl_writable :: bool

record socket_look =
  sk_connected :: bool
  sk_receive :: "64 word"
  sk_send :: "64 word"

datatype fd_look = FdVnode "vnode_look option" | FdSocket "socket_look option" | FdOther

record fd_listing =
  fl_needed :: int
  fl_alloc :: bool
  fl_listed :: int
  fl_fds :: "fd_look list"

record activity_look =
  al_before :: "kinfo option"
  al_task :: "task_counters option"
  al_io :: "(64 word \<times> 64 word) option"
  al_fds :: fd_listing
  al_after :: "kinfo option"

definition validate_activity_key :: "collector \<Rightarrow> darwin_kernel \<Rightarrow> kinfo option \<Rightarrow> key \<Rightarrow> string option" where
  "validate_activity_key c k answer key =
     (case answer of
        None \<Rightarrow> Some (''darwin: activity target '' @ key_uid key @ '' unavailable'')
      | Some i \<Rightarrow>
          let observed = from_kinfo k i in
          if pr_uid observed \<noteq> cl_uid c then Some (''darwin: activity target '' @ key_uid key @ '' is owned by another user'')
          else if proc_key observed \<noteq> key
          then Some (''darwin: activity target changed from '' @ key_uid key @ '' to '' @ key_uid (proc_key observed))
          else None)"

definition inspect_vnode :: "string \<Rightarrow> vnode_look option \<Rightarrow> activity_sample \<Rightarrow> activity_sample \<times> bool" where
  "inspect_vnode dir v s =
     (if dir = [] then (s, True)
      else (case v of
        None \<Rightarrow> (s, False)
      | Some l \<Rightarrow> if vl_writable l \<and> within_repository dir (vl_path l)
                  then (s\<lparr>as_writable_files := as_writable_files s + 1\<rparr>, True) else (s, True)))"

definition inspect_socket :: "socket_look option \<Rightarrow> activity_sample \<Rightarrow> activity_sample \<times> bool" where
  "inspect_socket v s =
     (case v of
        None \<Rightarrow> (s, False)
      | Some l \<Rightarrow> (s\<lparr>as_connected := as_connected s + (if sk_connected l then 1 else 0),
                     as_recv_queue := as_recv_queue s + sk_receive l, as_send_queue := as_send_queue s + sk_send l\<rparr>, True))"

fun inspect_fds :: "string \<Rightarrow> fd_look list \<Rightarrow> activity_sample \<Rightarrow> bool \<Rightarrow> bool \<Rightarrow> activity_sample" where
  "inspect_fds dir [] s files sockets = s\<lparr>as_files_known := files, as_sockets_known := sockets\<rparr>"
| "inspect_fds dir (f # fs) s files sockets =
     (case f of
        FdOther \<Rightarrow> inspect_fds dir fs s files sockets
      | FdVnode v \<Rightarrow>
          (case inspect_vnode dir v (s\<lparr>as_open_files := as_open_files s + 1\<rparr>) of
             (s', ok) \<Rightarrow> inspect_fds dir fs s' (files \<and> ok) sockets)
      | FdSocket v \<Rightarrow>
          (case inspect_socket v (s\<lparr>as_sockets := as_sockets s + 1\<rparr>) of
             (s', ok) \<Rightarrow> inspect_fds dir fs s' files (sockets \<and> ok)))"

definition descriptor_activity :: "int \<Rightarrow> string \<Rightarrow> fd_listing \<Rightarrow> activity_sample \<Rightarrow> activity_sample" where
  "descriptor_activity fd_size dir l s =
     (if fl_needed l \<le> 0 then s\<lparr>as_note := ''file and socket descriptors were unavailable''\<rparr>
      else if max_activity_fds < fl_needed l div fd_size
      then s\<lparr>as_note := ''descriptor count exceeded the '' @ show_int max_activity_fds @ ''-entry inspection bound''\<rparr>
      else if \<not> fl_alloc l then s\<lparr>as_note := ''descriptor inspection allocation failed''\<rparr>
      else if fl_listed l \<le> 0 \<or> fl_needed l + 32 * fd_size \<le> fl_listed l
      then s\<lparr>as_note := ''descriptor list changed or became unavailable during inspection''\<rparr>
      else inspect_fds dir (fl_fds l) s True True)"

definition sample_activity ::
  "collector \<Rightarrow> darwin_kernel \<Rightarrow> int \<Rightarrow> activity_look \<Rightarrow> gotime \<Rightarrow> key \<Rightarrow> string \<Rightarrow> string + activity_sample" where
  "sample_activity c k fd_size a taken key dir =
     (case validate_activity_key c k (al_before a) key of
        Some e \<Rightarrow> Inl e
      | None \<Rightarrow>
          let s0 = \<lparr>as_key = key, as_taken = taken, as_cpu_time = 0, as_cpu_known = False, as_disk_read = 0, as_disk_written = 0,
                    as_io_known = False, as_rss = 0, as_open_files = 0, as_writable_files = 0, as_files_known = False,
                    as_sockets = 0, as_connected = 0, as_recv_queue = 0, as_send_queue = 0, as_sockets_known = False, as_note = []\<rparr>;
              s1 = (case al_task a of None \<Rightarrow> s0
                | Some t \<Rightarrow> s0\<lparr>as_cpu_time := sint (tk_user t + tk_system t), as_rss := tk_resident t, as_cpu_known := True\<rparr>);
              s2 = (case al_io a of None \<Rightarrow> s1
                | Some (r, w) \<Rightarrow> s1\<lparr>as_disk_read := r, as_disk_written := w, as_io_known := True\<rparr>);
              s3 = descriptor_activity fd_size dir (al_fds a) s2 in
          (case validate_activity_key c k (al_after a) key of Some e \<Rightarrow> Inl e | None \<Rightarrow> Inr s3))"

section \<open>Who uses a path\<close>

datatype fd_usage = UsageOther | UsagePath string | UsageMeta "64 word" "64 word" | UsageUnread "kinfo option"

text \<open>Each \<open>_gone\<close> answers the query whether the process is still there, at its point.\<close>

record usage_look =
  ul_cwd :: string
  ul_cwd_gone :: "kinfo option"
  ul_needed :: int
  ul_needed_gone :: "kinfo option"
  ul_alloc :: bool
  ul_listed :: int
  ul_listed_gone :: "kinfo option"
  ul_fds :: "fd_usage list"

datatype walk_item = WalkFailed | WalkEntry bool "(64 word \<times> 64 word) option"

type_synonym vnode_identities = "(64 word \<times> 64 word) list"

fun walk_identities :: "nat \<Rightarrow> walk_item list \<Rightarrow> vnode_identities \<Rightarrow> string + vnode_identities" where
  "walk_identities n [] ids = Inr ids"
| "walk_identities n (WalkFailed # is) ids = Inl ''darwin: path usage traversal was incomplete''"
| "walk_identities n (WalkEntry symlink stat # is) ids =
     (if max_usage_entries < Suc n then Inl ''darwin: path usage exceeded the bound on filesystem entries''
      else if symlink then walk_identities (Suc n) is ids
      else (case stat of
        None \<Rightarrow> Inl ''darwin: path usage metadata inspection was incomplete''
      | Some i \<Rightarrow> walk_identities (Suc n) is (List.insert i ids)))"

definition path_vnode_identities :: "walk_item list \<Rightarrow> string + vnode_identities" where
  "path_vnode_identities is = walk_identities 0 is []"

definition same_user_processes :: "collector \<Rightarrow> darwin_kernel \<Rightarrow> kinfo list option \<Rightarrow> string + process list" where
  "same_user_processes c k table =
     (case table of
        None \<Rightarrow> Inl ''darwin: listing processes for path inspection''
      | Some is \<Rightarrow> Inr (sort_key (\<lambda>p. key_uid (proc_key p))
          (filter (\<lambda>p. 0 < pr_pid p \<and> pr_uid p = cl_uid c) (List.map (from_kinfo k) is))))"

definition same_keys :: "process list \<Rightarrow> process list \<Rightarrow> bool" where
  "same_keys a b \<longleftrightarrow> length a = length b \<and> list_all (\<lambda>(p, q). proc_key p = proc_key q) (zip a b)"

definition key_still_present :: "darwin_kernel \<Rightarrow> key \<Rightarrow> kinfo option \<Rightarrow> bool" where
  "key_still_present k key answer = (case answer of None \<Rightarrow> False | Some i \<Rightarrow> proc_key (from_kinfo k i) = key)"

fun scan_vnodes :: "darwin_kernel \<Rightarrow> string \<Rightarrow> key \<Rightarrow> vnode_identities \<Rightarrow> fd_usage list \<Rightarrow> nat \<Rightarrow> nat \<Rightarrow> nat \<times> nat \<times> bool" where
  "scan_vnodes k dir key ids [] m n = (m, n, True)"
| "scan_vnodes k dir key ids (f # fs) m n =
     (case f of
        UsageOther \<Rightarrow> scan_vnodes k dir key ids fs m (Suc n)
      | UsagePath p \<Rightarrow> scan_vnodes k dir key ids fs (if within_repository dir p then Suc m else m) (Suc n)
      | UsageMeta d i \<Rightarrow> scan_vnodes k dir key ids fs (if List.member ids (d, i) then Suc m else m) (Suc n)
      | UsageUnread gone \<Rightarrow>
          if key_still_present k key gone then (m, Suc n, False) else scan_vnodes k dir key ids fs m (Suc n))"

definition path_vnodes :: "darwin_kernel \<Rightarrow> int \<Rightarrow> string \<Rightarrow> key \<Rightarrow> vnode_identities \<Rightarrow> usage_look \<Rightarrow> nat \<times> nat \<times> bool" where
  "path_vnodes k fd_size dir key ids l =
     (if ul_needed l \<le> 0 then (0, 0, \<not> key_still_present k key (ul_needed_gone l) \<or> key_pid key = 0)
      else if max_activity_fds < ul_needed l div fd_size then (0, 0, False)
      else if \<not> ul_alloc l then (0, 0, False)
      else if ul_listed l \<le> 0 \<or> ul_needed l + 32 * fd_size \<le> ul_listed l
      then (0, 0, \<not> key_still_present k key (ul_listed_gone l))
      else scan_vnodes k dir key ids (ul_fds l) 0 0)"

record usage_tally =
  ut_cwd :: nat
  ut_vnodes :: nat
  ut_used :: "(string \<times> key) list"
  ut_fds :: nat

fun usage_loop ::
  "darwin_kernel \<Rightarrow> int \<Rightarrow> (key \<Rightarrow> usage_look) \<Rightarrow> string \<Rightarrow> vnode_identities \<Rightarrow> process list \<Rightarrow> usage_tally \<Rightarrow> string + usage_tally" where
  "usage_loop k fd_size look dir ids [] t = Inr t"
| "usage_loop k fd_size look dir ids (p # ps) t =
     (let key = proc_key p; l = look key in
      if ul_cwd l = [] \<and> pr_status p \<noteq> StatusZombie \<and> key_still_present k key (ul_cwd_gone l)
      then Inl (''darwin: working-directory inspection was incomplete for process '' @ key_uid key)
      else let t1 = (if within_repository dir (ul_cwd l)
                     then t\<lparr>ut_cwd := Suc (ut_cwd t), ut_used := AList.update (key_uid key) key (ut_used t)\<rparr> else t) in
        if pr_status p = StatusZombie then usage_loop k fd_size look dir ids ps t1
        else (case path_vnodes k fd_size dir key ids l of (matched, inspected, ok) \<Rightarrow>
          if max_usage_fds < ut_fds t1 + inspected then Inl ''darwin: path inspection exceeded the bound on descriptors''
          else if \<not> ok then Inl (''darwin: vnode inspection was incomplete for process '' @ key_uid key)
          else usage_loop k fd_size look dir ids ps
            (if 0 < matched
             then t1\<lparr>ut_fds := ut_fds t1 + inspected, ut_vnodes := ut_vnodes t1 + matched,
                     ut_used := AList.update (key_uid key) key (ut_used t1)\<rparr>
             else t1\<lparr>ut_fds := ut_fds t1 + inspected\<rparr>)))"

definition inspect_path_usage ::
  "collector \<Rightarrow> darwin_kernel \<Rightarrow> int \<Rightarrow> (key \<Rightarrow> usage_look) \<Rightarrow> string \<Rightarrow> walk_item list \<Rightarrow> kinfo list option \<Rightarrow> kinfo list option
     \<Rightarrow> string + path_usage" where
  "inspect_path_usage c k fd_size look dir walk before after =
     (case path_vnode_identities walk of
        Inl e \<Rightarrow> Inl e
      | Inr ids \<Rightarrow>
          (case same_user_processes c k before of
             Inl e \<Rightarrow> Inl e
           | Inr ps \<Rightarrow>
               if max_usage_processes < length ps then Inl ''darwin: path inspection exceeded the bound on same-user processes''
               else (case usage_loop k fd_size look dir ids ps \<lparr>ut_cwd = 0, ut_vnodes = 0, ut_used = [], ut_fds = 0\<rparr> of
                 Inl e \<Rightarrow> Inl e
               | Inr t \<Rightarrow>
                   (case same_user_processes c k after of
                      Inl e \<Rightarrow> Inl e
                    | Inr qs \<Rightarrow>
                        if \<not> same_keys ps qs then Inl ''darwin: process table changed during path inspection''
                        else Inr \<lparr>us_complete = True, us_inspected = int (length ps), us_cwd = int (ut_cwd t),
                          us_vnodes = int (ut_vnodes t), us_keys = sort_key key_uid (List.map snd (ut_used t))\<rparr>))))"

section \<open>What a complete inspection says\<close>

definition fds_listed :: "int \<Rightarrow> usage_look \<Rightarrow> bool" where
  "fds_listed fd_size l \<longleftrightarrow> 0 < ul_needed l \<and> ul_needed l div fd_size \<le> max_activity_fds \<and> ul_alloc l \<and>
     0 < ul_listed l \<and> ul_listed l < ul_needed l + 32 * fd_size"

definition holds_path :: "string \<Rightarrow> vnode_identities \<Rightarrow> fd_usage \<Rightarrow> bool" where
  "holds_path dir ids f =
     (case f of UsagePath p \<Rightarrow> within_repository dir p | UsageMeta d i \<Rightarrow> (d, i) \<in> set ids | _ \<Rightarrow> False)"

text \<open>A process uses a path: it stands in it, or one of its descriptors does.\<close>

definition uses_path :: "int \<Rightarrow> (key \<Rightarrow> usage_look) \<Rightarrow> string \<Rightarrow> vnode_identities \<Rightarrow> process \<Rightarrow> bool" where
  "uses_path fd_size look dir ids p \<longleftrightarrow>
     (let l = look (proc_key p) in
      within_repository dir (ul_cwd l) \<or>
      pr_status p \<noteq> StatusZombie \<and> fds_listed fd_size l \<and> (\<exists>f\<in>set (ul_fds l). holds_path dir ids f))"

text \<open>What could not be read of a process was not there any more.\<close>

definition accounted :: "darwin_kernel \<Rightarrow> int \<Rightarrow> (key \<Rightarrow> usage_look) \<Rightarrow> process \<Rightarrow> bool" where
  "accounted k fd_size look p \<longleftrightarrow>
     (let key = proc_key p; l = look key in
      pr_status p = StatusZombie \<or>
      (ul_cwd l = [] \<longrightarrow> \<not> key_still_present k key (ul_cwd_gone l)) \<and>
      (fds_listed fd_size l \<and> (\<forall>gone. UsageUnread gone \<in> set (ul_fds l) \<longrightarrow> \<not> key_still_present k key gone) \<or>
       \<not> key_still_present k key (ul_needed_gone l) \<or> \<not> key_still_present k key (ul_listed_gone l)))"

lemma scan_vnodes_ok:
  assumes "scan_vnodes k dir key ids fs m n = (m', n', True)"
  shows "(m < m' \<longleftrightarrow> (\<exists>f\<in>set fs. holds_path dir ids f)) \<and> m \<le> m' \<and>
    (\<forall>gone. UsageUnread gone \<in> set fs \<longrightarrow> \<not> key_still_present k key gone)"
  using assms
proof (induction fs arbitrary: m n)
  case (Cons f fs)
  show ?case
  proof (cases f)
    case UsageOther
    with Cons.prems Cons.IH [of m "Suc n"] show ?thesis by (simp add: holds_path_def)
  next
    case (UsagePath p)
    with Cons.prems Cons.IH [of "if within_repository dir p then Suc m else m" "Suc n"]
    show ?thesis by (auto simp: holds_path_def split: if_splits)
  next
    case (UsageMeta d i)
    with Cons.prems Cons.IH [of "if List.member ids (d, i) then Suc m else m" "Suc n"]
    show ?thesis by (auto simp: holds_path_def List.member_iff split: if_splits)
  next
    case (UsageUnread gone)
    with Cons.prems Cons.IH [of m "Suc n"] show ?thesis by (auto simp: holds_path_def split: if_splits)
  qed
qed simp

lemma path_vnodes_ok:
  assumes "path_vnodes k fd_size dir key ids l = (m, n, True)" "0 < key_pid key"
  shows "0 < m \<longleftrightarrow> fds_listed fd_size l \<and> (\<exists>f\<in>set (ul_fds l). holds_path dir ids f)"
    and "fds_listed fd_size l \<and> (\<forall>gone. UsageUnread gone \<in> set (ul_fds l) \<longrightarrow> \<not> key_still_present k key gone) \<or>
      \<not> key_still_present k key (ul_needed_gone l) \<or> \<not> key_still_present k key (ul_listed_gone l)"
proof -
  have "(0 < m \<longleftrightarrow> fds_listed fd_size l \<and> (\<exists>f\<in>set (ul_fds l). holds_path dir ids f)) \<and>
    (fds_listed fd_size l \<and> (\<forall>gone. UsageUnread gone \<in> set (ul_fds l) \<longrightarrow> \<not> key_still_present k key gone) \<or>
      \<not> key_still_present k key (ul_needed_gone l) \<or> \<not> key_still_present k key (ul_listed_gone l))"
  proof (cases "fds_listed fd_size l")
    case True
    then have "scan_vnodes k dir key ids (ul_fds l) 0 0 = (m, n, True)"
      using assms(1) by (simp add: path_vnodes_def fds_listed_def)
    from scan_vnodes_ok [OF this] True show ?thesis by simp
  next
    case False
    then show ?thesis using assms by (auto simp: path_vnodes_def fds_listed_def split: if_splits)
  qed
  then show "0 < m \<longleftrightarrow> fds_listed fd_size l \<and> (\<exists>f\<in>set (ul_fds l). holds_path dir ids f)"
    "fds_listed fd_size l \<and> (\<forall>gone. UsageUnread gone \<in> set (ul_fds l) \<longrightarrow> \<not> key_still_present k key gone) \<or>
      \<not> key_still_present k key (ul_needed_gone l) \<or> \<not> key_still_present k key (ul_listed_gone l)" by blast+
qed

definition well_keyed :: "(string \<times> key) list \<Rightarrow> bool" where
  "well_keyed xs \<longleftrightarrow> (\<forall>(s, key)\<in>set xs. s = key_uid key)"

lemma well_keyed_update:
  assumes "well_keyed xs"
  shows "well_keyed (AList.update (key_uid key) key xs) \<and> snd ` set (AList.update (key_uid key) key xs) = insert key (snd ` set xs)"
  using assms
proof (induction xs)
  case (Cons x xs)
  obtain s j where x: "x = (s, j)" by (cases x)
  with Cons.prems have s: "s = key_uid j" "well_keyed xs" by (auto simp: well_keyed_def)
  with Cons.IH x show ?case by (auto simp: well_keyed_def key_uid_inject)
qed (simp add: well_keyed_def)

text \<open>One turn of the loop.\<close>

lemma usage_turn:
  assumes "usage_loop k fd_size look dir ids (p # ps) t = Inr t'" "0 < pr_pid p" "well_keyed (ut_used t)"
  obtains t1 where "usage_loop k fd_size look dir ids ps t1 = Inr t'" "well_keyed (ut_used t1)"
    "snd ` set (ut_used t1) = snd ` set (ut_used t) \<union> (if uses_path fd_size look dir ids p then {proc_key p} else {})"
    "accounted k fd_size look p"
proof -
  let ?key = "proc_key p" and ?l = "look (proc_key p)"
  define t1 where "t1 = (if within_repository dir (ul_cwd ?l)
    then t\<lparr>ut_cwd := Suc (ut_cwd t), ut_used := AList.update (key_uid ?key) ?key (ut_used t)\<rparr> else t)"
  have u1: "well_keyed (ut_used t1)"
    "snd ` set (ut_used t1) = snd ` set (ut_used t) \<union> (if within_repository dir (ul_cwd ?l) then {?key} else {})"
    using well_keyed_update [OF assms(3), of ?key] assms(3) by (auto simp: t1_def)
  have cwd: "\<not> (ul_cwd ?l = [] \<and> pr_status p \<noteq> StatusZombie \<and> key_still_present k ?key (ul_cwd_gone ?l))"
    using assms(1) by (auto simp: Let_def)
  show ?thesis
  proof (cases "pr_status p = StatusZombie")
    case True
    show ?thesis
    proof (rule that [OF _ u1(1)])
      show "usage_loop k fd_size look dir ids ps t1 = Inr t'" using assms(1) cwd True by (simp add: t1_def Let_def)
      show "snd ` set (ut_used t1) = snd ` set (ut_used t) \<union> (if uses_path fd_size look dir ids p then {?key} else {})"
        using u1(2) True by (simp add: uses_path_def Let_def)
      show "accounted k fd_size look p" using True by (simp add: accounted_def Let_def)
    qed
  next
    case False
    obtain m n ok where v: "path_vnodes k fd_size dir ?key ids ?l = (m, n, ok)" by (cases "path_vnodes k fd_size dir ?key ids ?l")
    define t2 where "t2 = (if 0 < m
      then t1\<lparr>ut_fds := ut_fds t1 + n, ut_vnodes := ut_vnodes t1 + m, ut_used := AList.update (key_uid ?key) ?key (ut_used t1)\<rparr>
      else t1\<lparr>ut_fds := ut_fds t1 + n\<rparr>)"
    have go: "ok \<and> usage_loop k fd_size look dir ids ps t2 = Inr t'"
      using assms(1) cwd False v
      by (simp add: Let_def t1_def [symmetric] t2_def split: if_split_asm)
    have pid: "0 < key_pid ?key" using assms(2) by simp
    note vn = path_vnodes_ok [OF v [unfolded go [THEN conjunct1, THEN eqTrueI]] pid]
    have u2: "well_keyed (ut_used t2)" "snd ` set (ut_used t2) = snd ` set (ut_used t1) \<union> (if 0 < m then {?key} else {})"
      using well_keyed_update [OF u1(1), of ?key] u1(1) by (auto simp: t2_def)
    show ?thesis
    proof (rule that [OF _ u2(1)])
      show "usage_loop k fd_size look dir ids ps t2 = Inr t'" using go by blast
      show "snd ` set (ut_used t2) = snd ` set (ut_used t) \<union> (if uses_path fd_size look dir ids p then {?key} else {})"
        unfolding u2(2) u1(2) using vn(1) False by (auto simp: uses_path_def Let_def)
      show "accounted k fd_size look p"
        using vn(2) cwd False by (simp add: accounted_def Let_def)
    qed
  qed
qed

lemma usage_loop_ok:
  assumes "usage_loop k fd_size look dir ids ps t = Inr t'" "\<forall>p\<in>set ps. 0 < pr_pid p" "well_keyed (ut_used t)"
  shows "snd ` set (ut_used t') = snd ` set (ut_used t) \<union> proc_key ` {p \<in> set ps. uses_path fd_size look dir ids p} \<and>
    (\<forall>p\<in>set ps. accounted k fd_size look p)"
  using assms
proof (induction ps arbitrary: t)
  case (Cons p ps)
  from Cons.prems(2) have pid: "0 < pr_pid p" "\<forall>p\<in>set ps. 0 < pr_pid p" by simp_all
  from usage_turn [OF Cons.prems(1) pid(1) Cons.prems(3)] obtain t1 where
    t1: "usage_loop k fd_size look dir ids ps t1 = Inr t'" "well_keyed (ut_used t1)"
      "snd ` set (ut_used t1) = snd ` set (ut_used t) \<union> (if uses_path fd_size look dir ids p then {proc_key p} else {})"
      "accounted k fd_size look p" by blast
  from Cons.IH [OF t1(1) pid(2) t1(2)] t1(3,4) show ?case by auto
qed simp

lemma same_user_own:
  "same_user_processes c k table = Inr ps \<Longrightarrow>
     (\<exists>is. table = Some is \<and> set ps = {p \<in> from_kinfo k ` set is. 0 < pr_pid p \<and> pr_uid p = cl_uid c})"
  by (auto simp: same_user_processes_def split: option.splits)

lemma same_keys_map: "same_keys a b \<Longrightarrow> List.map proc_key a = List.map proc_key b"
  by (auto simp: same_keys_def list_all_length intro!: nth_equalityI)

text \<open>C17: An inspection that succeeds is complete: it names exactly the user's processes that stand in the directory or
  hold a file of it; whatever could not be read of a process (a zombie, which holds nothing, apart) was answered by its absence; and the process table
  holds the same processes of the user before and after.\<close>

theorem path_usage_is_exact:
  assumes "inspect_path_usage c k fd_size look dir walk (Some before) (Some after) = Inr u"
  shows "us_complete u \<and> (\<exists>ids. path_vnode_identities walk = Inr ids \<and>
     (let own = (\<lambda>table. {p \<in> from_kinfo k ` set table. 0 < pr_pid p \<and> pr_uid p = cl_uid c}) in
      set (us_keys u) = proc_key ` {p \<in> own before. uses_path fd_size look dir ids p} \<and>
      (\<forall>p\<in>own before. accounted k fd_size look p) \<and> proc_key ` own before = proc_key ` own after))"
proof -
  from assms obtain ids ps t qs where w: "path_vnode_identities walk = Inr ids"
    and ps: "same_user_processes c k (Some before) = Inr ps" and qs: "same_user_processes c k (Some after) = Inr qs"
    and t: "usage_loop k fd_size look dir ids ps \<lparr>ut_cwd = 0, ut_vnodes = 0, ut_used = [], ut_fds = 0\<rparr> = Inr t"
    and same: "same_keys ps qs" and u: "us_complete u" "us_keys u = sort_key key_uid (List.map snd (ut_used t))"
    by (auto simp: inspect_path_usage_def split: sum.splits if_splits)
  from same_user_own [OF ps] have own: "set ps = {p \<in> from_kinfo k ` set before. 0 < pr_pid p \<and> pr_uid p = cl_uid c}" by simp
  from same_user_own [OF qs] have own': "set qs = {p \<in> from_kinfo k ` set after. 0 < pr_pid p \<and> pr_uid p = cl_uid c}" by simp
  have "\<forall>p\<in>set ps. 0 < pr_pid p" unfolding own by simp
  from usage_loop_ok [OF t this] have r: "snd ` set (ut_used t) = proc_key ` {p \<in> set ps. uses_path fd_size look dir ids p}"
    "\<forall>p\<in>set ps. accounted k fd_size look p" by (simp_all add: well_keyed_def)
  have "proc_key ` set ps = proc_key ` set qs" using same_keys_map [OF same] by (metis set_map)
  with r u w show ?thesis unfolding Let_def own [symmetric] own' [symmetric] by auto
qed

text \<open>One process of the user that stands below the directory, with one of its files open.\<close>

definition sample_darwin :: darwin_kernel where
  "sample_darwin = \<lparr>kn_devname = (\<lambda>_. None), kn_path = (\<lambda>_. []), kn_procargs = (\<lambda>_. None), kn_sid = (\<lambda>_. None),
     kn_cwd = (\<lambda>_. []), kn_task = (\<lambda>_. None)\<rparr>"

definition sample_collector :: collector where
  "sample_collector = \<lparr>cl_uid = 501, cl_env_allow = []\<rparr>"

definition sample_kinfo :: kinfo where
  "sample_kinfo = \<lparr>ki_pid = 7, ki_ppid = 1, ki_pgid = 7, ki_uid = 501, ki_sec = 0, ki_usec = 0, ki_comm = ''sh'', ki_stat = 3, ki_tdev = 0\<rparr>"

definition sample_usage_look :: usage_look where
  "sample_usage_look = \<lparr>ul_cwd = ''/r/s'', ul_cwd_gone = None, ul_needed = 8, ul_needed_gone = None, ul_alloc = True, ul_listed = 8,
     ul_listed_gone = None, ul_fds = [UsageMeta 1 7]\<rparr>"

definition sample_use :: path_usage where
  "sample_use = \<lparr>us_complete = True, us_inspected = 1, us_cwd = 1, us_vnodes = 1, us_keys = [new_key 7 (time_unix 0)]\<rparr>"

lemma sample_own: "same_user_processes sample_collector sample_darwin (Some [sample_kinfo]) = Inr [from_kinfo sample_darwin sample_kinfo]"
  by (simp add: same_user_processes_def from_kinfo_def sample_kinfo_def sample_collector_def)

lemma sample_inspected:
  "inspect_path_usage sample_collector sample_darwin 8 (\<lambda>_. sample_usage_look) ''/r'' [WalkEntry False (Some (1, 7))]
     (Some [sample_kinfo]) (Some [sample_kinfo]) = Inr sample_use"
proof -
  let ?p = "from_kinfo sample_darwin sample_kinfo"
  have p: "proc_key ?p = new_key 7 (time_unix 0)" "pr_status ?p = StatusSleeping"
    by (simp_all add: from_kinfo_def sample_kinfo_def proc_key_def status_of_def)
  have cwd: "within_repository ''/r'' ''/r/s''" by code_simp
  have ids: "path_vnode_identities [WalkEntry False (Some (1, 7))] = Inr [(1, 7)]"
    by (simp add: path_vnode_identities_def max_usage_entries_def)
  have fds: "path_vnodes sample_darwin 8 ''/r'' (new_key 7 (time_unix 0)) [(1, 7)] sample_usage_look = (1, 1, True)"
    by (simp add: path_vnodes_def sample_usage_look_def max_activity_fds_def)
  have "usage_loop sample_darwin 8 (\<lambda>_. sample_usage_look) ''/r'' [(1, 7)] [?p] \<lparr>ut_cwd = 0, ut_vnodes = 0, ut_used = [], ut_fds = 0\<rparr> =
    Inr \<lparr>ut_cwd = 1, ut_vnodes = 1, ut_used = [(key_uid (new_key 7 (time_unix 0)), new_key 7 (time_unix 0))], ut_fds = 1\<rparr>"
    using cwd fds by (simp add: p Let_def max_usage_fds_def) (simp add: sample_usage_look_def)
  then show ?thesis
    by (simp add: inspect_path_usage_def ids sample_own max_usage_processes_def same_keys_def sample_use_def)
qed

theorem path_usage_is_exact_witness:
  "us_complete sample_use \<and> set (us_keys sample_use) = {new_key 7 (time_unix 0)} \<and>
     (\<exists>ids. path_vnode_identities [WalkEntry False (Some (1, 7))] = Inr ids)"
  using path_usage_is_exact [OF sample_inspected] by (auto simp: sample_use_def)

end
