(* ===== verification/Worktree_Finalizer.thy ===== *)
theory Worktree_Finalizer
  imports Worktree_Files
begin

text \<open>
  The operator's foreground removal (\<open>internal/worktree/finalizer.go\<close>): the directory is opened
  component by component and held, the approved links are unlinked through the held descriptor,
  Git removes the worktree without force, and on a failure the links are put back. The held
  directory is the state; which calls of the operating system succeed is the record
  \<open>finalizer_os\<close>, and what a run of Git leaves in the directory is a parameter.
\<close>

datatype dir_item = LinkTo string | OtherItem

type_synonym held_dir = "string \<Rightarrow> dir_item option"

record finalizer_os =
  fz_opens :: "string list \<Rightarrow> bool"
  fz_fstat :: "(64 word \<times> 64 word) option"
  fz_unlinks :: "string \<Rightarrow> bool"
  fz_symlinks :: "string \<Rightarrow> bool"
  fz_stats :: "string \<Rightarrow> bool"
  fz_readlinks :: "string \<Rightarrow> bool"

definition max_link_text :: nat where "max_link_text = 4096"

section \<open>Opening the directory\<close>

fun open_chain :: "finalizer_os \<Rightarrow> string list \<Rightarrow> string list \<Rightarrow> detail option" where
  "open_chain os opened [] = None"
| "open_chain os opened (c # cs) =
     (if c = [] \<or> c = ''.'' \<or> c = ''..'' then Some (Text ''worktree: unsafe finalizer path component'')
      else if \<not> fz_opens os (opened @ [c]) then Some (Text ''worktree: opening finalizer path component'')
      else open_chain os (opened @ [c]) cs)"

definition open_exact_directory :: "finalizer_os \<Rightarrow> host \<Rightarrow> string \<Rightarrow> file_identity \<Rightarrow> detail option" where
  "open_exact_directory os h path expected =
     (if path = [] \<or> fi_path expected \<noteq> path \<or> \<not> is_abs path \<or> path_clean path \<noteq> path
      then Some (Text ''worktree: finalizer path is not exact and canonical'')
      else if \<not> fz_opens os [] then Some (Text ''worktree: opening filesystem root'')
      else (case open_chain os [] (split_on (CHR ''/'') (drop 1 path)) of
        Some e \<Rightarrow> Some e
      | None \<Rightarrow>
          if identify h path \<noteq> Inr expected then Some (Text ''worktree: finalizer path identity changed'')
          else if fz_fstat os \<noteq> Some (fi_device expected, fi_inode expected)
          then Some (Text ''worktree: finalizer descriptor identity changed'') else None))"

section \<open>Unlinking and restoring\<close>

text \<open>
  The errors that were met, and the directory; an entry that is there is never replaced: when it
  cannot be looked at, creating the link over it fails.
\<close>

fun restore_links :: "finalizer_os \<Rightarrow> approved_link list \<Rightarrow> held_dir \<Rightarrow> detail list \<times> held_dir" where
  "restore_links os [] d = ([], d)"
| "restore_links os (l # ls) d =
     (if d (al_name l) \<noteq> None \<and> fz_stats os (al_name l)
      then (let (es, d') = restore_links os ls d in (Fmt ''approved %s destination was recreated'' [AStr (al_name l)] # es, d'))
      else if d (al_name l) \<noteq> None \<or> \<not> fz_symlinks os (al_name l)
      then (let (es, d') = restore_links os ls d in (Fmt ''restoring approved %s link'' [AStr (al_name l)] # es, d'))
      else restore_links os ls (d(al_name l \<mapsto> LinkTo (al_text l))))"

text \<open>
  Why the unlinking stopped, what was unlinked, and the directory; the errors of putting links back,
  which the code joins to the reason, are left out.
\<close>

fun unlink_links :: "finalizer_os \<Rightarrow> approved_link list \<Rightarrow> approved_link list \<Rightarrow> held_dir \<Rightarrow> detail option \<times> approved_link list \<times> held_dir" where
  "unlink_links os [] removed d = (None, removed, d)"
| "unlink_links os (l # ls) removed d =
     (case d (al_name l) of
        Some (LinkTo text) \<Rightarrow>
          if \<not> fz_stats os (al_name l)
          then (Some (Text ''worktree: approved link changed before unlink''), removed, snd (restore_links os removed d))
          else if \<not> fz_readlinks os (al_name l) \<or> take max_link_text text \<noteq> al_text l
          then (Some (Text ''worktree: approved link target changed before unlink''), removed, snd (restore_links os removed d))
          else if \<not> fz_unlinks os (al_name l)
          then (Some (Text ''worktree: unlink''), removed, snd (restore_links os removed d))
          else unlink_links os ls (removed @ [l]) (d(al_name l := None))
      | _ \<Rightarrow> (Some (Text ''worktree: approved link changed before unlink''), removed, snd (restore_links os removed d)))"

section \<open>The whole\<close>

text \<open>\<open>leaves\<close> is what a run of Git makes of the directory; no command runs on an executable that changed.\<close>

definition finalize ::
  "finalizer_os \<Rightarrow> host \<Rightarrow> git_adapter \<Rightarrow> (held_dir \<Rightarrow> held_dir) \<Rightarrow> string \<Rightarrow> string \<Rightarrow> git_identity \<Rightarrow> file_identity
     \<Rightarrow> approved_link list \<Rightarrow> held_dir \<Rightarrow> detail option \<times> held_dir" where
  "finalize os h g leaves repository path expected_git expected_path links d =
     (if ga_identity g \<noteq> expected_git
      then (Some (Text ''worktree: foreground Git identity differs from the purge plan''), d)
      else (case verify_identity h g of
        Some e \<Rightarrow> (Some (git_error_text e), d)
      | None \<Rightarrow>
          (case validate_approved_links h path links of
             Some e \<Rightarrow> (Some e, d)
           | None \<Rightarrow>
               (case open_exact_directory os h path expected_path of
                  Some e \<Rightarrow> (Some e, d)
                | None \<Rightarrow>
                    (case unlink_links os links [] d of
                       (Some e, removed, d') \<Rightarrow> (Some e, d')
                     | (None, removed, d') \<Rightarrow>
                         (case git_run h g repository [''worktree'', ''remove'', path] of
                            Inl e \<Rightarrow> (Some (git_error_text e), snd (restore_links os removed (leaves d')))
                          | Inr out \<Rightarrow> (None, leaves d')))))))"

section \<open>Nothing is lost\<close>

definition link_names :: "approved_link list \<Rightarrow> string set" where
  "link_names ls = al_name ` set ls"

text \<open>A directory with its missing links put back from another one.\<close>

definition with_links :: "string set \<Rightarrow> held_dir \<Rightarrow> held_dir \<Rightarrow> held_dir" where
  "with_links names old d = (\<lambda>n. case d n of Some x \<Rightarrow> Some x | None \<Rightarrow> if n \<in> names then old n else None)"

definition without :: "string set \<Rightarrow> held_dir \<Rightarrow> held_dir" where
  "without names d = (\<lambda>n. if n \<in> names then None else d n)"

lemma restore_links_back:
  assumes "\<forall>l\<in>set ls. old (al_name l) = Some (LinkTo (al_text l)) \<and> fz_symlinks os (al_name l)"
  shows "snd (restore_links os ls d) = with_links (link_names ls) old d"
  using assms
proof (induction ls arbitrary: d)
  case (Cons l ls)
  show ?case
  proof (cases "d (al_name l)")
    case None
    with Cons show ?thesis by (auto simp: with_links_def link_names_def fun_eq_iff split: option.split)
  next
    case (Some x)
    then have "snd (restore_links os (l # ls) d) = snd (restore_links os ls d)" by (simp add: Let_def split_beta)
    also have "\<dots> = with_links (link_names ls) old d" using Cons by simp
    also have "\<dots> = with_links (link_names (l # ls)) old d"
      using Some by (auto simp: with_links_def link_names_def fun_eq_iff split: option.split)
    finally show ?thesis .
  qed
qed (auto simp: with_links_def link_names_def fun_eq_iff split: option.split)

text \<open>While links are being unlinked, the directory is the old one without those that were.\<close>

lemma unlink_links_cases:
  assumes "unlink_links os ls removed d = (e, removed', d')"
    and "d = without (link_names removed) old" "\<forall>l\<in>set removed. old (al_name l) = Some (LinkTo (al_text l))"
    and "\<forall>l\<in>set (removed @ ls). length (al_text l) < max_link_text \<and> fz_symlinks os (al_name l)"
  shows "if e = None then d' = without (link_names removed') old \<and> removed' = removed @ ls \<and>
      (\<forall>l\<in>set removed'. old (al_name l) = Some (LinkTo (al_text l))) else d' = old"
  using assms
proof (induction ls arbitrary: removed d)
  case (Cons l ls)
  have undone: "snd (restore_links os removed d) = old"
  proof -
    have "snd (restore_links os removed d) = with_links (link_names removed) old d"
      using Cons.prems(3,4) by (intro restore_links_back) auto
    then show ?thesis unfolding Cons.prems(2) by (auto simp: with_links_def without_def fun_eq_iff split: option.split)
  qed
  show ?case
  proof (cases "\<exists>text. d (al_name l) = Some (LinkTo text) \<and> take max_link_text text = al_text l \<and> fz_unlinks os (al_name l) \<and>
      fz_stats os (al_name l) \<and> fz_readlinks os (al_name l)")
    case True
    then obtain tx where t: "d (al_name l) = Some (LinkTo tx)" "take max_link_text tx = al_text l" "fz_unlinks os (al_name l)"
      "fz_stats os (al_name l)" "fz_readlinks os (al_name l)" by blast
    have "length (al_text l) < max_link_text" using Cons.prems(4) by simp
    with t(2) have tx: "tx = al_text l" by (metis length_take min_def nat_less_le not_less take_all)
    have old: "old (al_name l) = Some (LinkTo (al_text l))"
      using t(1) unfolding Cons.prems(2) by (simp add: without_def tx split: if_splits)
    have d: "d(al_name l := None) = without (link_names (removed @ [l])) old"
      unfolding Cons.prems(2) by (auto simp: without_def link_names_def fun_eq_iff)
    have run: "unlink_links os ls (removed @ [l]) (d(al_name l := None)) = (e, removed', d')"
      using Cons.prems(1) t by simp
    have "\<forall>x\<in>set (removed @ [l]). old (al_name x) = Some (LinkTo (al_text x))" using Cons.prems(3) old by simp
    from Cons.IH [OF run d this] Cons.prems(4) show ?thesis by simp
  next
    case False
    then have "e \<noteq> None \<and> d' = snd (restore_links os removed d)"
      using Cons.prems(1) by (auto split: option.splits dir_item.splits if_splits)
    with undone show ?thesis by auto
  qed
qed simp

text \<open>C14: A foreground removal that fails loses nothing, as long as the system can create the links it unlinked: the
  directory is the one it was, or, when Git ran, what Git left of it with every approved link that is missing put
  back as it was.\<close>

theorem failed_finalization_restores:
  assumes "finalize os h g leaves repository path expected_git expected_path links d = (Some e, d')"
    and "\<forall>l\<in>set links. length (al_text l) < 4096 \<and> fz_symlinks os (al_name l)"
  shows "d' = d \<or> d' = with_links (link_names links) d (leaves (without (link_names links) d))"
proof -
  obtain u removed d1 where u: "unlink_links os links [] d = (u, removed, d1)" by (cases "unlink_links os links [] d")
  have "d = without (link_names []) d" by (simp add: link_names_def without_def)
  from unlink_links_cases [OF u this] assms(2)
  have c: "if u = None then d1 = without (link_names removed) d \<and> removed = links \<and>
      (\<forall>l\<in>set removed. d (al_name l) = Some (LinkTo (al_text l))) else d1 = d" by (simp add: max_link_text_def)
  from assms(1) u consider "d' = d" | "u \<noteq> None" "d' = d1" | "u = None" "d' = snd (restore_links os removed (leaves d1))"
    by (auto simp: finalize_def split: if_splits option.splits sum.splits)
  then show ?thesis
  proof cases
    case 3
    with c assms(2) have "d' = with_links (link_names links) d (leaves d1)"
      by (simp add: restore_links_back)
    with 3 c show ?thesis by simp
  qed (use c in auto)
qed

text \<open>A checkout at \<open>/w\<close> whose \<open>.env\<close> points at the primary's, on a machine whose Git refuses the removal.\<close>

definition sample_node :: "string \<Rightarrow> (file_kind \<times> 64 word) option" where
  "sample_node = map_of [(''/w'', (KindDirectory, 2)), (''/w/.env'', (KindSymlink, 4)), (''/p/.env'', (KindRegular, 3)), (''/git'', (KindRegular, 5))]"

definition sample_machine :: host where
  "sample_machine = \<lparr>ho_lstat = (\<lambda>p. case sample_node p of None \<Rightarrow> NoEntry
       | Some (k, i) \<Rightarrow> Found \<lparr>in_kind = k, in_device = 1, in_inode = i, in_size = 0, in_mtime = 0\<rparr>),
     ho_eval = Some, ho_readlink = (\<lambda>_. Some ''/p/.env''), ho_readdir = (\<lambda>_. None), ho_read = (\<lambda>_. None), ho_tree = (\<lambda>_. None),
     ho_exec = (\<lambda>_. \<lparr>eo_context = None, eo_stdout = [], eo_stderr = [], eo_failure = Some (ExitedWith 128)\<rparr>),
     ho_usage = (\<lambda>_. Inl ContextCanceled), ho_context = (\<lambda>_. None)\<rparr>"

definition sample_identity :: "string \<Rightarrow> 64 word \<Rightarrow> file_identity" where
  "sample_identity p i = \<lparr>fi_path = p, fi_device = 1, fi_inode = i, fi_size = 0, fi_mtime = 0\<rparr>"

definition sample_adapter_git :: git_adapter where
  "sample_adapter_git = \<lparr>ga_path = ''/git'', ga_exec_path = ''/git'', ga_identity = \<lparr>gi_file = sample_identity ''/git'' 5, gi_digest = []\<rparr>,
     ga_exec_identity = sample_identity ''/git'' 5, ga_max_bytes = 10\<rparr>"

definition sample_env_link :: approved_link where
  "sample_env_link = \<lparr>al_name = ''.env'', al_text = ''/p/.env'', al_target = sample_identity ''/p/.env'' 3\<rparr>"

definition sample_calls :: finalizer_os where
  "sample_calls = \<lparr>fz_opens = (\<lambda>_. True), fz_fstat = Some (1, 2), fz_unlinks = (\<lambda>_. True), fz_symlinks = (\<lambda>_. True),
     fz_stats = (\<lambda>_. True), fz_readlinks = (\<lambda>_. True)\<rparr>"

definition sample_held :: held_dir where
  "sample_held = [''.env'' \<mapsto> LinkTo ''/p/.env'', ''f'' \<mapsto> OtherItem]"

definition sample_refusal :: detail where
  "sample_refusal = Fmt ''worktree: Git command exited %d'' [AInt 128]"

lemma sample_finalizes:
  "finalize sample_calls sample_machine sample_adapter_git (\<lambda>d. d) ''/p'' ''/w'' (ga_identity sample_adapter_git)
     (sample_identity ''/w'' 2) [sample_env_link] sample_held = (Some sample_refusal, sample_held)"
proof -
  have git: "verify_identity sample_machine sample_adapter_git = None" by code_simp
  have links: "validate_approved_links sample_machine ''/w'' [sample_env_link] = None" by code_simp
  have opened: "open_exact_directory sample_calls sample_machine ''/w'' (sample_identity ''/w'' 2) = None" by code_simp
  have run: "git_run sample_machine sample_adapter_git ''/p'' [''worktree'', ''remove'', ''/w''] = Inl (inspection_failed sample_refusal)"
    using git by (simp add: git_run_def outcome_of_def buffer_all_def sample_machine_def sample_refusal_def)
  have "unlink_links sample_calls [sample_env_link] [] sample_held = (None, [sample_env_link], sample_held(''.env'' := None))"
    by (simp add: sample_env_link_def sample_held_def sample_calls_def max_link_text_def)
  moreover have "snd (restore_links sample_calls [sample_env_link] (sample_held(''.env'' := None))) = sample_held"
    by (simp add: sample_env_link_def sample_held_def sample_calls_def fun_eq_iff)
  ultimately show ?thesis
    using git links opened run by (simp add: finalize_def inspection_failed_def)
qed

theorem failed_finalization_restores_witness:
  "sample_held = with_links {''.env''} sample_held (without {''.env''} sample_held) \<and> sample_held ''.env'' = Some (LinkTo ''/p/.env'') \<and>
     (\<exists>e. finalize sample_calls sample_machine sample_adapter_git (\<lambda>d. d) ''/p'' ''/w'' (ga_identity sample_adapter_git)
       (sample_identity ''/w'' 2) [sample_env_link] sample_held = (Some e, sample_held))"
proof -
  have "\<forall>l\<in>set [sample_env_link]. length (al_text l) < 4096 \<and> fz_symlinks sample_calls (al_name l)"
    by (simp add: sample_env_link_def sample_calls_def)
  from failed_finalization_restores [OF sample_finalizes this]
  have "sample_held = sample_held \<or> sample_held = with_links {''.env''} sample_held (without {''.env''} sample_held)"
    by (simp add: link_names_def sample_env_link_def)
  moreover have "sample_held = with_links {''.env''} sample_held (without {''.env''} sample_held)"
    by (auto simp: with_links_def without_def fun_eq_iff split: option.split)
  ultimately show ?thesis using sample_finalizes by (auto simp: sample_held_def)
qed

end
