(* ===== verification/Git_Snapshot.thy ===== *)
theory Git_Snapshot
  imports Worktree_Git Path_Laws
begin

text \<open>
  Binding the Git executable (\<open>internal/worktree\<close>: \<open>git.go\<close>'s \<open>NewGit\<close>, \<open>git_snapshot.go\<close>): the
  executable is found, identified before and after it is read, and, when any directory on its way
  can be written by the user, copied into a private directory under its digest, which then holds
  nothing else. The private directory is the state; the answers of the operating system are the
  record \<open>git_setup\<close>. Climbing the directories is a loop that need not end: a partial function.
\<close>

definition max_git_executable :: int where "max_git_executable = 128 * 2 ^ 20"

text \<open>
  An entry of the private directory: a regular file with its content and whether it is writable, a
  symbolic link or directory, which is never touched, or another kind of file, which is only removed.
\<close>

datatype snap_item = SnapFile string bool | SnapUnsafe | SnapSpecial

type_synonym snap_dir = "(string \<times> snap_item) list"

record git_setup =
  gu_lookup :: "string option"
  gu_abs :: "string \<Rightarrow> string option"
  gu_eval :: "string \<Rightarrow> string option"
  gu_before :: host
  gu_after :: host
  gu_open :: "(file_identity \<times> bool) option"
  gu_content :: "string option"
  gu_open_after :: "file_identity option"
  gu_writable :: "string \<Rightarrow> bool"
  gu_mkdir :: bool
  gu_dir_safe :: "string \<Rightarrow> bool"
  gu_dir_chmod :: bool
  gu_temp :: "string option"
  gu_sealed :: bool
  gu_link :: bool
  gu_listed :: bool
  gu_removes :: "string \<Rightarrow> bool"

definition setup_failed :: "string \<Rightarrow> git_error" where
  "setup_failed m = PlainError (Text m)"

section \<open>Can the executable be replaced?\<close>

partial_function (option) access_loop :: "(string \<Rightarrow> bool) \<Rightarrow> string \<Rightarrow> bool option" where
  "access_loop w dir =
     (if w dir then Some True
      else if dir = path_dir dir then Some False
      else access_loop w (path_dir dir))"

definition executable_path_mutable :: "git_setup \<Rightarrow> string \<Rightarrow> bool option" where
  "executable_path_mutable u path =
     (if gu_writable u path then Some True else access_loop (gu_writable u) (path_dir path))"

section \<open>The private copy\<close>

definition digest_of :: "hash_ops \<Rightarrow> string \<Rightarrow> string" where
  "digest_of hs content = hex_encode (ha_sum hs content)"

text \<open>At most one byte more than expected is read.\<close>

definition digest_executable :: "hash_ops \<Rightarrow> string option \<Rightarrow> int \<Rightarrow> git_error + string" where
  "digest_executable hs source expected =
     (if expected < 1 \<or> max_git_executable < expected then Inl (setup_failed ''worktree: git executable exceeds its size bound'')
      else (case source of
        None \<Rightarrow> Inl (setup_failed ''worktree: reading git executable failed'')
      | Some content \<Rightarrow>
          let got = take (nat expected + 1) content in
          if int (length got) \<noteq> expected then Inl (setup_failed ''worktree: git executable size changed while reading'')
          else Inr (digest_of hs got)))"

definition prepare_snapshot_directory :: "git_setup \<Rightarrow> string \<Rightarrow> git_error + string" where
  "prepare_snapshot_directory u dir =
     (if dir = [] \<or> \<not> is_abs dir then Inl (setup_failed ''worktree: private git snapshot directory must be absolute'')
      else if \<not> gu_mkdir u then Inl (setup_failed ''worktree: creating private git snapshot directory failed'')
      else (case gu_eval u dir of
        None \<Rightarrow> Inl (setup_failed ''worktree: resolving private git snapshot directory failed'')
      | Some canonical \<Rightarrow>
          if \<not> gu_dir_safe u canonical then Inl (setup_failed ''worktree: private git snapshot directory is unsafe'')
          else if \<not> gu_dir_chmod u then Inl (setup_failed ''worktree: securing private git snapshot directory failed'')
          else Inr canonical))"

definition digest_file :: "hash_ops \<Rightarrow> snap_dir \<Rightarrow> string \<Rightarrow> git_error + string" where
  "digest_file hs d name =
     (case map_of d name of
        Some (SnapFile content writable) \<Rightarrow> digest_executable hs (Some content) (int (length content))
      | _ \<Rightarrow> Inl (setup_failed ''worktree: private git snapshot is not a regular file''))"

text \<open>A link to an existing name is no error: what stands there is checked.\<close>

definition install_snapshot :: "hash_ops \<Rightarrow> git_setup \<Rightarrow> string \<Rightarrow> string \<Rightarrow> snap_dir \<Rightarrow> git_error option \<times> snap_dir" where
  "install_snapshot hs u content digest d =
     (if map_of d digest = None \<and> \<not> gu_link u
      then (Some (setup_failed ''worktree: installing private git execution snapshot failed''), d)
      else let d1 = (if map_of d digest = None then AList.update digest (SnapFile content False) d else d) in
        if digest_file hs d1 digest \<noteq> Inr digest
        then (Some (setup_failed ''worktree: private git execution snapshot content changed''), d1)
        else (case map_of d1 digest of
          Some (SnapFile c False) \<Rightarrow> (None, d1)
        | _ \<Rightarrow> (Some (setup_failed ''worktree: private git execution snapshot is unsafe''), d1)))"

fun prune_snapshots :: "git_setup \<Rightarrow> string \<Rightarrow> (string \<times> snap_item) list \<Rightarrow> snap_dir \<Rightarrow> git_error option \<times> snap_dir" where
  "prune_snapshots u keep [] d = (None, d)"
| "prune_snapshots u keep ((name, item) # es) d =
     (if name = keep then prune_snapshots u keep es d
      else if item = SnapUnsafe
      then (Some (setup_failed ''worktree: private git snapshot directory contains an unsafe entry''), d)
      else if \<not> gu_removes u name then (Some (setup_failed ''worktree: pruning old private git snapshot failed''), d)
      else prune_snapshots u keep es (AList.delete name d))"

definition prune_other_snapshots :: "git_setup \<Rightarrow> string \<Rightarrow> snap_dir \<Rightarrow> git_error option \<times> snap_dir" where
  "prune_other_snapshots u keep d =
     (if \<not> gu_listed u then (Some (setup_failed ''worktree: listing private git snapshots failed''), d)
      else prune_snapshots u keep (sort_key fst d) d)"

text \<open>The temporary file is removed on every way out.\<close>

definition snapshot_git_executable ::
  "hash_ops \<Rightarrow> git_setup \<Rightarrow> string \<Rightarrow> int \<Rightarrow> snap_dir \<Rightarrow> (git_error + string \<times> string) \<times> snap_dir" where
  "snapshot_git_executable hs u dir expected d =
     (case prepare_snapshot_directory u dir of
        Inl e \<Rightarrow> (Inl e, d)
      | Inr canonical \<Rightarrow>
          (case gu_temp u of
             None \<Rightarrow> (Inl (setup_failed ''worktree: creating private git execution snapshot failed''), d)
           | Some temp \<Rightarrow>
               (case digest_executable hs (gu_content u) expected of
                  Inl e \<Rightarrow> (Inl e, AList.delete temp d)
                | Inr digest \<Rightarrow>
                    let content = (case gu_content u of None \<Rightarrow> [] | Some c \<Rightarrow> c); d1 = AList.update temp (SnapFile content False) d in
                    if \<not> gu_sealed u then (Inl (setup_failed ''worktree: securing private git execution snapshot failed''), AList.delete temp d)
                    else (case install_snapshot hs u content digest d1 of
                      (Some e, d2) \<Rightarrow> (Inl e, AList.delete temp d2)
                    | (None, d2) \<Rightarrow>
                        (case prune_other_snapshots u digest d2 of
                           (Some e, d3) \<Rightarrow> (Inl e, AList.delete temp d3)
                         | (None, d3) \<Rightarrow> (Inr (path_join [canonical, digest], digest), AList.delete temp d3))))))"

section \<open>The adapter\<close>

definition bind_git :: "hash_ops \<Rightarrow> git_setup \<Rightarrow> string \<Rightarrow> string \<Rightarrow> snap_dir \<Rightarrow> ((git_error + git_adapter) \<times> snap_dir) option" where
  "bind_git hs u path dir d =
     (case identify (gu_before u) path of
        Inl e \<Rightarrow> Some (Inl (setup_failed ''worktree: identifying git executable''), d)
      | Inr identity \<Rightarrow>
          (case gu_open u of
             None \<Rightarrow> Some (Inl (setup_failed ''worktree: opening git executable failed''), d)
           | Some (opened, regular) \<Rightarrow>
               if identity \<noteq> opened then Some (Inl (setup_failed ''worktree: git executable changed while opening''), d)
               else if \<not> regular \<or> fi_size opened < 1 \<or> max_git_executable < fi_size opened
               then Some (Inl (setup_failed ''worktree: git executable is not a bounded regular file''), d)
               else (case executable_path_mutable u path of
                 None \<Rightarrow> None
               | Some mutable \<Rightarrow>
                   (case (if mutable then snapshot_git_executable hs u dir (fi_size opened) d
                          else (case digest_executable hs (gu_content u) (fi_size opened) of Inl e \<Rightarrow> Inl e | Inr digest \<Rightarrow> Inr (path, digest), d)) of
                      (Inl e, d1) \<Rightarrow> Some (Inl e, d1)
                    | (Inr (exec_path, digest), d1) \<Rightarrow>
                        if gu_open_after u \<noteq> Some opened
                        then Some (Inl (setup_failed ''worktree: git executable changed while reading''), d1)
                        else if identify (gu_after u) path \<noteq> Inr identity
                        then Some (Inl (setup_failed ''worktree: git executable changed while snapshotting''), d1)
                        else (case identify (gu_after u) exec_path of
                          Inl e \<Rightarrow> Some (Inl (setup_failed ''worktree: private git execution snapshot is unavailable''), d1)
                        | Inr exec_identity \<Rightarrow>
                            Some (Inr \<lparr>ga_path = path, ga_exec_path = exec_path, ga_identity = \<lparr>gi_file = identity, gi_digest = digest\<rparr>,
                              ga_exec_identity = exec_identity, ga_max_bytes = max_git_output\<rparr>, d1))))))"

definition new_git :: "hash_ops \<Rightarrow> git_setup \<Rightarrow> string \<Rightarrow> snap_dir \<Rightarrow> ((git_error + git_adapter) \<times> snap_dir) option" where
  "new_git hs u dir d =
     (let unavailable = Evidence failure_git_unavailable (Text ''worktree: git executable is unavailable'') in
      case Option.bind (Option.bind (gu_lookup u) (gu_abs u)) (gu_eval u) of
        None \<Rightarrow> Some (Inl unavailable, d)
      | Some path \<Rightarrow>
          map_option (\<lambda>(r, d'). (case r of
              Inl e \<Rightarrow> Inl (Evidence failure_git_unavailable (Text ''worktree: Git execution setup is unavailable''))
            | Inr g \<Rightarrow> Inr g, d')) (bind_git hs u path dir d))"

section \<open>The loop ends\<close>

text \<open>An absolute path from its components.\<close>

definition rooted :: "string list \<Rightarrow> string" where
  "rooted ps = CHR ''/'' # join_with ''/'' ps"

lemma join_with_snoc: "ps \<noteq> [] \<Longrightarrow> join_with s (ps @ [p]) = join_with s ps @ s @ p"
proof (induction ps)
  case (Cons q ps)
  then show ?case by (cases ps) auto
qed simp

lemma split_on_slash:
  assumes "ps \<noteq> []" "\<forall>s\<in>set ps. plain_part s"
  shows "split_on (CHR ''/'') (join_with ''/'' ps @ ''/'') = ps @ [[]]"
  using split_on_join [of "ps @ [[]]"] assms join_with_snoc [of ps "''/''" "[]"] by (simp add: plain_part_def)

lemma path_dir_rooted:
  assumes "\<forall>s\<in>set ps. plain_part s" "plain_part x"
  shows "path_dir (rooted (ps @ [x])) = rooted ps"
proof -
  have x: "CHR ''/'' \<notin> set x" using assms(2) by (simp add: plain_part_def)
  let ?pre = "if ps = [] then ''/'' else rooted ps @ ''/''"
  have s: "rooted (ps @ [x]) = ?pre @ x" by (cases "ps = []") (simp_all add: rooted_def join_with_snoc)
  have "dropWhile (\<lambda>c. c \<noteq> CHR ''/'') (rev x @ rev ?pre) = rev ?pre"
    using x by (subst dropWhile_append2) (auto simp: rooted_def)
  then have dir: "path_dir (rooted (ps @ [x])) = path_clean ?pre" by (simp add: path_dir_def s)
  have "abs_parts ?pre = ps"
  proof (cases "ps = []")
    case False
    have "clean_segments True [] (ps @ [[]]) = ps"
    proof -
      have "clean_segments True stack (ps @ [[]]) = rev stack @ ps" for stack
        using assms(1) by (induction ps arbitrary: stack) (simp_all add: plain_part_def)
      then show ?thesis by simp
    qed
    with False split_on_slash [OF False assms(1)] show ?thesis by (simp add: abs_parts_def rooted_def)
  qed (simp add: abs_parts_def)
  moreover have "is_abs ?pre" by (simp add: is_abs_def has_prefix_def rooted_def)
  then have "path_clean ?pre = rooted (abs_parts ?pre)" unfolding rooted_def [of "abs_parts _"] by (rule path_clean_abs)
  ultimately show ?thesis unfolding dir by simp
qed

lemma access_loop_returns: "\<forall>s\<in>set ps. plain_part s \<Longrightarrow> access_loop w (rooted ps) \<noteq> None"
proof (induction ps rule: rev_induct)
  case Nil
  have "path_dir (rooted []) = rooted []" by code_simp
  then show ?case by (subst access_loop.simps) auto
next
  case (snoc x ps)
  then show ?case by (subst access_loop.simps) (auto simp: path_dir_rooted)
qed

lemma mutable_returns:
  assumes "identify h path = Inr i"
  shows "executable_path_mutable u path \<noteq> None"
proof -
  from assms have "is_abs path" "path_clean path = path" by (auto simp: identify_def split: if_splits)
  then have path: "path = rooted (abs_parts path)" using path_clean_abs [of path] by (simp add: rooted_def)
  show ?thesis
  proof (cases "abs_parts path" rule: rev_cases)
    case Nil
    with path have "path_dir path = rooted []" by simp code_simp
    with access_loop_returns [of "[]"] show ?thesis by (auto simp: executable_path_mutable_def)
  next
    case (snoc ps x)
    with abs_parts_plain [of path] have plain: "\<forall>s\<in>set ps. plain_part s" "plain_part x" by simp_all
    from path_dir_rooted [OF this] path snoc have "path_dir path = rooted ps" by simp
    with access_loop_returns [OF plain(1)] show ?thesis by (auto simp: executable_path_mutable_def)
  qed
qed

text \<open>Setting up Git always returns: the climb through the executable's directories ends, whichever of them can be
  written.\<close>

theorem git_setup_returns: "\<exists>r d'. new_git hs u dir d = Some (r, d')"
proof -
  have "bind_git hs u path dir d \<noteq> None" for path
    using mutable_returns [of "gu_before u" path _ u]
    by (auto simp: bind_git_def split: sum.split option.split prod.split)
  then have "\<exists>r d'. bind_git hs u path dir d = Some (r, d')" for path by fastforce
  then show ?thesis by (cases "Option.bind (Option.bind (gu_lookup u) (gu_abs u)) (gu_eval u)") (fastforce simp: new_git_def)+
qed

section \<open>What is bound\<close>

lemma prune_keeps_one:
  assumes "prune_snapshots u keep es d = (None, d')" "fst ` set d \<subseteq> insert keep (fst ` set es)"
  shows "fst ` set d' \<subseteq> {keep} \<and> map_of d' keep = map_of d keep"
  using assms
proof (induction es arbitrary: d)
  case (Cons e es)
  obtain name item where e: "e = (name, item)" by (cases e)
  show ?case
  proof (cases "name = keep")
    case True
    with Cons e show ?thesis by auto
  next
    case False
    with Cons.prems(1) e have run: "prune_snapshots u keep es (AList.delete name d) = (None, d')" by (auto split: if_splits)
    have "fst ` set (AList.delete name d) \<subseteq> insert keep (fst ` set es)"
      using Cons.prems(2) e by (auto simp: AList.delete_eq)
    from Cons.IH [OF run this] False show ?thesis by (simp add: delete_conv')
  qed
qed auto

lemma install_ok:
  assumes "install_snapshot hs u content digest d = (None, d')"
  shows "\<exists>c. map_of d' digest = Some (SnapFile c False) \<and> digest_of hs c = digest"
proof -
  from assms obtain c where c: "map_of d' digest = Some (SnapFile c False)" "digest_file hs d' digest = Inr digest"
    by (auto simp: install_snapshot_def Let_def split: if_splits option.splits snap_item.splits bool.splits)
  then show ?thesis by (auto simp: digest_file_def digest_executable_def Let_def split: if_splits)
qed

lemma snapshot_ok:
  assumes "snapshot_git_executable hs u dir n d = (Inr (path, digest), d')"
  obtains canonical temp source c where "prepare_snapshot_directory u dir = Inr canonical" "gu_temp u = Some temp"
    "path = path_join [canonical, digest]" "gu_content u = Some source" "int (length source) = n" "digest = digest_of hs source"
    "fst ` set d' \<subseteq> {digest}" "temp \<noteq> digest \<longrightarrow> map_of d' digest = Some (SnapFile c False)" "digest_of hs c = digest"
proof -
  from assms obtain canonical temp content d2 d3 where
    p: "prepare_snapshot_directory u dir = Inr canonical" "gu_temp u = Some temp"
    and g: "digest_executable hs (gu_content u) n = Inr digest"
    and i: "install_snapshot hs u content digest (AList.update temp (SnapFile content False) d) = (None, d2)"
    and r: "prune_other_snapshots u digest d2 = (None, d3)" and out: "path = path_join [canonical, digest]" "d' = AList.delete temp d3"
    by (auto simp: snapshot_git_executable_def Let_def split: sum.splits option.splits prod.splits if_splits)
  from install_ok [OF i] obtain c where c: "map_of d2 digest = Some (SnapFile c False)" "digest_of hs c = digest" by blast
  from r have "prune_snapshots u digest (sort_key fst d2) d2 = (None, d3)" by (auto simp: prune_other_snapshots_def split: if_splits)
  from prune_keeps_one [OF this] have d3: "fst ` set d3 \<subseteq> {digest}" "map_of d3 digest = map_of d2 digest" by auto
  from g obtain source where s: "gu_content u = Some source" "int (length (take (nat n + 1) source)) = n"
    "digest = digest_of hs (take (nat n + 1) source)"
    by (auto simp: digest_executable_def Let_def split: if_splits option.splits)
  then have "length source = nat n" "0 \<le> n" by (auto simp: min_def split: if_splits)
  with s have src: "int (length source) = n" "digest = digest_of hs source" by simp_all
  have keys: "fst ` set d' \<subseteq> {digest}" using d3(1) by (auto simp: out AList.delete_eq)
  have kept: "temp \<noteq> digest \<longrightarrow> map_of d' digest = Some (SnapFile c False)" using c d3(2) by (simp add: out delete_conv')
  from that [OF p out(1) s(1) src keys kept c(2)] show ?thesis .
qed

lemma hex_digit_no_dot: "n < 16 \<Longrightarrow> hex_digit n \<noteq> CHR ''.''"
proof
  assume n: "n < 16" and "hex_digit n = CHR ''.''"
  then have "(of_char (hex_digit n) :: nat) = 46" by simp
  with n show False by (simp add: hex_digit_def split: if_splits)
qed

lemma digest_no_dot: "CHR ''.'' \<notin> set (digest_of hs content)"
proof -
  have "(of_char c :: nat) div 16 < 16" for c :: char using nat_of_char_less_256 [of c] by (simp add: div_less_iff_less_mult)
  then show ?thesis by (auto simp: digest_of_def hex_encode_def dest: hex_digit_no_dot [THEN not_sym, THEN notE, rotated])
qed

text \<open>A binding that succeeds, step by step.\<close>

lemma bind_git_Inr:
  assumes "bind_git hs u path dir d = Some (Inr g, d')"
  obtains opened mutable exec_path digest where "identify (gu_before u) path = Inr opened" "gu_open u = Some (opened, True)"
    "executable_path_mutable u path = Some mutable"
    "(if mutable then snapshot_git_executable hs u dir (fi_size opened) d
       else (case digest_executable hs (gu_content u) (fi_size opened) of Inl e \<Rightarrow> Inl e | Inr digest \<Rightarrow> Inr (path, digest), d)) =
      (Inr (exec_path, digest), d')"
    "ga_path g = path" "ga_exec_path g = exec_path" "ga_identity g = \<lparr>gi_file = opened, gi_digest = digest\<rparr>"
    "identify (gu_after u) path = Inr opened" "identify (gu_after u) exec_path = Inr (ga_exec_identity g)"
proof -
  obtain opened where i: "identify (gu_before u) path = Inr opened"
    using assms by (cases "identify (gu_before u) path") (simp_all add: bind_git_def)
  obtain opened' regular where o: "gu_open u = Some (opened', regular)"
    using assms i by (cases "gu_open u") (auto simp: bind_git_def)
  have same: "opened' = opened" by (rule ccontr) (use assms i o in \<open>simp add: bind_git_def\<close>)
  have bounded: "\<not> (\<not> regular \<or> fi_size opened < 1 \<or> max_git_executable < fi_size opened)"
    by (rule notI) (use assms i o same in \<open>simp add: bind_git_def\<close>)
  obtain mutable where m: "executable_path_mutable u path = Some mutable"
    using assms i o same bounded by (cases "executable_path_mutable u path") (simp_all add: bind_git_def)
  define copy where "copy = (if mutable then snapshot_git_executable hs u dir (fi_size opened) d
       else (case digest_executable hs (gu_content u) (fi_size opened) of Inl e \<Rightarrow> Inl e | Inr digest \<Rightarrow> Inr (path, digest), d))"
  obtain r d1 where c: "copy = (r, d1)" by (cases copy)
  note run = assms [unfolded bind_git_def i o same m sum.case option.case prod.case copy_def [symmetric] c]
  obtain exec_path digest where r: "r = Inr (exec_path, digest)" using run bounded by (cases r) auto
  have after: "gu_open_after u = Some opened" by (rule ccontr) (use run bounded r in simp)
  have current: "identify (gu_after u) path = Inr opened" by (rule ccontr) (use run bounded r after in simp)
  obtain exec_identity where e: "identify (gu_after u) exec_path = Inr exec_identity"
    using run bounded r after current by (cases "identify (gu_after u) exec_path") simp_all
  have g: "g = \<lparr>ga_path = path, ga_exec_path = exec_path, ga_identity = \<lparr>gi_file = opened, gi_digest = digest\<rparr>,
      ga_exec_identity = exec_identity, ga_max_bytes = max_git_output\<rparr>" and d': "d' = d1"
    using run bounded r after current e by simp_all
  from that [OF i _ m c [unfolded copy_def r, folded d'] _ _ _ current] show ?thesis using o same bounded e g by simp
qed

text \<open>C15: When Git is bound, the executable was the same file before and after it was read and the recorded digest is that
  of its content; and if any directory on its way could be written, commands run the file of that name in the
  private directory, which holds nothing else, is read-only, and whose content has that digest.\<close>

theorem bound_git_is_pinned:
  assumes "new_git hs u dir d = Some (Inr g, d')"
    and temp: "\<forall>t. gu_temp u = Some t \<longrightarrow> has_prefix ''.building-'' t"
  defines "digest \<equiv> gi_digest (ga_identity g)"
  shows "identify (gu_before u) (ga_path g) = Inr (gi_file (ga_identity g)) \<and>
    identify (gu_after u) (ga_path g) = Inr (gi_file (ga_identity g)) \<and>
    identify (gu_after u) (ga_exec_path g) = Inr (ga_exec_identity g) \<and>
    (\<exists>source. gu_content u = Some source \<and> int (length source) = fi_size (gi_file (ga_identity g)) \<and> digest = digest_of hs source) \<and>
    (if executable_path_mutable u (ga_path g) = Some False then ga_exec_path g = ga_path g \<and> d' = d
     else (\<exists>canonical c. prepare_snapshot_directory u dir = Inr canonical \<and> ga_exec_path g = path_join [canonical, digest] \<and>
       fst ` set d' \<subseteq> {digest} \<and> map_of d' digest = Some (SnapFile c False) \<and> digest_of hs c = digest))"
proof -
  from assms(1) obtain path where b: "bind_git hs u path dir d = Some (Inr g, d')"
  proof -
    from assms(1) obtain path r where "bind_git hs u path dir d = Some (r, d')" "Inr g = (case r of
        Inl e \<Rightarrow> Inl (Evidence failure_git_unavailable (Text ''worktree: Git execution setup is unavailable'')) | Inr g \<Rightarrow> Inr g)"
      by (auto simp: new_git_def Let_def split: option.splits)
    with that show ?thesis by (cases r) auto
  qed
  then obtain opened mutable exec_path x where id: "identify (gu_before u) path = Inr opened"
    and m: "executable_path_mutable u path = Some mutable"
    and s: "(if mutable then snapshot_git_executable hs u dir (fi_size opened) d
       else (case digest_executable hs (gu_content u) (fi_size opened) of Inl e \<Rightarrow> Inl e | Inr digest \<Rightarrow> Inr (path, digest), d)) =
      (Inr (exec_path, x), d')"
    and g: "ga_path g = path" "ga_exec_path g = exec_path" "ga_identity g = \<lparr>gi_file = opened, gi_digest = x\<rparr>"
      "identify (gu_after u) path = Inr opened" "identify (gu_after u) exec_path = Inr (ga_exec_identity g)" by (rule bind_git_Inr)
  from g(3) have x: "x = digest" by (simp add: digest_def)
  show ?thesis
  proof (cases mutable)
    case False
    with s x have "digest_executable hs (gu_content u) (fi_size opened) = Inr digest" "exec_path = path" "d' = d"
      by (auto split: sum.splits)
    moreover from this(1) have "\<exists>source. gu_content u = Some source \<and> int (length source) = fi_size opened \<and> digest = digest_of hs source"
      by (auto simp: digest_executable_def Let_def min_def split: if_splits option.splits)
    ultimately show ?thesis using id g m False by simp
  next
    case True
    with s x have "snapshot_git_executable hs u dir (fi_size opened) d = (Inr (exec_path, digest), d')" by simp
    then obtain canonical t source c where r: "prepare_snapshot_directory u dir = Inr canonical" "gu_temp u = Some t"
      "exec_path = path_join [canonical, digest]" "gu_content u = Some source" "int (length source) = fi_size opened"
      "digest = digest_of hs source" "fst ` set d' \<subseteq> {digest}" "t \<noteq> digest \<longrightarrow> map_of d' digest = Some (SnapFile c False)"
      "digest_of hs c = digest" by (rule snapshot_ok)
    from temp r(2) have "CHR ''.'' \<in> set t" by (auto simp: has_prefix_iff prefix_def)
    with digest_no_dot [of hs source] r(6) have "t \<noteq> digest" by auto
    with r id g m True show ?thesis by auto
  qed
qed

text \<open>An executable in a directory that can be written, bound into a private directory with an older copy.\<close>

definition sample_pin_sum :: hash_ops where
  "sample_pin_sum = sample_hash\<lparr>ha_sum := take 1\<rparr>"

definition sample_pin_host :: host where
  "sample_pin_host = \<lparr>ho_lstat = (\<lambda>p. Found \<lparr>in_kind = KindRegular, in_device = 1, in_inode = 2, in_size = 2, in_mtime = 0\<rparr>),
     ho_eval = Some, ho_readlink = (\<lambda>_. None), ho_readdir = (\<lambda>_. None), ho_read = (\<lambda>_. None), ho_tree = (\<lambda>_. None),
     ho_exec = (\<lambda>_. \<lparr>eo_context = None, eo_stdout = [], eo_stderr = [], eo_failure = None\<rparr>),
     ho_usage = (\<lambda>_. Inl ContextCanceled), ho_context = (\<lambda>_. None)\<rparr>"

definition sample_pin_file :: "string \<Rightarrow> file_identity" where
  "sample_pin_file p = \<lparr>fi_path = p, fi_device = 1, fi_inode = 2, fi_size = 2, fi_mtime = 0\<rparr>"

definition sample_setup :: git_setup where
  "sample_setup = \<lparr>gu_lookup = Some ''/b/git'', gu_abs = Some, gu_eval = Some, gu_before = sample_pin_host, gu_after = sample_pin_host,
     gu_open = Some (sample_pin_file ''/b/git'', True), gu_content = Some ''AB'', gu_open_after = Some (sample_pin_file ''/b/git''),
     gu_writable = (\<lambda>p. p = ''/b''), gu_mkdir = True, gu_dir_safe = (\<lambda>_. True), gu_dir_chmod = True, gu_temp = Some ''.building-1'',
     gu_sealed = True, gu_link = True, gu_listed = True, gu_removes = (\<lambda>_. True)\<rparr>"

definition sample_bound :: git_adapter where
  "sample_bound = \<lparr>ga_path = ''/b/git'', ga_exec_path = ''/s/41'', ga_identity = \<lparr>gi_file = sample_pin_file ''/b/git'', gi_digest = ''41''\<rparr>,
     ga_exec_identity = sample_pin_file ''/s/41'', ga_max_bytes = max_git_output\<rparr>"

lemma sample_mutable: "executable_path_mutable sample_setup ''/b/git'' = Some True"
proof -
  have "path_dir ''/b/git'' = ''/b''" by code_simp
  then show ?thesis by (simp add: executable_path_mutable_def sample_setup_def access_loop.simps)
qed

lemma sample_binds:
  "new_git sample_pin_sum sample_setup ''/s'' [(''old'', SnapFile ''X'' False)] = Some (Inr sample_bound, [(''41'', SnapFile ''AB'' False)])"
proof -
  have abs: "is_abs ''/s''" "is_abs ''/b/git''" "is_abs ''/s/41''" "path_clean ''/b/git'' = ''/b/git''" "path_clean ''/s/41'' = ''/s/41''"
    "path_join [''/s'', ''41''] = ''/s/41''" by code_simp+
  have sum: "digest_of sample_pin_sum ''AB'' = ''41''" by code_simp
  have dir: "prepare_snapshot_directory sample_setup ''/s'' = Inr ''/s''"
    using abs(1) by (simp add: prepare_snapshot_directory_def sample_setup_def)
  have dig: "digest_executable sample_pin_sum (Some ''AB'') 2 = Inr ''41''"
    using sum by (simp add: digest_executable_def max_git_executable_def Let_def)
  have f: "gu_temp sample_setup = Some ''.building-1''" "gu_sealed sample_setup" "gu_content sample_setup = Some ''AB''" "gu_link sample_setup"
    "gu_listed sample_setup" "gu_removes sample_setup = (\<lambda>_. True)" "gu_lookup sample_setup = Some ''/b/git''" "gu_abs sample_setup = Some"
    "gu_eval sample_setup = Some" "gu_before sample_setup = sample_pin_host" "gu_after sample_setup = sample_pin_host"
    "gu_open sample_setup = Some (sample_pin_file ''/b/git'', True)" "gu_open_after sample_setup = Some (sample_pin_file ''/b/git'')"
    by (simp_all add: sample_setup_def)
  have id: "identify sample_pin_host p = Inr (sample_pin_file p)" if "is_abs p" "path_clean p = p" for p
    using that by (simp add: identify_def sample_pin_host_def identity_of_def sample_pin_file_def)
  let ?d = "[(''old'', SnapFile ''X'' False), (''.building-1'', SnapFile ''AB'' False)]"
  have install: "install_snapshot sample_pin_sum sample_setup ''AB'' ''41'' ?d = (None, ?d @ [(''41'', SnapFile ''AB'' False)])"
    by (simp add: install_snapshot_def Let_def f digest_file_def dig)
  have order: "sort_key fst (?d @ [(''41'', SnapFile ''AB'' False)]) =
      [(''.building-1'', SnapFile ''AB'' False), (''41'', SnapFile ''AB'' False), (''old'', SnapFile ''X'' False)]" by code_simp
  have prune: "prune_other_snapshots sample_setup ''41'' (?d @ [(''41'', SnapFile ''AB'' False)]) = (None, [(''41'', SnapFile ''AB'' False)])"
    unfolding prune_other_snapshots_def order by (simp add: f AList.delete_eq)
  have snap: "snapshot_git_executable sample_pin_sum sample_setup ''/s'' 2 [(''old'', SnapFile ''X'' False)] =
      (Inr (''/s/41'', ''41''), [(''41'', SnapFile ''AB'' False)])"
    using install prune abs(6) by (simp add: snapshot_git_executable_def dir f dig Let_def AList.delete_eq)
  have size: "fi_size (sample_pin_file p) = 2" for p by (simp add: sample_pin_file_def)
  have "bind_git sample_pin_sum sample_setup ''/b/git'' ''/s'' [(''old'', SnapFile ''X'' False)] = Some (Inr sample_bound, [(''41'', SnapFile ''AB'' False)])"
    by (simp add: bind_git_def f id abs(2-5) size max_git_executable_def sample_mutable snap sample_bound_def)
  then show ?thesis by (simp add: new_git_def f)
qed

theorem bound_git_is_pinned_witness:
  "map_of [(''41'', SnapFile ''AB'' False)] (gi_digest (ga_identity sample_bound)) = Some (SnapFile ''AB'' False) \<and>
     executable_path_mutable sample_setup (ga_path sample_bound) = Some True \<and>
     new_git sample_pin_sum sample_setup ''/s'' [(''old'', SnapFile ''X'' False)] = Some (Inr sample_bound, [(''41'', SnapFile ''AB'' False)])"
proof -
  have "\<forall>t. gu_temp sample_setup = Some t \<longrightarrow> has_prefix ''.building-'' t" by (simp add: sample_setup_def has_prefix_def)
  from bound_git_is_pinned [OF sample_binds this] sample_binds sample_mutable show ?thesis by (simp add: sample_bound_def)
qed

end
