(* ===== verification/Local_Api.thy ===== *)
theory Local_Api
  imports Json_Text "HOL-Library.AList"
begin

text \<open>
  The local interface (\<open>internal/api\<close>: \<open>server.go\<close>, \<open>cache_server.go\<close>, \<open>worktree_server.go\<close>,
  \<open>client.go\<close>, \<open>cache_client.go\<close>, \<open>client_worktree.go\<close>, \<open>types.go\<close>): which call of the backend a
  request becomes, which request the client makes of a call, and the status of the answer. The socket
  is in the theory \<open>Api_Socket\<close>. A request is what \<open>net/http\<close> hands over: the method, the segments of the
  path, one value per query key, and the JSON values of the body. The bodies the client sends are JSON text
  (\<open>Json_Text\<close>), and their values are what is read from that text.
\<close>

section \<open>Calls of the backend\<close>

record list_options =
  lo_session :: string
  lo_agent :: string
  lo_state :: string
  lo_limit :: int
  lo_all :: bool

record log_options =
  go_limit :: int
  go_kind :: string
  go_exclude :: string
  go_subject :: string
  go_since :: int
  go_after :: "int option"

record action_options =
  no_process :: string
  no_policy :: string
  no_result :: string
  no_limit :: int

record activity_options =
  yo_process :: string
  yo_session :: string
  yo_since :: int
  yo_limit :: int

record classification_options =
  po_process :: string
  po_session :: string
  po_state :: string
  po_since :: int
  po_limit :: int
  po_latest :: bool

datatype lane = LaneCleanup | LaneRestore | LanePurge

datatype backend_call =
    CallStatus | CallConfig | CallCandidates | CallPolicies | CallDoctor | CallMetrics
  | CallSessions list_options | CallSession string | CallProcesses list_options | CallExplain int
  | CallActions action_options | CallLogs log_options | CallActivity activity_options
  | CallClassifications classification_options
  | CallCleanupPreview string string | CallCleanupApply string
  | CallCacheArtifacts string bool | CallCacheArtifact string | CallCacheCandidates | CallCacheQuarantines
  | CallCacheActions string string string int
  | CallCachePreview lane string string | CallCacheApply lane string string | CallCachePurgeComplete string string string
  | CallWorktrees string string int | CallWorktree string | CallWorktreeActions string string int
  | CallWorktreePreview lane string | CallWorktreeApply lane string string | CallWorktreePurgeComplete string string string

text \<open>The calls that issue or spend authority.\<close>

fun authority_call :: "backend_call \<Rightarrow> bool" where
  "authority_call (CallCleanupPreview p q) = True"
| "authority_call (CallCleanupApply a) = True"
| "authority_call (CallCachePreview l i p) = True"
| "authority_call (CallCacheApply l a c) = True"
| "authority_call (CallCachePurgeComplete i c e) = True"
| "authority_call (CallWorktreePreview l i) = True"
| "authority_call (CallWorktreeApply l a c) = True"
| "authority_call (CallWorktreePurgeComplete i c e) = True"
| "authority_call c = False"

section \<open>Requests\<close>

datatype json = JNull | JString string | JObject "(string \<times> json) list" | JOther

record request =
  rq_method :: string
  rq_path :: "string list"
  rq_query :: "(string \<times> string) list"
  rq_size :: nat
  rq_values :: "json list"
  rq_clean :: bool

datatype api_error = StatusError nat string | NotFoundError | AmbiguousError | BackendError string | NoRoute nat

definition bad_request :: "string \<Rightarrow> api_error" where
  "bad_request msg = StatusError 400 msg"

definition query_get :: "(string \<times> string) list \<Rightarrow> string \<Rightarrow> string" where
  "query_get q k = (case map_of q k of None \<Rightarrow> [] | Some v \<Rightarrow> v)"

definition query_has :: "(string \<times> string) list \<Rightarrow> string \<Rightarrow> bool" where
  "query_has q k \<longleftrightarrow> map_of q k \<noteq> None"

text \<open>
  The value of \<open>strconv.Atoi\<close> and \<open>ParseInt\<close> when the error is dropped: zero for what is no
  number, the nearest bound for a number out of range.
\<close>

definition number_or_zero :: "string \<Rightarrow> int" where
  "number_or_zero s =
     (case parse_int64 s of
        Some n \<Rightarrow> n
      | None \<Rightarrow>
          let (neg, ds) = (case s of [] \<Rightarrow> (False, [])
            | c # cs \<Rightarrow> if c = CHR ''-'' then (True, cs) else if c = CHR ''+'' then (False, cs) else (False, s)) in
          if ds = [] \<or> \<not> list_all is_digit ds then 0 else if neg then - (2 ^ 63) else 2 ^ 63 - 1)"

definition list_options_of :: "(string \<times> string) list \<Rightarrow> list_options" where
  "list_options_of q =
     \<lparr>lo_session = query_get q ''session'', lo_agent = query_get q ''agent'', lo_state = query_get q ''state'',
      lo_limit = number_or_zero (query_get q ''limit''), lo_all = (query_get q ''all'' = ''true'')\<rparr>"

text \<open>
  Decoding a body into a struct of strings: null leaves everything empty, names match without
  regard to case, a later value of a name wins, and nothing else may occur.
\<close>

fun decode_fields :: "string list \<Rightarrow> (string \<times> json) list \<Rightarrow> (string \<times> string) list \<Rightarrow> (string \<times> string) list option" where
  "decode_fields known [] acc = Some acc"
| "decode_fields known ((k, v) # fs) acc =
     (case (if List.member known k then Some k else List.find (\<lambda>n. to_lower n = to_lower k) known) of
        None \<Rightarrow> None
      | Some name \<Rightarrow>
          (case v of
             JNull \<Rightarrow> decode_fields known fs acc
           | JString s \<Rightarrow> decode_fields known fs (AList.update name s acc)
           | _ \<Rightarrow> None))"

fun decode_struct :: "string list \<Rightarrow> json \<Rightarrow> (string \<times> string) list option" where
  "decode_struct known JNull = Some []"
| "decode_struct known (JObject fs) = decode_fields known fs []"
| "decode_struct known v = None"

text \<open>
  \<open>rq_values\<close> are the values the decoder can read before the body ends or turns out malformed,
  \<open>rq_clean\<close> says that nothing but space follows them. A body over the bound fails in the first
  or in the second decode, with one of the two messages; the status is 400 either way.
\<close>

definition max_body :: nat where "max_body = 64 * 1024"

definition decode_request :: "string list \<Rightarrow> request \<Rightarrow> api_error + (string \<times> string) list" where
  "decode_request known r =
     (case rq_values r of
        [] \<Rightarrow> Inl (bad_request ''invalid JSON request'')
      | v # vs \<Rightarrow>
          (case decode_struct known v of
             None \<Rightarrow> Inl (bad_request ''invalid JSON request'')
           | Some fs \<Rightarrow>
               if vs \<noteq> [] \<or> \<not> rq_clean r \<or> max_body < rq_size r
               then Inl (bad_request ''request body must contain exactly one JSON object'') else Inr fs))"

definition with_body :: "string list \<Rightarrow> request \<Rightarrow> ((string \<Rightarrow> string) \<Rightarrow> backend_call) \<Rightarrow> api_error + backend_call" where
  "with_body known r f = (case decode_request known r of Inl e \<Rightarrow> Inl e | Inr fs \<Rightarrow> Inr (f (query_get fs)))"

section \<open>Routes\<close>

definition api_version :: string where "api_version = ''v1''"

definition explain_call :: "(string \<times> string) list \<Rightarrow> api_error + backend_call" where
  "explain_call q = (case parse_int64 (query_get q ''pid'') of
     None \<Rightarrow> Inl (bad_request ''pid must be an integer'') | Some pid \<Rightarrow> Inr (CallExplain pid))"

definition logs_call :: "(string \<times> string) list \<Rightarrow> api_error + backend_call" where
  "logs_call q =
     (let base = \<lparr>go_limit = number_or_zero (query_get q ''limit''), go_kind = query_get q ''kind'', go_exclude = query_get q ''exclude_kind'',
         go_subject = query_get q ''subject'', go_since = number_or_zero (query_get q ''since_ns''), go_after = None\<rparr> in
      if query_has q ''after_id'' then
        (case parse_int64 (query_get q ''after_id'') of
           None \<Rightarrow> Inl (bad_request ''after_id must be a non-negative integer'')
         | Some n \<Rightarrow> if n < 0 then Inl (bad_request ''after_id must be a non-negative integer'')
                     else Inr (CallLogs (base\<lparr>go_after := Some n\<rparr>)))
      else Inr (CallLogs base))"

definition server_get :: "(string \<times> string) list \<Rightarrow> string list \<Rightarrow> (api_error + backend_call) option" where
  "server_get q path =
     (let limit = number_or_zero (query_get q ''limit''); since = number_or_zero (query_get q ''since_ns''); g = query_get q in
      case path of
        [a] \<Rightarrow>
          if a = ''status'' then Some (Inr CallStatus) else if a = ''config'' then Some (Inr CallConfig)
          else if a = ''sessions'' then Some (Inr (CallSessions (list_options_of q)))
          else if a = ''processes'' then Some (Inr (CallProcesses (list_options_of q)))
          else if a = ''explain'' then Some (explain_call q)
          else if a = ''candidates'' then Some (Inr CallCandidates) else if a = ''policies'' then Some (Inr CallPolicies)
          else if a = ''actions'' then Some (Inr (CallActions \<lparr>no_process = g ''process'', no_policy = g ''policy'', no_result = g ''result'', no_limit = limit\<rparr>))
          else if a = ''logs'' then Some (logs_call q)
          else if a = ''doctor'' then Some (Inr CallDoctor) else if a = ''metrics'' then Some (Inr CallMetrics)
          else if a = ''activity'' then Some (Inr (CallActivity \<lparr>yo_process = g ''process'', yo_session = g ''session'', yo_since = since, yo_limit = limit\<rparr>))
          else if a = ''classifications'' then Some (Inr (CallClassifications \<lparr>po_process = g ''process'', po_session = g ''session'',
            po_state = g ''state'', po_since = since, po_limit = limit, po_latest = (g ''latest'' = ''true'')\<rparr>))
          else None
      | [a, b] \<Rightarrow> if a = ''sessions'' \<and> b \<noteq> [] then Some (Inr (CallSession b)) else None
      | _ \<Rightarrow> None)"

definition cache_get :: "(string \<times> string) list \<Rightarrow> string list \<Rightarrow> (api_error + backend_call) option" where
  "cache_get q path =
     (let g = query_get q in
      case path of
        [a, b] \<Rightarrow>
          if a \<noteq> ''cache'' then None
          else if b = ''artifacts'' then Some (Inr (CallCacheArtifacts (g ''lifecycle'') (g ''current'' = ''true'')))
          else if b = ''candidates'' then Some (Inr CallCacheCandidates)
          else if b = ''quarantined'' then Some (Inr CallCacheQuarantines)
          else if b = ''actions'' then Some (Inr (CallCacheActions (g ''artifact'') (g ''kind'') (g ''result'') (number_or_zero (g ''limit''))))
          else None
      | [a, b, i] \<Rightarrow> if a = ''cache'' \<and> b = ''artifacts'' \<and> i \<noteq> [] then Some (Inr (CallCacheArtifact i)) else None
      | _ \<Rightarrow> None)"

definition worktree_get :: "(string \<times> string) list \<Rightarrow> string list \<Rightarrow> (api_error + backend_call) option" where
  "worktree_get q path =
     (let g = query_get q; limit = number_or_zero (g ''limit'') in
      case path of
        [a] \<Rightarrow>
          if a = ''worktrees'' then Some (Inr (CallWorktrees (g ''state'') (g ''source'') limit))
          else if a = ''worktree-actions'' then Some (Inr (CallWorktreeActions (g ''worktree'') (g ''result'') limit))
          else None
      | [a, b] \<Rightarrow> if a = ''worktrees'' \<and> b \<noteq> [] then Some (Inr (CallWorktree b)) else None
      | _ \<Rightarrow> None)"

text \<open>No two patterns match the same path, so the order does not matter.\<close>

definition or_route :: "'a option \<Rightarrow> 'a option \<Rightarrow> 'a option" where
  "or_route x y = (case x of None \<Rightarrow> y | Some v \<Rightarrow> Some v)"

definition get_route :: "(string \<times> string) list \<Rightarrow> string list \<Rightarrow> (api_error + backend_call) option" where
  "get_route q path = or_route (server_get q path) (or_route (cache_get q path) (worktree_get q path))"

definition cache_lane :: "string \<Rightarrow> lane option" where
  "cache_lane s = (if s = ''cleanup'' then Some LaneCleanup else if s = ''restore'' then Some LaneRestore
     else if s = ''purge'' then Some LanePurge else None)"

definition worktree_lane :: "string \<Rightarrow> lane option" where
  "worktree_lane s = (if s = ''removal'' then Some LaneCleanup else if s = ''restore'' then Some LaneRestore
     else if s = ''purge'' then Some LanePurge else None)"

definition complete_fields :: "string list" where
  "complete_fields = [''action_id'', ''completion'', ''execution_error'']"

definition cache_post :: "request \<Rightarrow> string list \<Rightarrow> (api_error + backend_call) option" where
  "cache_post r path =
     (case path of
        [a, b, c] \<Rightarrow>
          (case (if a = ''cache'' then cache_lane b else None) of
             None \<Rightarrow> None
           | Some l \<Rightarrow>
               if c = ''preview'' then Some (with_body [''artifact_id'', ''policy_id''] r (\<lambda>f. CallCachePreview l (f ''artifact_id'') (f ''policy_id'')))
               else if c = ''apply'' then Some (with_body [''approval'', ''confirmation''] r (\<lambda>f. CallCacheApply l (f ''approval'') (f ''confirmation'')))
               else if l = LanePurge \<and> c = ''complete''
               then Some (with_body complete_fields r (\<lambda>f. CallCachePurgeComplete (f ''action_id'') (f ''completion'') (f ''execution_error'')))
               else None)
      | _ \<Rightarrow> None)"

definition worktree_post :: "request \<Rightarrow> string list \<Rightarrow> (api_error + backend_call) option" where
  "worktree_post r path =
     (case path of
        [a, b, c] \<Rightarrow>
          (case (if a = ''worktrees'' then worktree_lane b else None) of
             None \<Rightarrow> None
           | Some l \<Rightarrow>
               if c = ''preview'' then Some (with_body [''worktree_id''] r (\<lambda>f. CallWorktreePreview l (f ''worktree_id'')))
               else if c = ''apply'' then Some (with_body [''approval'', ''confirmation''] r (\<lambda>f. CallWorktreeApply l (f ''approval'') (f ''confirmation'')))
               else if l = LanePurge \<and> c = ''complete''
               then Some (with_body complete_fields r (\<lambda>f. CallWorktreePurgeComplete (f ''action_id'') (f ''completion'') (f ''execution_error'')))
               else None)
      | _ \<Rightarrow> None)"

definition server_post :: "request \<Rightarrow> string list \<Rightarrow> (api_error + backend_call) option" where
  "server_post r path =
     (case path of
        [a, b] \<Rightarrow>
          if a = ''cleanup'' \<and> b = ''preview''
          then Some (with_body [''policy_id'', ''proc_uid''] r (\<lambda>f. CallCleanupPreview (f ''policy_id'') (f ''proc_uid'')))
          else if a = ''cleanup'' \<and> b = ''apply'' then Some (with_body [''approval''] r (\<lambda>f. CallCleanupApply (f ''approval'')))
          else None
      | _ \<Rightarrow> None)"

definition post_route :: "request \<Rightarrow> string list \<Rightarrow> (api_error + backend_call) option" where
  "post_route r path = or_route (server_post r path) (or_route (cache_post r path) (worktree_post r path))"

text \<open>
  A GET pattern serves HEAD too; another method on a known path is refused by the multiplexer, and
  a path with an empty or dot segment in it is redirected to its clean form.
\<close>

definition unclean_path :: "string list \<Rightarrow> bool" where
  "unclean_path path \<longleftrightarrow> list_ex (\<lambda>x. x = ''.'' \<or> x = ''..'') path \<or> [] \<in> set (butlast path)"

definition route :: "request \<Rightarrow> api_error + backend_call" where
  "route r =
     (case rq_path r of
        [] \<Rightarrow> Inl (NoRoute 404)
      | v # path \<Rightarrow>
          if unclean_path (v # path) then Inl (NoRoute 301)
          else if v \<noteq> api_version then Inl (NoRoute 404)
          else (case (if rq_method r = ''GET'' \<or> rq_method r = ''HEAD'' then get_route (rq_query r) path
                      else if rq_method r = ''POST'' then post_route r path else None) of
            Some c \<Rightarrow> c
          | None \<Rightarrow> Inl (NoRoute (if get_route (rq_query r) path \<noteq> None \<or> post_route r path \<noteq> None then 405 else 404))))"

section \<open>Answers\<close>

definition status_code :: "api_error \<Rightarrow> nat" where
  "status_code e =
     (case e of StatusError n m \<Rightarrow> n | NotFoundError \<Rightarrow> 404 | AmbiguousError \<Rightarrow> 409 | BackendError m \<Rightarrow> 500 | NoRoute n \<Rightarrow> n)"

definition serve_request :: "(backend_call \<Rightarrow> 's \<Rightarrow> (api_error + 'r) \<times> 's) \<Rightarrow> request \<Rightarrow> 's \<Rightarrow> (nat \<times> 'r option) \<times> 's" where
  "serve_request backend r s =
     (case route r of
        Inl e \<Rightarrow> ((status_code e, None), s)
      | Inr c \<Rightarrow> (case backend c s of
          (Inl e, s') \<Rightarrow> ((status_code e, None), s')
        | (Inr x, s') \<Rightarrow> ((200, Some x), s')))"

section \<open>The client\<close>

definition set_text :: "string \<Rightarrow> string \<Rightarrow> (string \<times> string) list \<Rightarrow> (string \<times> string) list" where
  "set_text k v q = (if v = [] then q else AList.update k v q)"

definition set_number :: "string \<Rightarrow> int \<Rightarrow> (string \<times> string) list \<Rightarrow> (string \<times> string) list" where
  "set_number k n q = (if n \<le> 0 then q else AList.update k (show_int n) q)"

definition set_flag :: "string \<Rightarrow> bool \<Rightarrow> (string \<times> string) list \<Rightarrow> (string \<times> string) list" where
  "set_flag k b q = (if b then AList.update k ''true'' q else q)"

definition list_query :: "list_options \<Rightarrow> (string \<times> string) list" where
  "list_query o' = set_flag ''all'' (lo_all o') (set_number ''limit'' (lo_limit o')
     (set_text ''state'' (lo_state o') (set_text ''agent'' (lo_agent o') (set_text ''session'' (lo_session o') []))))"

definition get_request :: "string list \<Rightarrow> (string \<times> string) list \<Rightarrow> request" where
  "get_request path q = \<lparr>rq_method = ''GET'', rq_path = api_version # path, rq_query = q, rq_size = 0, rq_values = [], rq_clean = True\<rparr>"

text \<open>A field with \<open>omitempty\<close> is left out when it is empty. The body is the JSON text of the fields.\<close>

definition optional_field :: "string \<Rightarrow> string \<Rightarrow> (string \<times> string) list" where
  "optional_field k v = (if v = [] then [] else [(k, v)])"

definition string_object :: "(string \<times> string) list \<Rightarrow> json" where
  "string_object fs = JObject (List.map (\<lambda>(k, v). (k, JString v)) fs)"

definition post_request :: "string list \<Rightarrow> (string \<times> string) list \<Rightarrow> request" where
  "post_request path fs =
     (let body = write_object fs in
      \<lparr>rq_method = ''POST'', rq_path = api_version # path, rq_query = [], rq_size = length body,
       rq_values = (case read_object body of None \<Rightarrow> [] | Some (gs, rest) \<Rightarrow> [string_object gs]),
       rq_clean = (case read_object body of None \<Rightarrow> False | Some (gs, rest) \<Rightarrow> rest = [])\<rparr>)"

fun lane_name :: "lane \<Rightarrow> string" where
  "lane_name LaneCleanup = ''cleanup''" | "lane_name LaneRestore = ''restore''" | "lane_name LanePurge = ''purge''"

fun worktree_lane_name :: "lane \<Rightarrow> string" where
  "worktree_lane_name LaneCleanup = ''removal''" | "worktree_lane_name LaneRestore = ''restore''" | "worktree_lane_name LanePurge = ''purge''"

definition cache_artifacts_request :: "string \<Rightarrow> bool \<Rightarrow> request" where
  "cache_artifacts_request l c = get_request [''cache'', ''artifacts''] (set_flag ''current'' c (set_text ''lifecycle'' l []))"

definition cache_actions_request :: "string \<Rightarrow> string \<Rightarrow> string \<Rightarrow> int \<Rightarrow> request" where
  "cache_actions_request i k r n = get_request [''cache'', ''actions'']
     (set_number ''limit'' n (set_text ''result'' r (set_text ''kind'' k (set_text ''artifact'' i []))))"

definition cache_preview_request :: "lane \<Rightarrow> string \<Rightarrow> string \<Rightarrow> request" where
  "cache_preview_request l i p =
     post_request [''cache'', lane_name l, ''preview''] ((''artifact_id'', i) # optional_field ''policy_id'' p)"

definition cache_apply_request :: "lane \<Rightarrow> string \<Rightarrow> string \<Rightarrow> request" where
  "cache_apply_request l a c =
     post_request [''cache'', lane_name l, ''apply''] ((''approval'', a) # optional_field ''confirmation'' c)"

definition cache_complete_request :: "string \<Rightarrow> string \<Rightarrow> string \<Rightarrow> request" where
  "cache_complete_request i c e =
     post_request [''cache'', ''purge'', ''complete''] ([(''action_id'', i), (''completion'', c)] @ optional_field ''execution_error'' e)"

definition worktrees_request :: "string \<Rightarrow> string \<Rightarrow> int \<Rightarrow> request" where
  "worktrees_request st src n = get_request [''worktrees'']
     (set_number ''limit'' n (set_text ''source'' src (set_text ''state'' st [])))"

definition worktree_actions_request :: "string \<Rightarrow> string \<Rightarrow> int \<Rightarrow> request" where
  "worktree_actions_request i r n = get_request [''worktree-actions'']
     (set_number ''limit'' n (set_text ''result'' r (set_text ''worktree'' i [])))"

definition worktree_preview_request :: "lane \<Rightarrow> string \<Rightarrow> request" where
  "worktree_preview_request l i = post_request [''worktrees'', worktree_lane_name l, ''preview''] [(''worktree_id'', i)]"

definition worktree_apply_request :: "lane \<Rightarrow> string \<Rightarrow> string \<Rightarrow> request" where
  "worktree_apply_request l a c =
     post_request [''worktrees'', worktree_lane_name l, ''apply''] ((''approval'', a) # optional_field ''confirmation'' c)"

definition worktree_complete_request :: "string \<Rightarrow> string \<Rightarrow> string \<Rightarrow> request" where
  "worktree_complete_request i c e =
     post_request [''worktrees'', ''purge'', ''complete''] ([(''action_id'', i), (''completion'', c)] @ optional_field ''execution_error'' e)"

fun client_request :: "backend_call \<Rightarrow> request" where
  "client_request CallStatus = get_request [''status''] []"
| "client_request CallConfig = get_request [''config''] []"
| "client_request CallCandidates = get_request [''candidates''] []"
| "client_request CallPolicies = get_request [''policies''] []"
| "client_request CallDoctor = get_request [''doctor''] []"
| "client_request CallMetrics = get_request [''metrics''] []"
| "client_request (CallSessions opts) = get_request [''sessions''] (list_query opts)"
| "client_request (CallSession i) = get_request [''sessions'', i] []"
| "client_request (CallProcesses opts) = get_request [''processes''] (list_query opts)"
| "client_request (CallExplain pid) = get_request [''explain''] [(''pid'', show_int pid)]"
| "client_request (CallActions opts) = get_request [''actions'']
     (set_number ''limit'' (no_limit opts) (set_text ''result'' (no_result opts)
       (set_text ''policy'' (no_policy opts) (set_text ''process'' (no_process opts) []))))"
| "client_request (CallLogs opts) = get_request [''logs'']
     ((case go_after opts of None \<Rightarrow> (\<lambda>q. q) | Some n \<Rightarrow> AList.update ''after_id'' (show_int n))
       (set_number ''since_ns'' (go_since opts) (set_text ''subject'' (go_subject opts) (set_text ''exclude_kind'' (go_exclude opts)
         (set_text ''kind'' (go_kind opts) (set_number ''limit'' (go_limit opts) []))))))"
| "client_request (CallActivity opts) = get_request [''activity'']
     (set_number ''limit'' (yo_limit opts) (set_number ''since_ns'' (yo_since opts)
       (set_text ''session'' (yo_session opts) (set_text ''process'' (yo_process opts) []))))"
| "client_request (CallClassifications opts) = get_request [''classifications'']
     (set_flag ''latest'' (po_latest opts) (set_number ''limit'' (po_limit opts) (set_number ''since_ns'' (po_since opts)
       (set_text ''state'' (po_state opts) (set_text ''session'' (po_session opts) (set_text ''process'' (po_process opts) []))))))"
| "client_request (CallCleanupPreview p q) = post_request [''cleanup'', ''preview''] [(''policy_id'', p), (''proc_uid'', q)]"
| "client_request (CallCleanupApply a) = post_request [''cleanup'', ''apply''] [(''approval'', a)]"
| "client_request (CallCacheArtifacts l c) = cache_artifacts_request l c"
| "client_request (CallCacheArtifact i) = get_request [''cache'', ''artifacts'', i] []"
| "client_request CallCacheCandidates = get_request [''cache'', ''candidates''] []"
| "client_request CallCacheQuarantines = get_request [''cache'', ''quarantined''] []"
| "client_request (CallCacheActions i k r n) = cache_actions_request i k r n"
| "client_request (CallCachePreview l i p) = cache_preview_request l i p"
| "client_request (CallCacheApply l a c) = cache_apply_request l a c"
| "client_request (CallCachePurgeComplete i c e) = cache_complete_request i c e"
| "client_request (CallWorktrees st src n) = worktrees_request st src n"
| "client_request (CallWorktree i) = get_request [''worktrees'', i] []"
| "client_request (CallWorktreeActions i r n) = worktree_actions_request i r n"
| "client_request (CallWorktreePreview l i) = worktree_preview_request l i"
| "client_request (CallWorktreeApply l a c) = worktree_apply_request l a c"
| "client_request (CallWorktreePurgeComplete i c e) = worktree_complete_request i c e"

text \<open>
  What arrives as it was asked: no negative limits or times (the client leaves those out, and the server
  reads zero), identifiers in a path that are no empty or dot segment, and texts in a body that are valid
  UTF-8 (\<open>Marshal\<close> replaces other bytes).
\<close>

definition segment_ok :: "string \<Rightarrow> bool" where
  "segment_ok i \<longleftrightarrow> i \<noteq> [] \<and> i \<noteq> ''.'' \<and> i \<noteq> ''..''"

definition limit_ok :: "int \<Rightarrow> bool" where
  "limit_ok n \<longleftrightarrow> 0 \<le> n \<and> in_int64 n"

fun sayable :: "backend_call \<Rightarrow> bool" where
  "sayable (CallSessions opts) = limit_ok (lo_limit opts)"
| "sayable (CallProcesses opts) = limit_ok (lo_limit opts)"
| "sayable (CallSession i) = segment_ok i"
| "sayable (CallExplain pid) = in_int64 pid"
| "sayable (CallActions opts) = limit_ok (no_limit opts)"
| "sayable (CallLogs opts) = (limit_ok (go_limit opts) \<and> limit_ok (go_since opts) \<and> pred_option limit_ok (go_after opts))"
| "sayable (CallActivity opts) = (limit_ok (yo_limit opts) \<and> limit_ok (yo_since opts))"
| "sayable (CallClassifications opts) = (limit_ok (po_limit opts) \<and> limit_ok (po_since opts))"
| "sayable (CallCacheArtifact i) = segment_ok i"
| "sayable (CallCacheActions i k r n) = limit_ok n"
| "sayable (CallWorktrees st src n) = limit_ok n"
| "sayable (CallWorktree i) = segment_ok i"
| "sayable (CallWorktreeActions i r n) = limit_ok n"
| "sayable c = True"

fun body_texts :: "backend_call \<Rightarrow> string list" where
  "body_texts (CallCleanupPreview p q) = [p, q]"
| "body_texts (CallCleanupApply a) = [a]"
| "body_texts (CallCachePreview l i p) = [i, p]"
| "body_texts (CallCacheApply l a c) = [a, c]"
| "body_texts (CallCachePurgeComplete i c e) = [i, c, e]"
| "body_texts (CallWorktreePreview l i) = [i]"
| "body_texts (CallWorktreeApply l a c) = [a, c]"
| "body_texts (CallWorktreePurgeComplete i c e) = [i, c, e]"
| "body_texts c = []"

lemma query_get_simps [simp]:
  "query_get [] k = []"
  "query_get ((j, v) # q) k = (if k = j then v else query_get q k)"
  "query_get (AList.update j v q) k = (if k = j then v else query_get q k)"
  "k \<noteq> j \<Longrightarrow> query_get (set_text j v q) k = query_get q k"
  "k \<noteq> j \<Longrightarrow> query_get (set_number j n q) k = query_get q k"
  "k \<noteq> j \<Longrightarrow> query_get (set_flag j b q) k = query_get q k"
  "query_get q k = [] \<Longrightarrow> query_get (set_text k v q) k = v"
  "query_get q k = [] \<Longrightarrow> query_get (set_flag k b q) k = ''true'' \<longleftrightarrow> b"
  by (simp_all add: query_get_def set_text_def set_number_def set_flag_def update_conv')

lemma query_has_simps [simp]:
  "\<not> query_has [] k"
  "query_has (AList.update j v q) k \<longleftrightarrow> k = j \<or> query_has q k"
  "query_has (set_text j v q) k \<longleftrightarrow> k = j \<and> v \<noteq> [] \<or> query_has q k"
  "query_has (set_number j n q) k \<longleftrightarrow> k = j \<and> 0 < n \<or> query_has q k"
  "query_has (set_flag j b q) k \<longleftrightarrow> k = j \<and> b \<or> query_has q k"
  by (auto simp: query_has_def set_text_def set_number_def set_flag_def update_conv')

lemma number_shown [simp]: "in_int64 n \<Longrightarrow> number_or_zero (show_int n) = n"
  by (simp add: number_or_zero_def parse_show_int)

lemma number_empty [simp]: "number_or_zero [] = 0"
  by (simp add: number_or_zero_def parse_int64_def)

lemma limit_back [simp]: "limit_ok n \<Longrightarrow> query_get q k = [] \<Longrightarrow> number_or_zero (query_get (set_number k n q) k) = n"
  by (simp add: limit_ok_def set_number_def)

lemma limit_parsed [simp]: "limit_ok n \<Longrightarrow> parse_int64 (show_int n) = Some n" "limit_ok n \<Longrightarrow> \<not> n < 0"
  by (simp_all add: limit_ok_def parse_show_int)

lemma list_options_back: "limit_ok (lo_limit opts) \<Longrightarrow> list_options_of (list_query opts) = opts"
  by (cases opts) (simp add: list_options_of_def list_query_def split del: if_split)

lemma lanes_back [simp]: "cache_lane (lane_name l) = Some l" "worktree_lane (worktree_lane_name l) = Some l"
  by (cases l; simp add: cache_lane_def worktree_lane_def)+

text \<open>The keys of the structs are plain letters.\<close>

lemma valid_keys [simp]:
  "valid_utf8 ''policy_id''" "valid_utf8 ''proc_uid''" "valid_utf8 ''approval''" "valid_utf8 ''confirmation''"
  "valid_utf8 ''artifact_id''" "valid_utf8 ''worktree_id''" "valid_utf8 ''action_id''" "valid_utf8 ''completion''"
  "valid_utf8 ''execution_error''"
  by code_simp+

lemma decode_strings:
  assumes "list_all (\<lambda>(k, v). List.member known k) fs"
  shows "decode_fields known (List.map (\<lambda>(k, v). (k, JString v)) fs) acc = Some (fold (\<lambda>(k, v). AList.update k v) fs acc)"
  using assms by (induction fs arbitrary: acc) auto

text \<open>A body of known keys and valid texts within the bound is decoded to what was written.\<close>

lemma posted_body:
  assumes "list_all (\<lambda>(k, v). valid_utf8 k \<and> valid_utf8 v) fs" "list_all (\<lambda>(k, v). List.member known k) fs"
    and "rq_size (post_request path fs) \<le> max_body"
  shows "with_body known (post_request path fs) f = Inr (f (query_get (fold (\<lambda>(k, v). AList.update k v) fs [])))"
  using assms(3)
  by (simp add: with_body_def decode_request_def post_request_def read_write_object [OF assms(1)] string_object_def
      decode_strings [OF assms(2)] Let_def)

lemma optional_all [simp]:
  "list_all P (optional_field k v) \<longleftrightarrow> v = [] \<or> P (k, v)"
  "fold (\<lambda>(k, v). AList.update k v) (optional_field k v) acc = (if v = [] then acc else AList.update k v acc)"
  by (simp_all add: optional_field_def)

lemma optional_back [simp]: "k \<noteq> j \<Longrightarrow> query_get (if v = [] then q else AList.update j v q) k = query_get q k"
  "query_get q k = [] \<Longrightarrow> query_get (if v = [] then q else AList.update k v q) k = v"
  by simp_all

lemma posted_fields [simp]:
  "rq_path (post_request path fs) = api_version # path" "rq_method (post_request path fs) = ''POST''"
  by (simp_all add: post_request_def Let_def)

lemma route_posted:
  "post_route (post_request path fs) path = Some (Inr c) \<Longrightarrow> \<not> unclean_path (api_version # path) \<Longrightarrow>
   route (post_request path fs) = Inr c"
  by (simp add: route_def)

lemma lane_names_clean [simp]:
  "lane_name l \<noteq> ''.''" "lane_name l \<noteq> ''..''" "lane_name l \<noteq> []" "[] \<noteq> lane_name l"
  "worktree_lane_name l \<noteq> ''.''" "worktree_lane_name l \<noteq> ''..''" "worktree_lane_name l \<noteq> []" "[] \<noteq> worktree_lane_name l"
  by (cases l; simp)+

lemmas request_defs = get_request_def cache_artifacts_request_def cache_actions_request_def worktrees_request_def
  worktree_actions_request_def cache_preview_request_def cache_apply_request_def cache_complete_request_def
  worktree_preview_request_def worktree_apply_request_def worktree_complete_request_def

lemmas route_defs = get_route_def or_route_def server_get_def cache_get_def worktree_get_def
  post_route_def server_post_def cache_post_def worktree_post_def

lemmas clean_simps = unclean_path_def api_version_def segment_ok_def

text \<open>C23: What the client asks is what the server runs. A call whose limits and times are not negative, whose
  identifiers in the path are no empty and no dot segment, whose texts in the body are valid UTF-8, and whose JSON
  body is at most 64 KiB long, is routed back to the same call with the same options: every identifier and approval,
  escaped into the JSON text of the body and read from it again, arrives unchanged.\<close>

theorem client_server_roundtrip:
  assumes "sayable c" and "list_all valid_utf8 (body_texts c)" and "rq_size (client_request c) \<le> max_body"
  shows "route (client_request c) = Inr c"
proof (cases c)
  case (CallLogs opts)
  with assms(1) show ?thesis
    by (cases opts; cases "go_after opts")
      (auto simp: route_def clean_simps request_defs route_defs logs_call_def parse_show_int)
next
  case (CallExplain pid)
  with assms(1) show ?thesis
    by (simp add: route_def clean_simps request_defs route_defs explain_call_def query_get_def parse_show_int)
next
  case (CallCleanupPreview p q)
  with assms show ?thesis
    by (simp add: route_posted clean_simps request_defs route_defs posted_body split del: if_split)
next
  case (CallCleanupApply a)
  with assms show ?thesis
    by (simp add: route_posted clean_simps request_defs route_defs posted_body split del: if_split)
next
  case (CallCachePreview l i p)
  with assms show ?thesis
    by (simp add: route_posted clean_simps request_defs route_defs posted_body split del: if_split)
next
  case (CallCacheApply l a c)
  with assms show ?thesis
    by (simp add: route_posted clean_simps request_defs route_defs posted_body split del: if_split)
next
  case (CallCachePurgeComplete i c e)
  with assms show ?thesis
    by (simp add: route_posted clean_simps request_defs route_defs posted_body cache_lane_def complete_fields_def split del: if_split)
next
  case (CallWorktreePreview l i)
  with assms show ?thesis
    by (simp add: route_posted clean_simps request_defs route_defs posted_body split del: if_split)
next
  case (CallWorktreeApply l a c)
  with assms show ?thesis
    by (simp add: route_posted clean_simps request_defs route_defs posted_body split del: if_split)
next
  case (CallWorktreePurgeComplete i c e)
  with assms show ?thesis
    by (simp add: route_posted clean_simps request_defs route_defs posted_body worktree_lane_def complete_fields_def split del: if_split)
qed (use assms in \<open>simp_all add: route_def clean_simps request_defs route_defs list_options_back
      split del: if_split\<close>)

theorem client_server_roundtrip_witness:
  "sayable (CallCleanupApply [CHR 0x22, CHR 0x0A, CHR 0xC3, CHR 0xA9]) \<and>
   route (client_request (CallCleanupApply [CHR 0x22, CHR 0x0A, CHR 0xC3, CHR 0xA9])) =
     Inr (CallCleanupApply [CHR 0x22, CHR 0x0A, CHR 0xC3, CHR 0xA9])"
proof -
  have "list_all valid_utf8 (body_texts (CallCleanupApply [CHR 0x22, CHR 0x0A, CHR 0xC3, CHR 0xA9]))" by code_simp
  moreover have "rq_size (client_request (CallCleanupApply [CHR 0x22, CHR 0x0A, CHR 0xC3, CHR 0xA9])) = 21"
    by code_simp
  ultimately show ?thesis
    using client_server_roundtrip [of "CallCleanupApply [CHR 0x22, CHR 0x0A, CHR 0xC3, CHR 0xA9]"] by (simp add: max_body_def)
qed

lemma with_body_one:
  assumes "with_body known r f = Inr c"
  shows "rq_size r \<le> max_body \<and> rq_clean r \<and> (\<exists>v. rq_values r = [v])"
  using assms unfolding with_body_def decode_request_def
  by (auto split: list.splits option.splits if_splits sum.splits)

lemma got_is_read: "get_route q path = Some (Inr c) \<Longrightarrow> \<not> authority_call c"
  by (auto simp: route_defs explain_call_def logs_call_def Let_def split: list.splits if_splits option.splits)

lemma posted_has_one_body:
  assumes "post_route r path = Some (Inr c)"
  shows "rq_size r \<le> max_body \<and> rq_clean r \<and> (\<exists>v. rq_values r = [v])"
  using assms unfolding request_defs route_defs
  by (auto dest!: with_body_one split: list.splits if_splits option.splits)

text \<open>C22: No authority is issued or spent by a request that only reads: a preview, an apply or a completion is
  reached only by a POST whose body is exactly one JSON value of at most 64 KiB with nothing after it.\<close>

theorem authority_needs_one_bounded_post:
  assumes "route r = Inr c" and "authority_call c"
  shows "rq_method r = ''POST'' \<and> rq_size r \<le> max_body \<and> rq_clean r \<and> (\<exists>v. rq_values r = [v])"
proof -
  from assms(1) obtain path where
    "(if rq_method r = ''GET'' \<or> rq_method r = ''HEAD'' then get_route (rq_query r) path
      else if rq_method r = ''POST'' then post_route r path else None) = Some (Inr c)"
    by (auto simp: route_def split: list.splits option.splits if_splits)
  with assms(2) got_is_read posted_has_one_body show ?thesis
    by (auto split: if_splits)
qed

theorem authority_needs_one_bounded_post_witness:
  "rq_method (client_request (CallCleanupApply ''a'')) = ''POST''"
proof -
  have "valid_utf8 ''a''" by code_simp
  moreover have "rq_size (client_request (CallCleanupApply ''a'')) = 16" by code_simp
  ultimately have "route (client_request (CallCleanupApply ''a'')) = Inr (CallCleanupApply ''a'')"
    by (simp add: route_posted clean_simps request_defs route_defs posted_body max_body_def)
  from authority_needs_one_bounded_post [OF this] show ?thesis
    by simp
qed

end
