(* ===== verification/Api_Socket.thy ===== *)
theory Api_Socket
  imports GG_Prelude
begin

text \<open>
  The start of the server on its socket and its end (\<open>Listen\<close> and \<open>Serve\<close> in
  \<open>internal/api/server.go\<close>). The state is what the system keeps: the socket file the path names,
  by its inode, the inodes a listener accepts on, and the daemons whose \<open>Serve\<close> has closed its
  listener and not yet returned. \<open>listen_step\<close> is one system call of
  \<open>Listen\<close>; a run without another daemon in between is \<open>listen\<close>, two daemons starting at once
  interleave their steps.
\<close>

section \<open>Steps\<close>

record socket_world =
  sk_path :: "nat option"
  sk_live :: "nat list"
  sk_next :: nat
  sk_closing :: "nat list"

text \<open>What the system answers: the directory, a live listener within the timeout, unlink, bind, chmod.\<close>

record socket_os =
  so_directory :: bool
  so_answers :: bool
  so_remove :: bool
  so_bind :: bool
  so_chmod :: bool

datatype listen_error =
  SocketPathTooLong | SocketDirectoryFailed | AlreadyRunning | StaleSocketKept | BindFailed | SecureFailed

datatype listen_state = AtStart | AtDial | AtRemove | AtBind | AtSecure nat | Listening nat | ListenFailed listen_error

definition max_socket_path :: nat where "max_socket_path = 100"

text \<open>Closing a listener stops its accepting and unlinks whatever the path names.\<close>

definition close_listener :: "nat \<Rightarrow> socket_world \<Rightarrow> socket_world" where
  "close_listener i w = w\<lparr>sk_live := removeAll i (sk_live w), sk_path := None\<rparr>"

fun listen_step :: "socket_os \<Rightarrow> nat \<Rightarrow> listen_state \<times> socket_world \<Rightarrow> listen_state \<times> socket_world" where
  "listen_step os n (AtStart, w) =
     (if max_socket_path < n then (ListenFailed SocketPathTooLong, w)
      else if \<not> so_directory os then (ListenFailed SocketDirectoryFailed, w)
      else if sk_path w = None then (AtBind, w) else (AtDial, w))"
| "listen_step os n (AtDial, w) =
     (case sk_path w of
        None \<Rightarrow> (AtRemove, w)
      | Some i \<Rightarrow> if i \<in> set (sk_live w) \<and> so_answers os then (ListenFailed AlreadyRunning, w) else (AtRemove, w))"
| "listen_step os n (AtRemove, w) =
     (if sk_path w = None \<or> \<not> so_remove os then (ListenFailed StaleSocketKept, w) else (AtBind, w\<lparr>sk_path := None\<rparr>))"
| "listen_step os n (AtBind, w) =
     (if sk_path w \<noteq> None \<or> \<not> so_bind os then (ListenFailed BindFailed, w)
      else (AtSecure (sk_next w), w\<lparr>sk_path := Some (sk_next w), sk_live := sk_next w # sk_live w, sk_next := Suc (sk_next w)\<rparr>))"
| "listen_step os n (AtSecure i, w) =
     (if sk_path w = None \<or> \<not> so_chmod os then (ListenFailed SecureFailed, close_listener i w) else (Listening i, w))"
| "listen_step os n (Listening i, w) = (Listening i, w)"
| "listen_step os n (ListenFailed e, w) = (ListenFailed e, w)"

text \<open>There are at most five calls.\<close>

definition listen :: "socket_os \<Rightarrow> nat \<Rightarrow> socket_world \<Rightarrow> listen_state \<times> socket_world" where
  "listen os n w = (listen_step os n ^^ 5) (AtStart, w)"

text \<open>
  The end of \<open>Serve\<close> takes two steps: \<open>Shutdown\<close> closes the listener, which unlinks the path, and
  waits for the connections in use, five seconds at most; then the path is removed once more,
  whatever it names by then.
\<close>

definition begin_stop :: "nat \<Rightarrow> socket_world \<Rightarrow> socket_world" where
  "begin_stop i w = (close_listener i w)\<lparr>sk_closing := i # sk_closing w\<rparr>"

definition end_stop :: "nat \<Rightarrow> socket_world \<Rightarrow> socket_world" where
  "end_stop i w = w\<lparr>sk_path := None, sk_closing := removeAll i (sk_closing w)\<rparr>"

section \<open>One start at a time\<close>

fun listen_done :: "listen_state \<Rightarrow> bool" where
  "listen_done (Listening i) = True"
| "listen_done (ListenFailed e) = True"
| "listen_done p = False"

lemma listen_unfold:
  "listen os n w = listen_step os n (listen_step os n (listen_step os n (listen_step os n (listen_step os n (AtStart, w)))))"
  by (simp add: listen_def eval_nat_numeral)

lemma listen_returns: "listen_done (fst (listen os n w))"
  by (simp add: listen_unfold split: option.splits)

lemma listen_live_socket:
  "n \<le> max_socket_path \<Longrightarrow> so_directory os \<Longrightarrow> so_answers os \<Longrightarrow> sk_path w = Some i \<Longrightarrow> i \<in> set (sk_live w) \<Longrightarrow>
   listen os n w = (ListenFailed AlreadyRunning, w)"
  by (simp add: listen_unfold)

lemma listen_stale_socket:
  "n \<le> max_socket_path \<Longrightarrow> so_directory os \<Longrightarrow> so_remove os \<Longrightarrow> so_bind os \<Longrightarrow> so_chmod os \<Longrightarrow>
   sk_path w = Some i \<Longrightarrow> i \<notin> set (sk_live w) \<Longrightarrow>
   listen os n w = (Listening (sk_next w), w\<lparr>sk_path := Some (sk_next w), sk_live := sk_next w # sk_live w, sk_next := Suc (sk_next w)\<rparr>)"
  by (simp add: listen_unfold)

text \<open>
  A history of daemons: one starts at a time, and only when no \<open>Serve\<close> is on its way out; a running
  one stops in the two steps, or dies at any moment and leaves its file behind. Listeners answer.
\<close>

inductive socket_history :: "socket_world \<Rightarrow> bool" where
  fresh_socket: "socket_history \<lparr>sk_path = None, sk_live = [], sk_next = n, sk_closing = []\<rparr>"
| daemon_starts: "socket_history w \<Longrightarrow> sk_closing w = [] \<Longrightarrow> so_answers os \<Longrightarrow> socket_history (snd (listen os n w))"
| stop_begins: "socket_history w \<Longrightarrow> i \<in> set (sk_live w) \<Longrightarrow> socket_history (begin_stop i w)"
| stop_ends: "socket_history w \<Longrightarrow> i \<in> set (sk_closing w) \<Longrightarrow> socket_history (end_stop i w)"
| daemon_dies: "socket_history w \<Longrightarrow>
    socket_history (w\<lparr>sk_live := removeAll i (sk_live w), sk_closing := removeAll i (sk_closing w)\<rparr>)"

definition one_owner :: "socket_world \<Rightarrow> bool" where
  "one_owner w \<longleftrightarrow> (sk_live w = [] \<or> (\<exists>i. sk_live w = [i] \<and> sk_path w = Some i \<and> sk_closing w = []))"

lemma listen_closing [simp]: "sk_closing (snd (listen os n w)) = sk_closing w"
  by (auto simp: listen_unfold close_listener_def split: option.splits)

lemma listen_keeps_owner:
  assumes "one_owner w" and "sk_closing w = []" and "so_answers os"
  shows "one_owner (snd (listen os n w))"
  using assms by (auto simp: one_owner_def listen_unfold close_listener_def split: option.splits)

lemma listen_beside_owner:
  "so_answers os \<Longrightarrow> sk_path w = Some i \<Longrightarrow> i \<in> set (sk_live w) \<Longrightarrow> snd (listen os n w) = w"
  by (simp add: listen_unfold)

text \<open>C24: As long as a daemon starts only when every earlier one has died or its \<open>Serve\<close> has returned, and no
  two run \<open>Listen\<close> at once, at most one of them serves and the socket path leads to it, whatever crashed or stopped
  before; and a start beside a daemon that serves and answers changes nothing.\<close>

theorem one_daemon_owns_the_socket:
  assumes "socket_history w"
  shows "length (sk_live w) \<le> 1 \<and> (\<forall>i \<in> set (sk_live w). sk_path w = Some i) \<and>
    (sk_live w \<noteq> [] \<longrightarrow> so_answers os \<longrightarrow> snd (listen os n w) = w)"
proof -
  from assms have "one_owner w"
    by (induction rule: socket_history.induct)
      (auto simp: listen_keeps_owner, auto simp: one_owner_def begin_stop_def end_stop_def close_listener_def split: if_splits)
  then show ?thesis
    using listen_beside_owner [of os w _ n] by (auto simp: one_owner_def)
qed

definition sample_socket_os :: socket_os where
  "sample_socket_os = \<lparr>so_directory = True, so_answers = True, so_remove = True, so_bind = True, so_chmod = True\<rparr>"

theorem one_daemon_owns_the_socket_witness:
  "sk_path (snd (listen sample_socket_os 20 \<lparr>sk_path = None, sk_live = [], sk_next = 3, sk_closing = []\<rparr>)) = Some 3"
proof -
  let ?w = "snd (listen sample_socket_os 20 \<lparr>sk_path = None, sk_live = [], sk_next = 3, sk_closing = []\<rparr>)"
  have "socket_history ?w"
    by (intro daemon_starts fresh_socket) (simp_all add: sample_socket_os_def)
  moreover have "3 \<in> set (sk_live ?w)"
    by (simp add: listen_unfold sample_socket_os_def max_socket_path_def)
  ultimately show ?thesis
    using one_daemon_owns_the_socket [of ?w] by simp
qed

section \<open>Two starts at once\<close>

definition step_first :: "socket_os \<Rightarrow> nat \<Rightarrow> listen_state \<times> listen_state \<times> socket_world \<Rightarrow> listen_state \<times> listen_state \<times> socket_world" where
  "step_first os n c = (case c of (p, q, w) \<Rightarrow> (case listen_step os n (p, w) of (p', w') \<Rightarrow> (p', q, w')))"

definition step_second :: "socket_os \<Rightarrow> nat \<Rightarrow> listen_state \<times> listen_state \<times> socket_world \<Rightarrow> listen_state \<times> listen_state \<times> socket_world" where
  "step_second os n c = (case c of (p, q, w) \<Rightarrow> (case listen_step os n (q, w) of (q', w') \<Rightarrow> (p, q', w')))"

primrec run_schedule :: "socket_os \<Rightarrow> nat \<Rightarrow> bool list \<Rightarrow> listen_state \<times> listen_state \<times> socket_world \<Rightarrow> listen_state \<times> listen_state \<times> socket_world" where
  "run_schedule os n [] c = c"
| "run_schedule os n (b # bs) c = run_schedule os n bs (if b then step_first os n c else step_second os n c)"

text \<open>
  The check and the removal are two calls: over a stale file, both daemons can find nobody
  answering, and the second then unlinks the socket the first has just bound. Both end up
  listening, the first on a socket no path leads to.
\<close>

lemma interleaved_starts_both_listen:
  "run_schedule sample_socket_os 20 [True, True, False, False, True, True, True, False, False, False]
     (AtStart, AtStart, \<lparr>sk_path = Some 0, sk_live = [], sk_next = 1, sk_closing = []\<rparr>)
   = (Listening 1, Listening 2, \<lparr>sk_path = Some 2, sk_live = [2, 1], sk_next = 3, sk_closing = []\<rparr>)"
  by (simp add: step_first_def step_second_def sample_socket_os_def max_socket_path_def)

section \<open>A start during a stop\<close>

text \<open>
  While a stopping daemon waits for its connections, a second one starts on the free path; the
  first one's last call then removes the second one's socket, and a third daemon starts beside it.
\<close>

lemma start_during_stop_loses_socket:
  "let w1 = begin_stop 1 \<lparr>sk_path = Some 1, sk_live = [1], sk_next = 2, sk_closing = []\<rparr>;
       (p2, w2) = listen sample_socket_os 20 w1;
       w3 = end_stop 1 w2;
       (p4, w4) = listen sample_socket_os 20 w3 in
   p2 = Listening 2 \<and> sk_live w3 = [2] \<and> sk_path w3 = None \<and>
   p4 = Listening 3 \<and> sk_live w4 = [3, 2] \<and> sk_path w4 = Some 3"
  by (simp add: listen_unfold begin_stop_def end_stop_def close_listener_def sample_socket_os_def max_socket_path_def Let_def)

end
