(* ===== verification/Spec2Isabelle.thy ===== *)
theory Spec2Isabelle
  imports Scan_Laws Cache_Laws Worktree_Safety Ownership_Laws Service_Log
    Darwin_Usage Worktree_Finalizer Git_Snapshot Local_Api Api_Socket
begin

text \<open>
  A model of ghostgc, a local daemon that watches the processes, caches and Git worktrees of
  coding agents, decides which of them are abandoned, and removes only what its policies, its
  configuration and the operator allow. All sources named here are under \<open>src/internal/\<close>.

  \<^bold>\<open>How the program works.\<close> An observation cycle takes a snapshot of the process table
  (\<open>platform\<close>), links parents and children (\<open>process\<close>), lets adapters detect agents (\<open>adapters\<close>),
  reconciles sessions with what earlier cycles knew (\<open>sessions\<close>), samples and classifies activity
  (\<open>classification\<close>), evaluates policies under hard protections (\<open>policy\<close>, \<open>protection\<close>), and commits
  everything in one transaction (\<open>storage\<close>) before the daemon's memory changes (\<open>daemon\<close>). Three
  lanes act on the result, each with a preview that issues a short-lived approval, an application
  that spends it, a second validation against fresh observations, and a journal row before the
  effect: signals to processes, quarantine and purge of caches (\<open>cachefs\<close>), and retirement of
  worktrees (\<open>worktree\<close>). A socket (\<open>api\<close>) carries the operator's requests.

  \<^bold>\<open>Theories and sources.\<close>

  \<^item> \<open>GG_Prelude\<close>, \<open>Paths\<close>, \<open>Path_Laws\<close>, \<open>Json_Text\<close>: Go's time, string and path functions, decimal
    integers, runes, the JSON text of a struct of strings, chains of guards, and the lemmas on them
    that the components share.
  \<^item> \<open>Process_Model\<close>, \<open>Process_Tree\<close>, \<open>Redaction\<close>, \<open>Activity\<close> (\<open>process/\<close>): keys and snapshots; believed
    parent links and the walks over them; what of a command line may be stored; what a process
    did between two samples.
  \<^item> \<open>Darwin\<close>, \<open>Darwin_Usage\<close> (\<open>platform/darwin/\<close>): the process table, the decoding of the kernel's
    argument buffer, descriptors, and which processes hold a path.
  \<^item> \<open>Classification\<close>, \<open>Adapters\<close>, \<open>Protection\<close>, \<open>Policy\<close> (the packages of these names): the classifier over
    a history of samples, the adapter contract, the hard protections, the policy engine.
  \<^item> \<open>Codex\<close>, \<open>Codex_Rollout\<close>, \<open>Codex_Laws\<close> (\<open>adapters/codex/\<close>): detection of Codex programs and of the
    task sessions one program hosts; \<open>Ownership_Laws\<close> joins it with the sessions. \<open>Repository\<close> (\<open>repository/\<close>): the repository finder.
  \<^item> \<open>Config\<close>, \<open>Startup\<close> (\<open>config/\<close>): the configuration, its validation, the start-up ceilings.
  \<^item> \<open>Session_Model\<close>, \<open>Sessions\<close>, \<open>Session_Laws\<close> (\<open>sessions/\<close>): reconciliation and its state, the reconciler.
  \<^item> \<open>Store\<close>, \<open>Retention\<close>, \<open>Cache_Store\<close>, \<open>Worktree_Store\<close> (\<open>storage/\<close>): every modelled SQL statement as a function
    on lists of rows, a transaction as a function that fails or yields the new tables.
  \<^item> \<open>Actions\<close>, \<open>Action_Laws\<close>, \<open>Lane_Runs\<close> (\<open>daemon/\<close>: \<open>approval.go\<close>, \<open>action.go\<close>, \<open>action_revalidation.go\<close>,
    \<open>automatic.go\<close>, \<open>backend_policy.go\<close>; \<open>platform/darwin/signal.go\<close>): the process lane.
  \<^item> \<open>Scan\<close>, \<open>Scan_Laws\<close> (\<open>daemon/\<close>: \<open>scan.go\<close>, \<open>activity.go\<close>, \<open>classification.go\<close>, \<open>policy.go\<close>): the cycle.
  \<^item> \<open>Cache_Model\<close>, \<open>Cache_FS\<close>, \<open>Cache_Posix\<close>, \<open>Cache_Lane\<close>, \<open>Cache_Laws\<close> (\<open>cacheartifact/\<close>, \<open>cachepolicy/\<close>,
    \<open>cacheprovider/\<close>, \<open>cachefs/\<close>, \<open>daemon/cache_*.go\<close>): the cache lane.
  \<^item> \<open>Worktree_Parse\<close>, \<open>Worktree_Git\<close>, \<open>Git_Snapshot\<close>, \<open>Worktree_Files\<close>, \<open>Worktree_State\<close>, \<open>Worktree_Finalizer\<close>
    (\<open>worktree/\<close>), \<open>Worktree_Scan\<close>, \<open>Worktree_Lane\<close>, \<open>Worktree_Laws\<close>, \<open>Worktree_Safety\<close>, \<open>Worktree_Sample\<close>
    (\<open>daemon/worktree_*.go\<close>): inspection by Git, the inactivity state machine, and the worktree lane.
  \<^item> \<open>Service_Log\<close> (\<open>servicelog/\<close>), \<open>Local_Api\<close>, \<open>Api_Socket\<close> (\<open>api/\<close>): the bounded log, routing and decoding
    of requests beside the client that makes them, and the start and the end on the socket.

  \<^bold>\<open>State and effects.\<close> The daemon's memory is the record \<open>daemon\<close>, the database the record \<open>store\<close>; a
  lane's world joins them with the list of effects that left the daemon, in order. What one request
  hears from clock, random source, kernel, file system, Git or database is a record of answers
  (\<open>surroundings\<close>, \<open>cache_env\<close>, \<open>host\<close>, \<open>darwin_kernel\<close>, \<open>log_os\<close>, \<open>git_setup\<close>, \<open>finalizer_os\<close>, \<open>socket_os\<close>), so
  every call may fail in every theorem; hashing, stored JSON, YAML and URL parsing are records of functions.
  Errors are values of sums, one constructor or text per error return. Counters of the machine stay
  words (\<open>uint64\<close>, \<open>uint32\<close>); Go's \<open>int\<close> and \<open>time.Duration\<close> are integers with the wrap or the clamp written
  out where the code depends on it. A Go map is an association list or a function; where iteration
  order is visible the model says which order it takes.

  \<^bold>\<open>Interfaces.\<close> \<open>cache_filesystem\<close> is the contract of the file system under the cache lane, interpreted on
  the in-memory one (\<open>fake\<close>) and on the descriptor-anchored one (\<open>real\<close>). \<open>bounded_memo\<close> is the contract of
  the repository finder's tables, \<open>parent_forest\<close> that of process trees. \<open>step_invariant\<close>, \<open>moving_lane\<close>
  and its extension \<open>signalling_lane\<close> carry what one request guarantees along whole runs; they are
  interpreted on the steps of the three lanes and of the daemon.

  \<^bold>\<open>What the lemmas show.\<close>

  \<^item> Authority: a signal passes every gate and is journaled first; an approval is spent at most once; the
    start-up mode bounds the lane over all runs; a failed scan withdraws earlier candidates; every
    recorded candidate is justified by the facts of its scan; the daemon's runs are runs of the lane.
  \<^item> Caches: a quarantine rests on fresh exclusive ownership, quarantine and restore are inverse on the
    descriptor-anchored file system, an ambiguous purge stops the lane, every move is journaled.
  \<^item> Worktrees: a retirement rests on a fresh validation, a removal is recorded only when the checkout is
    absent, authorities are bounded in number, Git's listings are read back exactly, the private Git
    is pinned to the digest that was read, a failed finalisation puts every approved link back; an open
    circuit stops everything in the lane but the application of a retirement approved before.
  \<^item> Observation: the state of a session is a function of the cycle's event and the state before;
    ownership survives re-parenting with the shipped adapter; decisions never dangle; strong
    conclusions need a window of samples; descendants are the inverse of ancestors; the kernel's
    argument buffer is decoded to what was encoded; path usage is reported exactly or not at all.
  \<^item> Interface: the client's calls arrive at the backend unchanged, through the JSON text of their bodies;
    authority needs one bounded POST; one daemon at a time owns the socket when each starts only after
    the earlier ones have died or returned from \<open>Serve\<close> (\<open>start_during_stop_loses_socket\<close> and
    \<open>interleaved_starts_both_listen\<close> show what happens otherwise).

  \<^bold>\<open>Bounds and termination.\<close> Walks carry the code's own bounds (tree depth 128, repository depth, rollout
  reads, descriptor counts), so no fuel is added to them. Loops that end only because the system
  answers are \<open>partial_function\<close>: \<open>write_all\<close> returns whatever the system answers, since every answer takes
  a byte or fails, and \<open>access_loop\<close> for every path (\<open>git_setup_returns\<close>). \<open>listen\<close> is five
  steps because \<open>Listen\<close> makes at most five calls (\<open>listen_returns\<close>).

  \<^bold>\<open>Not modelled.\<close> The command line and its rendering (\<open>src/cmd/cli\<close>: flag parsing and terminal output);
  the service manager commands of \<open>platform/darwin/service.go\<close>; the Linux collector, which only
  returns an error; HTTP transport, and JSON beyond objects of strings; the statements of the schema and
  its migrations, which SQLite executes, and the read-only listings for status pages; goroutines, tickers and
  cancellation (one request or cycle runs at a time, which the daemon's mutexes enforce for the
  lanes); counters, log lines and diagnostic texts of \<open>doctor\<close> and \<open>explain\<close>; other programs changing a
  directory tree between two system calls of one cache operation.
\<close>

end
